(* ===== verification/Prelude.thy ===== *)
theory Prelude
  imports Main
begin

text \<open>
  Shared vocabulary of the development: instants, Python strings, database tables as lists of
  rows, and three interface locales the components instantiate:
  \<^item> \<open>keyed_table\<close>: a table of the database, read by primary key and rewritten row by row;
  \<^item> \<open>expirable\<close>: rows with a status and a deadline that a service lazily moves to
    \<open>expired\<close> the first time it reads them after the deadline;
  \<^item> \<open>lifecycle\<close>: a status machine with absorbing states.
\<close>

section \<open>Instants and identifiers\<close>

text \<open>
  A \<open>datetime\<close> of the program is an aware UTC instant; it is counted in microseconds, the
  resolution of Python's type. \<open>normalize_utc\<close> is the identity on such instants.
\<close>

type_synonym time = int

definition seconds :: "int \<Rightarrow> time" where
  "seconds n = n * 1000000"

lemma seconds_pos [simp]: "0 < seconds n \<longleftrightarrow> 0 < n"
  by (simp add: seconds_def)

lemma seconds_mono [simp]: "seconds m \<le> seconds n \<longleftrightarrow> m \<le> n"
  by (simp add: seconds_def)

text \<open>Identifiers (primary keys, principals, digests) are strings; only equality matters.\<close>

type_synonym ident = string

named_theorems table_simps \<open>reading rows after a table was rewritten\<close>
named_theorems status_defs \<open>definitions of the status predicates of the rows\<close>

section \<open>Python strings\<close>

text \<open>\<open>str.split(sep)\<close> for a one-character separator.\<close>

fun split_on :: "char \<Rightarrow> string \<Rightarrow> string list" where
  "split_on c [] = [[]]"
| "split_on c (x # xs) =
     (if x = c then [] # split_on c xs
      else (case split_on c xs of [] \<Rightarrow> [[x]] | w # ws \<Rightarrow> (x # w) # ws))"

definition is_space :: "char \<Rightarrow> bool" where
  "is_space c \<longleftrightarrow> (let n = (of_char c :: nat) in (9 \<le> n \<and> n \<le> 13) \<or> (28 \<le> n \<and> n \<le> 32))"

text \<open>\<open>str.strip()\<close>: white space removed at both ends.\<close>

definition strip :: "string \<Rightarrow> string" where
  "strip s = rev (dropWhile is_space (rev (dropWhile is_space s)))"

text \<open>\<open>sep.join(parts)\<close>.\<close>

fun join_str :: "string \<Rightarrow> string list \<Rightarrow> string" where
  "join_str sep [] = []"
| "join_str sep [w] = w"
| "join_str sep (w # v # ws) = w @ sep @ join_str sep (v # ws)"

lemma split_on_not_Nil [simp]: "split_on c s \<noteq> []"
  by (induction s) (auto split: list.splits)

lemma split_on_no_sep: "c \<notin> set w \<Longrightarrow> split_on c w = [w]"
  by (induction w) auto

lemma split_on_append:
  "c \<notin> set w \<Longrightarrow> split_on c (w @ c # s) = w # split_on c s"
  by (induction w) auto

lemma split_on_join:
  "ws \<noteq> [] \<Longrightarrow> (\<forall>w \<in> set ws. c \<notin> set w) \<Longrightarrow> split_on c (join_str [c] ws) = ws"
  by (induction "[c]" ws rule: join_str.induct) (auto simp: split_on_no_sep split_on_append)

lemma strip_ends:
  "strip s \<noteq> [] \<Longrightarrow> \<not> is_space (hd (strip s)) \<and> \<not> is_space (last (strip s))"
proof
  assume ne: "strip s \<noteq> []"
  let ?t = "dropWhile is_space s"
  have last: "\<not> is_space (hd (dropWhile is_space (rev ?t)))"
    using ne by (intro hd_dropWhile) (auto simp: strip_def)
  then show "\<not> is_space (last (strip s))"
    using ne by (simp add: strip_def last_rev)
  have "takeWhile is_space (rev ?t) @ dropWhile is_space (rev ?t) = rev ?t"
    by simp
  then have split: "strip s @ rev (takeWhile is_space (rev ?t)) = ?t"
    by (metis rev_append rev_rev_ident strip_def)
  then have "hd (strip s) = hd ?t"
    using ne by (metis hd_append2)
  moreover have "?t \<noteq> []"
    using split ne by (metis append_is_Nil_conv)
  ultimately show "\<not> is_space (hd (strip s))"
    by (metis hd_dropWhile)
qed

section \<open>Tables\<close>

text \<open>
  A table is the list of its rows in insertion order. \<open>session.get\<close> reads the row of a primary
  key; an attribute assignment on a loaded row followed by the flush rewrites that row in place;
  \<open>session.add\<close> of a new row appends it.
\<close>

definition tget :: "('r \<Rightarrow> ident) \<Rightarrow> ident \<Rightarrow> 'r list \<Rightarrow> 'r option" where
  "tget pk k t = find (\<lambda>r. pk r = k) t"

definition tmodify :: "('r \<Rightarrow> ident) \<Rightarrow> ident \<Rightarrow> ('r \<Rightarrow> 'r) \<Rightarrow> 'r list \<Rightarrow> 'r list" where
  "tmodify pk k f t = map (\<lambda>r. if pk r = k then f r else r) t"

definition tinsert :: "'r \<Rightarrow> 'r list \<Rightarrow> 'r list" where
  "tinsert r t = t @ [r]"

lemma tget_Nil [simp]: "tget pk k [] = None"
  by (simp add: tget_def)

lemma tget_Cons [simp]: "tget pk k (r # t) = (if pk r = k then Some r else tget pk k t)"
  by (simp add: tget_def)

lemma tmodify_Nil [simp]: "tmodify pk k f [] = []"
  by (simp add: tmodify_def)

lemma tmodify_Cons [simp]:
  "tmodify pk k f (r # t) = (if pk r = k then f r else r) # tmodify pk k f t"
  by (simp add: tmodify_def)

lemma set_tinsert [simp]: "set (tinsert r t) = insert r (set t)"
  by (simp add: tinsert_def)

lemma length_tinsert [simp]: "length (tinsert r t) = Suc (length t)"
  by (simp add: tinsert_def)

lemma length_tmodify [simp]: "length (tmodify pk k f t) = length t"
  by (simp add: tmodify_def)

lemma tgetD: "tget pk k t = Some r \<Longrightarrow> r \<in> set t \<and> pk r = k"
  by (induction t) (auto split: if_splits)

lemma tget_None: "tget pk k t = None \<longleftrightarrow> (\<forall>r \<in> set t. pk r \<noteq> k)"
  by (induction t) auto

lemma tget_unique: "distinct (map pk t) \<Longrightarrow> r \<in> set t \<Longrightarrow> tget pk (pk r) t = Some r"
  by (induction t) (force simp: image_iff)+

lemma distinct_key_eq:
  "distinct (map pk t) \<Longrightarrow> r \<in> set t \<Longrightarrow> r' \<in> set t \<Longrightarrow> pk r = pk r' \<Longrightarrow> r = r'"
  by (auto simp: distinct_map dest: inj_onD)

lemma tget_tmodify [table_simps]:
  assumes "\<And>r. pk (f r) = pk r"
  shows "tget pk k (tmodify pk k' f t) =
    (if k = k' then map_option f (tget pk k t) else tget pk k t)"
  using assms by (induction t) auto

lemma tget_map:
  assumes "\<And>r. pk (g r) = pk r"
  shows "tget pk k (map g t) = map_option g (tget pk k t)"
  using assms by (induction t) auto

lemma tget_tinsert [table_simps]:
  "tget pk k (tinsert r t) =
    (case tget pk k t of Some r' \<Rightarrow> Some r' | None \<Rightarrow> if pk r = k then Some r else None)"
  by (induction t) (auto simp: tinsert_def)

lemma map_tmodify:
  assumes "\<And>r. g (f r) = g r"
  shows "map g (tmodify pk k f t) = map g t"
  using assms by (induction t) auto

lemma set_tmodify: "r \<in> set (tmodify pk k f t) \<Longrightarrow>
  (r \<in> set t \<and> pk r \<noteq> k) \<or> (\<exists>r0 \<in> set t. pk r0 = k \<and> r = f r0)"
  by (auto simp: tmodify_def split: if_splits)

lemma tmodify_id: "\<forall>r \<in> set t. pk r = k \<longrightarrow> f r = r \<Longrightarrow> tmodify pk k f t = t"
  by (induction t) auto

lemma distinct_set_singleton:
  assumes "distinct xs" "set xs = {x}"
  shows "xs = [x]"
proof (cases xs)
  case (Cons y ys)
  moreover have "ys = []" using assms Cons by (cases ys) auto
  ultimately show ?thesis using assms by simp
qed (use assms in simp)

text \<open>
  The interface of one table of the database: its selector, the way it is rewritten inside the
  database record, and its primary key.
\<close>

locale keyed_table =
  fixes rows :: "'db \<Rightarrow> 'r list"
    and rewrite :: "('r list \<Rightarrow> 'r list) \<Rightarrow> 'db \<Rightarrow> 'db"
    and pk :: "'r \<Rightarrow> ident"
  assumes rows_rewrite: "rows (rewrite F d) = F (rows d)"
begin

lemma get_modify:
  "(\<And>r. pk (f r) = pk r) \<Longrightarrow>
   tget pk k (rows (rewrite (tmodify pk k f) d)) = map_option f (tget pk k (rows d))"
  by (simp add: rows_rewrite tget_tmodify)

lemma get_modify_other:
  "(\<And>r. pk (f r) = pk r) \<Longrightarrow> k \<noteq> k' \<Longrightarrow>
   tget pk k (rows (rewrite (tmodify pk k' f) d)) = tget pk k (rows d)"
  by (simp add: rows_rewrite tget_tmodify)

lemma get_insert:
  "tget pk (pk r) (rows d) = None \<Longrightarrow>
   tget pk (pk r) (rows (rewrite (tinsert r) d)) = Some r"
  by (simp add: rows_rewrite tget_tinsert)

lemma keys_modify:
  "(\<And>r. pk (f r) = pk r) \<Longrightarrow>
   map pk (rows (rewrite (tmodify pk k f) d)) = map pk (rows d)"
  by (simp add: rows_rewrite map_tmodify)

lemma keys_insert:
  "distinct (map pk (rows d)) \<Longrightarrow> tget pk (pk r) (rows d) = None \<Longrightarrow>
   distinct (map pk (rows (rewrite (tinsert r) d)))"
  by (auto simp: rows_rewrite tinsert_def tget_None)

end

section \<open>Rows that expire\<close>

text \<open>
  Approval requests, evidence objects, proofs and escrow records share one contract: a row in a
  live status whose deadline has passed is moved out of the live statuses the next time a service
  refreshes it, and nothing else about it changes while it stays live.
\<close>

locale expirable =
  fixes live :: "'r \<Rightarrow> bool"
    and deadline :: "'r \<Rightarrow> time option"
    and refresh :: "time \<Rightarrow> 'r \<Rightarrow> 'r"
  assumes refresh_dead: "\<not> live r \<Longrightarrow> refresh now r = r"
    and refresh_alive: "live r \<Longrightarrow> (\<forall>d. deadline r = Some d \<longrightarrow> now < d) \<Longrightarrow> refresh now r = r"
    and refresh_expires: "deadline r = Some d \<Longrightarrow> d \<le> now \<Longrightarrow> \<not> live (refresh now r)"
begin

lemma refresh_idem [simp]: "refresh now (refresh now r) = refresh now r"
proof (cases "live r \<and> (\<exists>d. deadline r = Some d \<and> d \<le> now)")
  case True
  then show ?thesis using refresh_expires refresh_dead by blast
next
  case False
  then have "refresh now r = r"
    using refresh_dead refresh_alive by (metis not_le)
  then show ?thesis by simp
qed

lemma live_refresh:
  "live (refresh now r) \<longleftrightarrow> live r \<and> (\<forall>d. deadline r = Some d \<longrightarrow> now < d)"
  using refresh_dead refresh_alive refresh_expires by (metis not_le)

lemma live_before_deadline: "live (refresh now r) \<Longrightarrow> deadline r = Some d \<Longrightarrow> now < d"
  using live_refresh by blast

lemma refresh_live_same: "live (refresh now r) \<Longrightarrow> refresh now r = r"
  using live_refresh refresh_alive by blast

lemma live_refresh_antimono:
  "now \<le> later \<Longrightarrow> live (refresh later r) \<Longrightarrow> live (refresh now r)"
  using live_refresh by fastforce

end

section \<open>Status machines\<close>

text \<open>
  A status machine: the relation of its steps and the statuses declared terminal. Terminal
  statuses are absorbing, so no run leaves them.
\<close>

locale lifecycle =
  fixes step :: "'s \<Rightarrow> 's \<Rightarrow> bool"
    and terminal :: "'s \<Rightarrow> bool"
  assumes terminal_absorbs: "terminal s \<Longrightarrow> step s t \<Longrightarrow> t = s"
begin

lemma terminal_run: "step\<^sup>*\<^sup>* s t \<Longrightarrow> terminal s \<Longrightarrow> t = s"
  by (induction rule: rtranclp_induct) (auto dest: terminal_absorbs)

lemma left_means_not_terminal: "step\<^sup>*\<^sup>* s t \<Longrightarrow> t \<noteq> s \<Longrightarrow> \<not> terminal s"
  using terminal_run by blast

end

section \<open>Folding a partial check over a list\<close>

text \<open>The first element that violates a check decides the error, as a raising loop does.\<close>

fun first_error :: "('a \<Rightarrow> 'e option) \<Rightarrow> 'a list \<Rightarrow> 'e option" where
  "first_error chk [] = None"
| "first_error chk (x # xs) = (case chk x of Some e \<Rightarrow> Some e | None \<Rightarrow> first_error chk xs)"

lemma first_error_None: "first_error chk xs = None \<longleftrightarrow> (\<forall>x \<in> set xs. chk x = None)"
  by (induction xs) (auto split: option.splits)

lemma first_error_Some:
  "first_error chk xs = Some e \<Longrightarrow> \<exists>x \<in> set xs. chk x = Some e"
  by (induction xs) (auto split: option.splits)

end
