(* ===== verification/Json.thy ===== *)
theory Json
  imports Complex_Main Prelude "HOL-Library.Sublist"
begin

text \<open>
  The dynamically typed values the services read out of JSON columns and request bodies, with the
  parts of Python's semantics the services use on them: \<open>dict.get\<close>, truth testing, \<open>==\<close>,
  the order comparisons with their \<open>TypeError\<close>, and \<open>in\<close>. Strings are UTF-8 byte
  strings: equality, code point order and substring tests agree with Python's.
  A float is a finite IEEE double and is compared with integers by its exact value, as Python does.
\<close>

section \<open>Values\<close>

datatype json =
    JNull
  | JBool bool
  | JInt int
  | JFloat rat
  | JStr string
  | JList "json list"
  | JObj "(string \<times> json) list"

type_synonym dict = "(string \<times> json) list"

text \<open>\<open>d.get(k)\<close>: absent keys and explicit nulls both read as \<open>None\<close>.\<close>

definition jget :: "dict \<Rightarrow> string \<Rightarrow> json" where
  "jget d k = (case map_of d k of None \<Rightarrow> JNull | Some v \<Rightarrow> v)"

fun truthy :: "json \<Rightarrow> bool" where
  "truthy JNull = False"
| "truthy (JBool b) = b"
| "truthy (JInt i) = (i \<noteq> 0)"
| "truthy (JFloat r) = (r \<noteq> 0)"
| "truthy (JStr s) = (s \<noteq> [])"
| "truthy (JList xs) = (xs \<noteq> [])"
| "truthy (JObj d) = (d \<noteq> [])"

text \<open>\<open>a or b\<close>.\<close>

definition py_or :: "json \<Rightarrow> json \<Rightarrow> json" where
  "py_or a b = (if truthy a then a else b)"

fun num_of :: "json \<Rightarrow> rat option" where
  "num_of (JBool b) = Some (if b then 1 else 0)"
| "num_of (JInt i) = Some (of_int i)"
| "num_of (JFloat r) = Some r"
| "num_of _ = None"

section \<open>Equality\<close>

text \<open>
  Numbers (booleans included) are equal by value across types, lists element by element,
  dictionaries by key; values of different kinds differ.
\<close>

fun py_eq :: "json \<Rightarrow> json \<Rightarrow> bool"
  and py_eq_list :: "json list \<Rightarrow> json list \<Rightarrow> bool"
  and py_eq_items :: "dict \<Rightarrow> dict \<Rightarrow> bool"
where
  "py_eq (JList xs) b = (case b of JList ys \<Rightarrow> py_eq_list xs ys | _ \<Rightarrow> False)"
| "py_eq (JObj xs) b =
     (case b of JObj ys \<Rightarrow> length xs = length ys \<and> py_eq_items xs ys | _ \<Rightarrow> False)"
| "py_eq JNull b = (b = JNull)"
| "py_eq (JStr s) b = (b = JStr s)"
| "py_eq (JBool x) b = (num_of b = Some (if x then 1 else 0))"
| "py_eq (JInt i) b = (num_of b = Some (of_int i))"
| "py_eq (JFloat r) b = (num_of b = Some r)"
| "py_eq_list [] ys = (ys = [])"
| "py_eq_list (x # xs) ys =
     (case ys of [] \<Rightarrow> False | y # ys' \<Rightarrow> py_eq x y \<and> py_eq_list xs ys')"
| "py_eq_items [] ys = True"
| "py_eq_items ((k, v) # xs) ys =
     ((case map_of ys k of None \<Rightarrow> False | Some w \<Rightarrow> py_eq v w) \<and> py_eq_items xs ys)"

definition py_in :: "json \<Rightarrow> json list \<Rightarrow> bool" where
  "py_in x ys = list_ex (\<lambda>y. py_eq y x) ys"

lemma py_eq_list_iff:
  "py_eq_list xs ys \<longleftrightarrow> list_all2 py_eq xs ys"
  by (induction xs arbitrary: ys) (auto split: list.splits simp: list_all2_Cons1)

lemma py_eq_items_iff:
  "py_eq_items xs ys \<longleftrightarrow> (\<forall>(k, v) \<in> set xs. \<exists>w. map_of ys k = Some w \<and> py_eq v w)"
  by (induction xs) (auto split: option.splits)

text \<open>Well-formed values: every dictionary has each key once.\<close>

fun json_wf :: "json \<Rightarrow> bool" where
  "json_wf (JList xs) = list_all json_wf xs"
| "json_wf (JObj d) = (distinct (map fst d) \<and> list_all (\<lambda>p. json_wf (snd p)) d)"
| "json_wf _ = True"

lemma py_eq_refl: "json_wf v \<Longrightarrow> py_eq v v"
proof (induction v rule: json_wf.induct)
  case (1 xs)
  then show ?case
    by (auto simp: py_eq_list_iff list_all_iff intro: list_all2_refl list.rel_refl_strong)
next
  case (2 d)
  have "\<exists>w. map_of d k = Some w \<and> py_eq v w" if "(k, v) \<in> set d" for k v
    using that 2 by (force simp: list_all_iff)
  then show ?case by (auto simp: py_eq_items_iff)
qed auto

text \<open>A value equal to a string is that string: no other kind compares equal to it.\<close>

lemma py_eq_JStr [simp]: "py_eq v (JStr s) \<longleftrightarrow> v = JStr s"
  by (cases v) auto

lemma py_eq_JNull [simp]: "py_eq v JNull \<longleftrightarrow> v = JNull"
  by (cases v) auto

lemma py_eq_JInt_JInt: "py_eq (JInt i) (JInt j) \<longleftrightarrow> i = j"
  by auto

section \<open>Order\<close>

datatype py_order = LT | EQ | GT

fun str_cmp :: "string \<Rightarrow> string \<Rightarrow> py_order" where
  "str_cmp [] [] = EQ"
| "str_cmp [] (y # ys) = LT"
| "str_cmp (x # xs) [] = GT"
| "str_cmp (x # xs) (y # ys) =
     (if x = y then str_cmp xs ys
      else if (of_char x :: nat) < of_char y then LT else GT)"

definition num_cmp :: "rat \<Rightarrow> rat \<Rightarrow> py_order" where
  "num_cmp m n = (if m < n then LT else if m = n then EQ else GT)"

text \<open>
  \<open>None\<close> is the \<open>TypeError\<close> of an unordered pair of operands. Lists are ordered by their first
  unequal elements, then by length.
\<close>

fun py_cmp :: "json \<Rightarrow> json \<Rightarrow> py_order option"
  and py_cmp_list :: "json list \<Rightarrow> json list \<Rightarrow> py_order option"
where
  "py_cmp (JStr s) b = (case b of JStr t \<Rightarrow> Some (str_cmp s t) | _ \<Rightarrow> None)"
| "py_cmp (JList xs) b = (case b of JList ys \<Rightarrow> py_cmp_list xs ys | _ \<Rightarrow> None)"
| "py_cmp (JBool x) b = map_option (num_cmp (if x then 1 else 0)) (num_of b)"
| "py_cmp (JInt i) b = map_option (num_cmp (of_int i)) (num_of b)"
| "py_cmp (JFloat r) b = map_option (num_cmp r) (num_of b)"
| "py_cmp JNull b = None"
| "py_cmp (JObj d) b = None"
| "py_cmp_list [] ys = Some (if ys = [] then EQ else LT)"
| "py_cmp_list (x # xs) ys =
     (case ys of [] \<Rightarrow> Some GT
      | y # ys' \<Rightarrow> if py_eq x y then py_cmp_list xs ys' else py_cmp x y)"

lemma str_cmp_eq [simp]: "str_cmp s t = EQ \<longleftrightarrow> s = t"
  by (induction s t rule: str_cmp.induct) auto

lemma num_cmp_simps [simp]:
  "num_cmp m n = EQ \<longleftrightarrow> m = n" "num_cmp m n = LT \<longleftrightarrow> m < n" "num_cmp m n = GT \<longleftrightarrow> n < m"
  by (auto simp: num_cmp_def)

lemma py_cmp_JInt: "py_cmp (JInt i) (JInt j) = Some (if i < j then LT else if i = j then EQ else GT)"
  by (auto simp: num_cmp_def)

lemma str_cmp_swap: "str_cmp t s = (case str_cmp s t of LT \<Rightarrow> GT | EQ \<Rightarrow> EQ | GT \<Rightarrow> LT)"
  by (induction s t rule: str_cmp.induct) auto

section \<open>Types of the values\<close>

fun as_str :: "json \<Rightarrow> string option" where
  "as_str (JStr s) = Some s"
| "as_str _ = None"

fun is_obj :: "json \<Rightarrow> bool" where
  "is_obj (JObj d) = True"
| "is_obj _ = False"

definition opt_str :: "string option \<Rightarrow> json" where
  "opt_str x = (case x of None \<Rightarrow> JNull | Some s \<Rightarrow> JStr s)"

lemma opt_str_simps [simp]: "opt_str None = JNull" "opt_str (Some s) = JStr s"
  by (simp_all add: opt_str_def)

section \<open>Updating dictionaries\<close>

text \<open>\<open>d[k] = v\<close>.\<close>

definition dict_set :: "string \<Rightarrow> json \<Rightarrow> dict \<Rightarrow> dict" where
  "dict_set k v d = (k, v) # filter (\<lambda>p. fst p \<noteq> k) d"

lemma map_of_filter_key: "k' \<noteq> k \<Longrightarrow> map_of (filter (\<lambda>p. fst p \<noteq> k) d) k' = map_of d k'"
  by (induction d) auto

lemma jget_dict_set [simp]: "jget (dict_set k v d) k' = (if k' = k then v else jget d k')"
  by (auto simp: jget_def dict_set_def map_of_filter_key)

end
