(* ===== verification/Models.thy ===== *)
theory Models
  imports Json
begin

text \<open>
  The persistent data of the control plane, after \<open>src/app/models\<close>: one datatype per
  \<open>StrEnum\<close>, one record per mapped class, and the record \<open>db\<close> whose fields are the tables.
  Field names carry a prefix per class (\<open>er_status\<close> is \<open>EscrowRecord.status\<close>). Optional columns
  are options, JSON columns are \<open>json\<close> values or, where one service writes and reads them in
  a fixed shape, records. \<open>created_at\<close> is the instant of the insert. \<open>updated_at\<close> is kept for
  escrow records, the only rows whose \<open>updated_at\<close> a service reads back.
\<close>

section \<open>Enumerations\<close>

datatype tenant_status = TS_active | TS_suspended

datatype finance_profile = FP_treasury | FP_payments | FP_mixed_finance

datatype policy_status = PS_draft | PS_active | PS_retired

datatype decision_state =
    allow | deny | approval_required | needs_evidence | structurally_non_executable

datatype contract_validation_status = CV_valid | CV_invalid | CV_unsupported

datatype approval_state =
    AS_not_started | AS_not_required | AS_pending | AS_satisfied | AS_rejected | AS_expired
  | AS_canceled

datatype evidence_state = ES_not_required | ES_pending | ES_satisfied | ES_expired | ES_canceled

datatype approval_request_status =
    AR_pending | AR_satisfied | AR_rejected | AR_expired | AR_canceled

datatype approval_decision_type = approve | reject

datatype approval_assignment_status = AA_assigned | AA_completed | AA_expired | AA_canceled

datatype evidence_type =
    ET_document | ET_attestation | ET_external_reference | ET_export | ET_policy_attachment

datatype evidence_storage_mode =
    SM_filesystem | SM_object_store | SM_external_uri | SM_inline_metadata_only

datatype evidence_status = EV_active | EV_expired | EV_revoked

datatype proof_kind = pccb

datatype proof_issuance_status =
    PI_requested | PI_issued | PI_rejected | PI_failed | PI_revoked | PI_expired

datatype signing_key_purpose =
    pccb_signing | approval_attestation_signing | export_signing

datatype signing_key_status = SK_active | SK_suspended | SK_revoked | SK_retired

datatype signing_key_backend = development_local_hmac | external_managed_key

datatype signing_algorithm = hs256 | rs256 | es256 | eddsa

datatype signing_operation_status = SO_requested | SO_completed | SO_failed

datatype trust_tier = TT_development_local | TT_tenant_managed | TT_platform_managed

datatype escrow_status =
    ER_held | ER_released | ER_consumed | ER_revoked | ER_quarantined | ER_expired

datatype execution_state =
    EX_not_requested | EX_capability_held | EX_capability_released | EX_dispatch_requested
  | EX_dispatch_confirmed | EX_result_observed | EX_failure_observed | EX_revoked
  | EX_quarantined | EX_expired

datatype capability_release_mode = development_simulated | external_managed

datatype escrow_transition_type =
    TR_hold_created | TR_released | TR_consumed | TR_revoked | TR_quarantined
  | TR_execution_update | TR_expired

datatype receipt_state = RS_none | RS_received | RS_indexed | RS_reconciled | RS_superseded

datatype reconciliation_type = intent_to_receipt | proof_to_receipt | escrow_to_receipt

datatype reconciliation_status = RC_matched | RC_manual_review_required | RC_mismatch

text \<open>The wire strings of the enumerations that occur inside JSON values.\<close>

fun evidence_type_value :: "evidence_type \<Rightarrow> string" where
  "evidence_type_value ET_document = ''document''"
| "evidence_type_value ET_attestation = ''attestation''"
| "evidence_type_value ET_external_reference = ''external_reference''"
| "evidence_type_value ET_export = ''export''"
| "evidence_type_value ET_policy_attachment = ''policy_attachment''"

fun decision_state_value :: "decision_state \<Rightarrow> string" where
  "decision_state_value allow = ''allow''"
| "decision_state_value deny = ''deny''"
| "decision_state_value approval_required = ''approval_required''"
| "decision_state_value needs_evidence = ''needs_evidence''"
| "decision_state_value structurally_non_executable = ''structurally_non_executable''"

text \<open>\<open>DecisionState(value)\<close>; \<open>None\<close> is the \<open>ValueError\<close> of an unknown string.\<close>

definition decision_state_of :: "string \<Rightarrow> decision_state option" where
  "decision_state_of s =
     find (\<lambda>d. decision_state_value d = s)
       [allow, deny, approval_required, needs_evidence, structurally_non_executable]"

lemma decision_state_roundtrip [simp]: "decision_state_of (decision_state_value d) = Some d"
  by (cases d) (simp_all add: decision_state_of_def)

section \<open>Exceptions\<close>

text \<open>
  The exception classes the services raise, with the message that tells the guard apart; the
  identifiers interpolated into some messages are left out. A service call returns \<open>Inl e\<close> when
  it raises and \<open>Inr\<close> of its value otherwise, next to the database that is left committed.
\<close>

datatype error =
    TenantNotFoundError
  | PolicyNotFoundError
  | PolicyStateError string
  | PyKeyError string
  | PyTypeError string
  | PyAttributeError string
  | PyValueError string
  | PyRuntimeError string
  | ApprovalRequestNotFoundError
  | ApprovalDecisionStateError string
  | ApprovalAuthorizationError string
  | ApprovalValidationError string
  | EvidenceObjectNotFoundError
  | EvidenceValidationError string
  | EvidenceContentUnavailableError string
  | EvidenceBackendUnavailableError string
  | ActionIntentNotFoundError
  | ProofIssuanceError string
  | IssuedProofNotFoundError
  | SigningKeyNotFoundError string
  | SigningKeyStateError string
  | SigningConfigurationError string
  | EscrowRecordNotFoundError
  | EscrowStateError string
  | EscrowValidationError string
  | CapabilityReleaseNotAvailableError string
  | CapabilityTokenValidationError string
  | ReceiptNotFoundError
  | ReceiptIngestionError string
  | AuditEventNotFoundError
  | ReconciliationRecordNotFoundError
  | ActionTraceNotFoundError
  | IntegrityError string

type_synonym 'a result = "error + 'a"

section \<open>Rows\<close>

record tenant =
  tn_tenant_id :: ident
  tn_display_name :: string
  tn_status :: tenant_status
  tn_finance_profile :: finance_profile
  tn_created_at :: time

subsection \<open>Policies and their rules\<close>

text \<open>
  The JSON of a rule, as \<open>PolicyRule\<close> of the API stores it: \<open>None\<close> stands for an absent key.
\<close>

record policy_condition =
  pc_source :: string
  pc_field :: string
  pc_operator :: string
  pc_value :: json

record approval_spec =
  sp_required_decision_count :: "int option"
  sp_eligible_principal_ids :: "ident list option"
  sp_eligible_role_ids :: "ident list option"
  sp_approval_group_key :: "string option"
  sp_expires_in_seconds :: "int option"
  sp_require_requester_separation :: "bool option"
  sp_require_distinct_approvers :: "bool option"

record evidence_spec =
  se_minimum_count :: "int option"
  se_allowed_evidence_types :: "string list option"
  se_expires_in_seconds :: "int option"

record policy_rule =
  pr_rule_id :: "string option"
  pr_priority :: "int option"
  pr_decision :: "string option"
  pr_all_conditions :: "policy_condition list"
  pr_approval_requirement :: "approval_spec option"
  pr_evidence_requirement :: "evidence_spec option"

record policy =
  po_policy_id :: ident
  po_tenant_id :: ident
  po_name :: string
  po_description :: "string option"
  po_workflow_key :: string
  po_version :: int
  po_status :: policy_status
  po_default_decision :: decision_state
  po_finance_action_classes :: "string list"
  po_rules :: "policy_rule list"
  po_activated_at :: "time option"
  po_created_at :: time

text \<open>The requirement dictionaries the policy engine builds; they always have all their keys.\<close>

record approval_requirement =
  rq_required_decision_count :: int
  rq_eligible_principal_ids :: "ident list"
  rq_eligible_role_ids :: "ident list"
  rq_approval_group_key :: "string option"
  rq_expires_in_seconds :: "int option"
  rq_require_requester_separation :: bool
  rq_require_distinct_approvers :: bool

record evidence_requirement =
  re_minimum_count :: int
  re_allowed_evidence_types :: "string list"
  re_expires_in_seconds :: "int option"

text \<open>The entries of a decision trace, one constructor per \<open>type\<close>.\<close>

record condition_result =
  cr_source :: string
  cr_field :: string
  cr_operator :: string
  cr_expected :: json
  cr_actual :: json
  cr_matched :: bool

datatype trace_entry =
    Trace_hard_rule string "string list"
  | Trace_policy_lookup string
  | Trace_policy_scope string "string list" json
  | Trace_policy_rule "string option" int "string option" bool "condition_result list"
  | Trace_policy_default decision_state string

subsection \<open>Action intents\<close>

record action_intent_record =
  ai_action_intent_record_id :: ident
  ai_tenant_id :: ident
  ai_policy_id :: "ident option"
  ai_policy_version :: "int option"
  ai_submission_id :: string
  ai_idempotency_key :: string
  ai_requested_by_principal_type :: string
  ai_requested_by_principal_id :: ident
  ai_workflow_key :: string
  ai_external_action_intent_id :: json
  ai_contract_family :: string
  ai_contract_version_ref :: string
  ai_contract_validation_status :: contract_validation_status
  ai_contract_validation_errors :: "string list"
  ai_action_intent_digest :: string
  ai_action_intent_payload :: dict
  ai_workflow_binding :: "dict option"
  ai_finance_routing_context :: "dict option"
  ai_finance_action_class :: json
  ai_finance_index :: dict
  ai_evaluation_context :: dict
  ai_client_tags :: "string list"
  ai_external_reference :: "string option"
  ai_approval_state :: approval_state
  ai_evidence_state :: evidence_state
  ai_execution_state :: execution_state
  ai_receipt_state :: receipt_state
  ai_latest_receipt_id :: "ident option"
  ai_approval_requirement :: "approval_requirement option"
  ai_evidence_requirement :: "evidence_requirement option"
  ai_decision_state :: decision_state
  ai_decision_reason :: string
  ai_matched_rule_id :: "string option"
  ai_evaluation_trace :: "trace_entry list"
  ai_created_at :: time

subsection \<open>Approvals and evidence\<close>

record approver_assignment =
  aa_approval_assignment_id :: ident
  aa_approval_request_id :: ident
  aa_tenant_id :: ident
  aa_principal_type :: string
  aa_principal_id :: ident
  aa_assignment_status :: approval_assignment_status
  aa_acted_at :: "time option"

record approval_decision =
  ad_approval_decision_id :: ident
  ad_approval_request_id :: ident
  ad_tenant_id :: ident
  ad_decided_by_principal_type :: string
  ad_decided_by_principal_id :: ident
  ad_decision :: approval_decision_type
  ad_decision_reason :: "string option"
  ad_evidence_object_ids :: "ident list"
  ad_created_at :: time

text \<open>
  \<open>ar_assignments\<close> and \<open>ar_decisions\<close> are the relationships of the class: the rows of the
  tables \<open>approver_assignments\<close> and \<open>approval_decisions\<close> that carry this request's identifier.
\<close>

record approval_request =
  ar_approval_request_id :: ident
  ar_tenant_id :: ident
  ar_action_intent_record_id :: ident
  ar_policy_id :: "ident option"
  ar_workflow_rule_id :: "string option"
  ar_approval_group_key :: string
  ar_required_decision_count :: int
  ar_eligible_role_ids :: "ident list"
  ar_require_requester_separation :: bool
  ar_require_distinct_approvers :: bool
  ar_status :: approval_request_status
  ar_decision_reason :: "string option"
  ar_expires_at :: "time option"
  ar_satisfied_at :: "time option"
  ar_rejected_at :: "time option"
  ar_created_at :: time
  ar_assignments :: "approver_assignment list"
  ar_decisions :: "approval_decision list"

record evidence_object =
  eo_evidence_object_id :: ident
  eo_tenant_id :: ident
  eo_action_intent_record_id :: ident
  eo_approval_request_id :: "ident option"
  eo_evidence_type :: evidence_type
  eo_storage_mode :: evidence_storage_mode
  eo_storage_ref :: string
  eo_original_filename :: "string option"
  eo_media_type :: "string option"
  eo_content_digest :: "string option"
  eo_size_bytes :: "int option"
  eo_uploaded_by_principal_type :: string
  eo_uploaded_by_principal_id :: ident
  eo_evidence_metadata :: dict
  eo_expires_at :: "time option"
  eo_status :: evidence_status
  eo_created_at :: time

subsection \<open>Signing keys and issued proofs\<close>

record signing_key_reference =
  sk_signing_key_reference_id :: ident
  sk_tenant_id :: ident
  sk_display_name :: string
  sk_issuer_name :: string
  sk_issuer_uri :: string
  sk_trust_tier :: trust_tier
  sk_key_purpose :: signing_key_purpose
  sk_algorithm :: signing_algorithm
  sk_key_backend :: signing_key_backend
  sk_provider_key_ref :: string
  sk_public_key_ref :: "string option"
  sk_status :: signing_key_status
  sk_is_default :: bool
  sk_lifecycle_metadata :: dict
  sk_activated_at :: "time option"
  sk_suspended_at :: "time option"
  sk_created_at :: time

record issuance_check =
  ic_check :: string
  ic_passed :: bool

record issued_proof =
  ip_issued_proof_id :: ident
  ip_tenant_id :: ident
  ip_action_intent_record_id :: ident
  ip_signing_key_reference_id :: "ident option"
  ip_proof_kind :: proof_kind
  ip_status :: proof_issuance_status
  ip_issuer_name :: string
  ip_issuer_uri :: string
  ip_trust_tier :: trust_tier
  ip_audience :: string
  ip_scope :: "string list"
  ip_scope_hash :: string
  ip_nonce :: string
  ip_action_intent_digest :: string
  ip_proof_payload :: dict
  ip_proof_payload_digest :: string
  ip_signature :: "string option"
  ip_algorithm :: "signing_algorithm option"
  ip_issued_by_principal_type :: string
  ip_issued_by_principal_id :: ident
  ip_issuance_trace :: "issuance_check list"
  ip_failure_reason :: "string option"
  ip_issued_at :: "time option"
  ip_expires_at :: time
  ip_created_at :: time

record signing_operation_record =
  so_signing_operation_id :: ident
  so_tenant_id :: ident
  so_issued_proof_id :: ident
  so_signing_key_reference_id :: ident
  so_algorithm :: signing_algorithm
  so_key_backend :: signing_key_backend
  so_status :: signing_operation_status
  so_payload_digest :: string
  so_signature :: "string option"
  so_error_detail :: "error option"
  so_completed_at :: "time option"

subsection \<open>Escrow\<close>

record escrow_record =
  er_escrow_record_id :: ident
  er_tenant_id :: ident
  er_action_intent_record_id :: ident
  er_issued_proof_id :: ident
  er_capability_kind :: string
  er_protected_resource_ref :: string
  er_release_mode :: capability_release_mode
  er_status :: escrow_status
  er_execution_state :: execution_state
  er_audience :: string
  er_scope :: "string list"
  er_scope_hash :: string
  er_action_intent_digest :: string
  er_proof_nonce :: string
  er_created_by_principal_type :: string
  er_created_by_principal_id :: ident
  er_capability_reference :: "string option"
  er_capability_token_digest :: "string option"
  er_capability_metadata :: dict
  er_release_metadata :: dict
  er_provider_execution_ref :: "string option"
  er_provider_status :: "string option"
  er_failure_reason :: "string option"
  er_revocation_reason_code :: "string option"
  er_revocation_reason_detail :: "string option"
  er_quarantine_reason_code :: "string option"
  er_quarantine_reason_detail :: "string option"
  er_released_at :: "time option"
  er_consumed_at :: "time option"
  er_revoked_at :: "time option"
  er_quarantined_at :: "time option"
  er_expires_at :: time
  er_created_at :: time
  er_updated_at :: time

record escrow_transition_record =
  et_escrow_transition_record_id :: ident
  et_tenant_id :: ident
  et_escrow_record_id :: ident
  et_transition_type :: escrow_transition_type
  et_from_status :: "escrow_status option"
  et_to_status :: escrow_status
  et_from_execution_state :: "execution_state option"
  et_to_execution_state :: execution_state
  et_actor_principal_type :: string
  et_actor_principal_id :: ident
  et_reason_code :: "string option"
  et_reason_detail :: "string option"
  et_transition_metadata :: dict
  et_created_at :: time

subsection \<open>Receipts and audit\<close>

datatype check_status = CK_skipped | CK_missing | CK_not_provided | CK_matched | CK_mismatch

record recon_check =
  ck_field :: string
  ck_status :: check_status
  ck_expected :: json
  ck_actual :: json

record reconciliation_record =
  rc_reconciliation_record_id :: ident
  rc_tenant_id :: ident
  rc_action_intent_record_id :: ident
  rc_receipt_id :: ident
  rc_issued_proof_id :: "ident option"
  rc_escrow_record_id :: "ident option"
  rc_reconciliation_type :: reconciliation_type
  rc_status :: reconciliation_status
  rc_hook_name :: string
  rc_summary :: string
  rc_checks :: "recon_check list"
  rc_created_at :: time

record reconciliation_summary =
  rs_hook_name :: string
  rs_overall_status :: reconciliation_status
  rs_record_count :: nat
  rs_records :: "(ident \<times> reconciliation_type \<times> reconciliation_status \<times> string) list"

record receipt_record =
  rr_receipt_id :: ident
  rr_tenant_id :: ident
  rr_action_intent_record_id :: ident
  rr_issued_proof_id :: "ident option"
  rr_escrow_record_id :: "ident option"
  rr_contract_family :: string
  rr_contract_version_ref :: string
  rr_contract_validation_status :: string
  rr_contract_validation_errors :: "string list"
  rr_external_receipt_id :: string
  rr_receipt_type :: string
  rr_outcome :: string
  rr_receipt_timestamp :: time
  rr_kernel_receipt_digest :: string
  rr_receipt_payload :: dict
  rr_receipt_index :: dict
  rr_linked_approval_request_ids :: "ident list"
  rr_linked_approval_decision_ids :: "ident list"
  rr_linked_evidence_object_ids :: "ident list"
  rr_provider_execution_ref :: json
  rr_settlement_reference :: json
  rr_received_by_principal_type :: string
  rr_received_by_principal_id :: ident
  rr_receipt_state :: receipt_state
  rr_reconciliation_summary :: "reconciliation_summary option"

record audit_event =
  au_audit_event_id :: ident
  au_tenant_id :: ident
  au_action_intent_record_id :: "ident option"
  au_receipt_id :: "ident option"
  au_issued_proof_id :: "ident option"
  au_escrow_record_id :: "ident option"
  au_event_category :: string
  au_event_type :: string
  au_subject_type :: string
  au_subject_id :: ident
  au_actor_principal_type :: string
  au_actor_principal_id :: ident
  au_event_payload :: dict
  au_created_at :: time

section \<open>The database\<close>

text \<open>
  \<open>next_uuid\<close> counts the identifiers drawn from \<open>uuid4\<close> so far.
\<close>

record db =
  tenants :: "tenant list"
  policies :: "policy list"
  action_intents :: "action_intent_record list"
  approval_requests :: "approval_request list"
  evidence_objects :: "evidence_object list"
  signing_keys :: "signing_key_reference list"
  issued_proofs :: "issued_proof list"
  signing_operations :: "signing_operation_record list"
  escrow_records :: "escrow_record list"
  escrow_transitions :: "escrow_transition_record list"
  receipts :: "receipt_record list"
  reconciliations :: "reconciliation_record list"
  audit_events :: "audit_event list"
  next_uuid :: nat

definition empty_db :: db where
  "empty_db = \<lparr>tenants = [], policies = [], action_intents = [], approval_requests = [],
     evidence_objects = [], signing_keys = [], issued_proofs = [], signing_operations = [],
     escrow_records = [], escrow_transitions = [], receipts = [], reconciliations = [],
     audit_events = [], next_uuid = 0\<rparr>"

section \<open>Runtime and settings\<close>

text \<open>
  What a request takes from its surroundings: the clock (read once per request), the stream
  of \<open>uuid4().hex\<close> values, the SHA-256 hex digests of a canonical JSON text and of a
  plain text, and the settings of \<open>app/config.py\<close> the services read.
\<close>

record settings =
  proof_issuer_name :: string
  proof_issuer_uri :: string
  proof_issuer_trust_tier :: trust_tier
  proof_default_ttl_seconds :: int
  proof_max_ttl_seconds :: int
  capability_release_mode :: capability_release_mode
  capability_default_ttl_seconds :: int
  capability_max_ttl_seconds :: int

record runtime =
  rt_now :: time
  rt_uuid :: "nat \<Rightarrow> ident"
  rt_sha256_json :: "json \<Rightarrow> string"
  rt_sha256_text :: "string \<Rightarrow> string"
  rt_settings :: settings

text \<open>\<open>uuid4().hex\<close>: the next identifier, and the database that has used it up.\<close>

definition new_id :: "runtime \<Rightarrow> db \<Rightarrow> ident" where
  "new_id rt d = rt_uuid rt (next_uuid d)"

definition used_id :: "db \<Rightarrow> db" where
  "used_id d = d\<lparr>next_uuid := Suc (next_uuid d)\<rparr>"

lemma used_id_tables [simp]:
  "tenants (used_id d) = tenants d" "policies (used_id d) = policies d"
  "action_intents (used_id d) = action_intents d"
  "approval_requests (used_id d) = approval_requests d"
  "evidence_objects (used_id d) = evidence_objects d" "signing_keys (used_id d) = signing_keys d"
  "issued_proofs (used_id d) = issued_proofs d"
  "signing_operations (used_id d) = signing_operations d"
  "escrow_records (used_id d) = escrow_records d"
  "escrow_transitions (used_id d) = escrow_transitions d" "receipts (used_id d) = receipts d"
  "reconciliations (used_id d) = reconciliations d" "audit_events (used_id d) = audit_events d"
  "next_uuid (used_id d) = Suc (next_uuid d)"
  by (simp_all add: used_id_def)

section \<open>A concrete runtime\<close>

text \<open>
  A runtime at which the theorems with hypotheses on the surroundings are instantiated: the
  identifiers are distinct, the digests are injective on texts.
\<close>

definition sample_uuid :: "nat \<Rightarrow> ident" where
  "sample_uuid n = replicate n (CHR ''u'')"

definition sample_settings :: settings where
  "sample_settings = \<lparr>proof_issuer_name = ''Actenon Cloud'',
     proof_issuer_uri = ''https://actenon-cloud.local/issuer'',
     proof_issuer_trust_tier = TT_development_local, proof_default_ttl_seconds = 900,
     proof_max_ttl_seconds = 86400, capability_release_mode = development_simulated,
     capability_default_ttl_seconds = 600, capability_max_ttl_seconds = 3600\<rparr>"

fun sample_digest :: "json \<Rightarrow> string" where
  "sample_digest (JStr s) = s"
| "sample_digest (JObj d) = concat (map fst d)"
| "sample_digest _ = ''digest''"

definition sample_rt :: "time \<Rightarrow> runtime" where
  "sample_rt t = \<lparr>rt_now = t, rt_uuid = sample_uuid, rt_sha256_json = sample_digest,
     rt_sha256_text = (\<lambda>s. s), rt_settings = sample_settings\<rparr>"

lemma inj_sample_uuid: "inj sample_uuid"
  by (rule injI) (simp add: sample_uuid_def)

lemma sample_rt_simps [simp]:
  "rt_now (sample_rt t) = t" "rt_uuid (sample_rt t) = sample_uuid"
  "rt_sha256_json (sample_rt t) = sample_digest" "rt_sha256_text (sample_rt t) = (\<lambda>s. s)"
  "rt_settings (sample_rt t) = sample_settings"
  by (simp_all add: sample_rt_def)

section \<open>The tables as keyed tables\<close>

interpretation tenants_table: keyed_table tenants tenants_update tn_tenant_id
  by unfold_locales simp

interpretation policies_table: keyed_table policies policies_update po_policy_id
  by unfold_locales simp

interpretation intents_table:
  keyed_table action_intents action_intents_update ai_action_intent_record_id
  by unfold_locales simp

interpretation requests_table:
  keyed_table approval_requests approval_requests_update ar_approval_request_id
  by unfold_locales simp

interpretation evidence_table:
  keyed_table evidence_objects evidence_objects_update eo_evidence_object_id
  by unfold_locales simp

interpretation keys_table:
  keyed_table signing_keys signing_keys_update sk_signing_key_reference_id
  by unfold_locales simp

interpretation proofs_table: keyed_table issued_proofs issued_proofs_update ip_issued_proof_id
  by unfold_locales simp

interpretation escrows_table: keyed_table escrow_records escrow_records_update er_escrow_record_id
  by unfold_locales simp

interpretation receipts_table: keyed_table receipts receipts_update rr_receipt_id
  by unfold_locales simp

end
