(* ===== verification/CapabilityToken.thy ===== *)
theory CapabilityToken
  imports Models
begin

text \<open>
  The capability token of \<open>src/app/services/escrow.py\<close>: \<open>_b64url_encode\<close>, \<open>_b64url_decode\<close>,
  \<open>_sign_capability_token\<close> and \<open>verify_capability_token\<close>. Base64 is modelled character by character,
  decoding with the leniency of \<open>binascii.a2b_base64\<close>. The signer is third-party code and a
  parameter, as is the JSON codec (\<open>json.dumps\<close> with sorted keys and \<open>json.loads\<close>).
\<close>

section \<open>URL-safe base64\<close>

definition b64_alphabet :: string where
  "b64_alphabet = ''ABCDEFGHIJKLMNOPQRSTUVWXYZabcdefghijklmnopqrstuvwxyz0123456789-_''"

definition b64_char :: "nat \<Rightarrow> char" where
  "b64_char n = b64_alphabet ! n"

text \<open>
  The value of a character; \<open>+\<close> and \<open>/\<close> are read like \<open>-\<close> and \<open>_\<close>, which
  \<open>urlsafe_b64decode\<close> translates to them.
\<close>

definition b64_value :: "char \<Rightarrow> nat option" where
  "b64_value c =
     (if c = CHR ''+'' then Some 62 else if c = CHR ''/'' then Some 63
      else map_of (zip b64_alphabet [0..<64]) c)"

fun sextets :: "nat list \<Rightarrow> nat list" where
  "sextets [] = []"
| "sextets [a] = [a div 4, (a mod 4) * 16]"
| "sextets [a, b] = [a div 4, (a mod 4) * 16 + b div 16, (b mod 16) * 4]"
| "sextets (a # b # c # r) =
     a div 4 # ((a mod 4) * 16 + b div 16) # ((b mod 16) * 4 + c div 64) # c mod 64 # sextets r"

text \<open>\<open>_b64url_encode\<close>: the padding is stripped.\<close>

definition b64url_encode :: "string \<Rightarrow> string" where
  "b64url_encode s = map b64_char (sextets (map of_char s))"

text \<open>
  \<open>binascii.a2b_base64\<close>, not strict: \<open>q\<close> counts the characters of the current quadruple, \<open>l\<close>
  holds the bits left over, \<open>p\<close> the padding seen; characters outside the alphabet are skipped and
  enough padding ends the input.
\<close>

fun a2b :: "string \<Rightarrow> nat \<Rightarrow> nat \<Rightarrow> nat \<Rightarrow> nat list \<Rightarrow> nat list option" where
  "a2b [] q l p out = (if q = 0 then Some out else None)"
| "a2b (c # cs) q l p out =
     (if c = CHR ''='' then
        (if 2 \<le> q \<and> 4 \<le> q + (p + 1) then Some out
         else a2b cs q l (if 2 \<le> q then p + 1 else p) out)
      else (case b64_value c of
              None \<Rightarrow> a2b cs q l p out
            | Some v \<Rightarrow>
                if q = 0 then a2b cs 1 v 0 out
                else if q = 1 then a2b cs 2 (v mod 16) 0 (out @ [l * 4 + v div 16])
                else if q = 2 then a2b cs 3 (v mod 4) 0 (out @ [l * 16 + v div 4])
                else a2b cs 0 0 0 (out @ [l * 64 + v])))"

text \<open>
  \<open>_b64url_decode\<close>: \<open>"=" * (-len(value) % 4)\<close> is appended; \<open>None\<close> is the \<open>ValueError\<close>, also of a text
  that is not ASCII.
\<close>

definition is_ascii :: "char \<Rightarrow> bool" where
  "is_ascii c \<longleftrightarrow> \<not> digit7 c"

definition b64url_decode :: "string \<Rightarrow> string option" where
  "b64url_decode s =
     (if list_all is_ascii s
      then map_option (map char_of) (a2b (s @ replicate ((4 - length s mod 4) mod 4) (CHR ''='')) 0 0 0 [])
      else None)"

section \<open>Tokens\<close>

record json_codec =
  js_dumps :: "json \<Rightarrow> string"
  js_loads :: "string \<Rightarrow> json option"

record signature_spec =
  ss_algorithm :: json
  ss_key_id :: json
  ss_value :: string

record signer =
  sg_algorithm :: string
  sg_key_id :: string
  sg_sign :: "string \<Rightarrow> string"
  sg_verify :: "string \<Rightarrow> signature_spec \<Rightarrow> bool"

text \<open>\<open>exp\<close> is the expiry in whole seconds: \<open>int(timestamp())\<close> of an instant after 1970.\<close>

definition token_payload ::
  "ident \<Rightarrow> string \<Rightarrow> string list \<Rightarrow> string \<Rightarrow> time \<Rightarrow> string \<Rightarrow> dict" where
  "token_payload escrow_id digest scope audience expiry nonce =
     [(''escrow_id'', JStr escrow_id), (''action_intent_digest'', JStr digest),
      (''scope'', JList (map JStr scope)), (''audience'', JStr audience),
      (''exp'', JInt (expiry div 1000000)), (''nonce'', JStr nonce)]"

definition token_header :: "signer \<Rightarrow> dict" where
  "token_header sg = [(''alg'', JStr (sg_algorithm sg)), (''typ'', JStr ''acp-cap+jwt''),
     (''kid'', JStr (sg_key_id sg))]"

definition sign_capability_token ::
  "json_codec \<Rightarrow> signer \<Rightarrow> ident \<Rightarrow> string \<Rightarrow> string list \<Rightarrow> string \<Rightarrow> time \<Rightarrow> string \<Rightarrow> string" where
  "sign_capability_token js sg escrow_id digest scope audience expiry nonce =
     (let header_part = b64url_encode (js_dumps js (JObj (token_header sg)));
          payload_part = b64url_encode (js_dumps js (JObj
            (token_payload escrow_id digest scope audience expiry nonce)));
          signing_input = header_part @ ''.'' @ payload_part
      in header_part @ ''.'' @ payload_part @ ''.'' @ sg_sign sg signing_input)"

text \<open>\<open>verify_capability_token\<close>; \<open>header.get(k, "")\<close> keeps whatever the header holds.\<close>

definition header_get :: "dict \<Rightarrow> string \<Rightarrow> json" where
  "header_get h k = (case map_of h k of None \<Rightarrow> JStr [] | Some v \<Rightarrow> v)"

definition decode_segment :: "json_codec \<Rightarrow> string \<Rightarrow> json option" where
  "decode_segment js s = (case b64url_decode s of None \<Rightarrow> None | Some t \<Rightarrow> js_loads js t)"

definition verify_capability_token :: "json_codec \<Rightarrow> signer \<Rightarrow> string \<Rightarrow> dict result" where
  "verify_capability_token js sg token =
     (case split_on (CHR ''.'') token of
        [header_part, payload_part, signature_part] \<Rightarrow>
          (case (decode_segment js header_part, decode_segment js payload_part) of
             (Some (JObj header), Some (JObj payload)) \<Rightarrow>
               if \<not> py_eq (jget header ''typ'') (JStr ''acp-cap+jwt'')
               then Inl (CapabilityTokenValidationError
                      ''capability token header is not an acp-cap+jwt token'')
               else if \<not> sg_verify sg (header_part @ ''.'' @ payload_part)
                      \<lparr>ss_algorithm = header_get header ''alg'', ss_key_id = header_get header ''kid'',
                       ss_value = signature_part\<rparr>
               then Inl (CapabilityTokenValidationError
                      ''capability token signature is invalid for the configured signer'')
               else Inr payload
           | (Some _, Some _) \<Rightarrow> Inl (CapabilityTokenValidationError
               ''capability token segments must be JSON objects'')
           | _ \<Rightarrow> Inl (CapabilityTokenValidationError
               ''capability token header or payload is invalid''))
      | _ \<Rightarrow> Inl (CapabilityTokenValidationError ''capability token must have three segments''))"

section \<open>Base64 round trip\<close>

lemma b64_table: "length b64_alphabet = 64" "distinct b64_alphabet"
  "CHR ''='' \<notin> set b64_alphabet" "CHR ''+'' \<notin> set b64_alphabet" "CHR ''/'' \<notin> set b64_alphabet"
  "CHR ''.'' \<notin> set b64_alphabet"
  by (simp_all add: b64_alphabet_def)

lemma b64_char_mem: "n < 64 \<Longrightarrow> b64_char n \<in> set b64_alphabet"
  by (simp add: b64_char_def b64_table)

lemma b64_value_char:
  assumes "n < 64"
  shows "b64_value (b64_char n) = Some n" "b64_char n \<noteq> CHR ''=''" "b64_char n \<noteq> CHR ''.''"
proof -
  have mem: "b64_char n \<in> set b64_alphabet" by (rule b64_char_mem[OF assms])
  then have ne: "b64_char n \<noteq> CHR ''+''" "b64_char n \<noteq> CHR ''/''" using b64_table by metis+
  show "b64_char n \<noteq> CHR ''=''" "b64_char n \<noteq> CHR ''.''" using mem b64_table by metis+
  have "map_of (zip b64_alphabet [0..<64]) (b64_alphabet ! n) = Some ([0..<64] ! n)"
    using assms b64_table by (intro map_of_zip_nth) simp_all
  then show "b64_value (b64_char n) = Some n"
    using assms ne by (simp add: b64_value_def b64_char_def)
qed

lemma sextets_bound: "\<forall>b \<in> set bs. b < 256 \<Longrightarrow> \<forall>x \<in> set (sextets bs). x < 64"
  by (induction bs rule: sextets.induct) (auto simp: less_mult_imp_div_less)

lemma a2b_sextet:
  assumes "n < 64"
  shows "a2b (b64_char n # cs) q l p out =
     (if q = 0 then a2b cs 1 n 0 out
      else if q = 1 then a2b cs 2 (n mod 16) 0 (out @ [l * 4 + n div 16])
      else if q = 2 then a2b cs 3 (n mod 4) 0 (out @ [l * 16 + n div 4])
      else a2b cs 0 0 0 (out @ [l * 64 + n]))"
  using b64_value_char[OF assms] by simp

lemma a2b_quad:
  assumes "s1 < 64" "s2 < 64" "s3 < 64" "s4 < 64"
  shows "a2b (b64_char s1 # b64_char s2 # b64_char s3 # b64_char s4 # cs) 0 l p out =
    a2b cs 0 0 0 (out @ [s1 * 4 + s2 div 16, s2 mod 16 * 16 + s3 div 4, s3 mod 4 * 64 + s4])"
  using assms by (simp add: a2b_sextet del: a2b.simps(2))

text \<open>The padding \<open>_b64url_decode\<close> appends for an encoded text, by the number of its bytes.\<close>

definition b64_pad :: "nat list \<Rightarrow> string" where
  "b64_pad bs = replicate ((3 - length bs mod 3) mod 3) (CHR ''='')"

lemma sextets_length: "length (sextets bs) mod 4 = (case length bs mod 3 of 0 \<Rightarrow> 0 | Suc 0 \<Rightarrow> 2 | _ \<Rightarrow> 3)"
proof (induction bs rule: sextets.induct)
  case (4 a b c r)
  have "length (sextets (a # b # c # r)) mod 4 = length (sextets r) mod 4"
    by simp
  moreover have "length (a # b # c # r) mod 3 = length r mod 3" by simp
  ultimately show ?case using 4 by simp
qed simp_all

lemma pad_matches: "(4 - length (sextets bs) mod 4) mod 4 = (3 - length bs mod 3) mod 3"
proof -
  consider "length bs mod 3 = 0" | "length bs mod 3 = 1" | "length bs mod 3 = 2" by linarith
  then show ?thesis by cases (simp_all add: sextets_length)
qed

lemma a2b_roundtrip:
  "\<forall>b \<in> set bs. b < 256 \<Longrightarrow>
   a2b (map b64_char (sextets bs) @ b64_pad bs) 0 0 0 out = Some (out @ bs)"
proof (induction bs arbitrary: out rule: sextets.induct)
  case 1
  then show ?case by (simp add: b64_pad_def)
next
  case (2 a)
  have "a div 4 < 64" "(a mod 4) * 16 < 64" using 2 by auto
  moreover have "a div 4 * 4 + (a mod 4) * 16 div 16 = a" by simp
  ultimately show ?case
    by (simp add: a2b_sextet b64_pad_def numeral_2_eq_2 del: a2b.simps(2))
       (simp add: numeral_2_eq_2)
next
  case (3 a b)
  have "a div 4 < 64" "(a mod 4) * 16 + b div 16 < 64" "(b mod 16) * 4 < 64" using 3 by auto
  moreover have "a div 4 * 4 + ((a mod 4) * 16 + b div 16) div 16 = a"
    "((a mod 4) * 16 + b div 16) mod 16 * 16 + (b mod 16) * 4 div 4 = b" using 3 by auto
  ultimately show ?case
    by (simp add: a2b_sextet b64_pad_def del: a2b.simps(2)) simp
next
  case (4 a b c r)
  have lt: "a div 4 < 64" "(a mod 4) * 16 + b div 16 < 64" "(b mod 16) * 4 + c div 64 < 64" "c mod 64 < 64"
    using 4 by auto
  have eq: "a div 4 * 4 + ((a mod 4) * 16 + b div 16) div 16 = a"
    "((a mod 4) * 16 + b div 16) mod 16 * 16 + ((b mod 16) * 4 + c div 64) div 4 = b"
    "((b mod 16) * 4 + c div 64) mod 4 * 64 + c mod 64 = c" using 4 by auto
  have "length (a # b # c # r) mod 3 = length r mod 3" by simp
  then have pad: "b64_pad (a # b # c # r) = b64_pad r" by (simp add: b64_pad_def)
  have "map b64_char (sextets (a # b # c # r)) @ b64_pad (a # b # c # r) =
      b64_char (a div 4) # b64_char ((a mod 4) * 16 + b div 16) # b64_char ((b mod 16) * 4 + c div 64) #
      b64_char (c mod 64) # (map b64_char (sextets r) @ b64_pad r)"
    by (simp add: pad)
  then show ?case
    unfolding a2b_quad[OF lt] eq using 4 by (simp only: a2b_quad[OF lt] eq) simp
qed

lemma b64_ascii: "c \<in> set b64_alphabet \<Longrightarrow> is_ascii c"
proof -
  have "list_all is_ascii b64_alphabet" by code_simp
  then show "c \<in> set b64_alphabet \<Longrightarrow> is_ascii c" by (simp add: list_all_iff)
qed

lemma b64url_ascii: "list_all is_ascii (b64url_encode s)"
proof -
  have "\<forall>x \<in> set (sextets (map of_char s)). x < 64" by (rule sextets_bound) auto
  then show ?thesis by (auto simp: b64url_encode_def list_all_iff intro: b64_ascii b64_char_mem)
qed

lemma b64url_roundtrip: "b64url_decode (b64url_encode s) = Some s"
proof -
  have b: "\<forall>b \<in> set (map of_char s). b < (256 :: nat)" by auto
  have "b64url_encode s @ replicate ((4 - length (b64url_encode s) mod 4) mod 4) (CHR ''='') =
      map b64_char (sextets (map of_char s)) @ b64_pad (map of_char s)"
    using pad_matches[of "map of_char s"] by (simp add: b64url_encode_def b64_pad_def)
  then show ?thesis
    using a2b_roundtrip[OF b, of "[]"] by (simp add: b64url_decode_def comp_def b64url_ascii)
qed

lemma b64url_no_dot: "CHR ''.'' \<notin> set (b64url_encode s)"
proof -
  have "\<forall>x \<in> set (sextets (map of_char s)). x < 64" by (rule sextets_bound) auto
  then show ?thesis using b64_value_char(3) by (force simp: b64url_encode_def)
qed

lemma join_split: "join_str [c] (split_on c s) = s"
proof (induction s)
  case (Cons x xs)
  obtain w ws where ws: "split_on c xs = w # ws" by (cases "split_on c xs") auto
  then show ?case using Cons by (cases ws) auto
qed simp

section \<open>Properties\<close>

text \<open>
  C30. Capability tokens verify. If the codec loads what it dumped for the header and the claims,
  and the signer accepts its own signature (a text without dots) over the signing input, then a
  freshly minted token verifies under the same signer and yields exactly the claims it was minted
  with, whatever bytes they contain.
\<close>

theorem capability_token_roundtrip:
  assumes "js_loads js (js_dumps js (JObj (token_header sg))) = Some (JObj (token_header sg))"
    and "js_loads js (js_dumps js (JObj claims)) = Some (JObj claims)"
    and "claims = token_payload eid dg scope aud expiry nonce"
    and "\<And>m. sg_verify sg m \<lparr>ss_algorithm = JStr (sg_algorithm sg), ss_key_id = JStr (sg_key_id sg),
           ss_value = sg_sign sg m\<rparr>"
    and "\<And>m. CHR ''.'' \<notin> set (sg_sign sg m)"
  shows "verify_capability_token js sg (sign_capability_token js sg eid dg scope aud expiry nonce) =
    Inr claims"
proof -
  have parts: "split_on (CHR ''.'') (b64url_encode a @ ''.'' @ b64url_encode b @ ''.'' @ sg_sign sg m) =
     [b64url_encode a, b64url_encode b, sg_sign sg m]" for a b m
    using b64url_no_dot assms(5) by (simp add: split_on_append split_on_no_sep)
  have hdr: "jget (token_header sg) ''typ'' = JStr ''acp-cap+jwt''"
    "header_get (token_header sg) ''alg'' = JStr (sg_algorithm sg)"
    "header_get (token_header sg) ''kid'' = JStr (sg_key_id sg)"
    by (simp_all add: token_header_def jget_def header_get_def)
  have dec: "decode_segment js (b64url_encode (js_dumps js (JObj (token_header sg)))) =
      Some (JObj (token_header sg))"
    "decode_segment js (b64url_encode (js_dumps js (JObj claims))) = Some (JObj claims)"
    using assms(1,2) by (simp_all add: decode_segment_def b64url_roundtrip)
  show ?thesis
    unfolding sign_capability_token_def verify_capability_token_def Let_def parts assms(3)[symmetric]
    using assms(4) by (simp add: dec hdr)
qed

definition sample_signer :: signer where
  "sample_signer = \<lparr>sg_algorithm = ''EdDSA'', sg_key_id = ''k1'', sg_sign = (\<lambda>m. ''sig''),
     sg_verify = (\<lambda>m spec. ss_algorithm spec = JStr ''EdDSA'' \<and> ss_key_id spec = JStr ''k1'' \<and>
       ss_value spec = ''sig'')\<rparr>"

definition sample_codec :: json_codec where
  "sample_codec = \<lparr>js_dumps = (\<lambda>j. if j = JObj (token_header sample_signer) then ''{h}'' else ''{p}''),
     js_loads = (\<lambda>s. if s = ''{h}'' then Some (JObj (token_header sample_signer))
       else if s = ''{p}'' then Some (JObj (token_payload ''e'' ''d'' [''pay''] ''gw'' 7000000 ''n''))
       else None)\<rparr>"

theorem capability_token_roundtrip_witness:
  "verify_capability_token sample_codec sample_signer
     (sign_capability_token sample_codec sample_signer ''e'' ''d'' [''pay''] ''gw'' 7000000 ''n'') =
   Inr (token_payload ''e'' ''d'' [''pay''] ''gw'' 7000000 ''n'')"
  by (rule capability_token_roundtrip)
     (simp_all add: sample_codec_def sample_signer_def token_header_def token_payload_def)

text \<open>
  Tokens are authenticated. A token is only accepted if it consists of exactly three segments
  and the signer verifies the third as a signature over the first two under the algorithm and key
  the header names; the claims returned are the decoded second segment. No part of an accepted
  token is outside the signature.
\<close>

theorem capability_token_authenticated:
  assumes "verify_capability_token js sg token = Inr claims"
  shows "\<exists>h p s header. token = h @ ''.'' @ p @ ''.'' @ s \<and>
    decode_segment js h = Some (JObj header) \<and> decode_segment js p = Some (JObj claims) \<and>
    jget header ''typ'' = JStr ''acp-cap+jwt'' \<and>
    sg_verify sg (h @ ''.'' @ p) \<lparr>ss_algorithm = header_get header ''alg'',
      ss_key_id = header_get header ''kid'', ss_value = s\<rparr>"
proof -
  obtain h p s where parts: "split_on (CHR ''.'') token = [h, p, s]"
    using assms by (auto simp: verify_capability_token_def split: list.splits)
  have "join_str ''.'' (split_on (CHR ''.'') token) = token" by (rule join_split)
  then have token: "token = h @ ''.'' @ p @ ''.'' @ s" by (simp add: parts)
  obtain header where "decode_segment js h = Some (JObj header)" "decode_segment js p = Some (JObj claims)"
    "jget header ''typ'' = JStr ''acp-cap+jwt''"
    "sg_verify sg (h @ ''.'' @ p) \<lparr>ss_algorithm = header_get header ''alg'',
      ss_key_id = header_get header ''kid'', ss_value = s\<rparr>"
    using assms
    by (auto simp: verify_capability_token_def parts split: option.splits json.splits if_splits)
  then show ?thesis using token by blast
qed

theorem capability_token_authenticated_witness:
  "\<exists>h p s. sign_capability_token sample_codec sample_signer ''e'' ''d'' [''pay''] ''gw'' 7000000 ''n'' =
     h @ ''.'' @ p @ ''.'' @ s \<and> s = ''sig''"
proof -
  have "verify_capability_token sample_codec sample_signer
     (sign_capability_token sample_codec sample_signer ''e'' ''d'' [''pay''] ''gw'' 7000000 ''n'') =
     Inr (token_payload ''e'' ''d'' [''pay''] ''gw'' 7000000 ''n'')"
    by code_simp
  from capability_token_authenticated[OF this] show ?thesis
    by (auto simp: sample_signer_def)
qed

end
