(* ===== verification/Auth.thy ===== *)
theory Auth
  imports CapabilityToken "HOL-Library.Char_ord" "HOL-Library.List_Lexorder"
begin

text \<open>
  \<open>src/app/services/auth.py\<close> with \<open>models/access.py\<close>: users, roles, memberships and service
  principals; development bearer tokens (HMAC) and OIDC tokens (JWKS of an issuer, cached); the
  session a token gives and the permissions it carries. HMAC-SHA256, the JSON codec, the HTTP client
  and the verification of a signature with a public key are parameters. Lower-casing is that of ASCII.
\<close>

section \<open>Rows, settings and errors\<close>

datatype auth_error =
    AuthenticationError string
  | AuthorizationError string
  | AuthValidationError string
  | AuthConflictError string
  | AuthPyError string

type_synonym 'a auth = "auth_error + 'a"

datatype principal_status = PR_active | PR_suspended

datatype role_scope = SC_platform | SC_tenant

fun scope_value :: "role_scope \<Rightarrow> string" where
  "scope_value SC_platform = ''platform''"
| "scope_value SC_tenant = ''tenant''"

record user_row =
  us_user_id :: ident
  us_email :: string
  us_display_name :: string
  us_identity_provider_subject :: "string option"
  us_platform_role_ids :: "ident list"
  us_auth_metadata :: dict
  us_status :: principal_status

record role_row =
  ro_role_id :: ident
  ro_role_key :: string
  ro_tenant_id :: "ident option"
  ro_scope :: role_scope
  ro_name :: string
  ro_description :: "string option"
  ro_permissions :: "string list"
  ro_is_system :: bool
  ro_created_at :: time

record membership_row =
  me_membership_id :: ident
  me_tenant_id :: ident
  me_user_id :: ident
  me_role_ids :: "ident list"
  me_status :: principal_status

record service_principal_row =
  sp_service_principal_id :: ident
  sp_principal_key :: string
  sp_tenant_id :: "ident option"
  sp_display_name :: string
  sp_description :: "string option"
  sp_role_ids :: "ident list"
  sp_auth_mode :: string
  sp_status :: principal_status
  sp_auth_metadata :: dict

text \<open>
  A public key as the cryptography library is given it: the bytes of \<open>e\<close> and \<open>n\<close>, or of \<open>x\<close>. A cached key
  set lists keys by \<open>kid\<close>. \<open>ad_tenants\<close> are the identifiers of the tenants table, which another service
  fills; \<open>ad_jwks_cache\<close> is the cache of the process, by issuer.
\<close>

datatype public_key = PK_RSA string string | PK_Ed25519 string

record cached_jwks =
  cj_keys :: "(string \<times> dict) list"
  cj_fetched_at :: time

record auth_db =
  ad_tenants :: "ident list"
  ad_roles :: "role_row list"
  ad_users :: "user_row list"
  ad_memberships :: "membership_row list"
  ad_service_principals :: "service_principal_row list"
  ad_jwks_cache :: "(string \<times> cached_jwks) list"
  ad_next_uuid :: nat

record auth_settings =
  as_auth_mode :: string
  as_environment :: string
  as_bootstrap_admin_token :: string
  as_operator_token_ttl :: int
  as_service_token_ttl :: int
  as_dev_signing_secret :: string
  as_oidc_issuer_url :: string
  as_oidc_client_id :: string

text \<open>
  \<open>ae_hmac\<close> is HMAC-SHA256 of a text under a secret, both in UTF-8; \<open>ae_http_get\<close> the JSON document at
  a URL, \<open>None\<close> where the request or the parse raises; \<open>ae_public_key_ok\<close> says whether the cryptography
  library accepts a key and \<open>ae_verify\<close> whether a signature of a message verifies under it;
  \<open>ae_int_of_str\<close> is \<open>int\<close> of a text; \<open>ae_json_text\<close> is the text the database gives for a JSON value
  that is no string.
\<close>

record auth_env =
  ae_now :: time
  ae_uuid :: "nat \<Rightarrow> ident"
  ae_settings :: auth_settings
  ae_disable_bootstrap :: string
  ae_hmac :: "string \<Rightarrow> string \<Rightarrow> string"
  ae_codec :: json_codec
  ae_http_get :: "string \<Rightarrow> json option"
  ae_public_key_ok :: "public_key \<Rightarrow> bool"
  ae_verify :: "public_key \<Rightarrow> string \<Rightarrow> string \<Rightarrow> bool"
  ae_int_of_str :: "string \<Rightarrow> int option"
  ae_json_text :: "json \<Rightarrow> string"

record auth_session =
  se_principal_type :: string
  se_principal_id :: ident
  se_display_name :: string
  se_token_kind :: string
  se_auth_mode :: string
  se_issued_at :: time
  se_expires_at :: time
  se_platform_roles :: "string list"
  se_platform_permissions :: "string list"
  se_tenant_roles :: "(ident \<times> string list) list"
  se_tenant_permissions :: "(ident \<times> string list) list"

definition platform_admin_manage :: string where
  "platform_admin_manage = ''platform.admin.manage''"

section \<open>Sessions\<close>

definition session_tenant_ids :: "auth_session \<Rightarrow> ident list" where
  "session_tenant_ids s = sort (map fst (se_tenant_permissions s))"

definition is_platform_admin :: "auth_session \<Rightarrow> bool" where
  "is_platform_admin s \<longleftrightarrow> platform_admin_manage \<in> set (se_platform_permissions s)"

definition has_platform_permission :: "auth_session \<Rightarrow> string \<Rightarrow> bool" where
  "has_platform_permission s p \<longleftrightarrow> p \<in> set (se_platform_permissions s)"

definition has_any_tenant_access :: "auth_session \<Rightarrow> ident \<Rightarrow> bool" where
  "has_any_tenant_access s t \<longleftrightarrow> is_platform_admin s \<or> t \<in> set (map fst (se_tenant_permissions s))"

definition has_tenant_permission :: "auth_session \<Rightarrow> ident \<Rightarrow> string \<Rightarrow> bool" where
  "has_tenant_permission s t p \<longleftrightarrow>
     is_platform_admin s \<or>
     (case map_of (se_tenant_permissions s) t of None \<Rightarrow> False | Some ps \<Rightarrow> p \<in> set ps)"

definition require_platform_permission :: "auth_session \<Rightarrow> string \<Rightarrow> unit auth" where
  "require_platform_permission s p =
     (if has_platform_permission s p then Inr ()
      else Inl (AuthorizationError ''principal lacks required platform permission''))"

definition require_tenant_access :: "auth_session \<Rightarrow> ident \<Rightarrow> unit auth" where
  "require_tenant_access s t =
     (if has_any_tenant_access s t then Inr ()
      else Inl (AuthorizationError ''principal has no access to tenant''))"

definition require_tenant_permission :: "auth_session \<Rightarrow> ident \<Rightarrow> string \<Rightarrow> unit auth" where
  "require_tenant_permission s t p =
     (if has_tenant_permission s t p then Inr ()
      else Inl (AuthorizationError ''principal lacks required tenant permission''))"

definition require_tenant_query_scope :: "auth_session \<Rightarrow> ident option \<Rightarrow> string \<Rightarrow> ident option auth" where
  "require_tenant_query_scope s t p =
     (if is_platform_admin s then Inr t
      else (case (case t of Some x \<Rightarrow> Inr x
                  | None \<Rightarrow> (case session_tenant_ids s of
                               [x] \<Rightarrow> Inr x
                             | _ \<Rightarrow> Inl (AuthorizationError ''tenant_id is required for non-platform queries''))) of
              Inl e \<Rightarrow> Inl e
            | Inr x \<Rightarrow> (case require_tenant_permission s x p of Inl e \<Rightarrow> Inl e | Inr _ \<Rightarrow> Inr (Some x))))"

section \<open>Roles\<close>

definition lower_table :: "(char \<times> char) list" where
  "lower_table = zip ''ABCDEFGHIJKLMNOPQRSTUVWXYZ'' ''abcdefghijklmnopqrstuvwxyz''"

definition py_lower :: "string \<Rightarrow> string" where
  "py_lower s = map (\<lambda>c. case map_of lower_table c of None \<Rightarrow> c | Some l \<Rightarrow> l) s"

definition normalized_name :: "string \<Rightarrow> string" where
  "normalized_name s = map (\<lambda>c. if c = CHR '' '' then CHR ''_'' else c) (py_lower (strip s))"

definition str_or_default :: "string option \<Rightarrow> string \<Rightarrow> string" where
  "str_or_default t z = (case t of None \<Rightarrow> z | Some s \<Rightarrow> if s = [] then z else s)"

definition role_key :: "role_scope \<Rightarrow> string \<Rightarrow> ident option \<Rightarrow> string" where
  "role_key scope name tid = scope_value scope @ '':'' @ str_or_default tid ''_global'' @ '':'' @ normalized_name name"

definition service_principal_key :: "ident option \<Rightarrow> string \<Rightarrow> string" where
  "service_principal_key tid name = str_or_default tid ''_platform'' @ '':'' @ normalized_name name"

definition normalize_email :: "string \<Rightarrow> string auth" where
  "normalize_email e =
     (let n = py_lower (strip e)
      in if n = [] \<or> CHR ''@'' \<notin> set n then Inl (AuthValidationError ''email must be a valid-looking address'')
         else Inr n)"

definition system_role_definitions :: "(role_scope \<times> string \<times> string \<times> string list) list" where
  "system_role_definitions =
     [(SC_platform, ''platform_admin'', ''Full platform administration for Actenon Cloud.'',
        [''platform.admin.manage'', ''platform.tenants.manage'', ''platform.auth.manage'', ''platform.audit.read'']),
      (SC_tenant, ''tenant_admin'', ''Full tenant-level administration for finance control-plane workflows.'',
        [''tenant.membership.manage'', ''tenant.policy.read'', ''tenant.policy.write'', ''tenant.action_intent.read'',
         ''tenant.action_intent.write'', ''tenant.approval.read'', ''tenant.approval.write'', ''tenant.evidence.read'',
         ''tenant.evidence.write'', ''tenant.issuance.read'', ''tenant.issuance.write'', ''tenant.escrow.read'',
         ''tenant.escrow.write'', ''tenant.receipt.read'', ''tenant.receipt.write'', ''tenant.audit.read'']),
      (SC_tenant, ''policy_admin'', ''Can manage workflow policy definitions within a tenant.'',
        [''tenant.policy.read'', ''tenant.policy.write'', ''tenant.action_intent.read'']),
      (SC_tenant, ''audit_viewer'', ''Can review searchable finance traces, receipts, and audit exports.'',
        [''tenant.action_intent.read'', ''tenant.receipt.read'', ''tenant.audit.read'']),
      (SC_tenant, ''service_operator'', ''Service-to-service operator for issuance, escrow, receipt, and audit hooks.'',
        [''tenant.action_intent.read'', ''tenant.issuance.read'', ''tenant.issuance.write'', ''tenant.escrow.read'',
         ''tenant.escrow.write'', ''tenant.receipt.read'', ''tenant.receipt.write'', ''tenant.audit.read''])]"

definition auth_new_id :: "auth_env \<Rightarrow> auth_db \<Rightarrow> ident" where
  "auth_new_id env d = ae_uuid env (ad_next_uuid d)"

definition add_role :: "role_row \<Rightarrow> auth_db \<Rightarrow> auth_db" where
  "add_role r d = d\<lparr>ad_roles := tinsert r (ad_roles d), ad_next_uuid := Suc (ad_next_uuid d)\<rparr>"

definition role_by_key :: "string \<Rightarrow> auth_db \<Rightarrow> role_row option" where
  "role_by_key k d = tget ro_role_key k (ad_roles d)"

fun add_system_roles ::
  "auth_env \<Rightarrow> (role_scope \<times> string \<times> string \<times> string list) list \<Rightarrow> auth_db \<Rightarrow> role_row list \<times> auth_db" where
  "add_system_roles env [] d = ([], d)"
| "add_system_roles env ((scope, name, description, ps) # defs) d =
     (let k = role_key scope name None
      in case role_by_key k d of
           Some r \<Rightarrow> (let (rs, d') = add_system_roles env defs d in (r # rs, d'))
         | None \<Rightarrow>
             (let r = \<lparr>ro_role_id = auth_new_id env d, ro_role_key = k, ro_tenant_id = None, ro_scope = scope,
                       ro_name = name, ro_description = Some description, ro_permissions = ps, ro_is_system = True,
                       ro_created_at = ae_now env\<rparr>;
                  (rs, d') = add_system_roles env defs (add_role r d)
              in (r # rs, d')))"

definition ensure_system_roles :: "auth_env \<Rightarrow> auth_db \<Rightarrow> role_row list \<times> auth_db" where
  "ensure_system_roles env d =
     (let (rs, d') = add_system_roles env system_role_definitions d
      in if length (ad_roles d') = length (ad_roles d) then (rs, d')
         else (sort_key ro_name [r \<leftarrow> ad_roles d'. ro_is_system r], d'))"

definition with_system_roles :: "auth_env \<Rightarrow> auth_db \<Rightarrow> auth_db" where
  "with_system_roles env d = snd (ensure_system_roles env d)"

definition get_system_role :: "role_scope \<Rightarrow> string \<Rightarrow> auth_db \<Rightarrow> role_row auth" where
  "get_system_role scope name d =
     (case List.find (\<lambda>r. ro_scope r = scope \<and> ro_name r = name \<and> ro_is_system r) (ad_roles d) of
        None \<Rightarrow> Inl (AuthValidationError ''system role is missing'') | Some r \<Rightarrow> Inr r)"

definition get_platform_admin_role :: "auth_env \<Rightarrow> auth_db \<Rightarrow> role_row auth \<times> auth_db" where
  "get_platform_admin_role env d =
     (let d1 = with_system_roles env d in (get_system_role SC_platform ''platform_admin'' d1, d1))"

text \<open>A dictionary by role identifier, in the order of the query.\<close>

definition resolve_role_map :: "ident list \<Rightarrow> auth_db \<Rightarrow> role_row list auth" where
  "resolve_role_map rids d =
     (let rs = [r \<leftarrow> ad_roles d. ro_role_id r \<in> set rids]
      in if list_all (\<lambda>i. i \<in> set (map ro_role_id rs)) rids then Inr rs
         else Inl (AuthenticationError ''unknown role ids in principal assignment''))"

fun permissions_from_roles :: "role_row list \<Rightarrow> role_scope \<Rightarrow> ident option \<Rightarrow> string list auth" where
  "permissions_from_roles [] scope tid = Inr []"
| "permissions_from_roles (r # rs) scope tid =
     (if ro_scope r \<noteq> scope then Inl (AuthenticationError ''role has unexpected scope'')
      else if scope = SC_tenant \<and> ro_tenant_id r \<noteq> None \<and> ro_tenant_id r \<noteq> tid
      then Inl (AuthenticationError ''role is bound to a different tenant'')
      else (case permissions_from_roles rs scope tid of
              Inl e \<Rightarrow> Inl e | Inr ps \<Rightarrow> Inr (ro_permissions r @ ps)))"

definition check_platform_role :: "role_row \<Rightarrow> auth_error option" where
  "check_platform_role r =
     (if ro_scope r \<noteq> SC_platform
      then Some (AuthValidationError ''role is not a platform-scoped role assignment'') else None)"

definition validate_platform_role_ids :: "ident list \<Rightarrow> auth_db \<Rightarrow> ident list auth" where
  "validate_platform_role_ids rids d =
     (case resolve_role_map rids d of
        Inl e \<Rightarrow> Inl e
      | Inr rs \<Rightarrow> (case first_error check_platform_role rs of Some e \<Rightarrow> Inl e | None \<Rightarrow> Inr rids))"

definition check_tenant_role :: "ident \<Rightarrow> role_row \<Rightarrow> auth_error option" where
  "check_tenant_role t r =
     (if ro_scope r \<noteq> SC_tenant then Some (AuthValidationError ''role is not a tenant-scoped role'')
      else if ro_tenant_id r \<noteq> None \<and> ro_tenant_id r \<noteq> Some t
      then Some (AuthValidationError ''role belongs to a different tenant scope'') else None)"

definition validate_tenant_role_ids :: "ident \<Rightarrow> ident list \<Rightarrow> auth_db \<Rightarrow> ident list auth" where
  "validate_tenant_role_ids t rids d =
     (case resolve_role_map rids d of
        Inl e \<Rightarrow> Inl e
      | Inr rs \<Rightarrow> (case first_error (check_tenant_role t) rs of Some e \<Rightarrow> Inl e | None \<Rightarrow> Inr rids))"

definition get_user :: "ident \<Rightarrow> auth_db \<Rightarrow> user_row auth" where
  "get_user i d = (case tget us_user_id i (ad_users d) of
     None \<Rightarrow> Inl (AuthValidationError ''user was not found'') | Some u \<Rightarrow> Inr u)"

definition auth_get_tenant :: "ident \<Rightarrow> auth_db \<Rightarrow> ident auth" where
  "auth_get_tenant t d = (if t \<in> set (ad_tenants d) then Inr t else Inl (AuthValidationError ''tenant was not found''))"

definition get_service_principal :: "ident \<Rightarrow> auth_db \<Rightarrow> service_principal_row auth" where
  "get_service_principal i d = (case tget sp_service_principal_id i (ad_service_principals d) of
     None \<Rightarrow> Inl (AuthValidationError ''service principal was not found'') | Some p \<Rightarrow> Inr p)"

section \<open>Administration\<close>

definition email_user :: "string \<Rightarrow> auth_db \<Rightarrow> user_row option" where
  "email_user e d = tget us_email e (ad_users d)"

definition add_user :: "user_row \<Rightarrow> auth_db \<Rightarrow> auth_db" where
  "add_user u d = d\<lparr>ad_users := tinsert u (ad_users d), ad_next_uuid := Suc (ad_next_uuid d)\<rparr>"

definition create_user ::
  "auth_env \<Rightarrow> string \<Rightarrow> string \<Rightarrow> ident list \<Rightarrow> string option \<Rightarrow> dict \<Rightarrow> auth_db \<Rightarrow> user_row auth \<times> auth_db" where
  "create_user env email name rids subject metadata d0 =
     (let d = with_system_roles env d0
      in case normalize_email email of
           Inl e \<Rightarrow> (Inl e, d)
         | Inr n \<Rightarrow>
             if email_user n d \<noteq> None then (Inl (AuthConflictError ''user already exists''), d)
             else (case validate_platform_role_ids rids d of
                     Inl e \<Rightarrow> (Inl e, d)
                   | Inr ids \<Rightarrow>
                       let u = \<lparr>us_user_id = auth_new_id env d, us_email = n, us_display_name = strip name,
                                us_identity_provider_subject = subject, us_platform_role_ids = ids,
                                us_auth_metadata = metadata, us_status = PR_active\<rparr>
                       in (Inr u, add_user u d)))"

definition list_users :: "auth_db \<Rightarrow> user_row list" where
  "list_users d = ad_users d"

definition create_role ::
  "auth_env \<Rightarrow> string \<Rightarrow> role_scope \<Rightarrow> string list \<Rightarrow> string option \<Rightarrow> ident option \<Rightarrow> auth_db \<Rightarrow>
   role_row auth \<times> auth_db" where
  "create_role env name scope ps description tid d0 =
     (let d = with_system_roles env d0
      in if scope = SC_platform \<and> tid \<noteq> None
         then (Inl (AuthValidationError ''platform roles must not be bound to a tenant''), d)
         else if scope = SC_tenant \<and> tid = None
         then (Inl (AuthValidationError ''custom tenant roles must specify tenant_id''), d)
         else (case (case tid of None \<Rightarrow> Inr [] | Some t \<Rightarrow> auth_get_tenant t d) of
                 Inl e \<Rightarrow> (Inl e, d)
               | Inr _ \<Rightarrow>
                   if role_by_key (role_key scope name tid) d \<noteq> None
                   then (Inl (AuthConflictError ''role already exists for the requested scope''), d)
                   else let r = \<lparr>ro_role_id = auth_new_id env d, ro_role_key = role_key scope name tid,
                                 ro_tenant_id = tid, ro_scope = scope, ro_name = strip name,
                                 ro_description = description, ro_permissions = sort (remdups ps),
                                 ro_is_system = False, ro_created_at = ae_now env\<rparr>
                        in (Inr r, add_role r d)))"

definition list_roles ::
  "auth_env \<Rightarrow> role_scope option \<Rightarrow> ident option \<Rightarrow> auth_db \<Rightarrow> role_row list \<times> auth_db" where
  "list_roles env scope tid d0 =
     (let d = with_system_roles env d0;
          rs = [r \<leftarrow> ad_roles d. (scope = None \<or> scope = Some (ro_scope r)) \<and>
                  (tid = None \<or> ro_tenant_id r = tid \<or> ro_tenant_id r = None)]
      in (sort_key (\<lambda>r. scope_value (ro_scope r)) (sort_key ro_name (sort_key ro_created_at rs)), d))"

definition find_membership :: "ident \<Rightarrow> ident \<Rightarrow> auth_db \<Rightarrow> membership_row option" where
  "find_membership t u d = List.find (\<lambda>m. me_tenant_id m = t \<and> me_user_id m = u) (ad_memberships d)"

definition create_membership ::
  "auth_env \<Rightarrow> ident \<Rightarrow> ident \<Rightarrow> ident list \<Rightarrow> auth_db \<Rightarrow> membership_row auth \<times> auth_db" where
  "create_membership env t u rids d0 =
     (let d = with_system_roles env d0
      in case auth_get_tenant t d of Inl e \<Rightarrow> (Inl e, d) | Inr _ \<Rightarrow>
        (case get_user u d of Inl e \<Rightarrow> (Inl e, d) | Inr _ \<Rightarrow>
        (case validate_tenant_role_ids t rids d of
           Inl e \<Rightarrow> (Inl e, d)
         | Inr ids \<Rightarrow>
             (case find_membership t u d of
                None \<Rightarrow>
                  let m = \<lparr>me_membership_id = auth_new_id env d, me_tenant_id = t, me_user_id = u,
                           me_role_ids = ids, me_status = PR_active\<rparr>
                  in (Inr m, d\<lparr>ad_memberships := tinsert m (ad_memberships d), ad_next_uuid := Suc (ad_next_uuid d)\<rparr>)
              | Some m \<Rightarrow>
                  let f = (\<lambda>m. m\<lparr>me_role_ids := ids, me_status := PR_active\<rparr>)
                  in (Inr (f m), d\<lparr>ad_memberships := tmodify me_membership_id (me_membership_id m) f (ad_memberships d)\<rparr>)))))"

definition list_memberships :: "ident \<Rightarrow> auth_db \<Rightarrow> membership_row list auth" where
  "list_memberships t d =
     (case auth_get_tenant t d of
        Inl e \<Rightarrow> Inl e | Inr _ \<Rightarrow> Inr [m \<leftarrow> ad_memberships d. me_tenant_id m = t])"

definition create_service_principal ::
  "auth_env \<Rightarrow> ident option \<Rightarrow> string \<Rightarrow> string option \<Rightarrow> ident list \<Rightarrow> dict \<Rightarrow> auth_db \<Rightarrow>
   service_principal_row auth \<times> auth_db" where
  "create_service_principal env tid name description rids metadata d0 =
     (let d = with_system_roles env d0
      in case (case tid of
                 None \<Rightarrow> validate_platform_role_ids rids d
               | Some t \<Rightarrow> (case auth_get_tenant t d of Inl e \<Rightarrow> Inl e | Inr _ \<Rightarrow> validate_tenant_role_ids t rids d)) of
           Inl e \<Rightarrow> (Inl e, d)
         | Inr ids \<Rightarrow>
             let k = service_principal_key tid (strip name)
             in if tget sp_principal_key k (ad_service_principals d) \<noteq> None
                then (Inl (AuthConflictError ''service principal already exists for the requested scope''), d)
                else let p = \<lparr>sp_service_principal_id = auth_new_id env d, sp_principal_key = k, sp_tenant_id = tid,
                              sp_display_name = strip name, sp_description = description, sp_role_ids = ids,
                              sp_auth_mode = as_auth_mode (ae_settings env), sp_status = PR_active,
                              sp_auth_metadata = metadata\<rparr>
                     in (Inr p, d\<lparr>ad_service_principals := tinsert p (ad_service_principals d),
                                  ad_next_uuid := Suc (ad_next_uuid d)\<rparr>))"

definition list_service_principals :: "ident option \<Rightarrow> auth_db \<Rightarrow> service_principal_row list" where
  "list_service_principals tid d = [p \<leftarrow> ad_service_principals d. tid = None \<or> sp_tenant_id p = tid]"

section \<open>The session of a principal\<close>

text \<open>\<open>d[k] = v\<close> on the dictionaries by tenant.\<close>

definition put_entry :: "ident \<Rightarrow> 'v \<Rightarrow> (ident \<times> 'v) list \<Rightarrow> (ident \<times> 'v) list" where
  "put_entry k v d = (k, v) # [p \<leftarrow> d. fst p \<noteq> k]"

definition sorted_names :: "role_row list \<Rightarrow> string list" where
  "sorted_names rs = sort (map ro_name rs)"

fun membership_grants ::
  "membership_row list \<Rightarrow> (ident \<times> string list) list \<Rightarrow> (ident \<times> string list) list \<Rightarrow> auth_db \<Rightarrow>
   ((ident \<times> string list) list \<times> (ident \<times> string list) list) auth" where
  "membership_grants [] names perms d = Inr (names, perms)"
| "membership_grants (m # ms) names perms d =
     (case resolve_role_map (me_role_ids m) d of
        Inl e \<Rightarrow> Inl e
      | Inr rs \<Rightarrow>
          (case permissions_from_roles rs SC_tenant (Some (me_tenant_id m)) of
             Inl e \<Rightarrow> Inl e
           | Inr ps \<Rightarrow> membership_grants ms (put_entry (me_tenant_id m) (sorted_names rs) names)
                          (put_entry (me_tenant_id m) ps perms) d))"

definition session_for_user ::
  "auth_env \<Rightarrow> ident \<Rightarrow> time \<Rightarrow> time \<Rightarrow> auth_db \<Rightarrow> auth_session auth" where
  "session_for_user env uid issued expires d =
     (case get_user uid d of
        Inl e \<Rightarrow> Inl e
      | Inr u \<Rightarrow>
          if us_status u \<noteq> PR_active then Inl (AuthenticationError ''user is not active'')
          else (case resolve_role_map (us_platform_role_ids u) d of Inl e \<Rightarrow> Inl e | Inr rs \<Rightarrow>
               (case permissions_from_roles rs SC_platform None of Inl e \<Rightarrow> Inl e | Inr ps \<Rightarrow>
               (case membership_grants
                       [m \<leftarrow> ad_memberships d. me_user_id m = uid \<and> me_status m = PR_active] [] [] d of
                  Inl e \<Rightarrow> Inl e
                | Inr (names, perms) \<Rightarrow>
                    Inr \<lparr>se_principal_type = ''user'', se_principal_id = us_user_id u,
                         se_display_name = us_display_name u, se_token_kind = ''operator'',
                         se_auth_mode = as_auth_mode (ae_settings env), se_issued_at = issued,
                         se_expires_at = expires, se_platform_roles = sorted_names rs,
                         se_platform_permissions = ps, se_tenant_roles = names,
                         se_tenant_permissions = perms\<rparr>))))"

definition session_for_service_principal :: "ident \<Rightarrow> time \<Rightarrow> time \<Rightarrow> auth_db \<Rightarrow> auth_session auth" where
  "session_for_service_principal pid issued expires d =
     (case get_service_principal pid d of
        Inl e \<Rightarrow> Inl e
      | Inr p \<Rightarrow>
          if sp_status p \<noteq> PR_active then Inl (AuthenticationError ''service principal is not active'')
          else (case resolve_role_map (sp_role_ids p) d of Inl e \<Rightarrow> Inl e | Inr rs \<Rightarrow>
               (let prs = [r \<leftarrow> rs. ro_scope r = SC_platform]; trs = [r \<leftarrow> rs. ro_scope r = SC_tenant]
                in case permissions_from_roles prs SC_platform None of Inl e \<Rightarrow> Inl e | Inr ps \<Rightarrow>
                  (case (case sp_tenant_id p of
                           None \<Rightarrow> Inr ([], [])
                         | Some t \<Rightarrow>
                             (case permissions_from_roles trs SC_tenant (Some t) of
                                Inl e \<Rightarrow> Inl e
                              | Inr tps \<Rightarrow> Inr ([(t, sorted_names trs)], [(t, tps)]))) of
                     Inl e \<Rightarrow> Inl e
                   | Inr (names, perms) \<Rightarrow>
                       Inr \<lparr>se_principal_type = ''service_principal'', se_principal_id = sp_service_principal_id p,
                            se_display_name = sp_display_name p, se_token_kind = ''service'',
                            se_auth_mode = sp_auth_mode p, se_issued_at = issued, se_expires_at = expires,
                            se_platform_roles = sorted_names prs, se_platform_permissions = ps,
                            se_tenant_roles = names, se_tenant_permissions = perms\<rparr>))))"

text \<open>\<open>role_map[role_id]\<close>, present since the map resolved.\<close>

definition tenant_roles_of :: "ident list \<Rightarrow> ident \<Rightarrow> auth_db \<Rightarrow> ident list auth" where
  "tenant_roles_of rids t d =
     (case resolve_role_map rids d of
        Inl e \<Rightarrow> Inl e
      | Inr rs \<Rightarrow> Inr [i \<leftarrow> rids. (case tget ro_role_id i rs of
                                   None \<Rightarrow> False
                                 | Some r \<Rightarrow> ro_scope r = SC_tenant \<and> (ro_tenant_id r = None \<or> ro_tenant_id r = Some t))])"

definition tenant_role_ids_for_session :: "auth_session \<Rightarrow> ident \<Rightarrow> auth_db \<Rightarrow> ident list auth" where
  "tenant_role_ids_for_session s t d =
     (if se_principal_type s = ''user''
      then (case List.find (\<lambda>m. me_tenant_id m = t \<and> me_user_id m = se_principal_id s \<and> me_status m = PR_active)
                   (ad_memberships d) of
              None \<Rightarrow> Inr []
            | Some m \<Rightarrow> tenant_roles_of (me_role_ids m) t d)
      else if se_principal_type s = ''service_principal''
      then (case get_service_principal (se_principal_id s) d of
              Inl e \<Rightarrow> Inl e
            | Inr p \<Rightarrow>
                if sp_status p \<noteq> PR_active \<or> sp_tenant_id p \<noteq> Some t then Inr []
                else tenant_roles_of (sp_role_ids p) t d)
      else Inl (AuthValidationError ''principal type is not supported''))"

end
