(* ===== verification/AuthTokens.thy ===== *)
theory AuthTokens
  imports Auth
begin

text \<open>
  The bearer tokens of \<open>src/app/services/auth.py\<close>: development tokens, their issue and their check;
  the verification of an OIDC token against the key set its issuer publishes, with the cache of key
  sets; the authentication of a bearer and the bootstrap of the first platform administrator. Then the
  handlers of \<open>src/app/api/auth.py\<close> and \<open>src/app/api/admin.py\<close>, as requests made with a bearer.
\<close>

section \<open>Instants in claims\<close>

text \<open>\<open>int\<close> of a JSON value that is a number: towards zero.\<close>

definition int_of_rat :: "rat \<Rightarrow> int" where
  "int_of_rat q = (if q < 0 then \<lceil>q\<rceil> else \<lfloor>q\<rfloor>)"

definition round_half_even :: "rat \<Rightarrow> int" where
  "round_half_even q =
     (let n = \<lfloor>q\<rfloor>; f = q - of_int n
      in if f < 1 / 2 then n else if 1 / 2 < f then n + 1 else if even n then n else n + 1)"

text \<open>
  \<open>datetime.fromtimestamp(q, tz=UTC)\<close>: the nearest microsecond, \<open>ValueError\<close> outside the years 1 to 9999.
\<close>

definition from_timestamp :: "rat \<Rightarrow> time auth" where
  "from_timestamp q =
     (let us = round_half_even (q * 1000000)
      in if -62135596800000000 \<le> us \<and> us \<le> 253402300799999999 then Inr us
         else Inl (AuthPyError ''year is out of range''))"

definition py_int :: "auth_env \<Rightarrow> json \<Rightarrow> int auth" where
  "py_int env v =
     (case num_of v of
        Some q \<Rightarrow> Inr (int_of_rat q)
      | None \<Rightarrow> (case v of
                   JStr s \<Rightarrow> (case ae_int_of_str env s of
                                None \<Rightarrow> Inl (AuthPyError ''invalid literal for int()'') | Some i \<Rightarrow> Inr i)
                 | _ \<Rightarrow> Inl (AuthPyError ''int() argument must be a string or a real number'')))"

text \<open>\<open>datetime.fromtimestamp(payload[k], tz=UTC)\<close>.\<close>

definition claim_instant :: "dict \<Rightarrow> string \<Rightarrow> time auth" where
  "claim_instant payload k =
     (case num_of (jget payload k) of
        None \<Rightarrow> Inl (AuthPyError ''timestamp must be a number'') | Some q \<Rightarrow> from_timestamp q)"

section \<open>Development tokens\<close>

record issued_token =
  it_access_token :: string
  it_token_type :: string
  it_expires_at :: time

definition development_claims :: "string \<Rightarrow> ident \<Rightarrow> string \<Rightarrow> time \<Rightarrow> time \<Rightarrow> dict" where
  "development_claims ptype pid kind issued expires =
     [(''v'', JInt 1), (''principal_type'', JStr ptype), (''principal_id'', JStr pid), (''token_kind'', JStr kind),
      (''iat'', JInt (issued div 1000000)), (''exp'', JInt (expires div 1000000))]"

definition development_mac :: "auth_env \<Rightarrow> string \<Rightarrow> string" where
  "development_mac env part = ae_hmac env (as_dev_signing_secret (ae_settings env)) part"

definition encode_development_token :: "auth_env \<Rightarrow> dict \<Rightarrow> string" where
  "encode_development_token env payload =
     (let part = b64url_encode (js_dumps (ae_codec env) (JObj payload))
      in ''acp1.'' @ part @ ''.'' @ b64url_encode (development_mac env part))"

definition issue_token :: "auth_env \<Rightarrow> string \<Rightarrow> ident \<Rightarrow> string \<Rightarrow> int \<Rightarrow> issued_token" where
  "issue_token env ptype pid kind lifetime =
     (let expires = ae_now env + seconds lifetime
      in \<lparr>it_access_token = encode_development_token env (development_claims ptype pid kind (ae_now env) expires),
          it_token_type = ''bearer'', it_expires_at = expires\<rparr>)"

text \<open>
  \<open>_b64_decode\<close> raises \<open>binascii.Error\<close>, which only the JSON step of the code would not catch either:
  it leaves the function as it is.
\<close>

definition decode_development_token :: "auth_env \<Rightarrow> string \<Rightarrow> dict auth" where
  "decode_development_token env token =
     (case split_on (CHR ''.'') token of
        [version, part, tag] \<Rightarrow>
          if version \<noteq> ''acp1'' then Inl (AuthenticationError ''bearer token format is invalid'')
          else (case b64url_decode tag of
                  None \<Rightarrow> Inl (AuthPyError ''binascii.Error'')
                | Some provided \<Rightarrow>
                    if provided \<noteq> development_mac env part
                    then Inl (AuthenticationError ''bearer token signature is invalid'')
                    else (case b64url_decode part of
                            None \<Rightarrow> Inl (AuthPyError ''binascii.Error'')
                          | Some bytes \<Rightarrow>
                              (case js_loads (ae_codec env) bytes of
                                 Some (JObj payload) \<Rightarrow>
                                   if jget payload ''exp'' = JNull \<or> jget payload ''iat'' = JNull
                                   then Inl (AuthenticationError ''bearer token is missing expiry metadata'')
                                   else (case py_int env (jget payload ''exp'') of
                                           Inl e \<Rightarrow> Inl e
                                         | Inr n \<Rightarrow> if seconds n \<le> ae_now env
                                                    then Inl (AuthenticationError ''bearer token has expired'')
                                                    else Inr payload)
                               | _ \<Rightarrow> Inl (AuthenticationError ''bearer token payload is invalid''))))
      | _ \<Rightarrow> Inl (AuthenticationError ''bearer token format is invalid''))"

definition ensure_development_auth_enabled :: "auth_env \<Rightarrow> auth_error option" where
  "ensure_development_auth_enabled env =
     (if as_auth_mode (ae_settings env) \<noteq> ''development_signed_bearer''
      then Some (AuthValidationError ''development token issuance endpoints are unavailable'')
      else if as_environment (ae_settings env) \<notin> {''local'', ''test''}
      then Some (AuthValidationError ''development bearer token issuance is only enabled in local and test'')
      else None)"

text \<open>\<open>expires_in_seconds or default\<close>.\<close>

definition lifetime_or :: "int option \<Rightarrow> int \<Rightarrow> int" where
  "lifetime_or n z = (case n of None \<Rightarrow> z | Some i \<Rightarrow> if i = 0 then z else i)"

definition issue_operator_token :: "auth_env \<Rightarrow> ident \<Rightarrow> int option \<Rightarrow> auth_db \<Rightarrow> issued_token auth" where
  "issue_operator_token env uid lifetime d =
     (case ensure_development_auth_enabled env of Some e \<Rightarrow> Inl e | None \<Rightarrow>
     (case get_user uid d of
        Inl e \<Rightarrow> Inl e
      | Inr u \<Rightarrow> if us_status u \<noteq> PR_active
                 then Inl (AuthorizationError ''operator tokens may only be issued for active users'')
                 else Inr (issue_token env ''user'' (us_user_id u) ''operator''
                        (lifetime_or lifetime (as_operator_token_ttl (ae_settings env))))))"

definition issue_service_token :: "auth_env \<Rightarrow> ident \<Rightarrow> int option \<Rightarrow> auth_db \<Rightarrow> issued_token auth" where
  "issue_service_token env pid lifetime d =
     (case ensure_development_auth_enabled env of Some e \<Rightarrow> Inl e | None \<Rightarrow>
     (case get_service_principal pid d of
        Inl e \<Rightarrow> Inl e
      | Inr p \<Rightarrow> if sp_status p \<noteq> PR_active
                 then Inl (AuthorizationError ''service tokens may only be issued for active service principals'')
                 else Inr (issue_token env ''service_principal'' (sp_service_principal_id p) ''service''
                        (lifetime_or lifetime (as_service_token_ttl (ae_settings env))))))"

section \<open>OIDC tokens\<close>

definition oidc_jwks_cache_ttl_seconds :: int where
  "oidc_jwks_cache_ttl_seconds = 300"

definition reset_oidc_jwks_cache :: "auth_db \<Rightarrow> auth_db" where
  "reset_oidc_jwks_cache d = d\<lparr>ad_jwks_cache := []\<rparr>"

fun keys_by_kid :: "json list \<Rightarrow> (string \<times> dict) list \<Rightarrow> (string \<times> dict) list" where
  "keys_by_kid [] keys = keys"
| "keys_by_kid (JObj key # rest) keys =
     (case jget key ''kid'' of
        JStr kid \<Rightarrow> keys_by_kid rest (if kid = [] then keys else put_entry kid key keys)
      | _ \<Rightarrow> keys_by_kid rest keys)"
| "keys_by_kid (_ # rest) keys = keys_by_kid rest keys"

definition rstrip_slash :: "string \<Rightarrow> string" where
  "rstrip_slash s = rev (dropWhile (\<lambda>c. c = CHR ''/'') (rev s))"

definition http_object :: "auth_env \<Rightarrow> string \<Rightarrow> dict auth" where
  "http_object env url =
     (case ae_http_get env url of
        None \<Rightarrow> Inl (AuthPyError ''HTTPError'')
      | Some (JObj doc) \<Rightarrow> Inr doc
      | Some _ \<Rightarrow> Inl (AuthPyError ''AttributeError''))"

definition download_jwks :: "auth_env \<Rightarrow> string \<Rightarrow> (string \<times> dict) list auth" where
  "download_jwks env issuer =
     (case http_object env (rstrip_slash issuer @ ''/.well-known/openid-configuration'') of
        Inl e \<Rightarrow> Inl e
      | Inr config \<Rightarrow>
          (case jget config ''jwks_uri'' of
             JStr uri \<Rightarrow>
               if uri = [] then Inl (AuthenticationError ''OIDC issuer did not advertise a jwks_uri'')
               else (case http_object env uri of
                       Inl e \<Rightarrow> Inl e
                     | Inr doc \<Rightarrow>
                         (case py_or (jget doc ''keys'') (JList []) of
                            JList ks \<Rightarrow> Inr (keys_by_kid ks [])
                          | _ \<Rightarrow> Inl (AuthenticationError ''OIDC issuer returned a malformed JWKS document'')))
           | _ \<Rightarrow> Inl (AuthenticationError ''OIDC issuer did not advertise a jwks_uri'')))"

definition fresh_jwks :: "auth_env \<Rightarrow> cached_jwks \<Rightarrow> bool" where
  "fresh_jwks env c \<longleftrightarrow> ae_now env - cj_fetched_at c < seconds oidc_jwks_cache_ttl_seconds"

definition fetch_oidc_jwks :: "auth_env \<Rightarrow> string \<Rightarrow> auth_db \<Rightarrow> (string \<times> dict) list auth \<times> auth_db" where
  "fetch_oidc_jwks env issuer d =
     (let load = (case download_jwks env issuer of
                    Inl e \<Rightarrow> (Inl e, d)
                  | Inr keys \<Rightarrow>
                      (Inr keys, d\<lparr>ad_jwks_cache :=
                         put_entry issuer \<lparr>cj_keys = keys, cj_fetched_at = ae_now env\<rparr> (ad_jwks_cache d)\<rparr>))
      in case map_of (ad_jwks_cache d) issuer of
           None \<Rightarrow> load
         | Some c \<Rightarrow> if fresh_jwks env c then (Inr (cj_keys c), d) else load)"

definition jwk_bytes :: "dict \<Rightarrow> string \<Rightarrow> string auth" where
  "jwk_bytes jwk k =
     (case map_of jwk k of
        None \<Rightarrow> Inl (AuthPyError ''KeyError'')
      | Some (JStr s) \<Rightarrow> (case b64url_decode s of None \<Rightarrow> Inl (AuthPyError ''binascii.Error'') | Some b \<Rightarrow> Inr b)
      | Some _ \<Rightarrow> Inl (AuthPyError ''TypeError''))"

definition library_key :: "auth_env \<Rightarrow> public_key \<Rightarrow> public_key auth" where
  "library_key env pk = (if ae_public_key_ok env pk then Inr pk else Inl (AuthPyError ''ValueError''))"

definition jwk_to_public_key :: "auth_env \<Rightarrow> dict \<Rightarrow> public_key auth" where
  "jwk_to_public_key env jwk =
     (if jget jwk ''kty'' = JStr ''RSA''
      then (case jwk_bytes jwk ''n'' of Inl e \<Rightarrow> Inl e | Inr n \<Rightarrow>
           (case jwk_bytes jwk ''e'' of Inl e \<Rightarrow> Inl e | Inr e \<Rightarrow> library_key env (PK_RSA e n)))
      else if jget jwk ''kty'' = JStr ''OKP'' \<and> jget jwk ''crv'' = JStr ''Ed25519''
      then (case jwk_bytes jwk ''x'' of Inl e \<Rightarrow> Inl e | Inr x \<Rightarrow> library_key env (PK_Ed25519 x))
      else Inl (AuthenticationError ''unsupported OIDC JWK kty/crv''))"

text \<open>
  The call of \<open>verify\<close> on the key: an RSA key takes the signature, the data, a padding and a hash, an
  Ed25519 key the signature and the data; other arguments raise \<open>TypeError\<close>.
\<close>

definition check_signature :: "auth_env \<Rightarrow> string \<Rightarrow> public_key \<Rightarrow> string \<Rightarrow> string \<Rightarrow> auth_error option" where
  "check_signature env alg pk sig msg =
     (let verdict = (if ae_verify env pk sig msg then None
                     else Some (AuthenticationError ''OIDC token signature is invalid''))
      in if alg = ''RS256'' then (case pk of PK_RSA _ _ \<Rightarrow> verdict | PK_Ed25519 _ \<Rightarrow> Some (AuthPyError ''TypeError''))
         else if alg = ''EdDSA'' then (case pk of PK_Ed25519 _ \<Rightarrow> verdict | PK_RSA _ _ \<Rightarrow> Some (AuthPyError ''TypeError''))
         else if alg = ''ES256'' then Some (AuthPyError ''TypeError'')
         else Some (AuthenticationError ''unsupported OIDC token alg''))"

definition audience_matches :: "json \<Rightarrow> string \<Rightarrow> bool" where
  "audience_matches claim audience \<longleftrightarrow>
     py_eq claim (JStr audience) \<or> (case claim of JList xs \<Rightarrow> py_in (JStr audience) xs | _ \<Rightarrow> False)"

definition check_oidc_claims :: "auth_env \<Rightarrow> dict \<Rightarrow> string \<Rightarrow> string \<Rightarrow> auth_error option" where
  "check_oidc_claims env payload issuer audience =
     (if \<not> py_eq (jget payload ''iss'') (JStr issuer)
      then Some (AuthenticationError ''OIDC token iss claim does not match the configured issuer'')
      else if audience \<noteq> [] \<and> \<not> audience_matches (jget payload ''aud'') audience
      then Some (AuthenticationError ''OIDC token aud claim does not include the configured client id'')
      else (case num_of (jget payload ''exp'') of
              None \<Rightarrow> Some (AuthenticationError ''OIDC token has expired or is missing exp'')
            | Some q \<Rightarrow> if seconds (int_of_rat q) \<le> ae_now env
                        then Some (AuthenticationError ''OIDC token has expired or is missing exp'') else None))"

text \<open>The signing input, the header, the payload and the signature of a JWT.\<close>

definition jwt_segments :: "json_codec \<Rightarrow> string \<Rightarrow> (string \<times> dict \<times> dict \<times> string) auth" where
  "jwt_segments js token =
     (case split_on (CHR ''.'') token of
        [h, p, s] \<Rightarrow>
          (case (decode_segment js h, decode_segment js p, b64url_decode s) of
             (Some (JObj header), Some (JObj payload), Some sig) \<Rightarrow> Inr (h @ ''.'' @ p, header, payload, sig)
           | (Some _, Some _, Some _) \<Rightarrow> Inl (AuthenticationError ''OIDC token segments must be JSON objects'')
           | _ \<Rightarrow> Inl (AuthenticationError ''OIDC token segments are malformed''))
      | _ \<Rightarrow> Inl (AuthenticationError ''OIDC token must be a JWT with three segments''))"

definition jwt_alg_kid :: "dict \<Rightarrow> (string \<times> string) auth" where
  "jwt_alg_kid header =
     (case (jget header ''alg'', jget header ''kid'') of
        (JStr alg, JStr kid) \<Rightarrow>
          if alg = [] \<or> kid = [] then Inl (AuthenticationError ''OIDC token header must declare alg and kid'')
          else Inr (alg, kid)
      | _ \<Rightarrow> Inl (AuthenticationError ''OIDC token header must declare alg and kid''))"

definition check_with_keys ::
  "auth_env \<Rightarrow> (string \<times> dict) list \<Rightarrow> string \<Rightarrow> string \<Rightarrow> string \<Rightarrow> string \<Rightarrow> dict \<Rightarrow> string \<Rightarrow> string \<Rightarrow>
   dict auth" where
  "check_with_keys env keys alg kid sig msg payload issuer audience =
     (case map_of keys kid of
        None \<Rightarrow> Inl (AuthenticationError ''OIDC token kid not found in issuer JWKS'')
      | Some jwk \<Rightarrow>
          (case jwk_to_public_key env jwk of
             Inl e \<Rightarrow> Inl e
           | Inr pk \<Rightarrow>
               (case check_signature env alg pk sig msg of
                  Some e \<Rightarrow> Inl e
                | None \<Rightarrow> (case check_oidc_claims env payload issuer audience of
                             Some e \<Rightarrow> Inl e | None \<Rightarrow> Inr payload))))"

definition verify_oidc_jwt ::
  "auth_env \<Rightarrow> string \<Rightarrow> string \<Rightarrow> string \<Rightarrow> auth_db \<Rightarrow> dict auth \<times> auth_db" where
  "verify_oidc_jwt env token issuer audience d =
     (case jwt_segments (ae_codec env) token of
        Inl e \<Rightarrow> (Inl e, d)
      | Inr (msg, header, payload, sig) \<Rightarrow>
          (case jwt_alg_kid header of
             Inl e \<Rightarrow> (Inl e, d)
           | Inr (alg, kid) \<Rightarrow>
               (case fetch_oidc_jwks env issuer d of
                  (Inl e, d1) \<Rightarrow> (Inl e, d1)
                | (Inr keys, d1) \<Rightarrow> (check_with_keys env keys alg kid sig msg payload issuer audience, d1))))"

definition verify_oidc_token :: "auth_env \<Rightarrow> string \<Rightarrow> auth_db \<Rightarrow> dict auth \<times> auth_db" where
  "verify_oidc_token env token d =
     (if strip (as_oidc_issuer_url (ae_settings env)) = []
      then (Inl (AuthenticationError ''OIDC token verification requires oidc_issuer_url to be configured''), d)
      else verify_oidc_jwt env token (as_oidc_issuer_url (ae_settings env)) (as_oidc_client_id (ae_settings env)) d)"

text \<open>
  \<open>iat\<close> and \<open>exp\<close> in whole seconds; a value that is no number is replaced by the default.
\<close>

definition oidc_instant :: "json \<Rightarrow> time \<Rightarrow> time auth" where
  "oidc_instant v z = (case num_of v of None \<Rightarrow> Inr z | Some q \<Rightarrow> from_timestamp (of_int (int_of_rat q)))"

text \<open>\<open>auth_metadata ->> 'oidc_sub'\<close>: the text of a member, absent where the member is absent or null.\<close>

definition metadata_subject :: "auth_env \<Rightarrow> dict \<Rightarrow> string option" where
  "metadata_subject env md =
     (case jget md ''oidc_sub'' of JNull \<Rightarrow> None | JStr s \<Rightarrow> Some s | v \<Rightarrow> Some (ae_json_text env v))"

definition session_for_subject ::
  "auth_env \<Rightarrow> string \<Rightarrow> time \<Rightarrow> time \<Rightarrow> auth_db \<Rightarrow> auth_session auth" where
  "session_for_subject env subject issued expires d =
     (let service = (case List.find (\<lambda>p. metadata_subject env (sp_auth_metadata p) = Some subject)
                            (ad_service_principals d) of
                       Some p \<Rightarrow> if sp_status p = PR_active
                                  then session_for_service_principal (sp_service_principal_id p) issued expires d
                                  else Inl (AuthenticationError ''OIDC subject is not mapped to an active cloud principal'')
                     | None \<Rightarrow> Inl (AuthenticationError ''OIDC subject is not mapped to an active cloud principal''))
      in case List.find (\<lambda>u. us_identity_provider_subject u = Some subject) (ad_users d) of
           Some u \<Rightarrow> if us_status u = PR_active then session_for_user env (us_user_id u) issued expires d else service
         | None \<Rightarrow> service)"

definition authenticate_external_managed_bearer ::
  "auth_env \<Rightarrow> string \<Rightarrow> auth_db \<Rightarrow> auth_session auth \<times> auth_db" where
  "authenticate_external_managed_bearer env token d =
     (case verify_oidc_token env token d of
        (Inl e, d1) \<Rightarrow> (Inl e, d1)
      | (Inr claims, d1) \<Rightarrow>
          ((case jget claims ''sub'' of
              JStr subject \<Rightarrow>
                if subject = [] then Inl (AuthenticationError ''OIDC token is missing a subject claim'')
                else (case oidc_instant (jget claims ''iat'') (ae_now env) of Inl e \<Rightarrow> Inl e | Inr issued \<Rightarrow>
                     (case oidc_instant (jget claims ''exp'')
                             (issued + seconds (as_operator_token_ttl (ae_settings env))) of
                        Inl e \<Rightarrow> Inl e
                      | Inr expires \<Rightarrow> session_for_subject env subject issued expires d1))
            | _ \<Rightarrow> Inl (AuthenticationError ''OIDC token is missing a subject claim'')), d1))"

section \<open>Authentication\<close>

text \<open>\<open>payload[k]\<close> of a claim that is compared with, or looked up as, a text.\<close>

definition claim_of :: "dict \<Rightarrow> string \<Rightarrow> json auth" where
  "claim_of payload k = (case map_of payload k of None \<Rightarrow> Inl (AuthPyError ''KeyError'') | Some v \<Rightarrow> Inr v)"

text \<open>A key that is no text has no row: the lookup of the database refuses it.\<close>

definition principal_session ::
  "(ident \<Rightarrow> auth_session auth) \<Rightarrow> json \<Rightarrow> auth_session auth" where
  "principal_session session pid =
     (case pid of JStr i \<Rightarrow> session i | _ \<Rightarrow> Inl (AuthPyError ''invalid identifier''))"

definition session_for_claims :: "auth_env \<Rightarrow> dict \<Rightarrow> auth_db \<Rightarrow> auth_session auth" where
  "session_for_claims env payload d =
     (case claim_instant payload ''iat'' of Inl e \<Rightarrow> Inl e | Inr issued \<Rightarrow>
     (case claim_instant payload ''exp'' of Inl e \<Rightarrow> Inl e | Inr expires \<Rightarrow>
     (case claim_of payload ''principal_type'' of Inl e \<Rightarrow> Inl e | Inr ptype \<Rightarrow>
     (case claim_of payload ''principal_id'' of Inl e \<Rightarrow> Inl e | Inr pid \<Rightarrow>
     (case claim_of payload ''token_kind'' of Inl e \<Rightarrow> Inl e | Inr kind \<Rightarrow>
        if ptype = JStr ''user''
        then (if kind \<noteq> JStr ''operator'' then Inl (AuthenticationError ''user token kind is invalid'')
              else principal_session (\<lambda>i. session_for_user env i issued expires d) pid)
        else if ptype = JStr ''service_principal''
        then (if kind \<noteq> JStr ''service'' then Inl (AuthenticationError ''service token kind is invalid'')
              else principal_session (\<lambda>i. session_for_service_principal i issued expires d) pid)
        else Inl (AuthenticationError ''token principal type is unsupported''))))))"

definition authenticate_bearer_token ::
  "auth_env \<Rightarrow> string \<Rightarrow> auth_db \<Rightarrow> auth_session auth \<times> auth_db" where
  "authenticate_bearer_token env token d0 =
     (let d = with_system_roles env d0
      in if as_auth_mode (ae_settings env) = ''external_managed_bearer''
         then authenticate_external_managed_bearer env token d
         else (if as_auth_mode (ae_settings env) \<noteq> ''development_signed_bearer''
               then Inl (AuthenticationError ''unsupported auth mode'')
               else if as_environment (ae_settings env) = ''production''
               then Inl (AuthenticationError ''development signed bearer authentication is refused in production'')
               else (case decode_development_token env token of
                       Inl e \<Rightarrow> Inl e | Inr payload \<Rightarrow> session_for_claims env payload d), d))"

section \<open>Bootstrap\<close>

definition bootstrap_disabled :: "auth_env \<Rightarrow> bool" where
  "bootstrap_disabled env \<longleftrightarrow> py_lower (ae_disable_bootstrap env) \<in> {''1'', ''true'', ''yes''}"

definition active_admins :: "ident \<Rightarrow> auth_db \<Rightarrow> user_row list" where
  "active_admins rid d = [u \<leftarrow> list_users d. rid \<in> set (us_platform_role_ids u) \<and> us_status u = PR_active]"

text \<open>The user row after the bootstrap and the database it is written to.\<close>

definition bootstrap_user :: "auth_env \<Rightarrow> string \<Rightarrow> string \<Rightarrow> ident \<Rightarrow> auth_db \<Rightarrow> user_row \<times> auth_db" where
  "bootstrap_user env email name rid d =
     (case email_user email d of
        None \<Rightarrow>
          (let u = \<lparr>us_user_id = auth_new_id env d, us_email = email, us_display_name = strip name,
                    us_identity_provider_subject = None, us_platform_role_ids = [rid],
                    us_auth_metadata = [(''bootstrap_created'', JBool True)], us_status = PR_active\<rparr>
           in (u, add_user u d))
      | Some u \<Rightarrow>
          if rid \<in> set (us_platform_role_ids u) then (u, d)
          else (let f = (\<lambda>u. u\<lparr>us_platform_role_ids := us_platform_role_ids u @ [rid], us_status := PR_active\<rparr>)
                in (f u, d\<lparr>ad_users := tmodify us_user_id (us_user_id u) f (ad_users d)\<rparr>)))"

definition bootstrap_platform_admin ::
  "auth_env \<Rightarrow> string \<Rightarrow> string \<Rightarrow> string \<Rightarrow> auth_db \<Rightarrow> (user_row \<times> issued_token) auth \<times> auth_db" where
  "bootstrap_platform_admin env token email name d0 =
     (if bootstrap_disabled env
      then (Inl (AuthValidationError ''bootstrap admin is disabled by ACTENON_DISABLE_BOOTSTRAP_ADMIN''), d0)
      else (case ensure_development_auth_enabled env of Some e \<Rightarrow> (Inl e, d0) | None \<Rightarrow>
        (let d = with_system_roles env d0
         in if token \<noteq> as_bootstrap_admin_token (ae_settings env)
            then (Inl (AuthenticationError ''bootstrap token is invalid''), d)
            else (case get_system_role SC_platform ''platform_admin'' d of Inl e \<Rightarrow> (Inl e, d) | Inr r \<Rightarrow>
                 (case normalize_email email of Inl e \<Rightarrow> (Inl e, d) | Inr n \<Rightarrow>
                    if list_ex (\<lambda>u. us_email u \<noteq> n) (active_admins (ro_role_id r) d)
                    then (Inl (AuthConflictError ''platform admin bootstrap has already been completed''), d)
                    else (let (u, d1) = bootstrap_user env n name (ro_role_id r) d
                          in ((case issue_operator_token env (us_user_id u) None d1 of
                                 Inl e \<Rightarrow> Inl e | Inr tok \<Rightarrow> Inr (u, tok)), d1)))))))"

end
