(* ===== verification/AdminApi.thy ===== *)
theory AdminApi
  imports AuthTokens
begin

text \<open>
  The handlers of \<open>src/app/api/admin.py\<close> and \<open>src/app/api/auth.py\<close> and the dependency
  \<open>get_current_session\<close> of \<open>src/app/api/dependencies.py\<close>: who may ask for what, and the HTTP status of
  every error of the service. A request body is one the framework has validated. Row-level security
  contexts are settings of the database connection and not part of the model. At the end, the steps
  of the access administration: a request, a bootstrap, and the changes of rows made elsewhere.
\<close>

section \<open>Responses\<close>

text \<open>\<open>HttpCrash\<close> is an exception no handler catches, which the framework answers with 500.\<close>

datatype http_error = HttpStatus nat | HttpCrash

type_synonym 'a http = "http_error + 'a"

definition respond :: "(auth_error \<Rightarrow> nat option) \<Rightarrow> 'a auth \<Rightarrow> 'a http" where
  "respond caught r =
     (case r of
        Inr x \<Rightarrow> Inr x
      | Inl e \<Rightarrow> Inl (case caught e of Some n \<Rightarrow> HttpStatus n | None \<Rightarrow> HttpCrash))"

fun admin_status :: "auth_error \<Rightarrow> nat option" where
  "admin_status (AuthorizationError _) = Some 403"
| "admin_status (AuthValidationError _) = Some 400"
| "admin_status (AuthConflictError _) = Some 409"
| "admin_status _ = None"

fun membership_status :: "auth_error \<Rightarrow> nat option" where
  "membership_status (AuthorizationError _) = Some 403"
| "membership_status (AuthValidationError _) = Some 400"
| "membership_status _ = None"

fun forbidden_status :: "auth_error \<Rightarrow> nat option" where
  "forbidden_status (AuthorizationError _) = Some 403"
| "forbidden_status _ = None"

fun token_status :: "auth_error \<Rightarrow> nat option" where
  "token_status (AuthorizationError _) = Some 403"
| "token_status (AuthValidationError _) = Some 404"
| "token_status _ = None"

fun bootstrap_status :: "auth_error \<Rightarrow> nat option" where
  "bootstrap_status (AuthenticationError _) = Some 403"
| "bootstrap_status (AuthorizationError _) = Some 403"
| "bootstrap_status (AuthValidationError _) = Some 409"
| "bootstrap_status (AuthConflictError _) = Some 409"
| "bootstrap_status (AuthPyError _) = None"

fun bearer_status :: "auth_error \<Rightarrow> nat option" where
  "bearer_status (AuthenticationError _) = Some 401"
| "bearer_status _ = None"

text \<open>The \<open>Authorization\<close> header, as a scheme and a credential.\<close>

type_synonym credentials = "(string \<times> string) option"

definition get_current_session :: "auth_env \<Rightarrow> credentials \<Rightarrow> auth_db \<Rightarrow> auth_session http \<times> auth_db" where
  "get_current_session env cred d =
     (case cred of
        None \<Rightarrow> (Inl (HttpStatus 401), d)
      | Some (scheme, token) \<Rightarrow>
          if py_lower scheme \<noteq> ''bearer'' then (Inl (HttpStatus 401), d)
          else (case authenticate_bearer_token env token d of (r, d1) \<Rightarrow> (respond bearer_status r, d1)))"

section \<open>Handlers\<close>

definition platform_auth_manage :: string where
  "platform_auth_manage = ''platform.auth.manage''"

definition tenant_membership_manage :: string where
  "tenant_membership_manage = ''tenant.membership.manage''"

text \<open>A guard and then the service call, inside one \<open>try\<close>.\<close>

definition guarded ::
  "(auth_error \<Rightarrow> nat option) \<Rightarrow> unit auth \<Rightarrow> (auth_db \<Rightarrow> 'a auth \<times> auth_db) \<Rightarrow> auth_db \<Rightarrow> 'a http \<times> auth_db" where
  "guarded caught guard call d =
     (case guard of
        Inl e \<Rightarrow> (respond caught (Inl e), d)
      | Inr _ \<Rightarrow> (case call d of (r, d1) \<Rightarrow> (respond caught r, d1)))"

definition api_create_user ::
  "auth_env \<Rightarrow> auth_session \<Rightarrow> string \<Rightarrow> string \<Rightarrow> ident list \<Rightarrow> string option \<Rightarrow> dict \<Rightarrow> auth_db \<Rightarrow>
   user_row http \<times> auth_db" where
  "api_create_user env s email name rids subject metadata =
     guarded admin_status (require_platform_permission s platform_auth_manage)
       (create_user env email name rids subject metadata)"

definition api_list_users :: "auth_session \<Rightarrow> auth_db \<Rightarrow> user_row list http \<times> auth_db" where
  "api_list_users s =
     guarded forbidden_status (require_platform_permission s platform_auth_manage) (\<lambda>d. (Inr (list_users d), d))"

definition api_create_role ::
  "auth_env \<Rightarrow> auth_session \<Rightarrow> string \<Rightarrow> role_scope \<Rightarrow> ident option \<Rightarrow> string option \<Rightarrow> string list \<Rightarrow> auth_db \<Rightarrow>
   role_row http \<times> auth_db" where
  "api_create_role env s name scope tid description ps =
     guarded admin_status
       (if scope = SC_platform then require_platform_permission s platform_auth_manage
        else (case tid of
                None \<Rightarrow> Inl (AuthValidationError ''tenant_id is required for tenant-scoped roles'')
              | Some t \<Rightarrow> require_tenant_permission s t tenant_membership_manage))
       (create_role env name scope ps description tid)"

definition api_list_roles ::
  "auth_env \<Rightarrow> auth_session \<Rightarrow> role_scope option \<Rightarrow> ident option \<Rightarrow> auth_db \<Rightarrow> role_row list http \<times> auth_db" where
  "api_list_roles env s scope tid d =
     (if is_platform_admin s
      then (case list_roles env scope tid d of (rs, d1) \<Rightarrow> (Inr rs, d1))
      else (case require_tenant_query_scope s tid tenant_membership_manage of
              Inl e \<Rightarrow> (respond forbidden_status (Inl e), d)
            | Inr t \<Rightarrow> (case list_roles env scope t d of (rs, d1) \<Rightarrow> (Inr rs, d1))))"

definition api_create_membership ::
  "auth_env \<Rightarrow> auth_session \<Rightarrow> ident \<Rightarrow> ident \<Rightarrow> ident list \<Rightarrow> auth_db \<Rightarrow> membership_row http \<times> auth_db" where
  "api_create_membership env s t u rids =
     guarded membership_status (require_tenant_permission s t tenant_membership_manage)
       (create_membership env t u rids)"

text \<open>The call stands outside the \<open>try\<close> of the guard.\<close>

definition api_list_memberships :: "auth_session \<Rightarrow> ident \<Rightarrow> auth_db \<Rightarrow> membership_row list http \<times> auth_db" where
  "api_list_memberships s t d =
     (case require_tenant_permission s t tenant_membership_manage of
        Inl e \<Rightarrow> (respond forbidden_status (Inl e), d)
      | Inr _ \<Rightarrow> (respond (\<lambda>_. None) (list_memberships t d), d))"

definition api_create_service_principal ::
  "auth_env \<Rightarrow> auth_session \<Rightarrow> ident option \<Rightarrow> string \<Rightarrow> string option \<Rightarrow> ident list \<Rightarrow> dict \<Rightarrow> auth_db \<Rightarrow>
   service_principal_row http \<times> auth_db" where
  "api_create_service_principal env s tid name description rids metadata =
     guarded admin_status
       (case tid of
          None \<Rightarrow> require_platform_permission s platform_auth_manage
        | Some t \<Rightarrow> require_tenant_permission s t tenant_membership_manage)
       (create_service_principal env tid name description rids metadata)"

definition api_list_service_principals ::
  "auth_session \<Rightarrow> ident option \<Rightarrow> auth_db \<Rightarrow> service_principal_row list http \<times> auth_db" where
  "api_list_service_principals s tid =
     guarded forbidden_status
       (case tid of
          None \<Rightarrow> require_platform_permission s platform_auth_manage
        | Some t \<Rightarrow> require_tenant_permission s t tenant_membership_manage)
       (\<lambda>d. (Inr (list_service_principals tid d), d))"

text \<open>A token is issued and authenticated once for the answer.\<close>

definition issue_and_open ::
  "auth_env \<Rightarrow> issued_token auth \<Rightarrow> auth_db \<Rightarrow> (issued_token \<times> auth_session) auth \<times> auth_db" where
  "issue_and_open env tok d =
     (case tok of
        Inl e \<Rightarrow> (Inl e, d)
      | Inr t \<Rightarrow>
          (case authenticate_bearer_token env (it_access_token t) d of
             (Inl e, d1) \<Rightarrow> (Inl e, d1) | (Inr s, d1) \<Rightarrow> (Inr (t, s), d1)))"

definition api_issue_operator_token ::
  "auth_env \<Rightarrow> auth_session \<Rightarrow> ident \<Rightarrow> int option \<Rightarrow> auth_db \<Rightarrow> (issued_token \<times> auth_session) http \<times> auth_db" where
  "api_issue_operator_token env s uid lifetime =
     guarded token_status (require_platform_permission s platform_auth_manage)
       (\<lambda>d. issue_and_open env (issue_operator_token env uid lifetime d) d)"

definition api_issue_service_token ::
  "auth_env \<Rightarrow> auth_session \<Rightarrow> ident \<Rightarrow> int option \<Rightarrow> auth_db \<Rightarrow> (issued_token \<times> auth_session) http \<times> auth_db" where
  "api_issue_service_token env s pid lifetime =
     guarded token_status (require_platform_permission s platform_auth_manage)
       (\<lambda>d. issue_and_open env (issue_service_token env pid lifetime d) d)"

definition api_bootstrap_platform_admin ::
  "auth_env \<Rightarrow> string option \<Rightarrow> string \<Rightarrow> string \<Rightarrow> auth_db \<Rightarrow> (issued_token \<times> auth_session) http \<times> auth_db" where
  "api_bootstrap_platform_admin env header email name d =
     (case bootstrap_platform_admin env (str_or_default header []) email name d of
        (Inl e, d1) \<Rightarrow> (respond bootstrap_status (Inl e), d1)
      | (Inr (u, tok), d1) \<Rightarrow>
          (case issue_and_open env (Inr tok) d1 of (r, d2) \<Rightarrow> (respond bootstrap_status r, d2)))"

section \<open>Requests\<close>

datatype api_request =
    PostUser string string "ident list" "string option" dict
  | GetUsers
  | PostRole string role_scope "ident option" "string option" "string list"
  | GetRoles "role_scope option" "ident option"
  | PostMembership ident ident "ident list"
  | GetMemberships ident
  | PostServicePrincipal "ident option" string "string option" "ident list" dict
  | GetServicePrincipals "ident option"
  | PostOperatorToken ident "int option"
  | PostServiceToken ident "int option"
  | GetSession

text \<open>The status line and the state a request leaves; \<open>reply\<close> forgets the body.\<close>

definition reply :: "'a http \<times> auth_db \<Rightarrow> http_error option \<times> auth_db" where
  "reply r = (case r of (Inl e, d) \<Rightarrow> (Some e, d) | (Inr _, d) \<Rightarrow> (None, d))"

fun handle :: "auth_env \<Rightarrow> auth_session \<Rightarrow> api_request \<Rightarrow> auth_db \<Rightarrow> http_error option \<times> auth_db" where
  "handle env s (PostUser email name rids subject md) d = reply (api_create_user env s email name rids subject md d)"
| "handle env s GetUsers d = reply (api_list_users s d)"
| "handle env s (PostRole name scope tid description ps) d =
     reply (api_create_role env s name scope tid description ps d)"
| "handle env s (GetRoles scope tid) d = reply (api_list_roles env s scope tid d)"
| "handle env s (PostMembership t u rids) d = reply (api_create_membership env s t u rids d)"
| "handle env s (GetMemberships t) d = reply (api_list_memberships s t d)"
| "handle env s (PostServicePrincipal tid name description rids md) d =
     reply (api_create_service_principal env s tid name description rids md d)"
| "handle env s (GetServicePrincipals tid) d = reply (api_list_service_principals s tid d)"
| "handle env s (PostOperatorToken uid lifetime) d = reply (api_issue_operator_token env s uid lifetime d)"
| "handle env s (PostServiceToken pid lifetime) d = reply (api_issue_service_token env s pid lifetime d)"
| "handle env s GetSession d = (None, d)"

definition serve ::
  "auth_env \<Rightarrow> credentials \<Rightarrow> api_request \<Rightarrow> auth_db \<Rightarrow> http_error option \<times> auth_db" where
  "serve env cred req d =
     (case get_current_session env cred d of
        (Inl e, d1) \<Rightarrow> (Some e, d1)
      | (Inr s, d1) \<Rightarrow> handle env s req d1)"

section \<open>Steps\<close>

text \<open>
  No operation of the service suspends a principal, and tenants are created elsewhere: those are changes
  of the tables the service only reads.
\<close>

inductive access_step :: "(nat \<Rightarrow> ident) \<Rightarrow> auth_db \<Rightarrow> auth_db \<Rightarrow> bool" for u where
  serve: "ae_uuid env = u \<Longrightarrow> serve env cred req d = (r, d') \<Longrightarrow> access_step u d d'"
| bootstrap: "ae_uuid env = u \<Longrightarrow> api_bootstrap_platform_admin env header email name d = (r, d') \<Longrightarrow>
    access_step u d d'"
| cache_reset: "access_step u d (reset_oidc_jwks_cache d)"
| tenant: "access_step u d (d\<lparr>ad_tenants := ad_tenants d @ [t]\<rparr>)"
| user_status: "access_step u d (d\<lparr>ad_users := tmodify us_user_id i (\<lambda>r. r\<lparr>us_status := st\<rparr>) (ad_users d)\<rparr>)"
| membership_status: "access_step u d
    (d\<lparr>ad_memberships := tmodify me_membership_id i (\<lambda>m. m\<lparr>me_status := st\<rparr>) (ad_memberships d)\<rparr>)"
| principal_status: "access_step u d
    (d\<lparr>ad_service_principals :=
        tmodify sp_service_principal_id i (\<lambda>p. p\<lparr>sp_status := st\<rparr>) (ad_service_principals d)\<rparr>)"

definition empty_auth_db :: auth_db where
  "empty_auth_db = \<lparr>ad_tenants = [], ad_roles = [], ad_users = [], ad_memberships = [],
     ad_service_principals = [], ad_jwks_cache = [], ad_next_uuid = 0\<rparr>"

definition access_reachable :: "(nat \<Rightarrow> ident) \<Rightarrow> auth_db \<Rightarrow> bool" where
  "access_reachable u d \<longleftrightarrow> (access_step u)\<^sup>*\<^sup>* empty_auth_db d"

end
