(* ===== verification/AccessControl.thy ===== *)
theory AccessControl
  imports AdminApi
begin

text \<open>
  What the access administration guarantees: every change of its tables is one of a few writes, each
  under the authority of the platform or of one tenant; assignments always resolve to roles of their
  scope; a session carries exactly the permissions its principal is granted; nobody changes grants
  outside their authority; and which bearer tokens are accepted.
\<close>

section \<open>Grants\<close>

text \<open>
  The grants of the tables, independent of how a session is computed: an active principal has a
  permission on the platform, or in a tenant, through a role of that scope it is assigned.
\<close>

definition role_usable :: "role_scope \<Rightarrow> ident option \<Rightarrow> role_row \<Rightarrow> bool" where
  "role_usable scope tid r \<longleftrightarrow> 
     ro_scope r = scope \<and> (scope = SC_platform \<or> ro_tenant_id r = None \<or> ro_tenant_id r = tid)"

definition roles_grant :: "auth_db \<Rightarrow> role_scope \<Rightarrow> ident option \<Rightarrow> ident list \<Rightarrow> string \<Rightarrow> bool" where
  "roles_grant d scope tid rids p \<longleftrightarrow>
     list_ex (\<lambda>r. ro_role_id r \<in> set rids \<and> role_usable scope tid r \<and> p \<in> set (ro_permissions r)) (ad_roles d)"

definition platform_grant :: "auth_db \<Rightarrow> string \<Rightarrow> ident \<Rightarrow> string \<Rightarrow> bool" where
  "platform_grant d ptype i p \<longleftrightarrow>
     (ptype = ''user'' \<and>
      list_ex (\<lambda>u. us_user_id u = i \<and> us_status u = PR_active \<and>
                   roles_grant d SC_platform None (us_platform_role_ids u) p) (ad_users d)) \<or>
     (ptype = ''service_principal'' \<and>
      list_ex (\<lambda>s. sp_service_principal_id s = i \<and> sp_status s = PR_active \<and> sp_tenant_id s = None \<and>
                   roles_grant d SC_platform None (sp_role_ids s) p) (ad_service_principals d))"

definition tenant_grant :: "auth_db \<Rightarrow> string \<Rightarrow> ident \<Rightarrow> ident \<Rightarrow> string \<Rightarrow> bool" where
  "tenant_grant d ptype i t p \<longleftrightarrow>
     (ptype = ''user'' \<and>
      list_ex (\<lambda>u. us_user_id u = i \<and> us_status u = PR_active) (ad_users d) \<and>
      list_ex (\<lambda>m. me_user_id m = i \<and> me_tenant_id m = t \<and> me_status m = PR_active \<and>
                   roles_grant d SC_tenant (Some t) (me_role_ids m) p) (ad_memberships d)) \<or>
     (ptype = ''service_principal'' \<and>
      list_ex (\<lambda>s. sp_service_principal_id s = i \<and> sp_status s = PR_active \<and> sp_tenant_id s = Some t \<and>
                   roles_grant d SC_tenant (Some t) (sp_role_ids s) p) (ad_service_principals d))"

section \<open>Writes\<close>

datatype authority = Auth_none | Auth_platform | Auth_tenant ident

definition scope_authority :: "ident option \<Rightarrow> authority" where
  "scope_authority tid = (case tid of None \<Rightarrow> Auth_platform | Some t \<Rightarrow> Auth_tenant t)"

definition authorises :: "auth_session \<Rightarrow> authority \<Rightarrow> bool" where
  "authorises s a =
     (case a of
        Auth_none \<Rightarrow> True
      | Auth_platform \<Rightarrow> has_platform_permission s platform_auth_manage
      | Auth_tenant t \<Rightarrow> has_tenant_permission s t tenant_membership_manage)"

definition role_in :: "auth_db \<Rightarrow> role_scope \<Rightarrow> ident option \<Rightarrow> ident \<Rightarrow> bool" where
  "role_in d scope tid i \<longleftrightarrow> (\<exists>r \<in> set (ad_roles d). ro_role_id r = i \<and> role_usable scope tid r)"

definition rids_ok :: "auth_db \<Rightarrow> ident option \<Rightarrow> ident list \<Rightarrow> bool" where
  "rids_ok d tid rids \<longleftrightarrow>
     (\<forall>i \<in> set rids. role_in d (case tid of None \<Rightarrow> SC_platform | Some _ \<Rightarrow> SC_tenant) tid i)"

definition system_role :: "role_row \<Rightarrow> bool" where
  "system_role r \<longleftrightarrow> ro_tenant_id r = None \<and>
     (\<exists>description. (ro_scope r, ro_name r, description, ro_permissions r) \<in> set system_role_definitions)"

inductive access_write :: "(nat \<Rightarrow> ident) \<Rightarrow> authority \<Rightarrow> auth_db \<Rightarrow> auth_db \<Rightarrow> bool" for u where
  role: "ro_role_id r = u (ad_next_uuid d) \<Longrightarrow> role_by_key (ro_role_key r) d = None \<Longrightarrow>
    (ro_is_system r \<longrightarrow> system_role r) \<Longrightarrow> a = (if ro_is_system r then Auth_none else scope_authority (ro_tenant_id r)) \<Longrightarrow>
    access_write u a d (add_role r d)"
| user: "us_user_id x = u (ad_next_uuid d) \<Longrightarrow> email_user (us_email x) d = None \<Longrightarrow>
    rids_ok d None (us_platform_role_ids x) \<Longrightarrow> access_write u Auth_platform d (add_user x d)"
| admin: "x \<in> set (ad_users d) \<Longrightarrow> role_in d SC_platform None rid \<Longrightarrow>
    access_write u Auth_platform d (d\<lparr>ad_users := tmodify us_user_id (us_user_id x)
      (\<lambda>x. x\<lparr>us_platform_role_ids := us_platform_role_ids x @ [rid], us_status := PR_active\<rparr>) (ad_users d)\<rparr>)"
| new_member: "me_membership_id m = u (ad_next_uuid d) \<Longrightarrow> find_membership (me_tenant_id m) (me_user_id m) d = None \<Longrightarrow>
    rids_ok d (Some (me_tenant_id m)) (me_role_ids m) \<Longrightarrow>
    access_write u (Auth_tenant (me_tenant_id m)) d
      (d\<lparr>ad_memberships := tinsert m (ad_memberships d), ad_next_uuid := Suc (ad_next_uuid d)\<rparr>)"
| member: "m \<in> set (ad_memberships d) \<Longrightarrow> rids_ok d (Some (me_tenant_id m)) ids \<Longrightarrow>
    access_write u (Auth_tenant (me_tenant_id m)) d
      (d\<lparr>ad_memberships := tmodify me_membership_id (me_membership_id m)
          (\<lambda>m. m\<lparr>me_role_ids := ids, me_status := PR_active\<rparr>) (ad_memberships d)\<rparr>)"
| principal: "sp_service_principal_id p = u (ad_next_uuid d) \<Longrightarrow> rids_ok d (sp_tenant_id p) (sp_role_ids p) \<Longrightarrow>
    access_write u (scope_authority (sp_tenant_id p)) d
      (d\<lparr>ad_service_principals := tinsert p (ad_service_principals d), ad_next_uuid := Suc (ad_next_uuid d)\<rparr>)"
| cache: "access_write u Auth_none d (d\<lparr>ad_jwks_cache := c\<rparr>)"

text \<open>Writes a predicate on authorities admits, one after the other.\<close>

definition writes :: "(nat \<Rightarrow> ident) \<Rightarrow> (authority \<Rightarrow> bool) \<Rightarrow> auth_db \<Rightarrow> auth_db \<Rightarrow> bool" where
  "writes u ok = (\<lambda>d d'. \<exists>a. ok a \<and> access_write u a d d')\<^sup>*\<^sup>*"

lemma writes_refl [simp]: "writes u ok d d"
  by (simp add: writes_def)

lemma writes_trans: "writes u ok d d1 \<Longrightarrow> writes u ok d1 d2 \<Longrightarrow> writes u ok d d2"
  unfolding writes_def by (rule rtranclp_trans)

lemma writes_one: "access_write u a d d' \<Longrightarrow> ok a \<Longrightarrow> writes u ok d d'"
  unfolding writes_def by blast

lemma writes_mono: "writes u ok d d' \<Longrightarrow> (\<And>a. ok a \<Longrightarrow> ok' a) \<Longrightarrow> writes u ok' d d'"
  unfolding writes_def by (erule rtranclp_mono[THEN predicate2D, rotated]) blast

lemma writes_induct [consumes 1, case_names base step]:
  assumes "writes u ok d d'" "P d" "\<And>d1 d2 a. P d1 \<Longrightarrow> ok a \<Longrightarrow> access_write u a d1 d2 \<Longrightarrow> P d2"
  shows "P d'"
  using assms unfolding writes_def by (induction rule: rtranclp_induct) blast+

abbreviation nobody :: "authority \<Rightarrow> bool" where
  "nobody a \<equiv> a = Auth_none"

section \<open>Which writes an operation makes\<close>

lemma add_system_roles_writes:
  "set defs \<subseteq> set system_role_definitions \<Longrightarrow> writes (ae_uuid env) nobody d (snd (add_system_roles env defs d))"
proof (induction defs arbitrary: d)
  case (Cons x defs)
  obtain scope name description ps where x: "x = (scope, name, description, ps)" by (metis prod_cases4)
  show ?case
  proof (cases "role_by_key (role_key scope name None) d")
    case None
    let ?r = "\<lparr>ro_role_id = auth_new_id env d, ro_role_key = role_key scope name None, ro_tenant_id = None,
       ro_scope = scope, ro_name = name, ro_description = Some description, ro_permissions = ps,
       ro_is_system = True, ro_created_at = ae_now env\<rparr>"
    have "access_write (ae_uuid env) Auth_none d (add_role ?r d)"
      by (rule role) (use Cons.prems in \<open>auto simp: auth_new_id_def None system_role_def x\<close>)
    from writes_trans[OF writes_one[OF this] Cons.IH[of "add_role ?r d"]] Cons.prems show ?thesis
      using None by (simp add: x Let_def case_prod_beta)
  qed (use Cons.IH[of d] Cons.prems in \<open>simp add: x Let_def case_prod_beta\<close>)
qed simp

lemma with_system_roles_writes: "writes (ae_uuid env) nobody d (with_system_roles env d)"
  using add_system_roles_writes[of system_role_definitions env d]
  by (simp add: with_system_roles_def ensure_system_roles_def Let_def case_prod_beta)

lemma resolved_roles:
  assumes "resolve_role_map rids d = Inr rs"
  shows "rs = [r \<leftarrow> ad_roles d. ro_role_id r \<in> set rids]" "i \<in> set rids \<Longrightarrow> \<exists>r \<in> set rs. ro_role_id r = i"
proof -
  have ok: "list_all (\<lambda>i. i \<in> set (map ro_role_id rs)) rids \<and> rs = [r \<leftarrow> ad_roles d. ro_role_id r \<in> set rids]"
    using assms unfolding resolve_role_map_def Let_def by (metis sum.inject(2) sum.distinct(1))
  then show "rs = [r \<leftarrow> ad_roles d. ro_role_id r \<in> set rids]" by (rule conjunct2)
  show "i \<in> set rids \<Longrightarrow> \<exists>r \<in> set rs. ro_role_id r = i" using conjunct1[OF ok] by (force simp only: list_all_iff set_map)
qed

lemma first_error_role:
  "first_error chk rs = None \<Longrightarrow> r \<in> set rs \<Longrightarrow> chk r = None"
  by (simp add: first_error_None)

lemma validated_platform:
  assumes "validate_platform_role_ids rids d = Inr ids"
  shows "ids = rids \<and> rids_ok d None ids"
proof -
  obtain rs where rs: "resolve_role_map rids d = Inr rs" "first_error check_platform_role rs = None" "ids = rids"
    using assms by (auto simp: validate_platform_role_ids_def split: sum.split_asm option.split_asm)
  have "role_in d SC_platform None i" if i: "i \<in> set rids" for i
  proof -
    obtain r where r: "r \<in> set rs" "ro_role_id r = i" using resolved_roles(2)[OF rs(1) i] by blast
    then show ?thesis
      using first_error_role[OF rs(2) r(1)] resolved_roles(1)[OF rs(1)]
      by (auto simp: role_in_def role_usable_def check_platform_role_def split: if_splits)
  qed
  then show ?thesis by (simp add: rids_ok_def rs(3))
qed

lemma validated_tenant:
  assumes "validate_tenant_role_ids t rids d = Inr ids"
  shows "ids = rids \<and> rids_ok d (Some t) ids"
proof -
  obtain rs where rs: "resolve_role_map rids d = Inr rs" "first_error (check_tenant_role t) rs = None" "ids = rids"
    using assms by (auto simp: validate_tenant_role_ids_def split: sum.split_asm option.split_asm)
  have "role_in d SC_tenant (Some t) i" if i: "i \<in> set rids" for i
  proof -
    obtain r where r: "r \<in> set rs" "ro_role_id r = i" using resolved_roles(2)[OF rs(1) i] by blast
    then show ?thesis
      using first_error_role[OF rs(2) r(1)] resolved_roles(1)[OF rs(1)]
      by (auto simp: role_in_def role_usable_def check_tenant_role_def split: if_splits)
  qed
  then show ?thesis by (simp add: rids_ok_def rs(3))
qed

lemma after_system_roles:
  assumes "d' = with_system_roles env d \<or> access_write (ae_uuid env) a (with_system_roles env d) d' \<and> ok a"
    and "ok Auth_none"
  shows "writes (ae_uuid env) ok d d'"
proof -
  have sys: "writes (ae_uuid env) ok d (with_system_roles env d)"
    by (rule writes_mono[OF with_system_roles_writes]) (use assms(2) in simp)
  from assms(1) show ?thesis
    using sys writes_trans[OF sys writes_one] by blast
qed

lemma create_user_write:
  assumes "create_user env email name rids subject md d = (r, d')"
  shows "d' = with_system_roles env d \<or> access_write (ae_uuid env) Auth_platform (with_system_roles env d) d'"
  using assms unfolding create_user_def Let_def
  by (auto split: sum.split_asm if_split_asm simp: auth_new_id_def intro!: user dest!: validated_platform)

lemma create_role_write:
  assumes "create_role env name scope ps description tid d = (r, d')"
  shows "d' = with_system_roles env d \<or>
    access_write (ae_uuid env) (scope_authority tid) (with_system_roles env d) d' \<and> (scope = SC_platform \<longleftrightarrow> tid = None)"
  using assms unfolding create_role_def Let_def
  by (cases scope) (auto split: sum.split_asm if_split_asm simp: auth_new_id_def intro!: role)

lemma find_membership_row:
  "find_membership t i d = Some m \<Longrightarrow> m \<in> set (ad_memberships d) \<and> me_tenant_id m = t \<and> me_user_id m = i"
  by (auto simp: find_membership_def find_Some_iff)

lemma create_membership_write:
  assumes "create_membership env t i rids d = (r, d')"
  shows "d' = with_system_roles env d \<or> access_write (ae_uuid env) (Auth_tenant t) (with_system_roles env d) d'"
proof -
  let ?d = "with_system_roles env d"
  have new: "access_write (ae_uuid env) (Auth_tenant t) ?d
      (?d\<lparr>ad_memberships := tinsert m (ad_memberships ?d), ad_next_uuid := Suc (ad_next_uuid ?d)\<rparr>)"
    if "m = \<lparr>me_membership_id = auth_new_id env ?d, me_tenant_id = t, me_user_id = i, me_role_ids = ids,
      me_status = PR_active\<rparr>" "find_membership t i ?d = None" "rids_ok ?d (Some t) ids" for m ids
    using new_member[of m "ae_uuid env" ?d] that by (simp add: auth_new_id_def)
  have old: "access_write (ae_uuid env) (Auth_tenant t) ?d
      (?d\<lparr>ad_memberships := tmodify me_membership_id (me_membership_id m)
          (\<lambda>m. m\<lparr>me_role_ids := ids, me_status := PR_active\<rparr>) (ad_memberships ?d)\<rparr>)"
    if "find_membership t i ?d = Some m" "rids_ok ?d (Some t) ids" for m ids
    using member[of m ?d ids] find_membership_row[OF that(1)] that(2) by auto
  show ?thesis
    using assms unfolding create_membership_def Let_def
    by (auto split: sum.split_asm option.split_asm dest!: validated_tenant intro: new old)
qed

lemma create_service_principal_write:
  assumes "create_service_principal env tid name description rids md d = (r, d')"
  shows "d' = with_system_roles env d \<or>
    access_write (ae_uuid env) (scope_authority tid) (with_system_roles env d) d'"
proof (cases tid)
  case None
  then show ?thesis
    using assms unfolding create_service_principal_def Let_def
    by (auto split: sum.split_asm if_split_asm simp: auth_new_id_def dest!: validated_platform
        intro!: principal[where p = "\<lparr>sp_service_principal_id = _, sp_principal_key = _, sp_tenant_id = None,
          sp_display_name = _, sp_description = _, sp_role_ids = _, sp_auth_mode = _, sp_status = _,
          sp_auth_metadata = _\<rparr>", simplified])
next
  case (Some t)
  then show ?thesis
    using assms unfolding create_service_principal_def Let_def
    by (auto split: sum.split_asm if_split_asm simp: auth_new_id_def dest!: validated_tenant
        intro!: principal[where p = "\<lparr>sp_service_principal_id = _, sp_principal_key = _, sp_tenant_id = Some t,
          sp_display_name = _, sp_description = _, sp_role_ids = _, sp_auth_mode = _, sp_status = _,
          sp_auth_metadata = _\<rparr>", simplified])
qed

lemma fetch_writes: "writes u nobody d (snd (fetch_oidc_jwks env issuer d))"
  using writes_one[OF cache[of u d], of nobody]
  by (auto simp: fetch_oidc_jwks_def Let_def split: sum.split option.split)

lemma verify_oidc_writes: "writes u nobody d (snd (verify_oidc_token env token d))"
proof -
  have "writes u nobody d (snd (verify_oidc_jwt env token issuer audience d))" for issuer audience
    using fetch_writes[of u d env issuer] by (auto simp: verify_oidc_jwt_def split: prod.split sum.split)
  then show ?thesis by (simp add: verify_oidc_token_def)
qed

lemma authenticate_writes: "writes (ae_uuid env) nobody d (snd (authenticate_bearer_token env token d))"
proof -
  have "snd (authenticate_external_managed_bearer env token d1) = snd (verify_oidc_token env token d1)" for d1
    by (simp add: authenticate_external_managed_bearer_def split: prod.split sum.split)
  then show ?thesis
    using with_system_roles_writes[of env d]
      writes_trans[OF with_system_roles_writes[of env d] verify_oidc_writes[of "ae_uuid env" _ env token]]
    by (simp add: authenticate_bearer_token_def Let_def)
qed

lemma current_session_writes: "writes (ae_uuid env) nobody d (snd (get_current_session env cred d))"
  using authenticate_writes[of env d]
  by (auto simp: get_current_session_def case_prod_beta split: option.split)

lemma reply_snd [simp]: "snd (reply r) = snd r"
  by (simp add: reply_def split: prod.split sum.split)

lemma guarded_writes:
  assumes "\<And>x. guard = Inr x \<Longrightarrow> writes u ok d (snd (call d))"
  shows "writes u ok d (snd (guarded caught guard call d))"
  using assms by (cases guard) (simp_all add: guarded_def case_prod_beta)

lemma requires:
  "require_platform_permission s p = Inr x \<Longrightarrow> has_platform_permission s p"
  "require_tenant_permission s t p = Inr x \<Longrightarrow> has_tenant_permission s t p"
  by (simp_all add: require_platform_permission_def require_tenant_permission_def split: if_splits)

lemma authorises_simps [simp]:
  "authorises s Auth_none" "authorises s Auth_platform \<longleftrightarrow> has_platform_permission s platform_auth_manage"
  "authorises s (Auth_tenant t) \<longleftrightarrow> has_tenant_permission s t tenant_membership_manage"
  by (simp_all add: authorises_def)

lemma issue_and_open_writes: "writes (ae_uuid env) nobody d (snd (issue_and_open env tok d))"
  using authenticate_writes[of env d]
  by (cases tok) (auto simp: issue_and_open_def case_prod_beta split: prod.split sum.split)

lemma list_roles_writes: "writes (ae_uuid env) nobody d (snd (list_roles env scope tid d))"
  using with_system_roles_writes[of env d] by (simp add: list_roles_def Let_def)

lemma nobody_authorised: "writes u nobody d d' \<Longrightarrow> writes u (authorises s) d d'"
  by (erule writes_mono) simp

lemma create_role_guard:
  "(if scope = SC_platform then require_platform_permission s platform_auth_manage
    else (case tid of None \<Rightarrow> Inl e | Some t \<Rightarrow> require_tenant_permission s t tenant_membership_manage)) = Inr x \<Longrightarrow>
   (scope = SC_platform \<longleftrightarrow> tid = None) \<Longrightarrow> authorises s (scope_authority tid)"
  by (auto simp: scope_authority_def dest: requires split: option.splits if_splits)

lemma principal_guard:
  "(case tid of None \<Rightarrow> require_platform_permission s platform_auth_manage
    | Some t \<Rightarrow> require_tenant_permission s t tenant_membership_manage) = Inr x \<Longrightarrow> authorises s (scope_authority tid)"
  by (auto simp: scope_authority_def dest: requires split: option.splits)

lemma handle_writes: "writes (ae_uuid env) (authorises s) d (snd (handle env s req d))"
proof (cases req)
  case (PostUser email name rids subject md)
  have "writes (ae_uuid env) (authorises s) d (snd (api_create_user env s email name rids subject md d))"
    unfolding api_create_user_def
    by (intro guarded_writes after_system_roles[where a = Auth_platform])
       (use create_user_write[OF prod.collapse[symmetric], of env email name rids subject md d] requires(1) in auto)
  then show ?thesis by (simp add: PostUser)
next
  case (PostRole name scope tid description ps)
  have "writes (ae_uuid env) (authorises s) d (snd (api_create_role env s name scope tid description ps d))"
    unfolding api_create_role_def
    by (intro guarded_writes after_system_roles[where a = "scope_authority tid"])
       (use create_role_write[OF prod.collapse[symmetric], of env name scope ps description tid d] create_role_guard in auto)
  then show ?thesis by (simp add: PostRole)
next
  case (PostMembership t i rids)
  have "writes (ae_uuid env) (authorises s) d (snd (api_create_membership env s t i rids d))"
    unfolding api_create_membership_def
    by (intro guarded_writes after_system_roles[where a = "Auth_tenant t"])
       (use create_membership_write[OF prod.collapse[symmetric], of env t i rids d] requires(2) in auto)
  then show ?thesis by (simp add: PostMembership)
next
  case (PostServicePrincipal tid name description rids md)
  have "writes (ae_uuid env) (authorises s) d (snd (api_create_service_principal env s tid name description rids md d))"
    unfolding api_create_service_principal_def
    by (intro guarded_writes after_system_roles[where a = "scope_authority tid"])
       (use create_service_principal_write[OF prod.collapse[symmetric], of env tid name description rids md d]
          principal_guard in auto)
  then show ?thesis by (simp add: PostServicePrincipal)
next
  case (GetRoles scope tid)
  then show ?thesis
    using nobody_authorised[OF list_roles_writes]
    by (auto simp: api_list_roles_def case_prod_beta split: sum.split)
next
  case (PostOperatorToken i lifetime)
  then show ?thesis
    by (simp add: api_issue_operator_token_def guarded_writes nobody_authorised issue_and_open_writes)
next
  case (PostServiceToken i lifetime)
  then show ?thesis
    by (simp add: api_issue_service_token_def guarded_writes nobody_authorised issue_and_open_writes)
next
  case (GetMemberships t)
  then show ?thesis by (simp add: api_list_memberships_def split: sum.split)
qed (simp_all add: api_list_users_def api_list_service_principals_def guarded_writes)

text \<open>A served request writes only what the session its bearer opened authorises.\<close>

lemma serve_writes:
  "writes (ae_uuid env) (\<lambda>a. a = Auth_none \<or> (\<exists>s d1. get_current_session env cred d = (Inr s, d1) \<and> authorises s a)) d
     (snd (serve env cred req d))"
proof -
  obtain r d1 where eq: "get_current_session env cred d = (r, d1)" by fastforce
  have auth: "writes (ae_uuid env) nobody d d1" using current_session_writes[of env d cred] by (simp add: eq)
  show ?thesis
  proof (cases r)
    case (Inl e)
    then show ?thesis using auth by (auto simp: serve_def eq intro: writes_mono)
  next
    case (Inr s)
    have "writes (ae_uuid env) (authorises s) d (snd (handle env s req d1))"
      by (rule writes_trans[OF nobody_authorised[OF auth] handle_writes])
    then show ?thesis by (auto simp: serve_def eq Inr intro: writes_mono)
  qed
qed


lemma system_role_row:
  "get_system_role scope name d = Inr r \<Longrightarrow>
   r \<in> set (ad_roles d) \<and> ro_scope r = scope \<and> ro_name r = name \<and> ro_is_system r"
  by (auto simp: get_system_role_def find_Some_iff split: option.split_asm)

lemma email_user_row: "email_user e d = Some x \<Longrightarrow> x \<in> set (ad_users d) \<and> us_email x = e"
  unfolding email_user_def by (rule tgetD)

lemma bootstrap_user_write:
  assumes "bootstrap_user env email name rid d = (x, d')" "role_in d SC_platform None rid"
  shows "d' = d \<or> access_write (ae_uuid env) Auth_platform d d'"
proof (cases "email_user email d")
  case None
  then show ?thesis
    using assms by (auto simp: bootstrap_user_def Let_def auth_new_id_def rids_ok_def intro!: user)
next
  case (Some y)
  then show ?thesis
    using assms email_user_row[OF Some] by (auto simp: bootstrap_user_def Let_def intro!: admin split: if_splits)
qed

lemma bootstrap_writes: "writes (ae_uuid env) (\<lambda>_. True) d (snd (bootstrap_platform_admin env token email name d))"
proof -
  let ?d = "with_system_roles env d"
  have sys: "writes (ae_uuid env) (\<lambda>_. True) d ?d" by (rule writes_mono[OF with_system_roles_writes]) simp
  have made: "writes (ae_uuid env) (\<lambda>_. True) d (snd (bootstrap_user env n name (ro_role_id r) ?d))"
    if "get_system_role SC_platform ''platform_admin'' ?d = Inr r" for n r
  proof -
    have "role_in ?d SC_platform None (ro_role_id r)"
      using system_role_row[OF that] by (auto simp: role_in_def role_usable_def)
    from bootstrap_user_write[OF prod.collapse[symmetric] this, of env n name] show ?thesis
      using sys writes_trans[OF sys writes_one] by metis
  qed
  show ?thesis
    using sys made unfolding bootstrap_platform_admin_def Let_def case_prod_beta
    by (simp split: option.split sum.split)
qed

lemma api_bootstrap_writes: "writes (ae_uuid env) (\<lambda>_. True) d (snd (api_bootstrap_platform_admin env h email name d))"
proof -
  obtain r d1 where eq: "bootstrap_platform_admin env (str_or_default h []) email name d = (r, d1)" by fastforce
  have b: "writes (ae_uuid env) (\<lambda>_. True) d d1"
    using bootstrap_writes[of env d "str_or_default h []" email name] by (simp add: eq)
  have "writes (ae_uuid env) (\<lambda>_. True) d1 (snd (issue_and_open env tok d1))" for tok
    by (rule writes_mono[OF issue_and_open_writes]) simp
  from writes_trans[OF b this] show ?thesis
    using b by (auto simp: api_bootstrap_platform_admin_def eq case_prod_beta split: sum.split)
qed

section \<open>The invariant\<close>

definition issued_ids :: "(nat \<Rightarrow> ident) \<Rightarrow> auth_db \<Rightarrow> ident set" where
  "issued_ids u d = u ` {..<ad_next_uuid d}"

definition keys_unique :: "(nat \<Rightarrow> ident) \<Rightarrow> auth_db \<Rightarrow> bool" where
  "keys_unique u d \<longleftrightarrow>
     distinct (map ro_role_id (ad_roles d)) \<and> set (map ro_role_id (ad_roles d)) \<subseteq> issued_ids u d \<and>
     distinct (map us_user_id (ad_users d)) \<and> set (map us_user_id (ad_users d)) \<subseteq> issued_ids u d \<and>
     distinct (map me_membership_id (ad_memberships d)) \<and>
     set (map me_membership_id (ad_memberships d)) \<subseteq> issued_ids u d \<and>
     distinct (map sp_service_principal_id (ad_service_principals d)) \<and>
     set (map sp_service_principal_id (ad_service_principals d)) \<subseteq> issued_ids u d"

definition seats_unique :: "auth_db \<Rightarrow> bool" where
  "seats_unique d \<longleftrightarrow>
     distinct (map us_email (ad_users d)) \<and> distinct (map ro_role_key (ad_roles d)) \<and>
     distinct (map (\<lambda>m. (me_tenant_id m, me_user_id m)) (ad_memberships d))"

definition assignments_ok :: "auth_db \<Rightarrow> bool" where
  "assignments_ok d \<longleftrightarrow>
     (\<forall>x \<in> set (ad_users d). rids_ok d None (us_platform_role_ids x)) \<and>
     (\<forall>m \<in> set (ad_memberships d). rids_ok d (Some (me_tenant_id m)) (me_role_ids m)) \<and>
     (\<forall>p \<in> set (ad_service_principals d). rids_ok d (sp_tenant_id p) (sp_role_ids p))"

definition access_inv :: "(nat \<Rightarrow> ident) \<Rightarrow> auth_db \<Rightarrow> bool" where
  "access_inv u d \<longleftrightarrow> keys_unique u d \<and> seats_unique d \<and> assignments_ok d \<and>
     (\<forall>r \<in> set (ad_roles d). ro_is_system r \<longrightarrow> system_role r)"

lemma rids_ok_mono: "set (ad_roles d) \<subseteq> set (ad_roles d') \<Longrightarrow> rids_ok d tid rids \<Longrightarrow> rids_ok d' tid rids"
  unfolding rids_ok_def role_in_def by blast

lemma assignments_ok_mono:
  assumes "assignments_ok d" "set (ad_roles d) \<subseteq> set (ad_roles d')"
    and "\<And>x. x \<in> set (ad_users d') \<Longrightarrow> x \<in> set (ad_users d) \<or> rids_ok d' None (us_platform_role_ids x)"
    and "\<And>m. m \<in> set (ad_memberships d') \<Longrightarrow>
        m \<in> set (ad_memberships d) \<or> rids_ok d' (Some (me_tenant_id m)) (me_role_ids m)"
    and "\<And>p. p \<in> set (ad_service_principals d') \<Longrightarrow>
        p \<in> set (ad_service_principals d) \<or> rids_ok d' (sp_tenant_id p) (sp_role_ids p)"
  shows "assignments_ok d'"
  using assms rids_ok_mono[OF assms(2)] unfolding assignments_ok_def by blast

lemma fresh_issued: "inj u \<Longrightarrow> u (ad_next_uuid d) \<notin> issued_ids u d"
  by (auto simp: issued_ids_def dest: injD)

lemma issued_Suc: "ad_next_uuid d' = Suc (ad_next_uuid d) \<Longrightarrow> issued_ids u d' = insert (u (ad_next_uuid d)) (issued_ids u d)"
  by (auto simp: issued_ids_def lessThan_Suc)

lemma write_keys:
  assumes "access_write u a d d'" "inj u" "keys_unique u d"
  shows "keys_unique u d'"
  using assms fresh_issued[OF assms(2), of d] issued_Suc[of d' d u]
  by (cases rule: access_write.cases)
     (auto simp: keys_unique_def add_role_def add_user_def tinsert_def map_tmodify issued_ids_def)

lemma write_seats:
  assumes "access_write u a d d'" "seats_unique d"
  shows "seats_unique d'"
  using assms
proof (cases rule: access_write.cases)
  case (role r)
  then show ?thesis using assms(2)
    by (auto simp: seats_unique_def add_role_def tinsert_def role_by_key_def tget_None)
next
  case (user x)
  then show ?thesis using assms(2)
    by (auto simp: seats_unique_def add_user_def tinsert_def email_user_def tget_None)
next
  case (new_member m)
  then show ?thesis using assms(2)
    by (auto simp: seats_unique_def tinsert_def find_membership_def find_None_iff)
qed (simp_all add: seats_unique_def map_tmodify)

lemma write_assignments:
  assumes "access_write u a d d'" "keys_unique u d" "assignments_ok d"
  shows "assignments_ok d'"
  using assms(1)
proof (cases rule: access_write.cases)
  case (role r)
  then show ?thesis
    by (intro assignments_ok_mono[OF assms(3)]) (auto simp: add_role_def)
next
  case (user x)
  then show ?thesis
    by (intro assignments_ok_mono[OF assms(3)]) (auto simp: add_user_def rids_ok_def role_in_def)
next
  case (admin x rid)
  have "rids_ok d None (us_platform_role_ids y @ [rid])" if "y \<in> set (ad_users d)" for y
    using that assms(3) admin(4) by (auto simp: assignments_ok_def rids_ok_def)
  then show ?thesis
    unfolding admin(2)
    by (intro assignments_ok_mono[OF assms(3)]) (auto dest!: set_tmodify simp: rids_ok_def role_in_def)
next
  case (new_member m)
  then show ?thesis
    by (intro assignments_ok_mono[OF assms(3)]) (auto simp: rids_ok_def role_in_def)
next
  case (member m ids)
  have "y = m" if "y \<in> set (ad_memberships d)" "me_membership_id y = me_membership_id m" for y
    using that member(3) assms(2) by (auto simp: keys_unique_def dest: distinct_key_eq)
  then show ?thesis
    unfolding member(2)
    by (intro assignments_ok_mono[OF assms(3)])
       (use member(4) in \<open>fastforce dest!: set_tmodify simp: rids_ok_def role_in_def\<close>)+
next
  case (principal p)
  then show ?thesis
    by (intro assignments_ok_mono[OF assms(3)]) (auto simp: rids_ok_def role_in_def)
next
  case (cache c)
  then show ?thesis by (intro assignments_ok_mono[OF assms(3)]) auto
qed

lemma write_system_roles:
  assumes "access_write u a d d'" "\<forall>r \<in> set (ad_roles d). ro_is_system r \<longrightarrow> system_role r"
  shows "\<forall>r \<in> set (ad_roles d'). ro_is_system r \<longrightarrow> system_role r"
  using assms by (cases rule: access_write.cases) (auto simp: add_role_def add_user_def)

lemma write_inv: "access_write u a d d' \<Longrightarrow> inj u \<Longrightarrow> access_inv u d \<Longrightarrow> access_inv u d'"
  unfolding access_inv_def using write_keys write_seats write_assignments write_system_roles by blast

lemma writes_inv: "writes u ok d d' \<Longrightarrow> inj u \<Longrightarrow> access_inv u d \<Longrightarrow> access_inv u d'"
  by (induction rule: writes_induct) (auto intro: write_inv)

lemma assignments_same_roles:
  assumes "assignments_ok d" "ad_roles d' = ad_roles d"
    and "us_platform_role_ids ` set (ad_users d') \<subseteq> us_platform_role_ids ` set (ad_users d)"
    and "(\<lambda>m. (me_tenant_id m, me_role_ids m)) ` set (ad_memberships d') \<subseteq>
         (\<lambda>m. (me_tenant_id m, me_role_ids m)) ` set (ad_memberships d)"
    and "(\<lambda>p. (sp_tenant_id p, sp_role_ids p)) ` set (ad_service_principals d') \<subseteq>
         (\<lambda>p. (sp_tenant_id p, sp_role_ids p)) ` set (ad_service_principals d)"
  shows "assignments_ok d'"
proof -
  have r: "rids_ok d' = rids_ok d" using assms(2) by (simp add: rids_ok_def role_in_def fun_eq_iff)
  show ?thesis
    using assms(1,3-5) unfolding assignments_ok_def r by fastforce
qed

lemma image_tmodify: "(\<And>r. g (f r) = g r) \<Longrightarrow> g ` set (tmodify pk k f t) = g ` set t"
  by (metis map_tmodify set_map)

lemma status_assignments [simp]:
  assumes "assignments_ok d"
  shows "assignments_ok (d\<lparr>ad_users := tmodify us_user_id i (us_status_update (\<lambda>_. st)) (ad_users d)\<rparr>)"
    "assignments_ok (d\<lparr>ad_memberships := tmodify me_membership_id i (me_status_update (\<lambda>_. st)) (ad_memberships d)\<rparr>)"
    "assignments_ok (d\<lparr>ad_service_principals :=
       tmodify sp_service_principal_id i (sp_status_update (\<lambda>_. st)) (ad_service_principals d)\<rparr>)"
  by (rule assignments_same_roles[OF assms]; simp add: image_tmodify)+

lemma step_inv:
  assumes "access_step u d d'" "inj u" "access_inv u d"
  shows "access_inv u d'"
  using assms(1)
proof (cases rule: access_step.cases)
  case (serve env cred req r)
  then show ?thesis using writes_inv[OF serve_writes[of env cred d req]] assms(2,3) by auto
next
  case (bootstrap env h email name r)
  then show ?thesis using writes_inv[OF api_bootstrap_writes[of env d h email name]] assms(2,3) by auto
next
  case cache_reset
  then show ?thesis using write_inv[OF cache assms(2,3)] by (simp add: reset_oidc_jwks_cache_def)
qed (use assms(3) in \<open>auto simp: access_inv_def keys_unique_def seats_unique_def issued_ids_def map_tmodify
       image_tmodify simp del: set_map intro: assignments_same_roles\<close>)

lemma reachable_inv: "inj u \<Longrightarrow> access_reachable u d \<Longrightarrow> access_inv u d"
proof -
  assume u: "inj u" and "access_reachable u d"
  then have "(access_step u)\<^sup>*\<^sup>* empty_auth_db d" by (simp add: access_reachable_def)
  then show ?thesis
  proof (induction rule: rtranclp_induct)
    case base
    show ?case by (simp add: access_inv_def keys_unique_def seats_unique_def assignments_ok_def empty_auth_db_def)
  qed (rule step_inv[OF _ u])
qed

section \<open>Sessions carry the grants\<close>

lemma permissions_total:
  assumes "\<forall>r \<in> set rs. role_usable scope tid r"
  shows "\<exists>ps. permissions_from_roles rs scope tid = Inr ps \<and> (\<forall>p. p \<in> set ps \<longleftrightarrow> (\<exists>r \<in> set rs. p \<in> set (ro_permissions r)))"
  using assms
proof (induction rs)
  case (Cons r rs)
  then obtain ps where "permissions_from_roles rs scope tid = Inr ps"
    "\<forall>p. p \<in> set ps \<longleftrightarrow> (\<exists>r \<in> set rs. p \<in> set (ro_permissions r))" by auto
  moreover have "ro_scope r = scope" "scope = SC_tenant \<longrightarrow> ro_tenant_id r = None \<or> ro_tenant_id r = tid"
    using Cons.prems by (auto simp: role_usable_def)
  ultimately show ?case by auto
qed simp

abbreviation tid_scope :: "ident option \<Rightarrow> role_scope" where
  "tid_scope tid \<equiv> (case tid of None \<Rightarrow> SC_platform | Some _ \<Rightarrow> SC_tenant)"

lemma assigned_roles:
  assumes "keys_unique u d" "rids_ok d tid rids"
  shows "resolve_role_map rids d = Inr [r \<leftarrow> ad_roles d. ro_role_id r \<in> set rids]" (is ?resolve)
    and "\<forall>r \<in> set [r \<leftarrow> ad_roles d. ro_role_id r \<in> set rids]. role_usable (tid_scope tid) tid r" (is ?usable)
proof -
  show ?resolve
    using assms(2) by (force simp: resolve_role_map_def Let_def list_all_iff rids_ok_def role_in_def)
  show ?usable
  proof
    fix r assume r: "r \<in> set [r \<leftarrow> ad_roles d. ro_role_id r \<in> set rids]"
    then obtain r' where "r' \<in> set (ad_roles d)" "ro_role_id r' = ro_role_id r" "role_usable (tid_scope tid) tid r'"
      using assms(2) by (auto simp: rids_ok_def role_in_def)
    then show "role_usable (tid_scope tid) tid r"
      using r assms(1) distinct_key_eq[of ro_role_id "ad_roles d" r' r] by (auto simp: keys_unique_def)
  qed
qed

lemma assigned_permissions:
  assumes "keys_unique u d" "rids_ok d tid rids"
  obtains rs ps where "resolve_role_map rids d = Inr rs" "permissions_from_roles rs (tid_scope tid) tid = Inr ps"
    "\<forall>p. p \<in> set ps \<longleftrightarrow> roles_grant d (tid_scope tid) tid rids p" "\<forall>r \<in> set rs. role_usable (tid_scope tid) tid r"
proof -
  let ?rs = "[r \<leftarrow> ad_roles d. ro_role_id r \<in> set rids]"
  obtain ps where ps: "permissions_from_roles ?rs (tid_scope tid) tid = Inr ps"
    "\<forall>p. p \<in> set ps \<longleftrightarrow> (\<exists>r \<in> set ?rs. p \<in> set (ro_permissions r))"
    using permissions_total[OF assigned_roles(2)[OF assms]] by blast
  have "\<forall>p. p \<in> set ps \<longleftrightarrow> roles_grant d (tid_scope tid) tid rids p"
    using ps(2) assigned_roles(2)[OF assms] by (auto simp: roles_grant_def list_ex_iff)
  then show thesis using that assigned_roles[OF assms] ps(1) by blast
qed

lemma map_of_put_entry [simp]: "map_of (put_entry k v d) k' = (if k' = k then Some v else map_of d k')"
  by (simp add: put_entry_def map_of_filter_key)

lemma membership_grants_total:
  assumes "keys_unique u d" "\<forall>m \<in> set ms. rids_ok d (Some (me_tenant_id m)) (me_role_ids m)"
    and "distinct (map me_tenant_id ms)"
  shows "\<exists>names' perms'. membership_grants ms names perms d = Inr (names', perms') \<and>
    (\<forall>t. t \<notin> me_tenant_id ` set ms \<longrightarrow> map_of perms' t = map_of perms t) \<and>
    (\<forall>m \<in> set ms. \<exists>ps. map_of perms' (me_tenant_id m) = Some ps \<and>
       (\<forall>p. p \<in> set ps \<longleftrightarrow> roles_grant d SC_tenant (Some (me_tenant_id m)) (me_role_ids m) p))"
  using assms(2,3)
proof (induction ms arbitrary: names perms)
  case (Cons m ms)
  let ?t = "me_tenant_id m"
  have ok: "rids_ok d (Some ?t) (me_role_ids m)" using Cons.prems by simp
  obtain rs ps where rs: "resolve_role_map (me_role_ids m) d = Inr rs" "permissions_from_roles rs SC_tenant (Some ?t) = Inr ps"
    "\<forall>p. p \<in> set ps \<longleftrightarrow> roles_grant d SC_tenant (Some ?t) (me_role_ids m) p"
    by (rule assigned_permissions[OF assms(1) ok]) simp
  obtain names' perms' where r: "membership_grants ms (put_entry ?t (sorted_names rs) names) (put_entry ?t ps perms) d = Inr (names', perms')"
    "\<forall>t. t \<notin> me_tenant_id ` set ms \<longrightarrow> map_of perms' t = map_of (put_entry ?t ps perms) t"
    "\<forall>m \<in> set ms. \<exists>ps. map_of perms' (me_tenant_id m) = Some ps \<and>
       (\<forall>p. p \<in> set ps \<longleftrightarrow> roles_grant d SC_tenant (Some (me_tenant_id m)) (me_role_ids m) p)"
    using Cons.IH[of "put_entry ?t (sorted_names rs) names" "put_entry ?t ps perms"] Cons.prems by auto
  have "map_of perms' ?t = Some ps" using r(2) Cons.prems(2) by simp
  then show ?case using rs r by simp
qed simp

lemma tget_active:
  assumes "distinct (map pk t)" "tget pk i t = Some x"
  shows "list_ex (\<lambda>y. pk y = i \<and> Q y) t \<longleftrightarrow> Q x"
proof -
  have "y = x" if "y \<in> set t" "pk y = i" for y
    using tget_unique[OF assms(1) that(1)] assms(2) that(2) by simp
  then show ?thesis using tgetD[OF assms(2)] by (auto simp: list_ex_iff)
qed

definition session_of :: "auth_db \<Rightarrow> string \<Rightarrow> ident \<Rightarrow> auth_session \<Rightarrow> bool" where
  "session_of d ptype i s \<longleftrightarrow>
     se_principal_type s = ptype \<and> se_principal_id s = i \<and>
     (\<forall>p. p \<in> set (se_platform_permissions s) \<longleftrightarrow> platform_grant d ptype i p) \<and>
     (\<forall>t p. (case map_of (se_tenant_permissions s) t of None \<Rightarrow> False | Some ps \<Rightarrow> p \<in> set ps) \<longleftrightarrow>
        tenant_grant d ptype i t p)"

lemma user_session:
  assumes inv: "access_inv u d" and x: "tget us_user_id i (ad_users d) = Some x" "us_status x = PR_active"
  shows "\<exists>s. session_for_user env i issued expires d = Inr s \<and> session_of d ''user'' i s \<and>
    se_issued_at s = issued \<and> se_expires_at s = expires"
proof -
  let ?ms = "[m \<leftarrow> ad_memberships d. me_user_id m = i \<and> me_status m = PR_active]"
  have k: "keys_unique u d" and a: "assignments_ok d" and q: "seats_unique d" using inv by (simp_all add: access_inv_def)
  have xin: "x \<in> set (ad_users d)" "us_user_id x = i" using tgetD[OF x(1)] by auto
  have du: "distinct (map us_user_id (ad_users d))" using k by (simp add: keys_unique_def)
  have ok: "rids_ok d None (us_platform_role_ids x)" using a xin by (simp add: assignments_ok_def)
  obtain rs ps where rs: "resolve_role_map (us_platform_role_ids x) d = Inr rs"
    "permissions_from_roles rs SC_platform None = Inr ps"
    "\<forall>p. p \<in> set ps \<longleftrightarrow> roles_grant d SC_platform None (us_platform_role_ids x) p"
    by (rule assigned_permissions[OF k ok]) simp
  have dm: "distinct (map me_tenant_id ?ms)"
  proof -
    have "distinct (map (\<lambda>m. (me_tenant_id m, me_user_id m)) ?ms)"
      using q by (auto simp: seats_unique_def distinct_map_filter)
    then show ?thesis by (auto simp: distinct_map inj_on_def)
  qed
  obtain names perms where ms: "membership_grants ?ms [] [] d = Inr (names, perms)"
    "\<forall>t. t \<notin> me_tenant_id ` set ?ms \<longrightarrow> map_of perms t = None"
    "\<forall>m \<in> set ?ms. \<exists>ps. map_of perms (me_tenant_id m) = Some ps \<and>
       (\<forall>p. p \<in> set ps \<longleftrightarrow> roles_grant d SC_tenant (Some (me_tenant_id m)) (me_role_ids m) p)"
    using membership_grants_total[OF k _ dm, of "[]" "[]"] a by (auto simp: assignments_ok_def)
  have uniq: "m = m'" if "m \<in> set ?ms" "m' \<in> set ?ms" "me_tenant_id m = me_tenant_id m'" for m m'
    using dm that by (auto simp: distinct_map dest: inj_onD)
  have "(case map_of perms t of None \<Rightarrow> False | Some ps \<Rightarrow> p \<in> set ps) \<longleftrightarrow>
      (\<exists>m \<in> set ?ms. me_tenant_id m = t \<and> roles_grant d SC_tenant (Some t) (me_role_ids m) p)" for t p
  proof (cases "t \<in> me_tenant_id ` set ?ms")
    case True
    then obtain m where m: "m \<in> set ?ms" "t = me_tenant_id m" by auto
    then obtain ps where ps: "map_of perms t = Some ps"
      "\<forall>p. p \<in> set ps \<longleftrightarrow> roles_grant d SC_tenant (Some t) (me_role_ids m) p" using ms(3) by auto
    have "(\<exists>m' \<in> set ?ms. me_tenant_id m' = t \<and> roles_grant d SC_tenant (Some t) (me_role_ids m') p) \<longleftrightarrow>
        roles_grant d SC_tenant (Some t) (me_role_ids m) p" using m uniq by blast
    then show ?thesis using ps by simp
  qed (use ms(2) in auto)
  then have "(case map_of perms t of None \<Rightarrow> False | Some ps \<Rightarrow> p \<in> set ps) \<longleftrightarrow> tenant_grant d ''user'' i t p" for t p
    using tget_active[OF du x(1), of "\<lambda>y. us_status y = PR_active"] x(2) by (auto simp: tenant_grant_def list_ex_iff)
  moreover have "p \<in> set ps \<longleftrightarrow> platform_grant d ''user'' i p" for p
    using rs(3) x(2) tget_active[OF du x(1), of "\<lambda>y. us_status y = PR_active \<and> roles_grant d SC_platform None (us_platform_role_ids y) p"]
    by (simp add: platform_grant_def)
  ultimately show ?thesis
    using x xin rs ms(1) by (auto simp: session_for_user_def get_user_def session_of_def)
qed


lemma filter_usable:
  "\<forall>r \<in> set rs. role_usable SC_platform tid r \<Longrightarrow>
     [r \<leftarrow> rs. ro_scope r = SC_platform] = rs \<and> [r \<leftarrow> rs. ro_scope r = SC_tenant] = []"
  "\<forall>r \<in> set rs. role_usable SC_tenant tid r \<Longrightarrow>
     [r \<leftarrow> rs. ro_scope r = SC_tenant] = rs \<and> [r \<leftarrow> rs. ro_scope r = SC_platform] = []"
  by (auto simp: role_usable_def filter_id_conv filter_empty_conv)

lemma service_session:
  assumes inv: "access_inv u d"
    and x: "tget sp_service_principal_id i (ad_service_principals d) = Some x" "sp_status x = PR_active"
  shows "\<exists>s. session_for_service_principal i issued expires d = Inr s \<and> session_of d ''service_principal'' i s \<and>
    se_issued_at s = issued \<and> se_expires_at s = expires"
proof -
  have k: "keys_unique u d" and a: "assignments_ok d" using inv by (simp_all add: access_inv_def)
  have xin: "x \<in> set (ad_service_principals d)" "sp_service_principal_id x = i" using tgetD[OF x(1)] by auto
  have ds: "distinct (map sp_service_principal_id (ad_service_principals d))" using k by (simp add: keys_unique_def)
  have ok: "rids_ok d (sp_tenant_id x) (sp_role_ids x)" using a xin by (simp add: assignments_ok_def)
  have plat: "platform_grant d ''service_principal'' i p \<longleftrightarrow>
      sp_tenant_id x = None \<and> roles_grant d SC_platform None (sp_role_ids x) p" for p
    using x(2) tget_active[OF ds x(1), of "\<lambda>y. sp_status y = PR_active \<and> sp_tenant_id y = None \<and>
      roles_grant d SC_platform None (sp_role_ids y) p"] by (simp add: platform_grant_def)
  have ten: "tenant_grant d ''service_principal'' i t p \<longleftrightarrow>
      sp_tenant_id x = Some t \<and> roles_grant d SC_tenant (Some t) (sp_role_ids x) p" for t p
    using x(2) tget_active[OF ds x(1), of "\<lambda>y. sp_status y = PR_active \<and> sp_tenant_id y = Some t \<and>
      roles_grant d SC_tenant (Some t) (sp_role_ids y) p"] by (simp add: tenant_grant_def)
  obtain rs ps where rs: "resolve_role_map (sp_role_ids x) d = Inr rs"
    "permissions_from_roles rs (tid_scope (sp_tenant_id x)) (sp_tenant_id x) = Inr ps"
    "\<forall>p. p \<in> set ps \<longleftrightarrow> roles_grant d (tid_scope (sp_tenant_id x)) (sp_tenant_id x) (sp_role_ids x) p"
    "\<forall>r \<in> set rs. role_usable (tid_scope (sp_tenant_id x)) (sp_tenant_id x) r"
    by (rule assigned_permissions[OF k ok])
  show ?thesis
  proof (cases "sp_tenant_id x")
    case None
    then show ?thesis
      using x xin rs filter_usable(1)[of rs None]
      by (auto simp: session_for_service_principal_def get_service_principal_def session_of_def plat ten)
  next
    case (Some t)
    then show ?thesis
      using x xin rs filter_usable(2)[of rs "Some t"]
      by (auto simp: session_for_service_principal_def get_service_principal_def session_of_def plat ten)
  qed
qed

lemma session_for_user_active:
  "session_for_user env i issued expires d = Inr s \<Longrightarrow>
   \<exists>x. tget us_user_id i (ad_users d) = Some x \<and> us_status x = PR_active"
  by (auto simp: session_for_user_def get_user_def split: option.split_asm if_split_asm)

lemma session_for_service_active:
  "session_for_service_principal i issued expires d = Inr s \<Longrightarrow>
   \<exists>x. tget sp_service_principal_id i (ad_service_principals d) = Some x \<and> sp_status x = PR_active"
  by (auto simp: session_for_service_principal_def get_service_principal_def split: option.split_asm if_split_asm)

lemma opened_session:
  assumes "access_inv u d"
  shows "session_for_user env i issued expires d = Inr s \<Longrightarrow> session_of d ''user'' i s"
    and "session_for_service_principal i issued expires d = Inr s \<Longrightarrow> session_of d ''service_principal'' i s"
proof -
  show "session_of d ''user'' i s" if e: "session_for_user env i issued expires d = Inr s"
    using session_for_user_active[OF e] user_session[OF assms, of i _ env issued expires] e by auto
  show "session_of d ''service_principal'' i s" if e: "session_for_service_principal i issued expires d = Inr s"
    using session_for_service_active[OF e] service_session[OF assms, of i _ issued expires] e by auto
qed

lemma claims_session:
  assumes "access_inv u d" "session_for_claims env payload d = Inr s"
  shows "session_of d (se_principal_type s) (se_principal_id s) s"
proof -
  have "\<exists>ptype i. session_of d ptype i s"
    using assms(2) opened_session[OF assms(1)]
    unfolding session_for_claims_def principal_session_def
    by (simp split: sum.split_asm if_split_asm json.split_asm) blast+
  then show ?thesis by (auto simp: session_of_def)
qed

lemma subject_session:
  assumes "access_inv u d" "session_for_subject env subject issued expires d = Inr s"
  shows "session_of d (se_principal_type s) (se_principal_id s) s"
proof -
  have "\<exists>ptype i. session_of d ptype i s"
    using assms(2) opened_session[OF assms(1)]
    unfolding session_for_subject_def Let_def
    by (simp split: option.split_asm if_split_asm) blast+
  then show ?thesis by (auto simp: session_of_def)
qed

lemma external_session:
  assumes "authenticate_external_managed_bearer env token d = (Inr s, d')"
  obtains claims subject issued expires where "verify_oidc_token env token d = (Inr claims, d')"
    "jget claims ''sub'' = JStr subject" "subject \<noteq> []" "session_for_subject env subject issued expires d' = Inr s"
  using assms unfolding authenticate_external_managed_bearer_def
  by (auto split: prod.split_asm sum.split_asm json.split_asm if_split_asm)

lemma authenticated_session:
  assumes "access_inv (ae_uuid env) d" "inj (ae_uuid env)" "authenticate_bearer_token env token d = (Inr s, d')"
  shows "session_of d' (se_principal_type s) (se_principal_id s) s"
proof -
  have inv: "access_inv (ae_uuid env) d'"
    using writes_inv[OF authenticate_writes[of env d token] assms(2,1)] assms(3) by simp
  show ?thesis
  proof (cases "as_auth_mode (ae_settings env) = ''external_managed_bearer''")
    case True
    then have "authenticate_external_managed_bearer env token (with_system_roles env d) = (Inr s, d')"
      using assms(3) by (simp add: authenticate_bearer_token_def Let_def)
    then show ?thesis using subject_session[OF inv] by (elim external_session)
  next
    case False
    then show ?thesis
      using assms(3) claims_session[OF inv]
      by (auto simp: authenticate_bearer_token_def Let_def split: if_split_asm sum.split_asm)
  qed
qed


section \<open>Who can change a grant\<close>

lemma roles_grant_cong: "ad_roles d' = ad_roles d \<Longrightarrow> roles_grant d' = roles_grant d"
  by (simp add: roles_grant_def fun_eq_iff)

lemma roles_grant_add:
  assumes "inj u" "keys_unique u d" "rids_ok d tid' rids" "ro_role_id r = u (ad_next_uuid d)"
  shows "roles_grant (add_role r d) scope tid rids p = roles_grant d scope tid rids p"
proof -
  have "set rids \<subseteq> ro_role_id ` set (ad_roles d)" using assms(3) by (auto simp: rids_ok_def role_in_def)
  moreover have "ro_role_id ` set (ad_roles d) \<subseteq> issued_ids u d" using assms(2) by (simp add: keys_unique_def)
  ultimately have "set rids \<subseteq> issued_ids u d" by (rule subset_trans)
  then have "ro_role_id r \<notin> set rids" using fresh_issued[OF assms(1), of d] assms(4) by (metis subsetD)
  then show ?thesis by (auto simp: roles_grant_def add_role_def list_ex_iff)
qed

lemma add_role_grants:
  assumes "inj u" "access_inv u d" "ro_role_id r = u (ad_next_uuid d)"
  shows "platform_grant (add_role r d) ptype i p = platform_grant d ptype i p"
    and "tenant_grant (add_role r d) ptype i t p = tenant_grant d ptype i t p"
proof -
  have k: "keys_unique u d" and a: "assignments_ok d" using assms(2) by (simp_all add: access_inv_def)
  note add = roles_grant_add[OF assms(1) k _ assms(3)]
  have tables: "ad_users (add_role r d) = ad_users d" "ad_memberships (add_role r d) = ad_memberships d"
    "ad_service_principals (add_role r d) = ad_service_principals d" by (simp_all add: add_role_def)
  have u: "roles_grant (add_role r d) scope tid (us_platform_role_ids x) p = roles_grant d scope tid (us_platform_role_ids x) p"
    if "x \<in> set (ad_users d)" for x scope tid using add a that by (auto simp: assignments_ok_def)
  have m: "roles_grant (add_role r d) scope tid (me_role_ids x) p = roles_grant d scope tid (me_role_ids x) p"
    if "x \<in> set (ad_memberships d)" for x scope tid using add a that by (auto simp: assignments_ok_def)
  have s: "roles_grant (add_role r d) scope tid (sp_role_ids x) p = roles_grant d scope tid (sp_role_ids x) p"
    if "x \<in> set (ad_service_principals d)" for x scope tid using add a that by (auto simp: assignments_ok_def)
  show "platform_grant (add_role r d) ptype i p = platform_grant d ptype i p"
    "tenant_grant (add_role r d) ptype i t p = tenant_grant d ptype i t p"
    by (auto simp: platform_grant_def tenant_grant_def list_ex_iff tables u m s)
qed

lemma filter_tmodify:
  "\<forall>x \<in> set xs. pk x = k \<longrightarrow> \<not> P x \<and> \<not> P (f x) \<Longrightarrow> [x \<leftarrow> tmodify pk k f xs. P x] = [x \<leftarrow> xs. P x]"
  by (induction xs) auto

lemma member_same:
  assumes "keys_unique u d" "m \<in> set (ad_memberships d)" "me_tenant_id m \<noteq> t"
  shows "[x \<leftarrow> tmodify me_membership_id (me_membership_id m) (\<lambda>m. m\<lparr>me_role_ids := ids, me_status := PR_active\<rparr>)
     (ad_memberships d). me_tenant_id x = t] = [x \<leftarrow> ad_memberships d. me_tenant_id x = t]"
proof -
  have "me_tenant_id y \<noteq> t" if "y \<in> set (ad_memberships d)" "me_membership_id y = me_membership_id m" for y
    using that assms distinct_key_eq[of me_membership_id "ad_memberships d" y m] by (auto simp: keys_unique_def)
  then show ?thesis by (intro filter_tmodify) auto
qed

lemma tenant_grant_alt:
  "tenant_grant d ptype i t p \<longleftrightarrow>
     (ptype = ''user'' \<and>
      list_ex (\<lambda>u. us_user_id u = i \<and> us_status u = PR_active) (ad_users d) \<and>
      list_ex (\<lambda>m. me_user_id m = i \<and> me_status m = PR_active \<and> roles_grant d SC_tenant (Some t) (me_role_ids m) p)
        [m \<leftarrow> ad_memberships d. me_tenant_id m = t]) \<or>
     (ptype = ''service_principal'' \<and>
      list_ex (\<lambda>s. sp_service_principal_id s = i \<and> sp_status s = PR_active \<and>
                   roles_grant d SC_tenant (Some t) (sp_role_ids s) p)
        [s \<leftarrow> ad_service_principals d. sp_tenant_id s = Some t])"
  by (auto simp: tenant_grant_def list_ex_iff)

definition outside_platform :: "auth_db \<Rightarrow> auth_db \<Rightarrow> bool" where
  "outside_platform d d' \<longleftrightarrow>
     ad_users d' = ad_users d \<and>
     [s \<leftarrow> ad_service_principals d'. sp_tenant_id s = None] = [s \<leftarrow> ad_service_principals d. sp_tenant_id s = None] \<and>
     [r \<leftarrow> ad_roles d'. \<not> ro_is_system r \<and> ro_tenant_id r = None] = [r \<leftarrow> ad_roles d. \<not> ro_is_system r \<and> ro_tenant_id r = None]"

definition outside_tenant :: "ident \<Rightarrow> auth_db \<Rightarrow> auth_db \<Rightarrow> bool" where
  "outside_tenant t d d' \<longleftrightarrow>
     [m \<leftarrow> ad_memberships d'. me_tenant_id m = t] = [m \<leftarrow> ad_memberships d. me_tenant_id m = t] \<and>
     [s \<leftarrow> ad_service_principals d'. sp_tenant_id s = Some t] = [s \<leftarrow> ad_service_principals d. sp_tenant_id s = Some t] \<and>
     [r \<leftarrow> ad_roles d'. ro_tenant_id r = Some t] = [r \<leftarrow> ad_roles d. ro_tenant_id r = Some t]"

lemma write_outside_platform: "access_write u a d d' \<Longrightarrow> a \<noteq> Auth_platform \<Longrightarrow> outside_platform d d'"
  by (cases rule: access_write.cases)
     (auto simp: outside_platform_def add_role_def tinsert_def scope_authority_def split: option.splits if_splits)

lemma write_outside_tenant:
  "access_write u a d d' \<Longrightarrow> keys_unique u d \<Longrightarrow> a \<noteq> Auth_tenant t \<Longrightarrow> outside_tenant t d d'"
  by (cases rule: access_write.cases)
     (auto simp: outside_tenant_def add_role_def add_user_def tinsert_def scope_authority_def member_same system_role_def
       split: option.splits if_splits)

lemma write_roles: "access_write u a d d' \<Longrightarrow> ad_roles d' = ad_roles d \<or>
    (\<exists>r. d' = add_role r d \<and> ro_role_id r = u (ad_next_uuid d))"
  by (cases rule: access_write.cases) (auto simp: add_user_def)

lemma list_ex_filter: "list_ex P [x \<leftarrow> xs. Q x] \<longleftrightarrow> list_ex (\<lambda>x. Q x \<and> P x) xs"
  by (auto simp: list_ex_iff)

lemma platform_grant_alt:
  "platform_grant d ptype i p \<longleftrightarrow>
     (ptype = ''user'' \<and>
      list_ex (\<lambda>u. us_user_id u = i \<and> us_status u = PR_active \<and>
                   roles_grant d SC_platform None (us_platform_role_ids u) p) (ad_users d)) \<or>
     (ptype = ''service_principal'' \<and>
      list_ex (\<lambda>s. sp_service_principal_id s = i \<and> sp_status s = PR_active \<and>
                   roles_grant d SC_platform None (sp_role_ids s) p)
        [s \<leftarrow> ad_service_principals d. sp_tenant_id s = None])"
  by (auto simp: platform_grant_def list_ex_iff)

lemma write_grants:
  assumes "access_write u a d d'" "inj u" "access_inv u d" "a \<noteq> Auth_platform"
  shows "platform_grant d' ptype i p = platform_grant d ptype i p"
    and "a \<noteq> Auth_tenant t \<Longrightarrow> tenant_grant d' ptype i t p = tenant_grant d ptype i t p"
proof -
  have k: "keys_unique u d" using assms(3) by (simp add: access_inv_def)
  have op: "outside_platform d d'" using write_outside_platform[OF assms(1,4)] .
  have ot: "a \<noteq> Auth_tenant t \<Longrightarrow> outside_tenant t d d'" using write_outside_tenant[OF assms(1) k] .
  consider "ad_roles d' = ad_roles d" | r where "d' = add_role r d" "ro_role_id r = u (ad_next_uuid d)"
    using write_roles[OF assms(1)] by blast
  note cases = this
  show "platform_grant d' ptype i p = platform_grant d ptype i p"
  proof (cases rule: cases)
    case 1
    then show ?thesis using op by (simp add: platform_grant_alt roles_grant_cong[OF 1] outside_platform_def)
  next
    case (2 r)
    then show ?thesis using add_role_grants(1)[OF assms(2,3) 2(2)] by simp
  qed
  show "tenant_grant d' ptype i t p = tenant_grant d ptype i t p" if "a \<noteq> Auth_tenant t"
  proof (cases rule: cases)
    case 1
    then show ?thesis
      using op ot[OF that]
      by (simp add: tenant_grant_alt roles_grant_cong[OF 1] outside_platform_def outside_tenant_def)
  next
    case (2 r)
    then show ?thesis using add_role_grants(2)[OF assms(2,3) 2(2)] by simp
  qed
qed

lemma writes_grants:
  assumes "writes u ok d d'" "inj u" "access_inv u d" "\<not> ok Auth_platform"
  shows "platform_grant d' ptype i p = platform_grant d ptype i p \<and>
    (\<not> ok (Auth_tenant t) \<longrightarrow> tenant_grant d' ptype i t p = tenant_grant d ptype i t p) \<and> access_inv u d'"
  using assms(1)
proof (induction rule: writes_induct)
  case (step d1 d2 a)
  then have inv: "access_inv u d1" and a: "a \<noteq> Auth_platform" "\<not> ok (Auth_tenant t) \<longrightarrow> a \<noteq> Auth_tenant t"
    using assms(4) by auto
  show ?case
    using step(1) a(2) write_grants(1)[OF step(3) assms(2) inv a(1), of ptype i p]
      write_grants(2)[OF step(3) assms(2) inv a(1), of t ptype i p] write_inv[OF step(3) assms(2) inv] by blast
qed (use assms(3) in simp)

lemma writes_outside:
  assumes "writes u ok d d'" "inj u" "access_inv u d"
  shows "(\<not> ok Auth_platform \<longrightarrow> outside_platform d d') \<and> (\<not> ok (Auth_tenant t) \<longrightarrow> outside_tenant t d d') \<and> access_inv u d'"
  using assms(1)
proof (induction rule: writes_induct)
  case base
  show ?case using assms(3) by (simp add: outside_platform_def outside_tenant_def)
next
  case (step d1 d2 a)
  then have "keys_unique u d1" by (simp add: access_inv_def)
  then have "\<not> ok Auth_platform \<longrightarrow> outside_platform d1 d2" "\<not> ok (Auth_tenant t) \<longrightarrow> outside_tenant t d1 d2"
    using step(2) write_outside_platform[OF step(3)] write_outside_tenant[OF step(3)] by metis+
  then show ?case
    using step(1) write_inv[OF step(3) assms(2)] by (simp add: outside_platform_def outside_tenant_def)
qed

lemma current_session_authenticated:
  "get_current_session env cred d = (Inr s, d') \<Longrightarrow> \<exists>token. authenticate_bearer_token env token d = (Inr s, d')"
  by (auto simp: get_current_session_def respond_def split: option.split_asm if_split_asm prod.split_asm sum.split_asm)

lemma session_permissions:
  assumes "inj (ae_uuid env)" "access_inv (ae_uuid env) d" "get_current_session env cred d = (Inr s, d')"
  shows "has_platform_permission s p \<longleftrightarrow> platform_grant d (se_principal_type s) (se_principal_id s) p"
    and "has_tenant_permission s t p \<longleftrightarrow>
      platform_grant d (se_principal_type s) (se_principal_id s) platform_admin_manage \<or>
      tenant_grant d (se_principal_type s) (se_principal_id s) t p"
    and "t \<in> set (map fst (se_tenant_permissions s)) \<longleftrightarrow> map_of (se_tenant_permissions s) t \<noteq> None"
proof -
  obtain token where tok: "authenticate_bearer_token env token d = (Inr s, d')"
    using current_session_authenticated[OF assms(3)] by blast
  have w: "writes (ae_uuid env) nobody d d'" using authenticate_writes[of env d token] by (simp add: tok)
  have same: "platform_grant d' ptype i p = platform_grant d ptype i p" "tenant_grant d' ptype i t p = tenant_grant d ptype i t p"
    for ptype i t p using writes_grants[OF w assms(1,2)] by auto
  have s: "session_of d' (se_principal_type s) (se_principal_id s) s"
    by (rule authenticated_session[OF assms(2,1) tok])
  show "has_platform_permission s p \<longleftrightarrow> platform_grant d (se_principal_type s) (se_principal_id s) p"
    "has_tenant_permission s t p \<longleftrightarrow>
      platform_grant d (se_principal_type s) (se_principal_id s) platform_admin_manage \<or>
      tenant_grant d (se_principal_type s) (se_principal_id s) t p"
    using s by (simp_all add: session_of_def same has_platform_permission_def has_tenant_permission_def is_platform_admin_def)
  show "t \<in> set (map fst (se_tenant_permissions s)) \<longleftrightarrow> map_of (se_tenant_permissions s) t \<noteq> None"
    by (metis map_of_eq_None_iff set_map)
qed

end
