(* ===== verification/BearerTokens.thy ===== *)
theory BearerTokens
  imports AccessControl
begin

text \<open>
  Which bearer tokens open a session, for how long and for whom: development tokens, OIDC tokens,
  and the token of the bootstrap. At the end, a sample deployment on which the properties of the
  access administration are applied.
\<close>

section \<open>Instants\<close>

lemma bind_Inr: "(case a of Inl e \<Rightarrow> Inl e | Inr x \<Rightarrow> f x) = Inr y \<longleftrightarrow> (\<exists>x. a = Inr x \<and> f x = Inr y)"
  by (cases a) simp_all

lemma round_half_even_int [simp]: "round_half_even (of_int n) = n"
  by (simp add: round_half_even_def)

lemma int_of_rat_int [simp]: "int_of_rat (of_int n) = n"
  by (simp add: int_of_rat_def)

lemma from_timestamp_seconds:
  assumes "-62135596800000000 \<le> seconds n" "seconds n \<le> 253402300799999999"
  shows "from_timestamp (of_int n) = Inr (seconds n)"
proof -
  have "round_half_even (of_int n * 1000000) = n * 1000000"
    using round_half_even_int[of "n * 1000000"] by simp
  then show ?thesis using assms by (simp add: from_timestamp_def seconds_def Let_def)
qed

section \<open>Development tokens\<close>

lemma split_development_token:
  "split_on (CHR ''.'') (encode_development_token env payload) =
     [''acp1'', b64url_encode (js_dumps (ae_codec env) (JObj payload)),
      b64url_encode (development_mac env (b64url_encode (js_dumps (ae_codec env) (JObj payload))))]"
proof -
  have "split_on (CHR ''.'') (''acp1'' @ CHR ''.'' # b64url_encode a @ CHR ''.'' # b64url_encode b) =
     [''acp1'', b64url_encode a, b64url_encode b]" for a b
    by (subst split_on_append, simp, subst split_on_append, rule b64url_no_dot)
       (simp add: split_on_no_sep b64url_no_dot)
  then show ?thesis by (simp add: encode_development_token_def Let_def)
qed

lemma decode_encoded:
  assumes "js_loads (ae_codec env) (js_dumps (ae_codec env) (JObj payload)) = Some (JObj payload)"
    and "jget payload ''exp'' = JInt n" "jget payload ''iat'' = JInt m"
  shows "decode_development_token env (encode_development_token env payload) =
    (if seconds n \<le> ae_now env then Inl (AuthenticationError ''bearer token has expired'') else Inr payload)"
  unfolding decode_development_token_def split_development_token
  by (simp add: b64url_roundtrip assms py_int_def)

lemma development_mac_cong:
  "ae_settings env' = ae_settings env \<Longrightarrow> ae_hmac env' = ae_hmac env \<Longrightarrow> development_mac env' = development_mac env"
  by (simp add: development_mac_def fun_eq_iff)

lemma encode_cong:
  "ae_settings env' = ae_settings env \<Longrightarrow> ae_hmac env' = ae_hmac env \<Longrightarrow> ae_codec env' = ae_codec env \<Longrightarrow>
   encode_development_token env' = encode_development_token env"
  by (simp add: encode_development_token_def development_mac_def fun_eq_iff Let_def)

lemma claims_fields:
  "jget (development_claims ptype i kind a b) ''exp'' = JInt (b div 1000000)"
  "jget (development_claims ptype i kind a b) ''iat'' = JInt (a div 1000000)"
  "map_of (development_claims ptype i kind a b) ''principal_type'' = Some (JStr ptype)"
  "map_of (development_claims ptype i kind a b) ''principal_id'' = Some (JStr i)"
  "map_of (development_claims ptype i kind a b) ''token_kind'' = Some (JStr kind)"
  by (simp_all add: development_claims_def jget_def)

lemma whole_seconds:
  fixes a :: int
  assumes "0 \<le> a" "a \<le> 253402300799999999"
  shows "from_timestamp (of_int (a div 1000000)) = Inr (seconds (a div 1000000))"
  by (rule from_timestamp_seconds) (use assms in \<open>auto simp: seconds_def\<close>)

lemma claims_open:
  assumes "0 \<le> a" "a \<le> b" "b \<le> 253402300799999999"
  shows "session_for_claims env (development_claims ''user'' i ''operator'' a b) d =
      session_for_user env i (seconds (a div 1000000)) (seconds (b div 1000000)) d"
    and "session_for_claims env (development_claims ''service_principal'' i ''service'' a b) d =
      session_for_service_principal i (seconds (a div 1000000)) (seconds (b div 1000000)) d"
proof -
  have "claim_instant (development_claims ptype i kind a b) ''iat'' = Inr (seconds (a div 1000000))"
    "claim_instant (development_claims ptype i kind a b) ''exp'' = Inr (seconds (b div 1000000))" for ptype kind
    using assms by (simp_all add: claim_instant_def claims_fields whole_seconds)
  then show "session_for_claims env (development_claims ''user'' i ''operator'' a b) d =
      session_for_user env i (seconds (a div 1000000)) (seconds (b div 1000000)) d"
    "session_for_claims env (development_claims ''service_principal'' i ''service'' a b) d =
      session_for_service_principal i (seconds (a div 1000000)) (seconds (b div 1000000)) d"
    by (simp_all add: session_for_claims_def claim_of_def claims_fields principal_session_def)
qed

lemma system_roles_frame:
  "ad_users (with_system_roles env d) = ad_users d"
  "ad_service_principals (with_system_roles env d) = ad_service_principals d"
  "ad_jwks_cache (with_system_roles env d) = ad_jwks_cache d"
proof -
  have "ad_users (snd (add_system_roles env defs d)) = ad_users d \<and>
      ad_service_principals (snd (add_system_roles env defs d)) = ad_service_principals d \<and>
      ad_jwks_cache (snd (add_system_roles env defs d)) = ad_jwks_cache d" for defs
    by (induction env defs d rule: add_system_roles.induct)
       (auto simp: Let_def case_prod_beta add_role_def split: option.split)
  then show "ad_users (with_system_roles env d) = ad_users d"
    "ad_service_principals (with_system_roles env d) = ad_service_principals d"
    "ad_jwks_cache (with_system_roles env d) = ad_jwks_cache d"
    by (simp_all add: with_system_roles_def ensure_system_roles_def Let_def case_prod_beta)
qed

definition active_user :: "ident \<Rightarrow> auth_db \<Rightarrow> bool" where
  "active_user i d \<longleftrightarrow> list_ex (\<lambda>x. us_user_id x = i \<and> us_status x = PR_active) (ad_users d)"

definition active_service :: "ident \<Rightarrow> auth_db \<Rightarrow> bool" where
  "active_service i d \<longleftrightarrow>
     list_ex (\<lambda>x. sp_service_principal_id x = i \<and> sp_status x = PR_active) (ad_service_principals d)"

lemma active_row:
  assumes "access_inv u d"
  shows "active_user i d \<longleftrightarrow> (\<exists>x. tget us_user_id i (ad_users d) = Some x \<and> us_status x = PR_active)"
    and "active_service i d \<longleftrightarrow>
      (\<exists>x. tget sp_service_principal_id i (ad_service_principals d) = Some x \<and> sp_status x = PR_active)"
proof -
  have k: "distinct (map us_user_id (ad_users d))" "distinct (map sp_service_principal_id (ad_service_principals d))"
    using assms by (simp_all add: access_inv_def keys_unique_def)
  show "active_user i d \<longleftrightarrow> (\<exists>x. tget us_user_id i (ad_users d) = Some x \<and> us_status x = PR_active)"
    using tget_unique[OF k(1)] tgetD[of us_user_id i "ad_users d"] unfolding active_user_def list_ex_iff by metis
  show "active_service i d \<longleftrightarrow>
      (\<exists>x. tget sp_service_principal_id i (ad_service_principals d) = Some x \<and> sp_status x = PR_active)"
    using tget_unique[OF k(2)] tgetD[of sp_service_principal_id i "ad_service_principals d"]
    unfolding active_service_def list_ex_iff by metis
qed

lemma issued_operator:
  assumes "issue_operator_token env i lifetime d = Inr tok"
  shows "ensure_development_auth_enabled env = None"
    and "\<exists>n. it_expires_at tok = ae_now env + seconds n \<and> it_access_token tok =
      encode_development_token env (development_claims ''user'' i ''operator'' (ae_now env) (it_expires_at tok))"
  using assms tgetD[of us_user_id i "ad_users d"]
  by (auto simp: issue_operator_token_def get_user_def issue_token_def Let_def
      split: option.split_asm sum.split_asm if_split_asm)

lemma development_enabled:
  "ensure_development_auth_enabled env = None \<Longrightarrow>
   as_auth_mode (ae_settings env) = ''development_signed_bearer'' \<and> as_environment (ae_settings env) \<in> {''local'', ''test''}"
  by (simp add: ensure_development_auth_enabled_def split: if_splits)

section \<open>Properties\<close>

text \<open>
  C21. The life of an operator token. An issued token, presented later to a process with the same settings,
  opens a session if and only if its expiry (in whole seconds) has not passed and its user is active
  at that time; the session is that user's. So suspending a user stops the tokens already issued, and
  roles assigned since then count.
\<close>

theorem operator_token_lifetime:
  assumes "inj u" "access_reachable u d'" "ae_uuid env' = u"
    and "issue_operator_token env i lifetime d = Inr tok"
    and "ae_settings env' = ae_settings env" "ae_hmac env' = ae_hmac env" "ae_codec env' = ae_codec env"
    and "claims = development_claims ''user'' i ''operator'' (ae_now env) (it_expires_at tok)"
    and "js_loads (ae_codec env) (js_dumps (ae_codec env) (JObj claims)) = Some (JObj claims)"
    and "0 \<le> ae_now env" "ae_now env \<le> it_expires_at tok" "it_expires_at tok \<le> 253402300799999999"
  shows "((\<exists>s. fst (authenticate_bearer_token env' (it_access_token tok) d') = Inr s) \<longleftrightarrow>
      ae_now env' < seconds (it_expires_at tok div 1000000) \<and> active_user i d') \<and>
    (\<forall>s. fst (authenticate_bearer_token env' (it_access_token tok) d') = Inr s \<longrightarrow>
      session_of (with_system_roles env' d') ''user'' i s \<and> se_expires_at s = seconds (it_expires_at tok div 1000000))"
proof -
  let ?d = "with_system_roles env' d'" and ?exp = "it_expires_at tok div 1000000"
  have inv: "access_inv u ?d"
    using writes_inv[OF with_system_roles_writes[of env' d'], unfolded assms(3)] reachable_inv[OF assms(1,2)] assms(1) by blast
  have tok: "it_access_token tok = encode_development_token env' claims"
    using issued_operator(2)[OF assms(4)] encode_cong[OF assms(5,6,7)] by (auto simp: assms(8))
  have mode: "as_auth_mode (ae_settings env') = ''development_signed_bearer''"
    "as_environment (ae_settings env') \<noteq> ''production''"
    using development_enabled[OF issued_operator(1)[OF assms(4)]] assms(5) by auto
  have dec: "decode_development_token env' (encode_development_token env' claims) =
      (if seconds ?exp \<le> ae_now env' then Inl (AuthenticationError ''bearer token has expired'') else Inr claims)"
    by (rule decode_encoded[where m = "ae_now env div 1000000"])
       (use assms(9) in \<open>simp_all only: assms(7,8) claims_fields\<close>)
  have opens: "session_for_claims env' claims ?d =
      session_for_user env' i (seconds (ae_now env div 1000000)) (seconds ?exp) ?d"
    unfolding assms(8) by (rule claims_open(1)[OF assms(10-12)])
  have auth: "fst (authenticate_bearer_token env' (it_access_token tok) d') =
      (if seconds ?exp \<le> ae_now env' then Inl (AuthenticationError ''bearer token has expired'')
       else session_for_user env' i (seconds (ae_now env div 1000000)) (seconds ?exp) ?d)"
    by (simp add: authenticate_bearer_token_def Let_def mode tok dec opens)
  have act: "active_user i d' \<longleftrightarrow> (\<exists>x. tget us_user_id i (ad_users ?d) = Some x \<and> us_status x = PR_active)"
    using active_row(1)[OF inv, of i] by (simp add: active_user_def system_roles_frame)
  let ?s = "session_for_user env' i (seconds (ae_now env div 1000000)) (seconds ?exp) ?d"
  have opened: "(\<exists>s. ?s = Inr s) \<longleftrightarrow> active_user i d'"
    using act user_session[OF inv] session_for_user_active by blast
  have mine: "session_of ?d ''user'' i s \<and> se_expires_at s = seconds ?exp" if e: "?s = Inr s" for s
    using session_for_user_active[OF e] user_session[OF inv, of i _ env' "seconds (ae_now env div 1000000)" "seconds ?exp"] e
    by auto
  show ?thesis
    unfolding auth using opened mine by (cases "seconds ?exp \<le> ae_now env'") (simp_all add: not_le)
qed

lemma decoded_development:
  assumes "decode_development_token env token = Inr payload"
  shows "\<exists>part tag n. token = ''acp1.'' @ part @ ''.'' @ tag \<and> b64url_decode tag = Some (development_mac env part) \<and>
    decode_segment (ae_codec env) part = Some (JObj payload) \<and>
    py_int env (jget payload ''exp'') = Inr n \<and> ae_now env < seconds n"
proof -
  obtain v part tag where parts: "split_on (CHR ''.'') token = [v, part, tag]"
    using assms by (auto simp: decode_development_token_def split: list.split_asm)
  have "join_str ''.'' (split_on (CHR ''.'') token) = token" by (rule join_split)
  then have token: "token = v @ ''.'' @ part @ ''.'' @ tag" by (simp add: parts)
  have v: "v = ''acp1''" using assms by (simp add: decode_development_token_def parts split: if_split_asm)
  have "b64url_decode tag = Some (development_mac env part) \<and> decode_segment (ae_codec env) part = Some (JObj payload) \<and>
      (\<exists>n. py_int env (jget payload ''exp'') = Inr n \<and> ae_now env < seconds n)"
    using assms
    by (simp add: decode_development_token_def parts v decode_segment_def not_le
        split: option.split_asm if_split_asm json.split_asm sum.split_asm)
  then show ?thesis using token v by auto
qed

definition active_principal :: "string \<Rightarrow> ident \<Rightarrow> auth_db \<Rightarrow> bool" where
  "active_principal ptype i d \<longleftrightarrow>
     ptype = ''user'' \<and> active_user i d \<or> ptype = ''service_principal'' \<and> active_service i d"

lemma opened_principal:
  "session_for_user env i issued expires d = Inr s \<Longrightarrow>
     se_principal_type s = ''user'' \<and> se_principal_id s = i \<and> active_user i d"
  "session_for_service_principal i issued expires d = Inr s \<Longrightarrow>
     se_principal_type s = ''service_principal'' \<and> se_principal_id s = i \<and> active_service i d"
proof -
  have row: "list_ex Q t" if "tget pk i t = Some x" "Q x" for pk :: "'r \<Rightarrow> ident" and t x Q
    using tgetD[OF that(1)] that(2) by (auto simp: list_ex_iff)
  show "se_principal_type s = ''user'' \<and> se_principal_id s = i \<and> active_user i d"
    if "session_for_user env i issued expires d = Inr s"
    using that tgetD[of us_user_id i "ad_users d"] unfolding session_for_user_def get_user_def active_user_def
    by (fastforce split: option.split_asm if_split_asm sum.split_asm prod.split_asm intro: row)
  show "se_principal_type s = ''service_principal'' \<and> se_principal_id s = i \<and> active_service i d"
    if "session_for_service_principal i issued expires d = Inr s"
    using that tgetD[of sp_service_principal_id i "ad_service_principals d"]
    unfolding session_for_service_principal_def get_service_principal_def active_service_def Let_def
    by (fastforce split: option.split_asm if_split_asm sum.split_asm prod.split_asm intro: row)
qed

lemma claims_principal:
  assumes "session_for_claims env payload d = Inr s"
  shows "map_of payload ''principal_type'' = Some (JStr (se_principal_type s)) \<and>
    map_of payload ''principal_id'' = Some (JStr (se_principal_id s)) \<and>
    active_principal (se_principal_type s) (se_principal_id s) d"
proof -
  obtain issued expires ptype pid kind where f: "claim_of payload ''principal_type'' = Inr ptype"
    "claim_of payload ''principal_id'' = Inr pid"
    and s: "(if ptype = JStr ''user''
        then (if kind \<noteq> JStr ''operator'' then Inl (AuthenticationError ''user token kind is invalid'')
              else principal_session (\<lambda>i. session_for_user env i issued expires d) pid)
        else if ptype = JStr ''service_principal''
        then (if kind \<noteq> JStr ''service'' then Inl (AuthenticationError ''service token kind is invalid'')
              else principal_session (\<lambda>i. session_for_service_principal i issued expires d) pid)
        else Inl (AuthenticationError ''token principal type is unsupported'')) = Inr s"
    using assms unfolding session_for_claims_def bind_Inr by (elim exE conjE)
  have c: "map_of payload ''principal_type'' = Some ptype" "map_of payload ''principal_id'' = Some pid"
    using f by (simp_all add: claim_of_def split: option.split_asm)
  show ?thesis
  proof (cases "ptype = JStr ''user''")
    case True
    then obtain i where "pid = JStr i" "session_for_user env i issued expires d = Inr s"
      using s by (simp add: principal_session_def split: if_split_asm json.split_asm)
    then show ?thesis using True c opened_principal(1)[of env i issued expires d s] by (simp add: active_principal_def)
  next
    case False
    then have t: "ptype = JStr ''service_principal''" using s by (simp split: if_split_asm)
    then obtain i where "pid = JStr i" "session_for_service_principal i issued expires d = Inr s"
      using s by (simp add: principal_session_def split: if_split_asm json.split_asm)
    then show ?thesis using t c opened_principal(2)[of i issued expires d s] by (simp add: active_principal_def)
  qed
qed

text \<open>
  C23. Accepted development tokens are authentic and alive. Outside the OIDC mode a bearer opens a session
  only in the development mode and never in production; the token carries the HMAC of its payload
  under the configured secret, its expiry lies ahead, the session is for the principal the payload
  names, and that principal is active.
\<close>

theorem development_token_authentic:
  assumes "authenticate_bearer_token env token d = (Inr s, d')"
    and "as_auth_mode (ae_settings env) \<noteq> ''external_managed_bearer''"
  shows "as_auth_mode (ae_settings env) = ''development_signed_bearer'' \<and>
    as_environment (ae_settings env) \<noteq> ''production'' \<and>
    (\<exists>part tag payload n. token = ''acp1.'' @ part @ ''.'' @ tag \<and>
       b64url_decode tag = Some (development_mac env part) \<and> decode_segment (ae_codec env) part = Some (JObj payload) \<and>
       py_int env (jget payload ''exp'') = Inr n \<and> ae_now env < seconds n \<and>
       map_of payload ''principal_type'' = Some (JStr (se_principal_type s)) \<and>
       map_of payload ''principal_id'' = Some (JStr (se_principal_id s))) \<and>
    active_principal (se_principal_type s) (se_principal_id s) d"
proof -
  let ?open = "case decode_development_token env token of
      Inl e \<Rightarrow> Inl e | Inr payload \<Rightarrow> session_for_claims env payload (with_system_roles env d)"
  have e: "(if as_auth_mode (ae_settings env) \<noteq> ''development_signed_bearer''
      then Inl (AuthenticationError ''unsupported auth mode'')
      else if as_environment (ae_settings env) = ''production''
      then Inl (AuthenticationError ''development signed bearer authentication is refused in production'')
      else ?open) = Inr s" and d': "d' = with_system_roles env d"
    using assms by (simp_all add: authenticate_bearer_token_def Let_def)
  have mode: "as_auth_mode (ae_settings env) = ''development_signed_bearer''"
    "as_environment (ae_settings env) \<noteq> ''production''" and "?open = Inr s"
    using e by (simp_all split: if_split_asm)
  then obtain payload where p: "decode_development_token env token = Inr payload" "session_for_claims env payload d' = Inr s"
    unfolding bind_Inr d' by blast
  have "active_principal ptype i d' = active_principal ptype i d" for ptype i
    by (simp add: d' active_principal_def active_user_def active_service_def system_roles_frame)
  then show ?thesis
    using decoded_development[OF p(1)] claims_principal[OF p(2)] mode by auto
qed

section \<open>OIDC tokens\<close>

lemma fetch_frame:
  "fetch_oidc_jwks env issuer d = (r, d') \<Longrightarrow>
   ad_users d' = ad_users d \<and> ad_service_principals d' = ad_service_principals d"
  by (auto simp: fetch_oidc_jwks_def Let_def split: option.split_asm if_split_asm sum.split_asm)

lemma fetched_keys:
  assumes "fetch_oidc_jwks env issuer d = (Inr keys, d')"
  shows "download_jwks env issuer = Inr keys \<or>
    (\<exists>c. map_of (ad_jwks_cache d) issuer = Some c \<and> cj_keys c = keys \<and>
       ae_now env < cj_fetched_at c + seconds oidc_jwks_cache_ttl_seconds)"
  using assms unfolding fetch_oidc_jwks_def Let_def fresh_jwks_def
  by (auto split: option.split_asm if_split_asm sum.split_asm)

lemma jwt_segments_parts:
  assumes "jwt_segments js token = Inr (msg, header, payload, sig)"
  shows "\<exists>h p s. token = h @ ''.'' @ p @ ''.'' @ s \<and> msg = h @ ''.'' @ p \<and> decode_segment js h = Some (JObj header) \<and>
    decode_segment js p = Some (JObj payload) \<and> b64url_decode s = Some sig"
proof -
  obtain h p s where parts: "split_on (CHR ''.'') token = [h, p, s]"
    using assms by (auto simp: jwt_segments_def split: list.split_asm)
  have "join_str ''.'' (split_on (CHR ''.'') token) = token" by (rule join_split)
  then have token: "token = h @ ''.'' @ p @ ''.'' @ s" by (simp add: parts)
  moreover have "msg = h @ ''.'' @ p \<and> decode_segment js h = Some (JObj header) \<and>
    decode_segment js p = Some (JObj payload) \<and> b64url_decode s = Some sig"
    using assms unfolding jwt_segments_def parts
    by (simp split: option.split_asm json.split_asm)
  ultimately show ?thesis by blast
qed

lemma signature_checked:
  "check_signature env alg pk sig msg = None \<Longrightarrow>
   ae_verify env pk sig msg \<and>
   (alg = ''RS256'' \<and> (\<exists>e n. pk = PK_RSA e n) \<or> alg = ''EdDSA'' \<and> (\<exists>x. pk = PK_Ed25519 x))"
  by (auto simp: check_signature_def Let_def split: if_split_asm public_key.split_asm)

lemma claims_checked:
  "check_oidc_claims env payload issuer audience = None \<Longrightarrow>
   jget payload ''iss'' = JStr issuer \<and> (audience = [] \<or> audience_matches (jget payload ''aud'') audience) \<and>
   (\<exists>q. num_of (jget payload ''exp'') = Some q \<and> ae_now env < seconds (int_of_rat q))"
  by (auto simp: check_oidc_claims_def split: if_split_asm option.split_asm)

lemma keys_checked:
  assumes "check_with_keys env keys alg kid sig msg payload issuer audience = Inr claims"
  shows "claims = payload \<and> check_oidc_claims env payload issuer audience = None \<and>
    (\<exists>jwk pk. map_of keys kid = Some jwk \<and> jwk_to_public_key env jwk = Inr pk \<and>
       check_signature env alg pk sig msg = None)"
  using assms by (auto simp: check_with_keys_def split: option.split_asm sum.split_asm)

definition subject_of :: "auth_env \<Rightarrow> string \<Rightarrow> auth_session \<Rightarrow> auth_db \<Rightarrow> bool" where
  "subject_of env subject s d \<longleftrightarrow>
     (\<exists>x \<in> set (ad_users d). us_user_id x = se_principal_id s \<and> se_principal_type s = ''user'' \<and>
        us_identity_provider_subject x = Some subject) \<or>
     (\<exists>x \<in> set (ad_service_principals d). sp_service_principal_id x = se_principal_id s \<and>
        se_principal_type s = ''service_principal'' \<and> metadata_subject env (sp_auth_metadata x) = Some subject)"

lemma subject_opened:
  assumes "session_for_subject env subject issued expires d = Inr s"
  shows "subject_of env subject s d \<and> active_principal (se_principal_type s) (se_principal_id s) d"
proof -
  have found: "x \<in> set xs \<and> Q x" if "List.find Q xs = Some x" for x :: 'x and xs Q
    using that by (auto simp: find_Some_iff)
  show ?thesis
    using assms unfolding session_for_subject_def Let_def
    by (auto split: option.split_asm if_split_asm dest!: found opened_principal
        simp: subject_of_def active_principal_def)
qed

text \<open>
  C22. Accepted OIDC tokens. In the managed mode a bearer opens a session only if it is a JWT of three
  segments whose signature verifies, under an algorithm that fits the key, with a key the configured
  issuer publishes for the token's \<open>kid\<close> (downloaded now or less than 300 seconds ago); the issuer
  claim is the configured one, the audience names the client where one is configured, the expiry lies
  ahead, and the subject is that of the active principal the session is for.
\<close>

theorem oidc_token_authentic:
  assumes "authenticate_bearer_token env token d = (Inr s, d')"
    and "as_auth_mode (ae_settings env) = ''external_managed_bearer''"
  shows "\<exists>h p sg sig header payload alg kid keys jwk pk subject q.
    token = h @ ''.'' @ p @ ''.'' @ sg \<and> b64url_decode sg = Some sig \<and>
    decode_segment (ae_codec env) h = Some (JObj header) \<and> decode_segment (ae_codec env) p = Some (JObj payload) \<and>
    jget header ''alg'' = JStr alg \<and> jget header ''kid'' = JStr kid \<and>
    (download_jwks env (as_oidc_issuer_url (ae_settings env)) = Inr keys \<or>
     (\<exists>c. map_of (ad_jwks_cache d) (as_oidc_issuer_url (ae_settings env)) = Some c \<and> cj_keys c = keys \<and>
        ae_now env < cj_fetched_at c + seconds 300)) \<and>
    map_of keys kid = Some jwk \<and> jwk_to_public_key env jwk = Inr pk \<and> ae_verify env pk sig (h @ ''.'' @ p) \<and>
    (alg = ''RS256'' \<and> (\<exists>e n. pk = PK_RSA e n) \<or> alg = ''EdDSA'' \<and> (\<exists>x. pk = PK_Ed25519 x)) \<and>
    jget payload ''iss'' = JStr (as_oidc_issuer_url (ae_settings env)) \<and>
    (as_oidc_client_id (ae_settings env) = [] \<or> audience_matches (jget payload ''aud'') (as_oidc_client_id (ae_settings env))) \<and>
    num_of (jget payload ''exp'') = Some q \<and> ae_now env < seconds (int_of_rat q) \<and>
    jget payload ''sub'' = JStr subject \<and> subject_of env subject s d \<and>
    active_principal (se_principal_type s) (se_principal_id s) d"
proof -
  let ?issuer = "as_oidc_issuer_url (ae_settings env)" and ?client = "as_oidc_client_id (ae_settings env)"
    and ?d = "with_system_roles env d"
  have ext: "authenticate_external_managed_bearer env token ?d = (Inr s, d')"
    using assms by (simp add: authenticate_bearer_token_def Let_def)
  obtain claims subject issued expires where c: "verify_oidc_token env token ?d = (Inr claims, d')"
    "jget claims ''sub'' = JStr subject" "session_for_subject env subject issued expires d' = Inr s"
    by (rule external_session[OF ext])
  have v: "verify_oidc_jwt env token ?issuer ?client ?d = (Inr claims, d')"
    using c(1) by (simp add: verify_oidc_token_def split: if_split_asm)
  obtain msg header payload sig alg kid keys where w: "jwt_segments (ae_codec env) token = Inr (msg, header, payload, sig)"
    "jwt_alg_kid header = Inr (alg, kid)" "fetch_oidc_jwks env ?issuer ?d = (Inr keys, d')"
    "check_with_keys env keys alg kid sig msg payload ?issuer ?client = Inr claims"
    using v by (auto simp: verify_oidc_jwt_def split: sum.split_asm prod.split_asm)
  have ak: "jget header ''alg'' = JStr alg \<and> jget header ''kid'' = JStr kid"
    using w(2) by (simp add: jwt_alg_kid_def split: json.split_asm if_split_asm)
  have frame: "subject_of env subject s d' = subject_of env subject s d"
    "active_principal ptype i d' = active_principal ptype i d" for ptype i
    using fetch_frame[OF w(3)]
    by (simp_all add: subject_of_def active_principal_def active_user_def active_service_def system_roles_frame)
  have k: "claims = payload" "check_oidc_claims env payload ?issuer ?client = None" using keys_checked[OF w(4)] by simp_all
  obtain jwk pk where pk: "map_of keys kid = Some jwk" "jwk_to_public_key env jwk = Inr pk"
    "check_signature env alg pk sig msg = None" using keys_checked[OF w(4)] by blast
  obtain h p sg where seg: "token = h @ ''.'' @ p @ ''.'' @ sg" "msg = h @ ''.'' @ p"
    "decode_segment (ae_codec env) h = Some (JObj header)" "decode_segment (ae_codec env) p = Some (JObj payload)"
    "b64url_decode sg = Some sig" using jwt_segments_parts[OF w(1)] by blast
  obtain q where q: "num_of (jget payload ''exp'') = Some q" "ae_now env < seconds (int_of_rat q)"
    using claims_checked[OF k(2)] by blast
  show ?thesis
    using ak fetched_keys[OF w(3)] pk(1,2) signature_checked[OF pk(3)] claims_checked[OF k(2)] q c(2) subject_opened[OF c(3)]
      seg unfolding frame k(1) system_roles_frame oidc_jwks_cache_ttl_seconds_def seg(2) by blast
qed

section \<open>Bootstrap\<close>

lemma bootstrap_user_effect:
  assumes "bootstrap_user env n name rid d = (x, d')" "distinct (map us_user_id (ad_users d))"
    and "\<forall>z \<in> set (active_admins rid d). us_email z = n"
  shows "ad_roles d' = ad_roles d \<and> x \<in> set (ad_users d') \<and> us_email x = n \<and> rid \<in> set (us_platform_role_ids x) \<and>
    (\<forall>z \<in> set (active_admins rid d'). us_email z = n)"
proof (cases "email_user n d")
  case None
  then show ?thesis
    using assms(1,3) by (auto simp: bootstrap_user_def Let_def add_user_def active_admins_def list_users_def)
next
  case (Some y)
  have y: "y \<in> set (ad_users d)" "us_email y = n" using email_user_row[OF Some] by auto
  have same: "z = y" if "z \<in> set (ad_users d)" "us_user_id z = us_user_id y" for z
    using distinct_key_eq[OF assms(2) that(1) y(1) that(2)] .
  show ?thesis
  proof (cases "rid \<in> set (us_platform_role_ids y)")
    case True
    then show ?thesis using assms(1,3) y by (simp add: bootstrap_user_def Some)
  next
    case False
    let ?f = "\<lambda>u. u\<lparr>us_platform_role_ids := us_platform_role_ids u @ [rid], us_status := PR_active\<rparr>"
    have e: "x = ?f y" "d' = d\<lparr>ad_users := tmodify us_user_id (us_user_id y) ?f (ad_users d)\<rparr>"
      using assms(1) False by (simp_all add: bootstrap_user_def Some Let_def)
    have "?f y \<in> set (tmodify us_user_id (us_user_id y) ?f (ad_users d))"
      using y(1) by (force simp: tmodify_def)
    moreover have "us_email z = n" if "z \<in> set (active_admins rid d')" for z
    proof -
      have z: "z \<in> set (tmodify us_user_id (us_user_id y) ?f (ad_users d))" "rid \<in> set (us_platform_role_ids z)"
        "us_status z = PR_active" using that by (simp_all add: active_admins_def list_users_def e(2))
      from set_tmodify[OF z(1)] show ?thesis
      proof
        assume "z \<in> set (ad_users d) \<and> us_user_id z \<noteq> us_user_id y"
        then show ?thesis using assms(3) z(2,3) by (simp add: active_admins_def list_users_def)
      next
        assume "\<exists>r0 \<in> set (ad_users d). us_user_id r0 = us_user_id y \<and> z = ?f r0"
        then obtain r0 where "r0 \<in> set (ad_users d)" "us_user_id r0 = us_user_id y" "z = ?f r0" by blast
        then show ?thesis using same[of r0] y(2) by simp
      qed
    qed
    ultimately show ?thesis using e y(2) by simp
  qed
qed

lemma platform_admin_permissions:
  assumes "system_role r" "ro_scope r = SC_platform" "ro_name r = ''platform_admin''"
  shows "platform_admin_manage \<in> set (ro_permissions r)"
  using assms by (auto simp: system_role_def system_role_definitions_def platform_admin_manage_def)



section \<open>Sessions and authority\<close>

text \<open>
  C7. A session is exactly its principal's grants. Whatever the history of the access tables and however
  the bearer was authenticated (development token or OIDC), an opened session has a platform
  permission if and only if its principal is active and holds a platform role with it, and a
  permission in a tenant if and only if it is a platform administrator or its principal is active
  and has an active membership of that tenant (or is a service principal of it) with a role of the
  tenant or a global tenant role that grants it.
\<close>

theorem session_grants_exact:
  assumes "inj u" "access_reachable u d" "ae_uuid env = u" "get_current_session env cred d = (Inr s, d')"
  shows "(has_platform_permission s p \<longleftrightarrow> platform_grant d (se_principal_type s) (se_principal_id s) p) \<and>
    (has_tenant_permission s t p \<longleftrightarrow>
      platform_grant d (se_principal_type s) (se_principal_id s) platform_admin_manage \<or>
      tenant_grant d (se_principal_type s) (se_principal_id s) t p)"
  using session_permissions[of env d cred s d'] reachable_inv[OF assms(1,2)] assms by simp

text \<open>
  Queries stay in one tenant. The tenant filter a handler obtains for a session that is no platform
  administrator is never absent: it is one tenant, the one asked for when there is one, and the
  principal is granted the permission there.
\<close>

theorem query_scope_confined:
  assumes "inj u" "access_reachable u d" "ae_uuid env = u" "get_current_session env cred d = (Inr s, d')"
    and "require_tenant_query_scope s tid p = Inr q"
  shows "platform_grant d (se_principal_type s) (se_principal_id s) platform_admin_manage \<and> q = tid \<or>
    (\<exists>t. q = Some t \<and> tid \<in> {None, Some t} \<and> tenant_grant d (se_principal_type s) (se_principal_id s) t p)"
proof -
  have adm: "is_platform_admin s \<longleftrightarrow> platform_grant d (se_principal_type s) (se_principal_id s) platform_admin_manage"
    using session_permissions(1)[of env d cred s d' platform_admin_manage] reachable_inv[OF assms(1,2)] assms
    by (simp add: has_platform_permission_def is_platform_admin_def)
  show ?thesis
  proof (cases "is_platform_admin s")
    case False
    then obtain t where t: "q = Some t" "tid \<in> {None, Some t}" "has_tenant_permission s t p"
      using assms(5) requires(2)[of s _ p]
      by (auto simp: require_tenant_query_scope_def split: option.split_asm list.split_asm sum.split_asm)
    then show ?thesis
      using session_permissions(2)[of env d cred s d' t p] reachable_inv[OF assms(1,2)] assms adm False by auto
  qed (use assms(5) adm in \<open>simp add: require_tenant_query_scope_def\<close>)
qed


section \<open>An uncaught error\<close>

lemma resolve_fails:
  "(\<exists>rs. resolve_role_map rids d = Inr rs) \<longleftrightarrow> set rids \<subseteq> set (map ro_role_id (ad_roles d))"
  "resolve_role_map rids d = Inl e \<Longrightarrow> e = AuthenticationError ''unknown role ids in principal assignment''"
  by (auto simp: resolve_role_map_def Let_def list_all_iff split: if_splits)

lemma validate_platform_status:
  "(\<exists>e. validate_platform_role_ids rids d = Inl e \<and> admin_status e = None) \<longleftrightarrow>
   \<not> set rids \<subseteq> set (map ro_role_id (ad_roles d))"
proof (cases "resolve_role_map rids d")
  case (Inl e)
  then show ?thesis
    using resolve_fails(2)[OF Inl] resolve_fails(1)[of rids d] by (simp add: validate_platform_role_ids_def)
next
  case (Inr rs)
  have "admin_status e \<noteq> None" if "first_error check_platform_role rs = Some e" for e
    using first_error_Some[OF that] by (auto simp: check_platform_role_def split: if_splits)
  then have "\<nexists>e. validate_platform_role_ids rids d = Inl e \<and> admin_status e = None"
    using Inr by (auto simp: validate_platform_role_ids_def split: option.split_asm)
  then show ?thesis using resolve_fails(1)[of rids d] Inr by blast
qed

text \<open>
  C38. When creating a user crashes. The handler leaves an exception uncaught exactly when the caller is
  authorised, the address is well-formed and new, and some role identifier of the request is
  unknown: that is reported as an authentication failure, which the handler does not translate.
\<close>

theorem create_user_crash_iff:
  "fst (api_create_user env s email name rids subject md d) = Inl HttpCrash \<longleftrightarrow>
     has_platform_permission s platform_auth_manage \<and>
     (\<exists>n. normalize_email email = Inr n \<and> email_user n (with_system_roles env d) = None) \<and>
     \<not> set rids \<subseteq> set (map ro_role_id (ad_roles (with_system_roles env d)))"
proof -
  have crash: "respond admin_status r = Inl HttpCrash \<longleftrightarrow> (\<exists>e. r = Inl e \<and> admin_status e = None)" for r :: "user_row auth"
    by (simp add: respond_def split: sum.split option.split)
  have email: "normalize_email email = Inl e \<Longrightarrow> admin_status e \<noteq> None" for e
    by (auto simp: normalize_email_def Let_def split: if_splits)
  show ?thesis
  proof (cases "has_platform_permission s platform_auth_manage")
    case True
    then have eq: "fst (api_create_user env s email name rids subject md d) =
        respond admin_status (fst (create_user env email name rids subject md d))"
      by (simp add: api_create_user_def guarded_def require_platform_permission_def case_prod_beta)
    show ?thesis
      unfolding eq crash create_user_def Let_def
      using True email validate_platform_status[of rids "with_system_roles env d"]
      by (auto split: sum.split)
  next
    case False
    then show ?thesis
      by (simp add: api_create_user_def guarded_def require_platform_permission_def respond_def)
  qed
qed

section \<open>A sample deployment\<close>

text \<open>
  A test environment in the development mode, with tokens issued at second 1 for ten minutes, and an
  OIDC deployment with one Ed25519 key. Two tenants; the administrator is bootstrapped, creates a user
  and makes it the administrator of the first tenant.
\<close>

definition sample_auth_settings :: "string \<Rightarrow> auth_settings" where
  "sample_auth_settings mode = \<lparr>as_auth_mode = mode, as_environment = ''test'', as_bootstrap_admin_token = ''boot'',
     as_operator_token_ttl = 600, as_service_token_ttl = 600, as_dev_signing_secret = ''k'',
     as_oidc_issuer_url = ''iss'', as_oidc_client_id = ''cloud''\<rparr>"

definition sample_token_codec :: json_codec where
  "sample_token_codec = \<lparr>
     js_dumps = (\<lambda>j. case j of JObj d \<Rightarrow> (case jget d ''principal_id'' of JStr i \<Rightarrow> i | _ \<Rightarrow> []) | _ \<Rightarrow> []),
     js_loads = (\<lambda>s. if s = ''h'' then Some (JObj [(''alg'', JStr ''EdDSA''), (''kid'', JStr ''k1'')])
       else if s = ''p'' then Some (JObj [(''iss'', JStr ''iss''), (''aud'', JList [JStr ''cloud'']), (''exp'', JInt 601), (''sub'', JStr ''bob'')])
       else Some (JObj (development_claims ''user'' s ''operator'' 1000000 601000000)))\<rparr>"

definition sample_http :: "string \<Rightarrow> json option" where
  "sample_http url =
     (if url = ''iss/.well-known/openid-configuration'' then Some (JObj [(''jwks_uri'', JStr ''keys'')])
      else if url = ''keys''
      then Some (JObj [(''keys'', JList [JObj [(''kid'', JStr ''k1''), (''kty'', JStr ''OKP''), (''crv'', JStr ''Ed25519''),
        (''x'', JStr (b64url_encode ''pk''))]])])
      else None)"

definition sample_auth_env :: "string \<Rightarrow> time \<Rightarrow> auth_env" where
  "sample_auth_env mode t = \<lparr>ae_now = t, ae_uuid = sample_uuid, ae_settings = sample_auth_settings mode,
     ae_disable_bootstrap = [], ae_hmac = (\<lambda>k m. ''mac''), ae_codec = sample_token_codec, ae_http_get = sample_http,
     ae_public_key_ok = (\<lambda>pk. True), ae_verify = (\<lambda>pk sig m. sig = ''sig''), ae_int_of_str = (\<lambda>s. None),
     ae_json_text = (\<lambda>v. [])\<rparr>"

abbreviation sample_dev_env :: auth_env where
  "sample_dev_env \<equiv> sample_auth_env ''development_signed_bearer'' 1000000"

definition sample_bearer :: "ident \<Rightarrow> credentials" where
  "sample_bearer i = Some (''Bearer'', it_access_token (issue_token sample_dev_env ''user'' i ''operator'' 600))"

definition sample_tenants :: auth_db where
  "sample_tenants = empty_auth_db\<lparr>ad_tenants := [''t1'', ''t2'']\<rparr>"

lemma sample_env_fields [simp]:
  "ae_now (sample_auth_env mode t) = t" "ae_uuid (sample_auth_env mode t) = sample_uuid"
  "ae_settings (sample_auth_env mode t) = sample_auth_settings mode" "ae_codec (sample_auth_env mode t) = sample_token_codec"
  "as_auth_mode (sample_auth_settings mode) = mode" "as_environment (sample_auth_settings mode) = ''test''"
  "ae_hmac (sample_auth_env mode t) = (\<lambda>k m. ''mac'')" "as_operator_token_ttl (sample_auth_settings mode) = 600"
  by (simp_all add: sample_auth_env_def sample_auth_settings_def)

lemma system_roles_present:
  assumes "\<forall>(scope, name, x) \<in> set defs. role_by_key (role_key scope name None) d \<noteq> None"
  shows "snd (add_system_roles env defs d) = d"
  using assms by (induction env defs d rule: add_system_roles.induct) (auto simp: Let_def case_prod_beta)

lemma sample_open:
  assumes "hd i = CHR ''u''"
  shows "authenticate_bearer_token sample_dev_env (it_access_token (issue_token sample_dev_env ''user'' i ''operator'' 600)) d =
    (session_for_user sample_dev_env i 1000000 601000000 (with_system_roles sample_dev_env d), with_system_roles sample_dev_env d)"
proof -
  let ?c = "development_claims ''user'' i ''operator'' 1000000 601000000"
  have l: "js_loads sample_token_codec (js_dumps sample_token_codec (JObj ?c)) = Some (JObj ?c)"
    using assms by (auto simp: sample_token_codec_def development_claims_def jget_def)
  have "decode_development_token sample_dev_env (encode_development_token sample_dev_env ?c) = Inr ?c"
    using decode_encoded[of sample_dev_env ?c 601 1] l by (simp add: claims_fields seconds_def)
  then show ?thesis
    using claims_open(1)[of 1000000 601000000 sample_dev_env i]
    by (simp add: authenticate_bearer_token_def issue_token_def Let_def seconds_def)
qed

lemma sample_session:
  assumes "hd i = CHR ''u''"
  shows "get_current_session sample_dev_env (sample_bearer i) d =
    (respond bearer_status (session_for_user sample_dev_env i 1000000 601000000 (with_system_roles sample_dev_env d)),
     with_system_roles sample_dev_env d)"
proof -
  have "py_lower ''Bearer'' = ''bearer''" by code_simp
  then show ?thesis by (simp add: get_current_session_def sample_bearer_def sample_open[OF assms])
qed

definition sample_roles :: "role_row list" where
  "sample_roles = map (\<lambda>(i, scope, name, description, ps).
     \<lparr>ro_role_id = i, ro_role_key = role_key scope name None, ro_tenant_id = None, ro_scope = scope, ro_name = name,
      ro_description = Some description, ro_permissions = ps, ro_is_system = True, ro_created_at = 1000000\<rparr>)
     (zip [[], ''u'', ''uu'', ''uuu'', ''uuuu''] system_role_definitions)"

definition sample_db :: "user_row list \<Rightarrow> membership_row list \<Rightarrow> nat \<Rightarrow> auth_db" where
  "sample_db us ms n = \<lparr>ad_tenants = [''t1'', ''t2''], ad_roles = sample_roles, ad_users = us, ad_memberships = ms,
     ad_service_principals = [], ad_jwks_cache = [], ad_next_uuid = n\<rparr>"

definition sample_admin :: user_row where
  "sample_admin = \<lparr>us_user_id = ''uuuuu'', us_email = ''admin@x'', us_display_name = ''Admin'',
     us_identity_provider_subject = None, us_platform_role_ids = [[]],
     us_auth_metadata = [(''bootstrap_created'', JBool True)], us_status = PR_active\<rparr>"

definition sample_bob :: user_row where
  "sample_bob = \<lparr>us_user_id = ''uuuuuu'', us_email = ''bob@x'', us_display_name = ''Bob'',
     us_identity_provider_subject = Some ''bob'', us_platform_role_ids = [], us_auth_metadata = [], us_status = PR_active\<rparr>"

definition sample_member :: membership_row where
  "sample_member = \<lparr>me_membership_id = ''uuuuuuu'', me_tenant_id = ''t1'', me_user_id = ''uuuuuu'', me_role_ids = [''u''],
     me_status = PR_active\<rparr>"

abbreviation sample_booted :: auth_db where
  "sample_booted \<equiv> sample_db [sample_admin] [] 6"

abbreviation sample_with_bob :: auth_db where
  "sample_with_bob \<equiv> sample_db [sample_admin, sample_bob] [] 7"

abbreviation sample_access :: auth_db where
  "sample_access \<equiv> sample_db [sample_admin, sample_bob] [sample_member] 8"

lemma system_role_keys:
  "role_key SC_platform ''platform_admin'' None = ''platform:_global:platform_admin''"
  "role_key SC_tenant ''tenant_admin'' None = ''tenant:_global:tenant_admin''"
  "role_key SC_tenant ''policy_admin'' None = ''tenant:_global:policy_admin''"
  "role_key SC_tenant ''audit_viewer'' None = ''tenant:_global:audit_viewer''"
  "role_key SC_tenant ''service_operator'' None = ''tenant:_global:service_operator''"
  by code_simp+

lemma sample_roles_kept: "with_system_roles env (sample_db us ms n) = sample_db us ms n"
proof -
  have "\<forall>(scope, name, x) \<in> set system_role_definitions.
      role_by_key (role_key scope name None) (sample_db us ms n) \<noteq> None"
    by (simp add: system_role_definitions_def sample_roles_def sample_db_def role_by_key_def system_role_keys)
  from system_roles_present[OF this, of env] show ?thesis
    by (simp add: with_system_roles_def ensure_system_roles_def Let_def case_prod_beta)
qed

lemma sample_initial_roles: "with_system_roles sample_dev_env sample_tenants = sample_db [] [] 5"
proof -
  have "snd (add_system_roles sample_dev_env system_role_definitions sample_tenants) = sample_db [] [] 5"
    by (simp add: system_role_definitions_def system_role_keys role_by_key_def sample_tenants_def empty_auth_db_def
        auth_new_id_def sample_uuid_def add_role_def tinsert_def sample_db_def sample_roles_def Let_def numeral_eq_Suc)
  then show ?thesis by (simp add: with_system_roles_def ensure_system_roles_def Let_def case_prod_beta)
qed

lemma sample_admin_role:
  "get_system_role SC_platform ''platform_admin'' (sample_db us ms n) = Inr (hd sample_roles) \<and> ro_role_id (hd sample_roles) = []"
  by (simp add: get_system_role_def sample_db_def sample_roles_def system_role_definitions_def)

lemma sample_emails: "normalize_email '' Admin@x '' = Inr ''admin@x''" "normalize_email ''bob@x'' = Inr ''bob@x''"
  "strip ''Admin'' = ''Admin''" "strip ''Bob'' = ''Bob''" "py_lower [] = []"
  by code_simp+

lemma sample_issued:
  assumes "tget us_user_id i us = Some x" "us_status x = PR_active" "us_user_id x = i"
  shows "issue_operator_token sample_dev_env i None (sample_db us ms n) =
    Inr (issue_token sample_dev_env ''user'' i ''operator'' 600)"
  using assms by (simp add: issue_operator_token_def ensure_development_auth_enabled_def get_user_def sample_db_def lifetime_or_def)

lemma sample_bootstrap:
  "bootstrap_platform_admin sample_dev_env ''boot'' '' Admin@x '' ''Admin'' sample_tenants =
     (Inr (sample_admin, issue_token sample_dev_env ''user'' ''uuuuu'' ''operator'' 600), sample_booted)"
proof -
  have made: "bootstrap_user sample_dev_env ''admin@x'' ''Admin'' [] (sample_db [] [] 5) = (sample_admin, sample_booted)"
    by (simp add: bootstrap_user_def email_user_def sample_db_def add_user_def tinsert_def auth_new_id_def sample_uuid_def
        sample_admin_def sample_emails numeral_eq_Suc Let_def)
  have "issue_operator_token sample_dev_env ''uuuuu'' None sample_booted =
      Inr (issue_token sample_dev_env ''user'' ''uuuuu'' ''operator'' 600)"
    by (rule sample_issued[of _ _ sample_admin]) (simp_all add: sample_admin_def)
  moreover have "us_user_id sample_admin = ''uuuuu''" by (simp add: sample_admin_def)
  moreover have "\<not> bootstrap_disabled sample_dev_env" by (simp add: bootstrap_disabled_def sample_auth_env_def sample_emails)
  moreover have "active_admins [] (sample_db [] [] 5) = []" by (simp add: active_admins_def list_users_def sample_db_def)
  ultimately show ?thesis
    using made by (simp add: bootstrap_platform_admin_def ensure_development_auth_enabled_def Let_def sample_initial_roles
        sample_admin_role sample_emails sample_auth_settings_def)
qed

definition sample_admin_session :: auth_session where
  "sample_admin_session = \<lparr>se_principal_type = ''user'', se_principal_id = ''uuuuu'', se_display_name = ''Admin'',
     se_token_kind = ''operator'', se_auth_mode = ''development_signed_bearer'', se_issued_at = 1000000,
     se_expires_at = 601000000, se_platform_roles = [''platform_admin''],
     se_platform_permissions = [''platform.admin.manage'', ''platform.tenants.manage'', ''platform.auth.manage'', ''platform.audit.read''],
     se_tenant_roles = [], se_tenant_permissions = []\<rparr>"

definition sample_bob_session :: auth_session where
  "sample_bob_session = \<lparr>se_principal_type = ''user'', se_principal_id = ''uuuuuu'', se_display_name = ''Bob'',
     se_token_kind = ''operator'', se_auth_mode = ''development_signed_bearer'', se_issued_at = 1000000,
     se_expires_at = 601000000, se_platform_roles = [], se_platform_permissions = [],
     se_tenant_roles = [(''t1'', [''tenant_admin''])],
     se_tenant_permissions = [(''t1'', ro_permissions (sample_roles ! 1))]\<rparr>"

lemma sample_sessions:
  "\<forall>m \<in> set ms. me_user_id m \<noteq> ''uuuuu'' \<Longrightarrow>
    get_current_session sample_dev_env (sample_bearer ''uuuuu'') (sample_db (sample_admin # us) ms n) =
      (Inr sample_admin_session, sample_db (sample_admin # us) ms n)"
  "get_current_session sample_dev_env (sample_bearer ''uuuuuu'') (sample_access\<lparr>ad_next_uuid := n\<rparr>) =
      (Inr sample_bob_session, sample_access\<lparr>ad_next_uuid := n\<rparr>)"
proof -
  have "session_for_user sample_dev_env ''uuuuu'' 1000000 601000000 (sample_db (sample_admin # us) ms n) = Inr sample_admin_session"
    if "\<forall>m \<in> set ms. me_user_id m \<noteq> ''uuuuu''"
  proof -
    have "[m \<leftarrow> ms. me_user_id m = ''uuuuu'' \<and> me_status m = PR_active] = []" using that by (simp add: filter_empty_conv)
    then show ?thesis
      by (simp add: session_for_user_def get_user_def sample_db_def sample_admin_def resolve_role_map_def sample_roles_def
          system_role_definitions_def sorted_names_def sample_admin_session_def)
  qed
  then show "\<forall>m \<in> set ms. me_user_id m \<noteq> ''uuuuu'' \<Longrightarrow>
    get_current_session sample_dev_env (sample_bearer ''uuuuu'') (sample_db (sample_admin # us) ms n) =
      (Inr sample_admin_session, sample_db (sample_admin # us) ms n)"
    by (simp add: sample_session sample_roles_kept respond_def)
  have "session_for_user sample_dev_env ''uuuuuu'' 1000000 601000000 (sample_db [sample_admin, sample_bob] [sample_member] n) =
      Inr sample_bob_session" for n
    by (simp add: session_for_user_def get_user_def sample_db_def sample_admin_def sample_bob_def sample_member_def
        resolve_role_map_def sample_roles_def system_role_definitions_def sorted_names_def sample_bob_session_def put_entry_def)
  moreover have "sample_access\<lparr>ad_next_uuid := n\<rparr> = sample_db [sample_admin, sample_bob] [sample_member] n" by (simp add: sample_db_def)
  ultimately show "get_current_session sample_dev_env (sample_bearer ''uuuuuu'') (sample_access\<lparr>ad_next_uuid := n\<rparr>) =
      (Inr sample_bob_session, sample_access\<lparr>ad_next_uuid := n\<rparr>)"
    by (simp add: sample_session sample_roles_kept respond_def)
qed

lemma sample_admin_permissions:
  "require_platform_permission sample_admin_session platform_auth_manage = Inr ()"
  "require_tenant_permission sample_admin_session t p = Inr ()"
  "\<not> has_platform_permission sample_bob_session platform_auth_manage"
  "require_tenant_permission sample_bob_session ''t1'' tenant_membership_manage = Inr ()"
  "\<not> has_tenant_permission sample_bob_session ''t2'' tenant_membership_manage"
  by (simp_all add: require_platform_permission_def has_platform_permission_def platform_auth_manage_def sample_admin_session_def
      require_tenant_permission_def has_tenant_permission_def is_platform_admin_def platform_admin_manage_def sample_bob_session_def
      tenant_membership_manage_def sample_roles_def system_role_definitions_def)

abbreviation sample_second :: membership_row where
  "sample_second \<equiv> \<lparr>me_membership_id = ''uuuuuuuu'', me_tenant_id = ''t1'', me_user_id = ''uuuuu'', me_role_ids = [''uuu''],
     me_status = PR_active\<rparr>"

abbreviation sample_grown :: auth_db where
  "sample_grown \<equiv> sample_db [sample_admin, sample_bob] [sample_member, sample_second] 9"

lemma sample_create_user:
  "create_user sample_dev_env ''bob@x'' ''Bob'' [] (Some ''bob'') [] sample_booted = (Inr sample_bob, sample_with_bob)"
  unfolding create_user_def sample_roles_kept Let_def sample_emails
  by (simp add: email_user_def sample_db_def sample_admin_def validate_platform_role_ids_def resolve_role_map_def
      auth_new_id_def sample_uuid_def add_user_def tinsert_def sample_bob_def numeral_eq_Suc)

lemma sample_memberships:
  "create_membership sample_dev_env ''t1'' ''uuuuuu'' [''u''] sample_with_bob = (Inr sample_member, sample_access)"
  "create_membership sample_dev_env ''t1'' ''uuuuu'' [''uuu''] sample_access = (Inr sample_second, sample_grown)"
  unfolding create_membership_def sample_roles_kept Let_def
  by (simp_all add: auth_get_tenant_def get_user_def sample_db_def sample_admin_def sample_bob_def validate_tenant_role_ids_def
      resolve_role_map_def sample_roles_def system_role_definitions_def check_tenant_role_def find_membership_def
      auth_new_id_def sample_uuid_def tinsert_def sample_member_def numeral_eq_Suc)

lemma sample_serves:
  "serve sample_dev_env (sample_bearer ''uuuuu'') (PostUser ''bob@x'' ''Bob'' [] (Some ''bob'') []) sample_booted =
     (None, sample_with_bob)"
  "serve sample_dev_env (sample_bearer ''uuuuu'') (PostMembership ''t1'' ''uuuuuu'' [''u'']) sample_with_bob =
     (None, sample_access)"
  "serve sample_dev_env (sample_bearer ''uuuuuu'') (PostMembership ''t1'' ''uuuuu'' [''uuu'']) sample_access =
     (None, sample_grown)"
proof -
  have a: "sample_access\<lparr>ad_next_uuid := 8\<rparr> = sample_access" by (simp add: sample_db_def)
  show "serve sample_dev_env (sample_bearer ''uuuuu'') (PostUser ''bob@x'' ''Bob'' [] (Some ''bob'') []) sample_booted =
     (None, sample_with_bob)"
    "serve sample_dev_env (sample_bearer ''uuuuu'') (PostMembership ''t1'' ''uuuuuu'' [''u'']) sample_with_bob =
     (None, sample_access)"
    by (simp_all add: serve_def sample_sessions(1) api_create_user_def api_create_membership_def guarded_def
        sample_admin_permissions sample_create_user sample_memberships respond_def reply_def)
  show "serve sample_dev_env (sample_bearer ''uuuuuu'') (PostMembership ''t1'' ''uuuuu'' [''uuu'']) sample_access =
     (None, sample_grown)"
    by (simp add: serve_def sample_sessions(2)[of 8, unfolded a] api_create_membership_def guarded_def
        sample_admin_permissions sample_memberships respond_def reply_def)
qed

lemma sample_access_reachable: "access_reachable sample_uuid sample_tenants" "access_reachable sample_uuid sample_booted"
  "access_reachable sample_uuid sample_access"
proof -
  have "access_step sample_uuid empty_auth_db (empty_auth_db\<lparr>ad_tenants := [''t1'']\<rparr>)"
    "access_step sample_uuid (empty_auth_db\<lparr>ad_tenants := [''t1'']\<rparr>) sample_tenants"
    using access_step.tenant[of sample_uuid empty_auth_db "''t1''"]
      access_step.tenant[of sample_uuid "empty_auth_db\<lparr>ad_tenants := [''t1'']\<rparr>" "''t2''"]
    by (simp_all add: empty_auth_db_def sample_tenants_def)
  then show t: "access_reachable sample_uuid sample_tenants"
    unfolding access_reachable_def by (meson converse_rtranclp_into_rtranclp rtranclp.rtrancl_refl)
  have "snd (api_bootstrap_platform_admin sample_dev_env (Some ''boot'') '' Admin@x '' ''Admin'' sample_tenants) = sample_booted"
    by (simp add: api_bootstrap_platform_admin_def str_or_default_def sample_bootstrap issue_and_open_def sample_open
        sample_roles_kept case_prod_beta split: sum.split)
  then have b: "access_step sample_uuid sample_tenants sample_booted"
    using access_step.bootstrap[of sample_dev_env sample_uuid "Some ''boot''" "'' Admin@x ''" "''Admin''" sample_tenants]
    by (metis prod.collapse sample_env_fields(2))
  have s: "access_step sample_uuid sample_booted sample_with_bob" "access_step sample_uuid sample_with_bob sample_access"
    using sample_serves(1,2)[THEN access_step.serve[rotated], of sample_uuid] by simp_all
  show r: "access_reachable sample_uuid sample_booted"
    using t b unfolding access_reachable_def by (rule rtranclp.rtrancl_into_rtrancl)
  show "access_reachable sample_uuid sample_access"
    using r s unfolding access_reachable_def by (meson rtranclp.rtrancl_into_rtrancl)
qed

section \<open>Witnesses\<close>

lemma sample_bob_signed_in:
  "get_current_session sample_dev_env (sample_bearer ''uuuuuu'') sample_access = (Inr sample_bob_session, sample_access)"
proof -
  have "sample_access\<lparr>ad_next_uuid := 8\<rparr> = sample_access" by (simp add: sample_db_def)
  then show ?thesis using sample_sessions(2)[of 8] by simp
qed

lemma sample_bob_ids: "se_principal_type sample_bob_session = ''user''" "se_principal_id sample_bob_session = ''uuuuuu''"
  by (simp_all add: sample_bob_session_def)

theorem session_grants_exact_witness:
  "tenant_grant sample_access ''user'' ''uuuuuu'' ''t1'' ''tenant.policy.write'' \<and>
   \<not> tenant_grant sample_access ''user'' ''uuuuuu'' ''t2'' ''tenant.policy.write'' \<and>
   \<not> platform_grant sample_access ''user'' ''uuuuuu'' ''platform.auth.manage''"
proof -
  have v: "has_tenant_permission sample_bob_session ''t1'' ''tenant.policy.write''"
    "\<not> has_tenant_permission sample_bob_session ''t2'' ''tenant.policy.write''"
    "\<not> has_platform_permission sample_bob_session platform_admin_manage"
    "\<not> has_platform_permission sample_bob_session ''platform.auth.manage''"
    by (simp_all add: has_tenant_permission_def has_platform_permission_def is_platform_admin_def sample_bob_session_def
        sample_roles_def system_role_definitions_def platform_admin_manage_def)
  note w = session_grants_exact[OF inj_sample_uuid sample_access_reachable(3) _ sample_bob_signed_in, unfolded sample_bob_ids]
  show ?thesis
    using v w[of platform_admin_manage "''t1''"] w[of "''tenant.policy.write''" "''t1''"] w[of "''tenant.policy.write''" "''t2''"]
      w[of "''platform.auth.manage''" "''t1''"] by simp
qed

theorem query_scope_confined_witness:
  "require_tenant_query_scope sample_bob_session None tenant_membership_manage = Inr (Some ''t1'') \<and>
   tenant_grant sample_access ''user'' ''uuuuuu'' ''t1'' tenant_membership_manage"
proof -
  have "\<not> is_platform_admin sample_bob_session" "session_tenant_ids sample_bob_session = [''t1'']"
    by (simp_all add: is_platform_admin_def sample_bob_session_def session_tenant_ids_def)
  then have q: "require_tenant_query_scope sample_bob_session None tenant_membership_manage = Inr (Some ''t1'')"
    by (simp add: require_tenant_query_scope_def sample_admin_permissions)
  from query_scope_confined[OF inj_sample_uuid sample_access_reachable(3) _ sample_bob_signed_in q, unfolded sample_bob_ids] q
  show ?thesis by simp
qed


lemma sample_bob_token: "issue_operator_token sample_dev_env ''uuuuuu'' None sample_access =
    Inr (issue_token sample_dev_env ''user'' ''uuuuuu'' ''operator'' 600)"
  by (rule sample_issued[of _ _ sample_bob]) (simp_all add: sample_admin_def sample_bob_def)

theorem operator_token_lifetime_witness:
  "(\<exists>s. fst (authenticate_bearer_token (sample_auth_env ''development_signed_bearer'' 600999999)
      (it_access_token (issue_token sample_dev_env ''user'' ''uuuuuu'' ''operator'' 600)) sample_access) = Inr s) \<and>
   \<not> (\<exists>s. fst (authenticate_bearer_token (sample_auth_env ''development_signed_bearer'' 601000000)
      (it_access_token (issue_token sample_dev_env ''user'' ''uuuuuu'' ''operator'' 600)) sample_access) = Inr s)"
proof -
  let ?tok = "issue_token sample_dev_env ''user'' ''uuuuuu'' ''operator'' 600"
  let ?c = "development_claims ''user'' ''uuuuuu'' ''operator'' 1000000 601000000"
  have e: "it_expires_at ?tok = 601000000" by (simp add: issue_token_def Let_def seconds_def)
  have l: "js_loads sample_token_codec (js_dumps sample_token_codec (JObj ?c)) = Some (JObj ?c)"
    by (simp add: sample_token_codec_def development_claims_def jget_def)
  have act: "active_user ''uuuuuu'' sample_access" by (simp add: active_user_def sample_db_def sample_bob_def)
  note w = operator_token_lifetime[OF inj_sample_uuid sample_access_reachable(3) _ sample_bob_token, of _ ?c, unfolded e, simplified, OF _ _ _ _ l]
  show ?thesis
    using w[of "sample_auth_env ''development_signed_bearer'' 600999999"]
      w[of "sample_auth_env ''development_signed_bearer'' 601000000"] act by (simp add: seconds_def)
qed

theorem development_token_authentic_witness:
  "active_principal ''user'' ''uuuuuu'' sample_access"
proof -
  have "authenticate_bearer_token sample_dev_env (it_access_token (issue_token sample_dev_env ''user'' ''uuuuuu'' ''operator'' 600))
      sample_access = (Inr sample_bob_session, sample_access)"
    using sample_bob_signed_in
    by (simp add: get_current_session_def sample_bearer_def respond_def split: if_split_asm prod.split_asm sum.split_asm)
  from development_token_authentic[OF this] show ?thesis by (simp add: sample_bob_ids)
qed



definition sample_jwt :: string where
  "sample_jwt = b64url_encode ''h'' @ ''.'' @ b64url_encode ''p'' @ ''.'' @ b64url_encode ''sig''"

abbreviation sample_oidc_env :: auth_env where
  "sample_oidc_env \<equiv> sample_auth_env ''external_managed_bearer'' 2000000"

lemma sample_oidc_claims:
  "\<exists>d1. verify_oidc_token sample_oidc_env sample_jwt sample_access =
     (Inr [(''iss'', JStr ''iss''), (''aud'', JList [JStr ''cloud'']), (''exp'', JInt 601), (''sub'', JStr ''bob'')], d1) \<and>
     (\<exists>c. d1 = sample_access\<lparr>ad_jwks_cache := c\<rparr>)"
proof -
  let ?p = "[(''iss'', JStr ''iss''), (''aud'', JList [JStr ''cloud'']), (''exp'', JInt 601), (''sub'', JStr ''bob'')]"
  let ?jwk = "[(''kid'', JStr ''k1''), (''kty'', JStr ''OKP''), (''crv'', JStr ''Ed25519''), (''x'', JStr (b64url_encode ''pk''))]"
  have split: "split_on (CHR ''.'') sample_jwt = [b64url_encode ''h'', b64url_encode ''p'', b64url_encode ''sig'']"
    unfolding sample_jwt_def using b64url_no_dot by (simp add: split_on_append split_on_no_sep)
  have seg: "jwt_segments sample_token_codec sample_jwt =
      Inr (b64url_encode ''h'' @ ''.'' @ b64url_encode ''p'', [(''alg'', JStr ''EdDSA''), (''kid'', JStr ''k1'')], ?p, ''sig'')"
    by (simp add: jwt_segments_def split decode_segment_def b64url_roundtrip sample_token_codec_def)
  have kid: "jwt_alg_kid [(''alg'', JStr ''EdDSA''), (''kid'', JStr ''k1'')] = Inr (''EdDSA'', ''k1'')"
    by (simp add: jwt_alg_kid_def jget_def)
  have down: "download_jwks sample_oidc_env ''iss'' = Inr [(''k1'', ?jwk)]"
    by (simp add: download_jwks_def http_object_def rstrip_slash_def sample_auth_env_def sample_http_def jget_def py_or_def put_entry_def)
  have key: "jwk_to_public_key sample_oidc_env ?jwk = Inr (PK_Ed25519 ''pk'')"
    by (simp add: jwk_to_public_key_def jget_def jwk_bytes_def b64url_roundtrip library_key_def sample_auth_env_def)
  have ok: "check_oidc_claims sample_oidc_env ?p ''iss'' ''cloud'' = None"
    using int_of_rat_int[of 601]
    by (simp add: check_oidc_claims_def jget_def audience_matches_def py_in_def seconds_def)
  have "check_with_keys sample_oidc_env [(''k1'', ?jwk)] ''EdDSA'' ''k1'' ''sig'' m ?p ''iss'' ''cloud'' = Inr ?p" for m
    unfolding check_with_keys_def by (simp add: key ok check_signature_def) (simp add: sample_auth_env_def)
  moreover have "strip ''iss'' \<noteq> []" by code_simp
  ultimately show ?thesis
    by (simp add: verify_oidc_token_def verify_oidc_jwt_def seg kid fetch_oidc_jwks_def down Let_def sample_auth_settings_def)
       (simp add: sample_db_def)
qed

theorem oidc_token_authentic_witness:
  "\<exists>s d' subject. authenticate_bearer_token sample_oidc_env sample_jwt sample_access = (Inr s, d') \<and>
     se_principal_id s = ''uuuuuu'' \<and> subject_of sample_oidc_env subject s sample_access \<and>
     active_principal (se_principal_type s) ''uuuuuu'' sample_access"
proof -
  let ?p = "[(''iss'', JStr ''iss''), (''aud'', JList [JStr ''cloud'']), (''exp'', JInt 601), (''sub'', JStr ''bob'')]"
  obtain d1 c where v: "verify_oidc_token sample_oidc_env sample_jwt sample_access = (Inr ?p, d1)"
    and d1: "d1 = sample_access\<lparr>ad_jwks_cache := c\<rparr>" using sample_oidc_claims by blast
  have t: "oidc_instant (jget ?p ''iat'') 2000000 = Inr 2000000" "oidc_instant (jget ?p ''exp'') z = Inr 601000000" for z
    using int_of_rat_int[of 601] from_timestamp_seconds[of 601] by (simp_all add: oidc_instant_def jget_def seconds_def)
  have "\<exists>s. session_for_user sample_oidc_env ''uuuuuu'' 2000000 601000000 d1 = Inr s \<and> se_principal_id s = ''uuuuuu''"
    unfolding d1
    by (simp add: session_for_user_def get_user_def sample_db_def sample_admin_def sample_bob_def sample_member_def
        resolve_role_map_def sample_roles_def system_role_definitions_def)
  then obtain s where s: "session_for_user sample_oidc_env ''uuuuuu'' 2000000 601000000 d1 = Inr s" "se_principal_id s = ''uuuuuu''"
    by blast
  have "session_for_subject sample_oidc_env ''bob'' 2000000 601000000 d1 = Inr s"
    using s(1) unfolding session_for_subject_def Let_def
    by (simp add: d1 sample_db_def sample_admin_def sample_bob_def)
  then have a: "authenticate_bearer_token sample_oidc_env sample_jwt sample_access = (Inr s, d1)"
    using t by (simp add: authenticate_bearer_token_def sample_roles_kept authenticate_external_managed_bearer_def v)
       (simp add: jget_def)
  from oidc_token_authentic[OF a] obtain subject where "subject_of sample_oidc_env subject s sample_access"
    "active_principal (se_principal_type s) (se_principal_id s) sample_access" by auto
  then show ?thesis using a s(2) by auto
qed


end
