(* ===== verification/ExecutionWorker.thy ===== *)
theory ExecutionWorker
  imports Json
begin

text \<open>
  \<open>src/app/services/execution_worker.py\<close>: durable execution jobs, their retries and recovery, and
  \<open>src/app/services/resource_owned_execution.py\<close>: which resource endpoints a tenant may submit to.
  The executor and the submission client are parameters. Parameters and results are stored as JSON
  text by the code and kept as JSON values here; the error an executor reports is text or missing, as its
  column takes nothing else. \<open>ResourceOwnedExecutionError\<close> carries the resource its message names.
\<close>

section \<open>Jobs\<close>

datatype job_status = JS_pending | JS_running | JS_succeeded | JS_failed | JS_timed_out | JS_dead_letter | JS_cancelled

fun job_status_value :: "job_status \<Rightarrow> string" where
  "job_status_value JS_pending = ''pending''"
| "job_status_value JS_running = ''running''"
| "job_status_value JS_succeeded = ''succeeded''"
| "job_status_value JS_failed = ''failed''"
| "job_status_value JS_timed_out = ''timed_out''"
| "job_status_value JS_dead_letter = ''dead_letter''"
| "job_status_value JS_cancelled = ''cancelled''"

definition job_terminal :: "job_status \<Rightarrow> bool" where
  "job_terminal s \<longleftrightarrow> s \<in> {JS_succeeded, JS_failed, JS_timed_out, JS_dead_letter, JS_cancelled}"

record job_row =
  jb_job_id :: ident
  jb_tenant_id :: ident
  jb_intent_id :: ident
  jb_idempotency_key :: string
  jb_action_type :: string
  jb_action_params :: json
  jb_status :: job_status
  jb_attempt_count :: int
  jb_max_retries :: int
  jb_timeout_seconds :: int
  jb_result :: "json option"
  jb_error :: json
  jb_created_at :: time
  jb_updated_at :: time
  jb_completed_at :: "time option"

text \<open>What the executor is given, and how a call of it ends; \<open>Killed\<close> is the death of the process
  (or an exception that is no \<open>Exception\<close>) during the call.\<close>

record executor_call =
  ec_action_type :: string
  ec_params :: json
  ec_idempotency_key :: string
  ec_timeout :: int

datatype executor_reply = Returned json | Raised string string | Killed

text \<open>An executor may answer each call differently: it is given the number of calls made before.\<close>

type_synonym executor = "nat \<Rightarrow> executor_call \<Rightarrow> executor_reply"

text \<open>
  The jobs table; the calls made of executors, with the job each was made for; the time slept; the
  evidence records logged.
\<close>

record worker_db =
  wd_jobs :: "job_row list"
  wd_calls :: "(ident \<times> executor_call) list"
  wd_slept :: rat
  wd_evidence :: "dict list"
  wd_next_uuid :: nat

text \<open>\<open>we_random\<close> is the draw of \<open>random.uniform\<close> as a fraction of its range.\<close>

record worker_env =
  we_now :: time
  we_uuid :: "nat \<Rightarrow> ident"
  we_random :: "nat \<Rightarrow> rat"

text \<open>\<open>JobInterrupted\<close> stands for a run that does not return because its process died.\<close>

datatype job_error =
    JobNotFoundError ident
  | JobDeadLetteredError ident json
  | JobInterrupted ident

definition base_delay_seconds :: rat where
  "base_delay_seconds = 2"

definition max_delay_seconds :: rat where
  "max_delay_seconds = 30"

definition job_key :: "job_row \<Rightarrow> ident \<times> string" where
  "job_key j = (jb_tenant_id j, jb_idempotency_key j)"

section \<open>Submission\<close>

definition submit_job ::
  "worker_env \<Rightarrow> ident \<Rightarrow> ident \<Rightarrow> string \<Rightarrow> string \<Rightarrow> json \<Rightarrow> rat \<Rightarrow> int \<Rightarrow> worker_db \<Rightarrow> job_row \<times> worker_db" where
  "submit_job env tenant intent key action params timeout retries d =
     (case List.find (\<lambda>j. jb_idempotency_key j = key \<and> jb_tenant_id j = tenant) (wd_jobs d) of
        Some j \<Rightarrow> (j, d)
      | None \<Rightarrow>
          (let j = \<lparr>jb_job_id = ''job_'' @ take 16 (we_uuid env (wd_next_uuid d)), jb_tenant_id = tenant,
                    jb_intent_id = intent, jb_idempotency_key = key, jb_action_type = action,
                    jb_action_params = params, jb_status = JS_pending, jb_attempt_count = 0,
                    jb_max_retries = retries,
                    jb_timeout_seconds = (if timeout < 0 then \<lceil>timeout\<rceil> else \<lfloor>timeout\<rfloor>), jb_result = None, jb_error = JNull,
                    jb_created_at = we_now env, jb_updated_at = we_now env, jb_completed_at = None\<rparr>
           in (j, d\<lparr>wd_jobs := tinsert j (wd_jobs d), wd_next_uuid := Suc (wd_next_uuid d)\<rparr>)))"

section \<open>Running\<close>

definition save_job :: "job_row \<Rightarrow> worker_db \<Rightarrow> worker_db" where
  "save_job j d = d\<lparr>wd_jobs := tmodify jb_job_id (jb_job_id j) (\<lambda>_. j) (wd_jobs d)\<rparr>"

definition job_result :: "job_row \<Rightarrow> dict" where
  "job_result j =
     [(''job_id'', JStr (jb_job_id j)), (''tenant_id'', JStr (jb_tenant_id j)), (''intent_id'', JStr (jb_intent_id j)),
      (''idempotency_key'', JStr (jb_idempotency_key j)), (''action_type'', JStr (jb_action_type j)),
      (''status'', JStr (job_status_value (jb_status j))), (''attempt_count'', JInt (jb_attempt_count j)),
      (''max_retries'', JInt (jb_max_retries j)),
      (''result'', case jb_result j of None \<Rightarrow> JNull | Some r \<Rightarrow> r), (''error'', jb_error j),
      (''created_at'', JInt (jb_created_at j)),
      (''completed_at'', case jb_completed_at j of None \<Rightarrow> JNull | Some t \<Rightarrow> JInt t)]"

definition emit_evidence :: "worker_env \<Rightarrow> job_row \<Rightarrow> dict \<Rightarrow> string \<Rightarrow> worker_db \<Rightarrow> worker_db" where
  "emit_evidence env j r outcome d =
     d\<lparr>wd_evidence := wd_evidence d @
       [[(''job_id'', JStr (jb_job_id j)), (''intent_id'', JStr (jb_intent_id j)), (''action_type'', JStr (jb_action_type j)),
         (''outcome'', JStr outcome), (''attempt_count'', JInt (jb_attempt_count j)),
         (''evidence'', case map_of r ''evidence'' of None \<Rightarrow> JObj [] | Some v \<Rightarrow> v), (''timestamp'', JInt (we_now env))]]\<rparr>"

definition backoff_delay :: "int \<Rightarrow> rat" where
  "backoff_delay attempt = min (base_delay_seconds * 2 ^ nat (attempt - 1)) max_delay_seconds"

definition backoff :: "worker_env \<Rightarrow> int \<Rightarrow> worker_db \<Rightarrow> worker_db" where
  "backoff env attempt d =
     (let delay = backoff_delay attempt
      in d\<lparr>wd_slept := wd_slept d + (delay + delay / 10 * we_random env (length (wd_calls d)))\<rparr>)"

text \<open>\<open>type(x).__name__\<close>, for the message of the \<open>AttributeError\<close> of a result that is no dictionary.\<close>

fun type_name :: "json \<Rightarrow> string" where
  "type_name JNull = ''NoneType''"
| "type_name (JBool _) = ''bool''"
| "type_name (JInt _) = ''int''"
| "type_name (JFloat _) = ''float''"
| "type_name (JStr _) = ''str''"
| "type_name (JList _) = ''list''"
| "type_name (JObj _) = ''dict''"

datatype verdict = V_success dict | V_unknown dict json | V_failed dict json | V_retry json | V_killed

definition error_of :: "dict \<Rightarrow> string \<Rightarrow> json" where
  "error_of r z = (case map_of r ''error'' of None \<Rightarrow> JStr z | Some v \<Rightarrow> v)"

fun judge :: "executor_reply \<Rightarrow> verdict" where
  "judge (Returned (JObj r)) =
     (if truthy (jget r ''ok'') \<or> jget r ''state'' = JStr ''succeeded'' then V_success r
      else if jget r ''state'' = JStr ''outcome_unknown'' then V_unknown r (error_of r ''outcome unknown'')
      else if jget r ''state'' = JStr ''failed'' then V_failed r (error_of r ''execution failed'')
      else V_retry (error_of r ''retryable error''))"
| "judge (Returned v) =
     V_retry (JStr (''AttributeError: '' @ [CHR 0x27] @ type_name v @ [CHR 0x27] @ '' object has no attribute '' @
       [CHR 0x27] @ ''get'' @ [CHR 0x27]))"
| "judge (Raised name msg) = V_retry (JStr (name @ '': '' @ take 200 msg))"
| "judge Killed = V_killed"

definition call_of :: "job_row \<Rightarrow> executor_call" where
  "call_of j = \<lparr>ec_action_type = jb_action_type j, ec_params = jb_action_params j,
     ec_idempotency_key = jb_idempotency_key j, ec_timeout = jb_timeout_seconds j\<rparr>"

definition invoke :: "executor \<Rightarrow> job_row \<Rightarrow> worker_db \<Rightarrow> executor_reply \<times> worker_db" where
  "invoke ex j d = (ex (length (wd_calls d)) (call_of j), d\<lparr>wd_calls := wd_calls d @ [(jb_job_id j, call_of j)]\<rparr>)"

definition close_job :: "worker_env \<Rightarrow> job_status \<Rightarrow> json option \<Rightarrow> json \<Rightarrow> dict \<Rightarrow> job_row \<Rightarrow> worker_db \<Rightarrow> job_row \<times> worker_db" where
  "close_job env st result err r j d =
     (let j1 = j\<lparr>jb_status := st, jb_result := result, jb_error := err, jb_completed_at := Some (we_now env)\<rparr>
      in (j1, emit_evidence env j1 r (job_status_value st) (save_job j1 d)))"

definition begin_attempt :: "worker_env \<Rightarrow> job_row \<Rightarrow> job_row" where
  "begin_attempt env j = j\<lparr>jb_attempt_count := jb_attempt_count j + 1, jb_updated_at := we_now env\<rparr>"

definition exhausted :: "job_row \<Rightarrow> bool" where
  "exhausted j \<longleftrightarrow> jb_max_retries j + 1 \<le> jb_attempt_count j"

definition dead_letter ::
  "worker_env \<Rightarrow> json \<Rightarrow> job_row \<Rightarrow> worker_db \<Rightarrow> (job_error + job_row) \<times> worker_db" where
  "dead_letter env last_error j d =
     (let err = py_or last_error (JStr ''retries exhausted'');
          (j1, d1) = close_job env JS_dead_letter (jb_result j) err [(''error'', last_error)] j d
      in (Inl (JobDeadLetteredError (jb_job_id j) err), d1))"

text \<open>The \<open>while\<close> loop; it ends because every round counts an attempt.\<close>

function run_attempts ::
  "worker_env \<Rightarrow> executor \<Rightarrow> json \<Rightarrow> job_row \<Rightarrow> worker_db \<Rightarrow> (job_error + job_row) \<times> worker_db" where
  "run_attempts env ex last_error j0 d0 =
     (if exhausted j0 then dead_letter env last_error j0 d0
      else (let j = begin_attempt env j0;
                (reply, d) = invoke ex j (save_job j d0);
                again = (\<lambda>err. if exhausted j then dead_letter env err j d
                               else run_attempts env ex err j (backoff env (jb_attempt_count j) d))
            in case judge reply of
                 V_success r \<Rightarrow> apfst Inr (close_job env JS_succeeded (Some (JObj r)) (jb_error j) r j d)
               | V_unknown r err \<Rightarrow>
                   if exhausted j then apfst Inr (close_job env JS_timed_out (jb_result j) err r j d) else again err
               | V_failed r err \<Rightarrow> apfst Inr (close_job env JS_failed (Some (JObj r)) err r j d)
               | V_retry err \<Rightarrow> again err
               | V_killed \<Rightarrow> (Inl (JobInterrupted (jb_job_id j)), d)))"
  by pat_completeness auto
termination
  by (relation "measure (\<lambda>(env, ex, err, j, d). nat (jb_max_retries j + 1 - jb_attempt_count j))")
     (auto simp: exhausted_def begin_attempt_def)

text \<open>The job returned is the row; the code returns its dictionary, \<open>job_result\<close>.\<close>

definition run_job :: "worker_env \<Rightarrow> executor \<Rightarrow> ident \<Rightarrow> worker_db \<Rightarrow> (job_error + job_row) \<times> worker_db" where
  "run_job env ex i d =
     (case tget jb_job_id i (wd_jobs d) of
        None \<Rightarrow> (Inl (JobNotFoundError i), d)
      | Some j \<Rightarrow>
          if job_terminal (jb_status j) then (Inr j, d)
          else (let j1 = j\<lparr>jb_status := JS_running, jb_updated_at := we_now env\<rparr>
                in run_attempts env ex JNull j1 (save_job j1 d)))"

definition cancel_job :: "worker_env \<Rightarrow> ident \<Rightarrow> worker_db \<Rightarrow> (job_error + job_row) \<times> worker_db" where
  "cancel_job env i d =
     (case tget jb_job_id i (wd_jobs d) of
        None \<Rightarrow> (Inl (JobNotFoundError i), d)
      | Some j \<Rightarrow>
          if job_terminal (jb_status j) then (Inr j, d)
          else (let j1 = j\<lparr>jb_status := JS_cancelled, jb_completed_at := Some (we_now env)\<rparr> in (Inr j1, save_job j1 d)))"

definition get_job :: "ident \<Rightarrow> worker_db \<Rightarrow> job_error + dict" where
  "get_job i d = (case tget jb_job_id i (wd_jobs d) of None \<Rightarrow> Inl (JobNotFoundError i) | Some j \<Rightarrow> Inr (job_result j))"

definition list_jobs :: "ident option \<Rightarrow> string option \<Rightarrow> nat \<Rightarrow> worker_db \<Rightarrow> dict list" where
  "list_jobs tenant status limit d =
     map job_result (take limit (sort_key (\<lambda>j. - jb_created_at j)
       [j \<leftarrow> wd_jobs d. (tenant = None \<or> tenant = Some (jb_tenant_id j)) \<and>
          (status = None \<or> status = Some (job_status_value (jb_status j)))]))"

text \<open>A dead-lettered job is skipped; an interruption ends the recovery itself.\<close>

fun recover_jobs :: "worker_env \<Rightarrow> executor \<Rightarrow> ident list \<Rightarrow> nat \<Rightarrow> worker_db \<Rightarrow> (job_error + nat) \<times> worker_db" where
  "recover_jobs env ex [] n d = (Inr n, d)"
| "recover_jobs env ex (i # is) n d =
     (case run_job env ex i d of
        (Inr _, d1) \<Rightarrow> recover_jobs env ex is (Suc n) d1
      | (Inl (JobInterrupted k), d1) \<Rightarrow> (Inl (JobInterrupted k), d1)
      | (Inl _, d1) \<Rightarrow> recover_jobs env ex is n d1)"

definition recover_pending_jobs :: "worker_env \<Rightarrow> executor \<Rightarrow> worker_db \<Rightarrow> (job_error + nat) \<times> worker_db" where
  "recover_pending_jobs env ex d =
     recover_jobs env ex (map jb_job_id [j \<leftarrow> wd_jobs d. jb_status j \<in> {JS_pending, JS_running}]) 0 d"

section \<open>Resource-owned execution\<close>

datatype resource_error =
    TenantNotAuthorisedForResourceOwnedError
  | ResourceEndpointNotWhitelistedError
  | ResourceOwnedExecutionError ident

record endpoint_config =
  rc_resource_id :: ident
  rc_endpoint_url :: string
  rc_signing_key_id :: string
  rc_signing_key_secret :: string
  rc_timeout_seconds :: rat

record resource_service =
  rs_whitelist :: "ident \<rightharpoonup> ident set"
  rs_endpoints :: "ident \<rightharpoonup> endpoint_config"

text \<open>The keys a receipt verifier has registered: resource, key identifier and secret.\<close>

type_synonym receipt_verifier = "(ident \<times> string \<times> string) list"

definition register_endpoint :: "endpoint_config \<Rightarrow> resource_service \<Rightarrow> resource_service" where
  "register_endpoint c s = s\<lparr>rs_endpoints := (rs_endpoints s)(rc_resource_id c \<mapsto> c)\<rparr>"

definition authorise_tenant :: "ident \<Rightarrow> ident set \<Rightarrow> resource_service \<Rightarrow> resource_service" where
  "authorise_tenant t rs s = s\<lparr>rs_whitelist := (rs_whitelist s)(t \<mapsto> rs)\<rparr>"

definition build_verifier_for :: "ident \<Rightarrow> resource_service \<Rightarrow> resource_error + receipt_verifier" where
  "build_verifier_for i s =
     (case rs_endpoints s i of
        None \<Rightarrow> Inl (ResourceOwnedExecutionError i)
      | Some c \<Rightarrow> Inr [(rc_resource_id c, rc_signing_key_id c, rc_signing_key_secret c)])"

text \<open>
  The submission itself is the client's: \<open>client url resource verifier timeout\<close> is its submit function,
  applied to the action, the proof, the identifier of the proof's capability and the hash of the action.
\<close>

definition submit_resource ::
  "(string \<Rightarrow> ident \<Rightarrow> receipt_verifier \<Rightarrow> rat \<Rightarrow> 'action \<Rightarrow> dict \<Rightarrow> string option \<Rightarrow> string option \<Rightarrow> 'result) \<Rightarrow>
   ident \<Rightarrow> ident \<Rightarrow> 'action \<Rightarrow> dict \<Rightarrow> string option \<Rightarrow> string option \<Rightarrow> resource_service \<Rightarrow> resource_error + 'result" where
  "submit_resource client tenant i action proof pccb hash s =
     (let allowed = (case rs_whitelist s tenant of None \<Rightarrow> {} | Some rs \<Rightarrow> rs)
      in if allowed = {} then Inl TenantNotAuthorisedForResourceOwnedError
         else if i \<notin> allowed then Inl ResourceEndpointNotWhitelistedError
         else (case rs_endpoints s i of
                 None \<Rightarrow> Inl (ResourceOwnedExecutionError i)
               | Some c \<Rightarrow>
                   (case build_verifier_for i s of
                      Inl e \<Rightarrow> Inl e
                    | Inr v \<Rightarrow> Inr (client (rc_endpoint_url c) (rc_resource_id c) v (rc_timeout_seconds c) action proof pccb hash))))"

end
