(* ===== verification/ExecutionProtocol.thy ===== *)
theory ExecutionProtocol
  imports ExecutionWorker
begin

text \<open>
  What the execution worker guarantees over any history of submissions, runs, interruptions, recoveries
  and cancellations: one job for each tenant and idempotency key, no more calls of an executor than the
  retries allow, closed jobs stay as they are, and a run ends with the first reply that decides it.
\<close>

declare run_attempts.simps [simp del]

section \<open>One run\<close>

definition job_same :: "job_row \<Rightarrow> job_row \<Rightarrow> bool" where
  "job_same j j' \<longleftrightarrow> jb_job_id j' = jb_job_id j \<and> job_key j' = job_key j \<and> call_of j' = call_of j \<and>
     jb_max_retries j' = jb_max_retries j"

text \<open>
  The effect of a run that makes \<open>n\<close> calls: one row is rewritten, the calls are logged, and the job is
  closed unless the process was killed.
\<close>

definition run_effect :: "job_row \<Rightarrow> worker_db \<Rightarrow> job_error + job_row \<Rightarrow> worker_db \<Rightarrow> nat \<Rightarrow> job_row \<Rightarrow> bool" where
  "run_effect j d r d' n j' \<longleftrightarrow>
     wd_jobs d' = tmodify jb_job_id (jb_job_id j) (\<lambda>_. j') (wd_jobs d) \<and>
     wd_calls d' = wd_calls d @ replicate n (jb_job_id j, call_of j) \<and> wd_next_uuid d' = wd_next_uuid d \<and>
     job_same j j' \<and> jb_attempt_count j' = jb_attempt_count j + int n \<and>
     n \<le> nat (jb_max_retries j + 1 - jb_attempt_count j) \<and>
     (case r of
        Inr x \<Rightarrow> x = j' \<and> job_terminal (jb_status j')
      | Inl (JobInterrupted i) \<Rightarrow> i = jb_job_id j \<and> jb_status j' = jb_status j \<and> 0 < n
      | Inl (JobDeadLetteredError i e) \<Rightarrow> i = jb_job_id j \<and> jb_status j' = JS_dead_letter
      | Inl (JobNotFoundError i) \<Rightarrow> False)"

lemma job_same_refl [simp]: "job_same j j"
  by (simp add: job_same_def)

lemma job_same_trans: "job_same j j1 \<Longrightarrow> job_same j1 j2 \<Longrightarrow> job_same j j2"
  by (simp add: job_same_def)

lemma job_same_closed [simp]:
  "job_same j (j\<lparr>jb_status := st, jb_result := res, jb_error := e, jb_completed_at := t\<rparr>)"
  "job_same j (begin_attempt env j)"
  "job_same j (j\<lparr>jb_status := st, jb_updated_at := t'\<rparr>)" "job_same j (j\<lparr>jb_status := st, jb_completed_at := t\<rparr>)"
  by (simp_all add: job_same_def job_key_def call_of_def begin_attempt_def)

lemma tmodify_const: "pk b = k \<Longrightarrow> tmodify pk k (\<lambda>_. a) (tmodify pk k (\<lambda>_. b) t) = tmodify pk k (\<lambda>_. a) t"
  by (induction t) auto

lemma closed_effect:
  assumes "close_job env st res e r j d = (j', d')" "job_terminal st"
  shows "run_effect j d (Inr j') d' 0 j' \<and> jb_status j' = st"
  using assms by (auto simp: close_job_def Let_def run_effect_def emit_evidence_def save_job_def)

lemma dead_letter_effect:
  "\<exists>j'. run_effect j d (fst (dead_letter env e j d)) (snd (dead_letter env e j d)) 0 j' \<and> jb_status j' = JS_dead_letter"
proof -
  let ?err = "py_or e (JStr ''retries exhausted'')"
  obtain j' d' where c: "close_job env JS_dead_letter (jb_result j) ?err [(''error'', e)] j d = (j', d')" by fastforce
  have "dead_letter env e j d = (Inl (JobDeadLetteredError (jb_job_id j) ?err), d')" by (simp add: dead_letter_def c)
  moreover have "run_effect j d (Inl (JobDeadLetteredError (jb_job_id j) ?err)) d' 0 j' \<and> jb_status j' = JS_dead_letter"
    using closed_effect[OF c] by (simp add: job_terminal_def run_effect_def)
  ultimately show ?thesis by auto
qed

lemma backoff_frame [simp]:
  "wd_jobs (backoff env k d) = wd_jobs d" "wd_calls (backoff env k d) = wd_calls d"
  "wd_next_uuid (backoff env k d) = wd_next_uuid d"
  by (simp_all add: backoff_def Let_def)

text \<open>A round that is followed by the effect of the rest.\<close>

lemma round_effect:
  assumes "run_effect j d r d' n j'" "j = begin_attempt env j0" "\<not> exhausted j0"
    and "wd_jobs d = tmodify jb_job_id (jb_job_id j0) (\<lambda>_. j) (wd_jobs d0)"
    and "wd_calls d = wd_calls d0 @ [(jb_job_id j0, call_of j0)]" "wd_next_uuid d = wd_next_uuid d0"
  shows "run_effect j0 d0 r d' (Suc n) j'"
proof -
  have s: "job_same j0 j" by (simp add: assms(2))
  then have id: "jb_job_id j = jb_job_id j0" "call_of j = call_of j0" "jb_max_retries j = jb_max_retries j0"
    by (simp_all add: job_same_def)
  have a: "jb_attempt_count j = jb_attempt_count j0 + 1" "jb_status j = jb_status j0"
    by (simp_all add: assms(2) begin_attempt_def)
  have le: "Suc n \<le> nat (jb_max_retries j0 + 1 - jb_attempt_count j0)"
    using assms(1,3) by (auto simp: run_effect_def exhausted_def a id)
  show ?thesis
    using assms(1,4-6) le job_same_trans[OF s]
    by (auto simp: run_effect_def id a tmodify_const split: sum.splits job_error.splits)
qed

lemma run_round:
  assumes "\<not> exhausted j0" "j = begin_attempt env j0" "invoke ex j (save_job j d0) = (reply, d)"
  shows "run_attempts env ex e j0 d0 =
    (let again = (\<lambda>err. if exhausted j then dead_letter env err j d
                        else run_attempts env ex err j (backoff env (jb_attempt_count j) d))
     in case judge reply of
          V_success r \<Rightarrow> apfst Inr (close_job env JS_succeeded (Some (JObj r)) (jb_error j) r j d)
        | V_unknown r err \<Rightarrow>
            if exhausted j then apfst Inr (close_job env JS_timed_out (jb_result j) err r j d) else again err
        | V_failed r err \<Rightarrow> apfst Inr (close_job env JS_failed (Some (JObj r)) err r j d)
        | V_retry err \<Rightarrow> again err
        | V_killed \<Rightarrow> (Inl (JobInterrupted (jb_job_id j)), d))"
  using assms(1,3) unfolding assms(2) by (simp add: run_attempts.simps[of env ex e j0 d0] Let_def)

text \<open>
  The reference for a run: the verdicts on the replies of the calls that are left decide, the first
  success or failure, or the last one if it is unknown.
\<close>

fun verdicts :: "executor \<Rightarrow> executor_call \<Rightarrow> nat \<Rightarrow> nat \<Rightarrow> verdict list" where
  "verdicts ex c k 0 = []"
| "verdicts ex c k (Suc m) = judge (ex k c) # verdicts ex c (Suc k) m"

fun settle :: "job_status \<Rightarrow> verdict list \<Rightarrow> job_status" where
  "settle st [] = JS_dead_letter"
| "settle st (v # vs) =
     (case v of
        V_success r \<Rightarrow> JS_succeeded
      | V_failed r e \<Rightarrow> JS_failed
      | V_unknown r e \<Rightarrow> if vs = [] then JS_timed_out else settle st vs
      | V_retry e \<Rightarrow> settle st vs
      | V_killed \<Rightarrow> st)"

definition attempts_left :: "job_row \<Rightarrow> nat" where
  "attempts_left j = nat (jb_max_retries j + 1 - jb_attempt_count j)"

abbreviation settled :: "executor \<Rightarrow> job_row \<Rightarrow> worker_db \<Rightarrow> job_status" where
  "settled ex j d \<equiv> settle (jb_status j) (verdicts ex (call_of j) (length (wd_calls d)) (attempts_left j))"

lemma exhausted_left: "exhausted j \<longleftrightarrow> attempts_left j = 0"
  by (auto simp: exhausted_def attempts_left_def)

lemma left_begin: "\<not> exhausted j \<Longrightarrow> attempts_left j = Suc (attempts_left (begin_attempt env j))"
  by (auto simp: exhausted_def attempts_left_def begin_attempt_def)

lemma begin_same [simp]:
  "call_of (begin_attempt env j) = call_of j" "jb_status (begin_attempt env j) = jb_status j"
  "jb_job_id (begin_attempt env j) = jb_job_id j"
  by (simp_all add: begin_attempt_def call_of_def)

lemma verdicts_Nil: "verdicts ex c k m = [] \<longleftrightarrow> m = 0"
  by (cases m) simp_all

definition ends_in :: "job_row \<Rightarrow> worker_db \<Rightarrow> (job_error + job_row) \<times> worker_db \<Rightarrow> job_status \<Rightarrow> bool" where
  "ends_in j d r st \<longleftrightarrow> (\<exists>n j'. run_effect j d (fst r) (snd r) n j' \<and> jb_status j' = st)"

lemma run_attempts_effect: "ends_in j d (run_attempts env ex e j d) (settled ex j d)"
proof (induction env ex e j d rule: run_attempts.induct)
  case (1 env ex e j0 d0)
  show ?case
  proof (cases "exhausted j0")
    case True
    then have "run_attempts env ex e j0 d0 = dead_letter env e j0 d0" by (simp add: run_attempts.simps)
    moreover have "settled ex j0 d0 = JS_dead_letter" using True by (simp add: exhausted_left)
    moreover have "ends_in j0 d0 (dead_letter env e j0 d0) JS_dead_letter"
      using dead_letter_effect unfolding ends_in_def by blast
    ultimately show ?thesis by simp
  next
    case False
    let ?j = "begin_attempt env j0"
    obtain reply d where inv: "invoke ex ?j (save_job ?j d0) = (reply, d)" by fastforce
    have d: "wd_jobs d = tmodify jb_job_id (jb_job_id j0) (\<lambda>_. ?j) (wd_jobs d0)"
      "wd_calls d = wd_calls d0 @ [(jb_job_id j0, call_of j0)]" "wd_next_uuid d = wd_next_uuid d0"
      and reply: "reply = ex (length (wd_calls d0)) (call_of j0)"
      using inv by (auto simp: invoke_def save_job_def)
    note round = round_effect[OF _ refl False]
    have closed: "ends_in j0 d0 (apfst Inr (close_job env st res er r ?j d)) st" if "job_terminal st" for st res er r
    proof -
      obtain j' d' where c: "close_job env st res er r ?j d = (j', d')" by fastforce
      from round[OF conjunct1[OF closed_effect[OF c that]] d] show ?thesis
        using closed_effect[OF c that] by (auto simp: c ends_in_def)
    qed
    have dead: "ends_in j0 d0 (dead_letter env er ?j d) JS_dead_letter" for er
      using dead_letter_effect[of ?j d env er] round[OF _ d] unfolding ends_in_def by blast
    have again: "ends_in j0 d0 r st" if "ends_in ?j (backoff env (jb_attempt_count ?j) d) r st" for r st
      using that round[of env "backoff env (jb_attempt_count ?j) d"] d unfolding ends_in_def by (simp only: backoff_frame) blast
    have killed: "ends_in j0 d0 (Inl (JobInterrupted (jb_job_id j0)), d) (jb_status j0)"
    proof -
      have "run_effect j0 d0 (Inl (JobInterrupted (jb_job_id j0))) d 1 ?j"
        using d False by (auto simp: run_effect_def begin_attempt_def exhausted_def job_same_def job_key_def call_of_def)
      then show ?thesis unfolding ends_in_def by force
    qed
    let ?rest = "verdicts ex (call_of j0) (Suc (length (wd_calls d0))) (attempts_left ?j)"
    have more: "ends_in j0 d0 (if exhausted ?j then dead_letter env er ?j d
        else run_attempts env ex er ?j (backoff env (jb_attempt_count ?j) d)) (settle (jb_status j0) ?rest)" for er
      using dead[of er] again[OF 1[OF False refl inv[symmetric] refl], of er] d(2)
      by (auto simp: exhausted_left)
    have s: "settled ex j0 d0 = settle (jb_status j0) (judge reply # ?rest)"
      by (simp add: left_begin[OF False, of env] reply)
    show ?thesis
      unfolding run_round[OF False refl inv] Let_def s
      using closed[of JS_succeeded] closed[of JS_failed] closed[of JS_timed_out] more killed
      by (cases "judge reply") (auto simp: job_terminal_def exhausted_left verdicts_Nil)
  qed
qed

section \<open>Histories\<close>

text \<open>
  One worker at a time: an operation, up to its end or its process's death, is one step. Two workers that
  run the same open job at once are outside this relation.
\<close>

inductive worker_step :: "(nat \<Rightarrow> ident) \<Rightarrow> worker_db \<Rightarrow> worker_db \<Rightarrow> bool" for u where
  submit: "we_uuid env = u \<Longrightarrow> submit_job env tenant intent key action params timeout retries d = (j, d') \<Longrightarrow>
    worker_step u d d'"
| run: "run_job env ex i d = (r, d') \<Longrightarrow> worker_step u d d'"
| recover: "recover_pending_jobs env ex d = (r, d') \<Longrightarrow> worker_step u d d'"
| cancel: "cancel_job env i d = (r, d') \<Longrightarrow> worker_step u d d'"

definition empty_worker_db :: worker_db where
  "empty_worker_db = \<lparr>wd_jobs = [], wd_calls = [], wd_slept = 0, wd_evidence = [], wd_next_uuid = 0\<rparr>"

definition worker_reachable :: "(nat \<Rightarrow> ident) \<Rightarrow> worker_db \<Rightarrow> bool" where
  "worker_reachable u d \<longleftrightarrow> (worker_step u)\<^sup>*\<^sup>* empty_worker_db d"

text \<open>Every operation is a sequence of insertions of jobs and rewritings of open ones.\<close>

definition job_name :: "(nat \<Rightarrow> ident) \<Rightarrow> nat \<Rightarrow> ident" where
  "job_name u n = ''job_'' @ take 16 (u n)"

inductive job_write :: "(nat \<Rightarrow> ident) \<Rightarrow> worker_db \<Rightarrow> worker_db \<Rightarrow> bool" for u where
  insert: "jb_job_id j = job_name u (wd_next_uuid d) \<Longrightarrow> job_key j \<notin> job_key ` set (wd_jobs d) \<Longrightarrow>
    jb_attempt_count j = 0 \<Longrightarrow> wd_jobs d' = wd_jobs d @ [j] \<Longrightarrow> wd_calls d' = wd_calls d \<Longrightarrow>
    wd_next_uuid d' = Suc (wd_next_uuid d) \<Longrightarrow> job_write u d d'"
| rewrite: "tget jb_job_id (jb_job_id j) (wd_jobs d) = Some j \<Longrightarrow> \<not> job_terminal (jb_status j) \<Longrightarrow> job_same j j' \<Longrightarrow>
    wd_jobs d' = tmodify jb_job_id (jb_job_id j) (\<lambda>_. j') (wd_jobs d) \<Longrightarrow>
    wd_calls d' = wd_calls d @ replicate n (jb_job_id j, call_of j) \<Longrightarrow>
    jb_attempt_count j' = jb_attempt_count j + int n \<Longrightarrow> n \<le> nat (jb_max_retries j + 1 - jb_attempt_count j) \<Longrightarrow>
    wd_next_uuid d' = wd_next_uuid d \<Longrightarrow> job_write u d d'"

lemma run_job_effect:
  assumes "tget jb_job_id i (wd_jobs d) = Some j" "\<not> job_terminal (jb_status j)"
  shows "ends_in (j\<lparr>jb_status := JS_running, jb_updated_at := we_now env\<rparr>) d (run_job env ex i d)
     (settle JS_running (verdicts ex (call_of j) (length (wd_calls d)) (attempts_left j)))"
proof -
  let ?j = "j\<lparr>jb_status := JS_running, jb_updated_at := we_now env\<rparr>"
  have "ends_in ?j (save_job ?j d) (run_attempts env ex JNull ?j (save_job ?j d)) (settled ex ?j (save_job ?j d))"
    by (rule run_attempts_effect)
  then have "ends_in ?j d (run_attempts env ex JNull ?j (save_job ?j d)) (settled ex ?j (save_job ?j d))"
    by (auto simp: ends_in_def run_effect_def save_job_def tmodify_const)
  then show ?thesis using assms by (simp add: run_job_def Let_def save_job_def attempts_left_def call_of_def)
qed

lemma run_job_write: "snd (run_job env ex i d) = d \<or> job_write u d (snd (run_job env ex i d))"
proof (cases "tget jb_job_id i (wd_jobs d)")
  case (Some j)
  show ?thesis
  proof (cases "job_terminal (jb_status j)")
    case False
    obtain n j' where e: "run_effect (j\<lparr>jb_status := JS_running, jb_updated_at := we_now env\<rparr>) d
       (fst (run_job env ex i d)) (snd (run_job env ex i d)) n j'" using run_job_effect[OF Some False, of env ex] unfolding ends_in_def by blast
    have id: "jb_job_id j = i" using tgetD[OF Some] by simp
    have "job_same j j'"
      using e job_same_trans[of j "j\<lparr>jb_status := JS_running, jb_updated_at := we_now env\<rparr>" j'] by (auto simp: run_effect_def)
    then have "job_write u d (snd (run_job env ex i d))"
      using e Some False by (intro rewrite[of j d j' _ n]) (auto simp: run_effect_def id call_of_def)
    then show ?thesis ..
  qed (simp add: run_job_def Some)
qed (simp add: run_job_def)

lemma cancel_job_write: "snd (cancel_job env i d) = d \<or> job_write u d (snd (cancel_job env i d))"
proof (cases "tget jb_job_id i (wd_jobs d)")
  case (Some j)
  then have id: "jb_job_id j = i" using tgetD[OF Some] by simp
  show ?thesis
  proof (cases "job_terminal (jb_status j)")
    case False
    then have "job_write u d (snd (cancel_job env i d))"
      using Some id
      by (intro rewrite[of j d "j\<lparr>jb_status := JS_cancelled, jb_completed_at := Some (we_now env)\<rparr>" _ 0])
         (auto simp: cancel_job_def Let_def save_job_def)
    then show ?thesis ..
  qed (simp add: cancel_job_def Some)
qed (simp add: cancel_job_def)

lemma submit_job_write:
  assumes "we_uuid env = u" "submit_job env tenant intent key action params timeout retries d = (j, d')"
  shows "d' = d \<or> job_write u d d'"
  using assms
  by (auto simp: submit_job_def Let_def find_None_iff job_key_def job_name_def tinsert_def
      split: option.split_asm intro!: insert[of j])

lemma recover_jobs_writes: "(job_write u)\<^sup>*\<^sup>* d (snd (recover_jobs env ex is n d))"
proof (induction "is" arbitrary: n d)
  case (Cons i "is")
  obtain r d1 where eq: "run_job env ex i d = (r, d1)" by fastforce
  have "(job_write u)\<^sup>*\<^sup>* d d1" using run_job_write[of env ex i d u] by (auto simp: eq)
  then show ?case
    using Cons.IH[of d1] by (auto simp: eq split: sum.split job_error.split intro: rtranclp_trans)
qed simp

lemma step_writes: "worker_step u d d' \<Longrightarrow> (job_write u)\<^sup>*\<^sup>* d d'"
proof (induction rule: worker_step.induct)
  case (submit env tenant intent key action params timeout retries d j d')
  then show ?case using submit_job_write[OF submit] by auto
next
  case (run env ex i d r d')
  then show ?case using run_job_write[of env ex i d u] by auto
next
  case (recover env ex d r d')
  then show ?case
    using recover_jobs_writes[of u d env ex _ 0] by (metis recover_pending_jobs_def snd_conv)
next
  case (cancel env i d r d')
  then show ?case using cancel_job_write[of env i d u] by auto
qed

section \<open>Invariants\<close>

definition calls_of :: "ident \<Rightarrow> worker_db \<Rightarrow> executor_call list" where
  "calls_of i d = map snd [c \<leftarrow> wd_calls d. fst c = i]"

definition job_ok :: "worker_db \<Rightarrow> job_row \<Rightarrow> bool" where
  "job_ok d j \<longleftrightarrow> 0 \<le> jb_attempt_count j \<and> calls_of (jb_job_id j) d = replicate (nat (jb_attempt_count j)) (call_of j) \<and>
     nat (jb_attempt_count j) \<le> nat (jb_max_retries j + 1)"

definition worker_inv :: "(nat \<Rightarrow> ident) \<Rightarrow> worker_db \<Rightarrow> bool" where
  "worker_inv u d \<longleftrightarrow>
     distinct (map jb_job_id (wd_jobs d)) \<and> distinct (map job_key (wd_jobs d)) \<and>
     set (map jb_job_id (wd_jobs d)) \<subseteq> job_name u ` {..<wd_next_uuid d} \<and>
     fst ` set (wd_calls d) \<subseteq> set (map jb_job_id (wd_jobs d)) \<and> (\<forall>j \<in> set (wd_jobs d). job_ok d j)"

lemma calls_append:
  "wd_calls d' = wd_calls d @ replicate n (i, c) \<Longrightarrow>
   calls_of k d' = calls_of k d @ (if k = i then replicate n c else [])"
  by (simp add: calls_of_def filter_replicate)

lemma map_tmodify_const:
  assumes "distinct (map pk t)" "tget pk (pk x) t = Some x" "g y = g x"
  shows "map g (tmodify pk (pk x) (\<lambda>_. y) t) = map g t"
proof -
  have "z = x" if "z \<in> set t" "pk z = pk x" for z
    using tget_unique[OF assms(1) that(1)] assms(2) unfolding that(2) by simp
  then show ?thesis using assms(3) by (auto simp: tmodify_def)
qed

lemma insert_inv:
  assumes "worker_inv u d" "inj_on (job_name u) {..<wd_next_uuid d'}" "jb_job_id j = job_name u (wd_next_uuid d)"
    "job_key j \<notin> job_key ` set (wd_jobs d)" "jb_attempt_count j = 0" "wd_jobs d' = wd_jobs d @ [j]"
    "wd_calls d' = wd_calls d" "wd_next_uuid d' = Suc (wd_next_uuid d)"
  shows "worker_inv u d'"
proof -
  have fresh: "job_name u (wd_next_uuid d) \<notin> set (map jb_job_id (wd_jobs d))"
  proof
    assume "job_name u (wd_next_uuid d) \<in> set (map jb_job_id (wd_jobs d))"
    then have "job_name u (wd_next_uuid d) \<in> job_name u ` {..<wd_next_uuid d}"
      using assms(1) unfolding worker_inv_def by blast
    then obtain n where "n < wd_next_uuid d" "job_name u (wd_next_uuid d) = job_name u n" by auto
    then show False using inj_onD[OF assms(2), of "wd_next_uuid d" n] assms(8) by simp
  qed
  then have "calls_of (jb_job_id j) d = []"
    using assms(1,3) by (auto simp: worker_inv_def calls_of_def filter_empty_conv)
  moreover have "job_ok d' k = job_ok d k" for k by (simp add: job_ok_def calls_of_def assms(7))
  ultimately show ?thesis
    using assms fresh by (auto simp: worker_inv_def job_ok_def calls_of_def lessThan_Suc)
qed

lemma rewrite_inv:
  assumes "worker_inv u d" "tget jb_job_id (jb_job_id j) (wd_jobs d) = Some j" "job_same j j'"
    "wd_jobs d' = tmodify jb_job_id (jb_job_id j) (\<lambda>_. j') (wd_jobs d)"
    "wd_calls d' = wd_calls d @ replicate n (jb_job_id j, call_of j)"
    "jb_attempt_count j' = jb_attempt_count j + int n" "n \<le> nat (jb_max_retries j + 1 - jb_attempt_count j)"
    "wd_next_uuid d' = wd_next_uuid d"
  shows "worker_inv u d'"
proof -
  have dist: "distinct (map jb_job_id (wd_jobs d))" and ok: "\<forall>j \<in> set (wd_jobs d). job_ok d j"
    using assms(1) by (simp_all add: worker_inv_def)
  have j: "j \<in> set (wd_jobs d)" using tgetD[OF assms(2)] by simp
  have same: "jb_job_id j' = jb_job_id j" "job_key j' = job_key j" "call_of j' = call_of j" "jb_max_retries j' = jb_max_retries j"
    using assms(3) by (simp_all add: job_same_def)
  have maps: "map jb_job_id (wd_jobs d') = map jb_job_id (wd_jobs d)" "map job_key (wd_jobs d') = map job_key (wd_jobs d)"
    unfolding assms(4) by (rule map_tmodify_const[OF dist assms(2)]; simp add: same)+
  have jok: "job_ok d' j'"
    using ok j assms(6,7) by (auto simp: job_ok_def same nat_add_distrib replicate_add calls_append[OF assms(5)])
  have "job_ok d' k" if "k \<in> set (wd_jobs d')" for k
    using set_tmodify[OF that[unfolded assms(4)]]
  proof
    assume "k \<in> set (wd_jobs d) \<and> jb_job_id k \<noteq> jb_job_id j"
    then show ?thesis using ok by (auto simp: job_ok_def calls_append[OF assms(5)])
  qed (use jok in auto)
  moreover have "fst ` set (wd_calls d') \<subseteq> set (map jb_job_id (wd_jobs d'))"
    using assms(1,5) j unfolding maps(1) by (auto simp: worker_inv_def)
  ultimately show ?thesis using assms(1,8) by (simp add: worker_inv_def maps del: set_map)
qed

lemma write_worker_inv:
  "job_write u d d' \<Longrightarrow> inj_on (job_name u) {..<wd_next_uuid d'} \<Longrightarrow> worker_inv u d \<Longrightarrow> worker_inv u d'"
  by (erule job_write.cases) (blast intro: insert_inv, blast intro: rewrite_inv)

lemma writes_grow: "(job_write u)\<^sup>*\<^sup>* d d' \<Longrightarrow> wd_next_uuid d \<le> wd_next_uuid d'"
  by (induction rule: rtranclp_induct) (auto elim!: job_write.cases)

lemma inj_on_less: "inj_on f {..<n} \<Longrightarrow> m \<le> n \<Longrightarrow> inj_on f {..<m}" for n :: nat
  by (erule inj_on_subset) simp

lemma steps_writes: "(worker_step u)\<^sup>*\<^sup>* d d' \<Longrightarrow> (job_write u)\<^sup>*\<^sup>* d d'"
  by (induction rule: rtranclp_induct) (auto intro: step_writes rtranclp_trans)

lemma writes_worker_inv:
  assumes "(job_write u)\<^sup>*\<^sup>* d d'" "inj_on (job_name u) {..<wd_next_uuid d'}" "worker_inv u d"
  shows "worker_inv u d'"
  using assms
proof (induction rule: rtranclp_induct)
  case (step d1 d2)
  have "wd_next_uuid d1 \<le> wd_next_uuid d2" using writes_grow[of u d1 d2] step(2) by blast
  then show ?case using step write_worker_inv[OF step(2)] inj_on_less by blast
qed

lemma reachable_worker_inv:
  assumes "inj_on (job_name u) {..<wd_next_uuid d}" "worker_reachable u d"
  shows "worker_inv u d"
proof (rule writes_worker_inv[OF _ assms(1)])
  show "(job_write u)\<^sup>*\<^sup>* empty_worker_db d" using assms(2) steps_writes by (simp add: worker_reachable_def)
  show "worker_inv u empty_worker_db" by (simp add: worker_inv_def empty_worker_db_def)
qed

lemma write_terminal:
  assumes "job_write u d d'" "worker_inv u d" "j \<in> set (wd_jobs d)" "job_terminal (jb_status j)"
  shows "j \<in> set (wd_jobs d') \<and> calls_of (jb_job_id j) d' = calls_of (jb_job_id j) d"
  using assms(1)
proof (cases rule: job_write.cases)
  case (insert k)
  then show ?thesis using assms(3) by (simp add: calls_of_def)
next
  case (rewrite k k' n)
  have "distinct (map jb_job_id (wd_jobs d))" using assms(2) by (simp add: worker_inv_def)
  from tget_unique[OF this assms(3)] have "jb_job_id j \<noteq> jb_job_id k"
    using assms(4) rewrite(1,2) by (metis option.inject)
  then show ?thesis using assms(3) by (auto simp: tmodify_def rewrite(4) calls_append[OF rewrite(5)])
qed

lemma writes_terminal:
  assumes "(job_write u)\<^sup>*\<^sup>* d d'" "inj_on (job_name u) {..<wd_next_uuid d'}" "worker_inv u d"
    and "j \<in> set (wd_jobs d)" "job_terminal (jb_status j)"
  shows "j \<in> set (wd_jobs d') \<and> calls_of (jb_job_id j) d' = calls_of (jb_job_id j) d"
  using assms(1,2)
proof (induction rule: rtranclp_induct)
  case (step d1 d2)
  have "wd_next_uuid d1 \<le> wd_next_uuid d2" using writes_grow[of u d1 d2] step(2) by blast
  then have i: "inj_on (job_name u) {..<wd_next_uuid d1}" using step(4) inj_on_less by blast
  then have "worker_inv u d1" using writes_worker_inv[OF step(1) _ assms(3)] by blast
  then show ?case using write_terminal[OF step(2)] step(3)[OF i] assms(5) by metis
qed (use assms(4) in simp)

section \<open>Ends of runs\<close>

lemma settle_terminal: "V_killed \<notin> set vs \<Longrightarrow> job_terminal (settle st vs)"
  by (induction vs) (auto simp: job_terminal_def split: verdict.split)

lemma verdicts_killed: "\<forall>k c. ex k c \<noteq> Killed \<Longrightarrow> V_killed \<notin> set (verdicts ex c k m)"
proof (induction m arbitrary: k)
  case (Suc m)
  have "judge r \<noteq> V_killed" if "r \<noteq> Killed" for r
    using that by (cases r rule: judge.cases) (auto split: if_splits)
  then show ?case using Suc by (metis (no_types) set_ConsD verdicts.simps(2))
qed simp

lemma tget_const: "pk y = k \<Longrightarrow> tget pk k (tmodify pk k (\<lambda>_. y) t) = (if tget pk k t = None then None else Some y)"
  by (induction t) auto

lemma backoff_bounds:
  assumes "\<forall>k. 0 \<le> we_random env k \<and> we_random env k \<le> 1" "1 \<le> n"
  shows "wd_slept d \<le> wd_slept (backoff env n d) \<and> wd_slept (backoff env n d) \<le> wd_slept d + 33"
proof -
  let ?x = "backoff_delay n" and ?r = "we_random env (length (wd_calls d))"
  have x: "0 \<le> ?x" "?x \<le> 30" by (auto simp: backoff_delay_def base_delay_seconds_def max_delay_seconds_def)
  have r: "0 \<le> ?r" "?r \<le> 1" using assms(1) by auto
  have "0 \<le> ?x / 10 * ?r" using x r by simp
  moreover have "?x / 10 * ?r \<le> 3 * 1" by (rule mult_mono) (use x r in auto)
  ultimately show ?thesis using x by (simp add: backoff_def Let_def)
qed

lemma closed_slept:
  "wd_slept (snd (close_job env st res e r j d)) = wd_slept d"
  "wd_slept (snd (dead_letter env e j d)) = wd_slept d"
  by (simp_all add: close_job_def dead_letter_def Let_def emit_evidence_def save_job_def)

lemma run_attempts_slept:
  assumes "\<forall>k. 0 \<le> we_random env k \<and> we_random env k \<le> 1" "0 \<le> jb_attempt_count j"
  shows "wd_slept d \<le> wd_slept (snd (run_attempts env ex e j d)) \<and>
    wd_slept (snd (run_attempts env ex e j d)) \<le> wd_slept d + 33 * of_nat (attempts_left j)"
  using assms
proof (induction env ex e j d rule: run_attempts.induct)
  case (1 env ex e j0 d0)
  show ?case
  proof (cases "exhausted j0")
    case True
    then show ?thesis by (simp add: run_attempts.simps closed_slept exhausted_left)
  next
    case False
    let ?j = "begin_attempt env j0"
    obtain reply d where inv: "invoke ex ?j (save_job ?j d0) = (reply, d)" by fastforce
    have s: "wd_slept d = wd_slept d0" using inv by (auto simp: invoke_def save_job_def)
    have a: "0 \<le> jb_attempt_count ?j" "1 \<le> jb_attempt_count ?j" using 1(3) by (simp_all add: begin_attempt_def)
    let ?b = "backoff env (jb_attempt_count ?j) d"
    have b: "wd_slept d0 \<le> wd_slept ?b" "wd_slept ?b \<le> wd_slept d0 + 33"
      using backoff_bounds[OF 1(2) a(2), of d] s by auto
    have "wd_slept d0 \<le> wd_slept (snd (run_attempts env ex er ?j ?b)) \<and>
        wd_slept (snd (run_attempts env ex er ?j ?b)) \<le> wd_slept d0 + 33 * of_nat (attempts_left j0)" if "\<not> exhausted ?j" for er
      using 1(1)[OF False refl inv[symmetric] refl that 1(2) a(1), of er] b left_begin[OF False, of env] by (auto simp: algebra_simps)
    moreover have "0 \<le> (33 :: rat) * of_nat (attempts_left j0)" by simp
    ultimately show ?thesis
      unfolding run_round[OF False refl inv] Let_def
      by (cases "judge reply") (auto simp: closed_slept s)
  qed
qed

section \<open>A sample history\<close>

text \<open>A job with one retry is submitted; its executor is refused by the provider once and then succeeds.\<close>

definition sample_worker_env :: worker_env where
  "sample_worker_env = \<lparr>we_now = 0, we_uuid = (\<lambda>n. replicate n CHR ''u''), we_random = (\<lambda>_. 1 / 2)\<rparr>"

definition sample_executor :: executor where
  "sample_executor k c = Returned (JObj (if k = 0 then [(''error'', JStr ''503'')] else [(''ok'', JBool True)]))"

definition sample_job :: job_row where
  "sample_job = \<lparr>jb_job_id = ''job_'', jb_tenant_id = ''t'', jb_intent_id = ''i'', jb_idempotency_key = ''k'',
     jb_action_type = ''pay'', jb_action_params = JObj [], jb_status = JS_pending, jb_attempt_count = 0,
     jb_max_retries = 1, jb_timeout_seconds = 30, jb_result = None, jb_error = JNull,
     jb_created_at = 0, jb_updated_at = 0, jb_completed_at = None\<rparr>"

definition sample_submitted :: worker_db where
  "sample_submitted = empty_worker_db\<lparr>wd_jobs := [sample_job], wd_next_uuid := 1\<rparr>"

definition sample_done :: job_row where
  "sample_done = sample_job\<lparr>jb_status := JS_succeeded, jb_attempt_count := 2,
     jb_result := Some (JObj [(''ok'', JBool True)]), jb_completed_at := Some 0\<rparr>"

definition sample_run :: worker_db where
  "sample_run = snd (run_job sample_worker_env sample_executor ''job_'' sample_submitted)"

lemma sample_submit:
  "submit_job sample_worker_env ''t'' ''i'' ''k'' ''pay'' (JObj []) 30 1 empty_worker_db = (sample_job, sample_submitted)"
  by (simp add: submit_job_def sample_worker_env_def sample_job_def sample_submitted_def empty_worker_db_def tinsert_def
      Let_def)

lemma sample_run_jobs: "wd_jobs sample_run = [sample_done]" "wd_next_uuid sample_run = 1"
  "wd_calls sample_run = [(''job_'', call_of sample_job), (''job_'', call_of sample_job)]"
  by (simp_all add: sample_run_def sample_done_def run_job_def sample_submitted_def sample_job_def empty_worker_db_def job_terminal_def
      run_attempts.simps exhausted_def begin_attempt_def save_job_def invoke_def call_of_def sample_executor_def jget_def error_of_def
      Let_def close_job_def emit_evidence_def sample_worker_env_def tmodify_def tget_def backoff_def)

lemma sample_run_reachable:
  "worker_reachable (we_uuid sample_worker_env) sample_submitted"
  "worker_step (we_uuid sample_worker_env) sample_submitted sample_run"
  "worker_reachable (we_uuid sample_worker_env) sample_run"
proof -
  show a: "worker_reachable (we_uuid sample_worker_env) sample_submitted"
    using worker_step.submit[OF refl sample_submit] by (simp add: worker_reachable_def r_into_rtranclp)
  show b: "worker_step (we_uuid sample_worker_env) sample_submitted sample_run"
    unfolding sample_run_def by (rule worker_step.run[OF surjective_pairing])
  show "worker_reachable (we_uuid sample_worker_env) sample_run"
    using a b by (simp add: worker_reachable_def)
qed

lemma sample_names: "inj_on (job_name (we_uuid sample_worker_env)) {..<1}"
  by (simp add: lessThan_Suc)

lemma sample_job_open: "tget jb_job_id ''job_'' (wd_jobs sample_submitted) = Some sample_job"
  "\<not> job_terminal (jb_status sample_job)" "0 \<le> jb_attempt_count sample_job" "attempts_left sample_job = 2"
  "wd_calls sample_submitted = []" "wd_slept sample_submitted = 0"
  by (simp_all add: sample_submitted_def sample_job_def tget_def job_terminal_def attempts_left_def
      empty_worker_db_def)

section \<open>Properties\<close>





text \<open>
  C15. Runs end. Running an open job with an executor that always answers closes it after at most the
  attempts it has left, and after sleeping at most 33 seconds for each of them.
\<close>

theorem run_job_terminates:
  assumes "tget jb_job_id i (wd_jobs d) = Some j" "\<not> job_terminal (jb_status j)" "0 \<le> jb_attempt_count j"
    and "\<forall>k c. ex k c \<noteq> Killed" "\<forall>k. 0 \<le> we_random env k \<and> we_random env k \<le> 1"
  shows "\<exists>j' n. tget jb_job_id i (wd_jobs (snd (run_job env ex i d))) = Some j' \<and> job_terminal (jb_status j') \<and>
    wd_calls (snd (run_job env ex i d)) = wd_calls d @ replicate n (i, call_of j) \<and> n \<le> attempts_left j \<and>
    wd_slept (snd (run_job env ex i d)) \<le> wd_slept d + 33 * of_nat (attempts_left j)"
proof -
  let ?j = "j\<lparr>jb_status := JS_running, jb_updated_at := we_now env\<rparr>"
  let ?st = "settle JS_running (verdicts ex (call_of j) (length (wd_calls d)) (attempts_left j))"
  obtain n j' where e: "run_effect ?j d (fst (run_job env ex i d)) (snd (run_job env ex i d)) n j'" "jb_status j' = ?st"
    using run_job_effect[OF assms(1,2), of env ex] unfolding ends_in_def by blast
  have id: "jb_job_id j = i" using tgetD[OF assms(1)] by simp
  have "tget jb_job_id i (wd_jobs (snd (run_job env ex i d))) = Some j'"
    using e(1) assms(1) by (auto simp: run_effect_def id job_same_def tget_const)
  moreover have "job_terminal (jb_status j')"
    unfolding e(2) by (rule settle_terminal[OF verdicts_killed[OF assms(4)]])
  moreover have "wd_calls (snd (run_job env ex i d)) = wd_calls d @ replicate n (i, call_of j)" "n \<le> attempts_left j"
    using e(1) by (simp_all add: run_effect_def id call_of_def attempts_left_def)
  moreover have "wd_slept (snd (run_job env ex i d)) \<le> wd_slept d + 33 * of_nat (attempts_left j)"
    using run_attempts_slept[OF assms(5), of ?j "save_job ?j d" ex JNull] assms(1-3)
    by (simp add: run_job_def Let_def save_job_def attempts_left_def)
  ultimately show ?thesis by blast
qed

theorem run_job_terminates_witness:
  "\<exists>j n. tget jb_job_id ''job_'' (wd_jobs sample_run) = Some j \<and> job_terminal (jb_status j) \<and>
    wd_calls sample_run = replicate n (''job_'', call_of sample_job) \<and> n \<le> 2 \<and> wd_slept sample_run \<le> 66"
  using run_job_terminates[OF sample_job_open(1-3), of sample_executor sample_worker_env]
  by (simp add: sample_executor_def sample_job_open(4-6) sample_worker_env_def flip: sample_run_def[unfolded sample_worker_env_def])

text \<open>
  C16. The first decisive reply decides. A run of an open job leaves it succeeded or failed with the first
  reply that says so, timed out if the last possible attempt ends unknown, dead-lettered if all
  attempts end in retryable errors, and running if the process dies first.
\<close>

theorem run_job_first_decisive:
  assumes "tget jb_job_id i (wd_jobs d) = Some j" "\<not> job_terminal (jb_status j)"
  shows "map_option jb_status (tget jb_job_id i (wd_jobs (snd (run_job env ex i d)))) =
    Some (settle JS_running (verdicts ex (call_of j) (length (wd_calls d)) (attempts_left j)))"
proof -
  obtain n j' where e: "run_effect (j\<lparr>jb_status := JS_running, jb_updated_at := we_now env\<rparr>) d
      (fst (run_job env ex i d)) (snd (run_job env ex i d)) n j'"
    "jb_status j' = settle JS_running (verdicts ex (call_of j) (length (wd_calls d)) (attempts_left j))"
    using run_job_effect[OF assms, of env ex] unfolding ends_in_def by blast
  have id: "jb_job_id j = i" using tgetD[OF assms(1)] by simp
  have "tget jb_job_id i (wd_jobs (snd (run_job env ex i d))) = Some j'"
    using e(1) assms(1) by (auto simp: run_effect_def id job_same_def tget_const)
  then show ?thesis using e(2) by simp
qed

theorem run_job_first_decisive_witness:
  "map_option jb_status (tget jb_job_id ''job_'' (wd_jobs sample_run)) = Some JS_succeeded"
  using run_job_first_decisive[OF sample_job_open(1,2), of sample_worker_env sample_executor]
  by (simp add: sample_job_open(4,5) numeral_2_eq_2 sample_executor_def jget_def error_of_def flip: sample_run_def)

text \<open>
  Submissions to resources. The client is called exactly for a resource on the tenant's own list that
  is registered, with that endpoint's address and with a verifier that holds only its key.
\<close>

theorem submit_resource_iff:
  "submit_resource client t i action proof pccb hash s = Inr r \<longleftrightarrow>
    (\<exists>rs c. rs_whitelist s t = Some rs \<and> i \<in> rs \<and> rs_endpoints s i = Some c \<and>
       r = client (rc_endpoint_url c) (rc_resource_id c) [(rc_resource_id c, rc_signing_key_id c, rc_signing_key_secret c)]
             (rc_timeout_seconds c) action proof pccb hash)"
  by (auto simp: submit_resource_def build_verifier_for_def Let_def split: option.split)

end
