(* ===== verification/PolicyEngine.thy ===== *)
theory PolicyEngine
  imports Models "HOL-Library.Product_Lexorder"
begin

text \<open>
  \<open>src/app/services/policy_engine.py\<close>: tenants and versioned policies
  (\<open>PolicyManagementService\<close>) and the evaluation of an action intent against the active policy
  (\<open>PolicyEngine.evaluate\<close>).
\<close>

section \<open>Policy management\<close>

definition create_tenant ::
  "runtime \<Rightarrow> string \<Rightarrow> finance_profile \<Rightarrow> db \<Rightarrow> tenant \<times> db" where
  "create_tenant rt display_name profile d =
     (let t = \<lparr>tn_tenant_id = new_id rt d, tn_display_name = display_name,
               tn_status = TS_active, tn_finance_profile = profile, tn_created_at = rt_now rt\<rparr>
      in (t, used_id d\<lparr>tenants := tinsert t (tenants d)\<rparr>))"

definition get_tenant :: "ident \<Rightarrow> db \<Rightarrow> tenant result" where
  "get_tenant tid d =
     (case tget tn_tenant_id tid (tenants d) of
        None \<Rightarrow> Inl TenantNotFoundError
      | Some t \<Rightarrow> Inr t)"

text \<open>\<open>select(func.max(Policy.version))\<close>: \<open>None\<close> when no row matches.\<close>

definition workflow_versions :: "ident \<Rightarrow> string \<Rightarrow> db \<Rightarrow> int list" where
  "workflow_versions tid wkey d =
     map po_version [p \<leftarrow> policies d. po_tenant_id p = tid \<and> po_workflow_key p = wkey]"

definition current_version :: "ident \<Rightarrow> string \<Rightarrow> db \<Rightarrow> int" where
  "current_version tid wkey d =
     (case workflow_versions tid wkey d of [] \<Rightarrow> 0 | v # vs \<Rightarrow> foldr max vs v)"

definition create_policy ::
  "runtime \<Rightarrow> ident \<Rightarrow> string \<Rightarrow> string option \<Rightarrow> string \<Rightarrow> decision_state \<Rightarrow> string list \<Rightarrow>
   policy_rule list \<Rightarrow> db \<Rightarrow> policy result \<times> db" where
  "create_policy rt tid name descr wkey default_decision classes rules d =
     (case get_tenant tid d of
        Inl e \<Rightarrow> (Inl e, d)
      | Inr _ \<Rightarrow>
          let p = \<lparr>po_policy_id = new_id rt d, po_tenant_id = tid, po_name = name,
                   po_description = descr, po_workflow_key = wkey,
                   po_version = current_version tid wkey d + 1, po_status = PS_draft,
                   po_default_decision = default_decision, po_finance_action_classes = classes,
                   po_rules = rules, po_activated_at = None, po_created_at = rt_now rt\<rparr>
          in (Inr p, used_id d\<lparr>policies := tinsert p (policies d)\<rparr>))"

definition get_policy :: "ident \<Rightarrow> db \<Rightarrow> policy result" where
  "get_policy pid d =
     (case tget po_policy_id pid (policies d) of
        None \<Rightarrow> Inl PolicyNotFoundError
      | Some p \<Rightarrow> Inr p)"

text \<open>\<open>list_policies\<close>: an absent filter is \<open>None\<close>; rows in creation order.\<close>

definition list_policies ::
  "ident option \<Rightarrow> string option \<Rightarrow> policy_status option \<Rightarrow> db \<Rightarrow> policy list" where
  "list_policies tid wkey st d =
     sort_key po_created_at
       [p \<leftarrow> policies d. (tid = None \<or> tid = Some (po_tenant_id p)) \<and>
          (wkey = None \<or> wkey = Some (po_workflow_key p)) \<and> (st = None \<or> st = Some (po_status p))]"

definition update_policy ::
  "ident \<Rightarrow> string \<Rightarrow> string option \<Rightarrow> decision_state \<Rightarrow> string list \<Rightarrow> policy_rule list \<Rightarrow>
   db \<Rightarrow> policy result \<times> db" where
  "update_policy pid name descr default_decision classes rules d =
     (case get_policy pid d of
        Inl e \<Rightarrow> (Inl e, d)
      | Inr p \<Rightarrow>
          if po_status p \<noteq> PS_draft
          then (Inl (PolicyStateError ''only draft policies may be updated''), d)
          else
            let upd = (\<lambda>p. p\<lparr>po_name := name, po_description := descr,
                        po_default_decision := default_decision,
                        po_finance_action_classes := classes, po_rules := rules\<rparr>)
            in (Inr (upd p), d\<lparr>policies := tmodify po_policy_id pid upd (policies d)\<rparr>))"

text \<open>
  Every other active policy of the same tenant and workflow is retired, then the policy becomes
  active; its first activation time is kept.
\<close>

definition retire_other ::
  "policy \<Rightarrow> policy \<Rightarrow> policy" where
  "retire_other p q =
     (if po_tenant_id q = po_tenant_id p \<and> po_workflow_key q = po_workflow_key p \<and>
         po_status q = PS_active \<and> po_policy_id q \<noteq> po_policy_id p
      then q\<lparr>po_status := PS_retired\<rparr> else q)"

definition set_active :: "time \<Rightarrow> policy \<Rightarrow> policy" where
  "set_active now p = p\<lparr>po_status := PS_active,
     po_activated_at := (case po_activated_at p of None \<Rightarrow> Some now | Some t \<Rightarrow> Some t)\<rparr>"

definition activate_policy :: "runtime \<Rightarrow> ident \<Rightarrow> db \<Rightarrow> policy result \<times> db" where
  "activate_policy rt pid d =
     (case get_policy pid d of
        Inl e \<Rightarrow> (Inl e, d)
      | Inr p \<Rightarrow>
          if po_status p = PS_retired
          then (Inl (PolicyStateError ''retired policies may not be reactivated''), d)
          else (Inr (set_active (rt_now rt) p),
                d\<lparr>policies := tmodify po_policy_id pid (set_active (rt_now rt))
                                (map (retire_other p) (policies d))\<rparr>))"

text \<open>The first row of the query ordered by descending version.\<close>

definition get_active_policy :: "ident \<Rightarrow> string \<Rightarrow> db \<Rightarrow> policy option" where
  "get_active_policy tid wkey d =
     (case sort_key (\<lambda>p. - po_version p)
         [p \<leftarrow> policies d. po_tenant_id p = tid \<and> po_workflow_key p = wkey \<and> po_status p = PS_active]
      of [] \<Rightarrow> None | p # _ \<Rightarrow> Some p)"

section \<open>Evaluation\<close>

record policy_decision =
  pd_state :: decision_state
  pd_reason :: string
  pd_matched_rule_id :: "string option"
  pd_trace :: "trace_entry list"
  pd_policy :: "policy option"
  pd_approval_requirement :: "approval_requirement option"
  pd_evidence_requirement :: "evidence_requirement option"

subsection \<open>Conditions\<close>

text \<open>\<open>_resolve_path\<close>: a missing segment or a value that is not a dictionary gives \<open>None\<close>.\<close>

fun resolve_segments :: "json \<Rightarrow> string list \<Rightarrow> json" where
  "resolve_segments current [] = current"
| "resolve_segments current (seg # segs) =
     (case current of
        JObj m \<Rightarrow> (case map_of m seg of None \<Rightarrow> JNull | Some v \<Rightarrow> resolve_segments v segs)
      | _ \<Rightarrow> JNull)"

definition resolve_path :: "dict \<Rightarrow> string \<Rightarrow> json" where
  "resolve_path source field_path = resolve_segments (JObj source) (split_on (CHR ''.'') field_path)"

text \<open>An order comparison guarded by \<open>actual is not None\<close>.\<close>

definition ordered :: "(py_order \<Rightarrow> bool) \<Rightarrow> json \<Rightarrow> json \<Rightarrow> bool result" where
  "ordered ok actual expected =
     (if actual = JNull then Inr False
      else (case py_cmp actual expected of
              None \<Rightarrow> Inl (PyTypeError ''unorderable types'')
            | Some c \<Rightarrow> Inr (ok c)))"

definition apply_operator :: "string \<Rightarrow> json \<Rightarrow> json \<Rightarrow> bool result" where
  "apply_operator operator actual expected =
     (if operator = ''equals'' then Inr (py_eq actual expected)
      else if operator = ''not_equals'' then Inr (\<not> py_eq actual expected)
      else if operator = ''gte'' then ordered (\<lambda>c. c \<noteq> LT) actual expected
      else if operator = ''gt'' then ordered (\<lambda>c. c = GT) actual expected
      else if operator = ''lte'' then ordered (\<lambda>c. c \<noteq> GT) actual expected
      else if operator = ''lt'' then ordered (\<lambda>c. c = LT) actual expected
      else if operator = ''in'' then
        Inr (case expected of JList ys \<Rightarrow> py_in actual ys | _ \<Rightarrow> False)
      else if operator = ''contains'' then
        Inr (case actual of
               JList xs \<Rightarrow> py_in expected xs
             | JStr s \<Rightarrow> (case expected of JStr t \<Rightarrow> sublist t s | _ \<Rightarrow> False)
             | _ \<Rightarrow> False)
      else if operator = ''exists'' then
        (let expected_bool = (if expected = JNull then True else truthy expected)
         in Inr ((actual \<noteq> JNull) = expected_bool))
      else Inl (PolicyStateError ''unsupported policy operator''))"

record sources =
  src_action_intent :: dict
  src_context :: dict
  src_intake :: dict

text \<open>\<open>sources.get(source_name, {})\<close>.\<close>

definition source_of :: "sources \<Rightarrow> string \<Rightarrow> dict" where
  "source_of s name =
     (if name = ''action_intent'' then src_action_intent s
      else if name = ''context'' then src_context s
      else if name = ''intake'' then src_intake s
      else [])"

definition evaluate_condition :: "sources \<Rightarrow> policy_condition \<Rightarrow> condition_result result" where
  "evaluate_condition s c =
     (let actual = resolve_path (source_of s (pc_source c)) (pc_field c)
      in case apply_operator (pc_operator c) actual (pc_value c) of
           Inl e \<Rightarrow> Inl e
         | Inr m \<Rightarrow> Inr \<lparr>cr_source = pc_source c, cr_field = pc_field c,
             cr_operator = pc_operator c, cr_expected = pc_value c, cr_actual = actual,
             cr_matched = m\<rparr>)"

fun evaluate_conditions :: "sources \<Rightarrow> policy_condition list \<Rightarrow> condition_result list result" where
  "evaluate_conditions s [] = Inr []"
| "evaluate_conditions s (c # cs) =
     (case evaluate_condition s c of
        Inl e \<Rightarrow> Inl e
      | Inr r \<Rightarrow> (case evaluate_conditions s cs of Inl e \<Rightarrow> Inl e | Inr rs \<Rightarrow> Inr (r # rs)))"

subsection \<open>Requirements\<close>

text \<open>A requirement dictionary is falsy when it has no key.\<close>

definition empty_approval_spec :: approval_spec where
  "empty_approval_spec = \<lparr>sp_required_decision_count = None, sp_eligible_principal_ids = None,
     sp_eligible_role_ids = None, sp_approval_group_key = None, sp_expires_in_seconds = None,
     sp_require_requester_separation = None, sp_require_distinct_approvers = None\<rparr>"

definition empty_evidence_spec :: evidence_spec where
  "empty_evidence_spec = \<lparr>se_minimum_count = None, se_allowed_evidence_types = None,
     se_expires_in_seconds = None\<rparr>"

definition default_to :: "'a \<Rightarrow> 'a option \<Rightarrow> 'a" where
  "default_to x o' = (case o' of None \<Rightarrow> x | Some y \<Rightarrow> y)"

text \<open>\<open>a or b\<close> on optional strings: the empty string is falsy too.\<close>

definition str_or :: "string option \<Rightarrow> string option \<Rightarrow> string option" where
  "str_or a b = (case a of None \<Rightarrow> b | Some s \<Rightarrow> if s = [] then b else Some s)"

definition approval_requirement_for_rule ::
  "approval_spec option \<Rightarrow> string option \<Rightarrow> decision_state \<Rightarrow> approval_requirement option" where
  "approval_requirement_for_rule spec rule_id decision =
     (let fallback = (if decision \<noteq> approval_required then None
            else Some \<lparr>rq_required_decision_count = 1, rq_eligible_principal_ids = [],
                       rq_eligible_role_ids = [], rq_approval_group_key = rule_id,
                       rq_expires_in_seconds = None, rq_require_requester_separation = True,
                       rq_require_distinct_approvers = True\<rparr>)
      in case spec of
           None \<Rightarrow> fallback
         | Some r \<Rightarrow>
             if r = empty_approval_spec then fallback
             else Some \<lparr>rq_required_decision_count =
                          max (default_to 1 (sp_required_decision_count r)) 1,
                        rq_eligible_principal_ids = default_to [] (sp_eligible_principal_ids r),
                        rq_eligible_role_ids = default_to [] (sp_eligible_role_ids r),
                        rq_approval_group_key = str_or (sp_approval_group_key r) rule_id,
                        rq_expires_in_seconds = sp_expires_in_seconds r,
                        rq_require_requester_separation =
                          default_to True (sp_require_requester_separation r),
                        rq_require_distinct_approvers =
                          default_to True (sp_require_distinct_approvers r)\<rparr>)"

definition evidence_requirement_for_rule ::
  "evidence_spec option \<Rightarrow> decision_state \<Rightarrow> evidence_requirement option" where
  "evidence_requirement_for_rule spec decision =
     (let fallback = (if decision \<noteq> needs_evidence then None
            else Some \<lparr>re_minimum_count = 1, re_allowed_evidence_types = [],
                       re_expires_in_seconds = None\<rparr>)
      in case spec of
           None \<Rightarrow> fallback
         | Some r \<Rightarrow>
             if r = empty_evidence_spec then fallback
             else Some \<lparr>re_minimum_count = max (default_to 1 (se_minimum_count r)) 1,
                        re_allowed_evidence_types = default_to [] (se_allowed_evidence_types r),
                        re_expires_in_seconds = se_expires_in_seconds r\<rparr>)"

subsection \<open>Rules in order\<close>

text \<open>
  \<open>sorted(enumerate(rules), key=(priority, index))\<close>, the pairs compared lexicographically.
\<close>

definition rule_priority :: "policy_rule \<Rightarrow> int" where
  "rule_priority r = default_to 1000 (pr_priority r)"

definition ordered_rules :: "policy_rule list \<Rightarrow> policy_rule list" where
  "ordered_rules rules =
     map snd (sort_key (\<lambda>(i, r). (rule_priority r, i)) (enumerate 0 rules))"

definition rule_trace_entry :: "policy_rule \<Rightarrow> bool \<Rightarrow> condition_result list \<Rightarrow> trace_entry" where
  "rule_trace_entry r matched results =
     Trace_policy_rule (pr_rule_id r) (rule_priority r) (pr_decision r) matched results"

text \<open>The loop over the ordered rules; \<open>trace\<close> is the list built so far.\<close>

fun evaluate_rules ::
  "sources \<Rightarrow> policy \<Rightarrow> trace_entry list \<Rightarrow> policy_rule list \<Rightarrow> policy_decision result" where
  "evaluate_rules s p trace [] =
     Inr \<lparr>pd_state = po_default_decision p,
          pd_reason = ''no policy rule matched; default decision applied'',
          pd_matched_rule_id = None,
          pd_trace = trace @ [Trace_policy_default (po_default_decision p)
                                ''no policy rule matched; default decision applied''],
          pd_policy = Some p,
          pd_approval_requirement = approval_requirement_for_rule None None (po_default_decision p),
          pd_evidence_requirement = evidence_requirement_for_rule None (po_default_decision p)\<rparr>"
| "evaluate_rules s p trace (r # rs) =
     (case evaluate_conditions s (pr_all_conditions r) of
        Inl e \<Rightarrow> Inl e
      | Inr results \<Rightarrow>
          let matched = list_all cr_matched results;
              trace' = trace @ [rule_trace_entry r matched results]
          in if \<not> matched then evaluate_rules s p trace' rs
             else (case pr_decision r of
                     None \<Rightarrow> Inl (PyKeyError ''decision'')
                   | Some v \<Rightarrow>
                       (case decision_state_of v of
                          None \<Rightarrow> Inl (PyValueError ''not a valid DecisionState'')
                        | Some decision \<Rightarrow>
                            (case pr_rule_id r of
                               None \<Rightarrow> Inl (PyKeyError ''rule_id'')
                             | Some rid \<Rightarrow>
                                 Inr \<lparr>pd_state = decision, pd_reason = ''policy rule matched'',
                                      pd_matched_rule_id = Some rid, pd_trace = trace',
                                      pd_policy = Some p,
                                      pd_approval_requirement =
                                        approval_requirement_for_rule
                                          (pr_approval_requirement r) (Some rid) decision,
                                      pd_evidence_requirement =
                                        evidence_requirement_for_rule
                                          (pr_evidence_requirement r) decision\<rparr>))))"

subsection \<open>The engine\<close>

definition blocked ::
  "decision_state \<Rightarrow> string \<Rightarrow> trace_entry \<Rightarrow> policy option \<Rightarrow> policy_decision" where
  "blocked st reason entry p =
     \<lparr>pd_state = st, pd_reason = reason, pd_matched_rule_id = None, pd_trace = [entry],
      pd_policy = p, pd_approval_requirement = None, pd_evidence_requirement = None\<rparr>"

definition evaluate ::
  "dict \<Rightarrow> dict \<Rightarrow> dict \<Rightarrow> policy option \<Rightarrow> bool \<Rightarrow> bool \<Rightarrow> string list \<Rightarrow>
   policy_decision result" where
  "evaluate action_intent intake_context evaluation_context pol supported valid errors =
     (if \<not> supported then
        Inr (blocked structurally_non_executable
               ''unsupported external Action Intent contract version''
               (Trace_hard_rule ''unsupported_contract'' []) None)
      else if \<not> valid then
        Inr (blocked structurally_non_executable
               ''external Action Intent failed versioned contract validation''
               (Trace_hard_rule ''contract_validation_failed'' errors) None)
      else if truthy (jget intake_context ''workflow_mismatch'') \<or>
              truthy (jget intake_context ''routing_mismatch'') then
        Inr (blocked structurally_non_executable
               ''intake hints conflict with the canonical external Action Intent payload''
               (Trace_hard_rule ''intake_payload_mismatch'' []) None)
      else if py_eq (jget action_intent ''source_account_ref'')
                    (jget action_intent ''destination_account_ref'') then
        Inr (blocked structurally_non_executable ''source and destination accounts must differ''
               (Trace_hard_rule ''same_source_and_destination_account'' []) None)
      else
        (case pol of
           None \<Rightarrow>
             Inr (blocked deny ''no active tenant workflow policy is available''
                    (Trace_policy_lookup ''no_active_policy'') None)
         | Some p \<Rightarrow>
             let action_type = jget action_intent ''action_type''
             in if po_finance_action_classes p \<noteq> [] \<and>
                   \<not> py_in action_type (map JStr (po_finance_action_classes p)) then
                  Inr (blocked deny ''active policy does not permit this finance action class''
                         (Trace_policy_scope ''finance_action_class_not_permitted''
                            (po_finance_action_classes p) action_type) (Some p))
                else
                  evaluate_rules
                    \<lparr>src_action_intent = action_intent, src_context = evaluation_context,
                     src_intake = intake_context\<rparr> p [] (ordered_rules (po_rules p))))"

section \<open>Order of the rules\<close>

lemma insort_enumerate:
  assumes "\<forall>(j, r) \<in> set L. i < (j :: nat)"
  shows "map snd (insort_key (\<lambda>(i, r). (f r, i)) (i, x) L) =
    insort_key f x (map snd L)"
  using assms
proof (induction L)
  case (Cons a L)
  obtain j r where a: "a = (j, r)" by (cases a)
  then have "i < j" using Cons.prems by simp
  then have "(f x, i) \<le> (f r, j) \<longleftrightarrow> f x \<le> f r"
    by (auto simp: less_eq_prod_def)
  then show ?case using Cons a by simp
qed simp

text \<open>The enumerated sort is the stable sort by priority.\<close>

lemma ordered_rules_stable: "ordered_rules rules = sort_key rule_priority rules"
proof -
  have "map snd (sort_key (\<lambda>(i, r). (f r, i)) (enumerate n xs)) = sort_key f xs"
    for n :: nat and f :: "policy_rule \<Rightarrow> int" and xs
  proof (induction xs arbitrary: n)
    case (Cons x xs)
    have "\<forall>(j, r) \<in> set (sort_key (\<lambda>(i, r). (f r, i)) (enumerate (Suc n) xs)). n < j"
      by (auto simp: in_set_enumerate_eq)
    then show ?case using Cons by (simp add: insort_enumerate)
  qed simp
  then show ?thesis by (simp add: ordered_rules_def)
qed

section \<open>First match\<close>

definition conditions_hold :: "sources \<Rightarrow> policy_rule \<Rightarrow> bool" where
  "conditions_hold s r =
     (case evaluate_conditions s (pr_all_conditions r) of
        Inl _ \<Rightarrow> False
      | Inr results \<Rightarrow> list_all cr_matched results)"

lemma evaluate_rules_first_match:
  assumes "evaluate_rules s p tr rs = Inr d"
  shows "(pd_matched_rule_id d = None \<and> pd_state d = po_default_decision p \<and>
            (\<forall>r \<in> set rs. \<not> conditions_hold s r)) \<or>
         (\<exists>pre r post v. rs = pre @ r # post \<and> (\<forall>q \<in> set pre. \<not> conditions_hold s q) \<and>
            conditions_hold s r \<and> pr_rule_id r = pd_matched_rule_id d \<and>
            pd_matched_rule_id d \<noteq> None \<and>
            pr_decision r = Some v \<and> decision_state_of v = Some (pd_state d))"
  using assms
proof (induction s p tr rs rule: evaluate_rules.induct)
  case (1 s p tr)
  then show ?case by auto
next
  case (2 s p tr r rs)
  obtain results where res: "evaluate_conditions s (pr_all_conditions r) = Inr results"
    using "2.prems" by (cases "evaluate_conditions s (pr_all_conditions r)") auto
  show ?case
  proof (cases "list_all cr_matched results")
    case True
    then have hold: "conditions_hold s r" by (simp add: conditions_hold_def res)
    have "\<exists>v. pr_decision r = Some v \<and> decision_state_of v = Some (pd_state d) \<and>
      pr_rule_id r = pd_matched_rule_id d \<and> pd_matched_rule_id d \<noteq> None"
      using "2.prems" True res by (auto split: option.splits simp: Let_def)
    then show ?thesis using hold by (metis append_Nil empty_iff empty_set)
  next
    case False
    then have no: "\<not> conditions_hold s r" by (simp add: conditions_hold_def res)
    have "evaluate_rules s p (tr @ [rule_trace_entry r False results]) rs = Inr d"
      using "2.prems" False res by (simp add: Let_def)
    from "2.IH"[OF res refl refl] False this
    consider "pd_matched_rule_id d = None" "pd_state d = po_default_decision p"
        "\<forall>r \<in> set rs. \<not> conditions_hold s r"
      | pre q post v where "rs = pre @ q # post" "\<forall>q \<in> set pre. \<not> conditions_hold s q"
        "conditions_hold s q" "pr_rule_id q = pd_matched_rule_id d"
        "pd_matched_rule_id d \<noteq> None" "pr_decision q = Some v"
        "decision_state_of v = Some (pd_state d)"
      by auto
    then show ?thesis
    proof cases
      case 1
      then show ?thesis using no by auto
    next
      case (2 pre q post v)
      then have "r # rs = (r # pre) @ q # post" "\<forall>x \<in> set (r # pre). \<not> conditions_hold s x"
        using no by auto
      then show ?thesis using 2 by metis
    qed
  qed
qed

text \<open>The rule found first in the ordered list has the least priority and then the least index.\<close>

lemma first_in_order:
  assumes ord: "ordered_rules rules = pre @ r # post"
    and none: "\<forall>q \<in> set pre. \<not> P q" and hit: "P r"
  shows "\<exists>i < length rules. rules ! i = r \<and>
    (\<forall>j < length rules. P (rules ! j) \<longrightarrow>
       (rule_priority r, i) \<le> (rule_priority (rules ! j), j))"
proof -
  define key where "key = (\<lambda>(i :: nat, r). (rule_priority r, i))"
  define L where "L = sort_key key (enumerate 0 rules)"
  have mapL: "map snd L = pre @ r # post"
    using ord by (simp add: ordered_rules_def L_def key_def)
  then obtain A i B where L: "L = A @ (i, r) # B" and A: "map snd A = pre" and B: "map snd B = post"
    by (auto simp: map_eq_append_conv)
  have setL: "set L = set (enumerate 0 rules)" by (simp add: L_def)
  have "(i, r) \<in> set (enumerate 0 rules)" using L setL by auto
  then have ri: "i < length rules" "rules ! i = r" by (auto simp: in_set_enumerate_eq)
  have "sorted (map key L)" by (simp add: L_def)
  then have le: "\<forall>x \<in> set B. key (i, r) \<le> key x" by (simp add: L sorted_append)
  have "(rule_priority r, i) \<le> (rule_priority (rules ! j), j)"
    if j: "j < length rules" "P (rules ! j)" for j
  proof -
    have "(j, rules ! j) \<in> set L" using setL j by (simp add: in_set_enumerate_eq)
    moreover have "(j, rules ! j) \<notin> set A" using none j A by force
    ultimately have "(j, rules ! j) = (i, r) \<or> (j, rules ! j) \<in> set B" by (auto simp: L)
    then show ?thesis using le by (auto simp: key_def)
  qed
  then show ?thesis using ri by blast
qed

lemma evaluate_reaches_rules:
  assumes "evaluate ai ic ec (Some p) True True errs = Inr d"
    and "\<not> truthy (jget ic ''workflow_mismatch'')" "\<not> truthy (jget ic ''routing_mismatch'')"
    and "\<not> py_eq (jget ai ''source_account_ref'') (jget ai ''destination_account_ref'')"
    and "po_finance_action_classes p = [] \<or>
         py_in (jget ai ''action_type'') (map JStr (po_finance_action_classes p))"
  shows "evaluate_rules \<lparr>src_action_intent = ai, src_context = ec, src_intake = ic\<rparr> p []
           (ordered_rules (po_rules p)) = Inr d"
  using assms by (auto simp: evaluate_def Let_def)

section \<open>Reachable policy tables\<close>

text \<open>
  The requests that write tenants and policies, each with its own clock but one stream of
  identifiers \<open>U\<close>.
\<close>

inductive policy_step :: "(nat \<Rightarrow> ident) \<Rightarrow> db \<Rightarrow> db \<Rightarrow> bool" for U where
  step_create_tenant: "rt_uuid rt = U \<Longrightarrow> policy_step U d (snd (create_tenant rt name profile d))"
| step_create_policy: "rt_uuid rt = U \<Longrightarrow>
     policy_step U d (snd (create_policy rt tid name descr wkey dflt classes rules d))"
| step_update_policy: "policy_step U d (snd (update_policy pid name descr dflt classes rules d))"
| step_activate_policy: "rt_uuid rt = U \<Longrightarrow> policy_step U d (snd (activate_policy rt pid d))"

inductive policy_reach :: "(nat \<Rightarrow> ident) \<Rightarrow> db \<Rightarrow> bool" for U where
  reach_empty: "policy_reach U empty_db"
| reach_step: "policy_reach U d \<Longrightarrow> policy_step U d d' \<Longrightarrow> policy_reach U d'"

abbreviation same_workflow :: "policy \<Rightarrow> policy \<Rightarrow> bool" where
  "same_workflow p q \<equiv> po_tenant_id p = po_tenant_id q \<and> po_workflow_key p = po_workflow_key q"

text \<open>
  The invariant: primary keys are distinct and drawn from the supply, two active policies never
  serve one workflow, and versions start at 1 and never repeat within a workflow.
\<close>

definition policies_fresh :: "(nat \<Rightarrow> ident) \<Rightarrow> db \<Rightarrow> bool" where
  "policies_fresh U d \<longleftrightarrow> distinct (map po_policy_id (policies d)) \<and>
     (\<forall>p \<in> set (policies d). \<exists>n < next_uuid d. po_policy_id p = U n)"

definition one_active :: "db \<Rightarrow> bool" where
  "one_active d \<longleftrightarrow> (\<forall>p \<in> set (policies d). \<forall>q \<in> set (policies d).
     same_workflow p q \<and> po_policy_id p \<noteq> po_policy_id q \<longrightarrow>
     \<not> (po_status p = PS_active \<and> po_status q = PS_active))"

definition versions_unique :: "db \<Rightarrow> bool" where
  "versions_unique d \<longleftrightarrow> (\<forall>p \<in> set (policies d). 1 \<le> po_version p \<and>
     (\<forall>q \<in> set (policies d). same_workflow p q \<and> po_policy_id p \<noteq> po_policy_id q \<longrightarrow>
        po_version p \<noteq> po_version q))"

lemmas policy_inv_defs = policies_fresh_def one_active_def versions_unique_def

lemma retire_other_simps [simp]:
  "po_policy_id (retire_other p q) = po_policy_id q"
  "po_tenant_id (retire_other p q) = po_tenant_id q"
  "po_workflow_key (retire_other p q) = po_workflow_key q"
  "po_version (retire_other p q) = po_version q"
  by (simp_all add: retire_other_def)

lemma set_active_simps [simp]:
  "po_policy_id (set_active t p) = po_policy_id p"
  "po_tenant_id (set_active t p) = po_tenant_id p"
  "po_workflow_key (set_active t p) = po_workflow_key p"
  "po_version (set_active t p) = po_version p"
  "po_status (set_active t p) = PS_active"
  by (simp_all add: set_active_def)

lemma foldr_max_ge:
  fixes v :: int
  assumes "x \<in> set (v # vs)"
  shows "x \<le> foldr max vs v"
  using assms by (induction vs) auto

lemma current_version_bound:
  assumes "p \<in> set (policies d)" "po_tenant_id p = tid" "po_workflow_key p = wkey"
  shows "po_version p \<le> current_version tid wkey d"
proof -
  have "po_version p \<in> set (workflow_versions tid wkey d)"
    using assms by (auto simp: workflow_versions_def)
  then show ?thesis
    using foldr_max_ge by (cases "workflow_versions tid wkey d") (auto simp: current_version_def)
qed

lemma current_version_nonneg: "versions_unique d \<Longrightarrow> 0 \<le> current_version tid wkey d"
proof (cases "workflow_versions tid wkey d")
  case (Cons v vs)
  assume inv: "versions_unique d"
  have "v \<in> set (workflow_versions tid wkey d)" by (simp add: Cons)
  then have "1 \<le> v" using inv by (auto simp: workflow_versions_def versions_unique_def)
  moreover have "v \<le> foldr max vs v" by (rule foldr_max_ge) simp
  ultimately show ?thesis by (simp add: current_version_def Cons)
qed (simp add: current_version_def)

lemma create_policy_inv:
  assumes "inj U" "rt_uuid rt = U" "policies_fresh U d" "one_active d" "versions_unique d"
    and eff: "d' = snd (create_policy rt tid name descr wkey dflt classes rules d)"
  shows "policies_fresh U d' \<and> one_active d' \<and> versions_unique d'"
proof (cases "get_tenant tid d")
  case (Inr t)
  define p where "p = \<lparr>po_policy_id = new_id rt d, po_tenant_id = tid, po_name = name,
    po_description = descr, po_workflow_key = wkey,
    po_version = current_version tid wkey d + 1, po_status = PS_draft,
    po_default_decision = dflt, po_finance_action_classes = classes,
    po_rules = rules, po_activated_at = None, po_created_at = rt_now rt\<rparr>"
  have d': "d' = used_id d\<lparr>policies := tinsert p (policies d)\<rparr>"
    by (simp add: eff create_policy_def Inr p_def Let_def)
  have new: "po_policy_id p = U (next_uuid d)" by (simp add: p_def new_id_def assms)
  then have fresh: "po_policy_id p \<notin> po_policy_id ` set (policies d)"
    using assms(1,3) by (force simp: policies_fresh_def dest: injD)
  have "policies_fresh U d'"
    using assms(3) new fresh by (auto simp: policies_fresh_def d' tinsert_def less_Suc_eq)
  moreover have "one_active d'"
    using assms(4) by (auto simp: one_active_def d' p_def)
  moreover have "versions_unique d'"
  proof -
    have "po_version q \<noteq> po_version p" if "q \<in> set (policies d)" "same_workflow q p" for q
      using current_version_bound[of q d tid wkey] that by (simp add: p_def)
    moreover have "1 \<le> po_version p" using current_version_nonneg[OF assms(5)] by (simp add: p_def)
    ultimately show ?thesis
      using assms(5) by (simp add: versions_unique_def d') metis
  qed
  ultimately show ?thesis by blast
qed (use assms in \<open>simp add: eff create_policy_def\<close>)

lemma update_policy_effect:
  "snd (update_policy pid name descr dflt classes rules d) = d \<or>
   snd (update_policy pid name descr dflt classes rules d) =
     d\<lparr>policies := tmodify po_policy_id pid (\<lambda>p. p\<lparr>po_name := name, po_description := descr,
         po_default_decision := dflt, po_finance_action_classes := classes, po_rules := rules\<rparr>)
         (policies d)\<rparr>"
  by (cases "get_policy pid d") (auto simp: update_policy_def Let_def)

lemma activate_policy_effect:
  "snd (activate_policy rt pid d) = d \<or>
   (\<exists>p. tget po_policy_id pid (policies d) = Some p \<and>
      snd (activate_policy rt pid d) =
        d\<lparr>policies := tmodify po_policy_id pid (set_active (rt_now rt))
                        (map (retire_other p) (policies d))\<rparr>)"
  by (cases "tget po_policy_id pid (policies d)") (auto simp: activate_policy_def get_policy_def)

text \<open>
  Both updates rewrite the table row by row and keep identity, workflow and version of each row.
\<close>

lemma row_map_inv:
  assumes rows: "policies d' = map g (policies d)" and ids: "next_uuid d' = next_uuid d"
    and keep: "\<And>p. po_policy_id (g p) = po_policy_id p" "\<And>p. po_tenant_id (g p) = po_tenant_id p"
      "\<And>p. po_workflow_key (g p) = po_workflow_key p" "\<And>p. po_version (g p) = po_version p"
    and inv: "policies_fresh U d" "versions_unique d"
  shows "policies_fresh U d' \<and> versions_unique d'"
  using inv by (simp add: policies_fresh_def versions_unique_def rows ids keep comp_def)

lemma update_policy_inv:
  assumes inv: "policies_fresh U d" "one_active d" "versions_unique d"
    and eff: "d' = snd (update_policy pid name descr dflt classes rules d)"
  shows "policies_fresh U d' \<and> one_active d' \<and> versions_unique d'"
proof (cases "d' = d")
  case False
  define g :: "policy \<Rightarrow> policy" where "g p = (if po_policy_id p = pid
    then p\<lparr>po_name := name, po_description := descr,
         po_default_decision := dflt, po_finance_action_classes := classes, po_rules := rules\<rparr>
    else p)" for p
  have d': "policies d' = map g (policies d)" "next_uuid d' = next_uuid d"
    using update_policy_effect[of pid name descr dflt classes rules d] False
    by (auto simp: eff tmodify_def g_def[abs_def])
  have keep: "po_policy_id (g p) = po_policy_id p" "po_tenant_id (g p) = po_tenant_id p"
    "po_workflow_key (g p) = po_workflow_key p" "po_version (g p) = po_version p"
    "po_status (g p) = po_status p" for p
    by (simp_all add: g_def)
  have "policies_fresh U d' \<and> versions_unique d'"
    by (rule row_map_inv[OF d' keep(1-4) inv(1,3)])
  moreover have "one_active d'"
    using inv(2) by (simp add: one_active_def d' keep)
  ultimately show ?thesis by blast
qed (use inv in simp)

lemma activate_policy_inv:
  assumes inv: "policies_fresh U d" "one_active d" "versions_unique d"
    and eff: "d' = snd (activate_policy rt pid d)"
  shows "policies_fresh U d' \<and> one_active d' \<and> versions_unique d'"
proof (cases "d' = d")
  case False
  then obtain p where p: "tget po_policy_id pid (policies d) = Some p"
    and "d' = d\<lparr>policies := tmodify po_policy_id pid (set_active (rt_now rt))
                        (map (retire_other p) (policies d))\<rparr>"
    using activate_policy_effect[of rt pid d] eff by metis
  moreover define g where "g q = (if po_policy_id q = pid
    then set_active (rt_now rt) (retire_other p q) else retire_other p q)" for q
  ultimately have d': "policies d' = map g (policies d)" "next_uuid d' = next_uuid d"
    by (simp_all add: tmodify_def g_def[abs_def])
  have keep: "po_policy_id (g q) = po_policy_id q" "po_tenant_id (g q) = po_tenant_id q"
    "po_workflow_key (g q) = po_workflow_key q" "po_version (g q) = po_version q" for q
    by (simp_all add: g_def)
  have only: "po_status (g q) = PS_active \<longleftrightarrow> po_policy_id q = pid \<or>
      (po_status q = PS_active \<and> \<not> same_workflow q p)" for q
    using tgetD[OF p] by (auto simp: g_def retire_other_def)
  have same: "q = p" if "q \<in> set (policies d)" "po_policy_id q = pid" for q
    using inv(1) p that tget_unique unfolding policies_fresh_def by fastforce
  have "policies_fresh U d' \<and> versions_unique d'"
    by (rule row_map_inv[OF d' keep inv(1,3)])
  moreover have "one_active d'"
  proof -
    have "po_policy_id q = po_policy_id q'"
      if "q \<in> set (policies d)" "q' \<in> set (policies d)" "same_workflow q q'"
        "po_status (g q) = PS_active" "po_status (g q') = PS_active" for q q'
    proof (cases "po_policy_id q = pid \<or> po_policy_id q' = pid")
      case True
      then show ?thesis using same[of q] same[of q'] that only[of q] only[of q'] by metis
    next
      case False
      then have "po_status q = PS_active" "po_status q' = PS_active" using that only by metis+
      then show ?thesis using inv(2) that(1-3) unfolding one_active_def by blast
    qed
    then show ?thesis unfolding one_active_def d' by (auto simp: keep)
  qed
  ultimately show ?thesis by blast
qed (use inv in simp)

lemma create_tenant_inv:
  assumes "policies_fresh U d" "one_active d" "versions_unique d"
  shows "policies_fresh U (snd (create_tenant rt name profile d)) \<and>
    one_active (snd (create_tenant rt name profile d)) \<and>
    versions_unique (snd (create_tenant rt name profile d))"
  using assms by (auto simp: policy_inv_defs create_tenant_def Let_def less_Suc_eq)

definition policy_inv :: "(nat \<Rightarrow> ident) \<Rightarrow> db \<Rightarrow> bool" where
  "policy_inv U d \<longleftrightarrow> policies_fresh U d \<and> one_active d \<and> versions_unique d"

lemma policy_step_inv:
  assumes "policy_step U d d'" "inj U" "policy_inv U d"
  shows "policy_inv U d'"
  using assms unfolding policy_inv_def
proof (induction rule: policy_step.induct)
  case (step_create_tenant rt d name profile)
  then show ?case using create_tenant_inv by metis
next
  case (step_create_policy rt d tid name descr wkey dflt classes rules)
  show ?case
    using create_policy_inv[OF step_create_policy(2,1) _ _ _ refl] step_create_policy(3) by blast
next
  case (step_update_policy d pid name descr dflt classes rules)
  show ?case using update_policy_inv[OF _ _ _ refl] step_update_policy(2) by blast
next
  case (step_activate_policy rt d pid)
  show ?case using activate_policy_inv[OF _ _ _ refl] step_activate_policy(3) by blast
qed

lemma policy_inv_empty: "policy_inv U empty_db"
  by (simp add: policy_inv_def policy_inv_defs empty_db_def)

lemma policy_reach_inv: "policy_reach U d \<Longrightarrow> inj U \<Longrightarrow> policy_inv U d"
  by (induction rule: policy_reach.induct) (rule policy_inv_empty, blast intro: policy_step_inv)

lemma filter_one_active:
  assumes "distinct (map po_policy_id (policies d))" "one_active d" "p \<in> set (policies d)"
    "po_status p = PS_active"
  shows "[q \<leftarrow> policies d. po_tenant_id q = po_tenant_id p \<and> po_workflow_key q = po_workflow_key p \<and>
    po_status q = PS_active] = [p]" (is "filter ?P _ = _")
proof -
  have only: "q = p" if "q \<in> set (policies d)" "?P q" for q
    using assms that unfolding one_active_def by (metis tget_unique option.inject)
  have "distinct (filter ?P (policies d))" using assms(1) by (simp add: distinct_map)
  moreover have "set (filter ?P (policies d)) = {p}" using only assms(3,4) by auto
  ultimately show ?thesis by (rule distinct_set_singleton)
qed

section \<open>Properties\<close>

text \<open>
  C25. First match. When the engine gets past the hard rules and answers, the answer is that of the
  rule with the least (priority, position) among the rules of the policy whose conditions all hold;
  when it names no rule, no rule's conditions hold and the policy's default decision is returned.
\<close>

theorem evaluate_first_match:
  assumes "evaluate ai ic ec (Some p) True True errs = Inr d"
    and "\<not> truthy (jget ic ''workflow_mismatch'')" "\<not> truthy (jget ic ''routing_mismatch'')"
    and "\<not> py_eq (jget ai ''source_account_ref'') (jget ai ''destination_account_ref'')"
    and "po_finance_action_classes p = [] \<or>
         py_in (jget ai ''action_type'') (map JStr (po_finance_action_classes p))"
    and holds: "holds =
      conditions_hold \<lparr>src_action_intent = ai, src_context = ec, src_intake = ic\<rparr>"
  shows "case pd_matched_rule_id d of
      None \<Rightarrow> (\<forall>r \<in> set (po_rules p). \<not> holds r) \<and> pd_state d = po_default_decision p
    | Some rid \<Rightarrow> \<exists>i v. i < length (po_rules p) \<and> holds (po_rules p ! i) \<and>
        pr_rule_id (po_rules p ! i) = Some rid \<and>
        pr_decision (po_rules p ! i) = Some v \<and> decision_state_of v = Some (pd_state d) \<and>
        (\<forall>j < length (po_rules p). holds (po_rules p ! j) \<longrightarrow>
           (rule_priority (po_rules p ! i), i) \<le> (rule_priority (po_rules p ! j), j))"
proof -
  define s where "s = \<lparr>src_action_intent = ai, src_context = ec, src_intake = ic\<rparr>"
  note holds = holds[folded s_def]
  have run: "evaluate_rules s p [] (ordered_rules (po_rules p)) = Inr d"
    unfolding s_def using assms(1-5) by (rule evaluate_reaches_rules)
  have rules: "set (ordered_rules (po_rules p)) = set (po_rules p)"
    by (simp add: ordered_rules_stable)
  from evaluate_rules_first_match[OF run] consider
      "pd_matched_rule_id d = None" "pd_state d = po_default_decision p"
      "\<forall>r \<in> set (ordered_rules (po_rules p)). \<not> conditions_hold s r"
    | pre r post v where "ordered_rules (po_rules p) = pre @ r # post"
      "\<forall>q \<in> set pre. \<not> conditions_hold s q" "conditions_hold s r"
      "pr_rule_id r = pd_matched_rule_id d" "pd_matched_rule_id d \<noteq> None"
      "pr_decision r = Some v" "decision_state_of v = Some (pd_state d)"
    by auto
  then show ?thesis
  proof cases
    case 1
    then show ?thesis by (simp add: holds rules)
  next
    case (2 pre r post v)
    obtain i where "i < length (po_rules p)" "po_rules p ! i = r"
      "\<forall>j < length (po_rules p). holds (po_rules p ! j) \<longrightarrow>
         (rule_priority r, i) \<le> (rule_priority (po_rules p ! j), j)"
      using first_in_order[OF 2(1-3)] unfolding holds by blast
    then show ?thesis using 2(3-7) unfolding holds by fastforce
  qed
qed

text \<open>Two rules of equal priority that both match: the earlier one decides.\<close>

definition sample_rule :: "string \<Rightarrow> decision_state \<Rightarrow> policy_condition list \<Rightarrow> policy_rule" where
  "sample_rule rid dec conds = \<lparr>pr_rule_id = Some rid, pr_priority = Some 10,
     pr_decision = Some (decision_state_value dec), pr_all_conditions = conds,
     pr_approval_requirement = None, pr_evidence_requirement = None\<rparr>"

definition sample_policy :: policy where
  "sample_policy = \<lparr>po_policy_id = ''p'', po_tenant_id = ''t'', po_name = ''payments'',
     po_description = None, po_workflow_key = ''wire'', po_version = 1, po_status = PS_active,
     po_default_decision = deny, po_finance_action_classes = [''payment''],
     po_rules = [sample_rule ''large'' approval_required
         [\<lparr>pc_source = ''action_intent'', pc_field = ''amount_minor'', pc_operator = ''gte'',
           pc_value = JInt 1000\<rparr>],
       sample_rule ''any'' allow
         [\<lparr>pc_source = ''action_intent'', pc_field = ''amount_minor'', pc_operator = ''exists'',
           pc_value = JNull\<rparr>]],
     po_activated_at = None, po_created_at = 0\<rparr>"

definition sample_intent :: dict where
  "sample_intent = [(''action_type'', JStr ''payment''), (''amount_minor'', JInt 5000),
     (''source_account_ref'', JStr ''a''), (''destination_account_ref'', JStr ''b'')]"

lemmas sample_policy_simps = sample_policy_def sample_rule_def sample_intent_def

definition sample_decision :: policy_decision where
  "sample_decision = \<lparr>pd_state = approval_required, pd_reason = ''policy rule matched'',
     pd_matched_rule_id = Some ''large'',
     pd_trace = [Trace_policy_rule (Some ''large'') 10 (Some ''approval_required'') True
       [\<lparr>cr_source = ''action_intent'', cr_field = ''amount_minor'', cr_operator = ''gte'',
         cr_expected = JInt 1000, cr_actual = JInt 5000, cr_matched = True\<rparr>]],
     pd_policy = Some sample_policy,
     pd_approval_requirement = Some \<lparr>rq_required_decision_count = 1,
       rq_eligible_principal_ids = [], rq_eligible_role_ids = [],
       rq_approval_group_key = Some ''large'', rq_expires_in_seconds = None,
       rq_require_requester_separation = True, rq_require_distinct_approvers = True\<rparr>,
     pd_evidence_requirement = None\<rparr>"

lemma sample_evaluation:
  "evaluate sample_intent [] [] (Some sample_policy) True True [] = Inr sample_decision"
  by (simp add: evaluate_def sample_decision_def ordered_rules_stable sample_policy_simps jget_def
      py_in_def rule_priority_def default_to_def evaluate_condition_def apply_operator_def
      source_of_def resolve_path_def ordered_def rule_trace_entry_def decision_state_of_def
      approval_requirement_for_rule_def evidence_requirement_for_rule_def num_cmp_def)

theorem evaluate_first_match_witness:
  "\<exists>i v. i < length (po_rules sample_policy) \<and>
     pr_rule_id (po_rules sample_policy ! i) = Some ''large'' \<and>
     pr_decision (po_rules sample_policy ! i) = Some v \<and>
     decision_state_of v = Some approval_required"
  using evaluate_first_match[OF sample_evaluation]
  by (force simp: sample_decision_def sample_policy_simps jget_def py_in_def)

text \<open>
  Fail closed. An answer other than \<open>deny\<close> or \<open>structurally_non_executable\<close> is only given
  for a supported and valid contract, without conflicting intake hints, between different accounts,
  under an active policy that permits the action class, and it names that policy.
\<close>

theorem evaluate_fail_closed:
  assumes "evaluate ai ic ec pol supported valid errs = Inr d"
    and "pd_state d \<notin> {deny, structurally_non_executable}"
  shows "supported \<and> valid \<and> \<not> truthy (jget ic ''workflow_mismatch'') \<and>
    \<not> truthy (jget ic ''routing_mismatch'') \<and>
    \<not> py_eq (jget ai ''source_account_ref'') (jget ai ''destination_account_ref'') \<and>
    (\<exists>p. pol = Some p \<and> pd_policy d = Some p \<and> (po_finance_action_classes p = [] \<or>
       py_in (jget ai ''action_type'') (map JStr (po_finance_action_classes p))))"
proof -
  have keeps_policy: "evaluate_rules s p tr rs = Inr d \<Longrightarrow> pd_policy d = Some p" for s p tr rs
    by (induction s p tr rs rule: evaluate_rules.induct)
       (auto simp: Let_def split: sum.splits option.splits if_splits)
  show ?thesis
    using assms keeps_policy
    by (auto simp: evaluate_def blocked_def Let_def split: if_splits option.splits)
qed

theorem evaluate_fail_closed_witness:
  "\<exists>p. Some sample_policy = Some p \<and> py_in (JStr ''payment'') (map JStr (po_finance_action_classes p))"
  using evaluate_fail_closed[OF sample_evaluation]
  by (auto simp: sample_decision_def sample_policy_simps jget_def)

lemma evaluate_rules_error:
  "evaluate_rules s p tr rs = Inl e \<Longrightarrow>
   \<exists>r \<in> set rs. evaluate_conditions s (pr_all_conditions r) = Inl e \<or>
     (conditions_hold s r \<and>
       (pr_rule_id r = None \<or> (\<forall>v. pr_decision r = Some v \<longrightarrow> decision_state_of v = None)))"
proof (induction s p tr rs rule: evaluate_rules.induct)
  case (2 s p tr r rs)
  then show ?case
    by (cases "evaluate_conditions s (pr_all_conditions r)")
       (auto simp: Let_def conditions_hold_def split: option.splits if_splits)
qed simp

text \<open>
  Exceptions of the engine. Past the hard rules the engine raises only when the loop meets a
  rule it cannot evaluate: a condition with an unsupported operator or unordered operands, or a
  matching rule without identifier or without a known decision.
\<close>

theorem evaluate_error_cause:
  assumes "evaluate ai ic ec pol supported valid errs = Inl e"
  shows "\<exists>p r. pol = Some p \<and> r \<in> set (po_rules p) \<and>
    (let s = \<lparr>src_action_intent = ai, src_context = ec, src_intake = ic\<rparr> in
      evaluate_conditions s (pr_all_conditions r) = Inl e \<or>
      (conditions_hold s r \<and>
        (pr_rule_id r = None \<or> (\<forall>v. pr_decision r = Some v \<longrightarrow> decision_state_of v = None))))"
proof -
  obtain p where "pol = Some p"
    "evaluate_rules \<lparr>src_action_intent = ai, src_context = ec, src_intake = ic\<rparr> p []
       (ordered_rules (po_rules p)) = Inl e"
    using assms by (auto simp: evaluate_def Let_def split: if_splits option.splits)
  then show ?thesis
    using evaluate_rules_error by (fastforce simp: ordered_rules_stable)
qed

definition broken_policy :: policy where
  "broken_policy = sample_policy\<lparr>po_rules := [sample_rule ''bad'' allow
     [\<lparr>pc_source = ''action_intent'', pc_field = ''amount_minor'', pc_operator = ''gte'',
       pc_value = JStr ''x''\<rparr>]]\<rparr>"

lemma broken_evaluation:
  "evaluate sample_intent [] [] (Some broken_policy) True True [] =
   Inl (PyTypeError ''unorderable types'')"
  by (simp add: evaluate_def broken_policy_def ordered_rules_stable sample_policy_simps jget_def
      py_in_def evaluate_condition_def apply_operator_def source_of_def resolve_path_def ordered_def)

theorem evaluate_error_cause_witness:
  "\<exists>r \<in> set (po_rules broken_policy). pr_rule_id r = Some ''bad''"
  using evaluate_error_cause[OF broken_evaluation]
  by (auto simp: broken_policy_def sample_rule_def)

text \<open>
  C26. Policy versions and activation. In every database reached by creating tenants and creating,
  updating and activating policies, a workflow of a tenant has at most one active policy, and its
  versions are positive and pairwise distinct.
\<close>

theorem reachable_policies_unique:
  assumes "inj U" "policy_reach U d"
    and "p \<in> set (policies d)" "q \<in> set (policies d)" "same_workflow p q"
    and "(po_status p = PS_active \<and> po_status q = PS_active) \<or> po_version p = po_version q"
  shows "p = q \<and> 1 \<le> po_version p"
proof -
  have inv: "policies_fresh U d" "one_active d" "versions_unique d"
    using policy_reach_inv[OF assms(2,1)] by (auto simp: policy_inv_def)
  then have "po_policy_id p = po_policy_id q"
    using assms(3-6) unfolding one_active_def versions_unique_def by blast
  then have "p = q"
    using distinct_key_eq[of po_policy_id, OF _ assms(3,4)] inv(1) by (simp add: policies_fresh_def)
  then show ?thesis using inv(3) assms(3) by (auto simp: versions_unique_def)
qed

definition sample_policy_db :: db where
  "sample_policy_db = snd (activate_policy (sample_rt 3) (sample_uuid 1)
     (snd (create_policy (sample_rt 2) (sample_uuid 0) ''n'' None ''wire'' deny [] []
       (snd (create_tenant (sample_rt 1) ''acme'' FP_payments empty_db)))))"

lemma sample_policy_reach: "policy_reach sample_uuid sample_policy_db"
  unfolding sample_policy_db_def
  by (rule reach_step[OF reach_step[OF reach_step[OF reach_empty
          step_create_tenant] step_create_policy] step_activate_policy]) simp_all

lemma sample_policy_row:
  "policies sample_policy_db = [\<lparr>po_policy_id = ''u'', po_tenant_id = [], po_name = ''n'',
     po_description = None, po_workflow_key = ''wire'', po_version = 1, po_status = PS_active,
     po_default_decision = deny, po_finance_action_classes = [], po_rules = [],
     po_activated_at = Some 3, po_created_at = 2\<rparr>]"
  by (simp add: sample_policy_db_def create_tenant_def create_policy_def activate_policy_def
      get_tenant_def get_policy_def empty_db_def new_id_def sample_uuid_def Let_def tinsert_def
      current_version_def workflow_versions_def set_active_def retire_other_def)

theorem reachable_policies_unique_witness:
  "1 \<le> po_version (hd (policies sample_policy_db))"
  using reachable_policies_unique[OF inj_sample_uuid sample_policy_reach,
      of "hd (policies sample_policy_db)" "hd (policies sample_policy_db)"]
  by (simp add: sample_policy_row)

text \<open>
  Activation takes effect. After a successful activation in a reachable database, the active
  policy of the workflow is the activated one, whatever was active before.
\<close>

theorem activate_then_lookup:
  assumes "inj U" "policy_reach U d" "rt_uuid rt = U" "activate_policy rt pid d = (Inr p, d')"
  shows "get_active_policy (po_tenant_id p) (po_workflow_key p) d' = Some p \<and> po_policy_id p = pid"
proof -
  have "policy_reach U d'"
    using policy_reach.reach_step[OF assms(2) policy_step.step_activate_policy[OF assms(3), of d pid]]
      assms(4) by simp
  then have inv: "policies_fresh U d'" "one_active d'"
    using policy_reach_inv assms(1) by (auto simp: policy_inv_def)
  obtain p0 where p0: "tget po_policy_id pid (policies d) = Some p0" "p = set_active (rt_now rt) p0"
      "policies d' = tmodify po_policy_id pid (set_active (rt_now rt))
         (map (retire_other p0) (policies d))"
    using assms(4)
    by (auto simp: activate_policy_def get_policy_def split: option.splits if_splits)
  have id0: "po_policy_id p0 = pid" "p0 \<in> set (policies d)" using tgetD[OF p0(1)] by auto
  have "retire_other p0 p0 = p0" by (simp add: retire_other_def)
  then have mem: "p \<in> set (policies d')"
    using p0(2,3) id0 by (force simp: tmodify_def image_iff)
  have "[q \<leftarrow> policies d'. po_tenant_id q = po_tenant_id p \<and>
      po_workflow_key q = po_workflow_key p \<and> po_status q = PS_active] = [p]"
    by (rule filter_one_active[OF _ inv(2) mem])
       (use inv(1) p0(2) in \<open>simp_all add: policies_fresh_def\<close>)
  then show ?thesis using p0(2) id0 by (simp add: get_active_policy_def)
qed

theorem activate_then_lookup_witness:
  "get_active_policy [] ''wire''
     (snd (activate_policy (sample_rt 9) ''u'' sample_policy_db)) =
   Some (hd (policies sample_policy_db))"
proof -
  have run: "activate_policy (sample_rt 9) ''u'' sample_policy_db =
    (Inr (hd (policies sample_policy_db)),
     snd (activate_policy (sample_rt 9) ''u'' sample_policy_db))"
    by (simp add: activate_policy_def get_policy_def sample_policy_row set_active_def)
  show ?thesis
    using activate_then_lookup[OF inj_sample_uuid sample_policy_reach _ run]
    by (simp add: sample_policy_row)
qed

end
