(* ===== verification/Approvals.thy ===== *)
theory Approvals
  imports PolicyEngine
begin

text \<open>
  \<open>src/app/services/approvals.py\<close>: approval requests, their lazy expiry, the recording of
  decisions and the approval state of an action intent. The sessions run with
  \<open>autoflush=False\<close>: a query made before the flush does not see pending inserts.
\<close>

section \<open>Expiry\<close>

record approval_actor =
  act_principal_type :: string
  act_principal_id :: ident
  act_claimed_role_ids :: "ident list"

definition request_expires :: "time \<Rightarrow> approval_request \<Rightarrow> bool" where
  "request_expires now r \<longleftrightarrow> ar_status r = AR_pending \<and>
     (case ar_expires_at r of None \<Rightarrow> False | Some e \<Rightarrow> e \<le> now)"

definition expire_assignment :: "approver_assignment \<Rightarrow> approver_assignment" where
  "expire_assignment a =
     (if aa_assignment_status a = AA_assigned then a\<lparr>aa_assignment_status := AA_expired\<rparr> else a)"

text \<open>\<open>_refresh_request_if_expired\<close>; its Boolean result is \<^const>\<open>request_expires\<close>.\<close>

definition refresh_request :: "time \<Rightarrow> approval_request \<Rightarrow> approval_request" where
  "refresh_request now r =
     (if request_expires now r
      then r\<lparr>ar_status := AR_expired,
             ar_decision_reason := str_or (ar_decision_reason r) (Some
               ''approval request expired before the required decision count was reached''),
             ar_assignments := map expire_assignment (ar_assignments r)\<rparr>
      else r)"

text \<open>\<open>_expires_at\<close>: no deadline for an absent or zero time to live.\<close>

definition expires_at_of :: "time \<Rightarrow> int option \<Rightarrow> time option" where
  "expires_at_of base_time ttl =
     (case ttl of None \<Rightarrow> None | Some n \<Rightarrow> if n = 0 then None else Some (base_time + seconds n))"

section \<open>State of an action intent\<close>

definition requests_of :: "ident \<Rightarrow> db \<Rightarrow> approval_request list" where
  "requests_of iid d = [r \<leftarrow> approval_requests d. ar_action_intent_record_id r = iid]"

definition approval_state_of ::
  "approval_requirement option \<Rightarrow> approval_request list \<Rightarrow> approval_state" where
  "approval_state_of requirement requests =
     (if requests = [] then
        (if requirement \<noteq> None then AS_not_started else AS_not_required)
      else
        let statuses = set (map ar_status requests)
        in if AR_rejected \<in> statuses then AS_rejected
           else if AR_expired \<in> statuses then AS_expired
           else if statuses = {AR_satisfied} then AS_satisfied
           else if statuses = {AR_canceled} then AS_canceled
           else AS_pending)"

definition refresh_requests_of :: "time \<Rightarrow> ident \<Rightarrow> db \<Rightarrow> db" where
  "refresh_requests_of now iid d =
     d\<lparr>approval_requests := map (\<lambda>r. if ar_action_intent_record_id r = iid
         then refresh_request now r else r) (approval_requests d)\<rparr>"

text \<open>\<open>ApprovalService.synchronize_action_intent_state\<close>.\<close>

definition sync_approval_state :: "time \<Rightarrow> ident \<Rightarrow> db \<Rightarrow> db" where
  "sync_approval_state now iid d =
     (let d1 = refresh_requests_of now iid d
      in d1\<lparr>action_intents := tmodify ai_action_intent_record_id iid
           (\<lambda>i. i\<lparr>ai_approval_state :=
              approval_state_of (ai_approval_requirement i) (requests_of iid d1)\<rparr>)
           (action_intents d1)\<rparr>)"

section \<open>Opening a request\<close>

definition new_assignment :: "runtime \<Rightarrow> nat \<Rightarrow> ident \<Rightarrow> ident \<Rightarrow> ident \<Rightarrow> approver_assignment" where
  "new_assignment rt n rid tid principal_id =
     \<lparr>aa_approval_assignment_id = rt_uuid rt n, aa_approval_request_id = rid, aa_tenant_id = tid,
      aa_principal_type = ''user'', aa_principal_id = principal_id,
      aa_assignment_status = AA_assigned, aa_acted_at = None\<rparr>"

definition new_request ::
  "runtime \<Rightarrow> action_intent_record \<Rightarrow> approval_requirement \<Rightarrow> db \<Rightarrow> approval_request" where
  "new_request rt i rq d =
     \<lparr>ar_approval_request_id = new_id rt d, ar_tenant_id = ai_tenant_id i,
      ar_action_intent_record_id = ai_action_intent_record_id i,
      ar_policy_id = ai_policy_id i, ar_workflow_rule_id = ai_matched_rule_id i,
      ar_approval_group_key =
        the (str_or (rq_approval_group_key rq) (str_or (ai_matched_rule_id i) (Some ''default''))),
      ar_required_decision_count = max (rq_required_decision_count rq) 1,
      ar_eligible_role_ids = rq_eligible_role_ids rq,
      ar_require_requester_separation = rq_require_requester_separation rq,
      ar_require_distinct_approvers = rq_require_distinct_approvers rq,
      ar_status = AR_pending, ar_decision_reason = None,
      ar_expires_at = expires_at_of (ai_created_at i) (rq_expires_in_seconds rq),
      ar_satisfied_at = None, ar_rejected_at = None, ar_created_at = rt_now rt,
      ar_assignments = [], ar_decisions = []\<rparr>"

text \<open>
  \<open>initialize_for_action_intent\<close>. The assignments are added to the session but not flushed when
  the state is synchronised, so the request is synchronised without them; they are written with
  the commit that follows. That commit violates the unique constraint on
  (request, principal) when a principal is listed twice.
\<close>

definition initialize_approvals ::
  "runtime \<Rightarrow> action_intent_record \<Rightarrow> db \<Rightarrow> approval_request list result \<times> db" where
  "initialize_approvals rt i d =
     (let iid = ai_action_intent_record_id i
      in case ai_approval_requirement i of
           None \<Rightarrow>
             (Inr [], d\<lparr>action_intents := tmodify ai_action_intent_record_id iid
                (\<lambda>i. i\<lparr>ai_approval_state := AS_not_required\<rparr>) (action_intents d)\<rparr>)
         | Some rq \<Rightarrow>
             if requests_of iid d \<noteq> [] then
               (let d1 = sync_approval_state (rt_now rt) iid d in (Inr (requests_of iid d1), d1))
             else if \<not> distinct (rq_eligible_principal_ids rq) then
               (Inl (IntegrityError ''uq_approver_assignments_request_principal''), d)
             else
               let r = new_request rt i rq d;
                   rid = ar_approval_request_id r;
                   d1 = used_id d\<lparr>approval_requests := tinsert r (approval_requests d)\<rparr>;
                   d2 = sync_approval_state (rt_now rt) iid d1;
                   assignments = map (\<lambda>(k, pid). new_assignment rt k rid (ai_tenant_id i) pid)
                     (enumerate (next_uuid d1) (rq_eligible_principal_ids rq));
                   d3 = d2\<lparr>approval_requests := tmodify ar_approval_request_id rid
                          (\<lambda>r. r\<lparr>ar_assignments := assignments\<rparr>) (approval_requests d2),
                        next_uuid := next_uuid d2 + length assignments\<rparr>
               in (Inr (requests_of iid d3), d3))"

section \<open>Reading requests\<close>

definition get_request ::
  "runtime \<Rightarrow> ident \<Rightarrow> db \<Rightarrow> approval_request result \<times> db" where
  "get_request rt rid d =
     (case tget ar_approval_request_id rid (approval_requests d) of
        None \<Rightarrow> (Inl ApprovalRequestNotFoundError, d)
      | Some r \<Rightarrow>
          if request_expires (rt_now rt) r then
            let d1 = d\<lparr>approval_requests := tmodify ar_approval_request_id rid
                         (refresh_request (rt_now rt)) (approval_requests d)\<rparr>;
                d2 = sync_approval_state (rt_now rt) (ar_action_intent_record_id r) d1
            in (case tget ar_approval_request_id rid (approval_requests d2) of
                  None \<Rightarrow> (Inl (PyRuntimeError ''approval request disappeared''), d2)
                | Some r' \<Rightarrow> (Inr r', d2))
          else (Inr r, d))"

definition select_requests ::
  "ident option \<Rightarrow> ident option \<Rightarrow> approval_request_status option \<Rightarrow> db \<Rightarrow>
   approval_request list" where
  "select_requests tid iid st d =
     sort_key ar_created_at
       [r \<leftarrow> approval_requests d. (tid = None \<or> tid = Some (ar_tenant_id r)) \<and>
          (iid = None \<or> iid = Some (ar_action_intent_record_id r)) \<and>
          (st = None \<or> st = Some (ar_status r))]"

text \<open>The loop of \<open>list_requests\<close>: each expired row is refreshed and its intent synchronised.\<close>

definition refresh_listed :: "time \<Rightarrow> approval_request \<Rightarrow> db \<Rightarrow> db" where
  "refresh_listed now r d =
     (if request_expires now r
      then sync_approval_state now (ar_action_intent_record_id r)
        (d\<lparr>approval_requests := tmodify ar_approval_request_id (ar_approval_request_id r)
             (refresh_request now) (approval_requests d)\<rparr>)
      else d)"

definition list_requests ::
  "runtime \<Rightarrow> ident option \<Rightarrow> ident option \<Rightarrow> approval_request_status option \<Rightarrow> db \<Rightarrow>
   approval_request list \<times> db" where
  "list_requests rt tid iid st d =
     (let d1 = fold (refresh_listed (rt_now rt)) (select_requests tid iid st d) d
      in (select_requests tid iid st d1, d1))"

section \<open>Recording a decision\<close>

definition actor_of_decision :: "approval_decision \<Rightarrow> string \<times> ident" where
  "actor_of_decision a = (ad_decided_by_principal_type a, ad_decided_by_principal_id a)"

definition actor_of_assignment :: "approver_assignment \<Rightarrow> string \<times> ident" where
  "actor_of_assignment a = (aa_principal_type a, aa_principal_id a)"

definition actor_key :: "approval_actor \<Rightarrow> string \<times> ident" where
  "actor_key a = (act_principal_type a, act_principal_id a)"

definition has_existing_decision :: "approval_request \<Rightarrow> approval_actor \<Rightarrow> bool" where
  "has_existing_decision r a \<longleftrightarrow>
     list_ex (\<lambda>x. actor_of_decision x = actor_key a) (ar_decisions r)"

text \<open>
  \<open>_validate_actor\<close>; \<open>requester\<close> is the principal recorded on the linked action intent.
\<close>

definition validate_actor ::
  "approval_request \<Rightarrow> string \<times> ident \<Rightarrow> approval_actor \<Rightarrow> error option" where
  "validate_actor r requester a =
     (if ar_assignments r \<noteq> [] \<and>
         \<not> list_ex (\<lambda>x. actor_of_assignment x = actor_key a) (ar_assignments r)
      then Some (ApprovalAuthorizationError
             ''principal is not assigned to this approval request'')
      else if ar_eligible_role_ids r \<noteq> [] \<and>
              set (act_claimed_role_ids a) \<inter> set (ar_eligible_role_ids r) = {}
      then Some (ApprovalAuthorizationError
             ''principal does not satisfy any eligible approval role for this request'')
      else if ar_require_requester_separation r \<and> requester = actor_key a
      then Some (ApprovalAuthorizationError ''requester may not satisfy this approval request'')
      else None)"

definition check_cited :: "approval_request \<Rightarrow> evidence_object \<Rightarrow> error option" where
  "check_cited r e =
     (if eo_tenant_id e \<noteq> ar_tenant_id r
      then Some (ApprovalValidationError ''cited evidence must belong to the same tenant'')
      else if eo_action_intent_record_id e \<noteq> ar_action_intent_record_id r
      then Some (ApprovalValidationError ''cited evidence must belong to the same Action Intent'')
      else if eo_status e \<noteq> EV_active
      then Some (ApprovalValidationError
             ''expired or revoked evidence may not satisfy approvals'')
      else None)"

definition validate_evidence_references ::
  "approval_request \<Rightarrow> ident list \<Rightarrow> db \<Rightarrow> error option" where
  "validate_evidence_references r ids d =
     (if ids = [] then None
      else
        let cited = [e \<leftarrow> evidence_objects d. eo_evidence_object_id e \<in> set ids]
        in if length cited \<noteq> card (set ids)
           then Some (ApprovalValidationError ''all cited evidence objects must exist'')
           else first_error (check_cited r) cited)"

definition approve_count :: "approval_request \<Rightarrow> nat" where
  "approve_count r = length [x \<leftarrow> ar_decisions r. ad_decision x = approve]"

text \<open>\<open>_update_request_status_after_decision\<close>; the decision is already among the request's.\<close>

definition status_after_decision ::
  "approval_decision \<Rightarrow> approval_request \<Rightarrow> approval_request" where
  "status_after_decision x r =
     (if ad_decision x = reject
      then r\<lparr>ar_status := AR_rejected, ar_rejected_at := Some (ad_created_at x),
             ar_decision_reason :=
               str_or (ad_decision_reason x) (Some ''approval request rejected'')\<rparr>
      else if ar_required_decision_count r \<le> int (approve_count r)
      then r\<lparr>ar_status := AR_satisfied, ar_satisfied_at := Some (ad_created_at x),
             ar_decision_reason :=
               str_or (ad_decision_reason x)
                 (Some ''required approval decision count satisfied'')\<rparr>
      else r\<lparr>ar_status := AR_pending\<rparr>)"

definition complete_assignment ::
  "time \<Rightarrow> approval_actor \<Rightarrow> approver_assignment \<Rightarrow> approver_assignment" where
  "complete_assignment now a x =
     (if actor_of_assignment x = actor_key a
      then x\<lparr>aa_assignment_status := AA_completed, aa_acted_at := Some now\<rparr> else x)"

definition apply_decision ::
  "time \<Rightarrow> approval_actor \<Rightarrow> approval_decision \<Rightarrow> approval_request \<Rightarrow> approval_request" where
  "apply_decision now a x r =
     status_after_decision x
       (r\<lparr>ar_decisions := ar_decisions r @ [x],
          ar_assignments := map (complete_assignment now a) (ar_assignments r)\<rparr>)"

definition requester_of :: "ident \<Rightarrow> db \<Rightarrow> (string \<times> ident) option" where
  "requester_of iid d =
     map_option (\<lambda>i. (ai_requested_by_principal_type i, ai_requested_by_principal_id i))
       (tget ai_action_intent_record_id iid (action_intents d))"

definition new_decision ::
  "runtime \<Rightarrow> approval_request \<Rightarrow> approval_actor \<Rightarrow> approval_decision_type \<Rightarrow> string option \<Rightarrow>
   ident list \<Rightarrow> db \<Rightarrow> approval_decision" where
  "new_decision rt r actor dec reason evidence_ids d =
     \<lparr>ad_approval_decision_id = new_id rt d,
      ad_approval_request_id = ar_approval_request_id r, ad_tenant_id = ar_tenant_id r,
      ad_decided_by_principal_type = act_principal_type actor,
      ad_decided_by_principal_id = act_principal_id actor,
      ad_decision = dec, ad_decision_reason = reason,
      ad_evidence_object_ids = evidence_ids, ad_created_at = rt_now rt\<rparr>"

text \<open>
  \<open>record_decision\<close>. Reading the request may expire and commit it; every later error leaves
  that committed state. The foreign key of the request guarantees its action intent; without it
  the attribute access on the relationship raises.
\<close>

definition record_decision ::
  "runtime \<Rightarrow> ident \<Rightarrow> approval_actor \<Rightarrow> approval_decision_type \<Rightarrow> string option \<Rightarrow>
   ident list \<Rightarrow> db \<Rightarrow> (approval_request \<times> approval_decision) result \<times> db" where
  "record_decision rt rid actor dec reason evidence_ids d =
     (case get_request rt rid d of
        (Inl e, d1) \<Rightarrow> (Inl e, d1)
      | (Inr r, d1) \<Rightarrow>
          if ar_status r \<noteq> AR_pending
          then (Inl (ApprovalDecisionStateError ''approval request is not open for decisions''), d1)
          else if has_existing_decision r actor
          then (Inl (ApprovalDecisionStateError
                  ''principal has already decided this approval request''), d1)
          else
            (case requester_of (ar_action_intent_record_id r) d1 of
               None \<Rightarrow> (Inl (PyRuntimeError ''linked action intent is missing''), d1)
             | Some requester \<Rightarrow>
                 (case validate_actor r requester actor of
                    Some e \<Rightarrow> (Inl e, d1)
                  | None \<Rightarrow>
                      (case validate_evidence_references r evidence_ids d1 of
                         Some e \<Rightarrow> (Inl e, d1)
                       | None \<Rightarrow>
                           let x = new_decision rt r actor dec reason evidence_ids d1;
                               d2 = used_id d1\<lparr>approval_requests :=
                                      tmodify ar_approval_request_id rid
                                        (apply_decision (rt_now rt) actor x)
                                        (approval_requests d1)\<rparr>;
                               d3 = sync_approval_state (rt_now rt)
                                      (ar_action_intent_record_id r) d2
                           in (case get_request rt rid d3 of
                                 (Inl e, d4) \<Rightarrow> (Inl e, d4)
                               | (Inr r', d4) \<Rightarrow> (Inr (r', x), d4))))))"

section \<open>Expiry as an interface\<close>

definition request_live :: "approval_request \<Rightarrow> bool" where
  [status_defs]: "request_live r \<longleftrightarrow> ar_status r = AR_pending"

interpretation request_expiry: expirable request_live ar_expires_at refresh_request
  by unfold_locales (auto simp: request_live_def refresh_request_def request_expires_def
      split: option.splits)

lemma expire_assignment_actor [simp]:
  "actor_of_assignment (expire_assignment a) = actor_of_assignment a"
  by (simp add: expire_assignment_def actor_of_assignment_def)

lemma complete_assignment_actor [simp]:
  "actor_of_assignment (complete_assignment now a x) = actor_of_assignment x"
  by (simp add: complete_assignment_def actor_of_assignment_def)

lemma refresh_request_keeps [simp]:
  "ar_approval_request_id (refresh_request now r) = ar_approval_request_id r"
  "ar_tenant_id (refresh_request now r) = ar_tenant_id r"
  "ar_action_intent_record_id (refresh_request now r) = ar_action_intent_record_id r"
  "ar_required_decision_count (refresh_request now r) = ar_required_decision_count r"
  "ar_require_requester_separation (refresh_request now r) = ar_require_requester_separation r"
  "ar_eligible_role_ids (refresh_request now r) = ar_eligible_role_ids r"
  "ar_expires_at (refresh_request now r) = ar_expires_at r"
  "ar_decisions (refresh_request now r) = ar_decisions r"
  "approve_count (refresh_request now r) = approve_count r"
  "actor_of_assignment ` set (ar_assignments (refresh_request now r)) =
     actor_of_assignment ` set (ar_assignments r)"
  "ar_assignments (refresh_request now r) = [] \<longleftrightarrow> ar_assignments r = []"
  by (simp_all add: refresh_request_def approve_count_def image_image)

lemma apply_decision_keeps [simp]:
  "ar_approval_request_id (apply_decision now a x r) = ar_approval_request_id r"
  "ar_tenant_id (apply_decision now a x r) = ar_tenant_id r"
  "ar_action_intent_record_id (apply_decision now a x r) = ar_action_intent_record_id r"
  "ar_required_decision_count (apply_decision now a x r) = ar_required_decision_count r"
  "ar_require_requester_separation (apply_decision now a x r) = ar_require_requester_separation r"
  "ar_expires_at (apply_decision now a x r) = ar_expires_at r"
  "ar_decisions (apply_decision now a x r) = ar_decisions r @ [x]"
  "actor_of_assignment ` set (ar_assignments (apply_decision now a x r)) =
     actor_of_assignment ` set (ar_assignments r)"
  "ar_assignments (apply_decision now a x r) = [] \<longleftrightarrow> ar_assignments r = []"
  by (simp_all add: apply_decision_def status_after_decision_def image_image)

section \<open>What reading does\<close>

text \<open>
  Reads and synchronisations change nothing but the status of overdue requests and the derived
  approval state of action intents.
\<close>

definition refreshed :: "time \<Rightarrow> db \<Rightarrow> db \<Rightarrow> bool" where
  "refreshed now d d' \<longleftrightarrow> (\<exists>g f. (\<forall>r. g r = r \<or> g r = refresh_request now r) \<and>
     d' = d\<lparr>approval_requests := map g (approval_requests d),
            action_intents := map (\<lambda>i. i\<lparr>ai_approval_state := f i\<rparr>) (action_intents d)\<rparr>)"

lemma refreshedI:
  assumes "\<And>r. g r = r \<or> g r = refresh_request now r"
    and "d' = d\<lparr>approval_requests := map g (approval_requests d),
           action_intents := map (\<lambda>i. i\<lparr>ai_approval_state := f i\<rparr>) (action_intents d)\<rparr>"
  shows "refreshed now d d'"
  using assms unfolding refreshed_def by blast

lemma refreshed_refl [simp]: "refreshed now d d"
  by (rule refreshedI[where g = id and f = ai_approval_state]) simp_all

lemma refreshed_trans:
  assumes "refreshed now d d1" "refreshed now d1 d2"
  shows "refreshed now d d2"
proof -
  obtain g1 f1 where 1: "\<And>r. g1 r = r \<or> g1 r = refresh_request now r"
    "d1 = d\<lparr>approval_requests := map g1 (approval_requests d),
            action_intents := map (\<lambda>i. i\<lparr>ai_approval_state := f1 i\<rparr>) (action_intents d)\<rparr>"
    using assms(1) unfolding refreshed_def by blast
  obtain g2 f2 where 2: "\<And>r. g2 r = r \<or> g2 r = refresh_request now r"
    "d2 = d1\<lparr>approval_requests := map g2 (approval_requests d1),
            action_intents := map (\<lambda>i. i\<lparr>ai_approval_state := f2 i\<rparr>) (action_intents d1)\<rparr>"
    using assms(2) unfolding refreshed_def by blast
  have "g2 (g1 r) = r \<or> g2 (g1 r) = refresh_request now r" for r
    using 1(1)[of r] 2(1)[of "g1 r"] by (metis request_expiry.refresh_idem)
  then show ?thesis
    by (intro refreshedI[where g = "g2 \<circ> g1" and f = "\<lambda>i. f2 (i\<lparr>ai_approval_state := f1 i\<rparr>)"])
       (simp_all add: 1(2) 2(2))
qed

lemma refreshed_one:
  "refreshed now d (d\<lparr>approval_requests :=
     tmodify ar_approval_request_id rid (refresh_request now) (approval_requests d)\<rparr>)"
  by (rule refreshedI[where g = "\<lambda>r. if ar_approval_request_id r = rid then refresh_request now r else r"
        and f = ai_approval_state]) (simp_all add: tmodify_def)

lemma refreshed_sync: "refreshed now d (sync_approval_state now iid d)"
  by (rule refreshedI[where g = "\<lambda>r. if ar_action_intent_record_id r = iid then refresh_request now r else r"
        and f = "\<lambda>i. if ai_action_intent_record_id i = iid
          then approval_state_of (ai_approval_requirement i) (requests_of iid (refresh_requests_of now iid d))
          else ai_approval_state i"])
     (simp_all add: sync_approval_state_def Let_def refresh_requests_of_def tmodify_def if_distrib
       cong: if_cong)

lemma refreshed_get: "refreshed (rt_now rt) d (snd (get_request rt rid d))"
  by (auto simp: get_request_def Let_def split: option.splits
      intro: refreshed_trans[OF refreshed_one refreshed_sync])

lemma refreshed_list: "refreshed (rt_now rt) d (snd (list_requests rt tid iid st d))"
proof -
  have "refreshed now d (fold (refresh_listed now) rs d)" for now rs
  proof (induction rs arbitrary: d)
    case (Cons r rs)
    have "refreshed now d (refresh_listed now r d)"
      by (simp add: refresh_listed_def refreshed_trans[OF refreshed_one refreshed_sync])
    then show ?case using Cons refreshed_trans by auto
  qed simp
  then show ?thesis by (simp add: list_requests_def Let_def)
qed

section \<open>The invariant of approval requests\<close>

text \<open>
  What the row of a request guarantees: deciders are distinct and, when approvers were assigned,
  among them; every decision was taken before the deadline; a request is open only below the
  required count and satisfied only at or above it, and a rejection closes it for good.
\<close>

definition deciders :: "approval_request \<Rightarrow> (string \<times> ident) set" where
  "deciders r = actor_of_decision ` set (ar_decisions r)"

definition request_ok :: "approval_request \<Rightarrow> bool" where
  "request_ok r \<longleftrightarrow> 1 \<le> ar_required_decision_count r \<and>
     distinct (map actor_of_decision (ar_decisions r)) \<and>
     (ar_assignments r \<noteq> [] \<longrightarrow> deciders r \<subseteq> actor_of_assignment ` set (ar_assignments r)) \<and>
     (\<forall>x \<in> set (ar_decisions r). \<forall>e. ar_expires_at r = Some e \<longrightarrow> ad_created_at x < e) \<and>
     (ar_status r \<in> {AR_pending, AR_satisfied} \<longrightarrow>
        (\<forall>x \<in> set (ar_decisions r). ad_decision x = approve)) \<and>
     (ar_status r = AR_pending \<longrightarrow> int (approve_count r) < ar_required_decision_count r) \<and>
     (ar_status r = AR_satisfied \<longrightarrow> ar_required_decision_count r \<le> int (approve_count r)) \<and>
     (ar_status r = AR_rejected \<longrightarrow> (\<exists>x \<in> set (ar_decisions r). ad_decision x = reject))"

lemma request_ok_refresh: "request_ok r \<Longrightarrow> request_ok (refresh_request now r)"
  unfolding request_ok_def deciders_def
  by (auto simp: refresh_request_def approve_count_def image_image)

lemma approval_decision_cases: "a \<noteq> reject \<longleftrightarrow> a = approve"
  by (cases a) simp_all

lemma approve_count_snoc:
  "approve_count (r\<lparr>ar_decisions := ar_decisions r @ [x], ar_assignments := as\<rparr>) =
     approve_count r + (if ad_decision x = approve then 1 else 0)"
  by (simp add: approve_count_def)

text \<open>A decision on an open request whose actor passed the checks keeps the row well formed.\<close>

lemma request_ok_apply:
  assumes ok: "request_ok r" and open': "ar_status r = AR_pending"
    and fresh: "actor_of_decision x \<notin> deciders r"
    and assigned: "ar_assignments r \<noteq> [] \<longrightarrow>
      actor_of_decision x \<in> actor_of_assignment ` set (ar_assignments r)"
    and early: "\<And>e. ar_expires_at r = Some e \<Longrightarrow> ad_created_at x < e"
  shows "request_ok (apply_decision now a x r)"
proof -
  let ?r = "apply_decision now a x r"
  have keep: "ar_status r = AR_pending" "\<forall>y \<in> set (ar_decisions r). ad_decision y = approve"
    "int (approve_count r) < ar_required_decision_count r" "1 \<le> ar_required_decision_count r"
    using ok open' by (auto simp: request_ok_def)
  have st: "ar_status ?r = (if ad_decision x = reject then AR_rejected
      else if ar_required_decision_count r \<le> int (approve_count r) + 1 then AR_satisfied
      else AR_pending)"
    by (simp add: apply_decision_def status_after_decision_def approve_count_snoc
        approval_decision_cases)
  have ct: "approve_count ?r = approve_count r + (if ad_decision x = approve then 1 else 0)"
    by (simp add: approve_count_def)
  have "distinct (map actor_of_decision (ar_decisions ?r))"
    using ok fresh by (auto simp: request_ok_def deciders_def)
  moreover have "ar_assignments ?r \<noteq> [] \<longrightarrow>
      deciders ?r \<subseteq> actor_of_assignment ` set (ar_assignments ?r)"
    using ok assigned by (simp add: request_ok_def deciders_def)
  moreover have "\<forall>y \<in> set (ar_decisions ?r). \<forall>e. ar_expires_at ?r = Some e \<longrightarrow> ad_created_at y < e"
    using ok early by (auto simp: request_ok_def)
  moreover have "ar_status ?r \<in> {AR_pending, AR_satisfied} \<longrightarrow>
      (\<forall>y \<in> set (ar_decisions ?r). ad_decision y = approve)"
    using keep by (auto simp: st approval_decision_cases split: if_splits)
  moreover have "ar_status ?r = AR_pending \<longrightarrow>
      int (approve_count ?r) < ar_required_decision_count ?r"
    using keep by (simp add: st ct)
  moreover have "ar_status ?r = AR_satisfied \<longrightarrow>
      ar_required_decision_count ?r \<le> int (approve_count ?r)"
    using keep by (simp add: st ct approval_decision_cases)
  moreover have "ar_status ?r = AR_rejected \<longrightarrow>
      (\<exists>y \<in> set (ar_decisions ?r). ad_decision y = reject)"
    by (simp add: st)
  ultimately show ?thesis
    using keep(4) unfolding request_ok_def apply_decision_keeps by blast
qed

text \<open>
  The invariant of the database: identifiers are fresh, requests refer to stored intents and ask
  for what the policy required of them, and a requester never decides a request that asks for
  separation.
\<close>

definition intent_requesters ::
  "db \<Rightarrow> (ident \<times> (string \<times> ident) \<times> approval_requirement option) list" where
  "intent_requesters d = map (\<lambda>i. (ai_action_intent_record_id i,
     (ai_requested_by_principal_type i, ai_requested_by_principal_id i), ai_approval_requirement i))
     (action_intents d)"

definition demands :: "approval_requirement \<Rightarrow> approval_request \<Rightarrow> bool" where
  "demands rq r \<longleftrightarrow> ar_required_decision_count r = max (rq_required_decision_count rq) 1 \<and>
     ar_require_requester_separation r = rq_require_requester_separation rq"

definition separated ::
  "(ident \<times> (string \<times> ident) \<times> approval_requirement option) list \<Rightarrow> approval_request \<Rightarrow> bool" where
  "separated ps r \<longleftrightarrow> (\<exists>p rq. map_of ps (ar_action_intent_record_id r) = Some (p, Some rq) \<and>
     demands rq r \<and> (ar_require_requester_separation r \<longrightarrow> p \<notin> deciders r))"

definition approvals_inv :: "(nat \<Rightarrow> ident) \<Rightarrow> db \<Rightarrow> bool" where
  "approvals_inv U d \<longleftrightarrow>
     distinct (map ar_approval_request_id (approval_requests d)) \<and>
     (\<forall>r \<in> set (approval_requests d). (\<exists>n < next_uuid d. ar_approval_request_id r = U n) \<and>
        request_ok r \<and> separated (intent_requesters d) r)"

lemma intent_requesters_get:
  "map_of (intent_requesters d) iid = map_option (\<lambda>i. ((ai_requested_by_principal_type i,
     ai_requested_by_principal_id i), ai_approval_requirement i)) (tget ai_action_intent_record_id iid (action_intents d))"
proof -
  have "map_of (map (\<lambda>i. (ai_action_intent_record_id i, (ai_requested_by_principal_type i,
      ai_requested_by_principal_id i), ai_approval_requirement i)) xs) iid =
    map_option (\<lambda>i. ((ai_requested_by_principal_type i, ai_requested_by_principal_id i), ai_approval_requirement i))
      (tget ai_action_intent_record_id iid xs)" for xs
    by (induction xs) auto
  then show ?thesis by (simp add: intent_requesters_def)
qed

lemma requester_of_alt: "requester_of iid d = map_option fst (map_of (intent_requesters d) iid)"
  by (simp add: requester_of_def intent_requesters_get option.map_comp comp_def)

lemma intent_requesters_keep:
  assumes "\<And>i. ai_action_intent_record_id (f i) = ai_action_intent_record_id i"
    "\<And>i. ai_requested_by_principal_type (f i) = ai_requested_by_principal_type i"
    "\<And>i. ai_requested_by_principal_id (f i) = ai_requested_by_principal_id i"
    "\<And>i. ai_approval_requirement (f i) = ai_approval_requirement i"
    and "action_intents d' = map f (action_intents d)"
  shows "intent_requesters d' = intent_requesters d"
  using assms by (simp add: intent_requesters_def)

text \<open>Any operation that rewrites requests row by row keeps the invariant if each row does.\<close>

lemma approvals_inv_map:
  assumes "approvals_inv U d" "approval_requests d' = map g (approval_requests d)"
    "\<And>r. ar_approval_request_id (g r) = ar_approval_request_id r"
    "next_uuid d \<le> next_uuid d'"
    "\<And>r. r \<in> set (approval_requests d) \<Longrightarrow> request_ok r \<Longrightarrow> separated (intent_requesters d) r \<Longrightarrow>
       request_ok (g r) \<and> separated (intent_requesters d') (g r)"
  shows "approvals_inv U d'"
proof -
  have "distinct (map ar_approval_request_id (approval_requests d'))"
    using assms(1-3) by (simp add: approvals_inv_def comp_def)
  moreover have "(\<exists>n < next_uuid d'. ar_approval_request_id (g r) = U n) \<and>
      request_ok (g r) \<and> separated (intent_requesters d') (g r)"
    if r: "r \<in> set (approval_requests d)" for r
  proof -
    obtain n where "n < next_uuid d" "ar_approval_request_id r = U n"
      "request_ok r" "separated (intent_requesters d) r"
      using assms(1) r unfolding approvals_inv_def by blast
    then show ?thesis using assms(3)[of r] assms(4) assms(5)[OF r] by (metis less_le_trans)
  qed
  ultimately show ?thesis
    using assms(2) unfolding approvals_inv_def by auto
qed

lemma approvals_inv_refreshed:
  assumes "approvals_inv U d" "refreshed now d d'"
  shows "approvals_inv U d'"
proof -
  obtain g f where g: "\<And>r. g r = r \<or> g r = refresh_request now r"
    and d': "d' = d\<lparr>approval_requests := map g (approval_requests d),
            action_intents := map (\<lambda>i. i\<lparr>ai_approval_state := f i\<rparr>) (action_intents d)\<rparr>"
    using assms(2) unfolding refreshed_def by blast
  have same: "intent_requesters d' = intent_requesters d"
    by (rule intent_requesters_keep[where f = "\<lambda>i. i\<lparr>ai_approval_state := f i\<rparr>"])
       (simp_all add: d')
  show ?thesis
  proof (rule approvals_inv_map[OF assms(1), where g = g])
    fix r
    show "ar_approval_request_id (g r) = ar_approval_request_id r" using g[of r] by auto
    assume "request_ok r" "separated (intent_requesters d) r"
    then show "request_ok (g r) \<and> separated (intent_requesters d') (g r)"
      using g[of r] request_ok_refresh[of r now] by (auto simp: same separated_def deciders_def demands_def)
  qed (simp_all add: d')
qed

section \<open>Reading and deciding, case by case\<close>

lemma tget_sync:
  "tget ar_approval_request_id rid (approval_requests (sync_approval_state now iid d)) =
     map_option (\<lambda>r. if ar_action_intent_record_id r = iid then refresh_request now r else r)
       (tget ar_approval_request_id rid (approval_requests d))"
  by (simp add: sync_approval_state_def Let_def refresh_requests_of_def tget_map)

lemma refresh_request_live: "\<not> request_expires now r \<Longrightarrow> refresh_request now r = r"
  by (simp add: refresh_request_def)

lemma get_request_spec:
  "get_request rt rid d =
     (case tget ar_approval_request_id rid (approval_requests d) of
        None \<Rightarrow> (Inl ApprovalRequestNotFoundError, d)
      | Some r \<Rightarrow> (Inr (refresh_request (rt_now rt) r),
          if request_expires (rt_now rt) r
          then sync_approval_state (rt_now rt) (ar_action_intent_record_id r)
            (d\<lparr>approval_requests := tmodify ar_approval_request_id rid
                 (refresh_request (rt_now rt)) (approval_requests d)\<rparr>)
          else d))"
  by (auto simp: get_request_def Let_def tget_sync tget_tmodify refresh_request_live
      split: option.splits)

text \<open>The conditions under which a decision is accepted, read off the unchanged database.\<close>

definition decidable ::
  "time \<Rightarrow> approval_actor \<Rightarrow> ident list \<Rightarrow> db \<Rightarrow> approval_request \<Rightarrow> bool" where
  "decidable now actor evidence_ids d r \<longleftrightarrow>
     ar_status r = AR_pending \<and> (\<forall>e. ar_expires_at r = Some e \<longrightarrow> now < e) \<and>
     actor_key actor \<notin> deciders r \<and>
     (ar_assignments r \<noteq> [] \<longrightarrow> actor_key actor \<in> actor_of_assignment ` set (ar_assignments r)) \<and>
     (ar_eligible_role_ids r \<noteq> [] \<longrightarrow>
        (\<exists>role \<in> set (act_claimed_role_ids actor). role \<in> set (ar_eligible_role_ids r))) \<and>
     (\<exists>p. requester_of (ar_action_intent_record_id r) d = Some p \<and>
        (ar_require_requester_separation r \<longrightarrow> p \<noteq> actor_key actor)) \<and>
     validate_evidence_references r evidence_ids d = None"

lemma has_existing_decision_iff: "has_existing_decision r a \<longleftrightarrow> actor_key a \<in> deciders r"
  by (auto simp: has_existing_decision_def list_ex_iff deciders_def image_iff eq_commute)

lemma validate_actor_None:
  "validate_actor r p a = None \<longleftrightarrow>
     (ar_assignments r \<noteq> [] \<longrightarrow> actor_key a \<in> actor_of_assignment ` set (ar_assignments r)) \<and>
     (ar_eligible_role_ids r \<noteq> [] \<longrightarrow>
        (\<exists>role \<in> set (act_claimed_role_ids a). role \<in> set (ar_eligible_role_ids r))) \<and>
     (ar_require_requester_separation r \<longrightarrow> p \<noteq> actor_key a)"
proof -
  have "list_ex (\<lambda>x. actor_of_assignment x = actor_key a) (ar_assignments r) \<longleftrightarrow>
      actor_key a \<in> actor_of_assignment ` set (ar_assignments r)"
    by (auto simp: list_ex_iff image_iff eq_commute)
  moreover have "set (act_claimed_role_ids a) \<inter> set (ar_eligible_role_ids r) = {} \<longleftrightarrow>
      \<not> (\<exists>role \<in> set (act_claimed_role_ids a). role \<in> set (ar_eligible_role_ids r))"
    by auto
  ultimately show ?thesis by (simp add: validate_actor_def)
qed

lemma decidable_get:
  assumes "decidable (rt_now rt) actor ev d r"
  shows "\<not> request_expires (rt_now rt) r"
  using assms by (auto simp: decidable_def request_expires_def split: option.splits)

definition after_decision ::
  "runtime \<Rightarrow> approval_actor \<Rightarrow> approval_decision \<Rightarrow> approval_request \<Rightarrow> db \<Rightarrow> db" where
  "after_decision rt actor x r d =
     sync_approval_state (rt_now rt) (ar_action_intent_record_id r)
       (used_id d\<lparr>approval_requests := tmodify ar_approval_request_id (ar_approval_request_id r)
          (apply_decision (rt_now rt) actor x) (approval_requests d)\<rparr>)"

lemma not_expires_apply:
  "\<not> request_expires now r \<Longrightarrow> ar_status r = AR_pending \<Longrightarrow>
   \<not> request_expires now (apply_decision now a x r)"
  by (auto simp: request_expires_def split: option.splits)

lemma record_decision_accepts:
  assumes r: "tget ar_approval_request_id rid (approval_requests d) = Some r"
    and ok: "decidable (rt_now rt) actor ev d r"
    and x: "x = new_decision rt r actor dec reason ev d"
  shows "record_decision rt rid actor dec reason ev d =
    (Inr (apply_decision (rt_now rt) actor x r, x), after_decision rt actor x r d)"
proof -
  note live = decidable_get[OF ok]
  have rid: "ar_approval_request_id r = rid" using tgetD[OF r] by simp
  obtain p where p: "requester_of (ar_action_intent_record_id r) d = Some p"
    "validate_actor r p actor = None"
    using ok unfolding decidable_def validate_actor_None by blast
  have get: "get_request rt rid d = (Inr r, d)"
    using live by (simp add: get_request_spec r refresh_request_live)
  let ?r = "apply_decision (rt_now rt) actor x r"
  have live': "\<not> request_expires (rt_now rt) ?r"
    using not_expires_apply[OF live] ok by (simp add: decidable_def)
  have "tget ar_approval_request_id rid (approval_requests (after_decision rt actor x r d)) =
      Some ?r"
    using live' by (simp add: after_decision_def tget_sync rid tget_tmodify r refresh_request_live)
  then have "get_request rt rid (after_decision rt actor x r d) =
      (Inr ?r, after_decision rt actor x r d)"
    using live' by (simp add: get_request_spec refresh_request_live)
  moreover have "\<not> has_existing_decision r actor" "ar_status r = AR_pending"
    "validate_evidence_references r ev d = None"
    using ok by (simp_all add: decidable_def has_existing_decision_iff)
  moreover have "sync_approval_state (rt_now rt) (ar_action_intent_record_id r)
       (used_id d\<lparr>approval_requests := tmodify ar_approval_request_id rid
          (apply_decision (rt_now rt) actor x) (approval_requests d)\<rparr>) =
      after_decision rt actor x r d"
    by (simp add: after_decision_def rid)
  ultimately show ?thesis
    by (simp add: record_decision_def get p x[symmetric] Let_def)
qed

lemma record_decision_cases:
  obtains (rejected) e where
    "record_decision rt rid actor dec reason ev d = (Inl e, snd (get_request rt rid d))"
    "\<nexists>r. tget ar_approval_request_id rid (approval_requests d) = Some r \<and>
       decidable (rt_now rt) actor ev d r"
  | (accepted) r where
    "tget ar_approval_request_id rid (approval_requests d) = Some r"
    "decidable (rt_now rt) actor ev d r"
proof (cases "\<exists>r. tget ar_approval_request_id rid (approval_requests d) = Some r \<and>
       decidable (rt_now rt) actor ev d r")
  case False
  have "\<exists>e. record_decision rt rid actor dec reason ev d = (Inl e, snd (get_request rt rid d))"
  proof (cases "tget ar_approval_request_id rid (approval_requests d)")
    case (Some r)
    show ?thesis
    proof (cases "request_expires (rt_now rt) r")
      case True
      then show ?thesis
        by (simp add: record_decision_def get_request_spec Some refresh_request_def)
    next
      case live: False
      then have "get_request rt rid d = (Inr r, d)"
        by (simp add: get_request_spec Some refresh_request_live)
      moreover have "\<not> decidable (rt_now rt) actor ev d r" using False Some by blast
      moreover have "ar_status r = AR_pending \<Longrightarrow> \<forall>e. ar_expires_at r = Some e \<longrightarrow> rt_now rt < e"
        using live by (auto simp: request_expires_def)
      ultimately show ?thesis
        unfolding decidable_def
        by (auto simp: record_decision_def has_existing_decision_iff[symmetric]
            validate_actor_None split: option.splits)
    qed
  qed (simp add: record_decision_def get_request_spec)
  then show ?thesis using rejected False by blast
qed (use accepted in blast)

section \<open>Operations keep the invariant\<close>

lemma new_decision_simps [simp]:
  "actor_of_decision (new_decision rt r actor dec reason ev d) = actor_key actor"
  "ad_created_at (new_decision rt r actor dec reason ev d) = rt_now rt"
  "ad_decision (new_decision rt r actor dec reason ev d) = dec"
  by (simp_all add: new_decision_def actor_of_decision_def actor_key_def)

lemma record_decision_inv:
  assumes inv: "approvals_inv U d"
  shows "approvals_inv U (snd (record_decision rt rid actor dec reason ev d))"
proof (cases rule: record_decision_cases[of rt rid actor dec reason ev d])
  case (rejected e)
  then show ?thesis using approvals_inv_refreshed[OF inv refreshed_get] by simp
next
  case (accepted r)
  define x where "x = new_decision rt r actor dec reason ev d"
  have rid: "ar_approval_request_id r = rid" using tgetD[OF accepted(1)] by simp
  define d2 where "d2 = used_id d\<lparr>approval_requests := tmodify ar_approval_request_id rid
          (apply_decision (rt_now rt) actor x) (approval_requests d)\<rparr>"
  have "approvals_inv U d2"
  proof (rule approvals_inv_map[OF inv])
    fix r' assume r': "r' \<in> set (approval_requests d)" "request_ok r'"
      "separated (intent_requesters d) r'"
    let ?g = "\<lambda>r. if ar_approval_request_id r = rid
      then apply_decision (rt_now rt) actor x r else r"
    show "request_ok (?g r') \<and> separated (intent_requesters d2) (?g r')"
    proof (cases "ar_approval_request_id r' = rid")
      case True
      then have "r' = r"
        using inv r'(1) tgetD[OF accepted(1)] rid
        by (auto simp: approvals_inv_def intro: distinct_key_eq)
      then show ?thesis
        using r' accepted(2) request_ok_apply[of r x "rt_now rt" actor] True
        by (auto simp: decidable_def x_def separated_def deciders_def demands_def d2_def
            intent_requesters_def requester_of_alt)
    qed (use r' in \<open>simp add: d2_def intent_requesters_def\<close>)
  qed (simp_all add: d2_def tmodify_def)
  then have "approvals_inv U (after_decision rt actor x r d)"
    unfolding after_decision_def rid d2_def[symmetric]
    by (rule approvals_inv_refreshed[OF _ refreshed_sync])
  then show ?thesis using record_decision_accepts[OF accepted x_def] by simp
qed

lemma new_request_ok [simp]: "request_ok (new_request rt i rq d)"
  by (simp add: new_request_def request_ok_def approve_count_def deciders_def)

lemma new_request_simps [simp]:
  "ar_approval_request_id (new_request rt i rq d) = new_id rt d"
  "ar_decisions (new_request rt i rq d) = []"
  "ar_status (new_request rt i rq d) = AR_pending"
  "ar_action_intent_record_id (new_request rt i rq d) = ai_action_intent_record_id i"
  by (simp_all add: new_request_def)

lemma approvals_inv_insert:
  assumes inv: "approvals_inv U d" and U: "inj U" "rt_uuid rt = U"
    and i: "tget ai_action_intent_record_id (ai_action_intent_record_id i) (action_intents d) = Some i"
      "ai_approval_requirement i = Some rq"
  shows "approvals_inv U (used_id d\<lparr>approval_requests :=
    tinsert (new_request rt i rq d) (approval_requests d)\<rparr>)" (is "approvals_inv U ?d")
proof -
  have fresh: "new_id rt d \<noteq> ar_approval_request_id r" if "r \<in> set (approval_requests d)" for r
    using inv U that unfolding approvals_inv_def new_id_def by (metis inj_eq less_irrefl)
  have same: "intent_requesters ?d = intent_requesters d" by (simp add: intent_requesters_def)
  have new: "separated (intent_requesters d) (new_request rt i rq d)"
    using i by (simp add: separated_def deciders_def intent_requesters_get demands_def new_request_def)
  have ids: "\<exists>n < Suc (next_uuid d). new_id rt d = U n" using U by (auto simp: new_id_def)
  show ?thesis
    unfolding approvals_inv_def same
    using inv new ids fresh by (auto simp: approvals_inv_def tinsert_def less_Suc_eq)
qed

lemma request_ok_assign:
  "request_ok q \<Longrightarrow> ar_decisions q = [] \<Longrightarrow> request_ok (q\<lparr>ar_assignments := as\<rparr>)"
  by (cases "ar_status q") (simp_all add: request_ok_def deciders_def approve_count_def)

lemma initialize_inv:
  assumes inv: "approvals_inv U d" and U: "inj U" "rt_uuid rt = U"
    and i: "tget ai_action_intent_record_id (ai_action_intent_record_id i) (action_intents d) = Some i"
  shows "approvals_inv U (snd (initialize_approvals rt i d))"
proof (cases "ai_approval_requirement i")
  case None
  have "intent_requesters (d\<lparr>action_intents := tmodify ai_action_intent_record_id
      (ai_action_intent_record_id i) (\<lambda>i. i\<lparr>ai_approval_state := AS_not_required\<rparr>)
      (action_intents d)\<rparr>) = intent_requesters d"
    by (simp add: intent_requesters_def map_tmodify)
  then show ?thesis using inv by (simp add: initialize_approvals_def None approvals_inv_def)
next
  case (Some rq)
  define iid where "iid = ai_action_intent_record_id i"
  consider (old) "requests_of iid d \<noteq> []" | (dup) "requests_of iid d = []"
      "\<not> distinct (rq_eligible_principal_ids rq)"
    | (fresh) "requests_of iid d = []" "distinct (rq_eligible_principal_ids rq)" by auto
  then show ?thesis
  proof cases
    case old
    then show ?thesis using approvals_inv_refreshed[OF inv refreshed_sync]
      by (simp add: initialize_approvals_def Some iid_def Let_def)
  next
    case dup
    then show ?thesis using inv by (simp add: initialize_approvals_def Some iid_def Let_def)
  next
    case fresh
    define r where "r = new_request rt i rq d"
    define d1 where "d1 = used_id d\<lparr>approval_requests := tinsert r (approval_requests d)\<rparr>"
    define d2 where "d2 = sync_approval_state (rt_now rt) iid d1"
    define as where "as = map (\<lambda>(k, pid). new_assignment rt k (ar_approval_request_id r)
      (ai_tenant_id i) pid) (enumerate (next_uuid d1) (rq_eligible_principal_ids rq))"
    define g where "g q = (if ar_approval_request_id q = ar_approval_request_id r
      then q\<lparr>ar_assignments := as\<rparr> else q)" for q :: approval_request
    define d3 where "d3 = d2\<lparr>approval_requests := map g (approval_requests d2),
      next_uuid := next_uuid d2 + length as\<rparr>"
    have d3: "snd (initialize_approvals rt i d) = d3"
      using fresh by (simp add: initialize_approvals_def Some iid_def[symmetric] Let_def d3_def
          d2_def d1_def as_def r_def g_def[abs_def] tmodify_def)
    have inv1: "approvals_inv U d1"
      unfolding d1_def r_def by (rule approvals_inv_insert[OF inv U i Some])
    then have inv2: "approvals_inv U d2"
      unfolding d2_def by (rule approvals_inv_refreshed[OF _ refreshed_sync])
    have "tget ar_approval_request_id (ar_approval_request_id r) (approval_requests d1) = Some r"
      using inv1 tget_unique[of ar_approval_request_id "approval_requests d1" r]
      by (simp add: approvals_inv_def d1_def)
    then obtain q where q: "tget ar_approval_request_id (ar_approval_request_id r)
        (approval_requests d2) = Some q" "ar_decisions q = []"
      by (auto simp: d2_def tget_sync r_def)
    have empty: "ar_decisions q' = []" if "q' \<in> set (approval_requests d2)"
      "ar_approval_request_id q' = ar_approval_request_id r" for q'
      using tget_unique[of ar_approval_request_id "approval_requests d2" q'] inv2 that q
      by (simp add: approvals_inv_def)
    have same3: "intent_requesters d3 = intent_requesters d2"
      by (simp add: d3_def intent_requesters_def)
    have "approvals_inv U d3"
    proof (rule approvals_inv_map[OF inv2, where g = g])
      fix q'
      assume q': "q' \<in> set (approval_requests d2)" "request_ok q'"
        "separated (intent_requesters d2) q'"
      show "request_ok (g q') \<and> separated (intent_requesters d3) (g q')"
      proof (cases "ar_approval_request_id q' = ar_approval_request_id r")
        case True
        then show ?thesis
          using q'(3) request_ok_assign[OF q'(2) empty[OF q'(1) True]]
          by (simp add: g_def same3 separated_def deciders_def demands_def)
      qed (use q' same3 in \<open>simp add: g_def\<close>)
    qed (simp_all add: d3_def g_def)
    then show ?thesis by (simp add: d3)
  qed
qed

section \<open>The life of one request\<close>

text \<open>How the row of a request may change once its approvers are assigned.\<close>

inductive request_step :: "approval_request \<Rightarrow> approval_request \<Rightarrow> bool" where
  lapse: "request_step r (refresh_request now r)"
| decide: "ar_status r = AR_pending \<Longrightarrow> request_step r (apply_decision now a x r)"

inductive_cases request_stepE: "request_step r r'"

definition request_closed :: "approval_request \<Rightarrow> bool" where
  [status_defs]: "request_closed r \<longleftrightarrow> ar_status r \<noteq> AR_pending"

interpretation request_life: lifecycle request_step request_closed
proof
  fix r r' assume "request_closed r" "request_step r r'"
  from this(2) this(1) show "r' = r"
    by (cases rule: request_step.cases)
       (simp_all add: status_defs refresh_request_def request_expires_def)
qed

definition requests_run :: "db \<Rightarrow> db \<Rightarrow> bool" where
  "requests_run d d' \<longleftrightarrow> (\<forall>rid r. tget ar_approval_request_id rid (approval_requests d) = Some r \<longrightarrow>
     (\<exists>r'. tget ar_approval_request_id rid (approval_requests d') = Some r' \<and> request_step\<^sup>*\<^sup>* r r'))"

lemma requests_run_refl [simp]: "requests_run d d"
  by (simp add: requests_run_def)

lemma requests_run_same: "approval_requests d' = approval_requests d \<Longrightarrow> requests_run d d'"
  by (simp add: requests_run_def)

lemma requests_run_trans: "requests_run d d1 \<Longrightarrow> requests_run d1 d2 \<Longrightarrow> requests_run d d2"
  unfolding requests_run_def by (meson rtranclp_trans)

lemma requests_run_map:
  assumes "approval_requests d' = map g (approval_requests d)"
    "\<And>r. ar_approval_request_id (g r) = ar_approval_request_id r"
    "\<And>r. r \<in> set (approval_requests d) \<Longrightarrow> request_step\<^sup>*\<^sup>* r (g r)"
  shows "requests_run d d'"
  unfolding requests_run_def
proof (intro allI impI)
  fix rid r assume "tget ar_approval_request_id rid (approval_requests d) = Some r"
  then show "\<exists>r'. tget ar_approval_request_id rid (approval_requests d') = Some r' \<and>
      request_step\<^sup>*\<^sup>* r r'"
    using assms tget_map[of ar_approval_request_id g rid "approval_requests d"]
    by (auto dest: tgetD)
qed

lemma requests_run_refreshed: "refreshed now d d' \<Longrightarrow> requests_run d d'"
proof -
  assume "refreshed now d d'"
  then obtain g f where g: "\<And>r. g r = r \<or> g r = refresh_request now r"
    and eff: "d' = d\<lparr>approval_requests := map g (approval_requests d),
            action_intents := map (\<lambda>i. i\<lparr>ai_approval_state := f i\<rparr>) (action_intents d)\<rparr>"
    unfolding refreshed_def by blast
  have d': "approval_requests d' = map g (approval_requests d)" by (simp add: eff)
  have "ar_approval_request_id (g r) = ar_approval_request_id r" "request_step\<^sup>*\<^sup>* r (g r)" for r
    using g[of r] request_step.lapse[of r now] by auto
  then show ?thesis by (intro requests_run_map[OF d'])
qed

lemma record_decision_run:
  "requests_run d (snd (record_decision rt rid actor dec reason ev d))"
proof (cases rule: record_decision_cases[of rt rid actor dec reason ev d])
  case (rejected e)
  then show ?thesis using requests_run_refreshed[OF refreshed_get] by simp
next
  case (accepted r)
  define x where "x = new_decision rt r actor dec reason ev d"
  define d2 where "d2 = used_id d\<lparr>approval_requests := tmodify ar_approval_request_id
      (ar_approval_request_id r) (apply_decision (rt_now rt) actor x) (approval_requests d)\<rparr>"
  have "requests_run d d2"
    unfolding requests_run_def
  proof (intro allI impI)
    fix k q assume q: "tget ar_approval_request_id k (approval_requests d) = Some q"
    have "q = r" if "k = ar_approval_request_id r"
      using q accepted(1) that tgetD[OF accepted(1)] by simp
    moreover have "ar_status r = AR_pending" using accepted(2) by (simp add: decidable_def)
    ultimately show "\<exists>r'. tget ar_approval_request_id k (approval_requests d2) = Some r' \<and>
        request_step\<^sup>*\<^sup>* q r'"
      using q request_step.decide[of q "rt_now rt" actor x] by (auto simp: d2_def tget_tmodify)
  qed
  then have "requests_run d (after_decision rt actor x r d)"
    unfolding after_decision_def d2_def[symmetric]
    using requests_run_trans requests_run_refreshed[OF refreshed_sync] by blast
  then show ?thesis using record_decision_accepts[OF accepted x_def] by simp
qed

lemma closed_request_stays:
  assumes "requests_run d d'" "tget ar_approval_request_id rid (approval_requests d) = Some r"
    "ar_status r \<noteq> AR_pending"
  shows "tget ar_approval_request_id rid (approval_requests d') = Some r"
  using assms request_life.terminal_run unfolding requests_run_def status_defs by blast

lemma initialize_run:
  assumes inv: "approvals_inv U d" and U: "inj U" "rt_uuid rt = U"
  shows "requests_run d (snd (initialize_approvals rt i d))"
proof (cases "ai_approval_requirement i")
  case (Some rq)
  define iid where "iid = ai_action_intent_record_id i"
  show ?thesis
  proof (cases "requests_of iid d = [] \<and> distinct (rq_eligible_principal_ids rq)")
    case False
    then show ?thesis
      using requests_run_refreshed[OF refreshed_sync]
      by (auto simp: initialize_approvals_def Some iid_def Let_def)
  next
    case True
    define r where "r = new_request rt i rq d"
    define d1 where "d1 = used_id d\<lparr>approval_requests := tinsert r (approval_requests d)\<rparr>"
    define d2 where "d2 = sync_approval_state (rt_now rt) iid d1"
    obtain as n where d3: "snd (initialize_approvals rt i d) = d2\<lparr>approval_requests :=
        tmodify ar_approval_request_id (ar_approval_request_id r) (\<lambda>q. q\<lparr>ar_assignments := as\<rparr>)
          (approval_requests d2), next_uuid := n\<rparr>"
      using True by (simp add: initialize_approvals_def Some iid_def[symmetric] Let_def d2_def
          d1_def r_def)
    have fresh: "ar_approval_request_id r \<noteq> ar_approval_request_id q"
      if "q \<in> set (approval_requests d)" for q
      using inv U that unfolding approvals_inv_def r_def
      by (simp add: new_id_def) (metis inj_eq less_irrefl)
    have "requests_run d d1" unfolding requests_run_def by (simp add: d1_def tget_tinsert)
    then have run: "requests_run d d2"
      unfolding d2_def by (rule requests_run_trans[OF _ requests_run_refreshed[OF refreshed_sync]])
    show ?thesis
      using run fresh unfolding requests_run_def d3
      by (simp add: tget_tmodify) (metis tgetD)
  qed
qed (simp add: initialize_approvals_def requests_run_same)

section \<open>Properties\<close>

text \<open>What citing evidence requires, when evidence identifiers are primary keys.\<close>

definition citable :: "approval_request \<Rightarrow> ident list \<Rightarrow> db \<Rightarrow> bool" where
  "citable r ids d \<longleftrightarrow> (\<forall>k \<in> set ids. \<exists>e \<in> set (evidence_objects d).
     eo_evidence_object_id e = k \<and> eo_tenant_id e = ar_tenant_id r \<and>
     eo_action_intent_record_id e = ar_action_intent_record_id r \<and> eo_status e = EV_active)"

lemma validate_evidence_iff:
  assumes pk: "distinct (map eo_evidence_object_id (evidence_objects d))"
  shows "validate_evidence_references r ids d = None \<longleftrightarrow> citable r ids d"
proof -
  define cited where "cited = [e \<leftarrow> evidence_objects d. eo_evidence_object_id e \<in> set ids]"
  have "distinct (map eo_evidence_object_id cited)"
    using pk by (simp add: cited_def distinct_map_filter)
  then have "length cited = card (eo_evidence_object_id ` set cited)"
    by (metis distinct_card length_map set_map)
  moreover have sub: "eo_evidence_object_id ` set cited \<subseteq> set ids" by (auto simp: cited_def)
  ultimately have len: "length cited = card (set ids) \<longleftrightarrow>
      set ids \<subseteq> eo_evidence_object_id ` set cited"
    by (metis List.finite_set card_subset_eq subset_antisym)
  have chk: "check_cited r e = None \<longleftrightarrow> eo_tenant_id e = ar_tenant_id r \<and>
      eo_action_intent_record_id e = ar_action_intent_record_id r \<and> eo_status e = EV_active" for e
    by (simp add: check_cited_def)
  have "validate_evidence_references r ids d = None \<longleftrightarrow>
      set ids \<subseteq> eo_evidence_object_id ` set cited \<and> (\<forall>e \<in> set cited. check_cited r e = None)"
  proof (cases "ids = []")
    case True
    then have "cited = []" by (simp add: cited_def)
    then show ?thesis using True by (simp add: validate_evidence_references_def)
  qed (simp add: validate_evidence_references_def cited_def[symmetric] Let_def len
      first_error_None)
  also have "\<dots> \<longleftrightarrow> citable r ids d"
  proof
    assume "citable r ids d"
    then have ex: "\<exists>e \<in> set (evidence_objects d). eo_evidence_object_id e = k \<and> check_cited r e = None"
      if "k \<in> set ids" for k using that by (auto simp: citable_def chk)
    have "check_cited r e = None" if "e \<in> set cited" for e
    proof -
      have e: "e \<in> set (evidence_objects d)" "eo_evidence_object_id e \<in> set ids"
        using that by (auto simp: cited_def)
      then obtain e' where "e' \<in> set (evidence_objects d)" "check_cited r e' = None"
        "eo_evidence_object_id e' = eo_evidence_object_id e" using ex by blast
      then show ?thesis using distinct_key_eq[OF pk _ e(1)] by metis
    qed
    moreover have "set ids \<subseteq> eo_evidence_object_id ` set cited"
      using ex by (fastforce simp: cited_def image_iff)
    ultimately show "set ids \<subseteq> eo_evidence_object_id ` set cited \<and>
        (\<forall>e \<in> set cited. check_cited r e = None)" by blast
  next
    assume both: "set ids \<subseteq> eo_evidence_object_id ` set cited \<and>
        (\<forall>e \<in> set cited. check_cited r e = None)"
    show "citable r ids d"
      unfolding citable_def
    proof
      fix k assume "k \<in> set ids"
      then obtain e where "e \<in> set cited" "eo_evidence_object_id e = k" using both by blast
      then show "\<exists>e \<in> set (evidence_objects d). eo_evidence_object_id e = k \<and>
          eo_tenant_id e = ar_tenant_id r \<and>
          eo_action_intent_record_id e = ar_action_intent_record_id r \<and> eo_status e = EV_active"
        using both chk unfolding cited_def by auto
    qed
  qed
  finally show ?thesis .
qed

definition sample_record :: action_intent_record where
  "sample_record = \<lparr>ai_action_intent_record_id = ''i'', ai_tenant_id = ''t'',
     ai_policy_id = Some ''p'', ai_policy_version = Some 1, ai_submission_id = ''s'',
     ai_idempotency_key = ''k'', ai_requested_by_principal_type = ''user'',
     ai_requested_by_principal_id = ''alice'', ai_workflow_key = ''wire'',
     ai_external_action_intent_id = JNull, ai_contract_family = ''action_intent'',
     ai_contract_version_ref = ''v1'', ai_contract_validation_status = CV_valid,
     ai_contract_validation_errors = [], ai_action_intent_digest = ''dig'',
     ai_action_intent_payload = [], ai_workflow_binding = None,
     ai_finance_routing_context = None, ai_finance_action_class = JStr ''wire'',
     ai_finance_index = [], ai_evaluation_context = [], ai_client_tags = [],
     ai_external_reference = None, ai_approval_state = AS_pending,
     ai_evidence_state = ES_not_required, ai_execution_state = EX_not_requested,
     ai_receipt_state = RS_none, ai_latest_receipt_id = None,
     ai_approval_requirement = Some \<lparr>rq_required_decision_count = 1,
       rq_eligible_principal_ids = [], rq_eligible_role_ids = [''controller''],
       rq_approval_group_key = None, rq_expires_in_seconds = Some 60,
       rq_require_requester_separation = True, rq_require_distinct_approvers = True\<rparr>,
     ai_evidence_requirement = None, ai_decision_state = approval_required,
     ai_decision_reason = ''r'', ai_matched_rule_id = Some ''rule'', ai_evaluation_trace = [],
     ai_created_at = 0\<rparr>"

definition sample_approval_db :: db where
  "sample_approval_db =
     snd (initialize_approvals (sample_rt 1) sample_record (empty_db\<lparr>action_intents := [sample_record]\<rparr>))"

definition sample_approver :: approval_actor where
  "sample_approver = \<lparr>act_principal_type = ''user'', act_principal_id = ''bob'',
     act_claimed_role_ids = [''controller'']\<rparr>"

lemma sample_approval_db_eq:
  "sample_approval_db = empty_db\<lparr>action_intents := [sample_record],
     approval_requests := [\<lparr>ar_approval_request_id = [], ar_tenant_id = ''t'',
       ar_action_intent_record_id = ''i'', ar_policy_id = Some ''p'',
       ar_workflow_rule_id = Some ''rule'', ar_approval_group_key = ''rule'',
       ar_required_decision_count = 1, ar_eligible_role_ids = [''controller''],
       ar_require_requester_separation = True, ar_require_distinct_approvers = True,
       ar_status = AR_pending, ar_decision_reason = None, ar_expires_at = Some 60000000,
       ar_satisfied_at = None, ar_rejected_at = None, ar_created_at = 1, ar_assignments = [],
       ar_decisions = []\<rparr>], next_uuid := 1\<rparr>"
  by (simp add: sample_approval_db_def initialize_approvals_def sample_record_def Let_def
      requests_of_def new_request_def new_id_def sample_uuid_def tinsert_def empty_db_def used_id_def
      sync_approval_state_def refresh_requests_of_def refresh_request_def request_expires_def
      expires_at_of_def seconds_def approval_state_of_def str_or_def)

text \<open>The abstract acceptance condition of a decision.\<close>

definition may_decide ::
  "time \<Rightarrow> approval_actor \<Rightarrow> ident list \<Rightarrow> db \<Rightarrow> approval_request \<Rightarrow> bool" where
  "may_decide now actor evidence_ids d r \<longleftrightarrow>
     ar_status r = AR_pending \<and> (\<forall>e. ar_expires_at r = Some e \<longrightarrow> now < e) \<and>
     (\<forall>x \<in> set (ar_decisions r). actor_of_decision x \<noteq> actor_key actor) \<and>
     (ar_assignments r = [] \<or> (\<exists>x \<in> set (ar_assignments r). actor_of_assignment x = actor_key actor)) \<and>
     (ar_eligible_role_ids r = [] \<or>
        (\<exists>role \<in> set (act_claimed_role_ids actor). role \<in> set (ar_eligible_role_ids r))) \<and>
     (\<exists>p. requester_of (ar_action_intent_record_id r) d = Some p \<and>
        (ar_require_requester_separation r \<longrightarrow> p \<noteq> actor_key actor)) \<and>
     citable r evidence_ids d"

lemma decidable_iff:
  assumes "distinct (map eo_evidence_object_id (evidence_objects d))"
  shows "decidable now actor ev d r \<longleftrightarrow> may_decide now actor ev d r"
  unfolding decidable_def may_decide_def validate_evidence_iff[OF assms] deciders_def image_iff
  by (auto simp: eq_commute[of "actor_key actor"])

text \<open>
  C27. A decision is accepted exactly when the request exists, is open and not past its deadline,
  the actor has not decided it yet, is assigned (if approvers were assigned), claims an eligible
  role (if roles were required) and is not the requester (if separation is required), and every
  cited evidence object is an active one of the same intent and tenant. Both directions: no
  decision slips past a guard, and no legitimate approver is turned away.
\<close>

theorem record_decision_accepted_iff:
  assumes "distinct (map eo_evidence_object_id (evidence_objects d))"
  shows "(\<exists>v. fst (record_decision rt rid actor dec reason ev d) = Inr v) \<longleftrightarrow>
    (\<exists>r. tget ar_approval_request_id rid (approval_requests d) = Some r \<and>
       may_decide (rt_now rt) actor ev d r)"
proof (cases rule: record_decision_cases[of rt rid actor dec reason ev d])
  case (rejected e)
  then show ?thesis using decidable_iff[OF assms] by simp
next
  case (accepted r)
  then show ?thesis
    using record_decision_accepts[OF accepted refl] decidable_iff[OF assms] by auto
qed

theorem record_decision_accepted_iff_witness:
  "\<exists>v. fst (record_decision (sample_rt 2) [] sample_approver approve None [] sample_approval_db) = Inr v"
  by (subst record_decision_accepted_iff)
     (simp_all add: sample_approval_db_eq empty_db_def may_decide_def requester_of_def
       sample_approver_def actor_key_def citable_def sample_record_def)

text \<open>
  What an accepted decision does: it is appended to the request with its actor and time, a
  rejection closes the request as rejected, the approval that reaches the required count closes
  it as satisfied, any other leaves it open; the returned row is the stored one; no other request
  gains or loses a decision.
\<close>

theorem record_decision_effect:
  assumes "record_decision rt rid actor dec reason ev d = (Inr (r', x), d')"
  shows "\<exists>r. tget ar_approval_request_id rid (approval_requests d) = Some r \<and>
    ar_status r = AR_pending \<and> ar_decisions r' = ar_decisions r @ [x] \<and>
    actor_of_decision x = actor_key actor \<and> ad_decision x = dec \<and> ad_created_at x = rt_now rt \<and>
    ar_status r' = (if dec = reject then AR_rejected
      else if ar_required_decision_count r \<le> int (approve_count r) + 1 then AR_satisfied
      else AR_pending) \<and>
    tget ar_approval_request_id rid (approval_requests d') = Some r' \<and>
    (\<forall>k q. k \<noteq> rid \<longrightarrow> tget ar_approval_request_id k (approval_requests d) = Some q \<longrightarrow>
       (\<exists>q'. tget ar_approval_request_id k (approval_requests d') = Some q' \<and>
          ar_decisions q' = ar_decisions q))"
proof (cases rule: record_decision_cases[of rt rid actor dec reason ev d])
  case (accepted r)
  have x: "x = new_decision rt r actor dec reason ev d"
    and r': "r' = apply_decision (rt_now rt) actor x r" and d': "d' = after_decision rt actor x r d"
    using assms record_decision_accepts[OF accepted refl] by auto
  have rid: "ar_approval_request_id r = rid" using tgetD[OF accepted(1)] by simp
  have live: "\<not> request_expires (rt_now rt) r'"
    using not_expires_apply[OF decidable_get[OF accepted(2)]] accepted(2)
    by (simp add: decidable_def r')
  have "ar_status r' = (if dec = reject then AR_rejected
      else if ar_required_decision_count r \<le> int (approve_count r) + 1 then AR_satisfied
      else AR_pending)"
    by (simp add: r' x apply_decision_def status_after_decision_def approve_count_snoc
        approval_decision_cases)
  moreover have "tget ar_approval_request_id rid (approval_requests d') = Some r'"
    using live by (simp add: d' after_decision_def tget_sync rid tget_tmodify accepted(1)
        refresh_request_live r')
  moreover have "\<exists>q'. tget ar_approval_request_id k (approval_requests d') = Some q' \<and>
          ar_decisions q' = ar_decisions q"
    if "k \<noteq> rid" "tget ar_approval_request_id k (approval_requests d) = Some q" for k q
    using that by (simp add: d' after_decision_def tget_sync rid tget_tmodify)
  ultimately show ?thesis
    using accepted by (auto simp: decidable_def r' x)
qed (use assms in simp)

theorem record_decision_effect_witness:
  "ar_status (fst (projr (fst (record_decision (sample_rt 2) [] sample_approver approve None []
     sample_approval_db)))) = AR_satisfied"
proof -
  have "decidable (rt_now (sample_rt 2)) sample_approver [] sample_approval_db
      (hd (approval_requests sample_approval_db))"
    by (simp add: decidable_def sample_approval_db_eq requester_of_def sample_approver_def
        actor_key_def deciders_def validate_evidence_references_def sample_record_def)
  moreover have t: "tget ar_approval_request_id [] (approval_requests sample_approval_db) =
      Some (hd (approval_requests sample_approval_db))"
    by (simp add: sample_approval_db_eq)
  ultimately have "record_decision (sample_rt 2) [] sample_approver approve None []
      sample_approval_db = (Inr (fst (projr (fst (record_decision (sample_rt 2) [] sample_approver
        approve None [] sample_approval_db))), snd (projr (fst (record_decision (sample_rt 2) []
        sample_approver approve None [] sample_approval_db)))), snd (record_decision (sample_rt 2) []
        sample_approver approve None [] sample_approval_db))"
    using record_decision_accepts[OF t _ refl] by simp
  from record_decision_effect[OF this] show ?thesis
    by (simp add: t) (simp add: sample_approval_db_eq)
qed

text \<open>
  A refused decision leaves no trace in the record: no request gains or loses a decision, and
  the only status change is that of an overdue open request to expired.
\<close>

theorem record_decision_refused:
  assumes "record_decision rt rid actor dec reason ev d = (Inl e, d')"
  shows "map ar_decisions (approval_requests d') = map ar_decisions (approval_requests d) \<and>
    list_all2 (\<lambda>r r'. r' = r \<or> (request_expires (rt_now rt) r \<and> ar_status r' = AR_expired))
      (approval_requests d) (approval_requests d')"
proof (cases rule: record_decision_cases[of rt rid actor dec reason ev d])
  case (rejected e')
  then have "refreshed (rt_now rt) d d'" using refreshed_get[of rt d rid] assms by simp
  then obtain g f where g: "\<And>r. g r = r \<or> g r = refresh_request (rt_now rt) r"
    and d': "d' = d\<lparr>approval_requests := map g (approval_requests d),
            action_intents := map (\<lambda>i. i\<lparr>ai_approval_state := f i\<rparr>) (action_intents d)\<rparr>"
    unfolding refreshed_def by blast
  have "ar_decisions (g r) = ar_decisions r" for r using g[of r] by auto
  moreover have "g r = r \<or> (request_expires (rt_now rt) r \<and> ar_status (g r) = AR_expired)" for r
    using g[of r] by (cases "request_expires (rt_now rt) r") (auto simp: refresh_request_def)
  ultimately show ?thesis by (simp add: d' list_all2_conv_all_nth)
next
  case (accepted r)
  then show ?thesis using record_decision_accepts[OF accepted refl] assms by simp
qed

theorem record_decision_refused_witness:
  "list_all2 (\<lambda>r r'. r' = r \<or> (request_expires 2 r \<and> ar_status r' = AR_expired))
     (approval_requests sample_approval_db)
     (approval_requests (snd (record_decision (sample_rt 2) ''zz'' sample_approver approve None []
        sample_approval_db)))"
proof -
  have "record_decision (sample_rt 2) ''zz'' sample_approver approve None [] sample_approval_db =
      (Inl ApprovalRequestNotFoundError, snd (record_decision (sample_rt 2) ''zz'' sample_approver
        approve None [] sample_approval_db))"
    by (simp add: record_decision_def get_request_def sample_approval_db_eq)
  from record_decision_refused[OF this] show ?thesis by simp
qed

text \<open>The derived state of an intent after synchronisation.\<close>

lemma requests_of_sync:
  "requests_of iid (sync_approval_state now iid d) = requests_of iid (refresh_requests_of now iid d)"
  by (simp add: sync_approval_state_def Let_def requests_of_def)

lemma tget_intent_sync:
  "tget ai_action_intent_record_id iid (action_intents (sync_approval_state now iid d)) =
     map_option (\<lambda>i. i\<lparr>ai_approval_state := approval_state_of (ai_approval_requirement i)
         (requests_of iid (sync_approval_state now iid d))\<rparr>)
       (tget ai_action_intent_record_id iid (action_intents d))"
  by (simp add: requests_of_sync)
     (simp add: sync_approval_state_def Let_def tget_tmodify refresh_requests_of_def)

lemma approval_state_of_spec:
  assumes "rs \<noteq> []"
  shows "approval_state_of rq rs = AS_satisfied \<longleftrightarrow> (\<forall>r \<in> set rs. ar_status r = AR_satisfied)"
    and "approval_state_of rq rs = AS_rejected \<longleftrightarrow> (\<exists>r \<in> set rs. ar_status r = AR_rejected)"
proof -
  have one: "ar_status ` set rs = {s} \<longleftrightarrow> (\<forall>r \<in> set rs. ar_status r = s)" for s
    using assms by (cases rs) auto
  have mem: "s \<in> ar_status ` set rs \<longleftrightarrow> (\<exists>r \<in> set rs. ar_status r = s)" for s by auto
  show "approval_state_of rq rs = AS_satisfied \<longleftrightarrow> (\<forall>r \<in> set rs. ar_status r = AR_satisfied)"
    using assms by (auto simp: approval_state_of_def Let_def one)
  show "approval_state_of rq rs = AS_rejected \<longleftrightarrow> (\<exists>r \<in> set rs. ar_status r = AR_rejected)"
    using assms mem by (simp add: approval_state_of_def Let_def)
qed

text \<open>
  After an accepted decision the approval state stored on the action intent agrees with its
  requests: satisfied if and only if every request of the intent is satisfied, rejected if and
  only if one of them is rejected.
\<close>

theorem approval_state_synchronised:
  assumes "record_decision rt rid actor dec reason ev d = (Inr (r', x), d')"
  shows "\<exists>i. tget ai_action_intent_record_id (ar_action_intent_record_id r') (action_intents d') = Some i \<and>
    (ai_approval_state i = AS_satisfied \<longleftrightarrow>
       (\<forall>q \<in> set (requests_of (ar_action_intent_record_id r') d'). ar_status q = AR_satisfied)) \<and>
    (ai_approval_state i = AS_rejected \<longleftrightarrow>
       (\<exists>q \<in> set (requests_of (ar_action_intent_record_id r') d'). ar_status q = AR_rejected))"
proof (cases rule: record_decision_cases[of rt rid actor dec reason ev d])
  case (accepted r)
  define iid where "iid = ar_action_intent_record_id r"
  define d2 where "d2 = used_id d\<lparr>approval_requests := tmodify ar_approval_request_id
      (ar_approval_request_id r) (apply_decision (rt_now rt) actor x) (approval_requests d)\<rparr>"
  have r': "r' = apply_decision (rt_now rt) actor x r" and d': "d' = sync_approval_state (rt_now rt) iid d2"
    using assms record_decision_accepts[OF accepted refl]
    by (auto simp: after_decision_def d2_def iid_def)
  have iid': "ar_action_intent_record_id r' = iid" by (simp add: r' iid_def)
  obtain p where p: "requester_of iid d = Some p"
    using accepted(2) by (auto simp: decidable_def iid_def)
  then obtain i where i: "tget ai_action_intent_record_id iid (action_intents d2) = Some i"
    by (auto simp: requester_of_def d2_def)
  have "r \<in> set (approval_requests d)" using tgetD[OF accepted(1)] by simp
  then have "r' \<in> set (approval_requests d2)"
    by (force simp: d2_def tmodify_def r')
  then have "refresh_request (rt_now rt) r' \<in> set (requests_of iid d')"
    unfolding d' requests_of_sync by (simp add: requests_of_def refresh_requests_of_def iid')
  then have ne: "requests_of iid d' \<noteq> []" by auto
  have "tget ai_action_intent_record_id iid (action_intents d') =
      Some (i\<lparr>ai_approval_state := approval_state_of (ai_approval_requirement i) (requests_of iid d')\<rparr>)"
    by (simp add: d' tget_intent_sync i)
  then show ?thesis using approval_state_of_spec[OF ne] by (simp add: iid')
qed (use assms in simp)

theorem approval_state_synchronised_witness:
  "\<exists>i. tget ai_action_intent_record_id ''i'' (action_intents (snd (record_decision (sample_rt 2) []
     sample_approver approve None [] sample_approval_db))) = Some i \<and>
     ai_approval_state i = AS_satisfied"
proof -
  let ?D = "record_decision (sample_rt 2) [] sample_approver approve None [] sample_approval_db"
  define r where "r = hd (approval_requests sample_approval_db)"
  have "decidable (rt_now (sample_rt 2)) sample_approver [] sample_approval_db r"
    by (simp add: r_def decidable_def sample_approval_db_eq requester_of_def sample_approver_def
        actor_key_def deciders_def validate_evidence_references_def sample_record_def)
  moreover have "tget ar_approval_request_id [] (approval_requests sample_approval_db) = Some r"
    by (simp add: r_def sample_approval_db_eq)
  ultimately obtain x where D: "?D = (Inr (apply_decision 2 sample_approver x r, x),
      after_decision (sample_rt 2) sample_approver x r sample_approval_db)" and x: "ad_decision x = approve"
    using record_decision_accepts[of "[]" sample_approval_db r "sample_rt 2"] by simp
  have "ar_status q = AR_satisfied" if "q \<in> set (requests_of ''i'' (snd ?D))" for q
    using that x unfolding D snd_conv unfolding after_decision_def r_def sample_approval_db_eq
    by (auto simp: sync_approval_state_def Let_def
        requests_of_def refresh_requests_of_def apply_decision_def status_after_decision_def
        approve_count_def refresh_request_def request_expires_def)
  moreover have "ar_action_intent_record_id (apply_decision 2 sample_approver x r) = ''i''"
    by (simp add: r_def sample_approval_db_eq)
  ultimately show ?thesis
    using approval_state_synchronised[OF D] unfolding D snd_conv by auto
qed

end
