(* ===== verification/Evidence.thy ===== *)
theory Evidence
  imports Approvals "HOL-Library.Sublist"
begin

text \<open>
  \<open>src/app/services/evidence.py\<close> and \<open>src/app/services/evidence_backends.py\<close>: evidence objects,
  their lazy expiry, the evidence state of an action intent, and the storage backends. The
  filesystem backend works on an explicit store: a map from resolved absolute paths (lists of
  segments) to file contents, without symbolic links. A payload is the string of its bytes.
\<close>

section \<open>Storage backends\<close>

type_synonym path = "string list"
type_synonym file_store = "path \<rightharpoonup> string"

record stored_artifact =
  sa_storage_mode :: evidence_storage_mode
  sa_storage_ref :: string
  sa_content_digest :: string
  sa_size_bytes :: int

datatype backend_error = BackendNotReady string | ContentUnsupported string | FileMissing string

text \<open>\<open>pathlib\<close>: empty and \<open>.\<close> segments vanish; an absolute right operand replaces the left one.\<close>

definition path_segments :: "string \<Rightarrow> string list" where
  "path_segments s = [w \<leftarrow> split_on (CHR ''/'') s. w \<noteq> [] \<and> w \<noteq> ''.'']"

definition path_join :: "path \<Rightarrow> string \<Rightarrow> path" where
  "path_join base ref =
     (if ref \<noteq> [] \<and> hd ref = CHR ''/'' then path_segments ref else base @ path_segments ref)"

text \<open>\<open>Path.resolve\<close>: \<open>..\<close> goes up, and stays at the top there.\<close>

definition path_resolve :: "path \<Rightarrow> path" where
  "path_resolve p = fold (\<lambda>w acc. if w = ''..'' then butlast acc else acc @ [w]) p []"

definition path_suffix :: "string \<Rightarrow> string" where
  "path_suffix filename =
     (let segs = path_segments filename;
          name = (if segs = [] then [] else last segs);
          stem_ext = split_on (CHR ''.'') name;
          ext = last stem_ext;
          i = length name - length ext
      in if 1 < length stem_ext \<and> ext \<noteq> [] \<and> 1 < i then CHR ''.'' # ext else [])"

definition fs_file_ref :: "ident \<Rightarrow> ident \<Rightarrow> ident \<Rightarrow> string \<Rightarrow> string" where
  "fs_file_ref tid iid eid filename =
     join_str ''/'' [tid, iid, eid @ take 16 (path_suffix (if filename = [] then ''upload.bin'' else filename))]"

text \<open>\<open>FilesystemEvidenceBackend.store_upload\<close>.\<close>

definition fs_store_upload ::
  "runtime \<Rightarrow> path \<Rightarrow> ident \<Rightarrow> ident \<Rightarrow> ident \<Rightarrow> string \<Rightarrow> string \<Rightarrow> file_store \<Rightarrow>
   (backend_error + stored_artifact) \<times> file_store" where
  "fs_store_upload rt base tid iid eid filename payload fs =
     (let ref = fs_file_ref tid iid eid filename
      in (Inr \<lparr>sa_storage_mode = SM_filesystem, sa_storage_ref = ref,
               sa_content_digest = rt_sha256_text rt payload, sa_size_bytes = int (length payload)\<rparr>,
          fs(path_resolve (path_join base ref) \<mapsto> payload)))"

text \<open>\<open>FilesystemEvidenceBackend.open_content\<close>.\<close>

definition fs_open_content :: "path \<Rightarrow> evidence_object \<Rightarrow> file_store \<Rightarrow> backend_error + path" where
  "fs_open_content base e fs =
     (let candidate = path_resolve (path_join base (eo_storage_ref e))
      in if candidate \<noteq> base \<and> \<not> strict_prefix base candidate
         then Inl (ContentUnsupported ''evidence storage reference is invalid'')
         else if fs candidate = None
         then Inl (FileMissing ''stored evidence file was not found'')
         else Inr candidate)"

datatype backend = Filesystem path | ObjectStore

fun storage_mode_of :: "backend \<Rightarrow> evidence_storage_mode" where
  "storage_mode_of (Filesystem base) = SM_filesystem"
| "storage_mode_of ObjectStore = SM_object_store"

fun store_upload ::
  "runtime \<Rightarrow> backend \<Rightarrow> ident \<Rightarrow> ident \<Rightarrow> ident \<Rightarrow> string \<Rightarrow> string \<Rightarrow> file_store \<Rightarrow>
   (backend_error + stored_artifact) \<times> file_store" where
  "store_upload rt (Filesystem base) tid iid eid filename payload fs =
     fs_store_upload rt base tid iid eid filename payload fs"
| "store_upload rt ObjectStore tid iid eid filename payload fs =
     (Inl (BackendNotReady ''object-store evidence upload backend is configured but not implemented in this repo build''), fs)"

fun open_content :: "backend \<Rightarrow> evidence_object \<Rightarrow> file_store \<Rightarrow> backend_error + path" where
  "open_content (Filesystem base) e fs = fs_open_content base e fs"
| "open_content ObjectStore e fs =
     Inl (ContentUnsupported ''object-store evidence content retrieval is not implemented in this repo build'')"

text \<open>
  \<open>EvidenceService.from_settings\<close>: the backends by storage mode, and the one uploads go to. The
  settings are the root directory, whether a bucket is configured, and the upload backend's name.
\<close>

definition evidence_backends ::
  "path \<Rightarrow> bool \<Rightarrow> string \<Rightarrow> (evidence_storage_mode \<rightharpoonup> backend) \<times> backend result" where
  "evidence_backends base bucket upload_backend =
     ((if bucket then [SM_filesystem \<mapsto> Filesystem base, SM_object_store \<mapsto> ObjectStore]
       else [SM_filesystem \<mapsto> Filesystem base]),
      if upload_backend = ''filesystem'' then Inr (Filesystem base)
      else if \<not> bucket then Inl (PyValueError
        ''object_store evidence upload backend requires evidence_object_store_bucket'')
      else Inr ObjectStore)"

section \<open>Expiry and the state of an intent\<close>

definition evidence_expires :: "time \<Rightarrow> evidence_object \<Rightarrow> bool" where
  "evidence_expires now e \<longleftrightarrow> eo_status e = EV_active \<and>
     (case eo_expires_at e of None \<Rightarrow> False | Some x \<Rightarrow> x \<le> now)"

definition refresh_evidence :: "time \<Rightarrow> evidence_object \<Rightarrow> evidence_object" where
  "refresh_evidence now e = (if evidence_expires now e then e\<lparr>eo_status := EV_expired\<rparr> else e)"

definition evidence_of :: "ident \<Rightarrow> db \<Rightarrow> evidence_object list" where
  "evidence_of iid d = [e \<leftarrow> evidence_objects d. eo_action_intent_record_id e = iid]"

definition valid_evidence :: "evidence_requirement \<Rightarrow> evidence_object list \<Rightarrow> evidence_object list" where
  "valid_evidence rq es =
     [e \<leftarrow> es. eo_status e = EV_active \<and>
        (re_allowed_evidence_types rq = [] \<or>
         evidence_type_value (eo_evidence_type e) \<in> set (re_allowed_evidence_types rq))]"

definition evidence_state_of :: "evidence_requirement option \<Rightarrow> evidence_object list \<Rightarrow> evidence_state" where
  "evidence_state_of requirement es =
     (case requirement of
        None \<Rightarrow> ES_not_required
      | Some rq \<Rightarrow>
          if max (re_minimum_count rq) 1 \<le> int (length (valid_evidence rq es)) then ES_satisfied
          else if list_ex (\<lambda>e. eo_status e = EV_expired) es then ES_expired
          else ES_pending)"

definition refresh_evidence_of :: "time \<Rightarrow> ident \<Rightarrow> db \<Rightarrow> db" where
  "refresh_evidence_of now iid d =
     d\<lparr>evidence_objects := map (\<lambda>e. if eo_action_intent_record_id e = iid
         then refresh_evidence now e else e) (evidence_objects d)\<rparr>"

text \<open>\<open>EvidenceService.synchronize_action_intent_state\<close>.\<close>

definition sync_evidence_state :: "time \<Rightarrow> ident \<Rightarrow> db \<Rightarrow> db" where
  "sync_evidence_state now iid d =
     (let d1 = refresh_evidence_of now iid d
      in d1\<lparr>action_intents := tmodify ai_action_intent_record_id iid
           (\<lambda>i. i\<lparr>ai_evidence_state :=
              evidence_state_of (ai_evidence_requirement i) (evidence_of iid d1)\<rparr>)
           (action_intents d1)\<rparr>)"

definition initialize_evidence :: "ident \<Rightarrow> db \<Rightarrow> db" where
  "initialize_evidence iid d =
     d\<lparr>action_intents := tmodify ai_action_intent_record_id iid
        (\<lambda>i. i\<lparr>ai_evidence_state :=
           (if ai_evidence_requirement i = None then ES_not_required else ES_pending)\<rparr>)
        (action_intents d)\<rparr>"

section \<open>Reading evidence\<close>

definition select_evidence ::
  "ident option \<Rightarrow> ident option \<Rightarrow> ident option \<Rightarrow> db \<Rightarrow> evidence_object list" where
  "select_evidence tid iid rid d =
     sort_key eo_created_at
       [e \<leftarrow> evidence_objects d. (tid = None \<or> tid = Some (eo_tenant_id e)) \<and>
          (iid = None \<or> iid = Some (eo_action_intent_record_id e)) \<and>
          (rid = None \<or> rid = eo_approval_request_id e)]"

text \<open>
  One overdue object and its intent, as the reads refresh it; \<open>None\<close> when the linked intent is
  missing, where the code raises.
\<close>

definition refresh_read :: "time \<Rightarrow> evidence_object \<Rightarrow> db \<Rightarrow> db option" where
  "refresh_read now e d =
     (if \<not> evidence_expires now e then Some d
      else if tget ai_action_intent_record_id (eo_action_intent_record_id e) (action_intents d) = None
      then None
      else Some (sync_evidence_state now (eo_action_intent_record_id e)
        (d\<lparr>evidence_objects := tmodify eo_evidence_object_id (eo_evidence_object_id e)
             (refresh_evidence now) (evidence_objects d)\<rparr>)))"

fun refresh_all_read :: "time \<Rightarrow> evidence_object list \<Rightarrow> db \<Rightarrow> db option" where
  "refresh_all_read now [] d = Some d"
| "refresh_all_read now (e # es) d =
     (case refresh_read now e d of None \<Rightarrow> None | Some d1 \<Rightarrow> refresh_all_read now es d1)"

definition list_evidence ::
  "runtime \<Rightarrow> ident option \<Rightarrow> ident option \<Rightarrow> ident option \<Rightarrow> db \<Rightarrow>
   evidence_object list result \<times> db" where
  "list_evidence rt tid iid rid d =
     (case refresh_all_read (rt_now rt) (select_evidence tid iid rid d) d of
        None \<Rightarrow> (Inl (PyRuntimeError ''linked Action Intent disappeared during evidence refresh''), d)
      | Some d1 \<Rightarrow> (Inr (select_evidence tid iid rid d1), d1))"

definition get_evidence :: "runtime \<Rightarrow> ident \<Rightarrow> db \<Rightarrow> evidence_object result \<times> db" where
  "get_evidence rt eid d =
     (case tget eo_evidence_object_id eid (evidence_objects d) of
        None \<Rightarrow> (Inl EvidenceObjectNotFoundError, d)
      | Some e \<Rightarrow>
          (case refresh_read (rt_now rt) e d of
             None \<Rightarrow> (Inl (PyRuntimeError ''linked Action Intent disappeared during evidence refresh''), d)
           | Some d1 \<Rightarrow>
               (case tget eo_evidence_object_id eid (evidence_objects d1) of
                  None \<Rightarrow> (Inl (PyRuntimeError ''evidence object disappeared during status refresh''), d1)
                | Some e' \<Rightarrow> (Inr e', d1))))"

fun content_unavailable_message :: "evidence_storage_mode \<Rightarrow> string" where
  "content_unavailable_message SM_external_uri =
     ''evidence content download is not proxied for external URI evidence''"
| "content_unavailable_message SM_inline_metadata_only =
     ''evidence content download is not available for metadata-only evidence''"
| "content_unavailable_message SM_object_store =
     ''object-store evidence content retrieval is not configured for this deployment''"
| "content_unavailable_message SM_filesystem =
     ''filesystem evidence content retrieval is not configured for this deployment''"

definition get_evidence_content ::
  "runtime \<Rightarrow> (evidence_storage_mode \<rightharpoonup> backend) \<Rightarrow> ident \<Rightarrow> file_store \<Rightarrow> db \<Rightarrow>
   (evidence_object \<times> path) result \<times> db" where
  "get_evidence_content rt backends eid fs d =
     (case get_evidence rt eid d of
        (Inl e, d1) \<Rightarrow> (Inl e, d1)
      | (Inr e, d1) \<Rightarrow>
          (case backends (eo_storage_mode e) of
             None \<Rightarrow> (Inl (EvidenceContentUnavailableError
               (content_unavailable_message (eo_storage_mode e))), d1)
           | Some b \<Rightarrow>
               (case open_content b e fs of
                  Inr p \<Rightarrow> (Inr (e, p), d1)
                | Inl (FileMissing m) \<Rightarrow> (Inl EvidenceObjectNotFoundError, d1)
                | Inl (ContentUnsupported m) \<Rightarrow> (Inl (EvidenceContentUnavailableError m), d1)
                | Inl (BackendNotReady m) \<Rightarrow> (Inl (EvidenceContentUnavailableError m), d1))))"

section \<open>Adding evidence\<close>

definition get_evidence_intent ::
  "ident \<Rightarrow> ident \<Rightarrow> db \<Rightarrow> action_intent_record result" where
  "get_evidence_intent tid iid d =
     (case tget ai_action_intent_record_id iid (action_intents d) of
        None \<Rightarrow> Inl (EvidenceValidationError ''action intent record was not found'')
      | Some i \<Rightarrow>
          if ai_tenant_id i \<noteq> tid
          then Inl (EvidenceValidationError ''action intent does not belong to the requested tenant'')
          else Inr i)"

definition validate_approval_binding ::
  "action_intent_record \<Rightarrow> ident option \<Rightarrow> db \<Rightarrow> error option" where
  "validate_approval_binding i rid d =
     (case rid of
        None \<Rightarrow> None
      | Some k \<Rightarrow>
          (case tget ar_approval_request_id k (approval_requests d) of
             None \<Rightarrow> Some (EvidenceValidationError ''approval request was not found'')
           | Some r \<Rightarrow>
               if ar_tenant_id r \<noteq> ai_tenant_id i
               then Some (EvidenceValidationError ''approval request belongs to a different tenant'')
               else if ar_action_intent_record_id r \<noteq> ai_action_intent_record_id i
               then Some (EvidenceValidationError
                      ''approval request belongs to a different Action Intent'')
               else None))"

definition resolve_expiration ::
  "runtime \<Rightarrow> action_intent_record \<Rightarrow> time option \<Rightarrow> time option" where
  "resolve_expiration rt i explicit =
     (case explicit of
        Some t \<Rightarrow> Some t
      | None \<Rightarrow>
          (case ai_evidence_requirement i of
             None \<Rightarrow> None
           | Some rq \<Rightarrow> expires_at_of (rt_now rt) (re_expires_in_seconds rq)))"

text \<open>The part \<open>register_evidence\<close> and \<open>upload_evidence\<close> share: insert, refresh, synchronise, commit.\<close>

definition commit_evidence ::
  "runtime \<Rightarrow> evidence_object \<Rightarrow> db \<Rightarrow> evidence_object result \<times> db" where
  "commit_evidence rt e d =
     (let e1 = refresh_evidence (rt_now rt) e;
          d1 = used_id d\<lparr>evidence_objects := tinsert e1 (evidence_objects d)\<rparr>
      in (Inr e1, sync_evidence_state (rt_now rt) (eo_action_intent_record_id e) d1))"

record evidence_input =
  in_tenant_id :: ident
  in_action_intent_record_id :: ident
  in_approval_request_id :: "ident option"
  in_evidence_type :: evidence_type
  in_original_filename :: "string option"
  in_media_type :: "string option"
  in_uploaded_by :: "string \<times> ident"
  in_evidence_metadata :: dict
  in_expires_at :: "time option"

definition new_evidence ::
  "runtime \<Rightarrow> evidence_input \<Rightarrow> evidence_storage_mode \<Rightarrow> string \<Rightarrow> string option \<Rightarrow> int option \<Rightarrow>
   action_intent_record \<Rightarrow> db \<Rightarrow> evidence_object" where
  "new_evidence rt inp mode ref digest nbytes i d =
     \<lparr>eo_evidence_object_id = new_id rt d, eo_tenant_id = in_tenant_id inp,
      eo_action_intent_record_id = in_action_intent_record_id inp,
      eo_approval_request_id = in_approval_request_id inp,
      eo_evidence_type = in_evidence_type inp, eo_storage_mode = mode, eo_storage_ref = ref,
      eo_original_filename = in_original_filename inp, eo_media_type = in_media_type inp,
      eo_content_digest = digest, eo_size_bytes = nbytes,
      eo_uploaded_by_principal_type = fst (in_uploaded_by inp),
      eo_uploaded_by_principal_id = snd (in_uploaded_by inp),
      eo_evidence_metadata = in_evidence_metadata inp,
      eo_expires_at = resolve_expiration rt i (in_expires_at inp),
      eo_status = EV_active, eo_created_at = rt_now rt\<rparr>"

definition register_evidence ::
  "runtime \<Rightarrow> evidence_input \<Rightarrow> evidence_storage_mode \<Rightarrow> string \<Rightarrow> string option \<Rightarrow> int option \<Rightarrow>
   db \<Rightarrow> evidence_object result \<times> db" where
  "register_evidence rt inp mode ref digest nbytes d =
     (case get_evidence_intent (in_tenant_id inp) (in_action_intent_record_id inp) d of
        Inl e \<Rightarrow> (Inl e, d)
      | Inr i \<Rightarrow>
          (case validate_approval_binding i (in_approval_request_id inp) d of
             Some e \<Rightarrow> (Inl e, d)
           | None \<Rightarrow> commit_evidence rt (new_evidence rt inp mode ref digest nbytes i d) d))"

text \<open>
  \<open>upload_evidence\<close>. A backend that is not ready is reported as unavailable; the file a backend
  wrote stays even when a later step fails.
\<close>

definition upload_evidence ::
  "runtime \<Rightarrow> backend \<Rightarrow> evidence_input \<Rightarrow> string \<Rightarrow> string \<Rightarrow> file_store \<Rightarrow> db \<Rightarrow>
   evidence_object result \<times> db \<times> file_store" where
  "upload_evidence rt b inp filename payload fs d =
     (case get_evidence_intent (in_tenant_id inp) (in_action_intent_record_id inp) d of
        Inl e \<Rightarrow> (Inl e, d, fs)
      | Inr i \<Rightarrow>
          (case validate_approval_binding i (in_approval_request_id inp) d of
             Some e \<Rightarrow> (Inl e, d, fs)
           | None \<Rightarrow>
               (case store_upload rt b (in_tenant_id inp) (in_action_intent_record_id inp)
                       (new_id rt d) filename payload fs of
                  (Inl (BackendNotReady m), fs1) \<Rightarrow> (Inl (EvidenceBackendUnavailableError m), d, fs1)
                | (Inl (ContentUnsupported m), fs1) \<Rightarrow> (Inl (PyRuntimeError m), d, fs1)
                | (Inl (FileMissing m), fs1) \<Rightarrow> (Inl (PyRuntimeError m), d, fs1)
                | (Inr a, fs1) \<Rightarrow>
                    (let r = commit_evidence rt
                       (new_evidence rt (inp\<lparr>in_original_filename := Some filename\<rparr>)
                          (sa_storage_mode a) (sa_storage_ref a) (Some (sa_content_digest a))
                          (Some (sa_size_bytes a)) i d) d
                     in (fst r, snd r, fs1)))))"

section \<open>Expiry as an interface\<close>

definition evidence_live :: "evidence_object \<Rightarrow> bool" where
  [status_defs]: "evidence_live e \<longleftrightarrow> eo_status e = EV_active"

interpretation evidence_expiry: expirable evidence_live eo_expires_at refresh_evidence
  by unfold_locales (auto simp: evidence_live_def refresh_evidence_def evidence_expires_def
      split: option.splits)

lemma refresh_evidence_keeps [simp]:
  "eo_evidence_object_id (refresh_evidence now e) = eo_evidence_object_id e"
  "eo_tenant_id (refresh_evidence now e) = eo_tenant_id e"
  "eo_action_intent_record_id (refresh_evidence now e) = eo_action_intent_record_id e"
  "eo_evidence_type (refresh_evidence now e) = eo_evidence_type e"
  "eo_storage_mode (refresh_evidence now e) = eo_storage_mode e"
  "eo_storage_ref (refresh_evidence now e) = eo_storage_ref e"
  "eo_content_digest (refresh_evidence now e) = eo_content_digest e"
  "eo_expires_at (refresh_evidence now e) = eo_expires_at e"
  by (simp_all add: refresh_evidence_def)

text \<open>
  As for approvals, reads and synchronisations only move overdue objects to expired and update
  the derived evidence state of intents.
\<close>

definition evidence_refreshed :: "time \<Rightarrow> db \<Rightarrow> db \<Rightarrow> bool" where
  "evidence_refreshed now d d' \<longleftrightarrow> (\<exists>g f. (\<forall>e. g e = e \<or> g e = refresh_evidence now e) \<and>
     d' = d\<lparr>evidence_objects := map g (evidence_objects d),
            action_intents := map (\<lambda>i. i\<lparr>ai_evidence_state := f i\<rparr>) (action_intents d)\<rparr>)"

lemma evidence_refreshedI:
  assumes "\<And>e. g e = e \<or> g e = refresh_evidence now e"
    and "d' = d\<lparr>evidence_objects := map g (evidence_objects d),
           action_intents := map (\<lambda>i. i\<lparr>ai_evidence_state := f i\<rparr>) (action_intents d)\<rparr>"
  shows "evidence_refreshed now d d'"
  using assms unfolding evidence_refreshed_def by blast

lemma evidence_refreshed_refl [simp]: "evidence_refreshed now d d"
  by (rule evidence_refreshedI[where g = id and f = ai_evidence_state]) simp_all

lemma evidence_refreshed_trans:
  assumes "evidence_refreshed now d d1" "evidence_refreshed now d1 d2"
  shows "evidence_refreshed now d d2"
proof -
  obtain g1 f1 where 1: "\<And>e. g1 e = e \<or> g1 e = refresh_evidence now e"
    "d1 = d\<lparr>evidence_objects := map g1 (evidence_objects d),
            action_intents := map (\<lambda>i. i\<lparr>ai_evidence_state := f1 i\<rparr>) (action_intents d)\<rparr>"
    using assms(1) unfolding evidence_refreshed_def by blast
  obtain g2 f2 where 2: "\<And>e. g2 e = e \<or> g2 e = refresh_evidence now e"
    "d2 = d1\<lparr>evidence_objects := map g2 (evidence_objects d1),
            action_intents := map (\<lambda>i. i\<lparr>ai_evidence_state := f2 i\<rparr>) (action_intents d1)\<rparr>"
    using assms(2) unfolding evidence_refreshed_def by blast
  have "g2 (g1 e) = e \<or> g2 (g1 e) = refresh_evidence now e" for e
    using 1(1)[of e] 2(1)[of "g1 e"] by (metis evidence_expiry.refresh_idem)
  then show ?thesis
    by (intro evidence_refreshedI[where g = "g2 \<circ> g1" and
          f = "\<lambda>i. f2 (i\<lparr>ai_evidence_state := f1 i\<rparr>)"]) (simp_all add: 1(2) 2(2))
qed

lemma evidence_refreshed_one:
  "evidence_refreshed now d (d\<lparr>evidence_objects :=
     tmodify eo_evidence_object_id k (refresh_evidence now) (evidence_objects d)\<rparr>)"
  by (rule evidence_refreshedI[where g = "\<lambda>e. if eo_evidence_object_id e = k
        then refresh_evidence now e else e" and f = ai_evidence_state]) (simp_all add: tmodify_def)

lemma evidence_refreshed_sync: "evidence_refreshed now d (sync_evidence_state now iid d)"
  by (rule evidence_refreshedI[where g = "\<lambda>e. if eo_action_intent_record_id e = iid
        then refresh_evidence now e else e" and f = "\<lambda>i. if ai_action_intent_record_id i = iid
          then evidence_state_of (ai_evidence_requirement i) (evidence_of iid (refresh_evidence_of now iid d))
          else ai_evidence_state i"])
     (simp_all add: sync_evidence_state_def Let_def refresh_evidence_of_def tmodify_def if_distrib
       cong: if_cong)

lemma evidence_refreshed_read:
  "refresh_read now e d = Some d' \<Longrightarrow> evidence_refreshed now d d'"
  using evidence_refreshed_trans[OF evidence_refreshed_one evidence_refreshed_sync]
  by (auto simp: refresh_read_def split: if_splits)

lemma evidence_refreshed_all:
  "refresh_all_read now es d = Some d' \<Longrightarrow> evidence_refreshed now d d'"
  by (induction es arbitrary: d)
     (auto split: option.splits intro: evidence_refreshed_trans evidence_refreshed_read)

lemma evidence_refreshed_get: "evidence_refreshed (rt_now rt) d (snd (get_evidence rt eid d))"
  by (auto simp: get_evidence_def split: option.splits intro: evidence_refreshed_read)

lemma evidence_refreshed_list:
  "evidence_refreshed (rt_now rt) d (snd (list_evidence rt tid iid rid d))"
  by (auto simp: list_evidence_def split: option.splits intro: evidence_refreshed_all)

lemma evidence_refreshed_content:
  "evidence_refreshed (rt_now rt) d (snd (get_evidence_content rt backends eid fs d))"
proof -
  have "snd (get_evidence_content rt backends eid fs d) = snd (get_evidence rt eid d)"
    by (simp add: get_evidence_content_def split: prod.splits sum.splits option.splits
        backend_error.splits)
  then show ?thesis using evidence_refreshed_get by metis
qed

section \<open>The derived state\<close>

lemma evidence_of_sync:
  "evidence_of iid (sync_evidence_state now iid d) = evidence_of iid (refresh_evidence_of now iid d)"
  by (simp add: sync_evidence_state_def Let_def evidence_of_def)

lemma tget_intent_sync_evidence:
  "tget ai_action_intent_record_id iid (action_intents (sync_evidence_state now iid d)) =
     map_option (\<lambda>i. i\<lparr>ai_evidence_state := evidence_state_of (ai_evidence_requirement i)
         (evidence_of iid (sync_evidence_state now iid d))\<rparr>)
       (tget ai_action_intent_record_id iid (action_intents d))"
  by (simp add: evidence_of_sync)
     (simp add: sync_evidence_state_def Let_def tget_tmodify refresh_evidence_of_def)

lemma sync_evidence_active:
  assumes "e \<in> set (evidence_of iid (sync_evidence_state now iid d))" "eo_status e = EV_active"
    "eo_expires_at e = Some x"
  shows "now < x"
proof -
  obtain e0 where "e = refresh_evidence now e0"
    using assms(1) unfolding evidence_of_sync by (auto simp: evidence_of_def refresh_evidence_of_def)
  then show ?thesis
    using assms(2,3) evidence_expiry.live_before_deadline[of now e0 x] by (simp add: evidence_live_def)
qed

lemma evidence_state_satisfied:
  "evidence_state_of requirement es = ES_satisfied \<longleftrightarrow>
     (\<exists>rq. requirement = Some rq \<and>
        max (re_minimum_count rq) 1 \<le> int (length (valid_evidence rq es)))"
  by (auto simp: evidence_state_of_def split: option.splits)

section \<open>Paths\<close>

text \<open>A segment that names a directory entry.\<close>

definition plain :: "string \<Rightarrow> bool" where
  "plain w \<longleftrightarrow> w \<noteq> [] \<and> w \<noteq> ''.'' \<and> w \<noteq> ''..'' \<and> CHR ''/'' \<notin> set w"

lemma split_on_parts: "w \<in> set (split_on c s) \<Longrightarrow> c \<notin> set w \<and> set w \<subseteq> set s"
proof (induction s arbitrary: w)
  case (Cons x xs)
  show ?case
  proof (cases "x = c")
    case True
    then show ?thesis using Cons by auto
  next
    case False
    obtain v vs where vs: "split_on c xs = v # vs" by (cases "split_on c xs") auto
    then have "w = x # v \<or> w \<in> set vs" using Cons.prems False by auto
    then show ?thesis using Cons.IH[of v] Cons.IH[of w] vs False by auto
  qed
qed simp

lemma path_resolve_plain: "\<forall>w \<in> set p. w \<noteq> ''..'' \<Longrightarrow> path_resolve p = p"
proof -
  assume p: "\<forall>w \<in> set p. w \<noteq> ''..''"
  have "fold (\<lambda>w acc. if w = ''..'' then butlast acc else acc @ [w]) p acc = acc @ p" for acc
    using p by (induction p arbitrary: acc) auto
  then show ?thesis by (simp add: path_resolve_def)
qed

lemma path_segments_join:
  assumes "ws \<noteq> []" "\<forall>w \<in> set ws. plain w"
  shows "path_segments (join_str ''/'' ws) = ws"
proof -
  have "split_on (CHR ''/'') (join_str ''/'' ws) = ws"
    using assms by (intro split_on_join) (auto simp: plain_def)
  moreover have "filter (\<lambda>w. w \<noteq> [] \<and> w \<noteq> ''.'') ws = ws"
    using assms(2) by (simp add: filter_id_conv plain_def)
  ultimately show ?thesis by (simp add: path_segments_def)
qed

lemma path_suffix_no_slash: "CHR ''/'' \<notin> set (path_suffix f)"
proof -
  define name where "name = (if path_segments f = [] then [] else last (path_segments f))"
  have "CHR ''/'' \<notin> set name"
  proof (cases "path_segments f = []")
    case False
    then have "last (path_segments f) \<in> set (split_on (CHR ''/'') f)"
      using last_in_set[OF False] by (auto simp: path_segments_def)
    then show ?thesis using False split_on_parts by (auto simp: name_def)
  qed (simp add: name_def)
  moreover have "set (last (split_on (CHR ''.'') name)) \<subseteq> set name"
    using split_on_parts[OF last_in_set] by (metis split_on_not_Nil)
  ultimately have "CHR ''/'' \<notin> set (last (split_on (CHR ''.'') name))" by blast
  then show ?thesis by (simp add: path_suffix_def Let_def name_def[symmetric])
qed

lemma plain_append: "plain w \<Longrightarrow> CHR ''/'' \<notin> set s \<Longrightarrow> plain (w @ s)"
  by (auto simp: plain_def append_eq_Cons_conv)

lemma hd_join_plain: "plain w \<Longrightarrow> join_str ''/'' (w # ws) \<noteq> [] \<and> hd (join_str ''/'' (w # ws)) \<noteq> CHR ''/''"
  by (cases ws; cases w) (auto simp: plain_def)

text \<open>Where the filesystem backend writes: below its root, in a directory per intent.\<close>

lemma fs_file_path:
  assumes "plain tid" "plain iid" "plain eid" "\<forall>w \<in> set base. plain w"
  shows "\<exists>name. path_resolve (path_join base (fs_file_ref tid iid eid filename)) =
    base @ [tid, iid, name]"
proof -
  define name where "name = eid @ take 16 (path_suffix (if filename = [] then ''upload.bin'' else filename))"
  have "CHR ''/'' \<notin> set (take 16 (path_suffix (if filename = [] then ''upload.bin'' else filename)))"
    using path_suffix_no_slash in_set_takeD by metis
  then have name: "plain name" unfolding name_def by (rule plain_append[OF assms(3)])
  have "path_join base (fs_file_ref tid iid eid filename) = base @ [tid, iid, name]"
    using hd_join_plain[OF assms(1), of "[iid, name]"] path_segments_join[of "[tid, iid, name]"]
      assms(1,2) name
    by (auto simp: path_join_def fs_file_ref_def name_def[symmetric])
  moreover have "path_resolve (base @ [tid, iid, name]) = base @ [tid, iid, name]"
    using assms name by (intro path_resolve_plain) (auto simp: plain_def)
  ultimately show ?thesis by metis
qed

section \<open>Adding evidence, case by case\<close>

lemma register_evidence_cases:
  assumes "register_evidence rt inp mode ref digest nbytes d = (res, d')"
  obtains (failed) err where "res = Inl err" "d' = d"
  | (added) i where
    "tget ai_action_intent_record_id (in_action_intent_record_id inp) (action_intents d) = Some i"
    "ai_tenant_id i = in_tenant_id inp"
    "validate_approval_binding i (in_approval_request_id inp) d = None"
    "(res, d') = commit_evidence rt (new_evidence rt inp mode ref digest nbytes i d) d"
  using assms
  by (auto simp: register_evidence_def get_evidence_intent_def split: option.splits if_splits)

lemma upload_evidence_cases:
  assumes "upload_evidence rt b inp filename payload fs d = (res, d', fs')"
  obtains (failed) err where "res = Inl err" "d' = d" "fs' = fs"
  | (added) i base ref digest n inp' where "b = Filesystem base"
    "tget ai_action_intent_record_id (in_action_intent_record_id inp) (action_intents d) = Some i"
    "ai_tenant_id i = in_tenant_id inp"
    "validate_approval_binding i (in_approval_request_id inp) d = None"
    "inp' = inp\<lparr>in_original_filename := Some filename\<rparr>"
    "ref = fs_file_ref (in_tenant_id inp) (in_action_intent_record_id inp) (new_id rt d) filename"
    "digest = rt_sha256_text rt payload" "n = int (length payload)"
    "(res, d') = commit_evidence rt
       (new_evidence rt inp' SM_filesystem ref (Some digest) (Some n) i d) d"
    "fs' = fs(path_resolve (path_join base ref) \<mapsto> payload)"
  using assms
  by (cases b) (auto simp: upload_evidence_def get_evidence_intent_def fs_store_upload_def Let_def
      split: option.splits if_splits)

lemma commit_evidence_state:
  assumes c: "commit_evidence rt e d = (Inr e', d')"
    and i: "tget ai_action_intent_record_id (eo_action_intent_record_id e) (action_intents d) = Some i"
  shows "\<exists>i'. tget ai_action_intent_record_id (eo_action_intent_record_id e) (action_intents d') = Some i' \<and>
    (ai_evidence_state i' = ES_satisfied \<longleftrightarrow> (\<exists>rq. ai_evidence_requirement i' = Some rq \<and>
       max (re_minimum_count rq) 1 \<le>
         int (length (valid_evidence rq (evidence_of (eo_action_intent_record_id e) d')))))"
    and "\<And>x t. x \<in> set (evidence_of (eo_action_intent_record_id e) d') \<Longrightarrow> eo_status x = EV_active \<Longrightarrow>
      eo_expires_at x = Some t \<Longrightarrow> rt_now rt < t"
proof -
  obtain d1 where d1: "d' = sync_evidence_state (rt_now rt) (eo_action_intent_record_id e) d1"
    "action_intents d1 = action_intents d"
    using c by (auto simp: commit_evidence_def Let_def)
  show "\<exists>i'. tget ai_action_intent_record_id (eo_action_intent_record_id e) (action_intents d') = Some i' \<and>
    (ai_evidence_state i' = ES_satisfied \<longleftrightarrow> (\<exists>rq. ai_evidence_requirement i' = Some rq \<and>
       max (re_minimum_count rq) 1 \<le>
         int (length (valid_evidence rq (evidence_of (eo_action_intent_record_id e) d')))))"
    using i by (simp add: d1 tget_intent_sync_evidence evidence_state_satisfied)
  show "\<And>x t. x \<in> set (evidence_of (eo_action_intent_record_id e) d') \<Longrightarrow> eo_status x = EV_active \<Longrightarrow>
      eo_expires_at x = Some t \<Longrightarrow> rt_now rt < t"
    unfolding d1(1) by (rule sync_evidence_active)
qed

section \<open>Properties\<close>

definition sample_evidence_input :: evidence_input where
  "sample_evidence_input = \<lparr>in_tenant_id = ''t'', in_action_intent_record_id = ''i'',
     in_approval_request_id = None, in_evidence_type = ET_document,
     in_original_filename = Some ''a.pdf'', in_media_type = None,
     in_uploaded_by = (''user'', ''alice''), in_evidence_metadata = [], in_expires_at = Some 50\<rparr>"

definition sample_evidence_db :: db where
  "sample_evidence_db = empty_db\<lparr>action_intents := [sample_record\<lparr>ai_evidence_requirement :=
     Some \<lparr>re_minimum_count = 1, re_allowed_evidence_types = [''document''],
       re_expires_in_seconds = None\<rparr>\<rparr>], next_uuid := 1\<rparr>"

text \<open>
  The evidence gate counts what is really there. After evidence was registered, the stored
  evidence state of the intent is satisfied if and only if it has a requirement and at least the
  required number (never less than one) of its evidence objects is active and of an allowed type;
  every object counted as active is before its deadline at that moment.
\<close>

theorem evidence_gate:
  assumes "register_evidence rt inp mode ref digest nbytes d = (Inr e, d')"
    and "iid = in_action_intent_record_id inp"
  shows "\<exists>i. tget ai_action_intent_record_id iid (action_intents d') = Some i \<and>
    (ai_evidence_state i = ES_satisfied \<longleftrightarrow>
       (\<exists>rq. ai_evidence_requirement i = Some rq \<and>
          max (re_minimum_count rq) 1 \<le> int (length (valid_evidence rq (evidence_of iid d'))))) \<and>
    (\<forall>x \<in> set (evidence_of iid d'). eo_status x = EV_active \<longrightarrow>
       (\<forall>t. eo_expires_at x = Some t \<longrightarrow> rt_now rt < t))"
  using assms(1)
proof (cases rule: register_evidence_cases)
  case (added i)
  let ?e = "new_evidence rt inp mode ref digest nbytes i d"
  have iid: "eo_action_intent_record_id ?e = iid" by (simp add: new_evidence_def assms(2))
  show ?thesis
    using commit_evidence_state[OF added(4)[symmetric]] added(1) unfolding iid
    by (simp add: assms(2))
qed simp

theorem evidence_gate_witness:
  "\<exists>i. tget ai_action_intent_record_id ''i'' (action_intents (snd (register_evidence (sample_rt 7)
     sample_evidence_input SM_external_uri ''u'' None None sample_evidence_db))) = Some i \<and>
     ai_evidence_state i = ES_satisfied"
proof -
  let ?R = "register_evidence (sample_rt 7) sample_evidence_input SM_external_uri ''u'' None None
     sample_evidence_db"
  let ?rq = "\<lparr>re_minimum_count = 1, re_allowed_evidence_types = [''document''],
       re_expires_in_seconds = None\<rparr> :: evidence_requirement"
  note defs = register_evidence_def get_evidence_intent_def validate_approval_binding_def
      sample_evidence_input_def sample_evidence_db_def commit_evidence_def Let_def sample_record_def
      new_evidence_def resolve_expiration_def refresh_evidence_def evidence_expires_def
      sync_evidence_state_def refresh_evidence_of_def tinsert_def evidence_of_def
  have "?R = (Inr (projr (fst ?R)), snd ?R)" by (simp add: defs)
  from evidence_gate[OF this refl] obtain i where i:
    "tget ai_action_intent_record_id ''i'' (action_intents (snd ?R)) = Some i"
    "ai_evidence_state i = ES_satisfied \<longleftrightarrow> (\<exists>rq. ai_evidence_requirement i = Some rq \<and>
       max (re_minimum_count rq) 1 \<le> int (length (valid_evidence rq (evidence_of ''i'' (snd ?R)))))"
    by (auto simp: sample_evidence_input_def)
  have "ai_evidence_requirement i = Some ?rq" using i(1) by (auto simp: defs)
  moreover have "length (valid_evidence ?rq (evidence_of ''i'' (snd ?R))) = 1"
    by (simp add: defs valid_evidence_def empty_db_def)
  ultimately show ?thesis using i by simp
qed



text \<open>
  No path traversal. Whatever storage reference an evidence object carries, a download that
  succeeds returns an existing file at or below the configured storage root.
\<close>

theorem content_confined:
  assumes "get_evidence_content rt (fst (evidence_backends base bucket up)) eid fs d = (Inr (e, p), d')"
  shows "prefix base p \<and> fs p \<noteq> None"
proof -
  obtain b where "fst (evidence_backends base bucket up) (eo_storage_mode e) = Some b"
    "open_content b e fs = Inr p"
    using assms by (auto simp: get_evidence_content_def split: prod.splits sum.splits option.splits
        backend_error.splits)
  then have "fs_open_content base e fs = Inr p"
    by (auto simp: evidence_backends_def split: if_splits)
  then show ?thesis
    by (auto simp: fs_open_content_def Let_def strict_prefix_def split: if_splits)
qed

theorem content_confined_witness:
  "prefix [''srv''] [''srv'', ''x''] \<and> [[''srv'', ''x''] \<mapsto> ''data''] [''srv'', ''x''] \<noteq> None"
proof -
  define e where "e = (projr (fst (register_evidence (sample_rt 7) sample_evidence_input SM_filesystem
     ''../srv/x'' None None sample_evidence_db)))\<lparr>eo_expires_at := None, eo_status := EV_active\<rparr>"
  note defs = register_evidence_def get_evidence_intent_def validate_approval_binding_def
      sample_evidence_input_def sample_evidence_db_def commit_evidence_def Let_def sample_record_def
      new_evidence_def refresh_evidence_def new_id_def sample_uuid_def
  have keep: "eo_storage_ref e = ''../srv/x''" "eo_storage_mode e = SM_filesystem"
    "eo_evidence_object_id e = ''u''" "eo_expires_at e = None"
    by (simp_all add: e_def defs)
  have "get_evidence_content (sample_rt 8) (fst (evidence_backends [''srv''] False ''filesystem'')) ''u''
      [[''srv'', ''x''] \<mapsto> ''data''] (empty_db\<lparr>evidence_objects := [e]\<rparr>) =
      (Inr (e, [''srv'', ''x'']), empty_db\<lparr>evidence_objects := [e]\<rparr>)"
    by (simp add: get_evidence_content_def get_evidence_def refresh_read_def evidence_expires_def keep
        evidence_backends_def fs_open_content_def path_join_def path_segments_def path_resolve_def
        strict_prefix_def)
  from content_confined[OF this] show ?thesis .
qed

end
