(* ===== verification/ActionIntents.thy ===== *)
theory ActionIntents
  imports Evidence
begin

text \<open>
  \<open>src/app/services/action_intents.py\<close>: contract validation, the intake of an action intent with
  its idempotent replay, and the lazy synchronisation of stored intents. The JSON-schema validator
  is third-party code: \<open>schema_errors\<close> returns its errors for a payload, sorted by path, each with
  the segments of the path and the message.
\<close>

section \<open>Contracts\<close>

record contract_validation_result =
  cv_supported :: bool
  cv_valid :: bool
  cv_errors :: "string list"

type_synonym schema_errors = "dict \<Rightarrow> (string list \<times> string) list"

definition supported_action_intent_contracts :: "string list" where
  "supported_action_intent_contracts = [''open_execution_kernel.action_intent.finance.v1alpha1'']"

definition format_error :: "string list \<times> string \<Rightarrow> string" where
  "format_error e =
     (let location = join_str ''.'' (fst e)
      in if location \<noteq> [] then location @ '': '' @ snd e else snd e)"

definition validate_action_intent ::
  "schema_errors \<Rightarrow> string \<Rightarrow> string \<Rightarrow> dict \<Rightarrow> contract_validation_result" where
  "validate_action_intent schema family version payload =
     (if family \<noteq> ''action_intent'' then
        \<lparr>cv_supported = False, cv_valid = False,
         cv_errors = [''unsupported contract family '' @ family]\<rparr>
      else if version \<notin> set supported_action_intent_contracts then
        \<lparr>cv_supported = False, cv_valid = False,
         cv_errors = [''unsupported contract version '' @ version]\<rparr>
      else if schema payload = [] then \<lparr>cv_supported = True, cv_valid = True, cv_errors = []\<rparr>
      else \<lparr>cv_supported = True, cv_valid = False, cv_errors = map format_error (schema payload)\<rparr>)"

definition validation_status :: "contract_validation_result \<Rightarrow> contract_validation_status" where
  "validation_status v =
     (if \<not> cv_supported v then CV_unsupported else if \<not> cv_valid v then CV_invalid else CV_valid)"

section \<open>The request\<close>

record intake_request =
  iq_tenant_id :: ident
  iq_submission_id :: string
  iq_idempotency_key :: string
  iq_requested_by :: "string \<times> ident"
  iq_workflow_binding :: "dict option"
  iq_contract_family :: string
  iq_version_ref :: string
  iq_kernel_action_intent :: dict
  iq_finance_routing_context :: "dict option"
  iq_evaluation_context :: dict
  iq_client_tags :: "string list"
  iq_external_reference :: "string option"

text \<open>The principal of the session replaces whatever requester the body names.\<close>

definition bind_requester :: "(string \<times> ident) option \<Rightarrow> intake_request \<Rightarrow> intake_request" where
  "bind_requester session q = (case session of None \<Rightarrow> q | Some p \<Rightarrow> q\<lparr>iq_requested_by := p\<rparr>)"

definition or_empty :: "dict option \<Rightarrow> dict" where
  "or_empty x = (case x of None \<Rightarrow> [] | Some d \<Rightarrow> d)"

definition or_None :: "dict \<Rightarrow> dict option" where
  "or_None d = (if d = [] then None else Some d)"

definition intake_workflow_key :: "intake_request \<Rightarrow> json" where
  "intake_workflow_key q =
     py_or (jget (iq_kernel_action_intent q) ''workflow_key'')
       (py_or (jget (or_empty (iq_workflow_binding q)) ''workflow_profile'') (JStr ''unknown''))"

definition intake_action_class :: "intake_request \<Rightarrow> json" where
  "intake_action_class q =
     py_or (jget (iq_kernel_action_intent q) ''action_type'')
       (jget (or_empty (iq_finance_routing_context q)) ''action_class'')"

text \<open>\<open>a and b and a != b\<close>: the two hints are both present and disagree.\<close>

definition hints_conflict :: "json \<Rightarrow> json \<Rightarrow> bool" where
  "hints_conflict a b \<longleftrightarrow> truthy a \<and> truthy b \<and> \<not> py_eq a b"

definition build_intake_context :: "intake_request \<Rightarrow> json \<Rightarrow> json \<Rightarrow> dict" where
  "build_intake_context q workflow_key finance_action_class =
     [(''tenant_id'', JStr (iq_tenant_id q)),
      (''submission_id'', JStr (iq_submission_id q)),
      (''requested_by'', JObj [(''principal_type'', JStr (fst (iq_requested_by q))),
                               (''principal_id'', JStr (snd (iq_requested_by q)))]),
      (''workflow_key'', workflow_key),
      (''workflow_mismatch'', JBool (hints_conflict
         (jget (or_empty (iq_workflow_binding q)) ''workflow_profile'')
         (jget (iq_kernel_action_intent q) ''workflow_key''))),
      (''routing_mismatch'', JBool (hints_conflict
         (jget (or_empty (iq_finance_routing_context q)) ''action_class'')
         (jget (iq_kernel_action_intent q) ''action_type''))),
      (''finance_action_class'', finance_action_class)]"

definition build_finance_index :: "dict \<Rightarrow> dict \<Rightarrow> dict" where
  "build_finance_index intent ctx =
     map (\<lambda>k. (k, jget intent k))
       [''workflow_key'', ''action_type'', ''amount_minor'', ''currency'', ''source_account_ref'',
        ''destination_account_ref'', ''destination_country''] @
     [(''risk_tier'', jget ctx ''risk_tier'')]"

section \<open>Intake\<close>

definition new_record ::
  "runtime \<Rightarrow> intake_request \<Rightarrow> string \<Rightarrow> contract_validation_result \<Rightarrow> policy_decision \<Rightarrow> db \<Rightarrow>
   action_intent_record" where
  "new_record rt q workflow_key v dec d =
     \<lparr>ai_action_intent_record_id = new_id rt d, ai_tenant_id = iq_tenant_id q,
      ai_policy_id = map_option po_policy_id (pd_policy dec),
      ai_policy_version = map_option po_version (pd_policy dec),
      ai_submission_id = iq_submission_id q, ai_idempotency_key = iq_idempotency_key q,
      ai_requested_by_principal_type = fst (iq_requested_by q),
      ai_requested_by_principal_id = snd (iq_requested_by q),
      ai_workflow_key = workflow_key,
      ai_external_action_intent_id = jget (iq_kernel_action_intent q) ''intent_id'',
      ai_contract_family = iq_contract_family q, ai_contract_version_ref = iq_version_ref q,
      ai_contract_validation_status = validation_status v,
      ai_contract_validation_errors = cv_errors v,
      ai_action_intent_digest = rt_sha256_json rt (JObj (iq_kernel_action_intent q)),
      ai_action_intent_payload = iq_kernel_action_intent q,
      ai_workflow_binding = or_None (or_empty (iq_workflow_binding q)),
      ai_finance_routing_context = or_None (or_empty (iq_finance_routing_context q)),
      ai_finance_action_class = intake_action_class q,
      ai_finance_index =
        build_finance_index (iq_kernel_action_intent q) (iq_evaluation_context q),
      ai_evaluation_context = iq_evaluation_context q, ai_client_tags = iq_client_tags q,
      ai_external_reference = iq_external_reference q,
      ai_approval_state =
        (if pd_approval_requirement dec \<noteq> None then AS_not_started else AS_not_required),
      ai_evidence_state =
        (if pd_evidence_requirement dec \<noteq> None then ES_pending else ES_not_required),
      ai_execution_state = EX_not_requested, ai_receipt_state = RS_none,
      ai_latest_receipt_id = None,
      ai_approval_requirement = pd_approval_requirement dec,
      ai_evidence_requirement = pd_evidence_requirement dec,
      ai_decision_state = pd_state dec, ai_decision_reason = pd_reason dec,
      ai_matched_rule_id = pd_matched_rule_id dec, ai_evaluation_trace = pd_trace dec,
      ai_created_at = rt_now rt\<rparr>"

text \<open>\<open>_synchronize_record\<close>: the commit writes whatever the two synchronisations changed.\<close>

definition synchronize_record :: "time \<Rightarrow> ident \<Rightarrow> db \<Rightarrow> db" where
  "synchronize_record now iid d = sync_evidence_state now iid (sync_approval_state now iid d)"

definition find_submission :: "ident \<Rightarrow> string \<Rightarrow> db \<Rightarrow> action_intent_record option" where
  "find_submission tid key d =
     find (\<lambda>i. ai_tenant_id i = tid \<and> ai_idempotency_key i = key) (action_intents d)"

definition read_back :: "ident \<Rightarrow> bool \<Rightarrow> db \<Rightarrow> (action_intent_record \<times> bool) result" where
  "read_back iid replay d =
     (case tget ai_action_intent_record_id iid (action_intents d) of
        None \<Rightarrow> Inl (PyRuntimeError ''row disappeared'')
      | Some i \<Rightarrow> Inr (i, replay))"

text \<open>
  The second half of \<open>intake\<close>, for a key that was not seen before: evaluate, store, open the
  approval request and the evidence gate. Nothing is committed when a step raises. A workflow key
  that is not a string is refused where it is bound to the string column.
\<close>

definition intake_new ::
  "runtime \<Rightarrow> schema_errors \<Rightarrow> intake_request \<Rightarrow> db \<Rightarrow> (action_intent_record \<times> bool) result \<times> db" where
  "intake_new rt schema q d =
     (let v = validate_action_intent schema (iq_contract_family q) (iq_version_ref q)
                (iq_kernel_action_intent q);
          wkey = intake_workflow_key q
      in case as_str wkey of
           None \<Rightarrow> (Inl (PyTypeError ''workflow_key is not a string''), d)
         | Some workflow_key \<Rightarrow>
             (case evaluate (iq_kernel_action_intent q)
                     (build_intake_context q wkey (intake_action_class q))
                     (iq_evaluation_context q)
                     (get_active_policy (iq_tenant_id q) workflow_key d)
                     (cv_supported v) (cv_valid v) (cv_errors v) of
                Inl e \<Rightarrow> (Inl e, d)
              | Inr dec \<Rightarrow>
                  let i = new_record rt q workflow_key v dec d;
                      iid = ai_action_intent_record_id i;
                      d1 = used_id d\<lparr>action_intents := tinsert i (action_intents d)\<rparr>
                  in (case initialize_approvals rt i d1 of
                        (Inl e, d2) \<Rightarrow> (Inl e, d)
                      | (Inr rs, d2) \<Rightarrow>
                          let d3 = initialize_evidence iid d2
                          in (read_back iid False d3, d3))))"

definition intake ::
  "runtime \<Rightarrow> schema_errors \<Rightarrow> (string \<times> ident) option \<Rightarrow> intake_request \<Rightarrow> db \<Rightarrow>
   (action_intent_record \<times> bool) result \<times> db" where
  "intake rt schema session request d =
     (let q = bind_requester session request
      in case get_tenant (iq_tenant_id q) d of
           Inl e \<Rightarrow> (Inl e, d)
         | Inr t \<Rightarrow>
             if tn_status t \<noteq> TS_active then (Inl (PyValueError ''tenant is not active''), d)
             else (case find_submission (iq_tenant_id q) (iq_idempotency_key q) d of
                     Some i \<Rightarrow>
                       let d1 = synchronize_record (rt_now rt) (ai_action_intent_record_id i) d
                       in (read_back (ai_action_intent_record_id i) True d1, d1)
                   | None \<Rightarrow> intake_new rt schema q d))"

section \<open>Reading intents\<close>

definition get_record :: "runtime \<Rightarrow> ident \<Rightarrow> db \<Rightarrow> action_intent_record result \<times> db" where
  "get_record rt iid d =
     (case tget ai_action_intent_record_id iid (action_intents d) of
        None \<Rightarrow> (Inl ActionIntentNotFoundError, d)
      | Some i \<Rightarrow>
          (let d1 = synchronize_record (rt_now rt) iid d
           in case tget ai_action_intent_record_id iid (action_intents d1) of
                None \<Rightarrow> (Inl (PyRuntimeError ''row disappeared''), d1)
              | Some i' \<Rightarrow> (Inr i', d1)))"

record record_filter =
  rf_tenant_id :: "ident option"
  rf_workflow_key :: "string option"
  rf_decision_state :: "decision_state option"
  rf_approval_state :: "approval_state option"
  rf_evidence_state :: "evidence_state option"
  rf_execution_state :: "execution_state option"
  rf_receipt_state :: "receipt_state option"
  rf_external_reference :: "string option"

definition is_None_or :: "'a option \<Rightarrow> 'a \<Rightarrow> bool" where
  "is_None_or f x \<longleftrightarrow> f = None \<or> f = Some x"

definition select_records :: "record_filter \<Rightarrow> db \<Rightarrow> action_intent_record list" where
  "select_records f d =
     [i \<leftarrow> action_intents d. is_None_or (rf_tenant_id f) (ai_tenant_id i) \<and>
        is_None_or (rf_workflow_key f) (ai_workflow_key i) \<and>
        is_None_or (rf_decision_state f) (ai_decision_state i) \<and>
        is_None_or (rf_approval_state f) (ai_approval_state i) \<and>
        is_None_or (rf_evidence_state f) (ai_evidence_state i) \<and>
        is_None_or (rf_execution_state f) (ai_execution_state i) \<and>
        is_None_or (rf_receipt_state f) (ai_receipt_state i) \<and>
        (rf_external_reference f = None \<or> rf_external_reference f = ai_external_reference i)]"

text \<open>
  \<open>list_records\<close>: the rows are selected first and synchronised one by one afterwards, so a row may
  be returned in a state the filter excludes. The rows come in insertion order here; the order
  by modification time of the code is not modelled.
\<close>

definition list_records :: "runtime \<Rightarrow> record_filter \<Rightarrow> db \<Rightarrow> action_intent_record list \<times> db" where
  "list_records rt f d =
     (let ids = map ai_action_intent_record_id (select_records f d);
          d1 = fold (synchronize_record (rt_now rt)) ids d
      in ([i \<leftarrow> action_intents d1. ai_action_intent_record_id i \<in> set ids], d1))"

section \<open>What never changes about an intent\<close>

text \<open>An intent with the states that are derived after intake blanked out.\<close>

definition intent_core :: "action_intent_record \<Rightarrow> action_intent_record" where
  "intent_core i = i\<lparr>ai_approval_state := AS_not_started, ai_evidence_state := ES_pending,
     ai_execution_state := EX_not_requested, ai_receipt_state := RS_none,
     ai_latest_receipt_id := None\<rparr>"

lemma intent_core_simps [simp]:
  "ai_action_intent_record_id (intent_core i) = ai_action_intent_record_id i"
  "ai_tenant_id (intent_core i) = ai_tenant_id i"
  "ai_idempotency_key (intent_core i) = ai_idempotency_key i"
  "intent_core (i\<lparr>ai_approval_state := a\<rparr>) = intent_core i"
  "intent_core (i\<lparr>ai_evidence_state := e\<rparr>) = intent_core i"
  "intent_core (i\<lparr>ai_execution_state := x\<rparr>) = intent_core i"
  "intent_core (i\<lparr>ai_receipt_state := r\<rparr>) = intent_core i"
  "intent_core (i\<lparr>ai_latest_receipt_id := l\<rparr>) = intent_core i"
  by (simp_all add: intent_core_def)

lemma intent_core_eqD:
  assumes "intent_core i = intent_core j"
  shows "ai_action_intent_record_id i = ai_action_intent_record_id j"
    "ai_tenant_id i = ai_tenant_id j" "ai_idempotency_key i = ai_idempotency_key j"
    "ai_requested_by_principal_type i = ai_requested_by_principal_type j"
    "ai_requested_by_principal_id i = ai_requested_by_principal_id j"
    "ai_decision_state i = ai_decision_state j"
    "ai_approval_requirement i = ai_approval_requirement j"
    "ai_evidence_requirement i = ai_evidence_requirement j"
    "ai_action_intent_digest i = ai_action_intent_digest j"
    "ai_action_intent_payload i = ai_action_intent_payload j"
  using arg_cong[OF assms, of ai_action_intent_record_id] arg_cong[OF assms, of ai_tenant_id]
    arg_cong[OF assms, of ai_idempotency_key]
    arg_cong[OF assms, of ai_requested_by_principal_type]
    arg_cong[OF assms, of ai_requested_by_principal_id] arg_cong[OF assms, of ai_decision_state]
    arg_cong[OF assms, of ai_approval_requirement] arg_cong[OF assms, of ai_evidence_requirement]
    arg_cong[OF assms, of ai_action_intent_digest] arg_cong[OF assms, of ai_action_intent_payload]
  by (simp_all add: intent_core_def)

definition intents_kept :: "db \<Rightarrow> db \<Rightarrow> bool" where
  "intents_kept d d' \<longleftrightarrow> map intent_core (action_intents d') = map intent_core (action_intents d)"

lemma intents_kept_refl [simp]: "intents_kept d d"
  by (simp add: intents_kept_def)

lemma intents_kept_same: "action_intents d' = action_intents d \<Longrightarrow> intents_kept d d'"
  by (simp add: intents_kept_def)

lemma intents_kept_trans: "intents_kept d d1 \<Longrightarrow> intents_kept d1 d2 \<Longrightarrow> intents_kept d d2"
  by (simp add: intents_kept_def)

lemma intents_kept_modify:
  "(\<And>i. intent_core (f i) = intent_core i) \<Longrightarrow>
   action_intents d' = tmodify ai_action_intent_record_id iid f (action_intents d) \<Longrightarrow>
   intents_kept d d'"
  by (simp add: intents_kept_def map_tmodify)

lemma tget_core:
  assumes "intents_kept d d'"
  shows "map_option intent_core (tget ai_action_intent_record_id iid (action_intents d')) =
    map_option intent_core (tget ai_action_intent_record_id iid (action_intents d))"
proof -
  have "tget ai_action_intent_record_id iid (map intent_core (action_intents d')) =
      tget ai_action_intent_record_id iid (map intent_core (action_intents d))"
    using assms by (simp add: intents_kept_def)
  then show ?thesis by (simp add: tget_map)
qed

lemma intents_kept_get:
  assumes "intents_kept d d'" "tget ai_action_intent_record_id iid (action_intents d) = Some i"
  shows "\<exists>i'. tget ai_action_intent_record_id iid (action_intents d') = Some i' \<and>
    intent_core i' = intent_core i"
  using tget_core[OF assms(1), of iid] assms(2) by (auto simp: map_option_eq_Some)

text \<open>Whatever is read off the fixed part of the intents stays.\<close>

lemma intents_kept_map:
  assumes "intents_kept d d'" "\<And>i. f (intent_core i) = f i"
  shows "map f (action_intents d') = map f (action_intents d)"
proof -
  have "map f (map intent_core (action_intents e)) = map f (action_intents e)" for e
    using assms(2) by (simp add: comp_def)
  then show ?thesis using assms(1) unfolding intents_kept_def by metis
qed

lemma intents_kept_requesters: "intents_kept d d' \<Longrightarrow> intent_requesters d' = intent_requesters d"
  unfolding intent_requesters_def by (rule intents_kept_map) (simp_all add: intent_core_def)

lemma intents_kept_ids: "intents_kept d d' \<Longrightarrow>
    map ai_action_intent_record_id (action_intents d') =
    map ai_action_intent_record_id (action_intents d)"
  by (rule intents_kept_map) simp_all

lemma intents_kept_keys: "intents_kept d d' \<Longrightarrow>
    map (\<lambda>i. (ai_tenant_id i, ai_idempotency_key i)) (action_intents d') =
    map (\<lambda>i. (ai_tenant_id i, ai_idempotency_key i)) (action_intents d)"
  by (rule intents_kept_map) simp_all

lemma refreshed_intents_kept: "refreshed now d d' \<Longrightarrow> intents_kept d d'"
  unfolding refreshed_def by (elim exE conjE) (simp add: intents_kept_def comp_def)

lemma evidence_refreshed_intents_kept: "evidence_refreshed now d d' \<Longrightarrow> intents_kept d d'"
  unfolding evidence_refreshed_def by (elim exE conjE) (simp add: intents_kept_def comp_def)

lemma synchronize_record_kept: "intents_kept d (synchronize_record now iid d)"
  unfolding synchronize_record_def
  using intents_kept_trans[OF refreshed_intents_kept[OF refreshed_sync]
      evidence_refreshed_intents_kept[OF evidence_refreshed_sync]] .

lemma find_submission_kept:
  assumes "intents_kept d d'"
  shows "map_option intent_core (find_submission tid key d') =
    map_option intent_core (find_submission tid key d)"
proof -
  have "find (\<lambda>i. ai_tenant_id i = tid \<and> ai_idempotency_key i = key) (map intent_core xs) =
      map_option intent_core (find (\<lambda>i. ai_tenant_id i = tid \<and> ai_idempotency_key i = key) xs)" for xs
    by (induction xs) auto
  from this[of "action_intents d'"] this[of "action_intents d"] show ?thesis
    using assms unfolding find_submission_def intents_kept_def by simp
qed

lemma initialize_approvals_kept: "intents_kept d (snd (initialize_approvals rt i d))"
proof (cases "ai_approval_requirement i")
  case None
  then show ?thesis
    by (simp add: initialize_approvals_def Let_def intents_kept_def map_tmodify)
next
  case (Some rq)
  have "intents_kept d1 (sync_approval_state (rt_now rt) (ai_action_intent_record_id i) d1)" for d1
    by (rule refreshed_intents_kept[OF refreshed_sync])
  then show ?thesis
    by (auto simp: initialize_approvals_def Let_def Some intents_kept_def)
qed

lemma initialize_evidence_kept: "intents_kept d (initialize_evidence iid d)"
  by (rule intents_kept_modify[where iid = iid and f = "\<lambda>i. i\<lparr>ai_evidence_state :=
        (if ai_evidence_requirement i = None then ES_not_required else ES_pending)\<rparr>"])
     (simp_all add: initialize_evidence_def)

section \<open>Intake, case by case\<close>

lemma requirement_of_decision:
  assumes "evaluate_rules s p trace rs = Inr dec"
  shows "(pd_state dec = approval_required \<longrightarrow> pd_approval_requirement dec \<noteq> None) \<and>
    (pd_state dec = needs_evidence \<longrightarrow> pd_evidence_requirement dec \<noteq> None)"
  using assms
  by (induction s p trace rs rule: evaluate_rules.induct)
     (auto simp: approval_requirement_for_rule_def evidence_requirement_for_rule_def Let_def
       split: sum.splits option.splits if_splits)

lemma evaluate_requirements:
  assumes "evaluate a b c p s v e = Inr dec"
  shows "(pd_state dec = approval_required \<longrightarrow> pd_approval_requirement dec \<noteq> None) \<and>
    (pd_state dec = needs_evidence \<longrightarrow> pd_evidence_requirement dec \<noteq> None)"
proof -
  have "(\<exists>st r en p. dec = blocked st r en p \<and> st \<notin> {approval_required, needs_evidence}) \<or>
      (\<exists>s p rs. evaluate_rules s p [] rs = Inr dec)"
    using assms unfolding evaluate_def Let_def by (cases p) (auto split: if_splits)
  then show ?thesis using requirement_of_decision by (elim disjE exE) (auto simp: blocked_def)
qed

text \<open>An intake that is not a replay stores one new row and then opens its gates.\<close>

lemma intake_new_cases:
  assumes "intake_new rt schema q d = (res, d')"
  obtains (failed) e where "res = Inl e" "d' = d"
  | (stored) i v wk dec rs d2 where "i = new_record rt q wk v dec d"
    "(pd_state dec = approval_required \<longrightarrow> pd_approval_requirement dec \<noteq> None) \<and>
     (pd_state dec = needs_evidence \<longrightarrow> pd_evidence_requirement dec \<noteq> None)"
    "initialize_approvals rt i (used_id d\<lparr>action_intents := tinsert i (action_intents d)\<rparr>) = (Inr rs, d2)"
    "d' = initialize_evidence (new_id rt d) d2" "res = read_back (new_id rt d) False d'"
proof -
  define v where "v = validate_action_intent schema (iq_contract_family q) (iq_version_ref q)
                (iq_kernel_action_intent q)"
  show ?thesis
  proof (cases "as_str (intake_workflow_key q)")
    case None
    then show ?thesis using assms failed[of "PyTypeError ''workflow_key is not a string''"]
      by (simp add: intake_new_def Let_def)
  next
    case (Some wk)
    show ?thesis
    proof (cases "evaluate (iq_kernel_action_intent q)
                     (build_intake_context q (intake_workflow_key q) (intake_action_class q))
                     (iq_evaluation_context q)
                     (get_active_policy (iq_tenant_id q) wk d)
                     (cv_supported v) (cv_valid v) (cv_errors v)")
      case (Inl e)
      then show ?thesis using assms failed[of e] Some by (simp add: intake_new_def Let_def v_def)
    next
      case (Inr dec)
      define i where "i = new_record rt q wk v dec d"
      have iid: "ai_action_intent_record_id i = new_id rt d" by (simp add: i_def new_record_def)
      obtain r d2 where r: "initialize_approvals rt i
          (used_id d\<lparr>action_intents := tinsert i (action_intents d)\<rparr>) = (r, d2)" by force
      have eq: "intake_new rt schema q d = (case r of Inl e \<Rightarrow> (Inl e, d)
          | Inr rs \<Rightarrow> (read_back (new_id rt d) False (initialize_evidence (new_id rt d) d2),
               initialize_evidence (new_id rt d) d2))"
        by (simp add: intake_new_def Let_def v_def[symmetric] Some Inr i_def[symmetric] iid r
            split: sum.splits)
      show ?thesis
      proof (cases r)
        case (Inl e)
        then show ?thesis using eq assms failed[of e] by simp
      next
        case (Inr rs)
        then show ?thesis
          using stored[OF i_def evaluate_requirements[OF \<open>evaluate _ _ _ _ _ _ _ = Inr dec\<close>]]
            eq assms r by simp
      qed
    qed
  qed
qed

lemma intake_cases:
  assumes "intake rt schema session request d = (res, d')" "q = bind_requester session request"
  obtains (failed) e where "res = Inl e" "d' = d"
  | (replayed) i t where "get_tenant (iq_tenant_id q) d = Inr t" "tn_status t = TS_active"
    "find_submission (iq_tenant_id q) (iq_idempotency_key q) d = Some i"
    "d' = synchronize_record (rt_now rt) (ai_action_intent_record_id i) d"
    "res = read_back (ai_action_intent_record_id i) True d'"
  | (fresh) t where "get_tenant (iq_tenant_id q) d = Inr t" "tn_status t = TS_active"
    "find_submission (iq_tenant_id q) (iq_idempotency_key q) d = None"
    "intake_new rt schema q d = (res, d')"
proof (cases "get_tenant (iq_tenant_id q) d")
  case (Inl e)
  then show ?thesis using assms failed[of e] by (simp add: intake_def Let_def)
next
  case (Inr t)
  show ?thesis
  proof (cases "tn_status t = TS_active")
    case False
    then show ?thesis using assms Inr failed[of "PyValueError ''tenant is not active''"]
      by (simp add: intake_def Let_def)
  next
    case True
    show ?thesis
    proof (cases "find_submission (iq_tenant_id q) (iq_idempotency_key q) d")
      case None
      then show ?thesis using assms Inr True fresh[of t] by (simp add: intake_def Let_def)
    next
      case (Some i)
      then show ?thesis using assms Inr True replayed[of t i] by (auto simp: intake_def Let_def)
    qed
  qed
qed

lemma new_record_simps [simp]:
  "ai_action_intent_record_id (new_record rt q wk v dec d) = new_id rt d"
  "ai_tenant_id (new_record rt q wk v dec d) = iq_tenant_id q"
  "ai_idempotency_key (new_record rt q wk v dec d) = iq_idempotency_key q"
  "ai_requested_by_principal_type (new_record rt q wk v dec d) = fst (iq_requested_by q)"
  "ai_requested_by_principal_id (new_record rt q wk v dec d) = snd (iq_requested_by q)"
  "ai_approval_requirement (new_record rt q wk v dec d) = pd_approval_requirement dec"
  "ai_evidence_requirement (new_record rt q wk v dec d) = pd_evidence_requirement dec"
  "ai_decision_state (new_record rt q wk v dec d) = pd_state dec"
  by (simp_all add: new_record_def)

definition intent_fresh :: "runtime \<Rightarrow> db \<Rightarrow> bool" where
  "intent_fresh rt d \<longleftrightarrow> tget ai_action_intent_record_id (new_id rt d) (action_intents d) = None \<and>
     requests_of (new_id rt d) d = []"

text \<open>The rows of intents after a successful first submission.\<close>

lemma intake_new_rows:
  assumes stored: "intake_new rt schema q d = (Inr (j, b), d')"
  obtains i where "ai_action_intent_record_id i = new_id rt d" "ai_tenant_id i = iq_tenant_id q"
    "ai_idempotency_key i = iq_idempotency_key q"
    "(ai_requested_by_principal_type i, ai_requested_by_principal_id i) = iq_requested_by q"
    "map intent_core (action_intents d') = map intent_core (action_intents d) @ [intent_core i]"
    "tget ai_action_intent_record_id (new_id rt d) (action_intents d') = Some j" "b = False"
  using stored
proof (cases rule: intake_new_cases)
  case (stored i v wk dec rs d2)
  have "intents_kept (used_id d\<lparr>action_intents := tinsert i (action_intents d)\<rparr>) d2"
    using initialize_approvals_kept[of "used_id d\<lparr>action_intents := tinsert i (action_intents d)\<rparr>" rt i]
      stored(3) by simp
  from intents_kept_trans[OF this initialize_evidence_kept[of d2 "new_id rt d"]]
  have "map intent_core (action_intents d') = map intent_core (action_intents d) @ [intent_core i]"
    by (simp add: intents_kept_def stored(4) tinsert_def)
  then show ?thesis
    using that[of i] stored(1,5) by (auto simp: read_back_def split: option.splits)
qed simp

lemma intake_new_row_core:
  assumes "intake_new rt schema q d = (Inr (j, b), d')"
    and fresh: "tget ai_action_intent_record_id (new_id rt d) (action_intents d) = None"
  obtains i where "ai_action_intent_record_id i = new_id rt d" "ai_tenant_id i = iq_tenant_id q"
    "ai_idempotency_key i = iq_idempotency_key q"
    "(ai_requested_by_principal_type i, ai_requested_by_principal_id i) = iq_requested_by q"
    "intent_core j = intent_core i"
    "map intent_core (action_intents d') = map intent_core (action_intents d) @ [intent_core i]"
    "tget ai_action_intent_record_id (new_id rt d) (action_intents d') = Some j"
proof -
  obtain i where i: "ai_action_intent_record_id i = new_id rt d" "ai_tenant_id i = iq_tenant_id q"
    "ai_idempotency_key i = iq_idempotency_key q"
    "(ai_requested_by_principal_type i, ai_requested_by_principal_id i) = iq_requested_by q"
    "map intent_core (action_intents d') = map intent_core (tinsert i (action_intents d))"
    "tget ai_action_intent_record_id (new_id rt d) (action_intents d') = Some j"
    using intake_new_rows[OF assms(1)] by (auto simp: tinsert_def)
  have "tget ai_action_intent_record_id (new_id rt d) (map intent_core (action_intents d')) =
      Some (intent_core j)"
    using i(6) by (simp add: tget_map)
  moreover have "tget ai_action_intent_record_id (new_id rt d)
      (map intent_core (tinsert i (action_intents d))) = Some (intent_core i)"
    using i(1) fresh by (simp add: tget_map tget_tinsert)
  ultimately have "intent_core j = intent_core i" using i(5) by simp
  then show ?thesis using that[of i] i by (simp add: tinsert_def)
qed

lemma find_submission_last:
  assumes "find_submission tid key d = None"
    "map intent_core (action_intents d') = map intent_core (action_intents d) @ [intent_core i]"
    "ai_tenant_id i = tid" "ai_idempotency_key i = key"
  shows "\<exists>i'. find_submission tid key d' = Some i' \<and> intent_core i' = intent_core i"
proof -
  let ?P = "\<lambda>i. ai_tenant_id i = tid \<and> ai_idempotency_key i = key"
  have core: "find ?P (map intent_core xs) = map_option intent_core (find ?P xs)" for xs
    by (induction xs) auto
  have "find ?P (xs @ ys) = (case find ?P xs of Some y \<Rightarrow> Some y | None \<Rightarrow> find ?P ys)" for xs ys
    by (induction xs) auto
  from this[of "map intent_core (action_intents d)" "[intent_core i]"]
  have "find ?P (map intent_core (action_intents d')) = Some (intent_core i)"
    using assms core[of "action_intents d"] by (simp add: find_submission_def)
  then show ?thesis
    unfolding core find_submission_def by (auto simp: map_option_eq_Some)
qed

lemma initialize_approvals_length:
  assumes "refreshed now d d'"
  shows "length (approval_requests d') = length (approval_requests d)"
  using assms unfolding refreshed_def by (elim exE conjE) simp

lemma synchronize_record_requests:
  "length (approval_requests (synchronize_record now iid d)) = length (approval_requests d)"
proof -
  have "approval_requests (sync_evidence_state now iid e) = approval_requests e" for e
    by (simp add: sync_evidence_state_def Let_def refresh_evidence_of_def)
  then show ?thesis
    using initialize_approvals_length[OF refreshed_sync[of now d iid]]
    by (simp add: synchronize_record_def)
qed

lemma tenants_refreshed:
  "refreshed now d d' \<Longrightarrow> tenants d' = tenants d"
  "evidence_refreshed now d d' \<Longrightarrow> tenants d' = tenants d"
  unfolding refreshed_def evidence_refreshed_def by (elim exE conjE, simp)+

lemma tenants_initialize: "tenants (snd (initialize_approvals rt i d)) = tenants d"
  using tenants_refreshed(1)[OF refreshed_sync]
  by (auto simp: initialize_approvals_def Let_def split: option.splits)

lemma intake_new_tenants:
  assumes "intake_new rt schema q d = (res, d')"
  shows "tenants d' = tenants d"
  using assms
proof (cases rule: intake_new_cases)
  case (stored i v wk dec rs d2)
  then show ?thesis
    using tenants_initialize[of rt i "used_id d\<lparr>action_intents := tinsert i (action_intents d)\<rparr>"]
    by (simp add: initialize_evidence_def)
qed simp

section \<open>Properties\<close>

text \<open>
  Intake is idempotent. Once a submission was stored, any later submission of the same tenant
  with the same idempotency key, whatever its body, session and time, is answered as a replay of
  the stored intent: the same row up to its derived states, no new intent and no new approval
  request.
\<close>

theorem intake_idempotent:
  assumes first: "intake rt1 schema1 s1 q1 d = (Inr (i, False), d1)"
    and fresh: "tget ai_action_intent_record_id (new_id rt1 d) (action_intents d) = None"
    and same: "iq_tenant_id q2 = iq_tenant_id q1" "iq_idempotency_key q2 = iq_idempotency_key q1"
  shows "\<exists>i2 d2. intake rt2 schema2 s2 q2 d1 = (Inr (i2, True), d2) \<and>
    intent_core i2 = intent_core i \<and>
    map intent_core (action_intents d2) = map intent_core (action_intents d1) \<and>
    length (approval_requests d2) = length (approval_requests d1)"
proof -
  define q where "q = bind_requester s1 q1"
  have q: "iq_tenant_id q = iq_tenant_id q1" "iq_idempotency_key q = iq_idempotency_key q1"
    by (simp_all add: q_def bind_requester_def split: option.splits)
  have q2: "iq_tenant_id (bind_requester s2 q2) = iq_tenant_id q"
    "iq_idempotency_key (bind_requester s2 q2) = iq_idempotency_key q"
    using same by (simp_all add: q bind_requester_def split: option.splits)
  show ?thesis
    using first q_def
  proof (cases rule: intake_cases)
    case (fresh t)
    obtain i0 where i0: "ai_action_intent_record_id i0 = new_id rt1 d" "ai_tenant_id i0 = iq_tenant_id q"
      "ai_idempotency_key i0 = iq_idempotency_key q" "intent_core i = intent_core i0"
      "map intent_core (action_intents d1) = map intent_core (action_intents d) @ [intent_core i0]"
      "tget ai_action_intent_record_id (new_id rt1 d) (action_intents d1) = Some i"
      using intake_new_row_core[OF fresh(4) assms(2)] by metis
    obtain i' where i': "find_submission (iq_tenant_id q) (iq_idempotency_key q) d1 = Some i'"
      "intent_core i' = intent_core i"
      using find_submission_last[OF fresh(3) i0(5,2,3)] i0(4) by metis
    define iid where "iid = ai_action_intent_record_id i'"
    have iid: "iid = new_id rt1 d"
      using intent_core_eqD(1)[OF i'(2)] intent_core_eqD(1)[OF i0(4)] i0(1) by (simp add: iid_def)
    define d2 where "d2 = synchronize_record (rt_now rt2) iid d1"
    have kept: "intents_kept d1 d2" unfolding d2_def by (rule synchronize_record_kept)
    obtain i2 where i2: "tget ai_action_intent_record_id iid (action_intents d2) = Some i2"
      "intent_core i2 = intent_core i"
      using intents_kept_get[OF kept i0(6)] iid by auto
    have "get_tenant (iq_tenant_id q) d1 = Inr t"
      using fresh(1) intake_new_tenants[OF fresh(4)] by (simp add: get_tenant_def)
    then have "intake rt2 schema2 s2 q2 d1 = (Inr (i2, True), d2)"
      using fresh(2) i' i2 by (simp add: intake_def Let_def q2 iid_def[symmetric] d2_def[symmetric]
          read_back_def)
    then show ?thesis
      using i2(2) kept synchronize_record_requests[of "rt_now rt2" iid d1]
      by (simp add: intents_kept_def d2_def)
  next
    case (replayed j t)
    then show ?thesis by (simp add: read_back_def split: option.splits)
  qed simp
qed

definition sample_request :: intake_request where
  "sample_request = \<lparr>iq_tenant_id = [], iq_submission_id = ''s'', iq_idempotency_key = ''key-0001'',
     iq_requested_by = (''user'', ''mallory''), iq_workflow_binding = None,
     iq_contract_family = ''action_intent'',
     iq_version_ref = ''open_execution_kernel.action_intent.finance.v1alpha1'',
     iq_kernel_action_intent = sample_intent @ [(''workflow_key'', JStr ''wire'')],
     iq_finance_routing_context = None, iq_evaluation_context = [], iq_client_tags = [],
     iq_external_reference = None\<rparr>"

definition sample_intake_db :: db where
  "sample_intake_db = empty_db\<lparr>tenants := [\<lparr>tn_tenant_id = [], tn_display_name = ''acme'',
       tn_status = TS_active, tn_finance_profile = FP_payments, tn_created_at = 0\<rparr>],
     policies := [sample_policy\<lparr>po_tenant_id := []\<rparr>], next_uuid := 3\<rparr>"

lemma sample_intake:
  "\<exists>i d1. intake (sample_rt 5) (\<lambda>_. []) (Some (''user'', ''alice'')) sample_request sample_intake_db =
     (Inr (i, False), d1) \<and> ai_decision_state i = approval_required \<and>
     ai_approval_requirement i \<noteq> None"
  by (simp add: intake_def bind_requester_def sample_request_def sample_intake_db_def get_tenant_def
      Let_def find_submission_def empty_db_def intake_new_def intake_workflow_key_def py_or_def
      jget_def sample_policy_simps or_empty_def validate_action_intent_def
      supported_action_intent_contracts_def evaluate_def build_intake_context_def hints_conflict_def
      intake_action_class_def get_active_policy_def py_in_def ordered_rules_stable rule_priority_def
      default_to_def evaluate_condition_def apply_operator_def source_of_def resolve_path_def
      ordered_def rule_trace_entry_def decision_state_of_def approval_requirement_for_rule_def
      evidence_requirement_for_rule_def num_cmp_def new_record_def initialize_approvals_def
      requests_of_def new_request_def expires_at_of_def sync_approval_state_def
      refresh_requests_of_def initialize_evidence_def read_back_def tinsert_def new_id_def
      sample_uuid_def str_or_def)

theorem intake_idempotent_witness:
  "\<exists>i d1 i2 d2.
     intake (sample_rt 5) (\<lambda>_. []) (Some (''user'', ''alice'')) sample_request sample_intake_db =
       (Inr (i, False), d1) \<and>
     intake (sample_rt 9) (\<lambda>_. []) None (sample_request\<lparr>iq_kernel_action_intent := []\<rparr>) d1 =
       (Inr (i2, True), d2) \<and> intent_core i2 = intent_core i"
proof -
  obtain i d1 where 1: "intake (sample_rt 5) (\<lambda>_. []) (Some (''user'', ''alice'')) sample_request
      sample_intake_db = (Inr (i, False), d1)"
    using sample_intake by blast
  have "tget ai_action_intent_record_id (new_id (sample_rt 5) sample_intake_db)
      (action_intents sample_intake_db) = None"
    by (simp add: sample_intake_db_def empty_db_def)
  from intake_idempotent[OF 1 this, of "sample_request\<lparr>iq_kernel_action_intent := []\<rparr>"
      "sample_rt 9" "\<lambda>_. []" None] 1
  show ?thesis by auto
qed

text \<open>
  The requester is the authenticated principal. A newly stored intent names as its requester
  the principal of the session, whoever the submitted body names, and the row returned is the row
  stored.
\<close>

theorem intake_binds_requester:
  assumes "intake rt schema (Some (ptype, pid)) request d = (Inr (i, False), d')"
    and "tget ai_action_intent_record_id (new_id rt d) (action_intents d) = None"
  shows "ai_requested_by_principal_type i = ptype \<and> ai_requested_by_principal_id i = pid \<and>
    requester_of (ai_action_intent_record_id i) d' = Some (ptype, pid)"
  using assms(1) refl
proof (cases rule: intake_cases)
  case (fresh t)
  from fresh(4) assms(2) show ?thesis
  proof (rule intake_new_row_core)
    fix i0 assume i0: "ai_action_intent_record_id i0 = new_id rt d"
      "(ai_requested_by_principal_type i0, ai_requested_by_principal_id i0) =
         iq_requested_by (bind_requester (Some (ptype, pid)) request)"
      "intent_core i = intent_core i0"
      "tget ai_action_intent_record_id (new_id rt d) (action_intents d') = Some i"
    then show ?thesis
      using intent_core_eqD(1,4,5)[OF i0(3)] by (simp add: bind_requester_def requester_of_def)
  qed
next
  case (replayed j t)
  then show ?thesis by (simp add: read_back_def split: option.splits)
qed simp

theorem intake_binds_requester_witness:
  "\<exists>i d1. intake (sample_rt 5) (\<lambda>_. []) (Some (''user'', ''alice'')) sample_request sample_intake_db =
     (Inr (i, False), d1) \<and> requester_of (ai_action_intent_record_id i) d1 = Some (''user'', ''alice'') \<and>
     iq_requested_by sample_request = (''user'', ''mallory'')"
proof -
  obtain i d1 where 1: "intake (sample_rt 5) (\<lambda>_. []) (Some (''user'', ''alice'')) sample_request
      sample_intake_db = (Inr (i, False), d1)"
    using sample_intake by blast
  then show ?thesis
    using intake_binds_requester[OF 1]
    by (simp add: sample_intake_db_def empty_db_def sample_request_def)
qed

lemma requests_of_modify:
  assumes "\<And>r. ar_action_intent_record_id (f r) = ar_action_intent_record_id r"
    and "approval_requests d' = tmodify ar_approval_request_id k f (approval_requests d)"
  shows "requests_of iid d' = map (\<lambda>r. if ar_approval_request_id r = k then f r else r) (requests_of iid d)"
proof -
  have "filter (\<lambda>r. ar_action_intent_record_id r = iid) (tmodify ar_approval_request_id k f t) =
      map (\<lambda>r. if ar_approval_request_id r = k then f r else r)
        (filter (\<lambda>r. ar_action_intent_record_id r = iid) t)" for t
    using assms(1) by (induction t) auto
  then show ?thesis by (simp add: requests_of_def assms(2))
qed

lemma requests_of_refresh:
  "requests_of iid (refresh_requests_of now iid d) = map (refresh_request now) (requests_of iid d)"
proof -
  have "filter (\<lambda>r. ar_action_intent_record_id r = iid)
      (map (\<lambda>r. if ar_action_intent_record_id r = iid then refresh_request now r else r) t) =
      map (refresh_request now) (filter (\<lambda>r. ar_action_intent_record_id r = iid) t)" for t
    by (induction t) auto
  then show ?thesis by (simp add: requests_of_def refresh_requests_of_def)
qed

lemma initialize_opens:
  assumes none: "requests_of iid d = []" and rq: "ai_approval_requirement i = Some rq"
    and iid: "iid = ai_action_intent_record_id i"
    and i: "tget ai_action_intent_record_id iid (action_intents d) = Some i"
    and ok: "initialize_approvals rt i d = (Inr rs, d')"
  shows "\<exists>r j. requests_of iid d' = [r] \<and> ar_decisions r = [] \<and>
      ar_status r \<in> {AR_pending, AR_expired} \<and>
      ar_required_decision_count r = max (rq_required_decision_count rq) 1 \<and>
      map aa_principal_id (ar_assignments r) = rq_eligible_principal_ids rq \<and>
      tget ai_action_intent_record_id iid (action_intents d') = Some j \<and>
      ai_approval_state j \<in> {AS_pending, AS_expired}"
proof -
  define r where "r = new_request rt i rq d"
  define r1 where "r1 = refresh_request (rt_now rt) r"
  define d1 where "d1 = used_id d\<lparr>approval_requests := tinsert r (approval_requests d)\<rparr>"
  define d2 where "d2 = sync_approval_state (rt_now rt) iid d1"
  define as where "as = map (\<lambda>(k, pid). new_assignment rt k (ar_approval_request_id r)
      (ai_tenant_id i) pid) (enumerate (next_uuid d1) (rq_eligible_principal_ids rq))"
  have dist: "distinct (rq_eligible_principal_ids rq)"
    using ok none by (simp add: initialize_approvals_def rq iid[symmetric] Let_def split: if_splits)
  have d': "d' = d2\<lparr>approval_requests := tmodify ar_approval_request_id (ar_approval_request_id r)
        (\<lambda>q. q\<lparr>ar_assignments := as\<rparr>) (approval_requests d2), next_uuid := next_uuid d2 + length as\<rparr>"
    using ok none dist unfolding initialize_approvals_def
    by (simp add: rq iid[symmetric] Let_def d2_def d1_def as_def r_def)
  have one: "requests_of iid d2 = [r1]"
    unfolding d2_def requests_of_sync requests_of_refresh
    using none by (simp add: requests_of_def d1_def tinsert_def r_def iid r1_def)
  have reqs: "requests_of iid d' = [r1\<lparr>ar_assignments := as\<rparr>]"
    using requests_of_modify[of "\<lambda>q. q\<lparr>ar_assignments := as\<rparr>" d' "ar_approval_request_id r" d2 iid]
    by (simp add: d' one) (simp add: r1_def)
  have st: "ar_status r1 \<in> {AR_pending, AR_expired}"
    by (simp add: r1_def refresh_request_def r_def)
  have "tget ai_action_intent_record_id iid (action_intents d') =
      Some (i\<lparr>ai_approval_state := approval_state_of (Some rq) [r1]\<rparr>)"
  proof -
    have "action_intents d1 = action_intents d" by (simp add: d1_def)
    then show ?thesis
      using i tget_intent_sync[of iid "rt_now rt" d1] one
      unfolding d2_def[symmetric] by (simp add: d' rq)
  qed
  moreover have "approval_state_of (Some rq) [r1] \<in> {AS_pending, AS_expired}"
    using st by (auto simp: approval_state_of_def)
  moreover have "map aa_principal_id as = rq_eligible_principal_ids rq"
    by (simp add: as_def new_assignment_def comp_def case_prod_beta)
  ultimately show ?thesis
    using reqs st by (auto simp: r1_def r_def new_request_def)
qed

text \<open>
  Intake opens the gates the decision asks for. A new intent without approval requirement has
  no approval request and needs none; one with a requirement (always the case when the decision is
  \<open>approval_required\<close>) has exactly one request, undecided, for at least one approval, assigned to
  exactly the eligible principals, and its approval state is not satisfied. The same holds for
  evidence: required evidence starts out pending.
\<close>

theorem intake_opens_gates:
  assumes ok: "intake rt schema session request d = (Inr (i, False), d')"
    and fresh: "tget ai_action_intent_record_id (new_id rt d) (action_intents d) = None"
      "requests_of (new_id rt d) d = []"
    and iid: "iid = ai_action_intent_record_id i"
  shows "(ai_decision_state i = approval_required \<longrightarrow> ai_approval_requirement i \<noteq> None) \<and>
    (ai_decision_state i = needs_evidence \<longrightarrow> ai_evidence_requirement i \<noteq> None) \<and>
    (case ai_approval_requirement i of
       None \<Rightarrow> requests_of iid d' = [] \<and> ai_approval_state i = AS_not_required
     | Some rq \<Rightarrow> ai_approval_state i \<in> {AS_pending, AS_expired} \<and>
         (\<exists>r. requests_of iid d' = [r] \<and> ar_decisions r = [] \<and>
            ar_status r \<in> {AR_pending, AR_expired} \<and>
            ar_required_decision_count r = max (rq_required_decision_count rq) 1 \<and>
            map aa_principal_id (ar_assignments r) = rq_eligible_principal_ids rq)) \<and>
    ai_evidence_state i = (if ai_evidence_requirement i = None then ES_not_required else ES_pending)"
  using ok refl
proof (cases rule: intake_cases)
  case (fresh t)
  from fresh(4) show ?thesis
  proof (cases rule: intake_new_cases)
    case (stored i0 v wk dec rs d2)
    define d1 where "d1 = used_id d\<lparr>action_intents := tinsert i0 (action_intents d)\<rparr>"
    have id0: "ai_action_intent_record_id i0 = new_id rt d" by (simp add: stored(1))
    have i0: "tget ai_action_intent_record_id (new_id rt d) (action_intents d1) = Some i0"
      using assms(2) by (simp add: d1_def tget_tinsert id0)
    have none: "requests_of (new_id rt d) d1 = []"
      using assms(3) by (simp add: requests_of_def d1_def)
    have i: "tget ai_action_intent_record_id (new_id rt d) (action_intents d') = Some i"
      using stored(5) by (auto simp: read_back_def split: option.splits)
    then obtain j where j: "tget ai_action_intent_record_id (new_id rt d) (action_intents d2) = Some j"
      and ij: "i = j\<lparr>ai_evidence_state :=
         (if ai_evidence_requirement j = None then ES_not_required else ES_pending)\<rparr>"
      by (auto simp: stored(4) initialize_evidence_def tget_tmodify)
    have init: "initialize_approvals rt i0 d1 = (Inr rs, d2)" using stored(3) by (simp add: d1_def)
    then have "intents_kept d1 d2" using initialize_approvals_kept[of d1 rt i0] by simp
    from intents_kept_get[OF this i0] have "intent_core j = intent_core i0" using j by simp
    note core = intent_core_eqD[OF this]
    have reqs: "requests_of (new_id rt d) d' = requests_of (new_id rt d) d2"
      by (simp add: stored(4) initialize_evidence_def requests_of_def)
    have idi: "iid = new_id rt d" using tgetD[OF i] iid by simp
    have gate: "case ai_approval_requirement i of
       None \<Rightarrow> requests_of iid d' = [] \<and> ai_approval_state i = AS_not_required
     | Some rq \<Rightarrow> ai_approval_state i \<in> {AS_pending, AS_expired} \<and>
         (\<exists>r. requests_of iid d' = [r] \<and> ar_decisions r = [] \<and>
            ar_status r \<in> {AR_pending, AR_expired} \<and>
            ar_required_decision_count r = max (rq_required_decision_count rq) 1 \<and>
            map aa_principal_id (ar_assignments r) = rq_eligible_principal_ids rq)"
    proof (cases "ai_approval_requirement i0")
      case None
      then have "d2 = d1\<lparr>action_intents := tmodify ai_action_intent_record_id (new_id rt d)
          (\<lambda>i. i\<lparr>ai_approval_state := AS_not_required\<rparr>) (action_intents d1)\<rparr>"
        using init by (simp add: initialize_approvals_def id0)
      moreover from this have "requests_of (new_id rt d) d2 = []"
        using none by (simp add: requests_of_def)
      ultimately show ?thesis
        using None core(7) j i0 by (auto simp: ij reqs idi tget_tmodify)
    next
      case (Some rq)
      from initialize_opens[OF none this id0[symmetric] i0 init] j show ?thesis
        using Some core(7) by (auto simp: ij reqs idi)
    qed
    have "ai_decision_state i = pd_state dec" "ai_approval_requirement i = pd_approval_requirement dec"
      "ai_evidence_requirement i = pd_evidence_requirement dec"
      using core(6,7,8) by (simp_all add: ij stored(1))
    then show ?thesis using gate stored(2) by (simp add: ij)
  qed simp
next
  case (replayed j t)
  then show ?thesis by (simp add: read_back_def split: option.splits)
qed simp

theorem intake_opens_gates_witness:
  "\<exists>i d1 r. intake (sample_rt 5) (\<lambda>_. []) (Some (''user'', ''alice'')) sample_request sample_intake_db =
     (Inr (i, False), d1) \<and> requests_of (ai_action_intent_record_id i) d1 = [r] \<and> ar_decisions r = []"
proof -
  obtain i d1 where 1: "intake (sample_rt 5) (\<lambda>_. []) (Some (''user'', ''alice'')) sample_request
      sample_intake_db = (Inr (i, False), d1)" and rq: "ai_approval_requirement i \<noteq> None"
    using sample_intake by blast
  have "requests_of (new_id (sample_rt 5) sample_intake_db) sample_intake_db = []"
    "tget ai_action_intent_record_id (new_id (sample_rt 5) sample_intake_db)
      (action_intents sample_intake_db) = None"
    by (simp_all add: sample_intake_db_def empty_db_def requests_of_def)
  from intake_opens_gates[OF 1 this(2,1) refl] rq 1 show ?thesis by (auto split: option.splits)
qed

section \<open>Invariants kept by intake\<close>

text \<open>Intents have fresh primary keys and one row per tenant and idempotency key.\<close>

abbreviation submission_key :: "action_intent_record \<Rightarrow> ident \<times> string" where
  "submission_key i \<equiv> (ai_tenant_id i, ai_idempotency_key i)"

definition intents_inv :: "(nat \<Rightarrow> ident) \<Rightarrow> db \<Rightarrow> bool" where
  "intents_inv U d \<longleftrightarrow> distinct (map ai_action_intent_record_id (action_intents d)) \<and>
     distinct (map submission_key (action_intents d)) \<and>
     (\<forall>k \<in> set (map ai_action_intent_record_id (action_intents d)). \<exists>n < next_uuid d. k = U n)"

lemma intents_inv_kept:
  assumes "intents_inv U d" "intents_kept d d'" "next_uuid d \<le> next_uuid d'"
  shows "intents_inv U d'"
  using assms(1,3) unfolding intents_inv_def intents_kept_ids[OF assms(2)] intents_kept_keys[OF assms(2)]
  by (meson order_less_le_trans)

lemma next_uuid_refreshed:
  "refreshed now d d' \<Longrightarrow> next_uuid d' = next_uuid d"
  "evidence_refreshed now d d' \<Longrightarrow> next_uuid d' = next_uuid d"
  unfolding refreshed_def evidence_refreshed_def by (elim exE conjE, simp)+

lemma next_uuid_initialize: "next_uuid d \<le> next_uuid (snd (initialize_approvals rt i d))"
  using next_uuid_refreshed(1)[OF refreshed_sync]
  by (auto simp: initialize_approvals_def Let_def split: option.splits)

lemma intents_inv_insert:
  assumes inv: "intents_inv U d" and U: "inj U" "rt_uuid rt = U"
    and new: "find_submission tid key d = None" "ai_tenant_id i = tid" "ai_idempotency_key i = key"
      "ai_action_intent_record_id i = new_id rt d"
  shows "intents_inv U (used_id d\<lparr>action_intents := tinsert i (action_intents d)\<rparr>)"
proof -
  have "new_id rt d \<noteq> U n" if "n < next_uuid d" for n
    using that U by (auto simp: new_id_def dest: injD)
  then have "ai_action_intent_record_id i \<notin> set (map ai_action_intent_record_id (action_intents d))"
    using inv new(4) unfolding intents_inv_def by metis
  moreover have "submission_key i \<notin> set (map submission_key (action_intents d))"
    using new by (auto simp: find_submission_def find_None_iff)
  moreover have "\<exists>n < Suc (next_uuid d). new_id rt d = U n" using U by (auto simp: new_id_def)
  ultimately show ?thesis
    using inv new(4) by (auto simp: intents_inv_def tinsert_def less_Suc_eq)
qed

lemma intent_fresh_of_inv:
  assumes "intents_inv U d" "inj U" "rt_uuid rt = U"
  shows "tget ai_action_intent_record_id (new_id rt d) (action_intents d) = None"
proof -
  have "new_id rt d \<noteq> U n" if "n < next_uuid d" for n
    using that assms(2,3) by (auto simp: new_id_def dest: injD)
  then have "new_id rt d \<notin> set (map ai_action_intent_record_id (action_intents d))"
    using assms(1) unfolding intents_inv_def by metis
  then show ?thesis unfolding tget_None by (metis image_eqI list.set_map)
qed

lemma approvals_inv_same:
  assumes "approvals_inv U d" "approval_requests d' = approval_requests d"
    "intent_requesters d' = intent_requesters d" "next_uuid d \<le> next_uuid d'"
  shows "approvals_inv U d'"
  using assms by (intro approvals_inv_map[OF assms(1), where g = id]) simp_all

lemma approvals_inv_add_intent:
  assumes inv: "approvals_inv U d"
  shows "approvals_inv U (used_id d\<lparr>action_intents := tinsert i (action_intents d)\<rparr>)"
    (is "approvals_inv U ?d")
proof -
  have "intent_requesters ?d = intent_requesters d @ [(ai_action_intent_record_id i,
      (ai_requested_by_principal_type i, ai_requested_by_principal_id i), ai_approval_requirement i)]"
    by (simp add: intent_requesters_def tinsert_def)
  then have "separated (intent_requesters d) r \<Longrightarrow> separated (intent_requesters ?d) r" for r
    by (auto simp: separated_def map_add_def map_of_append)
  then show ?thesis by (intro approvals_inv_map[OF inv, where g = id]) simp_all
qed

lemma sync_evidence_frame:
  "approval_requests (sync_evidence_state now iid d) = approval_requests d"
  "next_uuid (sync_evidence_state now iid d) = next_uuid d"
  "intent_requesters (sync_evidence_state now iid d) = intent_requesters d"
  using intents_kept_requesters[OF evidence_refreshed_intents_kept[OF evidence_refreshed_sync]]
  by (simp_all add: sync_evidence_state_def Let_def refresh_evidence_of_def)

lemma synchronize_record_approvals:
  assumes "approvals_inv U d"
  shows "approvals_inv U (synchronize_record now iid d)"
proof -
  have "approvals_inv U (sync_approval_state now iid d)"
    by (rule approvals_inv_refreshed[OF assms refreshed_sync])
  then show ?thesis
    unfolding synchronize_record_def
    by (rule approvals_inv_same) (use sync_evidence_frame in \<open>auto\<close>)
qed

lemma next_uuid_synchronize [simp]: "next_uuid (synchronize_record now iid d) = next_uuid d"
  using next_uuid_refreshed(1)[OF refreshed_sync[of now d iid]]
  by (simp add: synchronize_record_def sync_evidence_frame)

lemma synchronize_record_run: "requests_run d (synchronize_record now iid d)"
  unfolding synchronize_record_def
  by (rule requests_run_trans[OF requests_run_refreshed[OF refreshed_sync] requests_run_same])
     (simp add: sync_evidence_frame)

lemma initialize_evidence_frame:
  "approval_requests (initialize_evidence iid d) = approval_requests d"
  "next_uuid (initialize_evidence iid d) = next_uuid d"
  by (simp_all add: initialize_evidence_def)

text \<open>One intake keeps both invariants and lets every request run its life.\<close>

lemma intake_invariants:
  assumes U: "inj U" "rt_uuid rt = U" and inv: "intents_inv U d" "approvals_inv U d"
  shows "intents_inv U (snd (intake rt schema session request d)) \<and>
    approvals_inv U (snd (intake rt schema session request d)) \<and>
    requests_run d (snd (intake rt schema session request d))"
proof -
  obtain res d' where eq: "intake rt schema session request d = (res, d')" by force
  from eq refl have "intents_inv U d' \<and> approvals_inv U d' \<and> requests_run d d'"
  proof (cases rule: intake_cases)
    case (failed e)
    then show ?thesis using inv by simp
  next
    case (replayed i t)
    then show ?thesis
      using inv intents_inv_kept[OF inv(1) synchronize_record_kept]
      by (simp add: synchronize_record_approvals synchronize_record_run)
  next
    case (fresh t)
    from fresh(4) show ?thesis
    proof (cases rule: intake_new_cases)
      case (failed e)
      then show ?thesis using inv by simp
    next
      case (stored i v wk dec rs d2)
      define d1 where "d1 = used_id d\<lparr>action_intents := tinsert i (action_intents d)\<rparr>"
      have init: "d2 = snd (initialize_approvals rt i d1)" using stored(3) by (simp add: d1_def)
      have inv1: "intents_inv U d1" "approvals_inv U d1"
        unfolding d1_def using stored(1)
        by (auto intro: intents_inv_insert[OF inv(1) U fresh(3)] approvals_inv_add_intent[OF inv(2)])
      have "i \<in> set (action_intents d1)" by (simp add: d1_def)
      then have i1: "tget ai_action_intent_record_id (ai_action_intent_record_id i) (action_intents d1) = Some i"
        using inv1(1) by (intro tget_unique) (simp add: intents_inv_def)
      have inv2: "intents_inv U d2" "approvals_inv U d2" "requests_run d1 d2"
        unfolding init
        using intents_inv_kept[OF inv1(1) initialize_approvals_kept next_uuid_initialize]
          initialize_inv[OF inv1(2) U i1] initialize_run[OF inv1(2) U] by auto
      have "intents_inv U d'" "approvals_inv U d'"
        unfolding stored(4)
        using intents_inv_kept[OF inv2(1) initialize_evidence_kept]
          approvals_inv_same[OF inv2(2)]
          intents_kept_requesters[OF initialize_evidence_kept[of d2]]
        by (simp_all add: initialize_evidence_frame)
      moreover have "requests_run d d'"
        using requests_run_trans[OF _ requests_run_trans[OF inv2(3) requests_run_same]]
          requests_run_same[of d1 d] by (simp add: stored(4) initialize_evidence_frame d1_def)
      ultimately show ?thesis by simp
    qed
  qed
  then show ?thesis by (simp add: eq)
qed

end
