(* ===== verification/Signing.thy ===== *)
theory Signing
  imports ActionIntents "HOL-Library.List_Lexorder" "HOL-Library.Char_ord"
begin

text \<open>
  \<open>src/app/services/signing.py\<close>: signing key references, their lifecycle, the choice of a key and
  the signing of a proof payload. Ed25519 itself (the local key file, the KMS client and the key
  generation) is outside the sources: \<open>sv_sign\<close> is the signature of a canonical JSON text or the
  exception the signer raises.
\<close>

section \<open>Surroundings\<close>

record signing_env =
  sv_is_production :: bool
  sv_kms_endpoint :: bool
  sv_sign :: "json \<Rightarrow> error + string"

text \<open>\<open>str(exc)\<close> for the exceptions the services record.\<close>

fun exc_text :: "error \<Rightarrow> string" where
  "exc_text (SigningKeyNotFoundError m) = m"
| "exc_text (SigningKeyStateError m) = m"
| "exc_text (SigningConfigurationError m) = m"
| "exc_text (ProofIssuanceError m) = m"
| "exc_text (PyRuntimeError m) = m"
| "exc_text (PyValueError m) = m"
| "exc_text (PyTypeError m) = m"
| "exc_text (PyKeyError m) = m"
| "exc_text _ = []"

section \<open>Keys\<close>

definition validate_backend_algorithm :: "signing_key_backend \<Rightarrow> signing_algorithm \<Rightarrow> error option" where
  "validate_backend_algorithm b a =
     (if b = development_local_hmac
      then Some (SigningKeyStateError ''development_local_hmac backend has been REMOVED.'')
      else if b = external_managed_key \<and> a = hs256
      then Some (SigningKeyStateError ''external managed signing keys must use Ed25519 (EdDSA)'')
      else None)"

definition default_provider_key_ref :: "signing_key_backend \<Rightarrow> string" where
  "default_provider_key_ref b =
     (if b = development_local_hmac then ''dev-local-hmac'' else ''external-managed-key'')"

text \<open>\<open>_unset_other_defaults\<close>, on one row.\<close>

definition unset_other_default ::
  "ident \<Rightarrow> signing_key_purpose \<Rightarrow> ident \<Rightarrow> signing_key_reference \<Rightarrow> signing_key_reference" where
  "unset_other_default tid purpose except k =
     (if sk_tenant_id k = tid \<and> sk_key_purpose k = purpose \<and>
         sk_signing_key_reference_id k \<noteq> except \<and> sk_is_default k
      then k\<lparr>sk_is_default := False\<rparr> else k)"

record key_input =
  ki_tenant_id :: ident
  ki_display_name :: string
  ki_key_purpose :: signing_key_purpose
  ki_algorithm :: signing_algorithm
  ki_key_backend :: signing_key_backend
  ki_provider_key_ref :: "string option"
  ki_public_key_ref :: "string option"
  ki_issuer_name :: "string option"
  ki_issuer_uri :: "string option"
  ki_trust_tier :: "trust_tier option"
  ki_lifecycle_metadata :: dict
  ki_is_default :: bool

definition has_active_key :: "ident \<Rightarrow> signing_key_purpose \<Rightarrow> db \<Rightarrow> bool" where
  "has_active_key tid purpose d \<longleftrightarrow>
     list_ex (\<lambda>k. sk_tenant_id k = tid \<and> sk_key_purpose k = purpose \<and> sk_status k = SK_active)
       (signing_keys d)"

definition new_key :: "runtime \<Rightarrow> key_input \<Rightarrow> db \<Rightarrow> signing_key_reference" where
  "new_key rt q d =
     \<lparr>sk_signing_key_reference_id = new_id rt d, sk_tenant_id = ki_tenant_id q,
      sk_display_name = ki_display_name q,
      sk_issuer_name = the (str_or (ki_issuer_name q) (Some (proof_issuer_name (rt_settings rt)))),
      sk_issuer_uri = the (str_or (ki_issuer_uri q) (Some (proof_issuer_uri (rt_settings rt)))),
      sk_trust_tier = default_to (proof_issuer_trust_tier (rt_settings rt)) (ki_trust_tier q),
      sk_key_purpose = ki_key_purpose q, sk_algorithm = ki_algorithm q,
      sk_key_backend = ki_key_backend q,
      sk_provider_key_ref =
        the (str_or (ki_provider_key_ref q) (Some (default_provider_key_ref (ki_key_backend q)))),
      sk_public_key_ref = ki_public_key_ref q, sk_status = SK_active,
      sk_is_default = (ki_is_default q \<or> \<not> has_active_key (ki_tenant_id q) (ki_key_purpose q) d),
      sk_lifecycle_metadata = ki_lifecycle_metadata q, sk_activated_at = Some (rt_now rt),
      sk_suspended_at = None, sk_created_at = rt_now rt\<rparr>"

definition register_key ::
  "runtime \<Rightarrow> key_input \<Rightarrow> db \<Rightarrow> signing_key_reference result \<times> db" where
  "register_key rt q d =
     (case validate_backend_algorithm (ki_key_backend q) (ki_algorithm q) of
        Some e \<Rightarrow> (Inl e, d)
      | None \<Rightarrow>
          let k = new_key rt q d;
              others = (if sk_is_default k
                then map (unset_other_default (ki_tenant_id q) (ki_key_purpose q)
                       (sk_signing_key_reference_id k)) (signing_keys d)
                else signing_keys d)
          in (Inr k, used_id d\<lparr>signing_keys := tinsert k others\<rparr>))"

definition list_keys ::
  "ident option \<Rightarrow> signing_key_purpose option \<Rightarrow> signing_key_status option \<Rightarrow> db \<Rightarrow>
   signing_key_reference list" where
  "list_keys tid purpose st d =
     sort_key sk_created_at
       [k \<leftarrow> signing_keys d. (tid = None \<or> tid = Some (sk_tenant_id k)) \<and>
          (purpose = None \<or> purpose = Some (sk_key_purpose k)) \<and>
          (st = None \<or> st = Some (sk_status k))]"

definition get_key :: "ident \<Rightarrow> db \<Rightarrow> signing_key_reference result" where
  "get_key kid d =
     (case tget sk_signing_key_reference_id kid (signing_keys d) of
        None \<Rightarrow> Inl (SigningKeyNotFoundError ''signing key reference was not found'')
      | Some k \<Rightarrow> Inr k)"

definition set_key_active :: "time \<Rightarrow> signing_key_reference \<Rightarrow> signing_key_reference" where
  "set_key_active now k = k\<lparr>sk_status := SK_active, sk_activated_at := Some now,
     sk_suspended_at := None, sk_is_default := True\<rparr>"

definition activate_key :: "runtime \<Rightarrow> ident \<Rightarrow> db \<Rightarrow> signing_key_reference result \<times> db" where
  "activate_key rt kid d =
     (case get_key kid d of
        Inl e \<Rightarrow> (Inl e, d)
      | Inr k \<Rightarrow>
          if sk_status k \<in> {SK_revoked, SK_retired}
          then (Inl (SigningKeyStateError ''revoked or retired keys may not be reactivated''), d)
          else (Inr (set_key_active (rt_now rt) k),
                d\<lparr>signing_keys := tmodify sk_signing_key_reference_id kid (set_key_active (rt_now rt))
                    (map (unset_other_default (sk_tenant_id k) (sk_key_purpose k) kid)
                      (signing_keys d))\<rparr>))"

definition set_key_suspended :: "time \<Rightarrow> signing_key_reference \<Rightarrow> signing_key_reference" where
  "set_key_suspended now k = k\<lparr>sk_status := SK_suspended, sk_suspended_at := Some now,
     sk_is_default := False\<rparr>"

definition suspend_key :: "runtime \<Rightarrow> ident \<Rightarrow> db \<Rightarrow> signing_key_reference result \<times> db" where
  "suspend_key rt kid d =
     (case get_key kid d of
        Inl e \<Rightarrow> (Inl e, d)
      | Inr k \<Rightarrow>
          if sk_status k = SK_revoked
          then (Inl (SigningKeyStateError ''revoked keys may not be suspended''), d)
          else if sk_status k = SK_retired
          then (Inl (SigningKeyStateError ''retired keys may not be suspended''), d)
          else (Inr (set_key_suspended (rt_now rt) k),
                d\<lparr>signing_keys := tmodify sk_signing_key_reference_id kid
                    (set_key_suspended (rt_now rt)) (signing_keys d)\<rparr>))"

definition default_key :: "ident \<Rightarrow> signing_key_purpose \<Rightarrow> db \<Rightarrow> signing_key_reference option" where
  "default_key tid purpose d =
     find (\<lambda>k. sk_tenant_id k = tid \<and> sk_key_purpose k = purpose \<and> sk_status k = SK_active \<and>
        sk_is_default k) (signing_keys d)"

text \<open>
  \<open>rotate_signing_key\<close>: the generated key pair enters as its key identifier and its public key;
  saving the private key and publishing the key set are effects outside the database.
\<close>

definition rotate_signing_key ::
  "runtime \<Rightarrow> ident \<Rightarrow> signing_key_purpose \<Rightarrow> string \<Rightarrow> string \<Rightarrow> string option \<Rightarrow> string option \<Rightarrow>
   string option \<Rightarrow> trust_tier option \<Rightarrow> dict \<Rightarrow> db \<Rightarrow> signing_key_reference result \<times> db" where
  "rotate_signing_key rt tid purpose new_key_id public_key display_name issuer_name issuer_uri tier
     metadata d =
     (case default_key tid purpose d of
        None \<Rightarrow> (Inl (SigningKeyNotFoundError ''no default signing key is available to rotate for the requested tenant and purpose''), d)
      | Some old \<Rightarrow>
          register_key rt
            \<lparr>ki_tenant_id = tid,
             ki_display_name = the (str_or display_name (Some (''rotated-'' @ new_key_id))),
             ki_key_purpose = purpose, ki_algorithm = eddsa, ki_key_backend = external_managed_key,
             ki_provider_key_ref = Some (''local:'' @ new_key_id), ki_public_key_ref = Some public_key,
             ki_issuer_name = issuer_name, ki_issuer_uri = issuer_uri, ki_trust_tier = tier,
             ki_lifecycle_metadata = metadata @
               [(''rotated_from'', JStr (sk_signing_key_reference_id old)),
                (''rotation_key_id'', JStr new_key_id), (''rotated_at'', JInt (rt_now rt))],
             ki_is_default = True\<rparr> d)"

text \<open>\<open>current_public_key_set\<close>: the published descriptors, as (key id, public key, status, default).\<close>

definition current_public_key_set ::
  "ident \<Rightarrow> signing_key_purpose option \<Rightarrow> db \<Rightarrow>
   (ident \<times> string \<times> signing_algorithm \<times> signing_key_status \<times> bool \<times> signing_key_purpose) list" where
  "current_public_key_set tid purpose d =
     [(sk_signing_key_reference_id k, the (sk_public_key_ref k), sk_algorithm k, sk_status k,
       sk_is_default k, sk_key_purpose k).
        k \<leftarrow> list_keys (Some tid) purpose None d,
        sk_status k \<noteq> SK_revoked \<and> sk_public_key_ref k \<notin> {None, Some []}]"

section \<open>Choosing a key and signing\<close>

definition resolve_key ::
  "ident \<Rightarrow> signing_key_purpose \<Rightarrow> ident option \<Rightarrow> db \<Rightarrow> signing_key_reference result" where
  "resolve_key tid purpose kid d =
     (let found =
        (case kid of
           Some k \<Rightarrow> get_key k d
         | None \<Rightarrow>
             (case default_key tid purpose d of
                Some k \<Rightarrow> Inr k
              | None \<Rightarrow>
                  (case find (\<lambda>k. sk_tenant_id k = tid \<and> sk_key_purpose k = purpose \<and>
                          sk_status k = SK_active) (signing_keys d) of
                     Some k \<Rightarrow> Inr k
                   | None \<Rightarrow> Inl (SigningKeyNotFoundError
                       ''no active signing key is available for the requested tenant and purpose''))))
      in case found of
           Inl e \<Rightarrow> Inl e
         | Inr k \<Rightarrow>
             if sk_status k \<noteq> SK_active then Inl (SigningKeyStateError ''signing key is not active'')
             else if sk_tenant_id k \<noteq> tid
             then Inl (SigningKeyStateError ''signing key does not belong to the requested tenant'')
             else Inr k)"

definition sign_with_ed25519_backend :: "signing_env \<Rightarrow> json \<Rightarrow> string result" where
  "sign_with_ed25519_backend env payload =
     (if sv_is_production env \<and> \<not> sv_kms_endpoint env
      then Inl (SigningConfigurationError ''production environment requires ACTENON_KMS_ENDPOINT'')
      else sv_sign env payload)"

definition sign_bytes :: "signing_env \<Rightarrow> signing_key_reference \<Rightarrow> json \<Rightarrow> string result" where
  "sign_bytes env k payload =
     (if sk_key_backend k = development_local_hmac
      then Inl (SigningConfigurationError ''development_local_hmac signing has been REMOVED.'')
      else sign_with_ed25519_backend env payload)"

text \<open>
  \<open>sign_proof\<close>: the digest and the signature of the payload, or the exception; either way the
  signing operation it recorded stays in the session.
\<close>

definition sign_proof ::
  "runtime \<Rightarrow> signing_env \<Rightarrow> issued_proof \<Rightarrow> signing_key_reference \<Rightarrow> dict \<Rightarrow> db \<Rightarrow>
   (string \<times> string) result \<times> db" where
  "sign_proof rt env p k payload d =
     (if sk_status k \<noteq> SK_active then (Inl (SigningKeyStateError ''signing key is not active''), d)
      else
        let digest = rt_sha256_json rt (JObj payload);
            outcome = sign_bytes env k (JObj payload);
            op = \<lparr>so_signing_operation_id = new_id rt d, so_tenant_id = ip_tenant_id p,
                  so_issued_proof_id = ip_issued_proof_id p,
                  so_signing_key_reference_id = sk_signing_key_reference_id k,
                  so_algorithm = sk_algorithm k, so_key_backend = sk_key_backend k,
                  so_status = (case outcome of Inl _ \<Rightarrow> SO_failed | Inr _ \<Rightarrow> SO_completed),
                  so_payload_digest = digest,
                  so_signature = (case outcome of Inl _ \<Rightarrow> None | Inr s \<Rightarrow> Some s),
                  so_error_detail = (case outcome of Inl e \<Rightarrow> Some e | Inr _ \<Rightarrow> None),
                  so_completed_at = Some (rt_now rt)\<rparr>;
            d1 = used_id d\<lparr>signing_operations := tinsert op (signing_operations d)\<rparr>
        in (case outcome of Inl e \<Rightarrow> (Inl e, d1) | Inr s \<Rightarrow> (Inr (digest, s), d1)))"

section \<open>Lifecycle of a key\<close>

inductive key_step :: "signing_key_reference \<Rightarrow> signing_key_reference \<Rightarrow> bool" where
  key_lose_default: "key_step k (unset_other_default tid purpose except k)"
| key_activated: "sk_status k \<notin> {SK_revoked, SK_retired} \<Longrightarrow> key_step k (set_key_active now k)"
| key_suspended: "sk_status k \<notin> {SK_revoked, SK_retired} \<Longrightarrow> key_step k (set_key_suspended now k)"

definition status_step :: "signing_key_status \<Rightarrow> signing_key_status \<Rightarrow> bool" where
  "status_step s t \<longleftrightarrow> (\<exists>k k'. key_step k k' \<and> sk_status k = s \<and> sk_status k' = t)"

interpretation key_life: lifecycle status_step "\<lambda>s. s \<in> {SK_revoked, SK_retired}"
proof
  fix s t assume s: "s \<in> {SK_revoked, SK_retired}" and "status_step s t"
  then obtain k k' where "key_step k k'" "sk_status k = s" "sk_status k' = t"
    by (auto simp: status_step_def)
  then show "t = s"
    using s by (cases rule: key_step.cases) (auto simp: unset_other_default_def)
qed

section \<open>The key table\<close>

abbreviation same_slot :: "signing_key_reference \<Rightarrow> signing_key_reference \<Rightarrow> bool" where
  "same_slot k l \<equiv> sk_tenant_id k = sk_tenant_id l \<and> sk_key_purpose k = sk_key_purpose l"

definition keys_inv :: "(nat \<Rightarrow> ident) \<Rightarrow> db \<Rightarrow> bool" where
  "keys_inv U d \<longleftrightarrow> distinct (map sk_signing_key_reference_id (signing_keys d)) \<and>
     (\<forall>k \<in> set (signing_keys d). (\<exists>n < next_uuid d. sk_signing_key_reference_id k = U n) \<and>
        (sk_is_default k \<longrightarrow> sk_status k = SK_active) \<and>
        (\<forall>l \<in> set (signing_keys d). same_slot k l \<and>
           sk_signing_key_reference_id k \<noteq> sk_signing_key_reference_id l \<longrightarrow>
           \<not> (sk_is_default k \<and> sk_is_default l)))"

lemma keys_invD:
  assumes "keys_inv U d"
  shows "k \<in> set (signing_keys d) \<Longrightarrow> sk_is_default k \<Longrightarrow> sk_status k = SK_active"
    and "k \<in> set (signing_keys d) \<Longrightarrow> l \<in> set (signing_keys d) \<Longrightarrow> same_slot k l \<Longrightarrow>
      sk_signing_key_reference_id k \<noteq> sk_signing_key_reference_id l \<Longrightarrow>
      \<not> (sk_is_default k \<and> sk_is_default l)"
  using assms unfolding keys_inv_def by blast+

lemma unset_other_default_simps [simp]:
  "sk_signing_key_reference_id (unset_other_default t p x k) = sk_signing_key_reference_id k"
  "sk_tenant_id (unset_other_default t p x k) = sk_tenant_id k"
  "sk_key_purpose (unset_other_default t p x k) = sk_key_purpose k"
  "sk_status (unset_other_default t p x k) = sk_status k"
  "sk_public_key_ref (unset_other_default t p x k) = sk_public_key_ref k"
  "sk_created_at (unset_other_default t p x k) = sk_created_at k"
  "sk_is_default (unset_other_default t p x k) \<longleftrightarrow> sk_is_default k \<and>
     \<not> (sk_tenant_id k = t \<and> sk_key_purpose k = p \<and> sk_signing_key_reference_id k \<noteq> x)"
  by (auto simp: unset_other_default_def)

text \<open>Rewriting the rows keeps the invariant if defaults are only dropped, or moved to one row.\<close>

lemma keys_inv_map:
  assumes inv: "keys_inv U d" and d': "signing_keys d' = map g (signing_keys d)"
    "next_uuid d \<le> next_uuid d'"
    and keep: "\<And>k. sk_signing_key_reference_id (g k) = sk_signing_key_reference_id k"
      "\<And>k. sk_tenant_id (g k) = sk_tenant_id k" "\<And>k. sk_key_purpose (g k) = sk_key_purpose k"
    and act: "\<And>k. k \<in> set (signing_keys d) \<Longrightarrow> sk_is_default (g k) \<Longrightarrow> sk_status (g k) = SK_active"
    and dflt: "\<And>k l. k \<in> set (signing_keys d) \<Longrightarrow> l \<in> set (signing_keys d) \<Longrightarrow> same_slot k l \<Longrightarrow>
      sk_signing_key_reference_id k \<noteq> sk_signing_key_reference_id l \<Longrightarrow>
      \<not> (sk_is_default (g k) \<and> sk_is_default (g l))"
  shows "keys_inv U d'"
proof -
  have "distinct (map sk_signing_key_reference_id (signing_keys d'))"
    using inv by (simp add: keys_inv_def d' comp_def keep)
  moreover have "\<exists>n < next_uuid d'. sk_signing_key_reference_id (g k) = U n"
    if "k \<in> set (signing_keys d)" for k
    using inv that d'(2) unfolding keys_inv_def keep by (meson less_le_trans)
  ultimately show ?thesis
    using act dflt unfolding keys_inv_def d'(1) by (auto simp: keep)
qed

lemma keys_inv_insert:
  assumes inv: "keys_inv U d" and k: "sk_signing_key_reference_id k = U n" "n < next_uuid d"
    and fresh: "\<And>l. l \<in> set (signing_keys d) \<Longrightarrow> sk_signing_key_reference_id l \<noteq> U n"
    and act: "sk_status k = SK_active"
    and only: "\<And>l. l \<in> set (signing_keys d) \<Longrightarrow> same_slot k l \<Longrightarrow> \<not> (sk_is_default k \<and> sk_is_default l)"
  shows "keys_inv U (d\<lparr>signing_keys := tinsert k (signing_keys d)\<rparr>)" (is "keys_inv U ?d")
  unfolding keys_inv_def
proof (intro conjI ballI impI)
  show "distinct (map sk_signing_key_reference_id (signing_keys ?d))"
    using inv fresh k(1) by (auto simp: keys_inv_def tinsert_def)
next
  fix l assume "l \<in> set (signing_keys ?d)"
  then show "\<exists>n < next_uuid ?d. sk_signing_key_reference_id l = U n"
    using inv k by (auto simp: keys_inv_def)
next
  fix l assume "l \<in> set (signing_keys ?d)" "sk_is_default l"
  then show "sk_status l = SK_active" using keys_invD(1)[OF inv] act by auto
next
  fix l m assume "l \<in> set (signing_keys ?d)" "m \<in> set (signing_keys ?d)" "same_slot l m \<and>
    sk_signing_key_reference_id l \<noteq> sk_signing_key_reference_id m"
  then show "\<not> (sk_is_default l \<and> sk_is_default m)"
    using keys_invD(2)[OF inv, of l m] only[of l] only[of m] by auto
qed

lemma register_key_inv:
  assumes inv: "keys_inv U d" and U: "inj U" "rt_uuid rt = U"
  shows "keys_inv U (snd (register_key rt q d))"
proof (cases "validate_backend_algorithm (ki_key_backend q) (ki_algorithm q)")
  case None
  define k where "k = new_key rt q d"
  define g where "g = (if sk_is_default k then unset_other_default (ki_tenant_id q)
    (ki_key_purpose q) (sk_signing_key_reference_id k) else id)"
  define d1 where "d1 = used_id d\<lparr>signing_keys := map g (signing_keys d)\<rparr>"
  have d': "snd (register_key rt q d) = d1\<lparr>signing_keys := tinsert k (signing_keys d1)\<rparr>"
    by (simp add: register_key_def None Let_def k_def[symmetric] d1_def g_def)
  have k: "sk_signing_key_reference_id k = U (next_uuid d)" "sk_tenant_id k = ki_tenant_id q"
    "sk_key_purpose k = ki_key_purpose q" "sk_status k = SK_active"
    using U by (simp_all add: k_def new_key_def new_id_def)
  have drop: "sk_is_default (g l) \<Longrightarrow> sk_is_default l" "sk_status (g l) = sk_status l"
    "sk_signing_key_reference_id (g l) = sk_signing_key_reference_id l"
    "sk_tenant_id (g l) = sk_tenant_id l" "sk_key_purpose (g l) = sk_key_purpose l" for l
    by (auto simp: g_def split: if_splits)
  have inv1: "keys_inv U d1"
    by (rule keys_inv_map[OF inv, where g = g])
       (use keys_invD[OF inv] drop in \<open>auto simp: d1_def\<close>)
  have fresh: "sk_signing_key_reference_id l \<noteq> U (next_uuid d)" if "l \<in> set (signing_keys d1)" for l
    using inv U that unfolding keys_inv_def
    by (auto simp: d1_def g_def dest!: bspec dest: injD split: if_splits)
  have only: "\<not> (sk_is_default k \<and> sk_is_default l)"
    if "l \<in> set (signing_keys d1)" "same_slot k l" for l
  proof
    assume both: "sk_is_default k \<and> sk_is_default l"
    have "l \<in> g ` set (signing_keys d)" using that(1) by (simp add: d1_def)
    then obtain m where m: "l = g m" by blast
    have "sk_signing_key_reference_id m \<noteq> sk_signing_key_reference_id k"
      "sk_tenant_id m = ki_tenant_id q" "sk_key_purpose m = ki_key_purpose q"
      using fresh[OF that(1)] that(2) k by (simp_all add: m drop)
    then show False using both by (auto simp: m g_def)
  qed
  have "next_uuid d < next_uuid d1" by (simp add: d1_def)
  then show ?thesis
    unfolding d'
    by (rule keys_inv_insert[OF inv1 k(1)]) (use fresh only k in auto)
qed (use inv in \<open>simp add: register_key_def\<close>)

lemma rotate_key_inv:
  assumes "keys_inv U d" "inj U" "rt_uuid rt = U"
  shows "keys_inv U (snd (rotate_signing_key rt tid p nk pk dn iname iuri tier md d))"
  using register_key_inv[OF assms] assms(1)
  by (simp add: rotate_signing_key_def split: option.splits)

lemma activate_key_inv:
  assumes inv: "keys_inv U d"
  shows "keys_inv U (snd (activate_key rt kid d))"
proof (cases "tget sk_signing_key_reference_id kid (signing_keys d)")
  case (Some k)
  have k: "k \<in> set (signing_keys d)" "sk_signing_key_reference_id k = kid"
    using tgetD[OF Some] by auto
  show ?thesis
  proof (cases "sk_status k \<in> {SK_revoked, SK_retired}")
    case False
    define g where "g l = (if sk_signing_key_reference_id l = kid
      then set_key_active (rt_now rt) (unset_other_default (sk_tenant_id k) (sk_key_purpose k) kid l)
      else unset_other_default (sk_tenant_id k) (sk_key_purpose k) kid l)" for l
    have d': "signing_keys (snd (activate_key rt kid d)) = map g (signing_keys d)"
      "next_uuid (snd (activate_key rt kid d)) = next_uuid d"
      using False by (auto simp: activate_key_def get_key_def Some tmodify_def g_def)
    have same: "l = k" if "l \<in> set (signing_keys d)" "sk_signing_key_reference_id l = kid" for l
      using inv that k by (auto simp: keys_inv_def intro: distinct_key_eq)
    show ?thesis
    proof (rule keys_inv_map[OF inv d'(1)])
      fix l m assume lm: "l \<in> set (signing_keys d)" "m \<in> set (signing_keys d)" "same_slot l m"
        "sk_signing_key_reference_id l \<noteq> sk_signing_key_reference_id m"
      then have "\<not> (sk_is_default l \<and> sk_is_default m)" using keys_invD(2)[OF inv] by blast
      then show "\<not> (sk_is_default (g l) \<and> sk_is_default (g m))"
        using lm same[of l] same[of m] by (auto simp: g_def set_key_active_def)
    next
      fix l assume "l \<in> set (signing_keys d)" "sk_is_default (g l)"
      then show "sk_status (g l) = SK_active"
        using keys_invD(1)[OF inv, of l] by (auto simp: g_def set_key_active_def split: if_splits)
    qed (simp_all add: d'(2) g_def set_key_active_def)
  qed (use inv in \<open>auto simp: activate_key_def get_key_def Some\<close>)
qed (use inv in \<open>simp add: activate_key_def get_key_def\<close>)

lemma suspend_key_inv:
  assumes inv: "keys_inv U d"
  shows "keys_inv U (snd (suspend_key rt kid d))"
proof (cases "tget sk_signing_key_reference_id kid (signing_keys d)")
  case (Some k)
  define g where "g l = (if sk_signing_key_reference_id l = kid
      then set_key_suspended (rt_now rt) l else l)" for l :: signing_key_reference
  have drop: "sk_is_default (g l) \<Longrightarrow> sk_is_default l \<and> sk_status (g l) = sk_status l"
    "sk_signing_key_reference_id (g l) = sk_signing_key_reference_id l"
    "sk_tenant_id (g l) = sk_tenant_id l" "sk_key_purpose (g l) = sk_key_purpose l" for l
    by (auto simp: g_def set_key_suspended_def split: if_splits)
  have upd: "keys_inv U (d\<lparr>signing_keys := map g (signing_keys d)\<rparr>)"
    by (rule keys_inv_map[OF inv, where g = g]) (use keys_invD[OF inv] drop in auto)
  have "snd (suspend_key rt kid d) = d \<or>
      snd (suspend_key rt kid d) = d\<lparr>signing_keys := map g (signing_keys d)\<rparr>"
    by (simp add: suspend_key_def get_key_def Some tmodify_def g_def[abs_def])
  then show ?thesis using inv upd by auto
qed (use inv in \<open>simp add: suspend_key_def get_key_def\<close>)

lemma public_key_set_iff:
  "e \<in> set (current_public_key_set tid p d) \<longleftrightarrow>
     (\<exists>k \<in> set (list_keys (Some tid) p None d). sk_status k \<noteq> SK_revoked \<and>
        sk_public_key_ref k \<notin> {None, Some []} \<and>
        e = (sk_signing_key_reference_id k, the (sk_public_key_ref k), sk_algorithm k, sk_status k,
          sk_is_default k, sk_key_purpose k))"
  unfolding current_public_key_set_def by auto

section \<open>Properties\<close>

inductive key_op :: "(nat \<Rightarrow> ident) \<Rightarrow> db \<Rightarrow> db \<Rightarrow> bool" for U where
  op_register: "rt_uuid rt = U \<Longrightarrow> key_op U d (snd (register_key rt q d))"
| op_activate: "key_op U d (snd (activate_key rt kid d))"
| op_suspend: "key_op U d (snd (suspend_key rt kid d))"
| op_rotate: "rt_uuid rt = U \<Longrightarrow>
    key_op U d (snd (rotate_signing_key rt tid p nk pk dn iname iuri tier md d))"

lemma key_op_inv: "key_op U d d' \<Longrightarrow> inj U \<Longrightarrow> keys_inv U d \<Longrightarrow> keys_inv U d'"
  by (induction rule: key_op.induct)
     (auto intro: register_key_inv activate_key_inv suspend_key_inv rotate_key_inv)

lemma key_op_run_inv: "(key_op U)\<^sup>*\<^sup>* d d' \<Longrightarrow> inj U \<Longrightarrow> keys_inv U d \<Longrightarrow> keys_inv U d'"
  by (induction rule: rtranclp_induct) (auto intro: key_op_inv)

text \<open>
  The default key is unambiguous. However keys are registered, activated, suspended and
  rotated, a tenant has at most one default key per purpose, and that key is active: the query for
  the default key returns it and nothing else.
\<close>

theorem default_key_unique:
  assumes "inj U" "(key_op U)\<^sup>*\<^sup>* empty_db d" "k \<in> set (signing_keys d)" "sk_is_default k"
  shows "default_key (sk_tenant_id k) (sk_key_purpose k) d = Some k \<and> sk_status k = SK_active"
proof -
  have "keys_inv U empty_db" by (simp add: keys_inv_def empty_db_def)
  then have inv: "keys_inv U d" using key_op_run_inv assms(1,2) by blast
  have act: "sk_status k = SK_active" using keys_invD(1)[OF inv assms(3,4)] .
  obtain l where l: "default_key (sk_tenant_id k) (sk_key_purpose k) d = Some l"
    using assms(3,4) act by (cases "default_key (sk_tenant_id k) (sk_key_purpose k) d")
      (auto simp: default_key_def find_None_iff)
  then have "l \<in> set (signing_keys d)" "same_slot k l" "sk_is_default l"
    by (auto simp: default_key_def find_Some_iff)
  then have "sk_signing_key_reference_id k = sk_signing_key_reference_id l"
    using keys_invD(2)[OF inv assms(3)] assms(4) by blast
  then have "k = l"
    using inv assms(3) \<open>l \<in> set (signing_keys d)\<close> by (auto simp: keys_inv_def intro: distinct_key_eq)
  then show ?thesis using l act by simp
qed

definition sample_key_input :: key_input where
  "sample_key_input = \<lparr>ki_tenant_id = ''t'', ki_display_name = ''k'', ki_key_purpose = pccb_signing,
     ki_algorithm = eddsa, ki_key_backend = external_managed_key, ki_provider_key_ref = None,
     ki_public_key_ref = Some ''pk'', ki_issuer_name = None, ki_issuer_uri = None,
     ki_trust_tier = None, ki_lifecycle_metadata = [], ki_is_default = False\<rparr>"

definition sample_key_db :: db where
  "sample_key_db = snd (register_key (sample_rt 1) sample_key_input empty_db)"

lemma sample_key_db_eq:
  "signing_keys sample_key_db = [\<lparr>sk_signing_key_reference_id = [], sk_tenant_id = ''t'',
     sk_display_name = ''k'', sk_issuer_name = ''Actenon Cloud'',
     sk_issuer_uri = ''https://actenon-cloud.local/issuer'', sk_trust_tier = TT_development_local,
     sk_key_purpose = pccb_signing, sk_algorithm = eddsa, sk_key_backend = external_managed_key,
     sk_provider_key_ref = ''external-managed-key'', sk_public_key_ref = Some ''pk'',
     sk_status = SK_active, sk_is_default = True, sk_lifecycle_metadata = [],
     sk_activated_at = Some 1, sk_suspended_at = None, sk_created_at = 1\<rparr>]"
  by (simp add: sample_key_db_def register_key_def validate_backend_algorithm_def sample_key_input_def
      Let_def new_key_def empty_db_def tinsert_def new_id_def sample_uuid_def str_or_def
      has_active_key_def default_to_def default_provider_key_ref_def sample_settings_def)

lemma sample_key_run: "(key_op sample_uuid)\<^sup>*\<^sup>* empty_db sample_key_db"
  unfolding sample_key_db_def
  by (rule r_into_rtranclp[where r = "key_op sample_uuid"], rule op_register) simp

theorem default_key_unique_witness:
  "default_key ''t'' pccb_signing sample_key_db = Some (hd (signing_keys sample_key_db))"
  using default_key_unique[OF inj_sample_uuid sample_key_run, of "hd (signing_keys sample_key_db)"]
  by (simp add: sample_key_db_eq)

text \<open>
  Rotation. After a successful rotation the new key is the default of its tenant and purpose,
  the old default is still active but no longer default, and every public key published before is
  still published, so what was signed earlier stays verifiable.
\<close>

theorem rotate_key_effect:
  assumes inv: "inj U" "(key_op U)\<^sup>*\<^sup>* empty_db d" "rt_uuid rt = U"
    and rot: "rotate_signing_key rt tid p nk pk dn iname iuri tier md d = (Inr k, d')"
  shows "default_key tid p d' = Some k \<and> sk_public_key_ref k = Some pk \<and>
    (\<exists>old. default_key tid p d = Some old \<and> old\<lparr>sk_is_default := False\<rparr> \<in> set (signing_keys d')) \<and>
    (\<forall>e \<in> set (current_public_key_set tid' p' d). \<exists>e' \<in> set (current_public_key_set tid' p' d').
       fst e' = fst e \<and> fst (snd e') = fst (snd e))"
proof -
  obtain old where old: "default_key tid p d = Some old"
    using rot by (auto simp: rotate_signing_key_def split: option.splits)
  define q where "q = \<lparr>ki_tenant_id = tid,
             ki_display_name = the (str_or dn (Some (''rotated-'' @ nk))),
             ki_key_purpose = p, ki_algorithm = eddsa, ki_key_backend = external_managed_key,
             ki_provider_key_ref = Some (''local:'' @ nk), ki_public_key_ref = Some pk,
             ki_issuer_name = iname, ki_issuer_uri = iuri, ki_trust_tier = tier,
             ki_lifecycle_metadata = md @
               [(''rotated_from'', JStr (sk_signing_key_reference_id old)),
                (''rotation_key_id'', JStr nk), (''rotated_at'', JInt (rt_now rt))],
             ki_is_default = True\<rparr>"
  have reg: "register_key rt q d = (Inr k, d')"
    using rot by (simp add: rotate_signing_key_def old q_def)
  have keys0: "keys_inv U empty_db" by (simp add: keys_inv_def empty_db_def)
  have invd: "keys_inv U d" using key_op_run_inv[OF inv(2,1) keys0] .
  have invd': "keys_inv U d'" using register_key_inv[OF invd inv(1,3), of q] reg by simp
  let ?g = "unset_other_default tid p (sk_signing_key_reference_id k)"
  have k: "k = new_key rt q d" and d': "signing_keys d' = tinsert k (map ?g (signing_keys d))"
    using reg by (auto simp: register_key_def validate_backend_algorithm_def q_def Let_def new_key_def)
  have kf: "sk_tenant_id k = tid" "sk_key_purpose k = p" "sk_status k = SK_active" "sk_is_default k"
    "sk_public_key_ref k = Some pk" "sk_signing_key_reference_id k = U (next_uuid d)"
    using inv(3) by (simp_all add: k new_key_def q_def new_id_def)
  have run: "(key_op U)\<^sup>*\<^sup>* empty_db d'"
    using rtranclp.rtrancl_into_rtrancl[OF inv(2) op_rotate[OF inv(3), of d tid p nk pk dn iname iuri tier md]]
      rot by simp
  have "find (\<lambda>x. sk_tenant_id x = tid \<and> sk_key_purpose x = p \<and> sk_status x = SK_active \<and>
      sk_is_default x) (signing_keys d') = Some k"
  proof -
    obtain l where l: "find (\<lambda>x. sk_tenant_id x = tid \<and> sk_key_purpose x = p \<and>
        sk_status x = SK_active \<and> sk_is_default x) (signing_keys d') = Some l"
      using kf by (cases "find (\<lambda>x. sk_tenant_id x = tid \<and> sk_key_purpose x = p \<and>
        sk_status x = SK_active \<and> sk_is_default x) (signing_keys d')") (auto simp: find_None_iff d')
    then have lf: "l \<in> set (signing_keys d')" "sk_tenant_id l = tid" "sk_key_purpose l = p" "sk_is_default l"
      by (auto simp: find_Some_iff)
    have km: "k \<in> set (signing_keys d')" by (simp add: d')
    have "sk_signing_key_reference_id k = sk_signing_key_reference_id l"
      using keys_invD(2)[OF invd' km lf(1)] kf lf by auto
    then have "k = l" using invd' km lf(1) by (auto simp: keys_inv_def intro: distinct_key_eq)
    then show ?thesis using l by simp
  qed
  then have dk: "default_key tid p d' = Some k" by (simp add: default_key_def)
  have oldm: "old \<in> set (signing_keys d)" "sk_tenant_id old = tid" "sk_key_purpose old = p" "sk_is_default old"
    using old by (auto simp: default_key_def find_Some_iff)
  then obtain n where "n < next_uuid d" "sk_signing_key_reference_id old = U n"
    using invd unfolding keys_inv_def by blast
  then have "sk_signing_key_reference_id old \<noteq> sk_signing_key_reference_id k"
    using kf(6) inv(1) by (auto dest: injD)
  then have "?g old = old\<lparr>sk_is_default := False\<rparr>" using oldm by (simp add: unset_other_default_def)
  then have "old\<lparr>sk_is_default := False\<rparr> \<in> set (signing_keys d')" using oldm(1) by (force simp: d')
  moreover have "\<forall>e \<in> set (current_public_key_set tid' p' d). \<exists>e' \<in> set (current_public_key_set tid' p' d').
       fst e' = fst e \<and> fst (snd e') = fst (snd e)"
  proof
    fix e assume "e \<in> set (current_public_key_set tid' p' d)"
    then obtain x where x: "x \<in> set (list_keys (Some tid') p' None d)" "sk_status x \<noteq> SK_revoked"
      "sk_public_key_ref x \<notin> {None, Some []}" "fst e = sk_signing_key_reference_id x"
      "fst (snd e) = the (sk_public_key_ref x)"
      unfolding public_key_set_iff by auto
    then have "?g x \<in> set (list_keys (Some tid') p' None d')"
      by (auto simp: list_keys_def d')
    then have "(sk_signing_key_reference_id (?g x), the (sk_public_key_ref (?g x)), sk_algorithm (?g x),
        sk_status (?g x), sk_is_default (?g x), sk_key_purpose (?g x)) \<in>
        set (current_public_key_set tid' p' d')"
      unfolding public_key_set_iff using x(2,3) by (intro bexI[of _ "?g x"]) simp_all
    then show "\<exists>e' \<in> set (current_public_key_set tid' p' d').
        fst e' = fst e \<and> fst (snd e') = fst (snd e)"
      using x(4,5) by (intro bexI) auto
  qed
  ultimately show ?thesis using dk kf(5) old by blast
qed

theorem rotate_key_effect_witness:
  "\<exists>k d'. rotate_signing_key (sample_rt 2) ''t'' pccb_signing ''nk'' ''pk2'' None None None None []
      sample_key_db = (Inr k, d') \<and> default_key ''t'' pccb_signing d' = Some k"
proof -
  obtain k d' where r: "rotate_signing_key (sample_rt 2) ''t'' pccb_signing ''nk'' ''pk2'' None None None
      None [] sample_key_db = (Inr k, d')"
    by (simp add: rotate_signing_key_def default_key_def sample_key_db_eq register_key_def
        validate_backend_algorithm_def Let_def)
  from rotate_key_effect[OF inj_sample_uuid sample_key_run _ this] this show ?thesis by simp
qed

end
