(* ===== verification/Issuance.thy ===== *)
theory Issuance
  imports Signing
begin

text \<open>
  \<open>src/app/services/issuance.py\<close>: the issuance of a proof for an action intent. The partial unique
  index on active proofs is checked where the row is flushed. The nonce is drawn from the supply of
  fresh identifiers; the ISO text of an instant inside a payload is represented by its number.
\<close>

section \<open>Wire values\<close>

fun trust_tier_value :: "trust_tier \<Rightarrow> string" where
  "trust_tier_value TT_development_local = ''development_local''"
| "trust_tier_value TT_tenant_managed = ''tenant_managed''"
| "trust_tier_value TT_platform_managed = ''platform_managed''"

fun proof_kind_value :: "proof_kind \<Rightarrow> string" where
  "proof_kind_value pccb = ''pccb''"

fun approval_state_value :: "approval_state \<Rightarrow> string" where
  "approval_state_value AS_not_started = ''not_started''"
| "approval_state_value AS_not_required = ''not_required''"
| "approval_state_value AS_pending = ''pending''"
| "approval_state_value AS_satisfied = ''satisfied''"
| "approval_state_value AS_rejected = ''rejected''"
| "approval_state_value AS_expired = ''expired''"
| "approval_state_value AS_canceled = ''canceled''"

fun evidence_state_value :: "evidence_state \<Rightarrow> string" where
  "evidence_state_value ES_not_required = ''not_required''"
| "evidence_state_value ES_pending = ''pending''"
| "evidence_state_value ES_satisfied = ''satisfied''"
| "evidence_state_value ES_expired = ''expired''"
| "evidence_state_value ES_canceled = ''canceled''"

section \<open>Eligibility\<close>

record eligibility =
  el_eligible :: bool
  el_reason :: "string option"
  el_trace :: "issuance_check list"

definition contract_valid :: "action_intent_record \<Rightarrow> bool" where
  "contract_valid i \<longleftrightarrow> ai_contract_validation_status i = CV_valid"

definition decision_permitted :: "action_intent_record \<Rightarrow> bool" where
  "decision_permitted i \<longleftrightarrow> ai_decision_state i \<notin> {deny, structurally_non_executable}"

definition approval_satisfied :: "action_intent_record \<Rightarrow> bool" where
  "approval_satisfied i \<longleftrightarrow> ai_approval_requirement i = None \<or> ai_approval_state i = AS_satisfied"

definition evidence_satisfied :: "action_intent_record \<Rightarrow> bool" where
  "evidence_satisfied i \<longleftrightarrow> ai_evidence_requirement i = None \<or> ai_evidence_state i = ES_satisfied"

definition evaluate_eligibility :: "action_intent_record \<Rightarrow> eligibility" where
  "evaluate_eligibility i =
     (let checks =
        [(''contract_validation'', contract_valid i, ''Action Intent contract validation is not valid''),
         (''policy_decision'', decision_permitted i, ''policy result does not permit proof issuance''),
         (''approval_state'', approval_satisfied i, ''required approvals are not satisfied''),
         (''evidence_state'', evidence_satisfied i, ''required evidence is not satisfied'')];
          failures = [m. (c, ok, m) \<leftarrow> checks, \<not> ok]
      in \<lparr>el_eligible = (failures = []),
          el_reason = (if failures = [] then None else Some (join_str ''; '' failures)),
          el_trace = [\<lparr>ic_check = c, ic_passed = ok\<rparr>. (c, ok, m) \<leftarrow> checks]\<rparr>)"

section \<open>Proof rows\<close>

definition proof_expires :: "time \<Rightarrow> issued_proof \<Rightarrow> bool" where
  "proof_expires now p \<longleftrightarrow> ip_status p = PI_issued \<and> ip_expires_at p \<le> now"

definition refresh_proof :: "time \<Rightarrow> issued_proof \<Rightarrow> issued_proof" where
  "refresh_proof now p = (if proof_expires now p then p\<lparr>ip_status := PI_expired\<rparr> else p)"

text \<open>The columns of the index \<open>uq_issued_proofs_active_idempotency\<close>.\<close>

type_synonym proof_key = "ident \<times> ident \<times> proof_kind \<times> string \<times> string \<times> string"

definition proof_key :: "issued_proof \<Rightarrow> proof_key" where
  "proof_key p = (ip_tenant_id p, ip_action_intent_record_id p, ip_proof_kind p, ip_audience p,
     ip_scope_hash p, ip_action_intent_digest p)"

text \<open>\<open>_find_existing_proof\<close>: an overdue proof is expired in the session and not replayed.\<close>

definition find_existing_proof :: "time \<Rightarrow> proof_key \<Rightarrow> db \<Rightarrow> issued_proof option \<times> db" where
  "find_existing_proof now key d =
     (case find (\<lambda>p. proof_key p = key \<and> ip_status p = PI_issued) (issued_proofs d) of
        None \<Rightarrow> (None, d)
      | Some p \<Rightarrow>
          if proof_expires now p
          then (None, d\<lparr>issued_proofs := tmodify ip_issued_proof_id (ip_issued_proof_id p)
                   (refresh_proof now) (issued_proofs d)\<rparr>)
          else (Some p, d))"

text \<open>Whether inserting an active row violates the partial unique index.\<close>

definition active_conflict :: "proof_key \<Rightarrow> db \<Rightarrow> bool" where
  "active_conflict key d \<longleftrightarrow>
     list_ex (\<lambda>p. proof_key p = key \<and> ip_status p \<in> {PI_requested, PI_issued}) (issued_proofs d)"

record issue_request =
  ir_proof_kind :: proof_kind
  ir_audience :: string
  ir_scope :: "string list"
  ir_expires_in_seconds :: "int option"
  ir_requested_by :: "string \<times> ident"
  ir_signing_key_reference_id :: "ident option"

definition normalized_scope :: "string list \<Rightarrow> string list" where
  "normalized_scope scope = sort (remdups scope)"

definition scope_hash_of :: "runtime \<Rightarrow> string list \<Rightarrow> string" where
  "scope_hash_of rt scope = rt_sha256_json rt (JList (map JStr scope))"

text \<open>\<open>expires_in_seconds or settings.proof_default_ttl_seconds\<close>.\<close>

definition requested_ttl :: "runtime \<Rightarrow> int option \<Rightarrow> int" where
  "requested_ttl rt ttl =
     (case ttl of None \<Rightarrow> proof_default_ttl_seconds (rt_settings rt)
      | Some n \<Rightarrow> if n = 0 then proof_default_ttl_seconds (rt_settings rt) else n)"

definition build_proof_payload :: "runtime \<Rightarrow> issued_proof \<Rightarrow> action_intent_record \<Rightarrow> dict" where
  "build_proof_payload rt p i =
     [(''proof_kind'', JStr (proof_kind_value (ip_proof_kind p))),
      (''issuer'', JObj [(''name'', JStr (ip_issuer_name p)), (''uri'', JStr (ip_issuer_uri p)),
         (''trust_tier'', JStr (trust_tier_value (ip_trust_tier p)))]),
      (''subject'', JObj [(''tenant_id'', JStr (ai_tenant_id i)),
         (''action_intent_record_id'', JStr (ai_action_intent_record_id i)),
         (''external_action_intent_id'', ai_external_action_intent_id i)]),
      (''binding'', JObj [(''contract_version_ref'', JStr (ai_contract_version_ref i)),
         (''action_intent_digest'', JStr (ai_action_intent_digest i)),
         (''audience'', JStr (ip_audience p)), (''scope'', JList (map JStr (ip_scope p))),
         (''scope_hash'', JStr (ip_scope_hash p)), (''nonce'', JStr (ip_nonce p)),
         (''issued_at'', JInt (rt_now rt)), (''expires_at'', JInt (ip_expires_at p))]),
      (''governance'', JObj [(''policy_id'', opt_str (ai_policy_id i)),
         (''policy_version'', (case ai_policy_version i of None \<Rightarrow> JNull | Some v \<Rightarrow> JInt v)),
         (''decision_state'', JStr (decision_state_value (ai_decision_state i))),
         (''approval_state'', JStr (approval_state_value (ai_approval_state i))),
         (''evidence_state'', JStr (evidence_state_value (ai_evidence_state i))),
         (''matched_rule_id'', opt_str (ai_matched_rule_id i))]),
      (''finance'', JObj [(''workflow_key'', JStr (ai_workflow_key i)),
         (''action_type'', jget (ai_finance_index i) ''action_type''),
         (''amount_minor'', jget (ai_finance_index i) ''amount_minor''),
         (''currency'', jget (ai_finance_index i) ''currency''),
         (''source_account_ref'', jget (ai_finance_index i) ''source_account_ref''),
         (''destination_account_ref'', jget (ai_finance_index i) ''destination_account_ref'')])]"

definition new_proof ::
  "runtime \<Rightarrow> issue_request \<Rightarrow> action_intent_record \<Rightarrow> string list \<Rightarrow> string \<Rightarrow> int \<Rightarrow> db \<Rightarrow> issued_proof" where
  "new_proof rt q i scope hash ttl d =
     (let el = evaluate_eligibility i
      in \<lparr>ip_issued_proof_id = new_id rt d, ip_tenant_id = ai_tenant_id i,
          ip_action_intent_record_id = ai_action_intent_record_id i,
          ip_signing_key_reference_id = None, ip_proof_kind = ir_proof_kind q,
          ip_status = (if el_eligible el then PI_requested else PI_rejected),
          ip_issuer_name = proof_issuer_name (rt_settings rt),
          ip_issuer_uri = proof_issuer_uri (rt_settings rt),
          ip_trust_tier = proof_issuer_trust_tier (rt_settings rt),
          ip_audience = ir_audience q, ip_scope = scope, ip_scope_hash = hash,
          ip_nonce = new_id rt (used_id d), ip_action_intent_digest = ai_action_intent_digest i,
          ip_proof_payload = [], ip_proof_payload_digest = [], ip_signature = None,
          ip_algorithm = None, ip_issued_by_principal_type = fst (ir_requested_by q),
          ip_issued_by_principal_id = snd (ir_requested_by q), ip_issuance_trace = el_trace el,
          ip_failure_reason = el_reason el, ip_issued_at = None,
          ip_expires_at = rt_now rt + seconds ttl, ip_created_at = rt_now rt\<rparr>)"

definition bind_key :: "signing_key_reference \<Rightarrow> issued_proof \<Rightarrow> issued_proof" where
  "bind_key k p = p\<lparr>ip_signing_key_reference_id := Some (sk_signing_key_reference_id k),
     ip_issuer_name := sk_issuer_name k, ip_issuer_uri := sk_issuer_uri k,
     ip_trust_tier := sk_trust_tier k, ip_algorithm := Some (sk_algorithm k)\<rparr>"

definition mark_proof_issued :: "time \<Rightarrow> string \<Rightarrow> string \<Rightarrow> issued_proof \<Rightarrow> issued_proof" where
  "mark_proof_issued now digest signature p = p\<lparr>ip_status := PI_issued,
     ip_signature := Some signature, ip_proof_payload_digest := digest, ip_issued_at := Some now\<rparr>"

text \<open>The exceptions of the signing service that reject the request; all others fail it.\<close>

fun rejects_issuance :: "error \<Rightarrow> bool" where
  "rejects_issuance (SigningKeyNotFoundError _) = True"
| "rejects_issuance (SigningKeyStateError _) = True"
| "rejects_issuance (ProofIssuanceError _) = True"
| "rejects_issuance _ = False"

text \<open>
  From an eligible request to a signed proof: the row \<open>p\<close> is the flushed request. The result is
  the final row, stored by the commit together with the record of the signing operation.
\<close>

definition sign_request ::
  "runtime \<Rightarrow> signing_env \<Rightarrow> issue_request \<Rightarrow> action_intent_record \<Rightarrow> issued_proof \<Rightarrow> db \<Rightarrow>
   issued_proof \<times> db" where
  "sign_request rt env q i p d =
     (case resolve_key (ai_tenant_id i) pccb_signing (ir_signing_key_reference_id q) d of
        Inl e \<Rightarrow> (p\<lparr>ip_status := PI_rejected, ip_failure_reason := Some (exc_text e)\<rparr>, d)
      | Inr k \<Rightarrow>
          let p1 = bind_key k p;
              payload = build_proof_payload rt p1 i;
              p2 = p1\<lparr>ip_proof_payload := payload\<rparr>
          in (case sign_proof rt env p2 k payload d of
                (Inl e, d1) \<Rightarrow>
                  (p2\<lparr>ip_status := (if rejects_issuance e then PI_rejected else PI_failed),
                      ip_failure_reason := Some (exc_text e),
                      ip_proof_payload_digest := rt_sha256_json rt (JObj payload)\<rparr>, d1)
              | (Inr (digest, signature), d1) \<Rightarrow>
                  (mark_proof_issued (rt_now rt) digest signature p2, d1)))"

text \<open>
  \<open>issue_proof\<close>. A replay and an error commit nothing: the synchronisations before them are rolled
  back with the session. Updates are flushed before inserts, so the expiry of an old proof is
  written before the new row.
\<close>

definition issue_proof ::
  "runtime \<Rightarrow> signing_env \<Rightarrow> ident \<Rightarrow> issue_request \<Rightarrow> db \<Rightarrow> (issued_proof \<times> bool) result \<times> db" where
  "issue_proof rt env iid q d =
     (let d1 = synchronize_record (rt_now rt) iid d
      in case tget ai_action_intent_record_id iid (action_intents d1) of
           None \<Rightarrow> (Inl (ProofIssuanceError ''action intent record was not found''), d)
         | Some i \<Rightarrow>
             let scope = normalized_scope (ir_scope q)
             in if scope = []
                then (Inl (ProofIssuanceError
                        ''proof scope must contain at least one scope value''), d)
                else
                  let hash = scope_hash_of rt scope;
                      key = (ai_tenant_id i, iid, ir_proof_kind q, ir_audience q, hash,
                             ai_action_intent_digest i);
                      ttl = requested_ttl rt (ir_expires_in_seconds q)
                  in (case find_existing_proof (rt_now rt) key d1 of
                        (Some p, d2) \<Rightarrow> (Inr (p, True), d)
                      | (None, d2) \<Rightarrow>
                          if proof_max_ttl_seconds (rt_settings rt) < ttl
                          then (Inl (ProofIssuanceError
                                  ''requested proof expiry exceeds the configured maximum TTL''), d)
                          else
                            let p = new_proof rt q i scope hash ttl d2
                            in if ip_status p = PI_requested \<and> active_conflict key d2
                               then (case find_existing_proof (rt_now rt) key d of
                                       (Some p', _) \<Rightarrow> (Inr (p', True), d)
                                     | (None, _) \<Rightarrow> (Inl (ProofIssuanceError
                                         ''active proof issuance already exists but could not be replayed''), d))
                               else
                                 let d3 = used_id (used_id d2);
                                     (p', d4) = (if ip_status p = PI_requested
                                       then sign_request rt env q i p d3 else (p, d3))
                                 in (Inr (p', False),
                                     d4\<lparr>issued_proofs := tinsert p' (issued_proofs d4)\<rparr>)))"

section \<open>Reading proofs\<close>

definition get_proof :: "runtime \<Rightarrow> ident \<Rightarrow> db \<Rightarrow> issued_proof result \<times> db" where
  "get_proof rt pid d =
     (case tget ip_issued_proof_id pid (issued_proofs d) of
        None \<Rightarrow> (Inl IssuedProofNotFoundError, d)
      | Some p \<Rightarrow>
          if proof_expires (rt_now rt) p
          then (let d1 = d\<lparr>issued_proofs := tmodify ip_issued_proof_id pid
                     (refresh_proof (rt_now rt)) (issued_proofs d)\<rparr>
                in case tget ip_issued_proof_id pid (issued_proofs d1) of
                     None \<Rightarrow> (Inl (PyRuntimeError ''issued proof disappeared during status refresh''), d1)
                   | Some p' \<Rightarrow> (Inr p', d1))
          else (Inr p, d))"

definition select_proofs ::
  "ident option \<Rightarrow> ident option \<Rightarrow> proof_issuance_status option \<Rightarrow> db \<Rightarrow> issued_proof list" where
  "select_proofs tid iid st d =
     sort_key ip_created_at
       [p \<leftarrow> issued_proofs d. is_None_or tid (ip_tenant_id p) \<and>
          is_None_or iid (ip_action_intent_record_id p) \<and> is_None_or st (ip_status p)]"

definition list_proofs ::
  "runtime \<Rightarrow> ident option \<Rightarrow> ident option \<Rightarrow> proof_issuance_status option \<Rightarrow> db \<Rightarrow>
   issued_proof list \<times> db" where
  "list_proofs rt tid iid st d =
     (let ids = map ip_issued_proof_id (select_proofs tid iid st d);
          d1 = d\<lparr>issued_proofs := map (\<lambda>p. if ip_issued_proof_id p \<in> set ids
                 then refresh_proof (rt_now rt) p else p) (issued_proofs d)\<rparr>
      in (select_proofs tid iid st d1, d1))"

section \<open>Expiry as an interface\<close>

definition proof_live :: "issued_proof \<Rightarrow> bool" where
  [status_defs]: "proof_live p \<longleftrightarrow> ip_status p = PI_issued"

interpretation proof_expiry: expirable proof_live "\<lambda>p. Some (ip_expires_at p)" refresh_proof
  by unfold_locales (auto simp: proof_live_def refresh_proof_def proof_expires_def)

lemma refresh_proof_keeps [simp]:
  "ip_issued_proof_id (refresh_proof now p) = ip_issued_proof_id p"
  "ip_action_intent_record_id (refresh_proof now p) = ip_action_intent_record_id p"
  "proof_key (refresh_proof now p) = proof_key p"
  "ip_status (refresh_proof now p) = PI_requested \<longleftrightarrow> ip_status p = PI_requested"
  by (auto simp: refresh_proof_def proof_key_def proof_expires_def split: if_splits)

lemma refresh_proof_issued: "ip_status (refresh_proof now p) = PI_issued \<Longrightarrow> ip_status p = PI_issued"
  by (auto simp: refresh_proof_def split: if_splits)

section \<open>Issuance, case by case\<close>

lemma evaluate_eligibility_iff:
  "el_eligible (evaluate_eligibility i) \<longleftrightarrow>
     contract_valid i \<and> decision_permitted i \<and> approval_satisfied i \<and> evidence_satisfied i"
  by (auto simp: evaluate_eligibility_def Let_def)

lemma new_proof_simps [simp]:
  "ip_status (new_proof rt q i s h t d) =
     (if el_eligible (evaluate_eligibility i) then PI_requested else PI_rejected)"
  "ip_issued_proof_id (new_proof rt q i s h t d) = new_id rt d"
  "ip_expires_at (new_proof rt q i s h t d) = rt_now rt + seconds t"
  "ip_tenant_id (new_proof rt q i s h t d) = ai_tenant_id i"
  "ip_action_intent_record_id (new_proof rt q i s h t d) = ai_action_intent_record_id i"
  "ip_action_intent_digest (new_proof rt q i s h t d) = ai_action_intent_digest i"
  "proof_key (new_proof rt q i s h t d) = (ai_tenant_id i, ai_action_intent_record_id i,
     ir_proof_kind q, ir_audience q, h, ai_action_intent_digest i)"
  "ip_scope (new_proof rt q i s h t d) = s"
  by (simp_all add: new_proof_def Let_def proof_key_def)

lemma issue_proof_cases:
  assumes "issue_proof rt env iid q d = (res, d')"
  obtains (failed) e where "res = Inl e" "d' = d"
  | (replayed) p where "res = Inr (p, True)" "d' = d" "p \<in> set (issued_proofs d)"
      "ip_status p = PI_issued" "rt_now rt < ip_expires_at p"
      "ip_audience p = ir_audience q" "ip_action_intent_record_id p = iid"
  | (fresh) i d1 d2 p p' d4 scope hash key ttl where
      "d1 = synchronize_record (rt_now rt) iid d"
      "tget ai_action_intent_record_id iid (action_intents d1) = Some i"
      "scope = normalized_scope (ir_scope q)" "scope \<noteq> []" "hash = scope_hash_of rt scope"
      "key = (ai_tenant_id i, iid, ir_proof_kind q, ir_audience q, hash, ai_action_intent_digest i)"
      "ttl = requested_ttl rt (ir_expires_in_seconds q)" "ttl \<le> proof_max_ttl_seconds (rt_settings rt)"
      "find_existing_proof (rt_now rt) key d1 = (None, d2)"
      "p = new_proof rt q i scope hash ttl d2"
      "ip_status p = PI_requested \<Longrightarrow> \<not> active_conflict key d2"
      "(p', d4) = (if ip_status p = PI_requested
         then sign_request rt env q i p (used_id (used_id d2)) else (p, used_id (used_id d2)))"
      "res = Inr (p', False)" "d' = d4\<lparr>issued_proofs := tinsert p' (issued_proofs d4)\<rparr>"
proof -
  define d1 where "d1 = synchronize_record (rt_now rt) iid d"
  have same: "issued_proofs d1 = issued_proofs d"
    by (simp add: d1_def synchronize_record_def sync_evidence_state_def sync_approval_state_def Let_def
        refresh_evidence_of_def refresh_requests_of_def)
  define scope where "scope = normalized_scope (ir_scope q)"
  define hash where "hash = scope_hash_of rt scope"
  define ttl where "ttl = requested_ttl rt (ir_expires_in_seconds q)"
  have replay: thesis if f: "fst (find_existing_proof (rt_now rt) key e) = Some p"
      and e: "issued_proofs e = issued_proofs d" and r: "res = Inr (p, True)" "d' = d"
      and key: "key = (t, iid, k, ir_audience q, h, g)" for key e p t k h g
  proof -
    have p: "find (\<lambda>p. proof_key p = key \<and> ip_status p = PI_issued) (issued_proofs d) = Some p"
        "\<not> proof_expires (rt_now rt) p"
      using f e by (auto simp: find_existing_proof_def split: option.splits if_splits)
    then have "p \<in> set (issued_proofs d)" "ip_status p = PI_issued" "proof_key p = key"
      by (auto simp: find_Some_iff)
    with p(2) show thesis
      using replayed[OF r] by (auto simp: proof_expires_def proof_key_def key)
  qed
  consider (none) "tget ai_action_intent_record_id iid (action_intents d1) = None"
    | (empty) i where "tget ai_action_intent_record_id iid (action_intents d1) = Some i" "scope = []"
    | (some) i where "tget ai_action_intent_record_id iid (action_intents d1) = Some i" "scope \<noteq> []"
    by (cases "tget ai_action_intent_record_id iid (action_intents d1)") auto
  then show thesis
  proof cases
    case none
    then show thesis using assms failed by (auto simp: issue_proof_def d1_def[symmetric] Let_def)
  next
    case (empty i)
    then show thesis
      using assms failed by (auto simp: issue_proof_def d1_def[symmetric] scope_def[symmetric] Let_def)
  next
    case (some i)
    define key where "key = (ai_tenant_id i, iid, ir_proof_kind q, ir_audience q, hash,
      ai_action_intent_digest i)"
    obtain f d2 where f: "find_existing_proof (rt_now rt) key d1 = (f, d2)" by force
    note eq = assms[unfolded issue_proof_def Let_def, folded d1_def scope_def hash_def ttl_def,
        simplified some option.case if_False key_def[symmetric] f prod.case]
    show thesis
    proof (cases f)
      case (Some p)
      show thesis
        by (rule replay[of key d1 p, OF _ same _ _ key_def]) (use eq f Some some in auto)
    next
      case None
      define p where "p = new_proof rt q i scope hash ttl d2"
      obtain p' d4 where r: "(p', d4) = (if ip_status p = PI_requested
         then sign_request rt env q i p (used_id (used_id d2)) else (p, used_id (used_id d2)))" by (metis prod.collapse)
      consider (ttl) "proof_max_ttl_seconds (rt_settings rt) < ttl"
        | (conflict) "ttl \<le> proof_max_ttl_seconds (rt_settings rt)"
            "ip_status p = PI_requested \<and> active_conflict key d2"
        | (ok) "ttl \<le> proof_max_ttl_seconds (rt_settings rt)"
            "\<not> (ip_status p = PI_requested \<and> active_conflict key d2)" by linarith
      then show thesis
      proof cases
        case ttl
        then show thesis using eq None some failed by auto
      next
        case conflict
        obtain g d5 where g: "find_existing_proof (rt_now rt) key d = (g, d5)" by force
        show thesis
        proof (cases g)
          case (Some p'')
          show thesis
            by (rule replay[of key d p'', OF _ refl _ _ key_def])
               (use eq None some conflict g Some p_def in auto)
        next
          case None': None
          then show thesis using eq None some conflict g failed p_def by auto
        qed
      next
        case ok
        have "res = Inr (p', False)" "d' = d4\<lparr>issued_proofs := tinsert p' (issued_proofs d4)\<rparr>"
          using eq None some ok r p_def by (auto split: prod.splits if_splits)
        then show thesis
          using fresh[OF d1_def some(1) scope_def some(2) hash_def key_def ttl_def ok(1) _ p_def _ r]
            f None ok(2) by auto
      qed
    qed
  qed
qed

lemma find_existing_frame:
  assumes "find_existing_proof now key d = (f, d2)"
  shows "\<exists>g. (\<forall>p. g p = p \<or> g p = refresh_proof now p) \<and>
    d2 = d\<lparr>issued_proofs := map g (issued_proofs d)\<rparr>"
proof -
  consider "d2 = d" | p where "d2 = d\<lparr>issued_proofs := tmodify ip_issued_proof_id p
      (refresh_proof now) (issued_proofs d)\<rparr>"
    using assms by (auto simp: find_existing_proof_def split: option.splits if_splits)
  then show ?thesis
  proof cases
    case 1
    then show ?thesis by (intro exI[of _ id]) simp
  next
    case (2 p)
    then show ?thesis
      by (intro exI[of _ "\<lambda>r. if ip_issued_proof_id r = p then refresh_proof now r else r"])
         (simp add: tmodify_def)
  qed
qed

lemma sign_request_cases:
  assumes "(p', d4) = sign_request rt env q i p d3"
  obtains (not_signed) "ip_status p' \<in> {PI_rejected, PI_failed}"
  | (signed) k sig payload where
      "k \<in> set (signing_keys d3)" "sk_status k = SK_active" "sk_tenant_id k = ai_tenant_id i"
      "payload = build_proof_payload rt (bind_key k p) i"
      "sign_bytes env k (JObj payload) = Inr sig"
      "p' = mark_proof_issued (rt_now rt) (rt_sha256_json rt (JObj payload)) sig
         ((bind_key k p)\<lparr>ip_proof_payload := payload\<rparr>)"
proof (cases "resolve_key (ai_tenant_id i) pccb_signing (ir_signing_key_reference_id q) d3")
  case (Inl e)
  then show thesis using assms not_signed by (simp add: sign_request_def)
next
  case (Inr k)
  then have k: "k \<in> set (signing_keys d3)" "sk_status k = SK_active" "sk_tenant_id k = ai_tenant_id i"
    by (auto simp: resolve_key_def Let_def get_key_def default_key_def find_Some_iff
        split: option.splits sum.splits if_splits dest: tgetD)
  define payload where "payload = build_proof_payload rt (bind_key k p) i"
  show thesis
  proof (cases "sign_bytes env k (JObj payload)")
    case (Inl e)
    then show thesis
      using assms Inr k not_signed
      by (simp add: sign_request_def Let_def sign_proof_def payload_def[symmetric] split: if_splits)
  next
    case (Inr sig)
    have "p' = mark_proof_issued (rt_now rt) (rt_sha256_json rt (JObj payload)) sig
         ((bind_key k p)\<lparr>ip_proof_payload := payload\<rparr>)"
      using assms \<open>resolve_key _ _ _ _ = Inr k\<close> k Inr
      by (simp add: sign_request_def Let_def sign_proof_def payload_def[symmetric])
    then show thesis using signed[OF k payload_def Inr] by blast
  qed
qed

lemma sign_request_frame:
  assumes "(p', d4) = sign_request rt env q i p d3"
  shows "d4 = d3\<lparr>signing_operations := signing_operations d4, next_uuid := next_uuid d4\<rparr> \<and>
    next_uuid d3 \<le> next_uuid d4"
proof -
  have sp: "snd (sign_proof rt env p2 k payload d3) = d3\<lparr>signing_operations :=
        signing_operations (snd (sign_proof rt env p2 k payload d3)),
        next_uuid := next_uuid (snd (sign_proof rt env p2 k payload d3))\<rparr> \<and>
      next_uuid d3 \<le> next_uuid (snd (sign_proof rt env p2 k payload d3))" for p2 k payload
    by (simp add: sign_proof_def Let_def used_id_def split: sum.splits)
  have "d4 = d3 \<or> (\<exists>k p2 payload. d4 = snd (sign_proof rt env p2 k payload d3))"
    using assms by (auto simp: sign_request_def Let_def split: sum.splits prod.splits)
       (metis snd_conv)+
  then show ?thesis using sp by (elim disjE exE) (simp, metis)
qed

lemma sign_request_tables:
  assumes "(p', d4) = sign_request rt env q i p d3"
  shows "issued_proofs d4 = issued_proofs d3" "action_intents d4 = action_intents d3"
    "approval_requests d4 = approval_requests d3" "evidence_objects d4 = evidence_objects d3"
    "signing_keys d4 = signing_keys d3" "next_uuid d3 \<le> next_uuid d4"
    "escrow_records d4 = escrow_records d3" "policies d4 = policies d3" "tenants d4 = tenants d3"
    "receipts d4 = receipts d3" "escrow_transitions d4 = escrow_transitions d3"
proof -
  obtain ops n where "d4 = d3\<lparr>signing_operations := ops, next_uuid := n\<rparr>" "next_uuid d3 \<le> n"
    using sign_request_frame[OF assms] by metis
  then show "issued_proofs d4 = issued_proofs d3" "action_intents d4 = action_intents d3"
    "approval_requests d4 = approval_requests d3" "evidence_objects d4 = evidence_objects d3"
    "signing_keys d4 = signing_keys d3" "next_uuid d3 \<le> next_uuid d4"
    "escrow_records d4 = escrow_records d3" "policies d4 = policies d3" "tenants d4 = tenants d3"
    "receipts d4 = receipts d3" "escrow_transitions d4 = escrow_transitions d3"
    by simp_all
qed

section \<open>The invariant of proofs\<close>

text \<open>
  No committed proof is merely requested, and two different proofs with the same key are never
  both issued.
\<close>

definition proofs_inv :: "(nat \<Rightarrow> ident) \<Rightarrow> db \<Rightarrow> bool" where
  "proofs_inv U d \<longleftrightarrow> distinct (map ip_issued_proof_id (issued_proofs d)) \<and>
     (\<forall>p \<in> set (issued_proofs d). (\<exists>n < next_uuid d. ip_issued_proof_id p = U n) \<and>
        ip_status p \<noteq> PI_requested \<and>
        (\<forall>p' \<in> set (issued_proofs d). proof_key p = proof_key p' \<and>
           ip_issued_proof_id p \<noteq> ip_issued_proof_id p' \<longrightarrow>
           \<not> (ip_status p = PI_issued \<and> ip_status p' = PI_issued)))"

lemma proofs_invD:
  assumes "proofs_inv U d" "p \<in> set (issued_proofs d)"
  shows "\<exists>n < next_uuid d. ip_issued_proof_id p = U n" "ip_status p \<noteq> PI_requested"
    and "p' \<in> set (issued_proofs d) \<Longrightarrow> proof_key p = proof_key p' \<Longrightarrow>
      ip_issued_proof_id p \<noteq> ip_issued_proof_id p' \<Longrightarrow>
      \<not> (ip_status p = PI_issued \<and> ip_status p' = PI_issued)"
  using assms unfolding proofs_inv_def by blast+

lemma proofs_inv_distinct: "proofs_inv U d \<Longrightarrow> distinct (map ip_issued_proof_id (issued_proofs d))"
  unfolding proofs_inv_def by blast

lemma proofs_inv_refresh:
  assumes inv: "proofs_inv U d" and g: "\<And>p. g p = p \<or> g p = refresh_proof now p"
    and d': "issued_proofs d' = map g (issued_proofs d)" "next_uuid d \<le> next_uuid d'"
  shows "proofs_inv U d'"
proof -
  have keep: "ip_issued_proof_id (g p) = ip_issued_proof_id p" "proof_key (g p) = proof_key p"
    "ip_status (g p) = PI_requested \<longleftrightarrow> ip_status p = PI_requested"
    "ip_status (g p) = PI_issued \<Longrightarrow> ip_status p = PI_issued" for p
    using g[of p] by (auto dest: refresh_proof_issued)
  show ?thesis
    unfolding proofs_inv_def
  proof (intro conjI ballI impI)
    show "distinct (map ip_issued_proof_id (issued_proofs d'))"
      using proofs_inv_distinct[OF inv] by (simp add: d'(1) comp_def keep(1))
  next
    fix q assume "q \<in> set (issued_proofs d')"
    then obtain p where p: "p \<in> set (issued_proofs d)" "q = g p" by (auto simp: d')
    show "\<exists>n < next_uuid d'. ip_issued_proof_id q = U n"
      using proofs_invD(1)[OF inv p(1)] d'(2) unfolding p(2) keep(1) by (meson less_le_trans)
    show "ip_status q \<noteq> PI_requested" using proofs_invD(2)[OF inv p(1)] by (simp add: p(2) keep(3))
    fix q' assume q': "q' \<in> set (issued_proofs d')"
      "proof_key q = proof_key q' \<and> ip_issued_proof_id q \<noteq> ip_issued_proof_id q'"
    then obtain p' where p': "p' \<in> set (issued_proofs d)" "q' = g p'" by (auto simp: d')
    then show "\<not> (ip_status q = PI_issued \<and> ip_status q' = PI_issued)"
      using proofs_invD(3)[OF inv p(1) p'(1)] q'(2) keep(4) unfolding p(2) p'(2) keep(1,2) by blast
  qed
qed

lemma proofs_inv_insert:
  assumes inv: "proofs_inv U d" and p: "ip_issued_proof_id p = U n" "n < next_uuid d'"
    and fresh: "\<And>q. q \<in> set (issued_proofs d) \<Longrightarrow> ip_issued_proof_id q \<noteq> U n"
    and st: "ip_status p \<noteq> PI_requested"
    and only: "\<And>q. q \<in> set (issued_proofs d) \<Longrightarrow> proof_key q = proof_key p \<Longrightarrow>
      \<not> (ip_status p = PI_issued \<and> ip_status q = PI_issued)"
    and d': "issued_proofs d' = tinsert p (issued_proofs d)" "next_uuid d \<le> next_uuid d'"
  shows "proofs_inv U d'"
  unfolding proofs_inv_def
proof (intro conjI ballI impI)
  show "distinct (map ip_issued_proof_id (issued_proofs d'))"
  proof -
    have "U n \<notin> ip_issued_proof_id ` set (issued_proofs d)" using fresh by (metis imageE)
    then show ?thesis using proofs_inv_distinct[OF inv] p(1) by (simp add: d'(1) tinsert_def)
  qed
next
  fix q assume q: "q \<in> set (issued_proofs d')"
  show "\<exists>n < next_uuid d'. ip_issued_proof_id q = U n"
    using q p proofs_invD(1)[OF inv] d'(2) by (auto simp: d'(1) intro: less_le_trans)
  show "ip_status q \<noteq> PI_requested" using q st proofs_invD(2)[OF inv] by (auto simp: d'(1))
  fix q' assume "q' \<in> set (issued_proofs d')"
    "proof_key q = proof_key q' \<and> ip_issued_proof_id q \<noteq> ip_issued_proof_id q'"
  then show "\<not> (ip_status q = PI_issued \<and> ip_status q' = PI_issued)"
    using q proofs_invD(3)[OF inv, of q q'] only[of q] only[of q'] by (auto simp: d'(1))
qed

lemma issued_proofs_synchronize [simp]:
  "issued_proofs (synchronize_record now iid d) = issued_proofs d"
  "signing_keys (synchronize_record now iid d) = signing_keys d"
  by (simp_all add: synchronize_record_def sync_evidence_state_def sync_approval_state_def Let_def
        refresh_evidence_of_def refresh_requests_of_def)

lemma mark_proof_issued_keeps [simp]:
  "ip_issued_proof_id (mark_proof_issued now dg s p) = ip_issued_proof_id p"
  "proof_key (mark_proof_issued now dg s p) = proof_key p"
  "ip_status (mark_proof_issued now dg s p) = PI_issued"
  "ip_issued_proof_id (bind_key k p) = ip_issued_proof_id p"
  "proof_key (bind_key k p) = proof_key p"
  "proof_key (p\<lparr>ip_proof_payload := pl\<rparr>) = proof_key p"
  by (simp_all add: mark_proof_issued_def bind_key_def proof_key_def)

text \<open>The row that is stored: its identity and what its status can be.\<close>

lemma fresh_row:
  assumes "(p', d4) = (if ip_status p = PI_requested
         then sign_request rt env q i p d3 else (p, d3))"
    and "p = new_proof rt q i scope hash ttl d2"
  shows "ip_issued_proof_id p' = ip_issued_proof_id p \<and> proof_key p' = proof_key p \<and>
    ip_status p' \<in> {PI_issued, PI_rejected, PI_failed} \<and>
    (ip_status p' = PI_issued \<longrightarrow> ip_status p = PI_requested)"
proof (cases "ip_status p = PI_requested")
  case True
  then have s: "(p', d4) = sign_request rt env q i p d3" using assms(1) by simp
  then have "ip_issued_proof_id p' = ip_issued_proof_id p \<and> proof_key p' = proof_key p"
    by (simp add: sign_request_def Let_def proof_key_def bind_key_def mark_proof_issued_def
        split: sum.splits prod.splits)
  then show ?thesis
    using True by (cases rule: sign_request_cases[OF s]) auto
next
  case False
  then show ?thesis using assms by (auto split: if_splits)
qed

lemma issue_proof_inv:
  assumes inv: "proofs_inv U d" and U: "inj U" "rt_uuid rt = U"
  shows "proofs_inv U (snd (issue_proof rt env iid q d))"
proof -
  obtain res d' where eq: "issue_proof rt env iid q d = (res, d')" by force
  then have "proofs_inv U d'"
  proof (cases rule: issue_proof_cases)
    case (fresh i d1 d2 p p' d4 scope hash key ttl)
    obtain g where g: "\<And>p. g p = p \<or> g p = refresh_proof (rt_now rt) p"
      and d2: "d2 = d1\<lparr>issued_proofs := map g (issued_proofs d1)\<rparr>"
      using find_existing_frame[OF fresh(9)] by blast
    have inv2: "proofs_inv U d2"
      by (rule proofs_inv_refresh[OF inv g]) (simp_all add: d2 fresh(1))
    note row = fresh_row[OF fresh(12,10)]
    have d4: "issued_proofs d4 = issued_proofs d2" "next_uuid d2 < next_uuid d4"
      using fresh(12) sign_request_tables[of p' d4 rt env q i p "used_id (used_id d2)"]
      by (cases "ip_status p = PI_requested"; simp)+
    have pid: "ip_issued_proof_id p' = U (next_uuid d2)"
      using row U by (simp add: fresh(10) new_id_def)
    have idi: "ai_action_intent_record_id i = iid" using tgetD[OF fresh(2)] by simp
    show ?thesis
    proof (rule proofs_inv_insert[OF inv2 pid])
      fix q' assume q': "q' \<in> set (issued_proofs d2)"
      show "ip_issued_proof_id q' \<noteq> U (next_uuid d2)"
        using proofs_invD(1)[OF inv2 q'] U(1) by (auto dest: injD)
      assume "proof_key q' = proof_key p'"
      then have "proof_key q' = key" using row by (simp add: fresh(10,6) idi)
      then show "\<not> (ip_status p' = PI_issued \<and> ip_status q' = PI_issued)"
        using row fresh(11) q' unfolding active_conflict_def list_ex_iff by blast
    qed (use row d4 fresh(14) in auto)
  qed (use inv in simp_all)
  then show ?thesis by (simp add: eq)
qed

section \<open>Properties\<close>

lemma synchronized_states:
  assumes "tget ai_action_intent_record_id iid (action_intents (synchronize_record now iid d)) = Some i"
  shows "ai_approval_state i = approval_state_of (ai_approval_requirement i)
      (requests_of iid (synchronize_record now iid d))"
    and "ai_evidence_state i = evidence_state_of (ai_evidence_requirement i)
      (evidence_of iid (synchronize_record now iid d))"
proof -
  define e where "e = sync_approval_state now iid d"
  have sync: "synchronize_record now iid d = sync_evidence_state now iid e"
    by (simp add: synchronize_record_def e_def)
  obtain j where j: "tget ai_action_intent_record_id iid (action_intents e) = Some j"
    "i = j\<lparr>ai_evidence_state := evidence_state_of (ai_evidence_requirement j)
        (evidence_of iid (sync_evidence_state now iid e))\<rparr>"
    using assms unfolding sync tget_intent_sync_evidence by auto
  have reqs: "requests_of iid (sync_evidence_state now iid e) = requests_of iid e"
    by (simp add: requests_of_def sync_evidence_frame)
  obtain k where "j = k\<lparr>ai_approval_state := approval_state_of (ai_approval_requirement k) (requests_of iid e)\<rparr>"
    using j(1) unfolding e_def tget_intent_sync by auto
  then show "ai_approval_state i = approval_state_of (ai_approval_requirement i)
      (requests_of iid (synchronize_record now iid d))"
    by (simp add: j(2) sync reqs)
  show "ai_evidence_state i = evidence_state_of (ai_evidence_requirement i)
      (evidence_of iid (synchronize_record now iid d))"
    by (simp add: j(2) sync)
qed

lemma approval_state_required:
  "approval_state_of (Some rq) rs = AS_satisfied \<Longrightarrow>
   rs \<noteq> [] \<and> (\<forall>r \<in> set rs. ar_status r = AR_satisfied)"
  by (cases "rs = []") (simp add: approval_state_of_def, simp add: approval_state_of_spec)

lemma fresh_proof_justified:
  assumes "issue_proof rt env iid q d = (Inr (p, False), d')" "ip_status p = PI_issued"
  shows "\<exists>i k sig. tget ai_action_intent_record_id iid (action_intents d') = Some i \<and>
    ai_contract_validation_status i = CV_valid \<and>
    ai_decision_state i \<notin> {deny, structurally_non_executable} \<and>
    (ai_approval_requirement i \<noteq> None \<longrightarrow> requests_of iid d' \<noteq> [] \<and>
       (\<forall>r \<in> set (requests_of iid d'). ar_status r = AR_satisfied)) \<and>
    (\<forall>rq. ai_evidence_requirement i = Some rq \<longrightarrow>
       max (re_minimum_count rq) 1 \<le> int (length (valid_evidence rq (evidence_of iid d')))) \<and>
    (\<forall>e \<in> set (evidence_of iid d'). \<forall>x. eo_status e = EV_active \<longrightarrow> eo_expires_at e = Some x \<longrightarrow> rt_now rt < x) \<and>
    k \<in> set (signing_keys d') \<and> sk_status k = SK_active \<and> sk_tenant_id k = ai_tenant_id i \<and>
    ip_signing_key_reference_id p = Some (sk_signing_key_reference_id k) \<and>
    sign_bytes env k (JObj (ip_proof_payload p)) = Inr sig \<and> ip_signature p = Some sig \<and>
    ip_proof_payload_digest p = rt_sha256_json rt (JObj (ip_proof_payload p)) \<and>
    (\<exists>b. map_of (ip_proof_payload p) ''binding'' = Some (JObj b) \<and>
       jget b ''action_intent_digest'' = JStr (ai_action_intent_digest i) \<and>
       jget b ''nonce'' = JStr (ip_nonce p) \<and> jget b ''audience'' = JStr (ip_audience p)) \<and>
    ip_expires_at p \<le> rt_now rt + seconds (proof_max_ttl_seconds (rt_settings rt)) \<and>
    p \<in> set (issued_proofs d')"
  using assms(1)
proof (cases rule: issue_proof_cases)
  case (fresh i d1 d2 p0 p' d4 scope hash key ttl)
  have p: "p' = p" using fresh(13) by simp
  obtain g where d2: "d2 = d1\<lparr>issued_proofs := map g (issued_proofs d1)\<rparr>"
    using find_existing_frame[OF fresh(9)] by blast
  note row = fresh_row[OF fresh(12,10)]
  have req: "ip_status p0 = PI_requested" using row assms(2) by (simp add: p)
  then have s: "(p', d4) = sign_request rt env q i p0 (used_id (used_id d2))" using fresh(12) by simp
  have el: "contract_valid i" "decision_permitted i" "approval_satisfied i" "evidence_satisfied i"
    using req by (auto simp: fresh(10) evaluate_eligibility_iff split: if_splits)
  note tabs = sign_request_tables[OF s]
  have same: "action_intents d' = action_intents d1" "requests_of iid d' = requests_of iid d1"
    "evidence_of iid d' = evidence_of iid d1" "signing_keys d' = signing_keys d1"
    by (simp_all add: fresh(14) tabs requests_of_def evidence_of_def d2)
  note st = synchronized_states[OF fresh(2)[unfolded fresh(1)], folded fresh(1)]
  have "ai_approval_requirement i \<noteq> None \<longrightarrow> requests_of iid d' \<noteq> [] \<and>
       (\<forall>r \<in> set (requests_of iid d'). ar_status r = AR_satisfied)"
  proof
    assume "ai_approval_requirement i \<noteq> None"
    then obtain rq where "ai_approval_requirement i = Some rq" by blast
    then have "approval_state_of (Some rq) (requests_of iid d1) = AS_satisfied"
      using el(3) st(1) by (simp add: approval_satisfied_def)
    then show "requests_of iid d' \<noteq> [] \<and> (\<forall>r \<in> set (requests_of iid d'). ar_status r = AR_satisfied)"
      unfolding same by (rule approval_state_required)
  qed
  moreover have "\<forall>rq. ai_evidence_requirement i = Some rq \<longrightarrow>
       max (re_minimum_count rq) 1 \<le> int (length (valid_evidence rq (evidence_of iid d')))"
    using el(4) st(2) unfolding evidence_satisfied_def same by (auto simp: evidence_state_satisfied)
  moreover have "\<forall>e \<in> set (evidence_of iid d'). \<forall>x. eo_status e = EV_active \<longrightarrow>
      eo_expires_at e = Some x \<longrightarrow> rt_now rt < x"
    unfolding same fresh(1) synchronize_record_def by (blast intro: sync_evidence_active)
  ultimately have gates: "ai_contract_validation_status i = CV_valid \<and>
      ai_decision_state i \<notin> {deny, structurally_non_executable} \<and>
    (ai_approval_requirement i \<noteq> None \<longrightarrow> requests_of iid d' \<noteq> [] \<and>
       (\<forall>r \<in> set (requests_of iid d'). ar_status r = AR_satisfied)) \<and>
    (\<forall>rq. ai_evidence_requirement i = Some rq \<longrightarrow>
       max (re_minimum_count rq) 1 \<le> int (length (valid_evidence rq (evidence_of iid d')))) \<and>
    (\<forall>e \<in> set (evidence_of iid d'). \<forall>x. eo_status e = EV_active \<longrightarrow> eo_expires_at e = Some x \<longrightarrow> rt_now rt < x)"
    using el(1,2) unfolding contract_valid_def decision_permitted_def by blast
  have i': "tget ai_action_intent_record_id iid (action_intents d') = Some i" by (simp add: same fresh(2))
  have mem: "p \<in> set (issued_proofs d')" by (simp add: fresh(14) p)
  from s show ?thesis
  proof (cases rule: sign_request_cases)
    case not_signed
    then show ?thesis using assms(2) by (simp add: p)
  next
    case (signed k sig payload)
    have "k \<in> set (signing_keys d')" using signed(1) by (simp add: same d2)
    moreover have "ip_proof_payload p = payload" "ip_signature p = Some sig"
      "ip_proof_payload_digest p = rt_sha256_json rt (JObj payload)"
      "ip_signing_key_reference_id p = Some (sk_signing_key_reference_id k)"
      using signed(6) by (simp_all add: p mark_proof_issued_def bind_key_def)
    moreover have "ip_expires_at p \<le> rt_now rt + seconds (proof_max_ttl_seconds (rt_settings rt))"
      using signed(6) fresh(8) by (simp add: p mark_proof_issued_def bind_key_def fresh(10))
    moreover have "\<exists>b. map_of payload ''binding'' = Some (JObj b) \<and>
       jget b ''action_intent_digest'' = JStr (ai_action_intent_digest i) \<and>
       jget b ''nonce'' = JStr (ip_nonce p) \<and> jget b ''audience'' = JStr (ip_audience p)"
      using signed(6) by (simp add: signed(4) p build_proof_payload_def mark_proof_issued_def bind_key_def
          jget_def)
    ultimately show ?thesis using i' gates mem signed(2,3,5) by blast
  qed
qed simp_all


definition sample_env :: signing_env where
  "sample_env = \<lparr>sv_is_production = False, sv_kms_endpoint = False, sv_sign = (\<lambda>_. Inr ''sig'')\<rparr>"

definition sample_issue :: issue_request where
  "sample_issue = \<lparr>ir_proof_kind = pccb, ir_audience = ''gateway'', ir_scope = [''pay''],
     ir_expires_in_seconds = None, ir_requested_by = (''user'', ''alice''),
     ir_signing_key_reference_id = None\<rparr>"

text \<open>An intent that needs no approval, and a signing key of its tenant.\<close>

definition sample_issue_db :: db where
  "sample_issue_db = empty_db\<lparr>action_intents := [sample_record\<lparr>ai_approval_requirement := None,
     ai_decision_state := allow\<rparr>], signing_keys := signing_keys sample_key_db, next_uuid := 1\<rparr>"

lemma sample_issue_result:
  "\<exists>p d'. issue_proof (sample_rt 5) sample_env ''i'' sample_issue sample_issue_db = (Inr (p, False), d') \<and>
     ip_status p = PI_issued \<and> ip_expires_at p = 900000005 \<and> p \<in> set (issued_proofs d')"
  by (simp add: issue_proof_def sample_issue_db_def synchronize_record_def sync_approval_state_def
      refresh_requests_of_def sync_evidence_state_def refresh_evidence_of_def Let_def
      sample_key_db_eq sample_record_def requests_of_def approval_state_of_def evidence_of_def
      evidence_state_of_def normalized_scope_def sample_issue_def find_existing_proof_def
      requested_ttl_def sample_settings_def new_proof_def evaluate_eligibility_def contract_valid_def
      decision_permitted_def approval_satisfied_def evidence_satisfied_def active_conflict_def
      sign_request_def resolve_key_def default_key_def sign_proof_def sign_bytes_def
      sign_with_ed25519_backend_def sample_env_def mark_proof_issued_def bind_key_def tinsert_def
      seconds_def empty_db_def)


inductive issuance_step :: "(nat \<Rightarrow> ident) \<Rightarrow> db \<Rightarrow> db \<Rightarrow> bool" for U where
  step_issue: "rt_uuid rt = U \<Longrightarrow> issuance_step U d (snd (issue_proof rt env iid q d))"
| step_get_proof: "issuance_step U d (snd (get_proof rt pid d))"
| step_list_proofs: "issuance_step U d (snd (list_proofs rt tid iid st d))"
| step_outside: "issued_proofs d' = issued_proofs d \<Longrightarrow> next_uuid d \<le> next_uuid d' \<Longrightarrow>
    issuance_step U d d'"

lemma get_proof_frame: "\<exists>g. (\<forall>p. g p = p \<or> g p = refresh_proof (rt_now rt) p) \<and>
    snd (get_proof rt pid d) = d\<lparr>issued_proofs := map g (issued_proofs d)\<rparr>"
proof -
  have "snd (get_proof rt pid d) = d \<or> snd (get_proof rt pid d) = d\<lparr>issued_proofs :=
      tmodify ip_issued_proof_id pid (refresh_proof (rt_now rt)) (issued_proofs d)\<rparr>"
    by (simp add: get_proof_def Let_def split: option.splits)
  then consider "snd (get_proof rt pid d) = d" | "snd (get_proof rt pid d) = d\<lparr>issued_proofs :=
      tmodify ip_issued_proof_id pid (refresh_proof (rt_now rt)) (issued_proofs d)\<rparr>" by blast
  then show ?thesis
  proof cases
    case 1
    then show ?thesis by (intro exI[of _ id]) simp
  next
    case 2
    then show ?thesis
      by (intro exI[of _ "\<lambda>r. if ip_issued_proof_id r = pid then refresh_proof (rt_now rt) r else r"])
         (simp add: tmodify_def)
  qed
qed

lemma list_proofs_frame: "\<exists>g. (\<forall>p. g p = p \<or> g p = refresh_proof (rt_now rt) p) \<and>
    snd (list_proofs rt tid iid st d) = d\<lparr>issued_proofs := map g (issued_proofs d)\<rparr>"
  by (intro exI[of _ "\<lambda>p. if ip_issued_proof_id p \<in> set (map ip_issued_proof_id (select_proofs tid iid st d))
       then refresh_proof (rt_now rt) p else p"]) (simp add: list_proofs_def Let_def)

lemma issuance_step_inv:
  assumes "issuance_step U d d'" "inj U" "proofs_inv U d"
  shows "proofs_inv U d'"
  using assms
proof (induction rule: issuance_step.induct)
  case (step_issue rt d env iid q)
  then show ?case using issue_proof_inv by blast
next
  case (step_get_proof d rt pid)
  obtain g where "\<forall>p. g p = p \<or> g p = refresh_proof (rt_now rt) p"
    "snd (get_proof rt pid d) = d\<lparr>issued_proofs := map g (issued_proofs d)\<rparr>"
    using get_proof_frame[of rt pid d] by blast
  then show ?case
    by (intro proofs_inv_refresh[OF step_get_proof(2), of g "rt_now rt"]) simp_all
next
  case (step_list_proofs d rt tid iid st)
  obtain g where "\<forall>p. g p = p \<or> g p = refresh_proof (rt_now rt) p"
    "snd (list_proofs rt tid iid st d) = d\<lparr>issued_proofs := map g (issued_proofs d)\<rparr>"
    using list_proofs_frame[of rt tid iid st d] by blast
  then show ?case
    by (intro proofs_inv_refresh[OF step_list_proofs(2), of g "rt_now rt"]) simp_all
next
  case (step_outside d' d)
  then show ?case by (intro proofs_inv_refresh[OF step_outside(4), of id 0]) simp_all
qed

lemma issuance_run_inv:
  "(issuance_step U)\<^sup>*\<^sup>* d d' \<Longrightarrow> inj U \<Longrightarrow> proofs_inv U d \<Longrightarrow> proofs_inv U d'"
  by (induction rule: rtranclp_induct) (auto intro: issuance_step_inv)

text \<open>
  One live proof per request. In every database the service can reach, two issued proofs with
  the same tenant, intent, kind, audience, scope and digest are the same proof, and no proof is left
  merely requested.
\<close>

theorem issued_proof_unique:
  assumes "inj U" "(issuance_step U)\<^sup>*\<^sup>* empty_db d"
    and "p \<in> set (issued_proofs d)" "p' \<in> set (issued_proofs d)" "proof_key p = proof_key p'"
    and "ip_status p \<in> {PI_requested, PI_issued}" "ip_status p' \<in> {PI_requested, PI_issued}"
  shows "p = p' \<and> ip_status p = PI_issued"
proof -
  have "proofs_inv U empty_db" by (simp add: proofs_inv_def empty_db_def)
  then have inv: "proofs_inv U d" using issuance_run_inv assms(1,2) by blast
  have st: "ip_status p = PI_issued" "ip_status p' = PI_issued"
    using proofs_invD(2)[OF inv] assms(3,4,6,7) by auto
  then have "ip_issued_proof_id p = ip_issued_proof_id p'"
    using proofs_invD(3)[OF inv assms(3,4,5)] by blast
  then have "p = p'"
    using distinct_key_eq[OF proofs_inv_distinct[OF inv] assms(3,4)] by blast
  then show ?thesis using st by simp
qed

lemma sample_issue_run:
  "(issuance_step sample_uuid)\<^sup>*\<^sup>* empty_db (snd (issue_proof (sample_rt 5) sample_env ''i'' sample_issue sample_issue_db))"
proof -
  have 1: "issuance_step sample_uuid empty_db sample_issue_db"
    by (rule step_outside) (simp_all add: sample_issue_db_def empty_db_def)
  have "issuance_step sample_uuid sample_issue_db
      (snd (issue_proof (sample_rt 5) sample_env ''i'' sample_issue sample_issue_db))"
    by (rule step_issue) simp
  with 1 show ?thesis by (meson rtranclp.rtrancl_into_rtrancl rtranclp.rtrancl_refl)
qed

theorem issued_proof_unique_witness:
  "\<exists>p d'. issue_proof (sample_rt 5) sample_env ''i'' sample_issue sample_issue_db = (Inr (p, False), d') \<and>
     (\<forall>p' \<in> set (issued_proofs d'). proof_key p = proof_key p' \<longrightarrow> ip_status p' = PI_issued \<longrightarrow> p = p')"
proof -
  obtain p d' where 1: "issue_proof (sample_rt 5) sample_env ''i'' sample_issue sample_issue_db =
      (Inr (p, False), d')" "ip_status p = PI_issued" "p \<in> set (issued_proofs d')"
    using sample_issue_result by blast
  have "(issuance_step sample_uuid)\<^sup>*\<^sup>* empty_db d'" using sample_issue_run 1(1) by simp
  from issued_proof_unique[OF inj_sample_uuid this 1(3)] 1 show ?thesis by auto
qed

lemma normalized_scope_set: "set xs = set ys \<Longrightarrow> normalized_scope xs = normalized_scope ys"
  by (simp add: normalized_scope_def sorted_list_of_set_sort_remdups[symmetric])

lemma find_issued_unique:
  assumes inv: "proofs_inv U d" and p: "p \<in> set (issued_proofs d)" "ip_status p = PI_issued"
  shows "find (\<lambda>x. proof_key x = proof_key p \<and> ip_status x = PI_issued) (issued_proofs d) = Some p"
proof -
  obtain x where x: "find (\<lambda>x. proof_key x = proof_key p \<and> ip_status x = PI_issued)
      (issued_proofs d) = Some x"
    using p by (cases "find (\<lambda>x. proof_key x = proof_key p \<and> ip_status x = PI_issued)
      (issued_proofs d)") (auto simp: find_None_iff)
  then have xp: "x \<in> set (issued_proofs d)" "proof_key x = proof_key p" "ip_status x = PI_issued"
    by (auto simp: find_Some_iff)
  then have "ip_issued_proof_id x = ip_issued_proof_id p"
    using proofs_invD(3)[OF inv xp(1) p(1)] p(2) by blast
  then have "x = p" using distinct_key_eq[OF proofs_inv_distinct[OF inv] xp(1) p(1)] by blast
  then show ?thesis using x by simp
qed

text \<open>
  Issuance is idempotent. While an issued proof is alive, asking again for the same intent,
  kind, audience and set of scopes returns that very proof, marked as a replay, and changes nothing.
\<close>

theorem issue_proof_idempotent:
  assumes reach: "inj U" "(issuance_step U)\<^sup>*\<^sup>* empty_db d" "rt_uuid rt1 = U"
    and first: "issue_proof rt1 env1 iid q1 d = (Inr (p, False), d1)" "ip_status p = PI_issued"
    and same: "ir_proof_kind q2 = ir_proof_kind q1" "ir_audience q2 = ir_audience q1"
      "set (ir_scope q2) = set (ir_scope q1)" "rt_sha256_json rt2 = rt_sha256_json rt1"
    and alive: "rt_now rt2 < ip_expires_at p"
  shows "issue_proof rt2 env2 iid q2 d1 = (Inr (p, True), d1)"
proof -
  have "issuance_step U d d1" using step_issue[OF reach(3), of d env1 iid q1] first(1) by simp
  then have "(issuance_step U)\<^sup>*\<^sup>* empty_db d1" using reach(2) by simp
  moreover have "proofs_inv U empty_db" by (simp add: proofs_inv_def empty_db_def)
  ultimately have inv: "proofs_inv U d1" using issuance_run_inv reach(1) by blast
  show ?thesis
    using first(1)
  proof (cases rule: issue_proof_cases)
    case (fresh i e1 e2 p0 p' d4 scope hash key ttl)
    have p: "p' = p" "p \<in> set (issued_proofs d1)" using fresh(13,14) by auto
    have idi: "ai_action_intent_record_id i = iid" using tgetD[OF fresh(2)] by simp
    have key: "proof_key p = key"
      using fresh_row[OF fresh(12,10)] by (simp add: p fresh(10,6) idi)
    have row: "tget ai_action_intent_record_id iid (action_intents d1) = Some i"
    proof -
      obtain g where "e2 = e1\<lparr>issued_proofs := map g (issued_proofs e1)\<rparr>"
        using find_existing_frame[OF fresh(9)] by blast
      moreover have "action_intents d4 = action_intents e2"
        using fresh(12) sign_request_tables(2)[of p' d4 rt1 env1 q1 i p0 "used_id (used_id e2)"]
        by (cases "ip_status p0 = PI_requested") simp_all
      ultimately show ?thesis using fresh(2) by (simp add: fresh(14))
    qed
    obtain j where j: "tget ai_action_intent_record_id iid
        (action_intents (synchronize_record (rt_now rt2) iid d1)) = Some j" "intent_core j = intent_core i"
      using intents_kept_get[OF synchronize_record_kept row] by blast
    have sc: "normalized_scope (ir_scope q2) = scope"
      using normalized_scope_set[OF same(3)] fresh(3) by simp
    have key2: "(ai_tenant_id j, iid, ir_proof_kind q2, ir_audience q2, scope_hash_of rt2 scope,
        ai_action_intent_digest j) = proof_key p"
      using intent_core_eqD(2,9)[OF j(2)] same by (simp add: key fresh(5,6) scope_hash_of_def)
    have "find_existing_proof (rt_now rt2) (proof_key p) (synchronize_record (rt_now rt2) iid d1) =
        (Some p, synchronize_record (rt_now rt2) iid d1)"
      using find_issued_unique[OF inv p(2) first(2)] alive
      by (simp add: find_existing_proof_def proof_expires_def)
    then show ?thesis
      using fresh(4) by (simp add: issue_proof_def Let_def j(1) sc key2)
  qed simp_all
qed

theorem issue_proof_idempotent_witness:
  "\<exists>p d1. issue_proof (sample_rt 5) sample_env ''i'' sample_issue sample_issue_db = (Inr (p, False), d1) \<and>
     issue_proof (sample_rt 9) sample_env ''i'' (sample_issue\<lparr>ir_scope := [''pay'', ''pay'']\<rparr>) d1 =
       (Inr (p, True), d1)"
proof -
  obtain p d1 where 1: "issue_proof (sample_rt 5) sample_env ''i'' sample_issue sample_issue_db =
      (Inr (p, False), d1)" "ip_status p = PI_issued" "ip_expires_at p = 900000005"
    using sample_issue_result by blast
  have "issuance_step sample_uuid empty_db sample_issue_db"
    by (rule step_outside) (simp_all add: sample_issue_db_def empty_db_def)
  then have "(issuance_step sample_uuid)\<^sup>*\<^sup>* empty_db sample_issue_db" by simp
  from issue_proof_idempotent[OF inj_sample_uuid this _ 1(1,2),
      of "sample_issue\<lparr>ir_scope := [''pay'', ''pay'']\<rparr>" "sample_rt 9" sample_env] 1
  show ?thesis by (simp add: sample_issue_def)
qed

end
