(* ===== verification/Escrow.thy ===== *)
theory Escrow
  imports Issuance CapabilityToken
begin

text \<open>
  \<open>src/app/services/escrow.py\<close>: capability escrow. A hold is created for an issued proof, released
  once against a signed token, consumed once with that token, and can be revoked, quarantined or
  expire. Release and consumption are claimed by a conditional \<open>UPDATE\<close>; the other operations read
  the row and write it back at the commit. The sessions run with \<open>autoflush=False\<close>, so the query
  that picks the latest escrow of an intent orders rows by the \<open>updated_at\<close> of the last flush.
\<close>

section \<open>Rows\<close>

type_synonym actor = "string \<times> ident"

fun release_mode_value :: "capability_release_mode \<Rightarrow> string" where
  "release_mode_value development_simulated = ''development_simulated''"
| "release_mode_value external_managed = ''external_managed''"

definition escrow_expires :: "time \<Rightarrow> escrow_record \<Rightarrow> bool" where
  "escrow_expires now e \<longleftrightarrow> er_status e \<in> {ER_held, ER_released} \<and> er_expires_at e \<le> now"

definition expire_escrow_row :: "escrow_record \<Rightarrow> escrow_record" where
  "expire_escrow_row e = e\<lparr>er_status := ER_expired, er_execution_state := EX_expired,
     er_failure_reason := Some ''capability escrow expired before execution completed''\<rparr>"

definition refresh_escrow :: "time \<Rightarrow> escrow_record \<Rightarrow> escrow_record" where
  "refresh_escrow now e = (if escrow_expires now e then expire_escrow_row e else e)"

definition latest_escrow :: "ident \<Rightarrow> db \<Rightarrow> escrow_record option" where
  "latest_escrow iid d =
     (case sort_key (\<lambda>e. (- er_updated_at e, - er_created_at e))
         [e \<leftarrow> escrow_records d. er_action_intent_record_id e = iid] of
        [] \<Rightarrow> None | e # _ \<Rightarrow> Some e)"

text \<open>\<open>_synchronize_action_intent_execution_state\<close>; \<open>None\<close> where the intent is missing and it raises.\<close>

definition sync_execution_state :: "ident \<Rightarrow> db \<Rightarrow> db option" where
  "sync_execution_state iid d =
     (if tget ai_action_intent_record_id iid (action_intents d) = None then None
      else Some (d\<lparr>action_intents := tmodify ai_action_intent_record_id iid
        (\<lambda>i. i\<lparr>ai_execution_state := (case latest_escrow iid d of
             Some e \<Rightarrow> er_execution_state e | None \<Rightarrow> EX_not_requested)\<rparr>)
        (action_intents d)\<rparr>))"

text \<open>The flush of a changed row stamps it.\<close>

definition touch_escrow :: "time \<Rightarrow> ident \<Rightarrow> db \<Rightarrow> db" where
  "touch_escrow now eid d =
     d\<lparr>escrow_records := tmodify er_escrow_record_id eid (\<lambda>e. e\<lparr>er_updated_at := now\<rparr>)
        (escrow_records d)\<rparr>"

definition append_transition ::
  "runtime \<Rightarrow> escrow_transition_type \<Rightarrow> actor \<Rightarrow> (escrow_status \<times> execution_state) option \<Rightarrow>
   escrow_record \<Rightarrow> string option \<Rightarrow> string option \<Rightarrow> dict \<Rightarrow> db \<Rightarrow> db" where
  "append_transition rt kind actor from e reason_code reason_detail metadata d =
     used_id d\<lparr>escrow_transitions := tinsert
       \<lparr>et_escrow_transition_record_id = new_id rt d, et_tenant_id = er_tenant_id e,
        et_escrow_record_id = er_escrow_record_id e, et_transition_type = kind,
        et_from_status = map_option fst from, et_to_status = er_status e,
        et_from_execution_state = map_option snd from,
        et_to_execution_state = er_execution_state e,
        et_actor_principal_type = fst actor, et_actor_principal_id = snd actor,
        et_reason_code = reason_code, et_reason_detail = reason_detail,
        et_transition_metadata = metadata, et_created_at = rt_now rt\<rparr> (escrow_transitions d)\<rparr>"

definition missing_intent :: error where
  "missing_intent = PyRuntimeError ''linked Action Intent disappeared during escrow state sync''"

text \<open>
  Writing one changed row back: the row \<open>f e\<close> replaces \<open>e\<close>, the transition is appended, the
  intent synchronised and the session committed. \<open>d0\<close> is the database an exception leaves.
\<close>

definition write_escrow ::
  "runtime \<Rightarrow> escrow_transition_type \<Rightarrow> actor \<Rightarrow> escrow_record \<Rightarrow> (escrow_record \<Rightarrow> escrow_record) \<Rightarrow>
   string option \<Rightarrow> string option \<Rightarrow> dict \<Rightarrow> db \<Rightarrow> db option" where
  "write_escrow rt kind actor e f reason_code reason_detail metadata d =
     map_option (touch_escrow (rt_now rt) (er_escrow_record_id e))
       (sync_execution_state (er_action_intent_record_id e)
          (append_transition rt kind actor (Some (er_status e, er_execution_state e)) (f e)
             reason_code reason_detail metadata
             (d\<lparr>escrow_records := tmodify er_escrow_record_id (er_escrow_record_id e) f
                  (escrow_records d)\<rparr>)))"

section \<open>Reading\<close>

definition expire_escrow :: "runtime \<Rightarrow> escrow_record \<Rightarrow> db \<Rightarrow> db option" where
  "expire_escrow rt e d =
     write_escrow rt TR_expired (''system'', ''escrow-expiry'') e expire_escrow_row None None [] d"

definition get_escrow :: "runtime \<Rightarrow> ident \<Rightarrow> db \<Rightarrow> escrow_record result \<times> db" where
  "get_escrow rt eid d =
     (case tget er_escrow_record_id eid (escrow_records d) of
        None \<Rightarrow> (Inl EscrowRecordNotFoundError, d)
      | Some e \<Rightarrow>
          if escrow_expires (rt_now rt) e then
            (case expire_escrow rt e d of
               None \<Rightarrow> (Inl missing_intent, d)
             | Some d1 \<Rightarrow>
                 (case tget er_escrow_record_id eid (escrow_records d1) of
                    None \<Rightarrow> (Inl (PyRuntimeError ''escrow record disappeared during status refresh''), d1)
                  | Some e' \<Rightarrow> (Inr e', d1)))
          else (Inr e, d))"

record escrow_filter =
  ef_tenant_id :: "ident option"
  ef_action_intent_record_id :: "ident option"
  ef_issued_proof_id :: "ident option"
  ef_status :: "escrow_status option"
  ef_execution_state :: "execution_state option"

definition select_escrows :: "escrow_filter \<Rightarrow> db \<Rightarrow> escrow_record list" where
  "select_escrows f d =
     sort_key er_created_at
       [e \<leftarrow> escrow_records d. is_None_or (ef_tenant_id f) (er_tenant_id e) \<and>
          is_None_or (ef_action_intent_record_id f) (er_action_intent_record_id e) \<and>
          is_None_or (ef_issued_proof_id f) (er_issued_proof_id e) \<and>
          is_None_or (ef_status f) (er_status e) \<and>
          is_None_or (ef_execution_state f) (er_execution_state e)]"

text \<open>
  \<open>list_records\<close>: the overdue rows are expired one after the other and flushed together by one
  commit, so every ordering query of the loop still sees the old \<open>updated_at\<close>.
\<close>

definition expire_pending :: "runtime \<Rightarrow> escrow_record \<Rightarrow> db \<Rightarrow> db option" where
  "expire_pending rt e d =
     sync_execution_state (er_action_intent_record_id e)
       (append_transition rt TR_expired (''system'', ''escrow-expiry'')
          (Some (er_status e, er_execution_state e)) (expire_escrow_row e) None None []
          (d\<lparr>escrow_records := tmodify er_escrow_record_id (er_escrow_record_id e) expire_escrow_row
               (escrow_records d)\<rparr>))"

fun expire_all :: "runtime \<Rightarrow> escrow_record list \<Rightarrow> db \<Rightarrow> db option" where
  "expire_all rt [] d = Some d"
| "expire_all rt (e # es) d =
     (if escrow_expires (rt_now rt) e
      then (case expire_pending rt e d of None \<Rightarrow> None | Some d1 \<Rightarrow> expire_all rt es d1)
      else expire_all rt es d)"

definition list_escrows ::
  "runtime \<Rightarrow> escrow_filter \<Rightarrow> db \<Rightarrow> escrow_record list result \<times> db" where
  "list_escrows rt f d =
     (let es = select_escrows f d
      in case expire_all rt es d of
           None \<Rightarrow> (Inl missing_intent, d)
         | Some d1 \<Rightarrow>
             let d2 = fold (touch_escrow (rt_now rt))
                   (map er_escrow_record_id (filter (escrow_expires (rt_now rt)) es)) d1
             in (Inr (select_escrows f d2), d2))"

text \<open>\<open>_ensure_active_issued_proof\<close>: the expiry it notes is rolled back with the exception it raises.\<close>

definition proof_active :: "time \<Rightarrow> ident \<Rightarrow> db \<Rightarrow> bool" where
  "proof_active now pid d \<longleftrightarrow>
     (case tget ip_issued_proof_id pid (issued_proofs d) of
        None \<Rightarrow> False | Some p \<Rightarrow> ip_status (refresh_proof now p) = PI_issued)"

definition inactive_proof :: error where
  "inactive_proof = EscrowValidationError
     ''capability escrow requires an issued, non-expired, non-revoked proof''"

section \<open>Creating a hold\<close>

text \<open>\<open>_resolve_expires_at\<close>.\<close>

definition resolve_expires_at :: "runtime \<Rightarrow> issued_proof \<Rightarrow> int option \<Rightarrow> time result" where
  "resolve_expires_at rt p ttl =
     (let requested = (case ttl of None \<Rightarrow> capability_default_ttl_seconds (rt_settings rt)
            | Some n \<Rightarrow> if n = 0 then capability_default_ttl_seconds (rt_settings rt) else n)
      in if capability_max_ttl_seconds (rt_settings rt) < requested
         then Inl (EscrowValidationError
                ''requested capability expiry exceeds the configured maximum TTL'')
         else Inr (min (rt_now rt + seconds requested) (ip_expires_at p)))"

definition new_escrow ::
  "runtime \<Rightarrow> issued_proof \<Rightarrow> string \<Rightarrow> string \<Rightarrow> actor \<Rightarrow> dict \<Rightarrow> time \<Rightarrow> db \<Rightarrow> escrow_record" where
  "new_escrow rt p kind res actor metadata expires d =
     \<lparr>er_escrow_record_id = new_id rt d, er_tenant_id = ip_tenant_id p,
      er_action_intent_record_id = ip_action_intent_record_id p,
      er_issued_proof_id = ip_issued_proof_id p, er_capability_kind = kind,
      er_protected_resource_ref = res,
      er_release_mode = capability_release_mode (rt_settings rt), er_status = ER_held,
      er_execution_state = EX_capability_held, er_audience = ip_audience p, er_scope = ip_scope p,
      er_scope_hash = ip_scope_hash p, er_action_intent_digest = ip_action_intent_digest p,
      er_proof_nonce = ip_nonce p, er_created_by_principal_type = fst actor,
      er_created_by_principal_id = snd actor, er_capability_reference = None,
      er_capability_token_digest = None, er_capability_metadata = metadata,
      er_release_metadata = [], er_provider_execution_ref = None, er_provider_status = None,
      er_failure_reason = None, er_revocation_reason_code = None,
      er_revocation_reason_detail = None, er_quarantine_reason_code = None,
      er_quarantine_reason_detail = None, er_released_at = None, er_consumed_at = None,
      er_revoked_at = None, er_quarantined_at = None, er_expires_at = expires,
      er_created_at = rt_now rt, er_updated_at = rt_now rt\<rparr>"

definition bound_elsewhere :: error where
  "bound_elsewhere = EscrowStateError
     ''issued proof is already bound to a different escrow capability record''"

definition same_capability :: "string \<Rightarrow> string \<Rightarrow> escrow_record \<Rightarrow> bool" where
  "same_capability kind res e \<longleftrightarrow>
     er_capability_kind e = kind \<and> er_protected_resource_ref e = res"

definition hold_of :: "ident \<Rightarrow> db \<Rightarrow> escrow_record option" where
  "hold_of pid d = find (\<lambda>e. er_issued_proof_id e = pid) (escrow_records d)"

definition commit_hold :: "runtime \<Rightarrow> actor \<Rightarrow> escrow_record \<Rightarrow> db \<Rightarrow> db option" where
  "commit_hold rt actor e d =
     sync_execution_state (er_action_intent_record_id e)
       (append_transition rt TR_hold_created actor None e None None
          [(''issued_proof_id'', JStr (er_issued_proof_id e)),
           (''release_mode'', JStr (release_mode_value (er_release_mode e))),
           (''simulated'', JBool (er_release_mode e = development_simulated))]
          (used_id d\<lparr>escrow_records := tinsert e (escrow_records d)\<rparr>))"

text \<open>
  The insert of a hold: when another transaction has inserted one for the same proof, the unique
  constraint makes the flush fail and the existing hold is looked up again.
\<close>

definition insert_hold ::
  "runtime \<Rightarrow> actor \<Rightarrow> escrow_record \<Rightarrow> db \<Rightarrow> (escrow_record \<times> bool) result \<times> db" where
  "insert_hold rt actor e d =
     (case hold_of (er_issued_proof_id e) d of
        Some e' \<Rightarrow>
          if same_capability (er_capability_kind e) (er_protected_resource_ref e) e'
          then (Inr (e', True), d) else (Inl bound_elsewhere, d)
      | None \<Rightarrow>
          (case commit_hold rt actor e d of
             None \<Rightarrow> (Inl missing_intent, d)
           | Some d1 \<Rightarrow>
               (case get_escrow rt (er_escrow_record_id e) d1 of
                  (Inl err, d2) \<Rightarrow> (Inl err, d2)
                | (Inr e', d2) \<Rightarrow> (Inr (e', False), d2))))"

definition create_hold ::
  "runtime \<Rightarrow> ident \<Rightarrow> string \<Rightarrow> string \<Rightarrow> actor \<Rightarrow> int option \<Rightarrow> dict \<Rightarrow> db \<Rightarrow>
   (escrow_record \<times> bool) result \<times> db" where
  "create_hold rt pid capability_kind protected_resource_ref actor ttl metadata d =
     (case tget ip_issued_proof_id pid (issued_proofs d) of
        None \<Rightarrow> (Inl (EscrowValidationError ''issued proof was not found''), d)
      | Some p \<Rightarrow>
          if \<not> proof_active (rt_now rt) pid d then (Inl inactive_proof, d)
          else
            let kind = strip capability_kind; res = strip protected_resource_ref
            in if kind = []
               then (Inl (EscrowValidationError ''capability_kind must not be empty''), d)
               else if res = []
               then (Inl (EscrowValidationError ''protected_resource_ref must not be empty''), d)
               else (case hold_of pid d of
                       Some e \<Rightarrow>
                         (case get_escrow rt (er_escrow_record_id e) d of
                            (Inl err, d1) \<Rightarrow> (Inl err, d1)
                          | (Inr e', d1) \<Rightarrow>
                              if same_capability kind res e' then (Inr (e', True), d1)
                              else (Inl bound_elsewhere, d1))
                     | None \<Rightarrow>
                         (case resolve_expires_at rt p ttl of
                            Inl err \<Rightarrow> (Inl err, d)
                          | Inr expires \<Rightarrow>
                              insert_hold rt actor
                                (new_escrow rt p kind res actor metadata expires d) d)))"

section \<open>Release\<close>

text \<open>\<open>_token_digest\<close>.\<close>

definition token_digest :: "runtime \<Rightarrow> string \<Rightarrow> string result" where
  "token_digest rt token =
     (if strip token = []
      then Inl (CapabilityTokenValidationError ''capability token must not be empty'')
      else Inr (rt_sha256_text rt (strip token)))"

text \<open>A Python dictionary display \<open>{**old, k: v}\<close> is the new entries in front of the old ones.\<close>

definition release_metadata_of ::
  "signer \<Rightarrow> string \<Rightarrow> escrow_record \<Rightarrow> dict" where
  "release_metadata_of sg nonce e =
     [(''simulated'', JBool False),
      (''release_mode'', JStr (release_mode_value (er_release_mode e))),
      (''provider_integration'', JStr ''permit_broker_signed_capability''),
      (''signing'', JObj [(''algorithm'', JStr (sg_algorithm sg)), (''key_id'', JStr (sg_key_id sg)),
         (''typ'', JStr ''acp-cap+jwt''), (''nonce'', JStr nonce)]),
      (''binding'', JObj [(''audience'', JStr (er_audience e)),
         (''scope'', JList (map JStr (er_scope e))), (''scope_hash'', JStr (er_scope_hash e)),
         (''action_intent_digest'', JStr (er_action_intent_digest e)),
         (''proof_nonce'', JStr (er_proof_nonce e)), (''expiry'', JInt (er_expires_at e))])] @
     er_release_metadata e"

definition release_row :: "time \<Rightarrow> string \<Rightarrow> string \<Rightarrow> dict \<Rightarrow> escrow_record \<Rightarrow> escrow_record" where
  "release_row now ref digest metadata e = e\<lparr>er_status := ER_released,
     er_execution_state := EX_capability_released, er_capability_reference := Some ref,
     er_capability_token_digest := Some digest, er_release_metadata := metadata,
     er_released_at := Some now, er_updated_at := now\<rparr>"

text \<open>
  The claim: \<open>UPDATE ... WHERE escrow_record_id = ... AND status = 'held'\<close>, then the transition,
  the synchronisation and the commit. \<open>from\<close> is the state that was read before the claim.
\<close>

definition claim_release ::
  "runtime \<Rightarrow> ident \<Rightarrow> actor \<Rightarrow> escrow_status \<times> execution_state \<Rightarrow> string \<Rightarrow> string \<Rightarrow> dict \<Rightarrow> dict \<Rightarrow>
   db \<Rightarrow> unit result \<times> db" where
  "claim_release rt eid actor from ref digest metadata tmeta d =
     (case tget er_escrow_record_id eid (escrow_records d) of
        None \<Rightarrow> (Inl (EscrowStateError ''capability release is only allowed from held escrow state''), d)
      | Some e \<Rightarrow>
          if er_status e \<noteq> ER_held
          then (Inl (EscrowStateError ''capability release is only allowed from held escrow state''), d)
          else
            let f = release_row (rt_now rt) ref digest metadata
            in (case sync_execution_state (er_action_intent_record_id e)
                       (append_transition rt TR_released actor (Some from) (f e) None None tmeta
                          (d\<lparr>escrow_records := tmodify er_escrow_record_id eid f
                               (escrow_records d)\<rparr>)) of
                  None \<Rightarrow> (Inl missing_intent, d)
                | Some d1 \<Rightarrow> (Inr (), d1)))"

definition release_capability ::
  "runtime \<Rightarrow> json_codec \<Rightarrow> signer \<Rightarrow> ident \<Rightarrow> actor \<Rightarrow> db \<Rightarrow>
   (escrow_record \<times> string) result \<times> db" where
  "release_capability rt js sg eid actor d =
     (case get_escrow rt eid d of
        (Inl err, d1) \<Rightarrow> (Inl err, d1)
      | (Inr e, d1) \<Rightarrow>
          if \<not> proof_active (rt_now rt) (er_issued_proof_id e) d1 then (Inl inactive_proof, d1)
          else if er_status e \<noteq> ER_held
          then (Inl (EscrowStateError ''capability release is only allowed from held escrow state''), d1)
          else if er_release_mode e = external_managed
          then (Inl (CapabilityReleaseNotAvailableError
                  ''external managed capability release is modeled but not implemented''), d1)
          else
            let nonce = new_id rt d1;
                ref = ''cap_'' @ new_id rt (used_id d1);
                token = sign_capability_token js sg (er_escrow_record_id e)
                  (er_action_intent_digest e) (er_scope e) (er_audience e) (er_expires_at e) nonce
            in (case token_digest rt token of
                  Inl err \<Rightarrow> (Inl err, d1)
                | Inr digest \<Rightarrow>
                    (case claim_release rt eid actor (er_status e, er_execution_state e) ref digest
                            (release_metadata_of sg nonce e)
                            [(''simulated'', JBool False), (''capability_reference'', JStr ref),
                             (''signing_algorithm'', JStr (sg_algorithm sg)),
                             (''signing_key_id'', JStr (sg_key_id sg))]
                            (used_id (used_id d1)) of
                       (Inl err, d2) \<Rightarrow> (Inl err, d1)
                     | (Inr _, d2) \<Rightarrow>
                         (case get_escrow rt eid d2 of
                            (Inl err, d3) \<Rightarrow> (Inl err, d3)
                          | (Inr e', d3) \<Rightarrow> (Inr (e', token), d3)))))"

section \<open>Consumption\<close>

definition consume_row ::
  "time \<Rightarrow> string option \<Rightarrow> string option \<Rightarrow> escrow_record \<Rightarrow> escrow_record" where
  "consume_row now ref pstatus e = e\<lparr>er_status := ER_consumed,
     er_execution_state := EX_dispatch_requested, er_consumed_at := Some now,
     er_provider_execution_ref := str_or ref (er_provider_execution_ref e),
     er_provider_status := str_or pstatus (er_provider_status e), er_updated_at := now\<rparr>"

definition claim_consume ::
  "runtime \<Rightarrow> ident \<Rightarrow> actor \<Rightarrow> escrow_status \<times> execution_state \<Rightarrow> string \<Rightarrow> string option \<Rightarrow>
   string option \<Rightarrow> dict \<Rightarrow> db \<Rightarrow> unit result \<times> db" where
  "claim_consume rt eid actor from digest ref pstatus tmeta d =
     (case tget er_escrow_record_id eid (escrow_records d) of
        None \<Rightarrow> (Inl (EscrowStateError
          ''capability consumption is only allowed from released escrow state''), d)
      | Some e \<Rightarrow>
          if er_status e \<noteq> ER_released \<or> er_capability_token_digest e \<noteq> Some digest
          then (Inl (EscrowStateError
            ''capability consumption is only allowed from released escrow state''), d)
          else
            let f = consume_row (rt_now rt) ref pstatus
            in (case sync_execution_state (er_action_intent_record_id e)
                       (append_transition rt TR_consumed actor (Some from) (f e) None None tmeta
                          (d\<lparr>escrow_records := tmodify er_escrow_record_id eid f
                               (escrow_records d)\<rparr>)) of
                  None \<Rightarrow> (Inl missing_intent, d)
                | Some d1 \<Rightarrow> (Inr (), d1)))"

definition consume_capability ::
  "runtime \<Rightarrow> ident \<Rightarrow> string \<Rightarrow> actor \<Rightarrow> string option \<Rightarrow> string option \<Rightarrow> dict \<Rightarrow> db \<Rightarrow>
   escrow_record result \<times> db" where
  "consume_capability rt eid token actor ref pstatus metadata d =
     (case get_escrow rt eid d of
        (Inl err, d1) \<Rightarrow> (Inl err, d1)
      | (Inr e, d1) \<Rightarrow>
          if \<not> proof_active (rt_now rt) (er_issued_proof_id e) d1 then (Inl inactive_proof, d1)
          else if er_status e \<noteq> ER_released
          then (Inl (EscrowStateError
            ''capability consumption is only allowed from released escrow state''), d1)
          else (case er_capability_token_digest e of
                  None \<Rightarrow> (Inl (EscrowStateError ''released capability is missing a token digest''), d1)
                | Some stored \<Rightarrow>
                    if stored = []
                    then (Inl (EscrowStateError ''released capability is missing a token digest''), d1)
                    else (case token_digest rt token of
                            Inl err \<Rightarrow> (Inl err, d1)
                          | Inr digest \<Rightarrow>
                              if digest \<noteq> stored
                              then (Inl (CapabilityTokenValidationError
                                     ''capability token is invalid for this escrow''), d1)
                              else (case claim_consume rt eid actor
                                           (er_status e, er_execution_state e) digest ref pstatus
                                           ([(''provider_execution_ref'', opt_str ref),
                                             (''provider_status'', opt_str pstatus)] @ metadata) d1 of
                                      (Inl err, d2) \<Rightarrow> (Inl err, d1)
                                    | (Inr _, d2) \<Rightarrow> get_escrow rt eid d2))))"

section \<open>Revocation, quarantine and execution updates\<close>

definition revoke_row ::
  "time \<Rightarrow> string \<Rightarrow> string option \<Rightarrow> escrow_record \<Rightarrow> escrow_record" where
  "revoke_row now code detail e = e\<lparr>er_status := ER_revoked, er_execution_state := EX_revoked,
     er_revocation_reason_code := Some code, er_revocation_reason_detail := detail,
     er_revoked_at := Some now\<rparr>"

definition revoke_capability ::
  "runtime \<Rightarrow> ident \<Rightarrow> actor \<Rightarrow> string \<Rightarrow> string option \<Rightarrow> dict \<Rightarrow> db \<Rightarrow> escrow_record result \<times> db" where
  "revoke_capability rt eid actor code detail metadata d =
     (case get_escrow rt eid d of
        (Inl err, d1) \<Rightarrow> (Inl err, d1)
      | (Inr e, d1) \<Rightarrow>
          if er_status e \<notin> {ER_held, ER_released}
          then (Inl (EscrowStateError
            ''only held or released capabilities can be revoked; consumed capabilities must be quarantined instead''), d1)
          else (case write_escrow rt TR_revoked actor e (revoke_row (rt_now rt) code detail)
                       (Some code) detail metadata d1 of
                  None \<Rightarrow> (Inl missing_intent, d1)
                | Some d2 \<Rightarrow> get_escrow rt eid d2))"

definition quarantine_row ::
  "time \<Rightarrow> string \<Rightarrow> string option \<Rightarrow> escrow_record \<Rightarrow> escrow_record" where
  "quarantine_row now code detail e = e\<lparr>er_status := ER_quarantined,
     er_execution_state := EX_quarantined, er_quarantine_reason_code := Some code,
     er_quarantine_reason_detail := detail, er_quarantined_at := Some now\<rparr>"

definition quarantine_capability ::
  "runtime \<Rightarrow> ident \<Rightarrow> actor \<Rightarrow> string \<Rightarrow> string option \<Rightarrow> dict \<Rightarrow> db \<Rightarrow> escrow_record result \<times> db" where
  "quarantine_capability rt eid actor code detail metadata d =
     (case get_escrow rt eid d of
        (Inl err, d1) \<Rightarrow> (Inl err, d1)
      | (Inr e, d1) \<Rightarrow>
          if er_status e \<in> {ER_revoked, ER_quarantined, ER_expired}
          then (Inl (EscrowStateError ''capability cannot be quarantined from this status''), d1)
          else (case write_escrow rt TR_quarantined actor e (quarantine_row (rt_now rt) code detail)
                       (Some code) detail metadata d1 of
                  None \<Rightarrow> (Inl missing_intent, d1)
                | Some d2 \<Rightarrow> get_escrow rt eid d2))"

text \<open>\<open>_is_allowed_execution_progression\<close>.\<close>

fun allowed_progression :: "execution_state \<Rightarrow> execution_state \<Rightarrow> bool" where
  "allowed_progression EX_dispatch_requested s \<longleftrightarrow>
     s \<in> {EX_dispatch_confirmed, EX_result_observed, EX_failure_observed}"
| "allowed_progression EX_dispatch_confirmed s \<longleftrightarrow> s \<in> {EX_result_observed, EX_failure_observed}"
| "allowed_progression _ s \<longleftrightarrow> False"

definition execution_row ::
  "execution_state \<Rightarrow> string option \<Rightarrow> string option \<Rightarrow> escrow_record \<Rightarrow> escrow_record" where
  "execution_row s ref pstatus e = e\<lparr>er_execution_state := s,
     er_provider_execution_ref := str_or ref (er_provider_execution_ref e),
     er_provider_status := str_or pstatus (er_provider_status e)\<rparr>"

definition record_execution_update ::
  "runtime \<Rightarrow> ident \<Rightarrow> actor \<Rightarrow> execution_state \<Rightarrow> string option \<Rightarrow> string option \<Rightarrow> dict \<Rightarrow> db \<Rightarrow>
   escrow_record result \<times> db" where
  "record_execution_update rt eid actor s ref pstatus metadata d =
     (case get_escrow rt eid d of
        (Inl err, d1) \<Rightarrow> (Inl err, d1)
      | (Inr e, d1) \<Rightarrow>
          if er_status e \<noteq> ER_consumed
          then (Inl (EscrowStateError
            ''execution updates require a consumed capability escrow record''), d1)
          else if s \<notin> {EX_dispatch_confirmed, EX_result_observed, EX_failure_observed}
          then (Inl (EscrowValidationError
            ''execution updates may only report dispatch_confirmed, result_observed, or failure_observed''), d1)
          else if \<not> allowed_progression (er_execution_state e) s
          then (Inl (EscrowStateError ''invalid execution state transition''), d1)
          else (case write_escrow rt TR_execution_update actor e (execution_row s ref pstatus)
                       None None ([(''provider_execution_ref'', opt_str ref),
                          (''provider_status'', opt_str pstatus)] @ metadata) d1 of
                  None \<Rightarrow> (Inl missing_intent, d1)
                | Some d2 \<Rightarrow> get_escrow rt eid d2))"

end
