(* ===== verification/EscrowProtocol.thy ===== *)
theory EscrowProtocol
  imports Escrow
begin

text \<open>
  The escrow operations as steps of concurrent sessions. Every committing statement of
  \<open>EscrowService\<close> is one step on the shared database: the insert of a hold, the two conditional
  \<open>UPDATE\<close>s, and the unconditional write-back of a row that was read earlier. The step relation
  takes a predicate that says which version of a row a writer may still hold: the current row for
  requests that run one after the other, any version of it for requests that interleave. Each
  service call is shown to be a run of such steps, and the release and consumption counters of a
  record are bounded in every run, interleaved or not.
\<close>

section \<open>Steps\<close>

definition escrow_closed :: "escrow_status \<Rightarrow> bool" where
  "escrow_closed s \<longleftrightarrow> s \<in> {ER_revoked, ER_quarantined, ER_expired}"

text \<open>The guarded write-backs: what is checked of the row that was read, and the change to it.\<close>

inductive escrow_write ::
  "time \<Rightarrow> escrow_transition_type \<Rightarrow> (escrow_record \<Rightarrow> escrow_record) \<Rightarrow> escrow_record \<Rightarrow> bool"
  for now where
  ew_expire: "escrow_expires now e \<Longrightarrow> escrow_write now TR_expired expire_escrow_row e"
| ew_revoke: "er_status e \<in> {ER_held, ER_released} \<Longrightarrow>
    escrow_write now TR_revoked (revoke_row now code detail) e"
| ew_quarantine: "\<not> escrow_closed (er_status e) \<Longrightarrow>
    escrow_write now TR_quarantined (quarantine_row now code detail) e"
| ew_execution: "er_status e = ER_consumed \<Longrightarrow> allowed_progression (er_execution_state e) s \<Longrightarrow>
    escrow_write now TR_execution_update (execution_row s ref pstatus) e"

inductive escrow_step ::
  "(db \<Rightarrow> escrow_record \<Rightarrow> bool) \<Rightarrow> (nat \<Rightarrow> ident) \<Rightarrow> db \<Rightarrow> db \<Rightarrow> bool" for S U where
  es_hold: "rt_uuid rt = U \<Longrightarrow> hold_of (ip_issued_proof_id p) d = None \<Longrightarrow>
    commit_hold rt actor (new_escrow rt p kind res actor metadata expires d) d = Some d' \<Longrightarrow>
    escrow_step S U d d'"
| es_release: "rt_uuid rt = U \<Longrightarrow>
    claim_release rt eid actor from ref digest metadata tmeta d = (Inr (), d') \<Longrightarrow>
    escrow_step S U d d'"
| es_consume: "rt_uuid rt = U \<Longrightarrow>
    claim_consume rt eid actor from digest ref pstatus tmeta d = (Inr (), d') \<Longrightarrow>
    escrow_step S U d d'"
| es_write: "rt_uuid rt = U \<Longrightarrow> S d e \<Longrightarrow> escrow_write (rt_now rt) kind f e \<Longrightarrow>
    write_escrow rt kind actor e f reason_code reason_detail metadata d = Some d' \<Longrightarrow>
    escrow_step S U d d'"
| es_expire_listed: "rt_uuid rt = U \<Longrightarrow> S d e \<Longrightarrow> escrow_expires (rt_now rt) e \<Longrightarrow>
    expire_pending rt e d = Some d' \<Longrightarrow> escrow_step S U d d'"
| es_touch: "escrow_step S U d (touch_escrow now eid d)"
| es_other: "escrow_records d' = escrow_records d \<Longrightarrow>
    escrow_transitions d' = escrow_transitions d \<Longrightarrow> next_uuid d \<le> next_uuid d' \<Longrightarrow>
    escrow_step S U d d'"

text \<open>The row a writer holds: the current one, or some version of a row that still exists.\<close>

definition current_row :: "db \<Rightarrow> escrow_record \<Rightarrow> bool" where
  "current_row d e \<longleftrightarrow> tget er_escrow_record_id (er_escrow_record_id e) (escrow_records d) = Some e"

definition stale_row :: "db \<Rightarrow> escrow_record \<Rightarrow> bool" where
  "stale_row d e \<longleftrightarrow> tget er_escrow_record_id (er_escrow_record_id e) (escrow_records d) \<noteq> None"

lemma escrow_step_mono:
  assumes "escrow_step S U d d'" "\<And>d e. S d e \<Longrightarrow> T d e"
  shows "escrow_step T U d d'"
  using assms
  by (cases rule: escrow_step.cases) (auto intro: escrow_step.intros)

section \<open>What a step does to the escrow tables\<close>

lemma tmodify_tmodify:
  "(\<And>r. pk (f r) = pk r) \<Longrightarrow> tmodify pk k g (tmodify pk k f t) = tmodify pk k (g \<circ> f) t"
  by (induction t) auto

lemma sync_execution_frame:
  assumes "sync_execution_state iid d = Some d'"
  shows "escrow_records d' = escrow_records d" "escrow_transitions d' = escrow_transitions d"
    "next_uuid d' = next_uuid d" "issued_proofs d' = issued_proofs d"
  using assms by (auto simp: sync_execution_state_def split: if_splits)

lemma append_transition_frame [simp]:
  "escrow_records (append_transition rt k a from e rc rd md d) = escrow_records d"
  "next_uuid (append_transition rt k a from e rc rd md d) = Suc (next_uuid d)"
  "issued_proofs (append_transition rt k a from e rc rd md d) = issued_proofs d"
  "action_intents (append_transition rt k a from e rc rd md d) = action_intents d"
  by (simp_all add: append_transition_def)

lemma append_transition_rows:
  "\<exists>t. escrow_transitions (append_transition rt k a from e rc rd md d) = escrow_transitions d @ [t] \<and>
     et_transition_type t = k \<and> et_escrow_record_id t = er_escrow_record_id e"
  by (simp add: append_transition_def tinsert_def)

text \<open>The row changes keep the identity of a record, what it is bound to and its deadline.\<close>

definition escrow_binding ::
  "escrow_record \<Rightarrow> ident \<times> ident \<times> ident \<times> string \<times> string list \<times> string \<times> time" where
  "escrow_binding e = (er_escrow_record_id e, er_issued_proof_id e, er_action_intent_record_id e,
     er_audience e, er_scope e, er_action_intent_digest e, er_expires_at e)"

lemma escrow_binding_eqD:
  assumes "escrow_binding e = escrow_binding e'"
  shows "er_escrow_record_id e = er_escrow_record_id e'" "er_issued_proof_id e = er_issued_proof_id e'"
    "er_action_intent_record_id e = er_action_intent_record_id e'"
    "er_expires_at e = er_expires_at e'"
  using assms by (simp_all add: escrow_binding_def)

lemma rows_keep_binding [simp]:
  "escrow_binding (expire_escrow_row e) = escrow_binding e"
  "escrow_binding (release_row now ref dg md e) = escrow_binding e"
  "escrow_binding (consume_row now ref' ps e) = escrow_binding e"
  "escrow_binding (revoke_row now c dt e) = escrow_binding e"
  "escrow_binding (quarantine_row now c dt e) = escrow_binding e"
  "escrow_binding (execution_row s ref' ps e) = escrow_binding e"
  "escrow_binding (e\<lparr>er_updated_at := now\<rparr>) = escrow_binding e"
  by (simp_all add: escrow_binding_def expire_escrow_row_def release_row_def consume_row_def
      revoke_row_def quarantine_row_def execution_row_def)

lemma rows_status [simp]:
  "er_status (expire_escrow_row e) = ER_expired" "er_status (release_row now ref dg md e) = ER_released"
  "er_status (consume_row now ref' ps e) = ER_consumed" "er_status (revoke_row now c dt e) = ER_revoked"
  "er_status (quarantine_row now c dt e) = ER_quarantined"
  "er_status (execution_row s ref' ps e) = er_status e"
  by (simp_all add: expire_escrow_row_def release_row_def consume_row_def
      revoke_row_def quarantine_row_def execution_row_def)

lemma escrow_write_keeps:
  assumes "escrow_write now k f e"
  shows "escrow_binding (f e') = escrow_binding e'"
    and "er_status (f e') = er_status e' \<or> escrow_closed (er_status (f e'))"
    and "k \<notin> {TR_hold_created, TR_released, TR_consumed}"
  using assms by (auto elim!: escrow_write.cases simp: escrow_closed_def)

text \<open>
  The four shapes a step can have on the escrow tables: a new row with its first transition, one
  row rewritten with one transition, one row rewritten silently, nothing.
\<close>

inductive escrow_shape ::
  "(escrow_transition_type \<Rightarrow> escrow_status \<Rightarrow> escrow_status \<Rightarrow> bool) \<Rightarrow>
   (nat \<Rightarrow> ident) \<Rightarrow> db \<Rightarrow> db \<Rightarrow> bool" for W U where
  sh_insert: "escrow_records d' = escrow_records d @ [e] \<Longrightarrow> escrow_transitions d' = escrow_transitions d @ [t] \<Longrightarrow>
    et_transition_type t = TR_hold_created \<Longrightarrow> et_escrow_record_id t = er_escrow_record_id e \<Longrightarrow>
    er_escrow_record_id e = U (next_uuid d) \<Longrightarrow> er_status e = ER_held \<Longrightarrow>
    \<forall>e' \<in> set (escrow_records d). er_issued_proof_id e' \<noteq> er_issued_proof_id e \<Longrightarrow>
    next_uuid d < next_uuid d' \<Longrightarrow> escrow_shape W U d d'"
| sh_modify: "tget er_escrow_record_id eid (escrow_records d) = Some e \<Longrightarrow> W k (er_status e) (er_status (f e)) \<Longrightarrow>
    escrow_records d' = tmodify er_escrow_record_id eid f (escrow_records d) \<Longrightarrow>
    escrow_transitions d' = escrow_transitions d @ [t] \<Longrightarrow> et_transition_type t = k \<Longrightarrow>
    et_escrow_record_id t = eid \<Longrightarrow> (\<And>r. escrow_binding (f r) = escrow_binding r) \<Longrightarrow>
    next_uuid d \<le> next_uuid d' \<Longrightarrow> escrow_shape W U d d'"
| sh_touch: "escrow_records d' = tmodify er_escrow_record_id eid f (escrow_records d) \<Longrightarrow>
    escrow_transitions d' = escrow_transitions d \<Longrightarrow> next_uuid d \<le> next_uuid d' \<Longrightarrow>
    (\<And>r. escrow_binding (f r) = escrow_binding r) \<Longrightarrow> (\<And>r. er_status (f r) = er_status r) \<Longrightarrow>
    escrow_shape W U d d'"

lemma hold_of_None: "hold_of pid d = None \<longleftrightarrow> (\<forall>e \<in> set (escrow_records d). er_issued_proof_id e \<noteq> pid)"
  by (auto simp: hold_of_def find_None_iff)

lemma commit_hold_shape:
  assumes "commit_hold rt actor e d = Some d'" "rt_uuid rt = U" "hold_of (er_issued_proof_id e) d = None"
    "er_escrow_record_id e = U (next_uuid d)" "er_status e = ER_held"
  shows "escrow_shape W U d d'"
proof -
  note f = sync_execution_frame[OF assms(1)[unfolded commit_hold_def]]
  obtain t where "escrow_transitions d' = escrow_transitions d @ [t]"
    "et_transition_type t = TR_hold_created" "et_escrow_record_id t = er_escrow_record_id e"
    unfolding f(2) by (simp add: append_transition_def tinsert_def)
  then show ?thesis
    using sh_insert[of d' d e t] f assms(3-5) by (simp add: tinsert_def hold_of_None)
qed

lemma claim_release_shape:
  assumes "claim_release rt eid actor from ref digest md tm d = (Inr (), d')"
  obtains e t where "tget er_escrow_record_id eid (escrow_records d) = Some e" "er_status e = ER_held"
    "escrow_records d' = tmodify er_escrow_record_id eid (release_row (rt_now rt) ref digest md) (escrow_records d)"
    "escrow_transitions d' = escrow_transitions d @ [t]" "et_transition_type t = TR_released"
    "et_escrow_record_id t = eid" "next_uuid d \<le> next_uuid d'" "issued_proofs d' = issued_proofs d"
proof -
  define f where "f = release_row (rt_now rt) ref digest md"
  obtain e where e: "tget er_escrow_record_id eid (escrow_records d) = Some e" "er_status e = ER_held"
    "sync_execution_state (er_action_intent_record_id e) (append_transition rt TR_released actor
       (Some from) (f e) None None tm (d\<lparr>escrow_records := tmodify er_escrow_record_id eid f
       (escrow_records d)\<rparr>)) = Some d'"
    using assms by (auto simp: claim_release_def f_def Let_def split: option.splits if_splits)
  note fr = sync_execution_frame[OF e(3)]
  have "er_escrow_record_id (f e) = eid" using tgetD[OF e(1)] by (simp add: f_def release_row_def)
  then show thesis
    using that[OF e(1,2)] fr append_transition_rows by (fastforce simp: append_transition_def tinsert_def f_def)
qed

lemma claim_consume_shape:
  assumes "claim_consume rt eid actor from digest ref ps tm d = (Inr (), d')"
  obtains e t where "tget er_escrow_record_id eid (escrow_records d) = Some e" "er_status e = ER_released"
    "er_capability_token_digest e = Some digest"
    "escrow_records d' = tmodify er_escrow_record_id eid (consume_row (rt_now rt) ref ps) (escrow_records d)"
    "escrow_transitions d' = escrow_transitions d @ [t]" "et_transition_type t = TR_consumed"
    "et_escrow_record_id t = eid" "next_uuid d \<le> next_uuid d'" "issued_proofs d' = issued_proofs d"
proof -
  define f where "f = consume_row (rt_now rt) ref ps"
  obtain e where e: "tget er_escrow_record_id eid (escrow_records d) = Some e" "er_status e = ER_released"
    "er_capability_token_digest e = Some digest"
    "sync_execution_state (er_action_intent_record_id e) (append_transition rt TR_consumed actor
       (Some from) (f e) None None tm (d\<lparr>escrow_records := tmodify er_escrow_record_id eid f
       (escrow_records d)\<rparr>)) = Some d'"
    using assms by (auto simp: claim_consume_def f_def Let_def split: option.splits if_splits)
  note fr = sync_execution_frame[OF e(4)]
  have "er_escrow_record_id (f e) = eid" using tgetD[OF e(1)] by (simp add: f_def consume_row_def)
  then show thesis
    using that[OF e(1,2,3)] fr append_transition_rows by (fastforce simp: append_transition_def tinsert_def f_def)
qed


text \<open>
  The status moves of a step. A writer that holds the current row never changes a closed record;
  one that holds an old version may move a record that was consumed or closed in the meantime to
  another closed status, but it never reopens it.
\<close>

definition escrow_move ::
  "(escrow_status \<Rightarrow> bool) \<Rightarrow> escrow_transition_type \<Rightarrow> escrow_status \<Rightarrow> escrow_status \<Rightarrow> bool" where
  "escrow_move P k s s' \<longleftrightarrow>
     (k = TR_released \<and> s = ER_held \<and> s' = ER_released) \<or>
     (k = TR_consumed \<and> s = ER_released \<and> s' = ER_consumed) \<or>
     (k \<notin> {TR_hold_created, TR_released, TR_consumed} \<and> (s' = s \<or> P s \<and> escrow_closed s'))"

abbreviation loose_move :: "escrow_transition_type \<Rightarrow> escrow_status \<Rightarrow> escrow_status \<Rightarrow> bool" where
  "loose_move \<equiv> escrow_move (\<lambda>_. True)"

abbreviation strict_move :: "escrow_transition_type \<Rightarrow> escrow_status \<Rightarrow> escrow_status \<Rightarrow> bool" where
  "strict_move \<equiv> escrow_move (\<lambda>s. \<not> escrow_closed s)"

lemma escrow_write_open:
  "escrow_write now k f e \<Longrightarrow> \<not> escrow_closed (er_status e)"
  by (auto elim!: escrow_write.cases simp: escrow_closed_def escrow_expires_def)

lemma escrow_write_move:
  assumes "escrow_write now k f e" "\<not> escrow_closed (er_status e) \<Longrightarrow> P (er_status e')"
  shows "escrow_move P k (er_status e') (er_status (f e'))"
  using escrow_write_keeps(2)[OF assms(1), of e'] escrow_write_keeps(3)[OF assms(1)] escrow_write_open[OF assms(1)] assms(2)
  by (auto simp: escrow_move_def)

lemma sync_after_write:
  assumes "sync_execution_state iid (append_transition rt k actor from (f e) rc rd md
      (d\<lparr>escrow_records := tmodify er_escrow_record_id (er_escrow_record_id e) f (escrow_records d)\<rparr>)) = Some d'"
    and "\<And>r. escrow_binding (f r) = escrow_binding r"
  obtains t where
    "escrow_records d' = tmodify er_escrow_record_id (er_escrow_record_id e) f (escrow_records d)"
    "escrow_transitions d' = escrow_transitions d @ [t]" "et_transition_type t = k"
    "et_escrow_record_id t = er_escrow_record_id e" "next_uuid d \<le> next_uuid d'"
  using sync_execution_frame[OF assms(1)] escrow_binding_eqD(1)[OF assms(2), of e]
  by (auto simp: append_transition_def tinsert_def)

lemma write_shape:
  assumes w: "write_escrow rt k actor e f rc rd md d = Some d'" and g: "escrow_write (rt_now rt) k f e"
    and e0: "tget er_escrow_record_id (er_escrow_record_id e) (escrow_records d) = Some e0"
    and fr: "\<not> escrow_closed (er_status e) \<Longrightarrow> P (er_status e0)"
  shows "escrow_shape (escrow_move P) U d d'"
proof -
  note b = escrow_write_keeps(1)[OF g]
  define h where "h = (\<lambda>r. r\<lparr>er_updated_at := rt_now rt\<rparr>) \<circ> f"
  have h: "escrow_binding (h r) = escrow_binding r" "er_status (h r) = er_status (f r)" for r
    by (simp_all add: h_def b)
  obtain d1 where d1: "sync_execution_state (er_action_intent_record_id e)
      (append_transition rt k actor (Some (er_status e, er_execution_state e)) (f e) rc rd md
        (d\<lparr>escrow_records := tmodify er_escrow_record_id (er_escrow_record_id e) f (escrow_records d)\<rparr>)) = Some d1"
    "d' = touch_escrow (rt_now rt) (er_escrow_record_id e) d1"
    using w by (auto simp: write_escrow_def)
  have id: "er_escrow_record_id (f r) = er_escrow_record_id r" for r
    using escrow_binding_eqD(1)[OF b] .
  obtain t where t: "escrow_records d1 = tmodify er_escrow_record_id (er_escrow_record_id e) f (escrow_records d)"
    "escrow_transitions d1 = escrow_transitions d @ [t]" "et_transition_type t = k"
    "et_escrow_record_id t = er_escrow_record_id e" "next_uuid d \<le> next_uuid d1"
    by (rule sync_after_write[OF d1(1) b])
  show ?thesis
    by (rule sh_modify[where f = h and k = k and t = t, OF e0])
       (use t escrow_write_move[where e' = e0 and P = P, OF g fr] h id in
        \<open>simp_all add: d1(2) touch_escrow_def tmodify_tmodify h_def\<close>)
qed

lemma escrow_step_shape:
  assumes "escrow_step S U d d'"
    and S: "\<And>d e. S d e \<Longrightarrow> \<exists>e0. tget er_escrow_record_id (er_escrow_record_id e) (escrow_records d) = Some e0 \<and>
      (\<not> escrow_closed (er_status e) \<longrightarrow> P (er_status e0))"
  shows "escrow_shape (escrow_move P) U d d'"
  using assms(1)
proof cases
  case (es_hold rt p actor kind res metadata expires)
  then show ?thesis
    by (intro commit_hold_shape) (auto simp: new_escrow_def new_id_def)
next
  case (es_release rt eid actor from' ref digest md tm)
  show ?thesis
    by (rule claim_release_shape[OF es_release(2)],
        rule sh_modify[where k = TR_released and f = "release_row (rt_now rt) ref digest md"])
       (auto simp: escrow_move_def)
next
  case (es_consume rt eid actor from' digest ref ps tm)
  show ?thesis
    by (rule claim_consume_shape[OF es_consume(2)],
        rule sh_modify[where k = TR_consumed and f = "consume_row (rt_now rt) ref ps"])
       (auto simp: escrow_move_def)
next
  case (es_write rt e kind f actor rc rd md)
  obtain e0 where "tget er_escrow_record_id (er_escrow_record_id e) (escrow_records d) = Some e0"
    "\<not> escrow_closed (er_status e) \<longrightarrow> P (er_status e0)"
    using S[OF es_write(2)] by blast
  then show ?thesis using write_shape[OF es_write(4,3)] by blast
next
  case (es_expire_listed rt e)
  obtain e0 where e0: "tget er_escrow_record_id (er_escrow_record_id e) (escrow_records d) = Some e0"
    "\<not> escrow_closed (er_status e) \<longrightarrow> P (er_status e0)"
    using S[OF es_expire_listed(2)] by blast
  obtain t where t: "escrow_records d' = tmodify er_escrow_record_id (er_escrow_record_id e) expire_escrow_row (escrow_records d)"
    "escrow_transitions d' = escrow_transitions d @ [t]" "et_transition_type t = TR_expired"
    "et_escrow_record_id t = er_escrow_record_id e" "next_uuid d \<le> next_uuid d'"
    by (rule sync_after_write[OF es_expire_listed(4)[unfolded expire_pending_def]]) auto
  have m: "escrow_move P TR_expired (er_status e0) (er_status (expire_escrow_row e0))"
    by (rule escrow_write_move[OF ew_expire[OF es_expire_listed(3)]]) (use e0(2) in blast)
  show ?thesis
    by (rule sh_modify[where f = expire_escrow_row and k = TR_expired, OF e0(1)]) (use t m in simp_all)
next
  case (es_touch now eid)
  then show ?thesis by (auto intro: sh_touch simp: touch_escrow_def)
next
  case es_other
  then show ?thesis
    by (intro sh_touch[where f = id and eid = "[]"]) (auto simp: tmodify_id)
qed

lemma stale_step_shape: "escrow_step stale_row U d d' \<Longrightarrow> escrow_shape loose_move U d d'"
  by (rule escrow_step_shape[where S = stale_row]) (auto simp: stale_row_def)

lemma current_step_shape: "escrow_step current_row U d d' \<Longrightarrow> escrow_shape strict_move U d d'"
  by (rule escrow_step_shape[where S = current_row]) (auto simp: current_row_def)


section \<open>At most one release and one consumption\<close>

definition tcount :: "escrow_transition_type \<Rightarrow> ident \<Rightarrow> db \<Rightarrow> nat" where
  "tcount k eid d = length [t \<leftarrow> escrow_transitions d. et_transition_type t = k \<and> et_escrow_record_id t = eid]"

definition escrow_ok :: "db \<Rightarrow> escrow_record \<Rightarrow> bool" where
  "escrow_ok d e \<longleftrightarrow> (let n = \<lambda>k. tcount k (er_escrow_record_id e) d in
     n TR_hold_created = 1 \<and> n TR_released \<le> 1 \<and> n TR_consumed \<le> n TR_released \<and>
     (er_status e = ER_held \<longrightarrow> n TR_released = 0) \<and>
     (er_status e = ER_released \<longrightarrow> n TR_released = 1 \<and> n TR_consumed = 0) \<and>
     (er_status e = ER_consumed \<longrightarrow> n TR_consumed = 1))"

definition escrow_inv :: "(nat \<Rightarrow> ident) \<Rightarrow> db \<Rightarrow> bool" where
  "escrow_inv U d \<longleftrightarrow> distinct (map er_escrow_record_id (escrow_records d)) \<and>
     distinct (map er_issued_proof_id (escrow_records d)) \<and>
     (\<forall>e \<in> set (escrow_records d). \<exists>n < next_uuid d. er_escrow_record_id e = U n) \<and>
     (\<forall>t \<in> set (escrow_transitions d). \<exists>e \<in> set (escrow_records d).
        er_escrow_record_id e = et_escrow_record_id t) \<and>
     (\<forall>e \<in> set (escrow_records d). escrow_ok d e)"

lemma escrow_invD:
  assumes "escrow_inv U d"
  shows "distinct (map er_escrow_record_id (escrow_records d))"
    and "distinct (map er_issued_proof_id (escrow_records d))"
    and "e \<in> set (escrow_records d) \<Longrightarrow> \<exists>n < next_uuid d. er_escrow_record_id e = U n"
    and "t \<in> set (escrow_transitions d) \<Longrightarrow> \<exists>e \<in> set (escrow_records d).
        er_escrow_record_id e = et_escrow_record_id t"
    and "e \<in> set (escrow_records d) \<Longrightarrow> escrow_ok d e"
  using assms unfolding escrow_inv_def by blast+

lemma tcount_append:
  "escrow_transitions d' = escrow_transitions d @ [t] \<Longrightarrow>
   tcount k eid d' = tcount k eid d + (if et_transition_type t = k \<and> et_escrow_record_id t = eid then 1 else 0)"
  by (simp add: tcount_def)

lemma tcount_same: "escrow_transitions d' = escrow_transitions d \<Longrightarrow> tcount k eid d' = tcount k eid d"
  by (simp add: tcount_def)

lemma tcount_fresh:
  assumes "escrow_inv U d" "\<forall>e \<in> set (escrow_records d). er_escrow_record_id e \<noteq> eid"
  shows "tcount k eid d = 0"
  using escrow_invD(4)[OF assms(1)] assms(2) unfolding tcount_def
  by (metis (mono_tags, lifting) filter_False list.size(3))

text \<open>The invariant does not depend on how the rewritten table was obtained.\<close>

lemma escrow_inv_rewrite:
  assumes inv: "escrow_inv U d"
    and rows: "escrow_records d' = map g (escrow_records d)"
    and g: "\<And>e. escrow_binding (g e) = escrow_binding e"
    and ts: "\<And>t. t \<in> set (escrow_transitions d') \<Longrightarrow> t \<in> set (escrow_transitions d) \<or>
      (\<exists>e \<in> set (escrow_records d). er_escrow_record_id e = et_escrow_record_id t)"
    and n: "next_uuid d \<le> next_uuid d'"
    and ok: "\<And>e. e \<in> set (escrow_records d) \<Longrightarrow> escrow_ok d e \<Longrightarrow> escrow_ok d' (g e)"
  shows "escrow_inv U d'"
  unfolding escrow_inv_def
proof (intro conjI ballI)
  note ids = escrow_binding_eqD(1,2)[OF g]
  show "distinct (map er_escrow_record_id (escrow_records d'))"
    "distinct (map er_issued_proof_id (escrow_records d'))"
    using escrow_invD(1,2)[OF inv] by (simp_all add: rows comp_def ids)
  show "\<exists>n < next_uuid d'. er_escrow_record_id e = U n" if e: "e \<in> set (escrow_records d')" for e
  proof -
    obtain r where "r \<in> set (escrow_records d)" "e = g r" using e by (auto simp: rows)
    then show ?thesis using escrow_invD(3)[OF inv, of r] n by (auto simp: ids intro: less_le_trans)
  qed
  show "escrow_ok d' e" if "e \<in> set (escrow_records d')" for e
    using that escrow_invD(5)[OF inv] ok by (auto simp: rows)
  show "\<exists>e \<in> set (escrow_records d'). er_escrow_record_id e = et_escrow_record_id t"
    if "t \<in> set (escrow_transitions d')" for t
    using ts[OF that] escrow_invD(4)[OF inv] by (auto simp: rows ids)
qed

lemma escrow_ok_move:
  assumes ok: "escrow_ok d e" and t: "escrow_transitions d' = escrow_transitions d @ [t]"
    "et_escrow_record_id t = er_escrow_record_id e"
    and m: "loose_move (et_transition_type t) (er_status e) (er_status e')"
    and id: "er_escrow_record_id e' = er_escrow_record_id e"
  shows "escrow_ok d' e'"
  using m unfolding escrow_move_def
proof (elim disjE conjE)
  assume "et_transition_type t \<notin> {TR_hold_created, TR_released, TR_consumed}"
    "er_status e' = er_status e"
  then show ?thesis using ok by (auto simp: escrow_ok_def tcount_append[OF t(1)] id)
next
  assume "et_transition_type t \<notin> {TR_hold_created, TR_released, TR_consumed}"
    "escrow_closed (er_status e')"
  then show ?thesis using ok by (auto simp: escrow_ok_def tcount_append[OF t(1)] id escrow_closed_def)
qed (use ok t(2) in \<open>simp_all add: escrow_ok_def tcount_append[OF t(1)] id\<close>)

lemma escrow_shape_inv:
  assumes inv: "escrow_inv U d" and U: "inj U" and sh: "escrow_shape loose_move U d d'"
  shows "escrow_inv U d'"
  using sh
proof cases
  case (sh_insert e t)
  have fresh: "er_escrow_record_id e' \<noteq> er_escrow_record_id e" if "e' \<in> set (escrow_records d)" for e'
    using escrow_invD(3)[OF inv that] sh_insert(5) U by (auto dest: injD)
  have z: "tcount k (er_escrow_record_id e) d = 0" for k
    by (rule tcount_fresh[OF inv]) (use fresh in blast)
  have new: "escrow_ok d' e" using sh_insert(3,4,6) by (simp add: escrow_ok_def tcount_append[OF sh_insert(2)] z)
  have old: "escrow_ok d' e'" if "e' \<in> set (escrow_records d)" for e'
    using escrow_invD(5)[OF inv that] fresh[OF that] sh_insert(3,4)
    by (simp add: escrow_ok_def tcount_append[OF sh_insert(2)])
  show ?thesis
    unfolding escrow_inv_def
  proof (intro conjI ballI)
    show "distinct (map er_escrow_record_id (escrow_records d'))"
      using escrow_invD(1)[OF inv] fresh unfolding sh_insert(1) by force
    show "distinct (map er_issued_proof_id (escrow_records d'))"
      using escrow_invD(2)[OF inv] sh_insert(7) by (auto simp: sh_insert(1))
    show "\<exists>n < next_uuid d'. er_escrow_record_id e' = U n" if "e' \<in> set (escrow_records d')" for e'
      using that escrow_invD(3)[OF inv, of e'] sh_insert(5,8) unfolding sh_insert(1) by (auto intro: less_trans)
    show "escrow_ok d' e'" if "e' \<in> set (escrow_records d')" for e'
      using that new old by (auto simp: sh_insert(1))
    show "\<exists>e' \<in> set (escrow_records d'). er_escrow_record_id e' = et_escrow_record_id t'"
      if "t' \<in> set (escrow_transitions d')" for t'
      using that escrow_invD(4)[OF inv, of t'] sh_insert(4) by (auto simp: sh_insert(1,2))
  qed
next
  case (sh_modify eid e k f t)
  have e: "e \<in> set (escrow_records d)" "er_escrow_record_id e = eid" using tgetD[OF sh_modify(1)] by auto
  let ?g = "\<lambda>r. if er_escrow_record_id r = eid then f r else r"
  have ok: "escrow_ok d' (?g r)" if r: "r \<in> set (escrow_records d)" "escrow_ok d r" for r
  proof (cases "er_escrow_record_id r = eid")
    case True
    then have "r = e" using distinct_key_eq[OF escrow_invD(1)[OF inv] r(1) e(1)] e(2) by simp
    then show ?thesis
      using escrow_ok_move[OF r(2) sh_modify(4), of "f r"] sh_modify(2,5,6) e(2)
        escrow_binding_eqD(1)[OF sh_modify(7)] by simp
  next
    case False
    then show ?thesis using r(2) sh_modify(6) by (simp add: escrow_ok_def tcount_append[OF sh_modify(4)])
  qed
  show ?thesis
    by (rule escrow_inv_rewrite[OF inv, where g = ?g])
       (use sh_modify(3,4,6-8) e ok in \<open>auto simp: tmodify_def\<close>)
next
  case (sh_touch eid f)
  show ?thesis
    by (rule escrow_inv_rewrite[OF inv, where g = "\<lambda>r. if er_escrow_record_id r = eid then f r else r"])
       (use sh_touch(1-3) sh_touch(4,5) escrow_binding_eqD(1)[OF sh_touch(4)] in
        \<open>auto simp: tmodify_def escrow_ok_def tcount_same[OF sh_touch(2)]\<close>)
qed

lemma escrow_inv_empty: "escrow_inv U empty_db"
  by (simp add: escrow_inv_def empty_db_def)

lemma escrow_run_inv:
  assumes "inj U" "(escrow_step stale_row U)\<^sup>*\<^sup>* d d'" "escrow_inv U d"
  shows "escrow_inv U d'"
  using assms(2,3)
  by (induction rule: rtranclp_induct) (auto intro: escrow_shape_inv[OF _ assms(1) stale_step_shape])


section \<open>Service calls are runs of steps\<close>

text \<open>One call of the service by one session, with nothing in between.\<close>

inductive escrow_call :: "(nat \<Rightarrow> ident) \<Rightarrow> db \<Rightarrow> db \<Rightarrow> bool" for U where
  ec_create: "rt_uuid rt = U \<Longrightarrow>
    escrow_call U d (snd (create_hold rt pid kind res actor ttl metadata d))"
| ec_release: "rt_uuid rt = U \<Longrightarrow> escrow_call U d (snd (release_capability rt js sg eid actor d))"
| ec_consume: "rt_uuid rt = U \<Longrightarrow>
    escrow_call U d (snd (consume_capability rt eid token actor ref pstatus metadata d))"
| ec_revoke: "rt_uuid rt = U \<Longrightarrow>
    escrow_call U d (snd (revoke_capability rt eid actor code detail metadata d))"
| ec_quarantine: "rt_uuid rt = U \<Longrightarrow>
    escrow_call U d (snd (quarantine_capability rt eid actor code detail metadata d))"
| ec_update: "rt_uuid rt = U \<Longrightarrow>
    escrow_call U d (snd (record_execution_update rt eid actor s ref pstatus metadata d))"
| ec_get: "rt_uuid rt = U \<Longrightarrow> escrow_call U d (snd (get_escrow rt eid d))"
| ec_list: "rt_uuid rt = U \<Longrightarrow> escrow_call U d (snd (list_escrows rt f d))"
| ec_elsewhere: "escrow_records d' = escrow_records d \<Longrightarrow>
    escrow_transitions d' = escrow_transitions d \<Longrightarrow> next_uuid d \<le> next_uuid d' \<Longrightarrow>
    escrow_call U d d'"

abbreviation serial_run :: "(nat \<Rightarrow> ident) \<Rightarrow> db \<Rightarrow> db \<Rightarrow> bool" where
  "serial_run U \<equiv> (escrow_step current_row U)\<^sup>*\<^sup>*"

lemma get_escrow_run:
  assumes "get_escrow rt eid d = (r, d')" "rt_uuid rt = U"
  shows "serial_run U d d'"
proof (cases "tget er_escrow_record_id eid (escrow_records d)")
  case None
  then show ?thesis using assms by (simp add: get_escrow_def)
next
  case (Some e)
  then have cur: "current_row d e" using tgetD[OF Some] by (simp add: current_row_def)
  show ?thesis
  proof (cases "d' = d")
    case False
    then have "escrow_expires (rt_now rt) e" "expire_escrow rt e d = Some d'"
      using assms(1) Some by (auto simp: get_escrow_def split: if_splits option.splits)
    then show ?thesis
      using es_write[where S = current_row, OF assms(2) cur ew_expire] by (auto simp: expire_escrow_def)
  qed simp
qed

lemma get_escrow_row:
  assumes "get_escrow rt eid d = (Inr e, d')"
  shows "tget er_escrow_record_id eid (escrow_records d') = Some e" "current_row d' e"
    "er_escrow_record_id e = eid"
proof -
  show "tget er_escrow_record_id eid (escrow_records d') = Some e"
    using assms by (auto simp: get_escrow_def split: if_splits option.splits)
  then show "current_row d' e" "er_escrow_record_id e = eid"
    using tgetD by (fastforce simp: current_row_def)+
qed

text \<open>A call that reads the record, and after its checks either stops or writes it back.\<close>

lemma read_then:
  assumes "get_escrow rt eid d = (r, d1)" "rt_uuid rt = U" "serial_run U d1 d'"
  shows "serial_run U d d'"
  using get_escrow_run[OF assms(1,2)] assms(3) by (rule rtranclp_trans)

lemma write_then_read:
  assumes "current_row d e" "escrow_write (rt_now rt) k f e" "rt_uuid rt = U"
  shows "serial_run U d (snd (case write_escrow rt k actor e f rc rd md d of
    None \<Rightarrow> (Inl missing_intent, d) | Some d2 \<Rightarrow> get_escrow rt eid d2))"
proof (cases "write_escrow rt k actor e f rc rd md d")
  case (Some d2)
  obtain r d3 where g: "get_escrow rt eid d2 = (r, d3)" by force
  have "escrow_step current_row U d d2" using es_write[where S = current_row, OF assms(3,1,2) Some] .
  then show ?thesis using get_escrow_run[OF g assms(3)] by (simp add: Some g converse_rtranclp_into_rtranclp)
qed simp

lemma revoke_run:
  assumes "rt_uuid rt = U"
  shows "serial_run U d (snd (revoke_capability rt eid actor code detail md d))"
proof -
  obtain r d1 where g: "get_escrow rt eid d = (r, d1)" by force
  show ?thesis
  proof (rule read_then[OF g assms], cases r)
    case (Inr e)
    then have cur: "current_row d1 e" using get_escrow_row(2) g by blast
    show "serial_run U d1 (snd (revoke_capability rt eid actor code detail md d))"
      using write_then_read[OF cur ew_revoke assms] by (simp add: revoke_capability_def g Inr)
  qed (simp add: revoke_capability_def g)
qed

lemma quarantine_run:
  assumes "rt_uuid rt = U"
  shows "serial_run U d (snd (quarantine_capability rt eid actor code detail md d))"
proof -
  obtain r d1 where g: "get_escrow rt eid d = (r, d1)" by force
  show ?thesis
  proof (rule read_then[OF g assms], cases r)
    case (Inr e)
    then have cur: "current_row d1 e" using get_escrow_row(2) g by blast
    show "serial_run U d1 (snd (quarantine_capability rt eid actor code detail md d))"
      using write_then_read[OF cur ew_quarantine assms]
      by (simp add: quarantine_capability_def g Inr escrow_closed_def)
  qed (simp add: quarantine_capability_def g)
qed

lemma update_run:
  assumes "rt_uuid rt = U"
  shows "serial_run U d (snd (record_execution_update rt eid actor s ref pstatus md d))"
proof -
  obtain r d1 where g: "get_escrow rt eid d = (r, d1)" by force
  show ?thesis
  proof (rule read_then[OF g assms], cases r)
    case (Inr e)
    then have cur: "current_row d1 e" using get_escrow_row(2) g by blast
    show "serial_run U d1 (snd (record_execution_update rt eid actor s ref pstatus md d))"
      using write_then_read[OF cur ew_execution assms] by (simp add: record_execution_update_def g Inr)
  qed (simp add: record_execution_update_def g)
qed

lemma run_then_get:
  assumes "escrow_step current_row U d d1" "rt_uuid rt = U"
  shows "serial_run U d (snd (get_escrow rt eid d1))"
  using assms get_escrow_run[of rt eid d1 _ "snd (get_escrow rt eid d1)"]
  by (metis converse_rtranclp_into_rtranclp prod.collapse)

lemma consume_capability_cases:
  assumes "consume_capability rt eid token actor ref ps md d = (res, d')"
  obtains (refused) r err where "get_escrow rt eid d = (r, d')" "res = Inl err"
  | (consumed) e d1 dg tm d2 where "get_escrow rt eid d = (Inr e, d1)"
      "proof_active (rt_now rt) (er_issued_proof_id e) d1" "er_status e = ER_released"
      "er_capability_token_digest e = Some dg" "token_digest rt token = Inr dg"
      "claim_consume rt eid actor (er_status e, er_execution_state e) dg ref ps tm d1 = (Inr (), d2)"
      "get_escrow rt eid d2 = (res, d')"
proof -
  obtain r d1 where g: "get_escrow rt eid d = (r, d1)" by force
  note c = assms[unfolded consume_capability_def g]
  show thesis
  proof (cases "\<exists>err. res = Inl err \<and> d' = d1")
    case True
    then show thesis using refused g by blast
  next
    case nerr: False
    obtain e where r: "r = Inr e" using c nerr by (cases r) auto
    have e: "proof_active (rt_now rt) (er_issued_proof_id e) d1" "er_status e = ER_released"
      using c nerr r by (auto split: if_splits)
    obtain dg where dg: "er_capability_token_digest e = Some dg" "dg \<noteq> []"
      using c nerr r e by (auto split: if_splits option.splits)
    have tk: "token_digest rt token = Inr dg"
      using c nerr r e dg by (auto split: if_splits sum.splits)
    obtain tm x d2 where cl: "claim_consume rt eid actor (er_status e, er_execution_state e) dg ref ps tm d1 = (x, d2)"
      "(res, d') = (case x of Inl err \<Rightarrow> (Inl err, d1) | Inr _ \<Rightarrow> get_escrow rt eid d2)"
      using c r e dg tk by (auto split: prod.splits sum.splits)
    show thesis
      using consumed[OF _ e dg(1) tk] cl g r nerr by (cases x) auto
  qed
qed

lemma release_capability_cases:
  assumes "release_capability rt js sg eid actor d = (res, d')"
  obtains (refused) r err where "get_escrow rt eid d = (r, d')" "res = Inl err"
  | (released) e d1 nonce ref token dg tm d2 r where "get_escrow rt eid d = (Inr e, d1)"
      "proof_active (rt_now rt) (er_issued_proof_id e) d1" "er_status e = ER_held"
      "er_release_mode e \<noteq> external_managed" "nonce = new_id rt d1"
      "token = sign_capability_token js sg (er_escrow_record_id e) (er_action_intent_digest e)
         (er_scope e) (er_audience e) (er_expires_at e) nonce"
      "token_digest rt token = Inr dg"
      "claim_release rt eid actor (er_status e, er_execution_state e) ref dg
         (release_metadata_of sg nonce e) tm (used_id (used_id d1)) = (Inr (), d2)"
      "get_escrow rt eid d2 = (r, d')" "res = map_sum id (\<lambda>e'. (e', token)) r"
proof -
  obtain r d1 where g: "get_escrow rt eid d = (r, d1)" by force
  note c = assms[unfolded release_capability_def g]
  show thesis
  proof (cases "\<exists>err. res = Inl err \<and> d' = d1")
    case True
    then show thesis using refused g by blast
  next
    case nerr: False
    obtain e where r: "r = Inr e" using c nerr by (cases r) auto
    have e: "proof_active (rt_now rt) (er_issued_proof_id e) d1" "er_status e = ER_held"
      "er_release_mode e \<noteq> external_managed"
      using c nerr r by (auto split: if_splits)
    define nonce where "nonce = new_id rt d1"
    define token where "token = sign_capability_token js sg (er_escrow_record_id e)
      (er_action_intent_digest e) (er_scope e) (er_audience e) (er_expires_at e) nonce"
    note c' = c[unfolded r prod.case sum.case Let_def, folded nonce_def, folded token_def, simplified e, simplified]
    obtain dg where dg: "token_digest rt token = Inr dg"
      using c' nerr by (cases "token_digest rt token") auto
    obtain ref tm x d2 where cl: "claim_release rt eid actor (er_status e, er_execution_state e) ref dg
         (release_metadata_of sg nonce e) tm (used_id (used_id d1)) = (x, d2)"
      "(res, d') = (case x of Inl err \<Rightarrow> (Inl err, d1) | Inr _ \<Rightarrow>
         (case get_escrow rt eid d2 of (Inl err, d3) \<Rightarrow> (Inl err, d3) | (Inr e', d3) \<Rightarrow> (Inr (e', token), d3)))"
      using c' e dg by (auto split: prod.splits sum.splits)
    obtain q d3 where q: "get_escrow rt eid d2 = (q, d3)" by force
    show thesis
      using released[OF _ e nonce_def token_def dg] cl g r nerr q
      by (cases x; cases q) auto
  qed
qed

lemma consume_run:
  assumes "rt_uuid rt = U"
  shows "serial_run U d (snd (consume_capability rt eid token actor ref pstatus md d))"
proof -
  obtain res d' where c: "consume_capability rt eid token actor ref pstatus md d = (res, d')" by force
  from c show ?thesis
  proof (cases rule: consume_capability_cases)
    case refused
    then show ?thesis using get_escrow_run[OF _ assms] c by simp
  next
    case (consumed e d1 dg tm d2)
    show ?thesis
      using read_then[OF consumed(1) assms run_then_get[OF es_consume[OF assms consumed(6)] assms]]
        consumed(7) c by (metis snd_conv)
  qed
qed

lemma release_run:
  assumes "rt_uuid rt = U"
  shows "serial_run U d (snd (release_capability rt js sg eid actor d))"
proof -
  obtain res d' where c: "release_capability rt js sg eid actor d = (res, d')" by force
  from c show ?thesis
  proof (cases rule: release_capability_cases)
    case refused
    then show ?thesis using get_escrow_run[OF _ assms] c by simp
  next
    case (released e d1 nonce ref token dg tm d2 r)
    have "escrow_step current_row U d1 (used_id (used_id d1))" by (rule es_other) auto
    from converse_rtranclp_into_rtranclp[OF this run_then_get[OF es_release[OF assms released(8)] assms]]
    show ?thesis using read_then[OF released(1) assms] released(9) c by (metis snd_conv)
  qed
qed


lemma create_hold_cases:
  assumes "create_hold rt pid k r actor ttl md d = (res, d')"
  obtains (refused) err where "res = Inl err" "d' = d"
  | (existing) e q where "proof_active (rt_now rt) pid d" "hold_of pid d = Some e"
      "get_escrow rt (er_escrow_record_id e) d = (q, d')"
      "\<And>e' b. res = Inr (e', b) \<Longrightarrow> b \<and> q = Inr e' \<and> same_capability (strip k) (strip r) e'"
  | (fresh) p expires e d1 q where "tget ip_issued_proof_id pid (issued_proofs d) = Some p"
      "proof_active (rt_now rt) pid d" "hold_of pid d = None" "strip k \<noteq> []" "strip r \<noteq> []"
      "resolve_expires_at rt p ttl = Inr expires"
      "e = new_escrow rt p (strip k) (strip r) actor md expires d"
      "commit_hold rt actor e d = Some d1" "get_escrow rt (er_escrow_record_id e) d1 = (q, d')"
      "res = map_sum id (\<lambda>e'. (e', False)) q"
proof (cases "\<exists>err. res = Inl err \<and> d' = d")
  case True
  then show thesis using refused by blast
next
  case nerr: False
  note c = assms[unfolded create_hold_def Let_def]
  obtain p where p: "tget ip_issued_proof_id pid (issued_proofs d) = Some p"
    using c nerr by (cases "tget ip_issued_proof_id pid (issued_proofs d)") auto
  have act: "proof_active (rt_now rt) pid d" "strip k \<noteq> []" "strip r \<noteq> []"
    using c nerr p by (auto split: if_splits)
  have pid: "ip_issued_proof_id p = pid" using tgetD[OF p] by simp
  show thesis
  proof (cases "hold_of pid d")
    case (Some e)
    obtain q d1 where g: "get_escrow rt (er_escrow_record_id e) d = (q, d1)" by force
    show thesis
      by (rule existing[OF act(1) Some, of q])
         (use c p act Some g in \<open>auto split: sum.splits if_splits\<close>)
  next
    case None
    obtain x where x: "resolve_expires_at rt p ttl = Inr x"
      using c nerr p act None by (cases "resolve_expires_at rt p ttl") auto
    define e where "e = new_escrow rt p (strip k) (strip r) actor md x d"
    have h: "hold_of (er_issued_proof_id e) d = None" using None pid by (simp add: e_def new_escrow_def)
    have i: "insert_hold rt actor e d = (res, d')" using c p act None x by (simp add: e_def)
    obtain d1 where d1: "commit_hold rt actor e d = Some d1"
      using i nerr h by (cases "commit_hold rt actor e d") (auto simp: insert_hold_def)
    obtain q d2 where g: "get_escrow rt (er_escrow_record_id e) d1 = (q, d2)" by force
    show thesis
      by (rule fresh[OF p act(1) None act(2,3) x e_def d1, of q])
         (use i h d1 g in \<open>auto simp: insert_hold_def split: sum.splits\<close>)
  qed
qed

lemma create_run:
  assumes "rt_uuid rt = U"
  shows "serial_run U d (snd (create_hold rt pid k r actor ttl md d))"
proof -
  obtain res d' where c: "create_hold rt pid k r actor ttl md d = (res, d')" by force
  from c show ?thesis
  proof (cases rule: create_hold_cases)
    case (existing e q)
    then show ?thesis using get_escrow_run[OF existing(3) assms] c by simp
  next
    case (fresh p x e d1 q)
    have "ip_issued_proof_id p = pid" using tgetD[OF fresh(1)] by simp
    then have "escrow_step current_row U d d1"
      using es_hold[OF assms, of p d] fresh(3,8) by (simp add: fresh(7))
    from run_then_get[OF this assms] show ?thesis using fresh(9) c by (metis snd_conv)
  qed (use c in simp)
qed

lemma expire_pending_rows:
  assumes "expire_pending rt e d = Some d'"
  shows "escrow_records d' = tmodify er_escrow_record_id (er_escrow_record_id e) expire_escrow_row (escrow_records d)"
  using sync_execution_frame(1)[OF assms[unfolded expire_pending_def]] by simp

lemma expire_all_run:
  assumes "rt_uuid rt = U"
  shows "expire_all rt es d = Some d' \<Longrightarrow> distinct (map er_escrow_record_id es) \<Longrightarrow>
    \<forall>e \<in> set es. current_row d e \<Longrightarrow> serial_run U d d'"
proof (induction es arbitrary: d)
  case (Cons e es)
  show ?case
  proof (cases "escrow_expires (rt_now rt) e")
    case True
    then obtain d1 where d1: "expire_pending rt e d = Some d1" "expire_all rt es d1 = Some d'"
      using Cons.prems(1) by (auto split: option.splits)
    have "escrow_step current_row U d d1"
      using es_expire_listed[where S = current_row, OF assms _ True d1(1)] Cons.prems(3) by simp
    moreover have "current_row d1 e'" if e': "e' \<in> set es" for e'
    proof -
      have "er_escrow_record_id e' \<noteq> er_escrow_record_id e" "current_row d e'"
        using e' Cons.prems(2,3) by (force simp: image_iff)+
      then show ?thesis
        by (simp add: current_row_def expire_pending_rows[OF d1(1)] tget_tmodify expire_escrow_row_def)
    qed
    ultimately show ?thesis
      using Cons.IH[OF d1(2)] Cons.prems(2)
        converse_rtranclp_into_rtranclp[where r = "escrow_step current_row U" and a = d and b = d1]
      by simp
  qed (use Cons in auto)
qed simp

lemma touch_run: "serial_run U d (fold (touch_escrow now) ids d)"
proof (induction ids arbitrary: d)
  case (Cons i ids)
  show ?case
    using converse_rtranclp_into_rtranclp[where r = "escrow_step current_row U",
        OF es_touch Cons.IH[of "touch_escrow now i d"]] by simp
qed simp

lemma list_run:
  assumes "rt_uuid rt = U" and dist: "distinct (map er_escrow_record_id (escrow_records d))"
  shows "serial_run U d (snd (list_escrows rt f d))"
proof (cases "expire_all rt (select_escrows f d) d")
  case (Some d1)
  have "set (select_escrows f d) \<subseteq> set (escrow_records d)" by (auto simp: select_escrows_def)
  then have cur: "\<forall>e \<in> set (select_escrows f d). current_row d e"
    using tget_unique[OF dist] by (auto simp: current_row_def)
  have "distinct (map er_escrow_record_id (select_escrows f d))"
    unfolding select_escrows_def
    using dist by (subst distinct_map, simp add: distinct_map) (auto intro: distinct_filter inj_on_subset)
  from expire_all_run[OF assms(1) Some this cur] touch_run show ?thesis
    by (auto simp: list_escrows_def Let_def Some intro: rtranclp_trans)
qed (simp add: list_escrows_def Let_def)

lemma serial_run_stale: "serial_run U d d' \<Longrightarrow> (escrow_step stale_row U)\<^sup>*\<^sup>* d d'"
proof (induction rule: rtranclp_induct)
  case (step d1 d2)
  have "escrow_step stale_row U d1 d2"
    by (rule escrow_step_mono[OF step.hyps(2)]) (simp add: current_row_def stale_row_def)
  with step.IH show ?case by simp
qed simp

lemma escrow_call_run:
  assumes "escrow_call U d d'" "distinct (map er_escrow_record_id (escrow_records d))"
  shows "serial_run U d d'"
  using assms(1)
proof cases
  case ec_elsewhere
  then show ?thesis
    by (intro r_into_rtranclp[where r = "escrow_step current_row U"] es_other)
qed (simp_all add: create_run release_run consume_run revoke_run quarantine_run update_run
  list_run[OF _ assms(2)] get_escrow_run[OF prod.collapse[symmetric]])

lemma escrow_calls_run:
  assumes "inj U" "(escrow_call U)\<^sup>*\<^sup>* d d'" "escrow_inv U d"
  shows "serial_run U d d' \<and> escrow_inv U d'"
  using assms(2)
proof (induction rule: rtranclp_induct)
  case base
  then show ?case using assms(3) by simp
next
  case (step d1 d2)
  then have run: "serial_run U d1 d2" using escrow_call_run escrow_invD(1) by blast
  then show ?case
    using step.IH escrow_run_inv[OF assms(1) serial_run_stale[OF run]] by (auto intro: rtranclp_trans)
qed


section \<open>Rows along a run\<close>

definition escrow_rank :: "escrow_status \<Rightarrow> nat" where
  "escrow_rank s = (case s of ER_held \<Rightarrow> 0 | ER_released \<Rightarrow> 1 | ER_consumed \<Rightarrow> 2 | _ \<Rightarrow> 3)"

interpretation escrow_life: lifecycle "\<lambda>s s'. \<exists>k. strict_move k s s'" escrow_closed
  by unfold_locales (auto simp: escrow_move_def escrow_closed_def)

definition escrow_live :: "escrow_record \<Rightarrow> bool" where
  [status_defs]: "escrow_live e \<longleftrightarrow> er_status e \<in> {ER_held, ER_released}"

interpretation escrow_expiry: expirable escrow_live "\<lambda>e. Some (er_expires_at e)" refresh_escrow
  by unfold_locales
     (auto simp: escrow_live_def refresh_escrow_def escrow_expires_def)

lemma escrow_move_rank: "escrow_move P k s s' \<Longrightarrow> escrow_rank s \<le> escrow_rank s'"
  by (auto simp: escrow_move_def escrow_rank_def escrow_closed_def split: escrow_status.splits)

lemma shape_row:
  assumes "escrow_shape (escrow_move P) U d d'" "tget er_escrow_record_id eid (escrow_records d) = Some e"
  shows "\<exists>e'. tget er_escrow_record_id eid (escrow_records d') = Some e' \<and>
    escrow_binding e' = escrow_binding e \<and> (\<exists>k. escrow_move P k (er_status e) (er_status e'))"
  using assms(1)
proof cases
  case (sh_insert e1 t)
  then have "tget er_escrow_record_id eid (escrow_records d') = Some e"
    using assms(2) tget_tinsert[of er_escrow_record_id eid e1 "escrow_records d"] by (simp add: tinsert_def)
  moreover have "escrow_move P TR_expired (er_status e) (er_status e)" by (simp add: escrow_move_def)
  ultimately show ?thesis by blast
next
  case (sh_modify eid' e1 k f t)
  have m: "escrow_move P TR_expired (er_status e) (er_status e)" by (simp add: escrow_move_def)
  show ?thesis
  proof (cases "eid = eid'")
    case True
    then have "e1 = e" using sh_modify(1) assms(2) by simp
    then show ?thesis
      using True sh_modify(2,3,7) assms(2) escrow_binding_eqD(1)[OF sh_modify(7)]
      by (auto simp: tget_tmodify)
  next
    case False
    then have "tget er_escrow_record_id eid (escrow_records d') = Some e"
      using sh_modify(3) assms(2) escrow_binding_eqD(1)[OF sh_modify(7)] by (simp add: tget_tmodify)
    then show ?thesis using m by blast
  qed
next
  case (sh_touch eid' f)
  have m: "escrow_move P TR_expired (er_status e) (er_status e)" by (simp add: escrow_move_def)
  have "tget er_escrow_record_id eid (escrow_records d') = Some (if eid = eid' then f e else e)"
    using sh_touch(1) assms(2) escrow_binding_eqD(1)[OF sh_touch(4)] by (auto simp: tget_tmodify)
  then show ?thesis using sh_touch(4,5) m by auto
qed

lemma stale_run_row:
  assumes "(escrow_step stale_row U)\<^sup>*\<^sup>* d d'" "tget er_escrow_record_id eid (escrow_records d) = Some e"
  shows "\<exists>e'. tget er_escrow_record_id eid (escrow_records d') = Some e' \<and>
    escrow_binding e' = escrow_binding e \<and> escrow_rank (er_status e) \<le> escrow_rank (er_status e')"
  using assms(1)
proof (induction rule: rtranclp_induct)
  case base
  then show ?case using assms(2) by blast
next
  case (step d1 d2)
  then obtain e1 where e1: "tget er_escrow_record_id eid (escrow_records d1) = Some e1"
    "escrow_binding e1 = escrow_binding e" "escrow_rank (er_status e) \<le> escrow_rank (er_status e1)" by blast
  from shape_row[OF stale_step_shape[OF step.hyps(2)] e1(1)] obtain e2 k where
    "tget er_escrow_record_id eid (escrow_records d2) = Some e2" "escrow_binding e2 = escrow_binding e1"
    "loose_move k (er_status e1) (er_status e2)" by blast
  with e1 show ?case using escrow_move_rank by (metis le_trans)
qed

lemma serial_run_row:
  assumes "serial_run U d d'" "tget er_escrow_record_id eid (escrow_records d) = Some e"
  shows "\<exists>e'. tget er_escrow_record_id eid (escrow_records d') = Some e' \<and>
    (\<lambda>s s'. \<exists>k. strict_move k s s')\<^sup>*\<^sup>* (er_status e) (er_status e')"
  using assms(1)
proof (induction rule: rtranclp_induct)
  case base
  then show ?case using assms(2) by blast
next
  case (step d1 d2)
  then obtain e1 where e1: "tget er_escrow_record_id eid (escrow_records d1) = Some e1"
    "(\<lambda>s s'. \<exists>k. strict_move k s s')\<^sup>*\<^sup>* (er_status e) (er_status e1)" by blast
  from shape_row[OF current_step_shape[OF step.hyps(2)] e1(1)] obtain e2 where
    "tget er_escrow_record_id eid (escrow_records d2) = Some e2"
    "\<exists>k. strict_move k (er_status e1) (er_status e2)" by blast
  with rtranclp.rtrancl_into_rtrancl[where r = "\<lambda>s s'. \<exists>k. strict_move k s s'", OF e1(2)]
  show ?case by blast
qed

section \<open>Outcome of the single calls\<close>

lemma get_escrow_live:
  assumes "get_escrow rt eid d = (Inr e, d')" "er_status e \<noteq> ER_expired"
  shows "d' = d" "tget er_escrow_record_id eid (escrow_records d) = Some e" "\<not> escrow_expires (rt_now rt) e"
proof -
  obtain e0 where e0: "tget er_escrow_record_id eid (escrow_records d) = Some e0"
    using assms(1) by (cases "tget er_escrow_record_id eid (escrow_records d)") (auto simp: get_escrow_def)
  have "\<not> escrow_expires (rt_now rt) e0"
  proof
    assume x: "escrow_expires (rt_now rt) e0"
    then have "expire_escrow rt e0 d = Some d'"
      "tget er_escrow_record_id eid (escrow_records d') = Some e"
      using assms(1) e0 by (auto simp: get_escrow_def split: option.splits)
    then have "er_status e = ER_expired"
      using e0 tgetD[OF e0]
      by (auto simp: expire_escrow_def write_escrow_def touch_escrow_def sync_execution_frame(1)
          tget_tmodify expire_escrow_row_def)
    with assms(2) show False by simp
  qed
  with e0 assms(1) show "d' = d" "tget er_escrow_record_id eid (escrow_records d) = Some e"
    "\<not> escrow_expires (rt_now rt) e" by (auto simp: get_escrow_def)
qed

lemma get_escrow_current:
  "tget er_escrow_record_id eid (escrow_records d) = Some e \<Longrightarrow> \<not> escrow_expires (rt_now rt) e \<Longrightarrow>
   get_escrow rt eid d = (Inr e, d)"
  by (simp add: get_escrow_def)

lemma sync_execution_Some:
  "tget ai_action_intent_record_id iid (action_intents d) \<noteq> None \<longleftrightarrow> (\<exists>d'. sync_execution_state iid d = Some d')"
  by (simp add: sync_execution_state_def)

lemma sync_execution_intents:
  assumes "sync_execution_state iid d = Some d'"
  shows "tget ai_action_intent_record_id k (action_intents d') \<noteq> None \<longleftrightarrow>
    tget ai_action_intent_record_id k (action_intents d) \<noteq> None"
  using assms by (auto simp: sync_execution_state_def tget_tmodify split: if_splits)


lemma claim_consume_ok:
  assumes "tget er_escrow_record_id eid (escrow_records d) = Some e" "er_status e = ER_released"
    "er_capability_token_digest e = Some dg"
    "tget ai_action_intent_record_id (er_action_intent_record_id e) (action_intents d) \<noteq> None"
  shows "\<exists>d'. claim_consume rt eid actor from dg ref ps tm d = (Inr (), d') \<and>
    tget er_escrow_record_id eid (escrow_records d') = Some (consume_row (rt_now rt) ref ps e)"
proof -
  define d1 where "d1 = append_transition rt TR_consumed actor (Some from)
    (consume_row (rt_now rt) ref ps e) None None tm (d\<lparr>escrow_records := tmodify er_escrow_record_id eid
      (consume_row (rt_now rt) ref ps) (escrow_records d)\<rparr>)"
  obtain d' where d': "sync_execution_state (er_action_intent_record_id e) d1 = Some d'"
    using assms(4) sync_execution_Some[of "er_action_intent_record_id e" d1] by (auto simp: d1_def)
  have "escrow_records d' = tmodify er_escrow_record_id eid (consume_row (rt_now rt) ref ps) (escrow_records d)"
    using sync_execution_frame(1)[OF d'] by (simp add: d1_def)
  then have "tget er_escrow_record_id eid (escrow_records d') = Some (consume_row (rt_now rt) ref ps e)"
    using assms(1) by (simp add: tget_tmodify consume_row_def)
  then show ?thesis using assms(1-3) d' by (auto simp: claim_consume_def d1_def)
qed

lemma consume_row_live [simp]: "\<not> escrow_expires now (consume_row t ref ps e)"
  by (simp add: escrow_expires_def)

lemma not_expires_iff:
  "er_status e \<in> {ER_held, ER_released} \<Longrightarrow> \<not> escrow_expires now e \<longleftrightarrow> now < er_expires_at e"
  by (auto simp: escrow_expires_def)

definition spends :: "escrow_transition_type \<Rightarrow> ident \<Rightarrow> db \<Rightarrow> nat" where
  "spends k pid d = length [t \<leftarrow> escrow_transitions d. et_transition_type t = k \<and>
     (\<exists>e \<in> set (escrow_records d). er_escrow_record_id e = et_escrow_record_id t \<and>
        er_issued_proof_id e = pid)]"

lemma spends_tcount:
  assumes inv: "escrow_inv U d" and e: "e \<in> set (escrow_records d)" "er_issued_proof_id e = pid"
  shows "spends k pid d = tcount k (er_escrow_record_id e) d"
proof -
  have "(\<exists>e' \<in> set (escrow_records d). er_escrow_record_id e' = x \<and> er_issued_proof_id e' = pid) \<longleftrightarrow>
      x = er_escrow_record_id e" for x
  proof
    assume "\<exists>e' \<in> set (escrow_records d). er_escrow_record_id e' = x \<and> er_issued_proof_id e' = pid"
    then obtain e' where e': "e' \<in> set (escrow_records d)" "er_escrow_record_id e' = x"
      "er_issued_proof_id e' = er_issued_proof_id e" using e(2) by auto
    then have "e' = e" using distinct_key_eq[OF escrow_invD(2)[OF inv] e'(1) e(1)] by simp
    with e'(2) show "x = er_escrow_record_id e" by simp
  qed (use e in blast)
  then show ?thesis unfolding spends_def tcount_def by simp
qed

section \<open>Properties\<close>

text \<open>
  C4. A proof is spent at most once. However the commits of concurrent sessions interleave, with
  writers that act on rows they read arbitrarily long ago, at most one capability is ever released
  for an issued proof and at most one released capability is ever consumed; nothing is consumed
  that was not released.
\<close>

theorem proof_spent_once:
  assumes "inj U" "(escrow_step stale_row U)\<^sup>*\<^sup>* empty_db d"
  shows "spends TR_consumed pid d \<le> spends TR_released pid d \<and> spends TR_released pid d \<le> 1"
proof -
  have inv: "escrow_inv U d" using escrow_run_inv[OF assms escrow_inv_empty] .
  show ?thesis
  proof (cases "\<exists>e \<in> set (escrow_records d). er_issued_proof_id e = pid")
    case True
    then obtain e where e: "e \<in> set (escrow_records d)" "er_issued_proof_id e = pid" by blast
    show ?thesis
      using escrow_invD(5)[OF inv e(1)] by (simp add: spends_tcount[OF inv e] escrow_ok_def Let_def)
  next
    case False
    then have "spends k pid d = 0" for k
      unfolding spends_def by (simp add: filter_empty_conv)
    then show ?thesis by simp
  qed
qed

text \<open>
  C5. The service implements the protocol. Every sequence of service calls (holds, releases,
  consumptions, revocations, quarantines, execution updates, reads, listings, and changes to other
  tables) is a run of the step relation in which every writer acts on the current row.
\<close>

theorem escrow_calls_refine:
  assumes "inj U" "(escrow_call U)\<^sup>*\<^sup>* empty_db d"
  shows "(escrow_step current_row U)\<^sup>*\<^sup>* empty_db d"
  using escrow_calls_run[OF assms escrow_inv_empty] by blast

text \<open>
  Escrow records only move forward. In any interleaved run a record keeps its identity, its
  proof, intent, audience, scope, digest and deadline, and its status never goes back: a released
  capability is never held again, a consumed one never released, a closed one never reopened.
\<close>

theorem escrow_monotone:
  assumes "(escrow_step stale_row U)\<^sup>*\<^sup>* d d'" "tget er_escrow_record_id eid (escrow_records d) = Some e"
  shows "\<exists>e'. tget er_escrow_record_id eid (escrow_records d') = Some e' \<and>
    escrow_binding e' = escrow_binding e \<and> escrow_rank (er_status e) \<le> escrow_rank (er_status e')"
  using stale_run_row[OF assms] .

text \<open>
  Closed records are final when calls do not interleave: after any sequence of service calls a
  record that was revoked, quarantined or expired still has that very status.
\<close>

theorem closed_escrow_final:
  assumes "inj U" "(escrow_call U)\<^sup>*\<^sup>* empty_db d" "(escrow_call U)\<^sup>*\<^sup>* d d'"
    and "tget er_escrow_record_id eid (escrow_records d) = Some e" "escrow_closed (er_status e)"
  shows "\<exists>e'. tget er_escrow_record_id eid (escrow_records d') = Some e' \<and> er_status e' = er_status e"
proof -
  have "escrow_inv U d" using escrow_calls_run[OF assms(1,2) escrow_inv_empty] by blast
  then have "serial_run U d d'" using escrow_calls_run[OF assms(1,3)] by blast
  from serial_run_row[OF this assms(4)] show ?thesis
    using escrow_life.terminal_run assms(5) by blast
qed

text \<open>
  C31. Consumption is guarded. A consumption that succeeds was for a released, unexpired capability
  of a proof that was still issued and unexpired, with the token whose digest was stored at release;
  afterwards the record is consumed and dispatch is requested.
\<close>

theorem consume_guarded:
  assumes "consume_capability rt eid token actor ref ps md d = (Inr e', d')"
  shows "\<exists>e. tget er_escrow_record_id eid (escrow_records d) = Some e \<and> er_status e = ER_released \<and>
    rt_now rt < er_expires_at e \<and> proof_active (rt_now rt) (er_issued_proof_id e) d \<and>
    er_capability_token_digest e = Some (rt_sha256_text rt (strip token)) \<and>
    e' = consume_row (rt_now rt) ref ps e \<and>
    tget er_escrow_record_id eid (escrow_records d') = Some e'"
  using assms
proof (cases rule: consume_capability_cases)
  case (consumed e d1 dg tm d2)
  have 1: "d1 = d" "tget er_escrow_record_id eid (escrow_records d) = Some e" "rt_now rt < er_expires_at e"
    using get_escrow_live[OF consumed(1)] consumed(3) not_expires_iff[of e] by auto
  have "tget er_escrow_record_id eid (escrow_records d2) = Some (consume_row (rt_now rt) ref ps e)"
    by (rule claim_consume_shape[OF consumed(6)]) (use 1 in \<open>simp add: tget_tmodify consume_row_def\<close>)
  moreover from this have "d' = d2" "e' = consume_row (rt_now rt) ref ps e"
    using consumed(7) get_escrow_current[of eid d2] by auto
  moreover have "dg = rt_sha256_text rt (strip token)"
    using consumed(5) by (auto simp: token_digest_def split: if_splits)
  ultimately show ?thesis using 1 consumed(2-4) by auto
qed simp


lemma release_effect:
  assumes "release_capability rt js sg eid actor d = (Inr (e', token), d')"
  shows "\<exists>e dg. tget er_escrow_record_id eid (escrow_records d) = Some e \<and> er_status e = ER_held \<and>
    rt_now rt < er_expires_at e \<and> proof_active (rt_now rt) (er_issued_proof_id e) d \<and>
    token_digest rt token = Inr dg \<and> (\<exists>ref md. e' = release_row (rt_now rt) ref dg md e) \<and>
    tget er_escrow_record_id eid (escrow_records d') = Some e' \<and> issued_proofs d' = issued_proofs d \<and>
    tget ai_action_intent_record_id (er_action_intent_record_id e') (action_intents d') \<noteq> None"
  using assms
proof (cases rule: release_capability_cases)
  case (released e d1 nonce ref tok dg tm d2 r)
  have 1: "d1 = d" "tget er_escrow_record_id eid (escrow_records d) = Some e" "rt_now rt < er_expires_at e"
    using get_escrow_live[OF released(1)] released(3) not_expires_iff[of e] by auto
  define f where "f = release_row (rt_now rt) ref dg (release_metadata_of sg nonce e)"
  have c: "claim_release rt eid actor (er_status e, er_execution_state e) ref dg
      (release_metadata_of sg nonce e) tm (used_id (used_id d)) = (Inr (), d2)"
    using released(8) 1(1) by simp
  have row: "tget er_escrow_record_id eid (escrow_records d2) = Some (f e)"
    by (rule claim_release_shape[OF c]) (use 1 in \<open>simp add: tget_tmodify release_row_def f_def\<close>)
  have pr: "issued_proofs d2 = issued_proofs d"
    by (rule claim_release_shape[OF c]) simp
  obtain dx where dx: "sync_execution_state (er_action_intent_record_id e) dx = Some d2"
    using c 1(2) by (auto simp: claim_release_def Let_def split: option.splits if_splits)
  then have int: "tget ai_action_intent_record_id (er_action_intent_record_id e) (action_intents d2) \<noteq> None"
    using sync_execution_intents[OF dx] sync_execution_Some by blast
  have "\<not> escrow_expires (rt_now rt) (f e)"
    using 1(3) by (simp add: escrow_expires_def f_def release_row_def)
  then have "d' = d2" "e' = f e" "token = tok"
    using released(9,10) get_escrow_current[OF row] by auto
  then show ?thesis
    using 1 released(2,3,7) row pr int by (auto simp: f_def release_row_def)
qed simp

lemma get_escrow_result:
  assumes "get_escrow rt eid d = (Inr e, d')" "tget er_escrow_record_id eid (escrow_records d) = Some h"
  shows "escrow_binding e = escrow_binding h" "er_status e = er_status (refresh_escrow (rt_now rt) h)"
proof -
  have "escrow_binding e = escrow_binding h \<and> er_status e = er_status (refresh_escrow (rt_now rt) h)"
  proof (cases "escrow_expires (rt_now rt) h")
    case True
    then have x: "expire_escrow rt h d = Some d'" "tget er_escrow_record_id eid (escrow_records d') = Some e"
      using assms by (auto simp: get_escrow_def split: option.splits)
    obtain d1 where d1: "d' = touch_escrow (rt_now rt) eid d1"
        "escrow_records d1 = tmodify er_escrow_record_id eid expire_escrow_row (escrow_records d)"
      using x(1) tgetD[OF assms(2)]
      by (auto simp: expire_escrow_def write_escrow_def sync_execution_frame(1))
    have id: "er_escrow_record_id (expire_escrow_row r) = er_escrow_record_id r" for r
      by (simp add: expire_escrow_row_def)
    have "e = (expire_escrow_row h)\<lparr>er_updated_at := rt_now rt\<rparr>"
      using x(2) assms(2) by (simp add: d1 touch_escrow_def tget_tmodify id)
    then show ?thesis using True by (simp add: refresh_escrow_def)
  next
    case False
    then show ?thesis using assms by (simp add: get_escrow_def refresh_escrow_def)
  qed
  then show "escrow_binding e = escrow_binding h" "er_status e = er_status (refresh_escrow (rt_now rt) h)"
    by auto
qed


text \<open>
  A hold never outlives its proof. A new hold copies audience, scope and digest from a proof
  that is issued and unexpired, is bound to it, and expires no later than the proof and no later than
  the configured maximum; while it has not expired it is held, not released.
\<close>

theorem hold_bounded_by_proof:
  assumes "create_hold rt pid kind res actor ttl md d = (Inr (e, False), d')"
    and "tget er_escrow_record_id (new_id rt d) (escrow_records d) = None"
  shows "\<exists>p. tget ip_issued_proof_id pid (issued_proofs d) = Some p \<and>
    ip_status p = PI_issued \<and> rt_now rt < ip_expires_at p \<and>
    er_issued_proof_id e = pid \<and> er_action_intent_record_id e = ip_action_intent_record_id p \<and>
    er_audience e = ip_audience p \<and> er_scope e = ip_scope p \<and>
    er_action_intent_digest e = ip_action_intent_digest p \<and>
    er_expires_at e \<le> ip_expires_at p \<and>
    er_expires_at e \<le> rt_now rt + seconds (capability_max_ttl_seconds (rt_settings rt)) \<and>
    er_status e = (if er_expires_at e \<le> rt_now rt then ER_expired else ER_held)"
  using assms(1)
proof (cases rule: create_hold_cases)
  case (fresh p x h d1 q)
  obtain ttl' where x: "x = min (rt_now rt + seconds ttl') (ip_expires_at p)"
    "ttl' \<le> capability_max_ttl_seconds (rt_settings rt)"
    using fresh(6) by (auto simp: resolve_expires_at_def Let_def split: if_splits)
  have p: "ip_issued_proof_id p = pid" "ip_status (refresh_proof (rt_now rt) p) = PI_issued"
    using fresh(1,2) tgetD[OF fresh(1)] by (auto simp: proof_active_def)
  have live: "ip_status p = PI_issued" "rt_now rt < ip_expires_at p"
    using p(2) proof_expiry.live_refresh[of "rt_now rt" p] by (auto simp: proof_live_def)
  have q: "q = Inr e" "get_escrow rt (er_escrow_record_id h) d1 = (Inr e, d')"
    using fresh(9,10) by (cases q; simp)+
  have rows: "escrow_records d1 = escrow_records d @ [h]"
    using sync_execution_frame(1)[OF fresh(8)[unfolded commit_hold_def]] by (simp add: tinsert_def)
  have "er_escrow_record_id h = new_id rt d" by (simp add: fresh(7) new_escrow_def)
  then have h: "tget er_escrow_record_id (er_escrow_record_id h) (escrow_records d1) = Some h"
    using assms(2) tget_tinsert[of er_escrow_record_id "new_id rt d" h "escrow_records d"]
    by (simp add: rows tinsert_def)
  have hp: "er_issued_proof_id h = pid" "er_action_intent_record_id h = ip_action_intent_record_id p"
    "er_audience h = ip_audience p" "er_scope h = ip_scope p" "er_status h = ER_held"
    "er_action_intent_digest h = ip_action_intent_digest p" "er_expires_at h = x"
    using p(1) by (simp_all add: fresh(7) new_escrow_def)
  have "x \<le> rt_now rt + seconds (capability_max_ttl_seconds (rt_settings rt))"
    using x seconds_mono[of ttl' "capability_max_ttl_seconds (rt_settings rt)"] by linarith
  then show ?thesis
    using fresh(1) live hp x(1) get_escrow_result[OF q(2) h]
    by (auto simp: escrow_binding_def refresh_escrow_def escrow_expires_def)
qed auto


lemma write_escrow_Some:
  "(\<exists>d'. write_escrow rt k actor e f rc rd md d = Some d') \<longleftrightarrow>
   tget ai_action_intent_record_id (er_action_intent_record_id e) (action_intents d) \<noteq> None"
  by (simp add: write_escrow_def sync_execution_state_def)

lemma write_escrow_row:
  assumes "write_escrow rt k actor e f rc rd md d = Some d'"
    and "tget er_escrow_record_id (er_escrow_record_id e) (escrow_records d) = Some e0"
    and "\<And>r. er_escrow_record_id (f r) = er_escrow_record_id r"
  shows "tget er_escrow_record_id (er_escrow_record_id e) (escrow_records d') =
    Some ((f e0)\<lparr>er_updated_at := rt_now rt\<rparr>)"
proof -
  obtain d1 where d1: "d' = touch_escrow (rt_now rt) (er_escrow_record_id e) d1"
    "escrow_records d1 = tmodify er_escrow_record_id (er_escrow_record_id e) f (escrow_records d)"
    using assms(1) by (auto simp: write_escrow_def sync_execution_frame(1))
  show ?thesis using assms(2,3) by (simp add: d1 touch_escrow_def tget_tmodify)
qed

text \<open>
  Execution progress is reported in order. An execution update is accepted if and only if the
  capability was consumed and the reported state follows the recorded one (requested, confirmed,
  observed; observed results are final), and then exactly that state is recorded; a refused update
  changes no record that had not expired.
\<close>

theorem execution_update_iff:
  assumes "tget er_escrow_record_id eid (escrow_records d) = Some e"
    and "tget ai_action_intent_record_id (er_action_intent_record_id e) (action_intents d) \<noteq> None"
    and "record_execution_update rt eid actor s ref ps md d = (res, d')"
  shows "((\<exists>e'. res = Inr e') \<longleftrightarrow>
      er_status e = ER_consumed \<and> allowed_progression (er_execution_state e) s) \<and>
    (\<forall>e'. res = Inr e' \<longrightarrow> tget er_escrow_record_id eid (escrow_records d') = Some e' \<and>
      er_status e' = ER_consumed \<and> er_execution_state e' = s) \<and>
    (\<forall>err. res = Inl err \<longrightarrow> \<not> escrow_expires (rt_now rt) e \<longrightarrow> d' = d)"
proof (cases "er_status e = ER_consumed")
  case True
  then have g: "get_escrow rt eid d = (Inr e, d)"
    using get_escrow_current[OF assms(1)] by (simp add: escrow_expires_def)
  have id: "er_escrow_record_id e = eid" using tgetD[OF assms(1)] by simp
  show ?thesis
  proof (cases "allowed_progression (er_execution_state e) s")
    case ok: True
    then have s: "s \<in> {EX_dispatch_confirmed, EX_result_observed, EX_failure_observed}"
      by (cases "(er_execution_state e, s)" rule: allowed_progression.cases) auto
    obtain d2 where d2: "write_escrow rt TR_execution_update actor e (execution_row s ref ps) None None
        ([(''provider_execution_ref'', opt_str ref), (''provider_status'', opt_str ps)] @ md) d = Some d2"
      using assms(2) write_escrow_Some by blast
    define e' where "e' = (execution_row s ref ps e)\<lparr>er_updated_at := rt_now rt\<rparr>"
    have row: "tget er_escrow_record_id eid (escrow_records d2) = Some e'"
      using write_escrow_row[OF d2] assms(1) id by (simp add: execution_row_def e'_def)
    have "er_status e' = ER_consumed" "er_execution_state e' = s"
      using True by (simp_all add: e'_def execution_row_def)
    moreover from this have "get_escrow rt eid d2 = (Inr e', d2)"
      using get_escrow_current[OF row] by (simp add: escrow_expires_def)
    ultimately show ?thesis
      using assms(3) row g True ok s d2 by (auto simp: record_execution_update_def)
  next
    case False
    then show ?thesis using assms(3) g True by (auto simp: record_execution_update_def split: if_splits)
  qed
next
  case False
  obtain r d1 where g: "get_escrow rt eid d = (r, d1)" by force
  have st: "r = Inr e1 \<Longrightarrow> er_status e1 \<noteq> ER_consumed" for e1
    using get_escrow_result(2)[OF _ assms(1), of rt e1 d1] g False
    by (auto simp: refresh_escrow_def split: if_splits)
  have "\<exists>err. res = Inl err" "d' = d1"
    using assms(3) g st by (auto simp: record_execution_update_def split: sum.splits)
  moreover have "d1 = d" if "\<not> escrow_expires (rt_now rt) e"
    using get_escrow_current[OF assms(1) that] g by simp
  ultimately show ?thesis using False by auto
qed

text \<open>
  A revocation that read the record before a concurrent consumption and commits after it overwrites
  the consumption: the record ends up revoked although it was dispatched. (The write-back is not
  conditional on the status that was checked.)
\<close>

lemma stale_revocation_overwrites:
  assumes e: "tget er_escrow_record_id eid (escrow_records d) = Some e"
    and c: "claim_consume rt1 eid actor1 from dg ref ps tm d = (Inr (), d1)"
    and w: "write_escrow rt2 TR_revoked actor2 e (revoke_row (rt_now rt2) code detail) rc rd md d1 = Some d2"
  shows "\<exists>e'. tget er_escrow_record_id eid (escrow_records d2) = Some e' \<and> er_status e' = ER_revoked \<and>
    er_consumed_at e' = Some (rt_now rt1)"
proof -
  have id: "er_escrow_record_id e = eid" using tgetD[OF e] by simp
  have "tget er_escrow_record_id eid (escrow_records d1) = Some (consume_row (rt_now rt1) ref ps e)"
    by (rule claim_consume_shape[OF c]) (use e in \<open>simp add: tget_tmodify consume_row_def\<close>)
  from write_escrow_row[OF w] this show ?thesis
    by (simp add: id revoke_row_def consume_row_def)
qed

section \<open>A concrete run\<close>

definition sample_proof :: issued_proof where
  "sample_proof = \<lparr>ip_issued_proof_id = ''pf'', ip_tenant_id = ''t'',
     ip_action_intent_record_id = ''i'', ip_signing_key_reference_id = None,
     ip_proof_kind = pccb, ip_status = PI_issued, ip_issuer_name = ''n'', ip_issuer_uri = ''u'',
     ip_trust_tier = TT_development_local, ip_audience = ''gw'', ip_scope = [''pay''],
     ip_scope_hash = ''h'', ip_nonce = ''n'', ip_action_intent_digest = ''dig'',
     ip_proof_payload = [], ip_proof_payload_digest = [], ip_signature = Some ''s'',
     ip_algorithm = None, ip_issued_by_principal_type = ''user'',
     ip_issued_by_principal_id = ''alice'', ip_issuance_trace = [], ip_failure_reason = None,
     ip_issued_at = Some 1, ip_expires_at = 900000000, ip_created_at = 1\<rparr>"

definition sample_escrow_db :: db where
  "sample_escrow_db = empty_db\<lparr>action_intents := [sample_record], issued_proofs := [sample_proof]\<rparr>"

definition sample_actor :: actor where
  "sample_actor = (''service'', ''gateway'')"

definition sample_hold_db :: db where
  "sample_hold_db = snd (create_hold (sample_rt 5) ''pf'' ''wire'' ''acct'' sample_actor None [] sample_escrow_db)"

lemma sample_hold:
  "\<exists>e. create_hold (sample_rt 5) ''pf'' ''wire'' ''acct'' sample_actor None [] sample_escrow_db =
     (Inr (e, False), sample_hold_db) \<and> er_status e = ER_held \<and> er_expires_at e = 600000005 \<and>
     er_issued_proof_id e = ''pf''"
  by (simp add: sample_hold_db_def create_hold_def sample_escrow_db_def empty_db_def sample_proof_def
      proof_active_def refresh_proof_def proof_expires_def strip_def is_space_def hold_of_def
      resolve_expires_at_def sample_settings_def seconds_def insert_hold_def new_escrow_def
      commit_hold_def append_transition_def sync_execution_state_def sample_record_def tinsert_def
      latest_escrow_def get_escrow_def escrow_expires_def new_id_def used_id_def Let_def)


definition sample_release_db :: db where
  "sample_release_db = snd (release_capability (sample_rt 6) sample_codec sample_signer [] sample_actor sample_hold_db)"

definition sample_token :: string where
  "sample_token = (case fst (release_capability (sample_rt 6) sample_codec sample_signer [] sample_actor sample_hold_db)
     of Inr (e, t) \<Rightarrow> t | _ \<Rightarrow> [])"

lemma sample_release:
  "(case release_capability (sample_rt 6) sample_codec sample_signer [] sample_actor sample_hold_db of
     (Inr (e, t), d) \<Rightarrow> t = sample_token \<and> er_status e = ER_released \<and> er_expires_at e = 600000005 \<and>
        proof_active 7 (er_issued_proof_id e) d
   | _ \<Rightarrow> False)"
  by code_simp

definition sample_consume_db :: db where
  "sample_consume_db = snd (consume_capability (sample_rt 7) [] sample_token sample_actor None None [] sample_release_db)"

definition sample_revoke_db :: db where
  "sample_revoke_db = snd (revoke_capability (sample_rt 6) [] sample_actor ''fraud'' None [] sample_hold_db)"

lemma sample_calls:
  "(escrow_call sample_uuid)\<^sup>*\<^sup>* empty_db sample_hold_db"
  "escrow_call sample_uuid sample_hold_db sample_release_db"
  "escrow_call sample_uuid sample_release_db sample_consume_db"
  "escrow_call sample_uuid sample_hold_db sample_revoke_db"
proof -
  have "escrow_call sample_uuid empty_db sample_escrow_db"
    by (rule ec_elsewhere) (simp_all add: sample_escrow_db_def empty_db_def)
  moreover have "escrow_call sample_uuid sample_escrow_db sample_hold_db"
    unfolding sample_hold_db_def by (rule ec_create) simp
  ultimately show "(escrow_call sample_uuid)\<^sup>*\<^sup>* empty_db sample_hold_db"
    by (meson rtranclp.rtrancl_into_rtrancl rtranclp.rtrancl_refl)
  show "escrow_call sample_uuid sample_hold_db sample_release_db"
    unfolding sample_release_db_def by (rule ec_release) simp
  show "escrow_call sample_uuid sample_release_db sample_consume_db"
    unfolding sample_consume_db_def by (rule ec_consume) simp
  show "escrow_call sample_uuid sample_hold_db sample_revoke_db"
    unfolding sample_revoke_db_def by (rule ec_revoke) simp
qed

lemma sample_calls_all: "(escrow_call sample_uuid)\<^sup>*\<^sup>* empty_db sample_consume_db"
  using sample_calls by (meson rtranclp.rtrancl_into_rtrancl)

lemma sample_rows:
  "map_option er_status (tget er_escrow_record_id [] (escrow_records sample_hold_db)) = Some ER_held"
  "map_option er_status (tget er_escrow_record_id [] (escrow_records sample_consume_db)) = Some ER_consumed"
  "map_option er_status (tget er_escrow_record_id [] (escrow_records sample_revoke_db)) = Some ER_revoked"
  by code_simp+

theorem proof_spent_once_witness:
  "spends TR_consumed ''pf'' sample_consume_db = 1 \<and> spends TR_released ''pf'' sample_consume_db = 1"
proof -
  have "(escrow_step stale_row sample_uuid)\<^sup>*\<^sup>* empty_db sample_consume_db"
    using escrow_calls_run[OF inj_sample_uuid sample_calls_all escrow_inv_empty] serial_run_stale by blast
  moreover have "spends TR_consumed ''pf'' sample_consume_db = 1" by code_simp
  ultimately show ?thesis using proof_spent_once[OF inj_sample_uuid, of sample_consume_db "''pf''"] by simp
qed

theorem escrow_calls_refine_witness:
  "(escrow_step current_row sample_uuid)\<^sup>*\<^sup>* empty_db sample_consume_db"
  by (rule escrow_calls_refine[OF inj_sample_uuid sample_calls_all])

theorem escrow_monotone_witness:
  "\<exists>e e'. tget er_escrow_record_id [] (escrow_records sample_hold_db) = Some e \<and>
     tget er_escrow_record_id [] (escrow_records sample_consume_db) = Some e' \<and>
     escrow_binding e' = escrow_binding e"
proof -
  obtain e where e: "tget er_escrow_record_id [] (escrow_records sample_hold_db) = Some e"
    using sample_rows(1) by auto
  have "escrow_inv sample_uuid sample_hold_db"
    using escrow_calls_run[OF inj_sample_uuid sample_calls(1) escrow_inv_empty] by blast
  moreover have "(escrow_call sample_uuid)\<^sup>*\<^sup>* sample_hold_db sample_consume_db"
    using sample_calls(2,3) by (meson rtranclp.rtrancl_into_rtrancl rtranclp.rtrancl_refl)
  ultimately have "(escrow_step stale_row sample_uuid)\<^sup>*\<^sup>* sample_hold_db sample_consume_db"
    using escrow_calls_run[OF inj_sample_uuid] serial_run_stale by blast
  from escrow_monotone[OF this e] e show ?thesis by blast
qed

theorem closed_escrow_final_witness:
  "\<exists>e'. tget er_escrow_record_id [] (escrow_records (snd (release_capability (sample_rt 8) sample_codec
     sample_signer [] sample_actor sample_revoke_db))) = Some e' \<and> er_status e' = ER_revoked"
proof -
  obtain e where e: "tget er_escrow_record_id [] (escrow_records sample_revoke_db) = Some e" "er_status e = ER_revoked"
    using sample_rows(3) by auto
  have 1: "(escrow_call sample_uuid)\<^sup>*\<^sup>* empty_db sample_revoke_db"
    using sample_calls(1,4) by (meson rtranclp.rtrancl_into_rtrancl)
  have "escrow_call sample_uuid sample_revoke_db (snd (release_capability (sample_rt 8) sample_codec
     sample_signer [] sample_actor sample_revoke_db))"
    by (rule ec_release) simp
  from closed_escrow_final[OF inj_sample_uuid 1 r_into_rtranclp[where r = "escrow_call sample_uuid", OF this] e(1)] e(2)
  show ?thesis by (simp add: escrow_closed_def)
qed

lemma sample_consumption:
  "(case consume_capability (sample_rt 7) [] sample_token sample_actor None None [] sample_release_db of
     (Inr e, d) \<Rightarrow> er_status e = ER_consumed | _ \<Rightarrow> False)"
  by code_simp

theorem consume_guarded_witness:
  "\<exists>e. tget er_escrow_record_id [] (escrow_records sample_release_db) = Some e \<and> er_status e = ER_released"
proof -
  obtain e' d' where "consume_capability (sample_rt 7) [] sample_token sample_actor None None [] sample_release_db =
      (Inr e', d')"
    using sample_consumption by (auto split: prod.splits sum.splits)
  from consume_guarded[OF this] show ?thesis by blast
qed


theorem hold_bounded_by_proof_witness:
  "\<exists>e. create_hold (sample_rt 5) ''pf'' ''wire'' ''acct'' sample_actor None [] sample_escrow_db =
     (Inr (e, False), sample_hold_db) \<and> er_expires_at e \<le> ip_expires_at sample_proof"
proof -
  obtain e where e: "create_hold (sample_rt 5) ''pf'' ''wire'' ''acct'' sample_actor None [] sample_escrow_db =
     (Inr (e, False), sample_hold_db)" using sample_hold by blast
  have "tget er_escrow_record_id (new_id (sample_rt 5) sample_escrow_db) (escrow_records sample_escrow_db) = None"
    by (simp add: sample_escrow_db_def empty_db_def)
  from hold_bounded_by_proof[OF e this] e show ?thesis
    by (auto simp: sample_escrow_db_def sample_proof_def)
qed

theorem execution_update_iff_witness:
  "\<exists>e' d'. record_execution_update (sample_rt 9) [] sample_actor EX_dispatch_confirmed None None []
     sample_consume_db = (Inr e', d') \<and> er_execution_state e' = EX_dispatch_confirmed"
proof -
  define u where "u = record_execution_update (sample_rt 9) [] sample_actor EX_dispatch_confirmed None None [] sample_consume_db"
  have row: "(case tget er_escrow_record_id [] (escrow_records sample_consume_db) of None \<Rightarrow> False
      | Some e \<Rightarrow> er_status e = ER_consumed \<and> er_execution_state e = EX_dispatch_requested \<and>
          tget ai_action_intent_record_id (er_action_intent_record_id e) (action_intents sample_consume_db) \<noteq> None)"
    by code_simp
  then obtain e where e: "tget er_escrow_record_id [] (escrow_records sample_consume_db) = Some e"
    "er_status e = ER_consumed" "er_execution_state e = EX_dispatch_requested"
    "tget ai_action_intent_record_id (er_action_intent_record_id e) (action_intents sample_consume_db) \<noteq> None"
    by (auto split: option.splits)
  obtain res d' where "u = (res, d')" by force
  from execution_update_iff[OF e(1,4) this[unfolded u_def]] this e(2,3) show ?thesis
    by (auto simp: u_def)
qed

end
