(* ===== verification/Commitments.thy ===== *)
theory Commitments
  imports ActionIntents
begin

text \<open>
  \<open>src/app/services/receipt_commitment.py\<close> and the salts of \<open>src/app/services/s3_evidence.py\<close>:
  the account references of a receipt index are committed to with an HMAC under a salt of the
  tenant. The salts live in a registry of the process: the first use for a tenant draws one.
  HMAC-SHA256 is a parameter, and so is \<open>repr\<close> of floats, lists and dictionaries, which \<open>str\<close>
  falls back to on such values.
\<close>

section \<open>Printing values\<close>

text \<open>The decimal digits of a number.\<close>

function nat_str :: "int \<Rightarrow> string" where
  "nat_str n =
     (let digit = [''0123456789'' ! nat (n mod 10)]
      in if n < 10 then digit else nat_str (n div 10) @ digit)"
  by auto
termination by (relation "measure nat") auto

declare nat_str.simps [simp del]

definition int_str :: "int \<Rightarrow> string" where
  "int_str i = (if i < 0 then ''-'' @ nat_str (- i) else nat_str i)"

fun py_str :: "(json \<Rightarrow> string) \<Rightarrow> json \<Rightarrow> string" where
  "py_str repr (JStr s) = s"
| "py_str repr JNull = ''None''"
| "py_str repr (JBool b) = (if b then ''True'' else ''False'')"
| "py_str repr (JInt i) = int_str i"
| "py_str repr v = repr v"

section \<open>Salts\<close>

type_synonym salts = "(ident \<times> string) list"

definition commit_field :: "(string \<Rightarrow> string \<Rightarrow> string) \<Rightarrow> string \<Rightarrow> string \<Rightarrow> string \<Rightarrow> string" where
  "commit_field hmac salt field_name field_value = hmac salt (field_name @ '':'' @ field_value)"

text \<open>\<open>get_or_create\<close>; \<open>token\<close> is what \<open>secrets.token_bytes(32)\<close> returns if it is called.\<close>

definition get_or_create :: "string \<Rightarrow> ident \<Rightarrow> salts \<Rightarrow> string \<times> salts" where
  "get_or_create token tid reg =
     (case map_of reg tid of Some s \<Rightarrow> (s, reg) | None \<Rightarrow> (token, (tid, token) # reg))"

definition set_salt :: "ident \<Rightarrow> string \<Rightarrow> salts \<Rightarrow> unit result \<times> salts" where
  "set_salt tid salt reg =
     (if length salt \<noteq> 32 then (Inl (PyValueError ''salt must be 32 bytes''), reg)
      else (Inr (), (tid, salt) # filter (\<lambda>p. fst p \<noteq> tid) reg))"

definition clear_salts :: "salts \<Rightarrow> salts" where
  "clear_salts reg = []"

section \<open>Commitments of an index\<close>

definition committed_index_fields :: "string list" where
  "committed_index_fields = [''source_account_ref'', ''destination_account_ref'']"

definition commitment_key :: "string \<Rightarrow> string" where
  "commitment_key field = field @ ''_commitment''"

fun commit_fields ::
  "(string \<Rightarrow> string \<Rightarrow> string) \<Rightarrow> (json \<Rightarrow> string) \<Rightarrow> string \<Rightarrow> dict \<Rightarrow> string list \<Rightarrow> dict \<Rightarrow> dict" where
  "commit_fields hmac repr salt index [] acc = acc"
| "commit_fields hmac repr salt index (f # fs) acc =
     commit_fields hmac repr salt index fs
       (if jget index f = JNull then acc
        else dict_set (commitment_key f)
               (JStr (commit_field hmac salt f (py_str repr (jget index f)))) acc)"

definition commit_receipt_index_fields ::
  "(string \<Rightarrow> string \<Rightarrow> string) \<Rightarrow> (json \<Rightarrow> string) \<Rightarrow> string \<Rightarrow> ident \<Rightarrow> dict \<Rightarrow> salts \<Rightarrow> dict \<times> salts" where
  "commit_receipt_index_fields hmac repr token tid index reg =
     (let (salt, reg') = get_or_create token tid reg
      in (commit_fields hmac repr salt index committed_index_fields index, reg'))"

definition field_commitment_ok ::
  "(string \<Rightarrow> string \<Rightarrow> string) \<Rightarrow> (json \<Rightarrow> string) \<Rightarrow> string \<Rightarrow> dict \<Rightarrow> string \<Rightarrow> bool" where
  "field_commitment_ok hmac repr salt index f =
     (let v = jget index f; c = jget index (commitment_key f)
      in if v = JNull \<and> c = JNull then True
         else if v = JNull \<or> c = JNull then False
         else py_eq c (JStr (commit_field hmac salt f (py_str repr v))))"

definition verify_receipt_index_commitment ::
  "(string \<Rightarrow> string \<Rightarrow> string) \<Rightarrow> (json \<Rightarrow> string) \<Rightarrow> string \<Rightarrow> ident \<Rightarrow> dict \<Rightarrow> salts \<Rightarrow> bool \<times> salts" where
  "verify_receipt_index_commitment hmac repr token tid index reg =
     (let (salt, reg') = get_or_create token tid reg
      in (list_all (field_commitment_ok hmac repr salt index) committed_index_fields, reg'))"

section \<open>Laws\<close>

lemma get_or_create_again:
  "get_or_create token tid reg = (s, reg') \<Longrightarrow> get_or_create token' tid reg' = (s, reg')"
  by (auto simp: get_or_create_def split: option.splits)

lemma get_or_create_keeps:
  "get_or_create token tid reg = (s, reg') \<Longrightarrow> map_of reg t = Some v \<Longrightarrow> map_of reg' t = Some v"
  by (auto simp: get_or_create_def split: option.splits if_splits)

lemma int_str_roundtrip_digits: "0 \<le> n \<Longrightarrow> n < 10 \<Longrightarrow> length (int_str n) = 1"
  by (simp add: int_str_def nat_str.simps)

lemma commitment_key_eq [simp]: "commitment_key f = commitment_key g \<longleftrightarrow> f = g"
  by (simp add: commitment_key_def)

lemma commitment_key_image [simp]: "commitment_key f \<in> commitment_key ` S \<longleftrightarrow> f \<in> S"
  by (auto simp: image_iff)

lemma jget_commit_fields:
  "k \<notin> commitment_key ` set fs \<Longrightarrow>
   jget (commit_fields hmac repr salt index fs acc) k = jget acc k"
  by (induction fs arbitrary: acc) auto

lemma jget_commitment:
  assumes "distinct fs" "f \<in> set fs"
  shows "jget (commit_fields hmac repr salt index fs acc) (commitment_key f) =
     (if jget index f = JNull then jget acc (commitment_key f)
      else JStr (commit_field hmac salt f (py_str repr (jget index f))))"
  using assms
  by (induction fs arbitrary: acc) (auto simp: jget_commit_fields)

lemma committed_keys:
  "f \<in> set committed_index_fields \<Longrightarrow> f \<notin> commitment_key ` set committed_index_fields"
  by (auto simp: committed_index_fields_def commitment_key_def)

lemma distinct_committed: "distinct committed_index_fields"
  by (simp add: committed_index_fields_def)

text \<open>The cleartext fields are untouched.\<close>

lemma commit_keeps_cleartext:
  "k \<notin> commitment_key ` set committed_index_fields \<Longrightarrow>
   jget (fst (commit_receipt_index_fields hmac repr token tid index reg)) k = jget index k"
  by (auto simp: commit_receipt_index_fields_def jget_commit_fields split: prod.splits)

lemma committed_field_ok:
  assumes "f \<in> set committed_index_fields" "jget index f = JNull \<Longrightarrow> jget index (commitment_key f) = JNull"
  shows "field_commitment_ok hmac repr salt
     (commit_fields hmac repr salt index committed_index_fields index) f"
  using assms committed_keys[OF assms(1)]
  by (auto simp add: field_commitment_ok_def Let_def jget_commitment distinct_committed jget_commit_fields)

text \<open>A registry that has only grown since still gives the tenant the same salt.\<close>

definition salts_extend :: "salts \<Rightarrow> salts \<Rightarrow> bool" where
  "salts_extend reg reg' \<longleftrightarrow> (\<forall>t v. map_of reg t = Some v \<longrightarrow> map_of reg' t = Some v)"

lemma salts_extend_refl [simp]: "salts_extend reg reg"
  by (simp add: salts_extend_def)

lemma commit_salt:
  assumes "commit_receipt_index_fields hmac repr token tid index reg = (index', reg')"
    "salts_extend reg' reg''"
  obtains salt where "index' = commit_fields hmac repr salt index committed_index_fields index"
    "get_or_create token' tid reg'' = (salt, reg'')"
proof -
  obtain salt where salt: "get_or_create token tid reg = (salt, reg')"
    "index' = commit_fields hmac repr salt index committed_index_fields index"
    using assms(1) by (auto simp: commit_receipt_index_fields_def split: prod.splits)
  have "map_of reg' tid = Some salt"
    using salt(1) by (auto simp: get_or_create_def split: option.splits)
  then have "get_or_create token' tid reg'' = (salt, reg'')"
    using assms(2) by (simp add: get_or_create_def salts_extend_def)
  with salt(2) show ?thesis using that by blast
qed

lemma commitments_verify:
  assumes "commit_receipt_index_fields hmac repr token tid index reg = (index', reg')"
    and "\<And>f. f \<in> set committed_index_fields \<Longrightarrow> jget index (commitment_key f) = JNull"
    and "salts_extend reg' reg''"
  shows "verify_receipt_index_commitment hmac repr token' tid index' reg'' = (True, reg'')"
proof -
  obtain salt where salt: "index' = commit_fields hmac repr salt index committed_index_fields index"
    "get_or_create token' tid reg'' = (salt, reg'')"
    using commit_salt[OF assms(1,3), of token'] .
  then show ?thesis
    using committed_field_ok assms(2) by (simp add: verify_receipt_index_commitment_def list_all_iff)
qed

text \<open>
  C40. Commitments of account references. Committing an index that carries no commitment of its
  own keeps every other entry, and verifying the result later in the life of the process succeeds.
  They are binding: an index with the same commitment of a present field that verifies has the
  same text in that field, unless two different messages have the same HMAC.
\<close>

theorem commitments_verify_and_bind:
  assumes "commit_receipt_index_fields hmac repr token tid index reg = (index', reg')"
    and "\<And>f. f \<in> set committed_index_fields \<Longrightarrow> jget index (commitment_key f) = JNull"
    and "salts_extend reg' reg''"
  shows "verify_receipt_index_commitment hmac repr token' tid index' reg'' = (True, reg'') \<and>
    (\<forall>k. k \<notin> commitment_key ` set committed_index_fields \<longrightarrow> jget index' k = jget index k) \<and>
    (\<forall>f index2. f \<in> set committed_index_fields \<longrightarrow> jget index f \<noteq> JNull \<longrightarrow>
      fst (verify_receipt_index_commitment hmac repr token' tid index2 reg'') \<longrightarrow>
      jget index2 (commitment_key f) = jget index' (commitment_key f) \<longrightarrow>
      py_str repr (jget index2 f) = py_str repr (jget index f) \<or>
      (\<exists>salt m m'. m \<noteq> m' \<and> hmac salt m = hmac salt m'))"
proof -
  obtain salt where salt: "index' = commit_fields hmac repr salt index committed_index_fields index"
    "get_or_create token' tid reg'' = (salt, reg'')"
    using commit_salt[OF assms(1,3), of token'] .
  note commitments_verify[OF assms, of token']
  moreover have "jget index' k = jget index k" if "k \<notin> commitment_key ` set committed_index_fields" for k
    unfolding salt(1) by (rule jget_commit_fields) (use that in blast)
  moreover have "py_str repr (jget index2 f) = py_str repr (jget index f) \<or>
      (\<exists>salt m m'. m \<noteq> m' \<and> hmac salt m = hmac salt m')"
    if f: "f \<in> set committed_index_fields" "jget index f \<noteq> JNull"
      and v: "fst (verify_receipt_index_commitment hmac repr token' tid index2 reg'')"
      and eq: "jget index2 (commitment_key f) = jget index' (commitment_key f)" for f index2
  proof -
    have c: "jget index' (commitment_key f) = JStr (commit_field hmac salt f (py_str repr (jget index f)))"
      using f by (simp add: salt(1) jget_commitment distinct_committed)
    have "field_commitment_ok hmac repr salt index2 f"
      using v f(1) by (simp add: verify_receipt_index_commitment_def salt(2) list_all_iff)
    then have "hmac salt (f @ '':'' @ py_str repr (jget index f)) = hmac salt (f @ '':'' @ py_str repr (jget index2 f))"
      by (auto simp: field_commitment_ok_def Let_def eq c commit_field_def split: if_splits)
    then show ?thesis by (metis append_same_eq same_append_eq)
  qed
  ultimately show ?thesis by blast
qed

definition sample_index :: dict where
  "sample_index = [(''currency'', JStr ''EUR''), (''source_account_ref'', JStr ''acct_1''),
     (''destination_account_ref'', JNull)]"

theorem commitments_verify_and_bind_witness:
  "verify_receipt_index_commitment (@) (\<lambda>_. []) ''x'' ''t''
     (fst (commit_receipt_index_fields (@) (\<lambda>_. []) ''salt'' ''t'' sample_index []))
     [(''t'', ''salt'')] = (True, [(''t'', ''salt'')])"
proof -
  have e: "commit_receipt_index_fields (@) (\<lambda>_. []) ''salt'' ''t'' sample_index [] =
     (fst (commit_receipt_index_fields (@) (\<lambda>_. []) ''salt'' ''t'' sample_index []), [(''t'', ''salt'')])"
    by (simp add: commit_receipt_index_fields_def get_or_create_def)
  show ?thesis
    by (rule conjunct1[OF commitments_verify_and_bind[OF e]])
       (auto simp: committed_index_fields_def commitment_key_def sample_index_def jget_def)
qed

text \<open>
  The registry is not persisted: with a salt drawn anew, a stored commitment does not verify.
\<close>

lemma commitment_lost_with_salt:
  "let (index', reg') = commit_receipt_index_fields (@) (\<lambda>_. []) ''salt'' ''t'' sample_index []
   in \<not> fst (verify_receipt_index_commitment (@) (\<lambda>_. []) ''other'' ''t'' index' (clear_salts reg'))"
  by code_simp

end
