(* ===== verification/Receipts.thy ===== *)
theory Receipts
  imports Escrow Commitments
begin

text \<open>
  \<open>src/app/services/receipts.py\<close> and \<open>src/app/services/audit.py\<close>: the receipt an executor reports
  is validated, stored once per tenant and digest, linked to the proof and the escrow record it
  names, reconciled field by field against intent, proof and escrow, and recorded in the audit
  trail, all in one transaction. \<open>fromisoformat\<close> of \<open>datetime\<close>, the schema validator, HMAC and the
  random salt a request may draw are parameters of a call. The queries for linked rows have no
  \<open>ORDER BY\<close>; they are taken in insertion order here.
\<close>

section \<open>Surroundings and requests\<close>

record receipt_env =
  rv_schema :: schema_errors
  rv_fromisoformat :: "string \<Rightarrow> time option"
  rv_repr :: "json \<Rightarrow> string"
  rv_hmac :: "string \<Rightarrow> string \<Rightarrow> string"
  rv_token_bytes :: string

record receipt_request =
  ri_tenant_id :: ident
  ri_action_intent_record_id :: ident
  ri_contract_family :: string
  ri_contract_version_ref :: string
  ri_kernel_receipt :: dict
  ri_received_by :: actor
  ri_issued_proof_id :: "ident option"
  ri_escrow_record_id :: "ident option"

fun reconciliation_type_value :: "reconciliation_type \<Rightarrow> string" where
  "reconciliation_type_value intent_to_receipt = ''intent_to_receipt''"
| "reconciliation_type_value proof_to_receipt = ''proof_to_receipt''"
| "reconciliation_type_value escrow_to_receipt = ''escrow_to_receipt''"

fun reconciliation_status_value :: "reconciliation_status \<Rightarrow> string" where
  "reconciliation_status_value RC_matched = ''matched''"
| "reconciliation_status_value RC_manual_review_required = ''manual_review_required''"
| "reconciliation_status_value RC_mismatch = ''mismatch''"

fun check_status_value :: "check_status \<Rightarrow> string" where
  "check_status_value CK_skipped = ''skipped''"
| "check_status_value CK_missing = ''missing''"
| "check_status_value CK_not_provided = ''not_provided''"
| "check_status_value CK_matched = ''matched''"
| "check_status_value CK_mismatch = ''mismatch''"

section \<open>The audit trail\<close>

definition new_event ::
  "runtime \<Rightarrow> ident \<Rightarrow> ident option \<Rightarrow> ident option \<Rightarrow> ident option \<Rightarrow> ident option \<Rightarrow> string \<Rightarrow> string \<Rightarrow>
   string \<Rightarrow> ident \<Rightarrow> actor \<Rightarrow> dict \<Rightarrow> db \<Rightarrow> audit_event" where
  "new_event rt tid iid rid pid eid category kind subject_type subject_id actor payload d =
     \<lparr>au_audit_event_id = new_id rt d, au_tenant_id = tid, au_action_intent_record_id = iid,
      au_receipt_id = rid, au_issued_proof_id = pid, au_escrow_record_id = eid,
      au_event_category = category, au_event_type = kind, au_subject_type = subject_type,
      au_subject_id = subject_id, au_actor_principal_type = fst actor,
      au_actor_principal_id = snd actor, au_event_payload = payload,
      au_created_at = rt_now rt\<rparr>"

definition record_event ::
  "runtime \<Rightarrow> ident \<Rightarrow> ident option \<Rightarrow> ident option \<Rightarrow> ident option \<Rightarrow> ident option \<Rightarrow> string \<Rightarrow> string \<Rightarrow>
   string \<Rightarrow> ident \<Rightarrow> actor \<Rightarrow> dict \<Rightarrow> db \<Rightarrow> db" where
  "record_event rt tid iid rid pid eid category kind subject_type subject_id actor payload d =
     used_id d\<lparr>audit_events := tinsert
       (new_event rt tid iid rid pid eid category kind subject_type subject_id actor payload d)
       (audit_events d)\<rparr>"

record event_filter =
  vf_tenant_id :: "ident option"
  vf_action_intent_record_id :: "ident option"
  vf_receipt_id :: "ident option"
  vf_subject_type :: "string option"
  vf_subject_id :: "ident option"
  vf_event_type :: "string option"

definition list_events :: "event_filter \<Rightarrow> db \<Rightarrow> audit_event list" where
  "list_events f d =
     sort_key au_created_at
       [a \<leftarrow> audit_events d. is_None_or (vf_tenant_id f) (au_tenant_id a) \<and>
          (vf_action_intent_record_id f = None \<or>
             vf_action_intent_record_id f = au_action_intent_record_id a) \<and>
          (vf_receipt_id f = None \<or> vf_receipt_id f = au_receipt_id a) \<and>
          is_None_or (vf_subject_type f) (au_subject_type a) \<and>
          is_None_or (vf_subject_id f) (au_subject_id a) \<and>
          is_None_or (vf_event_type f) (au_event_type a)]"

definition get_event :: "ident \<Rightarrow> db \<Rightarrow> audit_event result" where
  "get_event aid d =
     (case tget au_audit_event_id aid (audit_events d) of
        None \<Rightarrow> Inl AuditEventNotFoundError | Some a \<Rightarrow> Inr a)"

definition list_reconciliation_records ::
  "ident option \<Rightarrow> ident option \<Rightarrow> ident option \<Rightarrow> reconciliation_type option \<Rightarrow>
   reconciliation_status option \<Rightarrow> db \<Rightarrow> reconciliation_record list" where
  "list_reconciliation_records tid iid rid kind status d =
     sort_key rc_created_at
       [c \<leftarrow> reconciliations d. is_None_or tid (rc_tenant_id c) \<and>
          is_None_or iid (rc_action_intent_record_id c) \<and> is_None_or rid (rc_receipt_id c) \<and>
          is_None_or kind (rc_reconciliation_type c) \<and> is_None_or status (rc_status c)]"

definition get_reconciliation_record :: "ident \<Rightarrow> db \<Rightarrow> reconciliation_record result" where
  "get_reconciliation_record cid d =
     (case tget rc_reconciliation_record_id cid (reconciliations d) of
        None \<Rightarrow> Inl ReconciliationRecordNotFoundError | Some c \<Rightarrow> Inr c)"

record action_trace =
  at_generated_at :: time
  at_action_intent :: action_intent_record
  at_approvals :: "approval_request list"
  at_approval_decisions :: "approval_decision list"
  at_evidence_objects :: "evidence_object list"
  at_issued_proofs :: "issued_proof list"
  at_escrow_records :: "escrow_record list"
  at_receipts :: "receipt_record list"
  at_reconciliation_records :: "reconciliation_record list"
  at_audit_events :: "audit_event list"

text \<open>The summary of the trace repeats fields of the intent row; \<open>at_action_intent\<close> stands for both.\<close>

definition build_action_trace :: "runtime \<Rightarrow> ident \<Rightarrow> db \<Rightarrow> action_trace result" where
  "build_action_trace rt iid d =
     (case tget ai_action_intent_record_id iid (action_intents d) of
        None \<Rightarrow> Inl ActionTraceNotFoundError
      | Some i \<Rightarrow>
          let approvals = sort_key ar_created_at
                [r \<leftarrow> approval_requests d. ar_action_intent_record_id r = iid]
          in Inr \<lparr>at_generated_at = rt_now rt, at_action_intent = i, at_approvals = approvals,
               at_approval_decisions = sort_key ad_created_at
                 (concat (map ar_decisions [r \<leftarrow> approval_requests d.
                    ar_approval_request_id r \<in> set (map ar_approval_request_id approvals)])),
               at_evidence_objects = sort_key eo_created_at
                 [e \<leftarrow> evidence_objects d. eo_action_intent_record_id e = iid],
               at_issued_proofs = sort_key ip_created_at
                 [p \<leftarrow> issued_proofs d. ip_action_intent_record_id p = iid],
               at_escrow_records = sort_key er_created_at
                 [e \<leftarrow> escrow_records d. er_action_intent_record_id e = iid],
               at_receipts = sort_key rr_receipt_timestamp
                 [r \<leftarrow> receipts d. rr_action_intent_record_id r = iid],
               at_reconciliation_records = list_reconciliation_records None (Some iid) None None None d,
               at_audit_events = list_events
                 \<lparr>vf_tenant_id = None, vf_action_intent_record_id = Some iid, vf_receipt_id = None,
                  vf_subject_type = None, vf_subject_id = None, vf_event_type = None\<rparr> d\<rparr>)"

text \<open>\<open>export_action_trace\<close>: the instant of the export, the intent, the trace.\<close>

definition export_action_trace :: "runtime \<Rightarrow> ident \<Rightarrow> db \<Rightarrow> (time \<times> ident \<times> action_trace) result" where
  "export_action_trace rt iid d =
     (case build_action_trace rt iid d of
        Inl e \<Rightarrow> Inl e | Inr t \<Rightarrow> Inr (rt_now rt, iid, t))"

section \<open>Contracts\<close>

definition supported_receipt_contracts :: "string list" where
  "supported_receipt_contracts = [''open_execution_kernel.receipt.finance.v1alpha1'']"

definition validate_receipt ::
  "schema_errors \<Rightarrow> string \<Rightarrow> string \<Rightarrow> dict \<Rightarrow> contract_validation_result" where
  "validate_receipt schema family version payload =
     (if family \<noteq> ''receipt'' then
        \<lparr>cv_supported = False, cv_valid = False,
         cv_errors = [''unsupported contract family '' @ family]\<rparr>
      else if version \<notin> set supported_receipt_contracts then
        \<lparr>cv_supported = False, cv_valid = False,
         cv_errors = [''unsupported contract version '' @ version]\<rparr>
      else if schema payload = [] then \<lparr>cv_supported = True, cv_valid = True, cv_errors = []\<rparr>
      else \<lparr>cv_supported = True, cv_valid = False, cv_errors = map format_error (schema payload)\<rparr>)"

definition receipt_validation_status :: "contract_validation_result \<Rightarrow> string" where
  "receipt_validation_status v =
     (if \<not> cv_supported v then ''unsupported'' else if \<not> cv_valid v then ''invalid'' else ''valid'')"

section \<open>Reading the surroundings of a receipt\<close>

definition receipt_intent :: "ident \<Rightarrow> ident \<Rightarrow> db \<Rightarrow> action_intent_record result" where
  "receipt_intent tid iid d =
     (case tget ai_action_intent_record_id iid (action_intents d) of
        None \<Rightarrow> Inl (ReceiptIngestionError ''action intent record was not found for tenant'')
      | Some i \<Rightarrow>
          if ai_tenant_id i \<noteq> tid
          then Inl (ReceiptIngestionError ''action intent record was not found for tenant'')
          else Inr i)"

definition receipt_proof :: "ident \<Rightarrow> ident \<Rightarrow> ident option \<Rightarrow> db \<Rightarrow> issued_proof option result" where
  "receipt_proof tid iid mpid d =
     (case mpid of
        None \<Rightarrow> Inr None
      | Some pid \<Rightarrow>
          (case tget ip_issued_proof_id pid (issued_proofs d) of
             None \<Rightarrow> Inl (ReceiptIngestionError ''issued proof was not found'')
           | Some p \<Rightarrow>
               if ip_tenant_id p \<noteq> tid \<or> ip_action_intent_record_id p \<noteq> iid
               then Inl (ReceiptIngestionError
                      ''issued proof does not belong to the provided tenant and Action Intent'')
               else Inr (Some p)))"

definition receipt_escrow :: "ident \<Rightarrow> ident \<Rightarrow> ident option \<Rightarrow> db \<Rightarrow> escrow_record option result" where
  "receipt_escrow tid iid meid d =
     (case meid of
        None \<Rightarrow> Inr None
      | Some eid \<Rightarrow>
          (case tget er_escrow_record_id eid (escrow_records d) of
             None \<Rightarrow> Inl (ReceiptIngestionError ''escrow record was not found'')
           | Some e \<Rightarrow>
               if er_tenant_id e \<noteq> tid \<or> er_action_intent_record_id e \<noteq> iid
               then Inl (ReceiptIngestionError
                      ''escrow record does not belong to the provided tenant and Action Intent'')
               else Inr (Some e)))"

definition linked_approval_requests :: "ident \<Rightarrow> db \<Rightarrow> approval_request list" where
  "linked_approval_requests iid d = [r \<leftarrow> approval_requests d. ar_action_intent_record_id r = iid]"

definition linked_workflow_ids :: "ident \<Rightarrow> db \<Rightarrow> ident list \<times> ident list \<times> ident list" where
  "linked_workflow_ids iid d =
     (map ar_approval_request_id (linked_approval_requests iid d),
      map ad_approval_decision_id (concat (map ar_decisions (linked_approval_requests iid d))),
      map eo_evidence_object_id [e \<leftarrow> evidence_objects d. eo_action_intent_record_id e = iid])"

text \<open>\<open>d[k]\<close>.\<close>

definition jitem :: "dict \<Rightarrow> string \<Rightarrow> json result" where
  "jitem d k = (case map_of d k of None \<Rightarrow> Inl (PyKeyError k) | Some v \<Rightarrow> Inr v)"

text \<open>\<open>raw_value.replace("Z", "+00:00")\<close> and the parse; a value without \<open>replace\<close> has no parse.\<close>

definition replace_zulu :: "string \<Rightarrow> string" where
  "replace_zulu s = concat (map (\<lambda>c. if c = CHR ''Z'' then ''+00:00'' else [c]) s)"

definition parse_timestamp :: "(string \<Rightarrow> time option) \<Rightarrow> json \<Rightarrow> time result" where
  "parse_timestamp fromisoformat v =
     (case as_str v of
        None \<Rightarrow> Inl (PyAttributeError ''replace'')
      | Some s \<Rightarrow>
          (case fromisoformat (replace_zulu s) of
             None \<Rightarrow> Inl (PyValueError ''Invalid isoformat string'') | Some t \<Rightarrow> Inr t))"

definition build_receipt_index :: "action_intent_record \<Rightarrow> dict \<Rightarrow> dict" where
  "build_receipt_index i k =
     [(''external_receipt_id'', jget k ''receipt_id''),
      (''intent_id'', jget k ''intent_id''),
      (''receipt_type'', jget k ''receipt_type''),
      (''outcome'', jget k ''outcome''),
      (''occurred_at'', jget k ''occurred_at''),
      (''provider_execution_ref'', jget k ''provider_execution_ref'')] @
     map (\<lambda>f. (f, py_or (jget k f) (jget (ai_finance_index i) f)))
       [''action_type'', ''amount_minor'', ''currency'', ''source_account_ref'',
        ''destination_account_ref'']"

section \<open>Reconciliation\<close>

definition check_field :: "string \<Rightarrow> json \<Rightarrow> json \<Rightarrow> bool \<Rightarrow> recon_check" where
  "check_field field expected actual required =
     \<lparr>ck_field = field,
      ck_status =
        (if expected = JNull \<and> actual = JNull then CK_skipped
         else if actual = JNull then (if required then CK_missing else CK_not_provided)
         else if py_eq expected actual then CK_matched
         else CK_mismatch),
      ck_expected = expected, ck_actual = actual\<rparr>"

definition reconciliation_status_of :: "recon_check list \<Rightarrow> reconciliation_status" where
  "reconciliation_status_of checks =
     (let statuses = map ck_status checks
      in if CK_mismatch \<in> set statuses \<or> CK_missing \<in> set statuses then RC_mismatch
         else if list_all (\<lambda>s. s \<in> {CK_matched, CK_skipped}) statuses \<and> CK_matched \<in> set statuses
         then RC_matched
         else RC_manual_review_required)"

definition failing_fields :: "recon_check list \<Rightarrow> string list" where
  "failing_fields checks =
     map ck_field (filter (\<lambda>c. ck_status c \<in> {CK_mismatch, CK_missing}) checks)"

definition reconciliation_summary_text ::
  "reconciliation_type \<Rightarrow> reconciliation_status \<Rightarrow> recon_check list \<Rightarrow> string" where
  "reconciliation_summary_text kind status checks =
     (case status of
        RC_matched \<Rightarrow> reconciliation_type_value kind @ '' matched expected finance trace bindings''
      | RC_mismatch \<Rightarrow> reconciliation_type_value kind @
          '' requires review because fields did not match: '' @ join_str '', '' (failing_fields checks)
      | RC_manual_review_required \<Rightarrow> reconciliation_type_value kind @
          '' requires manual review because key comparison data is incomplete'')"

definition str_list :: "string list \<Rightarrow> json" where
  "str_list xs = JList (map JStr xs)"

definition intent_checks :: "action_intent_record \<Rightarrow> receipt_record \<Rightarrow> recon_check list" where
  "intent_checks i r =
     (let k = rr_receipt_payload r
      in [check_field ''intent_id'' (ai_external_action_intent_id i) (jget k ''intent_id'') True,
          check_field ''action_intent_digest'' (JStr (ai_action_intent_digest i))
            (jget k ''action_intent_digest'') True,
          check_field ''action_type'' (jget (ai_finance_index i) ''action_type'')
            (jget k ''action_type'') True,
          check_field ''amount_minor'' (jget (ai_finance_index i) ''amount_minor'')
            (jget k ''amount_minor'') True,
          check_field ''currency'' (jget (ai_finance_index i) ''currency'') (jget k ''currency'') True])"

definition proof_checks :: "issued_proof \<Rightarrow> receipt_record \<Rightarrow> recon_check list" where
  "proof_checks p r =
     (let k = rr_receipt_payload r
      in [check_field ''proof_nonce'' (JStr (ip_nonce p)) (jget k ''proof_nonce'') False,
          check_field ''audience'' (JStr (ip_audience p)) (jget k ''audience'') False,
          check_field ''scope'' (str_list (ip_scope p)) (jget k ''scope'') False,
          check_field ''action_intent_digest'' (JStr (ip_action_intent_digest p))
            (jget k ''action_intent_digest'') True])"

definition escrow_checks :: "escrow_record \<Rightarrow> receipt_record \<Rightarrow> recon_check list" where
  "escrow_checks e r =
     (let k = rr_receipt_payload r
      in [check_field ''provider_execution_ref'' (opt_str (er_provider_execution_ref e))
            (rr_provider_execution_ref r) False,
          check_field ''action_intent_digest'' (JStr (er_action_intent_digest e))
            (jget k ''action_intent_digest'') True,
          check_field ''scope'' (str_list (er_scope e)) (jget k ''scope'') False])"

definition reconciliation_checks ::
  "action_intent_record \<Rightarrow> receipt_record \<Rightarrow> issued_proof option \<Rightarrow> escrow_record option \<Rightarrow>
   reconciliation_type \<Rightarrow> recon_check list result" where
  "reconciliation_checks i r mp me kind =
     (case kind of
        intent_to_receipt \<Rightarrow> Inr (intent_checks i r)
      | proof_to_receipt \<Rightarrow>
          (case mp of
             None \<Rightarrow> Inl (ReceiptIngestionError ''proof reconciliation requires an issued proof'')
           | Some p \<Rightarrow> Inr (proof_checks p r))
      | escrow_to_receipt \<Rightarrow>
          (case me of
             None \<Rightarrow> Inl (ReceiptIngestionError ''escrow reconciliation requires an escrow record'')
           | Some e \<Rightarrow> Inr (escrow_checks e r)))"

definition check_json :: "recon_check \<Rightarrow> json" where
  "check_json c = JObj [(''field'', JStr (ck_field c)),
     (''status'', JStr (check_status_value (ck_status c))),
     (''expected'', ck_expected c), (''actual'', ck_actual c)]"

definition new_reconciliation ::
  "runtime \<Rightarrow> action_intent_record \<Rightarrow> receipt_record \<Rightarrow> issued_proof option \<Rightarrow> escrow_record option \<Rightarrow>
   reconciliation_type \<Rightarrow> recon_check list \<Rightarrow> db \<Rightarrow> reconciliation_record" where
  "new_reconciliation rt i r mp me kind checks d =
     (let status = reconciliation_status_of checks
      in \<lparr>rc_reconciliation_record_id = new_id rt d, rc_tenant_id = ai_tenant_id i,
          rc_action_intent_record_id = ai_action_intent_record_id i,
          rc_receipt_id = rr_receipt_id r,
          rc_issued_proof_id = map_option ip_issued_proof_id mp,
          rc_escrow_record_id = map_option er_escrow_record_id me,
          rc_reconciliation_type = kind, rc_status = status,
          rc_hook_name = ''receipt_ingestion'',
          rc_summary = reconciliation_summary_text kind status checks,
          rc_checks = checks, rc_created_at = rt_now rt\<rparr>)"

definition create_reconciliation_record ::
  "runtime \<Rightarrow> action_intent_record \<Rightarrow> receipt_record \<Rightarrow> issued_proof option \<Rightarrow> escrow_record option \<Rightarrow>
   reconciliation_type \<Rightarrow> actor \<Rightarrow> db \<Rightarrow> (reconciliation_record \<times> db) result" where
  "create_reconciliation_record rt i r mp me kind actor d =
     (case reconciliation_checks i r mp me kind of
        Inl e \<Rightarrow> Inl e
      | Inr checks \<Rightarrow>
          let c = new_reconciliation rt i r mp me kind checks d;
              d1 = used_id d\<lparr>reconciliations := tinsert c (reconciliations d)\<rparr>
          in Inr (c, record_event rt (ai_tenant_id i) (Some (ai_action_intent_record_id i))
               (Some (rr_receipt_id r)) (rc_issued_proof_id c) (rc_escrow_record_id c)
               ''reconciliation''
               (''reconciliation.'' @ reconciliation_type_value kind @ ''.'' @
                  reconciliation_status_value (rc_status c))
               ''reconciliation_record'' (rc_reconciliation_record_id c) actor
               [(''hook_name'', JStr (rc_hook_name c)), (''summary'', JStr (rc_summary c)),
                (''checks'', JList (map check_json checks))] d1))"

text \<open>The kinds of reconciliation a receipt gets: the intent always, proof and escrow if linked.\<close>

definition hook_kinds :: "issued_proof option \<Rightarrow> escrow_record option \<Rightarrow> reconciliation_type list" where
  "hook_kinds mp me =
     intent_to_receipt # (if mp \<noteq> None then [proof_to_receipt] else []) @
       (if me \<noteq> None then [escrow_to_receipt] else [])"

fun run_hooks ::
  "runtime \<Rightarrow> action_intent_record \<Rightarrow> receipt_record \<Rightarrow> issued_proof option \<Rightarrow> escrow_record option \<Rightarrow>
   actor \<Rightarrow> reconciliation_type list \<Rightarrow> db \<Rightarrow> (reconciliation_record list \<times> db) result" where
  "run_hooks rt i r mp me actor [] d = Inr ([], d)"
| "run_hooks rt i r mp me actor (kind # kinds) d =
     (case create_reconciliation_record rt i r mp me kind actor d of
        Inl e \<Rightarrow> Inl e
      | Inr (c, d1) \<Rightarrow>
          (case run_hooks rt i r mp me actor kinds d1 of
             Inl e \<Rightarrow> Inl e
           | Inr (cs, d2) \<Rightarrow> Inr (c # cs, d2)))"

definition run_reconciliation_hooks ::
  "runtime \<Rightarrow> action_intent_record \<Rightarrow> receipt_record \<Rightarrow> issued_proof option \<Rightarrow> escrow_record option \<Rightarrow>
   actor \<Rightarrow> db \<Rightarrow> (reconciliation_record list \<times> db) result" where
  "run_reconciliation_hooks rt i r mp me actor d =
     run_hooks rt i r mp me actor (hook_kinds mp me) d"

definition all_matched :: "reconciliation_record list \<Rightarrow> bool" where
  "all_matched cs \<longleftrightarrow> cs \<noteq> [] \<and> list_all (\<lambda>c. rc_status c = RC_matched) cs"

definition summarize_reconciliation :: "reconciliation_record list \<Rightarrow> reconciliation_summary" where
  "summarize_reconciliation cs =
     \<lparr>rs_hook_name = ''receipt_ingestion'',
      rs_overall_status = (if all_matched cs then RC_matched else RC_manual_review_required),
      rs_record_count = length cs,
      rs_records = map (\<lambda>c. (rc_reconciliation_record_id c, rc_reconciliation_type c, rc_status c,
                             rc_summary c)) cs\<rparr>"

section \<open>Ingestion\<close>

definition observed_state :: "string \<Rightarrow> execution_state" where
  "observed_state outcome =
     (if outcome = ''succeeded'' then EX_result_observed
      else if outcome = ''failed'' then EX_failure_observed
      else EX_dispatch_confirmed)"

definition apply_lifecycle_effects :: "receipt_record \<Rightarrow> action_intent_record \<Rightarrow> action_intent_record" where
  "apply_lifecycle_effects r i =
     i\<lparr>ai_latest_receipt_id := Some (rr_receipt_id r), ai_receipt_state := rr_receipt_state r,
       ai_execution_state := observed_state (rr_outcome r)\<rparr>"

definition find_receipt :: "ident \<Rightarrow> string \<Rightarrow> db \<Rightarrow> receipt_record option" where
  "find_receipt tid digest d =
     find (\<lambda>r. rr_tenant_id r = tid \<and> rr_kernel_receipt_digest r = digest) (receipts d)"

definition new_receipt ::
  "runtime \<Rightarrow> receipt_env \<Rightarrow> receipt_request \<Rightarrow> issued_proof option \<Rightarrow> escrow_record option \<Rightarrow> time \<Rightarrow>
   dict \<Rightarrow> json \<Rightarrow> json \<Rightarrow> json \<Rightarrow> db \<Rightarrow> receipt_record" where
  "new_receipt rt rv q mp me occurred index external_id kind outcome d =
     (let v = validate_receipt (rv_schema rv) (ri_contract_family q) (ri_contract_version_ref q)
                (ri_kernel_receipt q);
          (requests, decisions, evidence) = linked_workflow_ids (ri_action_intent_record_id q) d
      in \<lparr>rr_receipt_id = new_id rt d, rr_tenant_id = ri_tenant_id q,
          rr_action_intent_record_id = ri_action_intent_record_id q,
          rr_issued_proof_id = map_option ip_issued_proof_id mp,
          rr_escrow_record_id = map_option er_escrow_record_id me,
          rr_contract_family = ri_contract_family q,
          rr_contract_version_ref = ri_contract_version_ref q,
          rr_contract_validation_status = receipt_validation_status v,
          rr_contract_validation_errors = cv_errors v,
          rr_external_receipt_id = py_str (rv_repr rv) external_id,
          rr_receipt_type = py_str (rv_repr rv) kind,
          rr_outcome = py_str (rv_repr rv) outcome,
          rr_receipt_timestamp = occurred,
          rr_kernel_receipt_digest = rt_sha256_json rt (JObj (ri_kernel_receipt q)),
          rr_receipt_payload = ri_kernel_receipt q, rr_receipt_index = index,
          rr_linked_approval_request_ids = requests,
          rr_linked_approval_decision_ids = decisions,
          rr_linked_evidence_object_ids = evidence,
          rr_provider_execution_ref = jget (ri_kernel_receipt q) ''provider_execution_ref'',
          rr_settlement_reference = jget (ri_kernel_receipt q) ''settlement_reference'',
          rr_received_by_principal_type = fst (ri_received_by q),
          rr_received_by_principal_id = snd (ri_received_by q),
          rr_receipt_state = RS_received, rr_reconciliation_summary = None\<rparr>)"

definition reconcile_row :: "reconciliation_record list \<Rightarrow> receipt_record \<Rightarrow> receipt_record" where
  "reconcile_row cs r =
     r\<lparr>rr_receipt_state := (if all_matched cs then RS_reconciled else RS_indexed),
       rr_reconciliation_summary := Some (summarize_reconciliation cs)\<rparr>"

text \<open>
  Storing a receipt whose parts have been read: the row, the event, the reconciliations with their
  events, the outcome on the row and on the intent, one commit.
\<close>

definition store_receipt ::
  "runtime \<Rightarrow> action_intent_record \<Rightarrow> issued_proof option \<Rightarrow> escrow_record option \<Rightarrow> actor \<Rightarrow>
   receipt_record \<Rightarrow> db \<Rightarrow> (receipt_record \<times> bool) result \<times> db" where
  "store_receipt rt i mp me actor r d =
     (let d1 = used_id d\<lparr>receipts := tinsert r (receipts d)\<rparr>;
          d2 = record_event rt (rr_tenant_id r) (Some (rr_action_intent_record_id r))
                 (Some (rr_receipt_id r)) (rr_issued_proof_id r) (rr_escrow_record_id r)
                 ''receipt'' ''receipt.ingested'' ''receipt_record'' (rr_receipt_id r) actor
                 [(''contract_family'', JStr (rr_contract_family r)),
                  (''contract_version_ref'', JStr (rr_contract_version_ref r)),
                  (''contract_validation_status'', JStr (rr_contract_validation_status r)),
                  (''external_receipt_id'', JStr (rr_external_receipt_id r)),
                  (''receipt_type'', JStr (rr_receipt_type r)),
                  (''outcome'', JStr (rr_outcome r))] d1
      in case run_reconciliation_hooks rt i r mp me actor d2 of
           Inl e \<Rightarrow> (Inl e, d)
         | Inr (cs, d3) \<Rightarrow>
             let r' = reconcile_row cs r;
                 d4 = d3\<lparr>receipts := tmodify rr_receipt_id (rr_receipt_id r) (reconcile_row cs) (receipts d3),
                         action_intents := tmodify ai_action_intent_record_id
                           (ai_action_intent_record_id i) (apply_lifecycle_effects r') (action_intents d3)\<rparr>
             in (Inr (r', False), d4))"

definition ingest_new ::
  "runtime \<Rightarrow> receipt_env \<Rightarrow> receipt_request \<Rightarrow> action_intent_record \<Rightarrow> salts \<Rightarrow> db \<Rightarrow>
   (receipt_record \<times> bool) result \<times> salts \<times> db" where
  "ingest_new rt rv q i reg d =
     (case receipt_proof (ri_tenant_id q) (ri_action_intent_record_id q) (ri_issued_proof_id q) d of
        Inl e \<Rightarrow> (Inl e, reg, d)
      | Inr mp \<Rightarrow>
     (case receipt_escrow (ri_tenant_id q) (ri_action_intent_record_id q) (ri_escrow_record_id q) d of
        Inl e \<Rightarrow> (Inl e, reg, d)
      | Inr me \<Rightarrow>
     (case jitem (ri_kernel_receipt q) ''occurred_at'' of
        Inl e \<Rightarrow> (Inl e, reg, d)
      | Inr raw \<Rightarrow>
     (case parse_timestamp (rv_fromisoformat rv) raw of
        Inl e \<Rightarrow> (Inl e, reg, d)
      | Inr occurred \<Rightarrow>
          let (index, reg1) = commit_receipt_index_fields (rv_hmac rv) (rv_repr rv)
                (rv_token_bytes rv) (ri_tenant_id q) (build_receipt_index i (ri_kernel_receipt q)) reg
          in (case (jitem (ri_kernel_receipt q) ''receipt_id'', jitem (ri_kernel_receipt q) ''receipt_type'',
                    jitem (ri_kernel_receipt q) ''outcome'') of
                (Inl e, _, _) \<Rightarrow> (Inl e, reg1, d)
              | (Inr _, Inl e, _) \<Rightarrow> (Inl e, reg1, d)
              | (Inr _, Inr _, Inl e) \<Rightarrow> (Inl e, reg1, d)
              | (Inr xid, Inr kind, Inr outcome) \<Rightarrow>
                  let (res, d') = store_receipt rt i mp me (ri_received_by q)
                        (new_receipt rt rv q mp me occurred index xid kind outcome d) d
                  in (res, reg1, d'))))))"

definition ingest_receipt ::
  "runtime \<Rightarrow> receipt_env \<Rightarrow> receipt_request \<Rightarrow> salts \<Rightarrow> db \<Rightarrow>
   (receipt_record \<times> bool) result \<times> salts \<times> db" where
  "ingest_receipt rt rv q reg d =
     (case receipt_intent (ri_tenant_id q) (ri_action_intent_record_id q) d of
        Inl e \<Rightarrow> (Inl e, reg, d)
      | Inr i \<Rightarrow>
          (case find_receipt (ri_tenant_id q) (rt_sha256_json rt (JObj (ri_kernel_receipt q))) d of
             Some r \<Rightarrow> (Inr (r, True), reg, d)
           | None \<Rightarrow> ingest_new rt rv q i reg d))"

section \<open>Reading receipts\<close>

record receipt_filter =
  pf_tenant_id :: "ident option"
  pf_action_intent_record_id :: "ident option"
  pf_issued_proof_id :: "ident option"
  pf_escrow_record_id :: "ident option"
  pf_receipt_type :: "string option"
  pf_outcome :: "string option"
  pf_currency :: "string option"
  pf_provider_execution_ref :: "string option"

definition list_receipts :: "receipt_filter \<Rightarrow> db \<Rightarrow> receipt_record list" where
  "list_receipts f d =
     sort_key rr_receipt_timestamp
       [r \<leftarrow> receipts d. is_None_or (pf_tenant_id f) (rr_tenant_id r) \<and>
          is_None_or (pf_action_intent_record_id f) (rr_action_intent_record_id r) \<and>
          (pf_issued_proof_id f = None \<or> pf_issued_proof_id f = rr_issued_proof_id r) \<and>
          (pf_escrow_record_id f = None \<or> pf_escrow_record_id f = rr_escrow_record_id r) \<and>
          is_None_or (pf_receipt_type f) (rr_receipt_type r) \<and>
          is_None_or (pf_outcome f) (rr_outcome r) \<and>
          is_None_or (map_option JStr (pf_currency f)) (jget (rr_receipt_index r) ''currency'') \<and>
          is_None_or (map_option JStr (pf_provider_execution_ref f)) (rr_provider_execution_ref r)]"

definition get_receipt :: "ident \<Rightarrow> db \<Rightarrow> receipt_record result" where
  "get_receipt rid d =
     (case tget rr_receipt_id rid (receipts d) of
        None \<Rightarrow> Inl ReceiptNotFoundError | Some r \<Rightarrow> Inr r)"

section \<open>What the hooks write\<close>

definition recon_event_type :: "reconciliation_record \<Rightarrow> string" where
  "recon_event_type c = ''reconciliation.'' @ reconciliation_type_value (rc_reconciliation_type c) @ ''.'' @
     reconciliation_status_value (rc_status c)"

text \<open>The row of one reconciliation, and the event that announces it.\<close>

definition recon_row_ok ::
  "action_intent_record \<Rightarrow> receipt_record \<Rightarrow> issued_proof option \<Rightarrow> escrow_record option \<Rightarrow>
   reconciliation_type \<Rightarrow> reconciliation_record \<Rightarrow> bool" where
  "recon_row_ok i r mp me kind c \<longleftrightarrow> rc_reconciliation_type c = kind \<and>
     reconciliation_checks i r mp me kind = Inr (rc_checks c) \<and>
     rc_status c = reconciliation_status_of (rc_checks c) \<and> rc_receipt_id c = rr_receipt_id r \<and>
     rc_tenant_id c = ai_tenant_id i \<and> rc_action_intent_record_id c = ai_action_intent_record_id i"

definition recon_event_ok :: "receipt_record \<Rightarrow> reconciliation_record \<Rightarrow> audit_event \<Rightarrow> bool" where
  "recon_event_ok r c a \<longleftrightarrow> au_receipt_id a = Some (rr_receipt_id r) \<and> au_event_type a = recon_event_type c \<and>
     au_subject_type a = ''reconciliation_record'' \<and> au_subject_id a = rc_reconciliation_record_id c \<and>
     au_tenant_id a = rc_tenant_id c"

lemma record_event_effect:
  assumes "d = base\<lparr>next_uuid := n\<rparr>"
  shows "record_event rt tid iid rid pid eid category kind st sid actor payload d =
    base\<lparr>audit_events := audit_events base @ [new_event rt tid iid rid pid eid category kind st sid actor payload d],
      next_uuid := Suc n\<rparr>"
  by (simp add: assms record_event_def used_id_def tinsert_def)

lemma create_reconciliation_effect:
  assumes "create_reconciliation_record rt i r mp me kind actor d = Inr (c, d')"
  shows "\<exists>a. d' = d\<lparr>reconciliations := reconciliations d @ [c], audit_events := audit_events d @ [a],
      next_uuid := Suc (Suc (next_uuid d))\<rparr> \<and> recon_row_ok i r mp me kind c \<and> recon_event_ok r c a"
proof -
  obtain checks where ch: "reconciliation_checks i r mp me kind = Inr checks"
    using assms by (auto simp: create_reconciliation_record_def split: sum.splits)
  have c: "c = new_reconciliation rt i r mp me kind checks d"
    using assms ch by (simp add: create_reconciliation_record_def Let_def)
  have base: "used_id d\<lparr>reconciliations := tinsert c (reconciliations d)\<rparr> =
      d\<lparr>reconciliations := reconciliations d @ [c]\<rparr>\<lparr>next_uuid := Suc (next_uuid d)\<rparr>"
    by (simp add: used_id_def tinsert_def)
  have ok: "recon_row_ok i r mp me kind c"
    by (simp add: c recon_row_ok_def new_reconciliation_def Let_def ch)
  have "\<exists>a. d' = d\<lparr>reconciliations := reconciliations d @ [c]\<rparr>\<lparr>audit_events := audit_events d @ [a],
      next_uuid := Suc (Suc (next_uuid d))\<rparr> \<and> recon_event_ok r c a"
    using assms ch ok
    by (auto simp: create_reconciliation_record_def Let_def record_event_effect[OF base] recon_event_ok_def
        new_event_def recon_event_type_def recon_row_ok_def simp flip: c)
  with ok show ?thesis by auto
qed

lemma run_hooks_effect:
  assumes "run_hooks rt i r mp me actor kinds d = Inr (cs, d')"
  shows "\<exists>evs. d' = d\<lparr>reconciliations := reconciliations d @ cs, audit_events := audit_events d @ evs,
      next_uuid := next_uuid d + 2 * length kinds\<rparr> \<and>
    list_all2 (recon_row_ok i r mp me) kinds cs \<and> list_all2 (recon_event_ok r) cs evs"
  using assms
proof (induction kinds arbitrary: d cs)
  case Nil
  then show ?case by (auto intro: exI[of _ "[]"])
next
  case (Cons kind kinds)
  then obtain c cs' d1 where c: "create_reconciliation_record rt i r mp me kind actor d = Inr (c, d1)"
    "run_hooks rt i r mp me actor kinds d1 = Inr (cs', d')" "cs = c # cs'"
    by (auto split: sum.splits)
  from create_reconciliation_effect[OF c(1)] Cons.IH[OF c(2)] obtain a evs where
    "d1 = d\<lparr>reconciliations := reconciliations d @ [c], audit_events := audit_events d @ [a],
      next_uuid := Suc (Suc (next_uuid d))\<rparr>" "recon_row_ok i r mp me kind c" "recon_event_ok r c a"
    "d' = d1\<lparr>reconciliations := reconciliations d1 @ cs', audit_events := audit_events d1 @ evs,
      next_uuid := next_uuid d1 + 2 * length kinds\<rparr>"
    "list_all2 (recon_row_ok i r mp me) kinds cs'" "list_all2 (recon_event_ok r) cs' evs" by blast
  then show ?case by (intro exI[of _ "a # evs"]) (simp add: c(3))
qed

lemma reconciliation_checks_hook:
  "kind \<in> set (hook_kinds mp me) \<Longrightarrow> \<exists>checks. reconciliation_checks i r mp me kind = Inr checks"
  by (auto simp: hook_kinds_def reconciliation_checks_def split: if_splits)

lemma run_hooks_total:
  "set kinds \<subseteq> set (hook_kinds mp me) \<Longrightarrow> \<exists>cs d'. run_hooks rt i r mp me actor kinds d = Inr (cs, d')"
proof (induction kinds arbitrary: d)
  case (Cons kind kinds)
  then obtain c d1 where "create_reconciliation_record rt i r mp me kind actor d = Inr (c, d1)"
    using reconciliation_checks_hook[of kind mp me i r] by (auto simp: create_reconciliation_record_def Let_def)
  moreover obtain cs d' where "run_hooks rt i r mp me actor kinds d1 = Inr (cs, d')" using Cons by fastforce
  ultimately show ?case by simp
qed simp

section \<open>What ingestion writes\<close>

definition ingested_event_ok :: "receipt_record \<Rightarrow> audit_event \<Rightarrow> bool" where
  "ingested_event_ok r a \<longleftrightarrow> au_receipt_id a = Some (rr_receipt_id r) \<and> au_event_type a = ''receipt.ingested'' \<and>
     au_subject_type a = ''receipt_record'' \<and> au_subject_id a = rr_receipt_id r \<and>
     au_tenant_id a = rr_tenant_id r \<and>
     au_actor_principal_type a = rr_received_by_principal_type r \<and>
     au_actor_principal_id a = rr_received_by_principal_id r"

lemma store_receipt_effect:
  assumes "tget rr_receipt_id (rr_receipt_id r) (receipts d) = None"
    "actor = (rr_received_by_principal_type r, rr_received_by_principal_id r)"
  shows "\<exists>cs a evs. store_receipt rt i mp me actor r d = (Inr (reconcile_row cs r, False),
     d\<lparr>receipts := receipts d @ [reconcile_row cs r], reconciliations := reconciliations d @ cs,
       audit_events := audit_events d @ a # evs,
       next_uuid := next_uuid d + 2 + 2 * length (hook_kinds mp me),
       action_intents := tmodify ai_action_intent_record_id (ai_action_intent_record_id i)
         (apply_lifecycle_effects (reconcile_row cs r)) (action_intents d)\<rparr>) \<and>
     ingested_event_ok r a \<and> list_all2 (recon_row_ok i r mp me) (hook_kinds mp me) cs \<and>
     list_all2 (recon_event_ok r) cs evs"
proof -
  define d2 where "d2 = record_event rt (rr_tenant_id r) (Some (rr_action_intent_record_id r))
                 (Some (rr_receipt_id r)) (rr_issued_proof_id r) (rr_escrow_record_id r)
                 ''receipt'' ''receipt.ingested'' ''receipt_record'' (rr_receipt_id r) actor
                 [(''contract_family'', JStr (rr_contract_family r)),
                  (''contract_version_ref'', JStr (rr_contract_version_ref r)),
                  (''contract_validation_status'', JStr (rr_contract_validation_status r)),
                  (''external_receipt_id'', JStr (rr_external_receipt_id r)),
                  (''receipt_type'', JStr (rr_receipt_type r)),
                  (''outcome'', JStr (rr_outcome r))] (used_id d\<lparr>receipts := tinsert r (receipts d)\<rparr>)"
  have base: "used_id d\<lparr>receipts := tinsert r (receipts d)\<rparr> =
      d\<lparr>receipts := receipts d @ [r]\<rparr>\<lparr>next_uuid := Suc (next_uuid d)\<rparr>"
    by (simp add: used_id_def tinsert_def)
  obtain cs d3 where run: "run_hooks rt i r mp me actor (hook_kinds mp me) d2 = Inr (cs, d3)"
    using run_hooks_total by blast
  obtain a where a: "d2 = d\<lparr>receipts := receipts d @ [r], audit_events := audit_events d @ [a],
      next_uuid := Suc (Suc (next_uuid d))\<rparr>" "ingested_event_ok r a"
    by (auto simp: d2_def record_event_effect[OF base] ingested_event_ok_def new_event_def assms(2))
  have same: "tmodify rr_receipt_id (rr_receipt_id r) (reconcile_row cs) (receipts d) = receipts d"
    using assms(1) by (intro tmodify_id) (auto simp: tget_None)
  have append: "tmodify rr_receipt_id (rr_receipt_id r) (reconcile_row cs) (receipts d @ [r]) =
      receipts d @ [reconcile_row cs r]"
    using same by (simp add: tmodify_def)
  have eq: "store_receipt rt i mp me actor r d = (Inr (reconcile_row cs r, False),
     d3\<lparr>receipts := tmodify rr_receipt_id (rr_receipt_id r) (reconcile_row cs) (receipts d3),
        action_intents := tmodify ai_action_intent_record_id (ai_action_intent_record_id i)
          (apply_lifecycle_effects (reconcile_row cs r)) (action_intents d3)\<rparr>)"
    by (simp add: store_receipt_def run_reconciliation_hooks_def Let_def run flip: d2_def)
  from run_hooks_effect[OF run] obtain evs where
    "d3 = d2\<lparr>reconciliations := reconciliations d2 @ cs, audit_events := audit_events d2 @ evs,
      next_uuid := next_uuid d2 + 2 * length (hook_kinds mp me)\<rparr>"
    "list_all2 (recon_row_ok i r mp me) (hook_kinds mp me) cs" "list_all2 (recon_event_ok r) cs evs" by blast
  then show ?thesis
    by (intro exI[of _ cs] exI[of _ a] exI[of _ evs])
       (simp add: eq append a)
qed

section \<open>Cases of an ingestion\<close>

lemma find_receipt_Some:
  "find_receipt tid dg d = Some r \<Longrightarrow>
   r \<in> set (receipts d) \<and> rr_tenant_id r = tid \<and> rr_kernel_receipt_digest r = dg"
  by (auto simp: find_receipt_def find_Some_iff)

lemma ingest_receipt_cases:
  assumes "ingest_receipt rt rv q reg d = (res, reg', d')"
  obtains (refused) e where "res = Inl e" "d' = d"
  | (replayed) r where "res = Inr (r, True)" "d' = d" "reg' = reg" "r \<in> set (receipts d)"
      "rr_tenant_id r = ri_tenant_id q"
      "rr_kernel_receipt_digest r = rt_sha256_json rt (JObj (ri_kernel_receipt q))"
  | (stored) i mp me occurred index xid kind outcome where
      "tget ai_action_intent_record_id (ri_action_intent_record_id q) (action_intents d) = Some i"
      "ai_tenant_id i = ri_tenant_id q"
      "find_receipt (ri_tenant_id q) (rt_sha256_json rt (JObj (ri_kernel_receipt q))) d = None"
      "receipt_proof (ri_tenant_id q) (ri_action_intent_record_id q) (ri_issued_proof_id q) d = Inr mp"
      "receipt_escrow (ri_tenant_id q) (ri_action_intent_record_id q) (ri_escrow_record_id q) d = Inr me"
      "jitem (ri_kernel_receipt q) ''receipt_id'' = Inr xid"
      "jitem (ri_kernel_receipt q) ''receipt_type'' = Inr kind"
      "jitem (ri_kernel_receipt q) ''outcome'' = Inr outcome"
      "commit_receipt_index_fields (rv_hmac rv) (rv_repr rv) (rv_token_bytes rv) (ri_tenant_id q)
         (build_receipt_index i (ri_kernel_receipt q)) reg = (index, reg')"
      "store_receipt rt i mp me (ri_received_by q)
         (new_receipt rt rv q mp me occurred index xid kind outcome d) d = (res, d')"
proof (cases "find_receipt (ri_tenant_id q) (rt_sha256_json rt (JObj (ri_kernel_receipt q))) d")
  case (Some r)
  then show ?thesis
    using assms refused replayed
    by (auto simp: ingest_receipt_def dest: find_receipt_Some split: sum.splits)
next
  case None
  show ?thesis
  proof (cases "\<exists>e. res = Inl e \<and> d' = d")
    case True
    then show ?thesis using refused by blast
  next
    case ne: False
    obtain i where i: "tget ai_action_intent_record_id (ri_action_intent_record_id q) (action_intents d) = Some i"
        "ai_tenant_id i = ri_tenant_id q" "ingest_new rt rv q i reg d = (res, reg', d')"
      using assms None ne
      by (auto simp: ingest_receipt_def receipt_intent_def split: sum.splits option.splits if_splits)
    obtain mp where mp: "receipt_proof (ri_tenant_id q) (ri_action_intent_record_id q) (ri_issued_proof_id q) d = Inr mp"
      using i(3) ne by (auto simp: ingest_new_def split: sum.splits)
    obtain me where me: "receipt_escrow (ri_tenant_id q) (ri_action_intent_record_id q) (ri_escrow_record_id q) d = Inr me"
      using i(3) ne mp by (auto simp: ingest_new_def split: sum.splits)
    obtain raw occurred where "jitem (ri_kernel_receipt q) ''occurred_at'' = Inr raw"
        "parse_timestamp (rv_fromisoformat rv) raw = Inr occurred"
      using i(3) ne by (auto simp: ingest_new_def mp me split: sum.splits)
    then obtain index xid kind outcome where
        "jitem (ri_kernel_receipt q) ''receipt_id'' = Inr xid"
        "jitem (ri_kernel_receipt q) ''receipt_type'' = Inr kind"
        "jitem (ri_kernel_receipt q) ''outcome'' = Inr outcome"
        "commit_receipt_index_fields (rv_hmac rv) (rv_repr rv) (rv_token_bytes rv) (ri_tenant_id q)
           (build_receipt_index i (ri_kernel_receipt q)) reg = (index, reg')"
        "store_receipt rt i mp me (ri_received_by q)
           (new_receipt rt rv q mp me occurred index xid kind outcome d) d = (res, d')"
      using i(3) ne
      by (auto simp: ingest_new_def mp me split: sum.split_asm prod.split_asm)
    from stored[OF i(1,2) None mp me this] show ?thesis .
  qed
qed

section \<open>The invariant of the trail\<close>

definition recon_of :: "ident \<Rightarrow> db \<Rightarrow> reconciliation_record list" where
  "recon_of rid d = [c \<leftarrow> reconciliations d. rc_receipt_id c = rid]"

definition events_of :: "ident \<Rightarrow> db \<Rightarrow> audit_event list" where
  "events_of rid d = [a \<leftarrow> audit_events d. au_receipt_id a = Some rid]"

definition expected_kinds :: "receipt_record \<Rightarrow> reconciliation_type list" where
  "expected_kinds r = intent_to_receipt # (if rr_issued_proof_id r \<noteq> None then [proof_to_receipt] else []) @
     (if rr_escrow_record_id r \<noteq> None then [escrow_to_receipt] else [])"

text \<open>
  The trail of one receipt: one reconciliation per linked artefact, the event of the ingestion
  followed by one event per reconciliation, and a state and summary that follow from them.
\<close>

definition trail_ok :: "db \<Rightarrow> receipt_record \<Rightarrow> bool" where
  "trail_ok d r \<longleftrightarrow> (let cs = recon_of (rr_receipt_id r) d in
     map rc_reconciliation_type cs = expected_kinds r \<and>
     map au_event_type (events_of (rr_receipt_id r) d) = ''receipt.ingested'' # map recon_event_type cs \<and>
     rr_receipt_state r = (if all_matched cs then RS_reconciled else RS_indexed) \<and>
     rr_reconciliation_summary r = Some (summarize_reconciliation cs))"

definition receipt_key :: "receipt_record \<Rightarrow> ident \<times> string" where
  "receipt_key r = (rr_tenant_id r, rr_kernel_receipt_digest r)"

definition trail_inv :: "(nat \<Rightarrow> ident) \<Rightarrow> db \<Rightarrow> bool" where
  "trail_inv U d \<longleftrightarrow> (\<forall>r \<in> set (receipts d). trail_ok d r) \<and>
     distinct (map rr_receipt_id (receipts d)) \<and> distinct (map receipt_key (receipts d)) \<and>
     rr_receipt_id ` set (receipts d) \<subseteq> U ` {..< next_uuid d} \<and>
     rc_receipt_id ` set (reconciliations d) \<subseteq> U ` {..< next_uuid d} \<and>
     au_receipt_id ` set (audit_events d) \<subseteq> Some ` U ` {..< next_uuid d}"

definition trail :: "db \<Rightarrow> receipt_record list \<times> reconciliation_record list \<times> audit_event list" where
  "trail d = (receipts d, reconciliations d, audit_events d)"

lemma trail_inv_kept:
  assumes "trail_inv U d" "trail d' = trail d" "next_uuid d \<le> next_uuid d'"
  shows "trail_inv U d'"
proof -
  have U: "U ` {..< next_uuid d} \<subseteq> U ` {..< next_uuid d'}" using assms(3) by auto
  have t: "receipts d' = receipts d" "reconciliations d' = reconciliations d"
    "audit_events d' = audit_events d"
    using assms(2) by (simp_all add: trail_def)
  have ok: "trail_ok d' = trail_ok d"
    by (rule ext) (simp add: trail_ok_def recon_of_def events_of_def t)
  from assms(1) have i: "\<forall>r \<in> set (receipts d). trail_ok d r"
    "distinct (map rr_receipt_id (receipts d))" "distinct (map receipt_key (receipts d))"
    "rr_receipt_id ` set (receipts d) \<subseteq> U ` {..< next_uuid d}"
    "rc_receipt_id ` set (reconciliations d) \<subseteq> U ` {..< next_uuid d}"
    "au_receipt_id ` set (audit_events d) \<subseteq> Some ` U ` {..< next_uuid d}"
    by (simp_all add: trail_inv_def)
  show ?thesis unfolding trail_inv_def t ok
    by (intro conjI i subset_trans[OF i(4) U] subset_trans[OF i(5) U] subset_trans[OF i(6) image_mono[OF U]])
qed

lemma trail_inv_empty: "trail_inv U empty_db"
  by (simp add: trail_inv_def empty_db_def)

lemma find_receipt_None:
  "find_receipt tid dg d = None \<longleftrightarrow> (tid, dg) \<notin> receipt_key ` set (receipts d)"
  by (auto simp: find_receipt_def find_None_iff receipt_key_def)

lemma recon_rows_ids:
  "list_all2 (recon_row_ok i r mp me) kinds cs \<Longrightarrow>
   map rc_reconciliation_type cs = kinds \<and> (\<forall>c \<in> set cs. rc_receipt_id c = rr_receipt_id r)"
  by (induction rule: list_all2_induct) (auto simp: recon_row_ok_def)

lemma recon_events_ids:
  "list_all2 (recon_event_ok r) cs evs \<Longrightarrow> map au_event_type evs = map recon_event_type cs \<and>
   (\<forall>a \<in> set evs. au_receipt_id a = Some (rr_receipt_id r))"
  by (induction rule: list_all2_induct) (auto simp: recon_event_ok_def)

lemma reconcile_row_simps [simp]:
  "rr_receipt_id (reconcile_row cs r) = rr_receipt_id r"
  "rr_tenant_id (reconcile_row cs r) = rr_tenant_id r"
  "rr_action_intent_record_id (reconcile_row cs r) = rr_action_intent_record_id r"
  "rr_issued_proof_id (reconcile_row cs r) = rr_issued_proof_id r"
  "rr_escrow_record_id (reconcile_row cs r) = rr_escrow_record_id r"
  "rr_kernel_receipt_digest (reconcile_row cs r) = rr_kernel_receipt_digest r"
  "rr_receipt_payload (reconcile_row cs r) = rr_receipt_payload r"
  "rr_outcome (reconcile_row cs r) = rr_outcome r"
  "rr_provider_execution_ref (reconcile_row cs r) = rr_provider_execution_ref r"
  "rr_receipt_state (reconcile_row cs r) = (if all_matched cs then RS_reconciled else RS_indexed)"
  "rr_reconciliation_summary (reconcile_row cs r) = Some (summarize_reconciliation cs)"
  "receipt_key (reconcile_row cs r) = receipt_key r"
  "expected_kinds (reconcile_row cs r) = expected_kinds r"
  by (simp_all add: reconcile_row_def receipt_key_def expected_kinds_def)

text \<open>One more receipt with its reconciliations and events.\<close>

lemma trail_inv_append:
  assumes inv: "trail_inv U d" and U: "inj U" "rr_receipt_id r = U (next_uuid d)"
    and d': "receipts d' = receipts d @ [reconcile_row cs r]" "reconciliations d' = reconciliations d @ cs"
      "audit_events d' = audit_events d @ a # evs" "next_uuid d < next_uuid d'"
    and rows: "list_all2 (recon_row_ok i r mp me) (expected_kinds r) cs" "list_all2 (recon_event_ok r) cs evs"
      "ingested_event_ok r a"
    and new: "receipt_key r \<notin> receipt_key ` set (receipts d)"
  shows "trail_inv U d'"
proof -
  let ?n = "next_uuid d" and ?rid = "rr_receipt_id r"
  have old: "U ?n \<notin> U ` {..< ?n}" using U(1) by (auto dest: injD)
  have I: "\<forall>r \<in> set (receipts d). trail_ok d r"
    "distinct (map rr_receipt_id (receipts d))" "distinct (map receipt_key (receipts d))"
    "rr_receipt_id ` set (receipts d) \<subseteq> U ` {..< ?n}"
    "rc_receipt_id ` set (reconciliations d) \<subseteq> U ` {..< ?n}"
    "au_receipt_id ` set (audit_events d) \<subseteq> Some ` U ` {..< ?n}"
    using inv by (simp_all add: trail_inv_def)
  note ids = recon_rows_ids[OF rows(1)] recon_events_ids[OF rows(2)]
  have a: "au_receipt_id a = Some ?rid" "au_event_type a = ''receipt.ingested''"
    using rows(3) by (simp_all add: ingested_event_ok_def)
  have fresh_ids: "U ?n \<notin> rc_receipt_id ` set (reconciliations d)"
    "Some (U ?n) \<notin> au_receipt_id ` set (audit_events d)" "?rid \<notin> rr_receipt_id ` set (receipts d)"
    using I(4-6) old unfolding U(2) by blast+
  have none: "recon_of ?rid d = []" "events_of ?rid d = []"
    using fresh_ids by (auto simp: recon_of_def events_of_def filter_empty_conv U(2) image_iff)
  have new_trail: "recon_of ?rid d' = cs" "events_of ?rid d' = a # evs"
    using none ids a by (auto simp: recon_of_def events_of_def d')
  have old_trail: "recon_of k d' = recon_of k d" "events_of k d' = events_of k d" if "k \<noteq> ?rid" for k
    using ids a that by (auto simp: recon_of_def events_of_def d')
  have "trail_ok d' (reconcile_row cs r)"
    using ids a by (simp add: trail_ok_def Let_def new_trail)
  moreover have "trail_ok d' s" if s: "s \<in> set (receipts d)" for s
  proof -
    have "rr_receipt_id s \<noteq> ?rid" using fresh_ids(3) s by (metis imageI)
    then show ?thesis using I(1) s by (simp add: trail_ok_def old_trail)
  qed
  moreover have sub: "U ` {..< ?n} \<subseteq> U ` {..< next_uuid d'}" "?rid \<in> U ` {..< next_uuid d'}"
    using d'(4) U(2) by auto
  moreover have "rc_receipt_id ` set cs \<subseteq> U ` {..< next_uuid d'}"
    "au_receipt_id ` set (a # evs) \<subseteq> Some ` U ` {..< next_uuid d'}"
    using ids a sub(2) by auto
  ultimately show ?thesis
    using I(2,3) subset_trans[OF I(4) sub(1)] subset_trans[OF I(5) sub(1)]
      subset_trans[OF I(6) image_mono[OF sub(1)]] new fresh_ids(3)
    by (simp add: trail_inv_def d' image_Un)
qed

lemma new_receipt_simps [simp]:
  "rr_receipt_id (new_receipt rt rv q mp me t index xid kind oc d) = new_id rt d"
  "rr_tenant_id (new_receipt rt rv q mp me t index xid kind oc d) = ri_tenant_id q"
  "rr_action_intent_record_id (new_receipt rt rv q mp me t index xid kind oc d) = ri_action_intent_record_id q"
  "rr_issued_proof_id (new_receipt rt rv q mp me t index xid kind oc d) = map_option ip_issued_proof_id mp"
  "rr_escrow_record_id (new_receipt rt rv q mp me t index xid kind oc d) = map_option er_escrow_record_id me"
  "rr_kernel_receipt_digest (new_receipt rt rv q mp me t index xid kind oc d) =
     rt_sha256_json rt (JObj (ri_kernel_receipt q))"
  "rr_receipt_payload (new_receipt rt rv q mp me t index xid kind oc d) = ri_kernel_receipt q"
  "rr_outcome (new_receipt rt rv q mp me t index xid kind oc d) = py_str (rv_repr rv) oc"
  "rr_received_by_principal_type (new_receipt rt rv q mp me t index xid kind oc d) = fst (ri_received_by q)"
  "rr_received_by_principal_id (new_receipt rt rv q mp me t index xid kind oc d) = snd (ri_received_by q)"
  "rr_provider_execution_ref (new_receipt rt rv q mp me t index xid kind oc d) =
     jget (ri_kernel_receipt q) ''provider_execution_ref''"
  "rr_receipt_index (new_receipt rt rv q mp me t index xid kind oc d) = index"
  "expected_kinds (new_receipt rt rv q mp me t index xid kind oc d) = hook_kinds mp me"
  unfolding new_receipt_def linked_workflow_ids_def expected_kinds_def hook_kinds_def Let_def prod.case
  by simp_all

text \<open>What a receipt that agrees with its intent reports.\<close>

definition same_or_absent :: "json \<Rightarrow> json \<Rightarrow> bool" where
  "same_or_absent expected actual \<longleftrightarrow> expected = JNull \<and> actual = JNull \<or> actual \<noteq> JNull \<and> py_eq expected actual"

definition receipt_agrees :: "action_intent_record \<Rightarrow> receipt_record \<Rightarrow> bool" where
  "receipt_agrees i r \<longleftrightarrow> (let k = rr_receipt_payload r in
     jget k ''action_intent_digest'' = JStr (ai_action_intent_digest i) \<and>
     same_or_absent (ai_external_action_intent_id i) (jget k ''intent_id'') \<and>
     same_or_absent (jget (ai_finance_index i) ''action_type'') (jget k ''action_type'') \<and>
     same_or_absent (jget (ai_finance_index i) ''amount_minor'') (jget k ''amount_minor'') \<and>
     same_or_absent (jget (ai_finance_index i) ''currency'') (jget k ''currency''))"

lemma matched_checks:
  "reconciliation_status_of checks = RC_matched \<longleftrightarrow>
   (\<forall>c \<in> set checks. ck_status c \<in> {CK_matched, CK_skipped}) \<and> (\<exists>c \<in> set checks. ck_status c = CK_matched)"
  by (auto simp: reconciliation_status_of_def Let_def list_all_iff image_iff)

lemma check_field_ok:
  "ck_status (check_field f e a b) \<in> {CK_matched, CK_skipped} \<longleftrightarrow> same_or_absent e a"
  by (auto simp: check_field_def same_or_absent_def)

lemma same_or_absent_JStr [simp]: "same_or_absent (JStr s) a \<longleftrightarrow> a = JStr s"
  by (auto simp: same_or_absent_def)

lemma intent_checks_matched:
  "reconciliation_status_of (intent_checks i r) = RC_matched \<longleftrightarrow> receipt_agrees i r"
proof -
  have "ck_status (check_field ''action_intent_digest'' (JStr s) (JStr s) True) = CK_matched" for s
    by (simp add: check_field_def)
  then show ?thesis
    unfolding matched_checks intent_checks_def receipt_agrees_def Let_def
    by (auto simp: check_field_ok simp del: insert_iff)
qed

section \<open>Receipts on file\<close>

definition filed :: "db \<Rightarrow> receipt_record \<Rightarrow> bool" where
  "filed d r \<longleftrightarrow> (\<exists>i. tget ai_action_intent_record_id (rr_action_intent_record_id r) (action_intents d) = Some i \<and>
     ai_tenant_id i = rr_tenant_id r \<and> (rr_receipt_state r = RS_reconciled \<longrightarrow> receipt_agrees i r))"

definition receipts_inv :: "(nat \<Rightarrow> ident) \<Rightarrow> db \<Rightarrow> bool" where
  "receipts_inv U d \<longleftrightarrow> trail_inv U d \<and> (\<forall>r \<in> set (receipts d). filed d r)"

lemma receipt_agrees_core:
  assumes "intent_core i' = intent_core i"
  shows "receipt_agrees i' r \<longleftrightarrow> receipt_agrees i r" "ai_tenant_id i' = ai_tenant_id i"
  using intent_core_eqD[OF assms] arg_cong[OF assms, of ai_external_action_intent_id]
    arg_cong[OF assms, of ai_finance_index]
  by (simp_all add: receipt_agrees_def intent_core_def)

text \<open>Stored intents keep what a receipt is compared with.\<close>

lemma filed_mono:
  assumes "filed d r" and grow: "\<And>iid i. tget ai_action_intent_record_id iid (action_intents d) = Some i \<Longrightarrow>
      \<exists>i'. tget ai_action_intent_record_id iid (action_intents d') = Some i' \<and> intent_core i' = intent_core i"
  shows "filed d' r"
proof -
  obtain i where i: "tget ai_action_intent_record_id (rr_action_intent_record_id r) (action_intents d) = Some i"
    "ai_tenant_id i = rr_tenant_id r" "rr_receipt_state r = RS_reconciled \<longrightarrow> receipt_agrees i r"
    using assms(1) by (auto simp: filed_def)
  from grow[OF i(1)] i(2,3) receipt_agrees_core show ?thesis unfolding filed_def by metis
qed

lemma apply_lifecycle_core: "intent_core (apply_lifecycle_effects r i) = intent_core i"
  by (simp add: apply_lifecycle_effects_def)

text \<open>The links a request names are checked against its tenant and intent.\<close>

lemma receipt_links:
  "receipt_proof tid iid mpid d = Inr mp \<Longrightarrow> map_option ip_issued_proof_id mp = mpid \<and>
     (\<forall>p. mp = Some p \<longrightarrow> p \<in> set (issued_proofs d) \<and> ip_tenant_id p = tid \<and> ip_action_intent_record_id p = iid)"
  "receipt_escrow tid iid meid d = Inr me \<Longrightarrow> map_option er_escrow_record_id me = meid \<and>
     (\<forall>e. me = Some e \<longrightarrow> e \<in> set (escrow_records d) \<and> er_tenant_id e = tid \<and> er_action_intent_record_id e = iid)"
  by (auto simp: receipt_proof_def receipt_escrow_def split: option.split_asm if_split_asm dest: tgetD)
     (metis tgetD)+

lemma ingest_receipt_effects:
  assumes eq: "ingest_receipt rt rv q reg d = (res, reg', d')"
    and inv: "trail_inv U d" and U: "inj U" "rt_uuid rt = U"
  obtains (refused) e where "res = Inl e" "d' = d"
  | (replayed) r where "res = Inr (r, True)" "d' = d" "r \<in> set (receipts d)"
      "receipt_key r = (ri_tenant_id q, rt_sha256_json rt (JObj (ri_kernel_receipt q)))"
  | (stored) i mp me r cs a evs where "res = Inr (reconcile_row cs r, False)"
      "d' = d\<lparr>receipts := receipts d @ [reconcile_row cs r], reconciliations := reconciliations d @ cs,
         audit_events := audit_events d @ a # evs,
         next_uuid := next_uuid d + 2 + 2 * length (hook_kinds mp me),
         action_intents := tmodify ai_action_intent_record_id (ai_action_intent_record_id i)
           (apply_lifecycle_effects (reconcile_row cs r)) (action_intents d)\<rparr>"
      "tget ai_action_intent_record_id (ri_action_intent_record_id q) (action_intents d) = Some i"
      "ai_tenant_id i = ri_tenant_id q"
      "receipt_proof (ri_tenant_id q) (ri_action_intent_record_id q) (ri_issued_proof_id q) d = Inr mp"
      "receipt_escrow (ri_tenant_id q) (ri_action_intent_record_id q) (ri_escrow_record_id q) d = Inr me"
      "\<exists>t index xid kind oc. r = new_receipt rt rv q mp me t index xid kind oc d \<and>
         jitem (ri_kernel_receipt q) ''outcome'' = Inr oc \<and>
         commit_receipt_index_fields (rv_hmac rv) (rv_repr rv) (rv_token_bytes rv) (ri_tenant_id q)
           (build_receipt_index i (ri_kernel_receipt q)) reg = (index, reg')"
      "rr_receipt_id r = U (next_uuid d)" "receipt_key r \<notin> receipt_key ` set (receipts d)"
      "ingested_event_ok r a" "list_all2 (recon_row_ok i r mp me) (hook_kinds mp me) cs"
      "list_all2 (recon_event_ok r) cs evs" "expected_kinds r = hook_kinds mp me"
  using eq
proof (cases rule: ingest_receipt_cases)
  case (refused e)
  then show ?thesis using that(1) by blast
next
  case (replayed r)
  then show ?thesis using that(2) by (simp add: receipt_key_def)
next
  case (stored i mp me occurred index xid kind outcome)
  define r where "r = new_receipt rt rv q mp me occurred index xid kind outcome d"
  have id: "rr_receipt_id r = U (next_uuid d)" by (simp add: r_def new_id_def U)
  have "U (next_uuid d) \<notin> U ` {..< next_uuid d}" using U(1) by (auto dest: injD)
  then have "rr_receipt_id r \<notin> rr_receipt_id ` set (receipts d)"
    using inv unfolding id trail_inv_def by blast
  then have fresh: "tget rr_receipt_id (rr_receipt_id r) (receipts d) = None"
    unfolding tget_None by (metis imageI)
  have key: "receipt_key r \<notin> receipt_key ` set (receipts d)"
    using stored(3) by (simp add: find_receipt_None r_def receipt_key_def)
  have parts: "\<exists>t index xid kind oc. r = new_receipt rt rv q mp me t index xid kind oc d \<and>
      jitem (ri_kernel_receipt q) ''outcome'' = Inr oc \<and>
      commit_receipt_index_fields (rv_hmac rv) (rv_repr rv) (rv_token_bytes rv) (ri_tenant_id q)
        (build_receipt_index i (ri_kernel_receipt q)) reg = (index, reg')"
    using stored(8,9) r_def by blast
  have actor: "ri_received_by q = (rr_received_by_principal_type r, rr_received_by_principal_id r)"
    by (simp add: r_def)
  from store_receipt_effect[OF fresh actor, of rt i mp me] stored(10)[folded r_def]
  obtain cs a evs where e: "res = Inr (reconcile_row cs r, False)"
      "d' = d\<lparr>receipts := receipts d @ [reconcile_row cs r], reconciliations := reconciliations d @ cs,
         audit_events := audit_events d @ a # evs,
         next_uuid := next_uuid d + 2 + 2 * length (hook_kinds mp me),
         action_intents := tmodify ai_action_intent_record_id (ai_action_intent_record_id i)
           (apply_lifecycle_effects (reconcile_row cs r)) (action_intents d)\<rparr>"
      "ingested_event_ok r a" "list_all2 (recon_row_ok i r mp me) (hook_kinds mp me) cs"
      "list_all2 (recon_event_ok r) cs evs"
    by auto
  show ?thesis
    by (rule that(3)[OF e(1,2) stored(1,2,4,5) parts id key e(3-5)]) (simp add: r_def)
qed

text \<open>The trail only grows at its end.\<close>

definition trail_extends :: "db \<Rightarrow> db \<Rightarrow> bool" where
  "trail_extends d d' \<longleftrightarrow> prefix (receipts d) (receipts d') \<and>
     prefix (reconciliations d) (reconciliations d') \<and> prefix (audit_events d) (audit_events d')"

lemma trail_extends_refl [simp]: "trail_extends d d"
  by (simp add: trail_extends_def)

lemma trail_extends_trans: "trail_extends d d1 \<Longrightarrow> trail_extends d1 d2 \<Longrightarrow> trail_extends d d2"
  by (auto simp: trail_extends_def intro: prefix_order.trans)

lemma trail_extends_same: "trail d' = trail d \<Longrightarrow> trail_extends d d'"
  by (simp add: trail_extends_def trail_def)

lemma trail_extends_mem: "trail_extends d d' \<Longrightarrow> r \<in> set (receipts d) \<Longrightarrow> r \<in> set (receipts d')"
  by (auto simp: trail_extends_def prefix_def)

lemma intents_kept_lifecycle:
  "action_intents d' = tmodify ai_action_intent_record_id iid (apply_lifecycle_effects r) (action_intents d) \<Longrightarrow>
   intents_kept d d'"
  by (rule intents_kept_modify[where f = "apply_lifecycle_effects r"]) (simp_all add: apply_lifecycle_core)

lemma reconciled_agrees:
  assumes "list_all2 (recon_row_ok i r mp me) (hook_kinds mp me) cs" "all_matched cs"
  shows "receipt_agrees i r"
proof -
  obtain c cs' where cs: "cs = c # cs'" "recon_row_ok i r mp me intent_to_receipt c"
    using assms(1) by (auto simp: hook_kinds_def list_all2_Cons1)
  then have "rc_checks c = intent_checks i r" "rc_status c = reconciliation_status_of (rc_checks c)"
    by (auto simp: recon_row_ok_def reconciliation_checks_def)
  moreover have "rc_status c = RC_matched" using assms(2) cs(1) by (simp add: all_matched_def)
  ultimately show ?thesis using intent_checks_matched by metis
qed

lemma receipt_agrees_row [simp]: "receipt_agrees i (reconcile_row cs r) = receipt_agrees i r"
  by (simp add: receipt_agrees_def)

lemma ingest_receipt_step:
  assumes eq: "ingest_receipt rt rv q reg d = (res, reg', d')"
    and inv: "receipts_inv U d" and U: "inj U" "rt_uuid rt = U"
  shows "receipts_inv U d' \<and> trail_extends d d' \<and> intents_kept d d' \<and> next_uuid d \<le> next_uuid d' \<and>
    approval_requests d' = approval_requests d \<and> issued_proofs d' = issued_proofs d \<and>
    escrow_records d' = escrow_records d"
proof -
  have t: "trail_inv U d" using inv by (simp add: receipts_inv_def)
  show ?thesis
    using eq t U
  proof (cases rule: ingest_receipt_effects)
    case (stored i mp me r cs a evs)
    have kept: "intents_kept d d'"
      by (rule intents_kept_lifecycle[of _ "ai_action_intent_record_id i" "reconcile_row cs r"])
         (simp add: stored(2))
    have rows: "list_all2 (recon_row_ok i r mp me) (expected_kinds r) cs" using stored by simp
    have iid: "rr_action_intent_record_id r = ri_action_intent_record_id q" "rr_tenant_id r = ri_tenant_id q"
      using stored(7) by auto
    have "trail_inv U d'"
      by (rule trail_inv_append[OF t U(1) stored(8) _ _ _ _ rows stored(12,10,9)]) (simp_all add: stored(2))
    moreover have "filed d' s" if s: "s \<in> set (receipts d')" for s
    proof (cases "s = reconcile_row cs r")
      case True
      have "filed d s"
        using stored(3,4) iid reconciled_agrees[OF stored(11)] by (auto simp: filed_def True)
      then show ?thesis using filed_mono intents_kept_get[OF kept] by blast
    next
      case False
      then have "filed d s" using inv s by (auto simp: receipts_inv_def stored(2))
      then show ?thesis using filed_mono intents_kept_get[OF kept] by blast
    qed
    ultimately show ?thesis
      using kept by (simp add: receipts_inv_def trail_extends_def stored(2))
  qed (use inv in simp_all)
qed

section \<open>When a receipt is accepted\<close>

definition link_ok :: "ident \<Rightarrow> ident \<Rightarrow> ident option \<Rightarrow> ident option \<Rightarrow> db \<Rightarrow> bool" where
  "link_ok tid iid mpid meid d \<longleftrightarrow>
     (\<forall>pid. mpid = Some pid \<longrightarrow> (\<exists>p. tget ip_issued_proof_id pid (issued_proofs d) = Some p \<and>
        ip_tenant_id p = tid \<and> ip_action_intent_record_id p = iid)) \<and>
     (\<forall>eid. meid = Some eid \<longrightarrow> (\<exists>e. tget er_escrow_record_id eid (escrow_records d) = Some e \<and>
        er_tenant_id e = tid \<and> er_action_intent_record_id e = iid))"

definition payload_ok :: "receipt_env \<Rightarrow> dict \<Rightarrow> bool" where
  "payload_ok rv k \<longleftrightarrow> (\<exists>s. map_of k ''occurred_at'' = Some (JStr s) \<and> rv_fromisoformat rv (replace_zulu s) \<noteq> None) \<and>
     {''receipt_id'', ''receipt_type'', ''outcome''} \<subseteq> fst ` set k"

lemma link_ok_iff:
  "link_ok tid iid mpid meid d \<longleftrightarrow>
   (\<exists>mp. receipt_proof tid iid mpid d = Inr mp) \<and> (\<exists>me. receipt_escrow tid iid meid d = Inr me)"
  by (auto simp: link_ok_def receipt_proof_def receipt_escrow_def split: option.splits)

lemma jitem_ok: "(\<exists>v. jitem k f = Inr v) \<longleftrightarrow> f \<in> fst ` set k"
  by (metis Inl_Inr_False jitem_def map_of_eq_None_iff not_Some_eq option.simps(4,5))

lemma payload_ok_iff:
  "payload_ok rv k \<longleftrightarrow> (\<exists>raw t. jitem k ''occurred_at'' = Inr raw \<and> parse_timestamp (rv_fromisoformat rv) raw = Inr t) \<and>
     (\<exists>x. jitem k ''receipt_id'' = Inr x) \<and> (\<exists>x. jitem k ''receipt_type'' = Inr x) \<and> (\<exists>x. jitem k ''outcome'' = Inr x)"
proof -
  have "(\<exists>s. map_of k ''occurred_at'' = Some (JStr s) \<and> rv_fromisoformat rv (replace_zulu s) \<noteq> None) \<longleftrightarrow>
    (\<exists>raw t. jitem k ''occurred_at'' = Inr raw \<and> parse_timestamp (rv_fromisoformat rv) raw = Inr t)"
    by (cases "map_of k ''occurred_at''"; cases "the (map_of k ''occurred_at'')")
       (auto simp: jitem_def parse_timestamp_def split: option.splits)
  then show ?thesis by (simp add: payload_ok_def jitem_ok)
qed

lemma store_receipt_total: "\<exists>r d'. store_receipt rt i mp me actor r0 d = (Inr (r, False), d')"
proof -
  obtain cs d3 where "run_reconciliation_hooks rt i r0 mp me actor (record_event rt (rr_tenant_id r0)
        (Some (rr_action_intent_record_id r0)) (Some (rr_receipt_id r0)) (rr_issued_proof_id r0) (rr_escrow_record_id r0)
        ''receipt'' ''receipt.ingested'' ''receipt_record'' (rr_receipt_id r0) actor
        [(''contract_family'', JStr (rr_contract_family r0)),
         (''contract_version_ref'', JStr (rr_contract_version_ref r0)),
         (''contract_validation_status'', JStr (rr_contract_validation_status r0)),
         (''external_receipt_id'', JStr (rr_external_receipt_id r0)),
         (''receipt_type'', JStr (rr_receipt_type r0)),
         (''outcome'', JStr (rr_outcome r0))] (used_id d\<lparr>receipts := tinsert r0 (receipts d)\<rparr>)) = Inr (cs, d3)"
    using run_hooks_total unfolding run_reconciliation_hooks_def by blast
  then show ?thesis by (simp add: store_receipt_def Let_def)
qed


end
