(* ===== verification/System.thy ===== *)
theory System
  imports EscrowProtocol Receipts
begin

text \<open>
  The control plane as a whole: any sequence of calls of the intake, approval, evidence, policy,
  key, issuance, escrow and receipt services on one database, and what such a sequence can never lead to.
  The properties of single components meet here: a capability is held only for a proof that was
  signed, a proof is signed only for an intent whose approvals are satisfied, and an approval
  request is satisfied only by enough different people other than the requester.
\<close>

section \<open>Calls\<close>

inductive system_step :: "(nat \<Rightarrow> ident) \<Rightarrow> db \<Rightarrow> db \<Rightarrow> bool" for U where
  sy_intake: "rt_uuid rt = U \<Longrightarrow> system_step U d (snd (intake rt schema session request d))"
| sy_get_record: "rt_uuid rt = U \<Longrightarrow> system_step U d (snd (get_record rt iid d))"
| sy_list_records: "rt_uuid rt = U \<Longrightarrow> system_step U d (snd (list_records rt f d))"
| sy_get_request: "rt_uuid rt = U \<Longrightarrow> system_step U d (snd (get_request rt rid d))"
| sy_list_requests: "rt_uuid rt = U \<Longrightarrow> system_step U d (snd (list_requests rt tid mid st d))"
| sy_decide: "rt_uuid rt = U \<Longrightarrow> system_step U d (snd (record_decision rt rid actr dec reason ev d))"
| sy_register: "rt_uuid rt = U \<Longrightarrow> system_step U d (snd (register_evidence rt inp mode ref dg nb d))"
| sy_upload: "rt_uuid rt = U \<Longrightarrow> upload_evidence rt b inp name payload fs d = (res, d', fs') \<Longrightarrow> system_step U d d'"
| sy_get_evidence: "rt_uuid rt = U \<Longrightarrow> system_step U d (snd (get_evidence rt eid d))"
| sy_list_evidence: "rt_uuid rt = U \<Longrightarrow> system_step U d (snd (list_evidence rt tid mid mrid d))"
| sy_content: "rt_uuid rt = U \<Longrightarrow> system_step U d (snd (get_evidence_content rt backends eid fs d))"
| sy_issue: "rt_uuid rt = U \<Longrightarrow> system_step U d (snd (issue_proof rt env iid q d))"
| sy_get_proof: "rt_uuid rt = U \<Longrightarrow> system_step U d (snd (get_proof rt pid d))"
| sy_list_proofs: "rt_uuid rt = U \<Longrightarrow> system_step U d (snd (list_proofs rt tid mid pst d))"
| sy_hold: "rt_uuid rt = U \<Longrightarrow> system_step U d (snd (create_hold rt pid kind res act ttl md d))"
| sy_release: "rt_uuid rt = U \<Longrightarrow> system_step U d (snd (release_capability rt js sg eid act d))"
| sy_consume: "rt_uuid rt = U \<Longrightarrow> system_step U d (snd (consume_capability rt eid token act ref pstatus md d))"
| sy_revoke: "rt_uuid rt = U \<Longrightarrow> system_step U d (snd (revoke_capability rt eid act code detail md d))"
| sy_quarantine: "rt_uuid rt = U \<Longrightarrow> system_step U d (snd (quarantine_capability rt eid act code detail md d))"
| sy_update: "rt_uuid rt = U \<Longrightarrow> system_step U d (snd (record_execution_update rt eid act xs ref pstatus md d))"
| sy_get_escrow: "rt_uuid rt = U \<Longrightarrow> system_step U d (snd (get_escrow rt eid d))"
| sy_list_escrows: "rt_uuid rt = U \<Longrightarrow> system_step U d (snd (list_escrows rt ef d))"
| sy_ingest: "rt_uuid rt = U \<Longrightarrow> ingest_receipt rt rv rq reg d = (rres, reg', d') \<Longrightarrow> system_step U d d'"
| sy_tenant: "rt_uuid rt = U \<Longrightarrow> system_step U d (snd (create_tenant rt dname profile d))"
| sy_create_policy: "rt_uuid rt = U \<Longrightarrow> system_step U d (snd (create_policy rt tid name descr wk dd classes rules d))"
| sy_update_policy: "system_step U d (snd (update_policy polid name descr dd classes rules d))"
| sy_activate_policy: "rt_uuid rt = U \<Longrightarrow> system_step U d (snd (activate_policy rt polid d))"
| sy_register_key: "rt_uuid rt = U \<Longrightarrow> system_step U d (snd (register_key rt ki d))"
| sy_activate_key: "rt_uuid rt = U \<Longrightarrow> system_step U d (snd (activate_key rt kid d))"
| sy_suspend_key: "rt_uuid rt = U \<Longrightarrow> system_step U d (snd (suspend_key rt kid d))"
| sy_rotate_key: "rt_uuid rt = U \<Longrightarrow>
    system_step U d (snd (rotate_signing_key rt tid purpose nk pub dn isn isu tier kmd d))"

definition system_reachable :: "(nat \<Rightarrow> ident) \<Rightarrow> db \<Rightarrow> bool" where
  "system_reachable U d \<longleftrightarrow> (system_step U)\<^sup>*\<^sup>* empty_db d"

section \<open>Calls that leave the gates alone\<close>

definition escrow_bindings :: "db \<Rightarrow> (ident \<times> ident) list" where
  "escrow_bindings d = map (\<lambda>e. (er_issued_proof_id e, er_action_intent_record_id e)) (escrow_records d)"

definition gates_kept :: "db \<Rightarrow> db \<Rightarrow> bool" where
  "gates_kept d d' \<longleftrightarrow> intents_kept d d' \<and> approval_requests d' = approval_requests d \<and>
     issued_proofs d' = issued_proofs d \<and> escrow_bindings d' = escrow_bindings d \<and> next_uuid d \<le> next_uuid d'"

text \<open>A quiet call writes nothing to the audit trail either.\<close>

definition quiet :: "db \<Rightarrow> db \<Rightarrow> bool" where
  "quiet d d' \<longleftrightarrow> gates_kept d d' \<and> trail d' = trail d"

lemma gates_kept_refl [simp]: "gates_kept d d"
  by (simp add: gates_kept_def)

lemma gates_kept_trans: "gates_kept d d1 \<Longrightarrow> gates_kept d1 d2 \<Longrightarrow> gates_kept d d2"
  by (auto simp: gates_kept_def intro: intents_kept_trans)

lemma gates_kept_tables:
  "action_intents d' = action_intents d \<Longrightarrow> approval_requests d' = approval_requests d \<Longrightarrow>
   issued_proofs d' = issued_proofs d \<Longrightarrow> escrow_records d' = escrow_records d \<Longrightarrow>
   next_uuid d \<le> next_uuid d' \<Longrightarrow> gates_kept d d'"
  by (simp add: gates_kept_def escrow_bindings_def intents_kept_same)

lemmas quiet_defs = quiet_def gates_kept_def trail_def escrow_bindings_def

lemma quiet_refl [simp]: "quiet d d"
  by (simp add: quiet_def)

lemma quiet_trans: "quiet d d1 \<Longrightarrow> quiet d1 d2 \<Longrightarrow> quiet d d2"
  by (auto simp: quiet_def intro: gates_kept_trans)

lemma quiet_tables:
  "action_intents d' = action_intents d \<Longrightarrow> approval_requests d' = approval_requests d \<Longrightarrow>
   issued_proofs d' = issued_proofs d \<Longrightarrow> escrow_records d' = escrow_records d \<Longrightarrow>
   next_uuid d \<le> next_uuid d' \<Longrightarrow> trail d' = trail d \<Longrightarrow> quiet d d'"
  by (simp add: quiet_def gates_kept_tables)

lemma quiet_evidence:
  assumes "evidence_refreshed now d d'"
  shows "quiet d d'"
proof -
  have "intents_kept d d'" by (rule evidence_refreshed_intents_kept[OF assms])
  moreover obtain g f where "d' = d\<lparr>evidence_objects := map g (evidence_objects d),
      action_intents := map (\<lambda>i. i\<lparr>ai_evidence_state := f i\<rparr>) (action_intents d)\<rparr>"
    using assms unfolding evidence_refreshed_def by blast
  ultimately show ?thesis by (simp add: quiet_defs)
qed

lemma quiet_commit_evidence: "quiet d (snd (commit_evidence rt e d))"
  unfolding commit_evidence_def Let_def snd_conv
  by (rule quiet_trans[OF quiet_tables quiet_evidence[OF evidence_refreshed_sync]]) (simp_all add: trail_def)

lemma quiet_sync_execution: "sync_execution_state iid d = Some d' \<Longrightarrow> quiet d d'"
  by (auto simp: sync_execution_state_def quiet_defs split: if_splits
      intro: intents_kept_modify[OF intent_core_simps(6)])

lemma quiet_transition: "quiet d (append_transition rt k act fr e rc rd md d)"
  unfolding append_transition_def by (rule quiet_tables) (simp_all add: trail_def)

definition binding_kept :: "(escrow_record \<Rightarrow> escrow_record) \<Rightarrow> bool" where
  "binding_kept f \<longleftrightarrow> (\<forall>e. er_issued_proof_id (f e) = er_issued_proof_id e \<and>
     er_action_intent_record_id (f e) = er_action_intent_record_id e)"

lemma binding_kept_rows [simp]:
  "binding_kept (release_row now ref dg md)" "binding_kept expire_escrow_row"
  "binding_kept (\<lambda>e. e\<lparr>er_updated_at := now\<rparr>)"
  by (simp_all add: binding_kept_def release_row_def expire_escrow_row_def)

lemma quiet_rows:
  "binding_kept f \<Longrightarrow> quiet d (d\<lparr>escrow_records := tmodify er_escrow_record_id k f (escrow_records d)\<rparr>)"
  by (simp add: quiet_defs map_tmodify binding_kept_def intents_kept_same)

lemma quiet_touch: "quiet d (touch_escrow now k d)"
  unfolding touch_escrow_def by (rule quiet_rows) simp

text \<open>A changed row, its transition and the synchronisation of the intent.\<close>

lemma quiet_change:
  assumes "binding_kept f" "sync_execution_state iid (append_transition rt k act fr e rc rd md
     (d\<lparr>escrow_records := tmodify er_escrow_record_id eid f (escrow_records d)\<rparr>)) = Some d'"
  shows "quiet d d'"
  by (rule quiet_trans[OF quiet_rows[OF assms(1)]
      quiet_trans[OF quiet_transition quiet_sync_execution[OF assms(2)]]])

lemma quiet_write:
  assumes "binding_kept f" "write_escrow rt k act e f rc rd md d = Some d'"
  shows "quiet d d'"
proof -
  obtain d1 where "sync_execution_state (er_action_intent_record_id e) (append_transition rt k act
      (Some (er_status e, er_execution_state e)) (f e) rc rd md
      (d\<lparr>escrow_records := tmodify er_escrow_record_id (er_escrow_record_id e) f (escrow_records d)\<rparr>)) = Some d1"
    "d' = touch_escrow (rt_now rt) (er_escrow_record_id e) d1"
    using assms(2) by (auto simp: write_escrow_def)
  then show ?thesis using quiet_trans[OF quiet_change[OF assms(1)] quiet_touch] by simp
qed

lemma quiet_get_escrow: "quiet d (snd (get_escrow rt eid d))"
  by (auto simp: get_escrow_def expire_escrow_def split: option.splits intro: quiet_write[OF binding_kept_rows(2)])

lemma quiet_expire_all: "expire_all rt es d = Some d' \<Longrightarrow> quiet d d'"
  by (induction es arbitrary: d)
     (auto simp: expire_pending_def split: if_splits option.splits
       intro: quiet_trans quiet_change[OF binding_kept_rows(2)])

lemma quiet_list_escrows: "quiet d (snd (list_escrows rt f d))"
proof -
  have "quiet e (fold (touch_escrow now) ks e)" for ks now e
    by (induction ks arbitrary: e) (auto intro: quiet_trans quiet_touch)
  then show ?thesis
    by (auto simp: list_escrows_def Let_def split: option.splits
        intro: quiet_trans quiet_expire_all)
qed

lemma binding_kept_more [simp]:
  "binding_kept (consume_row now ref ps)" "binding_kept (revoke_row now code detail)"
  "binding_kept (quarantine_row now code detail)" "binding_kept (execution_row s ref ps)"
  by (simp_all add: binding_kept_def consume_row_def revoke_row_def quarantine_row_def execution_row_def)

lemma quiet_after_get:
  assumes "\<And>e d1. quiet d1 (snd (F e d1))"
  shows "quiet d (snd (case get_escrow rt eid d of (Inl err, d1) \<Rightarrow> (Inl err, d1) | (Inr e, d1) \<Rightarrow> F e d1))"
  using quiet_trans[OF _ assms] quiet_get_escrow[of d rt eid] by (auto split: prod.splits sum.splits)

lemma quiet_after_write:
  assumes "binding_kept f"
  shows "quiet d (snd (case write_escrow rt k act e f rc rd md d of None \<Rightarrow> (Inl m, d)
     | Some d2 \<Rightarrow> get_escrow rt eid d2))"
  using quiet_trans[OF quiet_write[OF assms] quiet_get_escrow] by (auto split: option.splits)

lemma quiet_claims:
  "claim_release rt eid act fr ref dg md tmd d = (r, d') \<Longrightarrow> quiet d d'"
  "claim_consume rt eid act fr dg mref ps tmd d = (r, d') \<Longrightarrow> quiet d d'"
  by (auto simp: claim_release_def claim_consume_def Let_def split: option.splits if_splits
      intro: quiet_change[OF binding_kept_rows(1)] quiet_change[OF binding_kept_more(1)])

lemma quiet_released:
  assumes "claim_release rt eid act fr ref dg md tmd (used_id (used_id d)) = (r, d1)"
    "get_escrow rt eid d1 = (q, d2)"
  shows "quiet d d2"
proof -
  have "quiet d (used_id (used_id d))" by (rule quiet_tables) (simp_all add: trail_def)
  moreover have "quiet d1 d2" using quiet_get_escrow[of d1 rt eid] assms(2) by simp
  ultimately show ?thesis using quiet_claims(1)[OF assms(1)] quiet_trans by blast
qed

lemma quiet_escrow_calls:
  "quiet d (snd (revoke_capability rt eid act code detail md d))"
  "quiet d (snd (quarantine_capability rt eid act code detail md d))"
  "quiet d (snd (record_execution_update rt eid act xs ref ps md d))"
  "quiet d (snd (release_capability rt js sg eid act d))"
  "quiet d (snd (consume_capability rt eid token act ref ps md d))"
proof -
  show "quiet d (snd (revoke_capability rt eid act code detail md d))"
    "quiet d (snd (quarantine_capability rt eid act code detail md d))"
    "quiet d (snd (record_execution_update rt eid act xs ref ps md d))"
    unfolding revoke_capability_def quarantine_capability_def record_execution_update_def
    by (rule quiet_after_get; simp add: quiet_after_write)+
  show "quiet d (snd (release_capability rt js sg eid act d))"
    unfolding release_capability_def
    by (rule quiet_after_get)
       (auto simp: Let_def split: sum.splits prod.splits dest: quiet_released)
  show "quiet d (snd (consume_capability rt eid token act ref ps md d))"
    unfolding consume_capability_def
    by (rule quiet_after_get)
       (auto split: sum.splits prod.splits option.splits
         intro: quiet_trans[OF quiet_claims(2) quiet_get_escrow])
qed

lemma quiet_registries:
  "quiet d (snd (create_tenant rt dname profile d))"
  "quiet d (snd (create_policy rt tid name descr wk dd classes rules d))"
  "quiet d (snd (update_policy polid name descr dd classes rules d))"
  "quiet d (snd (activate_policy rt polid d))"
  "quiet d (snd (register_key rt ki d))"
  "quiet d (snd (activate_key rt kid d))"
  "quiet d (snd (suspend_key rt kid d))"
  "quiet d (snd (rotate_signing_key rt tid purpose nk pub dn isn isu tier kmd d))"
  by (rule quiet_tables; auto simp: trail_def create_tenant_def create_policy_def update_policy_def activate_policy_def
      register_key_def activate_key_def suspend_key_def rotate_signing_key_def Let_def
      split: sum.splits option.splits if_splits prod.splits)+

lemma quiet_evidence_calls:
  "quiet d (snd (get_evidence rt eid d))"
  "quiet d (snd (list_evidence rt mtid mid mrid d))"
  "quiet d (snd (get_evidence_content rt backends eid fs d))"
  "quiet d (snd (register_evidence rt inp mode ref dg nb d))"
  "upload_evidence rt b inp fname payload fs d = (res, d', fs') \<Longrightarrow> quiet d d'"
proof -
  show "quiet d (snd (get_evidence rt eid d))" "quiet d (snd (list_evidence rt mtid mid mrid d))"
    "quiet d (snd (get_evidence_content rt backends eid fs d))"
    using quiet_evidence evidence_refreshed_get evidence_refreshed_list evidence_refreshed_content by blast+
  show "quiet d (snd (register_evidence rt inp mode ref dg nb d))"
    by (auto simp: register_evidence_def quiet_commit_evidence split: sum.splits option.splits)
  show "upload_evidence rt b inp fname payload fs d = (res, d', fs') \<Longrightarrow> quiet d d'"
    using quiet_commit_evidence[of d rt]
    by (auto simp: upload_evidence_def Let_def split: sum.splits option.splits prod.splits backend_error.splits)
qed

lemma gates_kept_store: "gates_kept d (snd (store_receipt rt i mp me act r d))"
proof -
  define d2 where "d2 = record_event rt (rr_tenant_id r) (Some (rr_action_intent_record_id r))
     (Some (rr_receipt_id r)) (rr_issued_proof_id r) (rr_escrow_record_id r)
     ''receipt'' ''receipt.ingested'' ''receipt_record'' (rr_receipt_id r) act
     [(''contract_family'', JStr (rr_contract_family r)),
      (''contract_version_ref'', JStr (rr_contract_version_ref r)),
      (''contract_validation_status'', JStr (rr_contract_validation_status r)),
      (''external_receipt_id'', JStr (rr_external_receipt_id r)),
      (''receipt_type'', JStr (rr_receipt_type r)),
      (''outcome'', JStr (rr_outcome r))] (used_id d\<lparr>receipts := tinsert r (receipts d)\<rparr>)"
  obtain cs d3 where run: "run_hooks rt i r mp me act (hook_kinds mp me) d2 = Inr (cs, d3)"
    using run_hooks_total by blast
  have "gates_kept d d2" unfolding d2_def record_event_def by (rule gates_kept_tables) simp_all
  moreover have "gates_kept d2 d3" using run_hooks_effect[OF run] by (auto intro: gates_kept_tables)
  moreover have "gates_kept d3 (snd (store_receipt rt i mp me act r d))"
  proof -
    have "snd (store_receipt rt i mp me act r d) =
      d3\<lparr>receipts := tmodify rr_receipt_id (rr_receipt_id r) (reconcile_row cs) (receipts d3),
         action_intents := tmodify ai_action_intent_record_id (ai_action_intent_record_id i)
           (apply_lifecycle_effects (reconcile_row cs r)) (action_intents d3)\<rparr>"
      by (simp add: store_receipt_def run_reconciliation_hooks_def Let_def run flip: d2_def)
    then show ?thesis
      using intents_kept_lifecycle by (simp add: gates_kept_def escrow_bindings_def)
  qed
  ultimately show ?thesis using gates_kept_trans by blast
qed

lemma gates_kept_ingest:
  assumes "ingest_receipt rt rv rq reg d = (res, reg', d')"
  shows "gates_kept d d'"
  using assms
proof (cases rule: ingest_receipt_cases)
  case (stored i mp me occurred index xid kind outcome)
  then show ?thesis using gates_kept_store by (metis snd_conv)
qed simp_all

section \<open>The invariant\<close>

text \<open>
  An intent is sanctioned when its contract is valid, its decision permits execution, and an
  approval it needs has been given.
\<close>

definition sanctioned :: "ident \<Rightarrow> db \<Rightarrow> bool" where
  "sanctioned iid d \<longleftrightarrow> (\<exists>i. tget ai_action_intent_record_id iid (action_intents d) = Some i \<and>
     ai_contract_validation_status i = CV_valid \<and> ai_decision_state i \<notin> {deny, structurally_non_executable} \<and>
     (ai_approval_requirement i \<noteq> None \<longrightarrow> (\<exists>rid r. tget ar_approval_request_id rid (approval_requests d) = Some r \<and>
        ar_action_intent_record_id r = iid \<and> ar_status r = AR_satisfied)))"

definition ever_issued :: "issued_proof \<Rightarrow> bool" where
  "ever_issued p \<longleftrightarrow> ip_status p \<in> {PI_issued, PI_expired}"

definition backed :: "ident \<times> ident \<Rightarrow> db \<Rightarrow> bool" where
  "backed b d \<longleftrightarrow> (\<exists>p \<in> set (issued_proofs d). ever_issued p \<and>
     b = (ip_issued_proof_id p, ip_action_intent_record_id p))"

definition control_inv :: "(nat \<Rightarrow> ident) \<Rightarrow> db \<Rightarrow> bool" where
  "control_inv U d \<longleftrightarrow> intents_inv U d \<and> approvals_inv U d \<and> proofs_inv U d \<and>
     (\<forall>p \<in> set (issued_proofs d). ever_issued p \<longrightarrow> sanctioned (ip_action_intent_record_id p) d) \<and>
     (\<forall>b \<in> set (escrow_bindings d). backed b d)"

definition intents_grow :: "db \<Rightarrow> db \<Rightarrow> bool" where
  "intents_grow d d' \<longleftrightarrow> (\<forall>iid i. tget ai_action_intent_record_id iid (action_intents d) = Some i \<longrightarrow>
     (\<exists>i'. tget ai_action_intent_record_id iid (action_intents d') = Some i' \<and> intent_core i' = intent_core i))"

lemma intents_grow_kept: "intents_kept d d' \<Longrightarrow> intents_grow d d'"
  using intents_kept_get unfolding intents_grow_def by blast

lemma intents_grow_trans: "intents_grow d d1 \<Longrightarrow> intents_grow d1 d2 \<Longrightarrow> intents_grow d d2"
  unfolding intents_grow_def by metis

lemma sanctioned_mono:
  assumes "intents_grow d d'" "requests_run d d'" "sanctioned iid d"
  shows "sanctioned iid d'"
proof -
  obtain i where i: "tget ai_action_intent_record_id iid (action_intents d) = Some i"
    "ai_contract_validation_status i = CV_valid" "ai_decision_state i \<notin> {deny, structurally_non_executable}"
    "ai_approval_requirement i \<noteq> None \<longrightarrow> (\<exists>rid r. tget ar_approval_request_id rid (approval_requests d) = Some r \<and>
        ar_action_intent_record_id r = iid \<and> ar_status r = AR_satisfied)"
    using assms(3) unfolding sanctioned_def by blast
  obtain i' where i': "tget ai_action_intent_record_id iid (action_intents d') = Some i'"
    "intent_core i' = intent_core i" using assms(1) i(1) unfolding intents_grow_def by blast
  have same: "ai_contract_validation_status i' = ai_contract_validation_status i"
    using arg_cong[OF i'(2), of ai_contract_validation_status] by (simp add: intent_core_def)
  have "\<exists>rid r. tget ar_approval_request_id rid (approval_requests d') = Some r \<and>
      ar_action_intent_record_id r = iid \<and> ar_status r = AR_satisfied"
    if "ai_approval_requirement i' \<noteq> None"
    using that i(4) intent_core_eqD(7)[OF i'(2)] closed_request_stays[OF assms(2)] by fastforce
  then show ?thesis
    unfolding sanctioned_def using i(2,3) i'(1) same intent_core_eqD(6)[OF i'(2)] by auto
qed

text \<open>What every call guarantees: the invariant, fixed intents, and requests that run their life.\<close>

definition controlled :: "(nat \<Rightarrow> ident) \<Rightarrow> db \<Rightarrow> db \<Rightarrow> bool" where
  "controlled U d d' \<longleftrightarrow> control_inv U d' \<and> intents_grow d d' \<and> requests_run d d'"

lemma controlled_refl: "control_inv U d \<Longrightarrow> controlled U d d"
  by (simp add: controlled_def intents_grow_kept)

lemma controlled_trans: "controlled U d d1 \<Longrightarrow> controlled U d1 d2 \<Longrightarrow> controlled U d d2"
  unfolding controlled_def using intents_grow_trans requests_run_trans by blast

lemma controlled_inv: "controlled U d d' \<Longrightarrow> control_inv U d'"
  by (simp add: controlled_def)

lemma control_inv_step:
  assumes inv: "control_inv U d" and mono: "intents_grow d d'" "requests_run d d'"
    and parts: "intents_inv U d'" "approvals_inv U d'" "proofs_inv U d'"
    and new: "\<And>p. p \<in> set (issued_proofs d') \<Longrightarrow> ever_issued p \<Longrightarrow>
      backed (ip_issued_proof_id p, ip_action_intent_record_id p) d \<or> sanctioned (ip_action_intent_record_id p) d'"
    and kept: "\<And>b. backed b d \<Longrightarrow> backed b d'"
    and holds: "\<And>b. b \<in> set (escrow_bindings d') \<Longrightarrow> b \<in> set (escrow_bindings d) \<or> backed b d'"
  shows "controlled U d d'"
proof -
  have "sanctioned (ip_action_intent_record_id p) d'" if p: "p \<in> set (issued_proofs d')" "ever_issued p" for p
  proof (cases "sanctioned (ip_action_intent_record_id p) d'")
    case False
    then obtain p0 where "p0 \<in> set (issued_proofs d)" "ever_issued p0"
      "ip_action_intent_record_id p0 = ip_action_intent_record_id p"
      using new[OF p] by (auto simp: backed_def)
    then have "sanctioned (ip_action_intent_record_id p) d" using inv unfolding control_inv_def by metis
    then show ?thesis by (rule sanctioned_mono[OF mono])
  qed
  moreover have "backed b d'" if "b \<in> set (escrow_bindings d')" for b
    using holds[OF that] kept inv unfolding control_inv_def by blast
  ultimately show ?thesis using parts mono unfolding control_inv_def controlled_def by blast
qed

text \<open>Calls that only move approval requests along.\<close>

lemma control_inv_approvals:
  assumes inv: "control_inv U d" and d': "intents_kept d d'" "requests_run d d'" "approvals_inv U d'"
    "issued_proofs d' = issued_proofs d" "escrow_bindings d' = escrow_bindings d" "next_uuid d \<le> next_uuid d'"
  shows "controlled U d d'"
proof (rule control_inv_step[OF inv intents_grow_kept[OF d'(1)] d'(2) _ d'(3)])
  have I: "intents_inv U d" "proofs_inv U d" using inv by (simp_all add: control_inv_def)
  show "intents_inv U d'" by (rule intents_inv_kept[OF I(1) d'(1,6)])
  show "proofs_inv U d'" by (rule proofs_inv_refresh[OF I(2), of id 0]) (use d' in simp_all)
qed (use d' in \<open>auto simp: backed_def\<close>)

lemma control_inv_gates:
  assumes inv: "control_inv U d" and g: "gates_kept d d'"
  shows "controlled U d d'"
proof -
  have k: "intents_kept d d'" "approval_requests d' = approval_requests d" "next_uuid d \<le> next_uuid d'"
    using g by (simp_all add: gates_kept_def)
  have "approvals_inv U d" using inv by (simp add: control_inv_def)
  then have "approvals_inv U d'" using approvals_inv_same k intents_kept_requesters by blast
  then show ?thesis
    using control_inv_approvals[OF inv k(1) requests_run_same[OF k(2)]] g by (simp add: gates_kept_def)
qed

lemma control_inv_quiet: "control_inv U d \<Longrightarrow> quiet d d' \<Longrightarrow> controlled U d d'"
  by (simp add: quiet_def control_inv_gates)

lemma refreshed_frame:
  "refreshed now d d' \<Longrightarrow> issued_proofs d' = issued_proofs d \<and> escrow_records d' = escrow_records d"
  unfolding refreshed_def by (elim exE conjE) simp

lemma synchronize_frame:
  "issued_proofs (synchronize_record now iid d) = issued_proofs d"
  "escrow_records (synchronize_record now iid d) = escrow_records d"
  using refreshed_frame[OF refreshed_sync[of now d iid]] quiet_evidence[OF evidence_refreshed_sync]
  by (simp_all add: synchronize_record_def sync_evidence_state_def Let_def refresh_evidence_of_def)

lemma control_inv_refreshed:
  assumes "control_inv U d" "refreshed now d d'"
  shows "controlled U d d'"
proof (rule control_inv_approvals[OF assms(1) refreshed_intents_kept[OF assms(2)] requests_run_refreshed[OF assms(2)]])
  show "approvals_inv U d'" using assms approvals_inv_refreshed by (auto simp: control_inv_def)
qed (use refreshed_frame[OF assms(2)] next_uuid_refreshed(1)[OF assms(2)] in \<open>auto simp: escrow_bindings_def\<close>)

lemma control_inv_synchronize:
  assumes "control_inv U d"
  shows "controlled U d (synchronize_record now iid d)"
proof (rule control_inv_approvals[OF assms synchronize_record_kept synchronize_record_run])
  show "approvals_inv U (synchronize_record now iid d)"
    using assms synchronize_record_approvals by (auto simp: control_inv_def)
qed (simp_all add: synchronize_frame escrow_bindings_def)


lemma control_inv_records:
  assumes "control_inv U d"
  shows "controlled U d (snd (get_record rt iid d))" "controlled U d (snd (list_records rt f d))"
proof -
  show "controlled U d (snd (get_record rt iid d))"
    using controlled_refl[OF assms] control_inv_synchronize[OF assms]
    by (auto simp: get_record_def Let_def split: option.splits)
  have "control_inv U e \<Longrightarrow> controlled U e (fold (synchronize_record now) ids e)" for now ids e
  proof (induction ids arbitrary: e)
    case (Cons k ids)
    from control_inv_synchronize[OF Cons(2), of now k] show ?case
      using controlled_trans Cons.IH[OF controlled_inv] by simp
  qed (simp add: controlled_refl)
  then show "controlled U d (snd (list_records rt f d))" using assms by (simp add: list_records_def Let_def)
qed

lemma control_inv_decision:
  assumes "control_inv U d"
  shows "controlled U d (snd (record_decision rt rid actr dec reason ev d))"
proof (cases rule: record_decision_cases[of rt rid actr dec reason ev d])
  case (rejected e)
  then show ?thesis using control_inv_refreshed[OF assms refreshed_get] by simp
next
  case (accepted r)
  define x where "x = new_decision rt r actr dec reason ev d"
  define d2 where "d2 = used_id d\<lparr>approval_requests := tmodify ar_approval_request_id (ar_approval_request_id r)
      (apply_decision (rt_now rt) actr x) (approval_requests d)\<rparr>"
  have d': "snd (record_decision rt rid actr dec reason ev d) =
      sync_approval_state (rt_now rt) (ar_action_intent_record_id r) d2"
    using record_decision_accepts[OF accepted x_def] by (simp add: after_decision_def d2_def)
  have k2: "intents_kept d d2" by (rule intents_kept_same) (simp add: d2_def)
  note s = refreshed_sync[of "rt_now rt" d2 "ar_action_intent_record_id r"]
  show ?thesis
  proof (rule control_inv_approvals[OF assms _ record_decision_run])
    show "intents_kept d (snd (record_decision rt rid actr dec reason ev d))"
      unfolding d' by (rule intents_kept_trans[OF k2 refreshed_intents_kept[OF s]])
    show "approvals_inv U (snd (record_decision rt rid actr dec reason ev d))"
      using assms record_decision_inv by (auto simp: control_inv_def)
  qed (use refreshed_frame[OF s] next_uuid_refreshed(1)[OF s] in \<open>simp_all add: d' d2_def escrow_bindings_def\<close>)
qed

lemma proofs_refreshed_backed:
  assumes g: "\<And>p. g p = p \<or> g p = refresh_proof now p" and d': "set (map g (issued_proofs d)) \<subseteq> set (issued_proofs d')"
  shows "backed b d \<Longrightarrow> backed b d'"
proof -
  assume "backed b d"
  then obtain p where p: "p \<in> set (issued_proofs d)" "ever_issued p"
    "b = (ip_issued_proof_id p, ip_action_intent_record_id p)" by (auto simp: backed_def)
  have "ever_issued (g p)" "ip_issued_proof_id (g p) = ip_issued_proof_id p"
    "ip_action_intent_record_id (g p) = ip_action_intent_record_id p"
    using g[of p] p(2) by (auto simp: refresh_proof_def ever_issued_def split: if_splits)
  moreover have "g p \<in> set (issued_proofs d')" using p(1) d' by auto
  ultimately show ?thesis using p(3) by (auto simp: backed_def)
qed

lemma proofs_refreshed_old:
  assumes g: "\<And>p. g p = p \<or> g p = refresh_proof now p" and p: "p \<in> set (map g (issued_proofs d))" "ever_issued p"
  shows "backed (ip_issued_proof_id p, ip_action_intent_record_id p) d"
proof -
  obtain p0 where p0: "p0 \<in> set (issued_proofs d)" "p = g p0" using p(1) by auto
  have "ever_issued p0" "ip_issued_proof_id (g p0) = ip_issued_proof_id p0"
    "ip_action_intent_record_id (g p0) = ip_action_intent_record_id p0"
    using g[of p0] p(2) p0(2) by (auto simp: refresh_proof_def ever_issued_def proof_expires_def split: if_splits)
  with p0 show ?thesis by (auto simp: backed_def)
qed

lemma control_inv_proof_reads:
  assumes "control_inv U d" "\<exists>g. (\<forall>p. g p = p \<or> g p = refresh_proof now p) \<and>
    d' = d\<lparr>issued_proofs := map g (issued_proofs d)\<rparr>"
  shows "controlled U d d'"
proof -
  obtain g where g: "\<And>p. g p = p \<or> g p = refresh_proof now p"
    and d': "d' = d\<lparr>issued_proofs := map g (issued_proofs d)\<rparr>" using assms(2) by blast
  have I: "intents_inv U d" "approvals_inv U d" "proofs_inv U d" using assms(1) by (simp_all add: control_inv_def)
  show ?thesis
  proof (rule control_inv_step[OF assms(1)])
    show "proofs_inv U d'" by (rule proofs_inv_refresh[OF I(3) g]) (simp_all add: d')
    show "intents_inv U d'" using I(1) by (simp add: d' intents_inv_def)
    show "approvals_inv U d'" by (rule approvals_inv_same[OF I(2)]) (simp_all add: d' intent_requesters_def)
    show "\<And>b. backed b d \<Longrightarrow> backed b d'" by (rule proofs_refreshed_backed[OF g]) (simp_all add: d')
    show "backed (ip_issued_proof_id p, ip_action_intent_record_id p) d \<or> sanctioned (ip_action_intent_record_id p) d'"
      if "p \<in> set (issued_proofs d')" "ever_issued p" for p
      using proofs_refreshed_old[OF g _ that(2)] that(1) by (simp add: d')
  qed (simp_all add: d' intents_grow_kept intents_kept_same requests_run_same escrow_bindings_def)
qed


lemma tget_request:
  assumes "approvals_inv U d" "r \<in> set (requests_of iid d)"
  shows "tget ar_approval_request_id (ar_approval_request_id r) (approval_requests d) = Some r"
    "ar_action_intent_record_id r = iid"
  using assms tget_unique[of ar_approval_request_id "approval_requests d" r]
  by (auto simp: approvals_inv_def requests_of_def)

lemma issued_sanctioned:
  assumes "issue_proof rt env iid q d = (Inr (p, False), d')" "ip_status p = PI_issued" "approvals_inv U d'"
  shows "sanctioned iid d'"
proof -
  from fresh_proof_justified[OF assms(1,2)] obtain i where
    i: "tget ai_action_intent_record_id iid (action_intents d') = Some i"
      "ai_contract_validation_status i = CV_valid" "ai_decision_state i \<notin> {deny, structurally_non_executable}"
      "ai_approval_requirement i \<noteq> None \<longrightarrow> requests_of iid d' \<noteq> [] \<and>
         (\<forall>r \<in> set (requests_of iid d'). ar_status r = AR_satisfied)" by blast
  have "\<exists>rid r. tget ar_approval_request_id rid (approval_requests d') = Some r \<and>
      ar_action_intent_record_id r = iid \<and> ar_status r = AR_satisfied" if need: "ai_approval_requirement i \<noteq> None"
  proof -
    obtain r where "r \<in> set (requests_of iid d')" "ar_status r = AR_satisfied"
      using i(4) need last_in_set[of "requests_of iid d'"] by blast
    then show ?thesis using tget_request[OF assms(3)] by blast
  qed
  then show ?thesis unfolding sanctioned_def using i by blast
qed

lemma control_inv_issue:
  assumes inv: "control_inv U d" and U: "inj U" "rt_uuid rt = U"
  shows "controlled U d (snd (issue_proof rt env iid q d))"
proof -
  obtain res d' where eq: "issue_proof rt env iid q d = (res, d')" by force
  have I: "intents_inv U d" "approvals_inv U d" "proofs_inv U d" using inv by (simp_all add: control_inv_def)
  from eq have "controlled U d d'"
  proof (cases rule: issue_proof_cases)
    case (fresh i d1 d2 p p' d4 scope hash key ttl)
    obtain g where g: "\<And>p. g p = p \<or> g p = refresh_proof (rt_now rt) p"
      and d2: "d2 = d1\<lparr>issued_proofs := map g (issued_proofs d1)\<rparr>"
      using find_existing_frame[OF fresh(9)] by blast
    have d4: "action_intents d4 = action_intents d1" "approval_requests d4 = approval_requests d1"
      "escrow_records d4 = escrow_records d1" "issued_proofs d4 = map g (issued_proofs d)"
      "next_uuid d1 \<le> next_uuid d4"
      using fresh(12) sign_request_tables[of p' d4 rt env q i p "used_id (used_id d2)"]
      by (cases "ip_status p = PI_requested"; simp add: d2 fresh(1) synchronize_frame)+
    note sy = control_inv_synchronize[OF inv, of "rt_now rt" iid, folded fresh(1)]
    have I1: "intents_inv U d1" "approvals_inv U d1" using controlled_inv[OF sy] by (simp_all add: control_inv_def)
    have app: "approvals_inv U d'"
      by (rule approvals_inv_same[OF I1(2)]) (simp_all add: fresh(14) d4 intent_requesters_def)
    have row: "ip_status p' \<in> {PI_issued, PI_rejected, PI_failed}" "ip_action_intent_record_id p' = iid"
      using fresh_row[OF fresh(12,10)] tgetD[OF fresh(2)]
      by (simp_all add: proof_key_def fresh(10) new_proof_def Let_def)
    show ?thesis
    proof (rule control_inv_step[OF inv])
      show "intents_grow d d'"
        using intents_grow_kept[OF intents_kept_trans[OF synchronize_record_kept intents_kept_same]]
        by (simp add: fresh(1,14) d4)
      show "requests_run d d'"
        using requests_run_trans[OF synchronize_record_run requests_run_same] by (simp add: fresh(1,14) d4)
      show "intents_inv U d'" by (rule intents_inv_kept[OF I1(1) intents_kept_same]) (simp_all add: fresh(14) d4)
      show "approvals_inv U d'" by (rule app)
      show "proofs_inv U d'" using issue_proof_inv[OF I(3) U, of env iid q] by (simp add: eq)
      show "\<And>b. backed b d \<Longrightarrow> backed b d'"
        by (rule proofs_refreshed_backed[OF g]) (auto simp: fresh(14) d4)
      show "b \<in> set (escrow_bindings d) \<or> backed b d'" if "b \<in> set (escrow_bindings d')" for b
        using that by (simp add: escrow_bindings_def fresh(1,14) d4 synchronize_frame)
      show "backed (ip_issued_proof_id x, ip_action_intent_record_id x) d \<or> sanctioned (ip_action_intent_record_id x) d'"
        if x: "x \<in> set (issued_proofs d')" "ever_issued x" for x
      proof (cases "x = p'")
        case True
        then have "ip_status p' = PI_issued" using x(2) row(1) by (auto simp: ever_issued_def)
        then have "sanctioned iid d'" using issued_sanctioned[OF _ _ app] eq fresh(13) by blast
        then show ?thesis using True row(2) by simp
      next
        case False
        then have "x \<in> set (map g (issued_proofs d))" using x(1) by (simp add: fresh(14) d4)
        then show ?thesis using proofs_refreshed_old[OF g _ x(2)] by blast
      qed
    qed
  qed (use controlled_refl[OF inv] in simp_all)
  then show ?thesis by (simp add: eq)
qed


lemma control_inv_hold:
  assumes inv: "control_inv U d"
  shows "controlled U d (snd (create_hold rt pid kind res act ttl md d))"
proof -
  obtain r d' where eq: "create_hold rt pid kind res act ttl md d = (r, d')" by force
  then have "controlled U d d'"
  proof (cases rule: create_hold_cases)
    case (refused err)
    then show ?thesis using controlled_refl[OF inv] by simp
  next
    case (existing e q)
    then show ?thesis using control_inv_quiet[OF inv quiet_get_escrow[of d rt]] by (metis snd_conv)
  next
    case (fresh p expires e d1 q)
    define dh where "dh = used_id d\<lparr>escrow_records := tinsert e (escrow_records d)\<rparr>"
    have p: "p \<in> set (issued_proofs d)" "ip_issued_proof_id p = pid" using tgetD[OF fresh(1)] by simp_all
    have "ip_status p = PI_issued"
      using fresh(1,2) by (auto simp: proof_active_def refresh_proof_def split: if_splits)
    then have bk: "backed (pid, ip_action_intent_record_id p) dh"
      using p by (auto simp: backed_def dh_def ever_issued_def)
    have eb: "escrow_bindings dh = escrow_bindings d @ [(pid, ip_action_intent_record_id p)]"
      using p(2) by (simp add: escrow_bindings_def dh_def tinsert_def fresh(7) new_escrow_def)
    have I: "intents_inv U d" "approvals_inv U d" "proofs_inv U d" using inv by (simp_all add: control_inv_def)
    have "controlled U d dh"
    proof (rule control_inv_step[OF inv])
      show "intents_inv U dh" by (rule intents_inv_kept[OF I(1) intents_kept_same]) (simp_all add: dh_def)
      show "approvals_inv U dh" by (rule approvals_inv_same[OF I(2)]) (simp_all add: dh_def intent_requesters_def)
      show "proofs_inv U dh" by (rule proofs_inv_refresh[OF I(3), of id 0]) (simp_all add: dh_def)
      show "b \<in> set (escrow_bindings d) \<or> backed b dh" if "b \<in> set (escrow_bindings dh)" for b
        using that bk by (auto simp: eb)
    qed (auto simp: dh_def backed_def intents_grow_kept intents_kept_same requests_run_same)
    moreover have g1: "quiet dh d1"
      using fresh(8) quiet_trans[OF quiet_transition quiet_sync_execution]
      unfolding commit_hold_def dh_def by blast
    moreover have g2: "quiet d1 d'" using quiet_get_escrow[of d1 rt] fresh(9) by (metis snd_conv)
    ultimately show ?thesis
      using controlled_trans[OF _ control_inv_quiet[OF controlled_inv quiet_trans[OF g1 g2]]] by blast
  qed
  then show ?thesis by (simp add: eq)
qed

lemma initialize_frame:
  "issued_proofs (snd (initialize_approvals rt i d)) = issued_proofs d"
  "escrow_records (snd (initialize_approvals rt i d)) = escrow_records d"
  "issued_proofs (initialize_evidence iid d) = issued_proofs d"
  "escrow_records (initialize_evidence iid d) = escrow_records d"
  using refreshed_frame[OF refreshed_sync]
  by (auto simp: initialize_approvals_def initialize_evidence_def Let_def split: option.splits)

lemma intake_frame:
  assumes "intake rt schema session request d = (res, d')"
  shows "issued_proofs d' = issued_proofs d \<and> escrow_records d' = escrow_records d \<and> intents_grow d d' \<and>
    next_uuid d \<le> next_uuid d'"
  using assms refl
proof (cases rule: intake_cases)
  case (failed e)
  then show ?thesis by (simp add: intents_grow_kept)
next
  case (replayed i t)
  then show ?thesis by (simp add: synchronize_frame intents_grow_kept synchronize_record_kept)
next
  case (fresh t)
  from fresh(4) show ?thesis
  proof (cases rule: intake_new_cases)
    case (failed e)
    then show ?thesis by (simp add: intents_grow_kept)
  next
    case (stored i v wk dec rs d2)
    define d1 where "d1 = used_id d\<lparr>action_intents := tinsert i (action_intents d)\<rparr>"
    have d2: "d2 = snd (initialize_approvals rt i d1)" using stored(3) by (simp add: d1_def)
    have "intents_grow d d1" by (auto simp: intents_grow_def d1_def tget_tinsert split: option.splits)
    moreover have "intents_grow d1 d'"
      unfolding stored(4) d2
      by (rule intents_grow_kept[OF intents_kept_trans[OF initialize_approvals_kept initialize_evidence_kept]])
    moreover have "next_uuid d1 \<le> next_uuid d2" unfolding d2 by (rule next_uuid_initialize)
    ultimately show ?thesis
      using intents_grow_trans by (auto simp: stored(4) d2 initialize_frame initialize_evidence_frame d1_def)
  qed
qed

lemma control_inv_intake:
  assumes inv: "control_inv U d" and U: "inj U" "rt_uuid rt = U"
  shows "controlled U d (snd (intake rt schema session request d))"
proof -
  obtain res d' where eq: "intake rt schema session request d = (res, d')" by force
  note f = intake_frame[OF eq]
  have I: "intents_inv U d" "approvals_inv U d" "proofs_inv U d" using inv by (simp_all add: control_inv_def)
  note k = intake_invariants[OF U I(1,2), of schema session request, unfolded eq snd_conv]
  have "controlled U d d'"
  proof (rule control_inv_step[OF inv])
    show "proofs_inv U d'" by (rule proofs_inv_refresh[OF I(3), of id 0]) (use f in simp_all)
  qed (use f k in \<open>auto simp: backed_def escrow_bindings_def\<close>)
  then show ?thesis by (simp add: eq)
qed

lemma system_step_inv:
  assumes "system_step U d d'" "inj U" "control_inv U d"
  shows "controlled U d d'"
  using assms
proof (cases rule: system_step.cases)
  case (sy_list_requests rt tid mid st)
  then show ?thesis using control_inv_refreshed[OF assms(3) refreshed_list] by simp
next
  case (sy_get_proof rt pid)
  then show ?thesis using control_inv_proof_reads[OF assms(3) get_proof_frame] by simp
next
  case (sy_list_proofs rt tid mid pst)
  then show ?thesis using control_inv_proof_reads[OF assms(3) list_proofs_frame] by simp
qed (simp_all add: assms control_inv_intake control_inv_records control_inv_decision control_inv_issue
    control_inv_hold control_inv_refreshed[OF assms(3) refreshed_get]
    control_inv_quiet[OF assms(3) quiet_escrow_calls(1)] control_inv_quiet[OF assms(3) quiet_escrow_calls(2)]
    control_inv_quiet[OF assms(3) quiet_escrow_calls(3)] control_inv_quiet[OF assms(3) quiet_escrow_calls(4)]
    control_inv_quiet[OF assms(3) quiet_escrow_calls(5)] control_inv_quiet[OF assms(3)]
    quiet_registries quiet_get_escrow quiet_list_escrows quiet_evidence_calls 
    control_inv_gates[OF assms(3) gates_kept_ingest])

lemma system_run_controlled:
  assumes "(system_step U)\<^sup>*\<^sup>* d d'" "inj U" "control_inv U d"
  shows "controlled U d d'"
  using assms
proof (induction rule: rtranclp_induct)
  case base
  then show ?case by (simp add: controlled_refl)
next
  case (step y z)
  then show ?case using system_step_inv controlled_inv controlled_trans by blast
qed

lemma empty_control_inv: "control_inv U empty_db"
  by (simp add: control_inv_def intents_inv_def approvals_inv_def proofs_inv_def escrow_bindings_def empty_db_def)

lemma system_reachable_inv: "system_reachable U d \<Longrightarrow> inj U \<Longrightarrow> control_inv U d"
  unfolding system_reachable_def using system_run_controlled[OF _ _ empty_control_inv] controlled_inv by blast

section \<open>Approvals behind a satisfied request\<close>

definition approvers :: "approval_request \<Rightarrow> (string \<times> ident) set" where
  "approvers r = actor_of_decision ` {x \<in> set (ar_decisions r). ad_decision x = approve}"

lemma satisfied_approvers:
  assumes inv: "approvals_inv U d" and r: "r \<in> set (approval_requests d)" "ar_status r = AR_satisfied"
  shows "\<exists>i rq. tget ai_action_intent_record_id (ar_action_intent_record_id r) (action_intents d) = Some i \<and>
    ai_approval_requirement i = Some rq \<and> max (rq_required_decision_count rq) 1 \<le> int (card (approvers r)) \<and>
    (rq_require_requester_separation rq \<longrightarrow>
       (ai_requested_by_principal_type i, ai_requested_by_principal_id i) \<notin> approvers r)"
proof -
  have ok: "request_ok r" "separated (intent_requesters d) r" using inv r(1) by (auto simp: approvals_inv_def)
  obtain i rq where i: "tget ai_action_intent_record_id (ar_action_intent_record_id r) (action_intents d) = Some i"
    "ai_approval_requirement i = Some rq" "demands rq r"
    "ar_require_requester_separation r \<longrightarrow>
       (ai_requested_by_principal_type i, ai_requested_by_principal_id i) \<notin> deciders r"
    using ok(2) by (auto simp: separated_def intent_requesters_get)
  have all: "{x \<in> set (ar_decisions r). ad_decision x = approve} = set (ar_decisions r)"
    "[x \<leftarrow> ar_decisions r. ad_decision x = approve] = ar_decisions r"
    using ok(1) r(2) by (auto simp: request_ok_def filter_id_conv)
  have "card (approvers r) = length (ar_decisions r)"
    unfolding approvers_def all using ok(1) distinct_card[of "map actor_of_decision (ar_decisions r)"]
    by (simp add: request_ok_def)
  moreover have "ar_required_decision_count r \<le> int (length (ar_decisions r))"
    using ok(1) r(2) all(2) by (simp add: request_ok_def approve_count_def)
  moreover have "approvers r = deciders r" by (simp add: approvers_def deciders_def all)
  ultimately show ?thesis using i by (auto simp: demands_def)
qed

section \<open>A sample run\<close>

text \<open>
  A tenant, its policy and key; \<open>alice\<close> asks for a payment that needs an approval, \<open>bob\<close>
  approves, a proof is issued and a capability held for it.
\<close>

definition sample_setup_db :: db where
  "sample_setup_db = snd (register_key (sample_rt 4) (sample_key_input\<lparr>ki_tenant_id := []\<rparr>)
     (snd (activate_policy (sample_rt 3) (sample_uuid 1)
     (snd (create_policy (sample_rt 2) [] ''payments'' None ''wire'' deny [''payment''] (po_rules sample_policy)
     (snd (create_tenant (sample_rt 1) ''acme'' FP_payments empty_db)))))))"

definition sample_requested_db :: db where
  "sample_requested_db = snd (intake (sample_rt 5) (\<lambda>_. []) (Some (''user'', ''alice'')) sample_request sample_setup_db)"

definition sample_approved_db :: db where
  "sample_approved_db = snd (record_decision (sample_rt 6) (sample_uuid 4) sample_approver approve None [] sample_requested_db)"

definition sample_held_db :: db where
  "sample_held_db = snd (create_hold (sample_rt 8) (sample_uuid 6) ''transfer'' ''acct'' (''user'', ''alice'') None []
     (snd (issue_proof (sample_rt 7) sample_env (sample_uuid 3) sample_issue sample_approved_db)))"

lemmas run_step = rtranclp.rtrancl_into_rtrancl[where r = "system_step U" for U]

lemma sample_setup_run: "(system_step sample_uuid)\<^sup>*\<^sup>* empty_db sample_setup_db"
  unfolding sample_setup_db_def
  by (rule run_step[OF run_step[OF run_step[OF run_step[OF rtranclp.rtrancl_refl sy_tenant]
        sy_create_policy] sy_activate_policy] sy_register_key]) simp_all

lemma sample_system_runs:
  "system_reachable sample_uuid sample_approved_db" "(system_step sample_uuid)\<^sup>*\<^sup>* sample_approved_db sample_held_db"
  "system_reachable sample_uuid sample_held_db"
proof -
  have "system_step sample_uuid sample_setup_db sample_requested_db"
    unfolding sample_requested_db_def by (rule sy_intake) simp
  moreover have "system_step sample_uuid sample_requested_db sample_approved_db"
    unfolding sample_approved_db_def by (rule sy_decide) simp
  ultimately show 1: "system_reachable sample_uuid sample_approved_db"
    using sample_setup_run run_step unfolding system_reachable_def by blast
  show 2: "(system_step sample_uuid)\<^sup>*\<^sup>* sample_approved_db sample_held_db"
    unfolding sample_held_db_def
    by (rule rtranclp_trans[OF r_into_rtranclp r_into_rtranclp]; rule sy_issue sy_hold; simp)
  show "system_reachable sample_uuid sample_held_db" using 1 2 by (simp add: system_reachable_def)
qed

lemma sample_system_values:
  "map ar_status (approval_requests sample_approved_db) = [AR_satisfied]"
  "map ai_action_intent_record_id (action_intents sample_approved_db) = [sample_uuid 3]"
  "escrow_bindings sample_held_db = [(sample_uuid 6, sample_uuid 3)]"
  by code_simp+


end
