(* ===== verification/AuditTrail.thy ===== *)
theory AuditTrail
  imports System
begin

text \<open>
  Receipts and the audit trail over whole runs of the control plane: no call but an ingestion writes
  to the trail, an ingestion only appends, and each receipt on file has its complete trail.
\<close>

section \<open>Who writes to the trail\<close>

definition trail_kept :: "db \<Rightarrow> db \<Rightarrow> bool" where
  "trail_kept d d' \<longleftrightarrow> trail d' = trail d \<and> next_uuid d \<le> next_uuid d'"

lemma trail_kept_refl [simp]: "trail_kept d d"
  by (simp add: trail_kept_def)

lemma trail_kept_trans: "trail_kept d d1 \<Longrightarrow> trail_kept d1 d2 \<Longrightarrow> trail_kept d d2"
  by (auto simp: trail_kept_def)

lemma trail_kept_tables:
  "receipts d' = receipts d \<Longrightarrow> reconciliations d' = reconciliations d \<Longrightarrow> audit_events d' = audit_events d \<Longrightarrow>
   next_uuid d \<le> next_uuid d' \<Longrightarrow> trail_kept d d'"
  by (simp add: trail_kept_def trail_def)

lemma trail_kept_quiet: "quiet d d' \<Longrightarrow> trail_kept d d'"
  by (simp add: quiet_def gates_kept_def trail_kept_def)

lemma trail_kept_refreshed: "refreshed now d d' \<Longrightarrow> trail_kept d d'"
  unfolding refreshed_def by (elim exE conjE) (rule trail_kept_tables; simp)

lemma trail_kept_synchronize: "trail_kept d (synchronize_record now iid d)"
  unfolding synchronize_record_def
  by (rule trail_kept_trans[OF trail_kept_refreshed[OF refreshed_sync]
        trail_kept_quiet[OF quiet_evidence[OF evidence_refreshed_sync]]])

lemma trail_kept_records:
  "trail_kept d (snd (get_record rt iid d))" "trail_kept d (snd (list_records rt f d))"
proof -
  show "trail_kept d (snd (get_record rt iid d))"
    by (auto simp: get_record_def Let_def trail_kept_synchronize split: option.splits)
  have "trail_kept e (fold (synchronize_record now) ids e)" for now ids e
    by (induction ids arbitrary: e) (auto intro: trail_kept_trans[OF trail_kept_synchronize])
  then show "trail_kept d (snd (list_records rt f d))" by (simp add: list_records_def Let_def)
qed

lemma trail_kept_decision: "trail_kept d (snd (record_decision rt rid actr dec reason ev d))"
proof (cases rule: record_decision_cases[of rt rid actr dec reason ev d])
  case (rejected e)
  then show ?thesis using trail_kept_refreshed[OF refreshed_get] by simp
next
  case (accepted r)
  have "trail_kept d (after_decision rt actr x r d)" for x
    unfolding after_decision_def
    by (rule trail_kept_trans[OF trail_kept_tables trail_kept_refreshed[OF refreshed_sync]]) simp_all
  then show ?thesis using record_decision_accepts[OF accepted refl] by simp
qed

lemma trail_kept_initialize:
  "trail_kept d (snd (initialize_approvals rt i d))" "trail_kept d (initialize_evidence iid d)"
proof -
  show "trail_kept d (initialize_evidence iid d)"
    unfolding initialize_evidence_def by (rule trail_kept_tables) simp_all
  have "trail d = trail (snd (initialize_approvals rt i d))"
    using trail_kept_refreshed[OF refreshed_sync]
    by (auto simp: initialize_approvals_def trail_kept_def Let_def trail_def split: option.splits)
  then show "trail_kept d (snd (initialize_approvals rt i d))"
    by (simp add: trail_kept_def next_uuid_initialize)
qed

lemma trail_kept_intake: "trail_kept d (snd (intake rt schema session request d))"
proof -
  obtain res d' where eq: "intake rt schema session request d = (res, d')" by force
  from eq refl have "trail_kept d d'"
  proof (cases rule: intake_cases)
    case (fresh t)
    from fresh(4) show ?thesis
    proof (cases rule: intake_new_cases)
      case (stored i v wk dec rs d2)
      let ?d1 = "used_id d\<lparr>action_intents := tinsert i (action_intents d)\<rparr>"
      have "trail_kept ?d1 d2" using trail_kept_initialize(1)[of ?d1 rt i] stored(3) by simp
      moreover have "trail_kept d ?d1" by (rule trail_kept_tables) simp_all
      ultimately show ?thesis
        unfolding stored(4) using trail_kept_trans trail_kept_initialize(2) by blast
    qed simp
  qed (simp_all add: trail_kept_synchronize)
  then show ?thesis by (simp add: eq)
qed

lemma trail_kept_issue: "trail_kept d (snd (issue_proof rt env iid q d))"
proof -
  obtain res d' where eq: "issue_proof rt env iid q d = (res, d')" by force
  then have "trail_kept d d'"
  proof (cases rule: issue_proof_cases)
    case (fresh i d1 d2 p p' d4 scope hash key ttl)
    have "trail_kept d d1" by (simp add: fresh(1) trail_kept_synchronize)
    moreover have "trail_kept d1 d2"
    proof -
      obtain g where "d2 = d1\<lparr>issued_proofs := map g (issued_proofs d1)\<rparr>"
        using find_existing_frame[OF fresh(9)] by blast
      then show ?thesis by (intro trail_kept_tables) simp_all
    qed
    moreover have "trail_kept d2 d4"
    proof (cases "ip_status p = PI_requested")
      case True
      then have s: "(p', d4) = sign_request rt env q i p (used_id (used_id d2))" using fresh(12) by simp
      from sign_request_frame[OF s] obtain ops n where
        "d4 = used_id (used_id d2)\<lparr>signing_operations := ops, next_uuid := n\<rparr>" by metis
      then show ?thesis
        using sign_request_tables(6)[OF s] by (intro trail_kept_tables) simp_all
    qed (use fresh(12) in \<open>intro trail_kept_tables, simp_all\<close>)
    moreover have "trail_kept d4 d'" by (rule trail_kept_tables) (simp_all add: fresh(14))
    ultimately show ?thesis using trail_kept_trans by blast
  qed simp_all
  then show ?thesis by (simp add: eq)
qed

lemma trail_kept_hold: "trail_kept d (snd (create_hold rt pid kind res act ttl md d))"
proof -
  obtain r d' where eq: "create_hold rt pid kind res act ttl md d = (r, d')" by force
  then have "trail_kept d d'"
  proof (cases rule: create_hold_cases)
    case (existing e q)
    then show ?thesis using trail_kept_quiet[OF quiet_get_escrow[of d rt]] by (metis snd_conv)
  next
    case (fresh p expires e d1 q)
    let ?dh = "used_id d\<lparr>escrow_records := tinsert e (escrow_records d)\<rparr>"
    have "quiet ?dh d1"
      using fresh(8) quiet_trans[OF quiet_transition quiet_sync_execution] by (simp add: commit_hold_def)
    moreover have "quiet d1 d'" using quiet_get_escrow[of d1 rt] fresh(9) by (metis snd_conv)
    moreover have "trail_kept d ?dh" by (rule trail_kept_tables) simp_all
    ultimately show ?thesis using trail_kept_trans trail_kept_quiet by blast
  qed simp
  then show ?thesis by (simp add: eq)
qed

lemma trail_kept_proof_reads:
  "trail_kept d (snd (get_proof rt pid d))" "trail_kept d (snd (list_proofs rt tid mid pst d))"
proof -
  obtain g where "snd (get_proof rt pid d) = d\<lparr>issued_proofs := map g (issued_proofs d)\<rparr>"
    using get_proof_frame by blast
  then show "trail_kept d (snd (get_proof rt pid d))" by (intro trail_kept_tables) simp_all
  obtain g where "snd (list_proofs rt tid mid pst d) = d\<lparr>issued_proofs := map g (issued_proofs d)\<rparr>"
    using list_proofs_frame by blast
  then show "trail_kept d (snd (list_proofs rt tid mid pst d))" by (intro trail_kept_tables) simp_all
qed

lemmas trail_kept_calls = trail_kept_intake trail_kept_records trail_kept_decision trail_kept_issue
  trail_kept_hold trail_kept_proof_reads trail_kept_refreshed[OF refreshed_get] trail_kept_refreshed[OF refreshed_list]
  quiet_registries[THEN trail_kept_quiet] quiet_get_escrow[THEN trail_kept_quiet]
  quiet_list_escrows[THEN trail_kept_quiet] quiet_evidence_calls[THEN trail_kept_quiet]
  quiet_escrow_calls[THEN trail_kept_quiet]

text \<open>Only an ingestion writes to the trail.\<close>

lemma system_step_trail:
  assumes "system_step U d d'"
  shows "trail_kept d d' \<or> (\<exists>rt rv q reg res reg'. rt_uuid rt = U \<and> ingest_receipt rt rv q reg d = (res, reg', d'))"
  using assms
proof (cases rule: system_step.cases)
  case (sy_ingest rt rv rq reg rres reg')
  then show ?thesis by blast
qed (simp_all add: trail_kept_calls)

section \<open>The trail in every run\<close>

lemma system_step_receipts:
  assumes step: "system_step U d d'" and "inj U" "control_inv U d" "receipts_inv U d"
  shows "receipts_inv U d' \<and> trail_extends d d'"
proof -
  have grow: "intents_grow d d'" using system_step_inv[OF assms(1-3)] by (simp add: controlled_def)
  from system_step_trail[OF step] show ?thesis
  proof (elim disjE exE conjE)
    assume "trail_kept d d'"
    then have t: "trail d' = trail d" and ids: "next_uuid d \<le> next_uuid d'" by (simp_all add: trail_kept_def)
    have "trail_inv U d'" using assms(4) trail_inv_kept[OF _ t ids] by (simp add: receipts_inv_def)
    moreover have "filed d' r" if "r \<in> set (receipts d')" for r
      using assms(4) that t filed_mono grow by (auto simp: receipts_inv_def trail_def intents_grow_def)
    ultimately show ?thesis using trail_extends_same[OF t] by (simp add: receipts_inv_def)
  next
    fix rt rv q reg res reg'
    assume "rt_uuid rt = U" "ingest_receipt rt rv q reg d = (res, reg', d')"
    then show ?thesis using ingest_receipt_step[OF _ assms(4,2)] by blast
  qed
qed

lemma system_run_receipts:
  assumes "(system_step U)\<^sup>*\<^sup>* d d'" "inj U" "control_inv U d" "receipts_inv U d"
  shows "control_inv U d' \<and> receipts_inv U d' \<and> trail_extends d d'"
  using assms
proof (induction rule: rtranclp_induct)
  case (step y z)
  then have y: "control_inv U y" "receipts_inv U y" "trail_extends d y" by simp_all
  show ?case
    using system_step_receipts[OF step(2,4) y(1,2)] controlled_inv[OF system_step_inv[OF step(2,4) y(1)]]
      trail_extends_trans[OF y(3)] by blast
qed simp

lemma empty_receipts_inv: "receipts_inv U empty_db"
  using trail_inv_empty[of U] by (simp add: receipts_inv_def empty_db_def)

lemma reachable_receipts_inv: "system_reachable U d \<Longrightarrow> inj U \<Longrightarrow> receipts_inv U d"
  unfolding system_reachable_def using system_run_receipts[OF _ _ empty_control_inv empty_receipts_inv] by blast

section \<open>A sample receipt\<close>

text \<open>The executor reports the payment of the sample run; the report carries the intent's digest.\<close>

definition sample_receipt_env :: receipt_env where
  "sample_receipt_env = \<lparr>rv_schema = (\<lambda>_. []), rv_fromisoformat = (\<lambda>s. Some 0), rv_repr = (\<lambda>_. []),
     rv_hmac = (@), rv_token_bytes = ''salt''\<rparr>"

definition sample_kernel_receipt :: dict where
  "sample_kernel_receipt =
     (let i = hd (action_intents sample_held_db) in
      [(''receipt_id'', JStr ''r1''), (''receipt_type'', JStr ''execution''), (''outcome'', JStr ''succeeded''),
       (''occurred_at'', JStr ''2024-01-01T00:00:00Z''),
       (''intent_id'', ai_external_action_intent_id i),
       (''action_intent_digest'', JStr (ai_action_intent_digest i)),
       (''action_type'', jget (ai_finance_index i) ''action_type''),
       (''amount_minor'', jget (ai_finance_index i) ''amount_minor''),
       (''currency'', jget (ai_finance_index i) ''currency'')])"

definition sample_receipt_request :: receipt_request where
  "sample_receipt_request = \<lparr>ri_tenant_id = [], ri_action_intent_record_id = sample_uuid 3,
     ri_contract_family = ''receipt'', ri_contract_version_ref = ''open_execution_kernel.receipt.finance.v1alpha1'',
     ri_kernel_receipt = sample_kernel_receipt, ri_received_by = (''service'', ''executor''),
     ri_issued_proof_id = None, ri_escrow_record_id = None\<rparr>"

definition sample_ingest :: "(receipt_record \<times> bool) result \<times> salts \<times> db" where
  "sample_ingest = ingest_receipt (sample_rt 9) sample_receipt_env sample_receipt_request [] sample_held_db"

definition sample_receipted_db :: db where
  "sample_receipted_db = snd (snd sample_ingest)"

lemma sample_receipted_run: "(system_step sample_uuid)\<^sup>*\<^sup>* sample_held_db sample_receipted_db"
  "system_reachable sample_uuid sample_receipted_db"
proof -
  show 1: "(system_step sample_uuid)\<^sup>*\<^sup>* sample_held_db sample_receipted_db"
    by (rule r_into_rtranclp, rule sy_ingest[of "sample_rt 9" _ sample_receipt_env sample_receipt_request "[]" _ 
          "fst sample_ingest" "fst (snd sample_ingest)"])
       (simp_all add: sample_receipted_db_def sample_ingest_def)
  show "system_reachable sample_uuid sample_receipted_db"
    using 1 sample_system_runs(3) by (simp add: system_reachable_def)
qed

lemma sample_receipt_values:
  "map (\<lambda>r. (rr_receipt_id r, rr_receipt_state r, rr_receipt_payload r = sample_kernel_receipt)) (receipts sample_receipted_db) =
     [(sample_uuid 11, RS_reconciled, True)]"
  by code_simp

lemma sample_receipt_stored:
  obtains r where "receipts sample_receipted_db = [r]" "rr_receipt_state r = RS_reconciled"
    "rr_receipt_payload r = sample_kernel_receipt"
  using sample_receipt_values by (auto simp: map_eq_Cons_conv)

section \<open>Properties\<close>

text \<open>
  C12. The audit trail is append-only. Whatever calls follow, the receipts, reconciliation records
  and audit events that are stored stay as they are, in their order; new ones come after them.
\<close>

theorem trail_append_only:
  assumes "inj U" "system_reachable U d" "(system_step U)\<^sup>*\<^sup>* d d'"
  shows "prefix (receipts d) (receipts d') \<and> prefix (reconciliations d) (reconciliations d') \<and>
    prefix (audit_events d) (audit_events d')"
  using system_run_receipts[OF assms(3,1) system_reachable_inv[OF assms(2,1)] reachable_receipts_inv[OF assms(2,1)]]
  by (simp add: trail_extends_def)

theorem trail_append_only_witness:
  "prefix (receipts sample_held_db) (receipts sample_receipted_db) \<and> receipts sample_receipted_db \<noteq> []"
  using trail_append_only[OF inj_sample_uuid sample_system_runs(3) sample_receipted_run(1)]
    sample_receipt_values by auto

text \<open>
  C11. The audit trail is complete. In every database that calls of the services can lead to, a
  receipt is filed under a stored intent of its tenant; it has one reconciliation record for the
  intent and one each for the proof and the escrow record it is linked to; its audit events are the
  ingestion followed by one event per reconciliation naming kind and result; it is reconciled
  exactly if all of them matched; and no tenant has two receipts with one digest.
\<close>

theorem audit_trail_complete:
  assumes "inj U" "system_reachable U d" "r \<in> set (receipts d)"
  shows "(\<exists>i. tget ai_action_intent_record_id (rr_action_intent_record_id r) (action_intents d) = Some i \<and>
       ai_tenant_id i = rr_tenant_id r) \<and>
    map rc_reconciliation_type (recon_of (rr_receipt_id r) d) = expected_kinds r \<and>
    map au_event_type (events_of (rr_receipt_id r) d) =
      ''receipt.ingested'' # map recon_event_type (recon_of (rr_receipt_id r) d) \<and>
    (rr_receipt_state r = RS_reconciled \<longleftrightarrow> (\<forall>c \<in> set (recon_of (rr_receipt_id r) d). rc_status c = RC_matched)) \<and>
    (\<forall>r' \<in> set (receipts d). receipt_key r' = receipt_key r \<longrightarrow> r' = r)"
proof -
  have inv: "receipts_inv U d" by (rule reachable_receipts_inv[OF assms(2,1)])
  then have f: "filed d r" and t: "trail_ok d r" and k: "distinct (map receipt_key (receipts d))"
    using assms(3) by (auto simp: receipts_inv_def trail_inv_def)
  have ne: "recon_of (rr_receipt_id r) d \<noteq> []" using t by (auto simp: trail_ok_def Let_def expected_kinds_def)
  have "r' = r" if "r' \<in> set (receipts d)" "receipt_key r' = receipt_key r" for r'
    using k that assms(3) by (auto simp: distinct_map dest: inj_onD)
  then show ?thesis
    using f t ne by (auto simp: filed_def trail_ok_def Let_def all_matched_def list_all_iff)
qed

theorem audit_trail_complete_witness:
  "\<exists>r \<in> set (receipts sample_receipted_db). \<exists>c. recon_of (rr_receipt_id r) sample_receipted_db = [c] \<and> rc_status c = RC_matched"
proof -
  obtain r where r: "receipts sample_receipted_db = [r]" "rr_receipt_state r = RS_reconciled"
    using sample_receipt_stored by metis
  have links: "map (\<lambda>r. (rr_issued_proof_id r, rr_escrow_record_id r)) (receipts sample_receipted_db) = [(None, None)]"
    by code_simp
  then have "expected_kinds r = [intent_to_receipt]" by (simp add: r(1) expected_kinds_def)
  with audit_trail_complete[OF inj_sample_uuid sample_receipted_run(2), of r] r show ?thesis
    by (auto simp: map_eq_Cons_conv)
qed

text \<open>
  C10. A reconciled receipt tells the truth about its intent. In every reachable database the
  payload of a reconciled receipt carries the digest of the stored intent it is filed under, and its
  intent identifier, action type, amount and currency equal those of the intent (or both lack it).
\<close>

theorem reconciled_receipt_agrees:
  assumes "inj U" "system_reachable U d" "r \<in> set (receipts d)" "rr_receipt_state r = RS_reconciled"
  shows "\<exists>i. tget ai_action_intent_record_id (rr_action_intent_record_id r) (action_intents d) = Some i \<and>
    ai_tenant_id i = rr_tenant_id r \<and>
    jget (rr_receipt_payload r) ''action_intent_digest'' = JStr (ai_action_intent_digest i) \<and>
    same_or_absent (ai_external_action_intent_id i) (jget (rr_receipt_payload r) ''intent_id'') \<and>
    (\<forall>f \<in> {''action_type'', ''amount_minor'', ''currency''}.
       same_or_absent (jget (ai_finance_index i) f) (jget (rr_receipt_payload r) f))"
  using reachable_receipts_inv[OF assms(2,1)] assms(3,4)
  by (auto simp: receipts_inv_def filed_def receipt_agrees_def Let_def)

theorem reconciled_receipt_agrees_witness:
  "\<exists>r \<in> set (receipts sample_receipted_db). \<exists>i \<in> set (action_intents sample_receipted_db).
     jget (rr_receipt_payload r) ''action_intent_digest'' = JStr (ai_action_intent_digest i)"
proof -
  obtain r where r: "receipts sample_receipted_db = [r]" "rr_receipt_state r = RS_reconciled"
    using sample_receipt_stored by metis
  from reconciled_receipt_agrees[OF inj_sample_uuid sample_receipted_run(2) _ r(2)] r(1) show ?thesis
    by (auto dest!: tgetD)
qed

text \<open>
  Ingestion is idempotent. Once a receipt is on file, sending a payload with its digest for any
  intent of the same tenant, after whatever further calls, returns that receipt marked as a replay
  and changes neither the database nor the salts.
\<close>

theorem receipt_replay:
  assumes "inj U" "system_reachable U d" "r \<in> set (receipts d)" "(system_step U)\<^sup>*\<^sup>* d d'"
    and "ri_tenant_id q = rr_tenant_id r"
    and "rt_sha256_json rt (JObj (ri_kernel_receipt q)) = rr_kernel_receipt_digest r"
    and "tget ai_action_intent_record_id (ri_action_intent_record_id q) (action_intents d') = Some i"
    and "ai_tenant_id i = rr_tenant_id r"
  shows "ingest_receipt rt rv q reg d' = (Inr (r, True), reg, d')"
proof -
  have run: "receipts_inv U d' \<and> trail_extends d d'"
    using system_run_receipts[OF assms(4,1) system_reachable_inv[OF assms(2,1)] reachable_receipts_inv[OF assms(2,1)]]
    by blast
  have r': "r \<in> set (receipts d')" using trail_extends_mem run assms(3) by blast
  then have "receipt_key r \<in> receipt_key ` set (receipts d')" by simp
  then obtain s where s: "find_receipt (rr_tenant_id r) (rr_kernel_receipt_digest r) d' = Some s"
    using find_receipt_None[of "rr_tenant_id r" "rr_kernel_receipt_digest r" d'] by (auto simp: receipt_key_def)
  have "receipt_key s = receipt_key r" using find_receipt_Some[OF s] by (simp add: receipt_key_def)
  moreover have "inj_on receipt_key (set (receipts d'))"
    using run by (simp add: receipts_inv_def trail_inv_def distinct_map)
  ultimately have "s = r" using find_receipt_Some[OF s] r' by (auto dest: inj_onD)
  then show ?thesis
    using s assms(5-8) by (simp add: ingest_receipt_def receipt_intent_def)
qed

theorem receipt_replay_witness:
  "\<exists>r. ingest_receipt (sample_rt 10) sample_receipt_env sample_receipt_request [] sample_receipted_db =
     (Inr (r, True), [], sample_receipted_db)"
proof -
  obtain r where r: "receipts sample_receipted_db = [r]" using sample_receipt_stored by metis
  have v: "map rr_tenant_id (receipts sample_receipted_db) = [[]]"
    "map rr_kernel_receipt_digest (receipts sample_receipted_db) =
       [rt_sha256_json (sample_rt 10) (JObj (ri_kernel_receipt sample_receipt_request))]"
    "map (\<lambda>i. (ai_action_intent_record_id i, ai_tenant_id i)) (action_intents sample_receipted_db) = [(sample_uuid 3, [])]"
    by code_simp+
  obtain i where "tget ai_action_intent_record_id (ri_action_intent_record_id sample_receipt_request)
      (action_intents sample_receipted_db) = Some i" "ai_tenant_id i = []"
    using v(3) by (auto simp: map_eq_Cons_conv sample_receipt_request_def)
  then have "ingest_receipt (sample_rt 10) sample_receipt_env sample_receipt_request [] sample_receipted_db =
     (Inr (r, True), [], sample_receipted_db)"
    by (intro receipt_replay[OF inj_sample_uuid sample_receipted_run(2) _ rtranclp.rtrancl_refl])
       (use v(1,2) in \<open>simp_all add: r sample_receipt_request_def\<close>)
  then show ?thesis by blast
qed

lemma index_has_no_commitments:
  "f \<in> set committed_index_fields \<Longrightarrow> jget (build_receipt_index i k) (commitment_key f) = JNull"
  by (auto simp: committed_index_fields_def commitment_key_def build_receipt_index_def jget_def)

text \<open>
  What a new receipt does. It is appended once, linked only to the proof and escrow record that
  the request names and that belong to the same tenant and intent; it becomes the latest receipt of
  the intent, whose execution state follows from the reported outcome alone, whether or not the
  reconciliation matched; and the account commitments in its index verify.
\<close>

theorem ingest_receipt_new:
  assumes "inj U" "system_reachable U d" "rt_uuid rt = U"
    and "ingest_receipt rt rv q reg d = (Inr (r, False), reg', d')"
  shows "receipts d' = receipts d @ [r] \<and> rr_issued_proof_id r = ri_issued_proof_id q \<and>
    rr_escrow_record_id r = ri_escrow_record_id q \<and>
    link_ok (ri_tenant_id q) (ri_action_intent_record_id q) (ri_issued_proof_id q) (ri_escrow_record_id q) d \<and>
    (\<exists>i. tget ai_action_intent_record_id (ri_action_intent_record_id q) (action_intents d) = Some i \<and>
       tget ai_action_intent_record_id (ri_action_intent_record_id q) (action_intents d') =
         Some (i\<lparr>ai_latest_receipt_id := Some (rr_receipt_id r), ai_receipt_state := rr_receipt_state r,
           ai_execution_state := observed_state (rr_outcome r)\<rparr>)) \<and>
    verify_receipt_index_commitment (rv_hmac rv) (rv_repr rv) token (ri_tenant_id q) (rr_receipt_index r) reg' =
      (True, reg')"
proof -
  have inv: "trail_inv U d" using reachable_receipts_inv[OF assms(2,1)] by (simp add: receipts_inv_def)
  show ?thesis
    using assms(4) inv assms(1,3)
  proof (cases rule: ingest_receipt_effects)
    case (stored i mp me r0 cs a evs)
    have r: "r = reconcile_row cs r0" using stored(1) by simp
    obtain t index xid kind oc where r0: "r0 = new_receipt rt rv q mp me t index xid kind oc d"
      and index: "commit_receipt_index_fields (rv_hmac rv) (rv_repr rv) (rv_token_bytes rv) (ri_tenant_id q)
         (build_receipt_index i (ri_kernel_receipt q)) reg = (index, reg')" using stored(7) by blast
    have iid: "ai_action_intent_record_id i = ri_action_intent_record_id q" using tgetD[OF stored(3)] by simp
    have "link_ok (ri_tenant_id q) (ri_action_intent_record_id q) (ri_issued_proof_id q) (ri_escrow_record_id q) d"
      unfolding link_ok_iff using stored(5,6) by blast
    moreover have "tget ai_action_intent_record_id (ri_action_intent_record_id q) (action_intents d') =
        Some (apply_lifecycle_effects r i)"
      using stored(3) by (simp add: stored(2) iid r tget_tmodify apply_lifecycle_effects_def)
    moreover have "rr_receipt_index r = index" by (simp add: r r0 reconcile_row_def)
    ultimately show ?thesis
      using receipt_links(1)[OF stored(5)] receipt_links(2)[OF stored(6)] stored(3)
        commitments_verify[OF index index_has_no_commitments salts_extend_refl, of token]
      by (simp add: stored(2) r r0 apply_lifecycle_effects_def)
  qed simp_all
qed

theorem ingest_receipt_new_witness:
  "\<exists>r. receipts sample_receipted_db = receipts sample_held_db @ [r] \<and>
     map ai_execution_state (action_intents sample_receipted_db) = [EX_result_observed]"
proof -
  have v: "map_sum (\<lambda>_. ()) snd (fst sample_ingest) = Inr False"
    "map ai_execution_state (action_intents sample_receipted_db) = [EX_result_observed]" by code_simp+
  obtain r where "fst sample_ingest = Inr (r, False)"
    using v(1) by (cases "fst sample_ingest") auto
  then have "ingest_receipt (sample_rt 9) sample_receipt_env sample_receipt_request [] sample_held_db =
     (Inr (r, False), fst (snd sample_ingest), sample_receipted_db)"
    by (simp add: sample_receipted_db_def prod_eq_iff flip: sample_ingest_def)
  from ingest_receipt_new[OF inj_sample_uuid sample_system_runs(3) _ this] v(2) show ?thesis by auto
qed

end
