(* ===== verification/Merkle.thy ===== *)
theory Merkle
  imports Prelude "HOL-Library.Sublist"
begin

text \<open>
  The Merkle tree part of \<open>src/app/services/transparency_format.py\<close>: leaf and node hashes, roots,
  inclusion paths and consistency paths of RFC 6962. SHA-256 is a parameter \<open>sha\<close> on byte strings
  (characters are bytes); what is assumed of it is that digests are 32 bytes long. The client
  that recomputes roots from a proof is not part of the repository: it is stated here as the
  specification the paths are proved against, in both directions. A proof that verifies although
  it should not exhibits two different messages with the same digest among those that were
  actually hashed.
\<close>

section \<open>Hexadecimal\<close>

type_synonym bytes = string

datatype log_error =
    TransparencyFormatError string
  | TransparencyLogConfigurationError string
  | TransparencyLogNotFoundError string
  | TransparencyLogIntegrityError string
  | LogOverflowError string
  | LogValueError string
  | SignerError string

definition hex_digits :: string where
  "hex_digits = ''0123456789abcdef''"

definition hex_digit :: "int \<Rightarrow> char" where
  "hex_digit n = hex_digits ! nat (n mod 16)"

text \<open>\<open>bytes.hex()\<close>.\<close>

definition hex_of :: "bytes \<Rightarrow> string" where
  "hex_of bs = concat (map (\<lambda>c. [hex_digit (of_char c div 16), hex_digit (of_char c)]) bs)"

definition hex_value :: "char \<Rightarrow> int option" where
  "hex_value c = map_of (zip (hex_digits @ ''ABCDEF'') ([0..15] @ [10..15])) c"

text \<open>\<open>bytes.fromhex\<close> on text without white space; \<open>None\<close> where it raises.\<close>

fun from_hex :: "string \<Rightarrow> bytes option" where
  "from_hex [] = Some []"
| "from_hex [c] = None"
| "from_hex (a # b # s) =
     (case (hex_value a, hex_value b, from_hex s) of
        (Some x, Some y, Some bs) \<Rightarrow> Some (char_of (16 * x + y) # bs) | _ \<Rightarrow> None)"

text \<open>\<open>^[0-9a-f]{64}$\<close>, full match.\<close>

definition hex_256 :: "string \<Rightarrow> bool" where
  "hex_256 s \<longleftrightarrow> length s = 64 \<and> set s \<subseteq> set hex_digits"

lemma hex_value_digit:
  assumes "0 \<le> n" "n < 16"
  shows "hex_value (hex_digit n) = Some n"
proof -
  have "n \<in> set [0..15]" using assms by simp
  moreover have "list_all (\<lambda>n. hex_value (hex_digit n) = Some n) [0..15]" by code_simp
  ultimately show ?thesis by (simp add: list_all_iff)
qed

lemma hex_digit_mod: "hex_digit n = hex_digit (n mod 16)"
  by (simp add: hex_digit_def)

lemma hex_value_mod: "hex_value (hex_digit n) = Some (n mod 16)"
  using hex_value_digit[of "n mod 16"] hex_digit_mod[of n] by simp

lemma of_char_bounds: "0 \<le> (of_char c :: int)" "(of_char c :: int) < 256"
proof -
  have "(of_char c :: int) = int (of_char c)" by (rule of_nat_of_char[symmetric])
  moreover have "(of_char c :: nat) < 256" by simp
  ultimately show "0 \<le> (of_char c :: int)" "(of_char c :: int) < 256" by linarith+
qed

lemma from_hex_of [simp]: "from_hex (hex_of bs) = Some bs"
proof (induction bs)
  case (Cons c bs)
  have "(of_char c :: int) div 16 mod 16 = of_char c div 16" using of_char_bounds[of c] by simp
  then have "16 * ((of_char c :: int) div 16 mod 16) + of_char c mod 16 = of_char c" by simp
  then have "char_of (16 * ((of_char c :: int) div 16 mod 16) + of_char c mod 16) = c"
    by (simp only: char_of_char)
  then show ?case using Cons by (simp add: hex_of_def hex_value_mod)
qed (simp add: hex_of_def)

lemma hex_of_inj [simp]: "hex_of a = hex_of b \<longleftrightarrow> a = b"
  by (metis from_hex_of option.inject)

lemma length_hex_of [simp]: "length (hex_of bs) = 2 * length bs"
  by (induction bs) (simp_all add: hex_of_def)

lemma hex_digit_in: "hex_digit n \<in> set hex_digits"
proof -
  have "length hex_digits = 16" by (simp add: hex_digits_def)
  then show ?thesis unfolding hex_digit_def by (intro nth_mem) (simp add: nat_less_iff)
qed

lemma hex_256_of: "length bs = 32 \<Longrightarrow> hex_256 (hex_of bs)"
  using hex_digit_in by (auto simp: hex_256_def) (auto simp: hex_of_def)

section \<open>Hashes and trees\<close>

text \<open>\<open>normalize_receipt_digest\<close> on a string.\<close>

definition normalize_receipt_digest :: "string \<Rightarrow> log_error + string" where
  "normalize_receipt_digest v =
     (if hex_256 v then Inr v
      else Inl (TransparencyFormatError
             ''receipt digest must be a lowercase 64-character SHA-256 hex value''))"

definition leaf_hash :: "(bytes \<Rightarrow> bytes) \<Rightarrow> string \<Rightarrow> log_error + bytes" where
  "leaf_hash sha digest =
     (case normalize_receipt_digest digest of
        Inl e \<Rightarrow> Inl e
      | Inr v \<Rightarrow>
          (case from_hex v of
             None \<Rightarrow> Inl (LogValueError ''non-hexadecimal number'')
           | Some bs \<Rightarrow> Inr (sha (CHR 0x00 # bs))))"

definition node_msg :: "bytes \<Rightarrow> bytes \<Rightarrow> bytes" where
  "node_msg l r = CHR 0x01 # l @ r"

definition node_hash :: "(bytes \<Rightarrow> bytes) \<Rightarrow> bytes \<Rightarrow> bytes \<Rightarrow> bytes" where
  "node_hash sha l r = sha (node_msg l r)"

definition empty_tree_hash :: "(bytes \<Rightarrow> bytes) \<Rightarrow> bytes" where
  "empty_tree_hash sha = sha []"

text \<open>\<open>int.bit_length\<close>.\<close>

fun bit_length :: "nat \<Rightarrow> nat" where
  "bit_length n = (if n = 0 then 0 else Suc (bit_length (n div 2)))"

declare bit_length.simps [simp del]

definition split_point :: "nat \<Rightarrow> nat" where
  "split_point n = 2 ^ (bit_length (n - 1) - 1)"

definition largest_power_of_two_less_than :: "nat \<Rightarrow> log_error + nat" where
  "largest_power_of_two_less_than n =
     (if n < 2 then Inl (TransparencyFormatError ''tree partition requires at least two leaves'')
      else Inr (split_point n))"

lemma bit_length_bounds: "0 < n \<Longrightarrow> 0 < bit_length n \<and> 2 ^ (bit_length n - 1) \<le> n \<and> n < 2 ^ bit_length n"
proof (induction n rule: bit_length.induct)
  case (1 n)
  show ?case
  proof (cases "n div 2 = 0")
    case True
    then have "n = 1" using 1(2) by (simp add: div_eq_0_iff)
    then show ?thesis by (simp add: bit_length.simps)
  next
    case False
    then have b: "0 < bit_length (n div 2)" "2 ^ (bit_length (n div 2) - 1) \<le> n div 2"
      "n div 2 < 2 ^ bit_length (n div 2)" using 1 by auto
    have e: "bit_length n = Suc (bit_length (n div 2))" using 1(2) by (simp add: bit_length.simps[of n])
    have "2 * 2 ^ (bit_length (n div 2) - 1) \<le> n" using b(2) by linarith
    then have "2 ^ bit_length (n div 2) \<le> n"
      using b(1) by (metis Suc_diff_1 power_Suc)
    moreover have "n < 2 * 2 ^ bit_length (n div 2)" using b(3) by linarith
    ultimately show ?thesis using e by simp
  qed
qed

lemma split_point_bounds:
  assumes "2 \<le> n"
  shows "0 < split_point n" "split_point n < n" "n \<le> 2 * split_point n"
proof -
  have b: "0 < bit_length (n - 1)" "2 ^ (bit_length (n - 1) - 1) \<le> n - 1" "n - 1 < 2 ^ bit_length (n - 1)"
    using bit_length_bounds[of "n - 1"] assms by auto
  show "0 < split_point n" by (simp add: split_point_def)
  show "split_point n < n" using b(2) assms by (simp add: split_point_def)
  have "(2::nat) ^ bit_length (n - 1) = 2 * split_point n"
    using b(1) by (simp add: split_point_def power_eq_if)
  then show "n \<le> 2 * split_point n" using b(3) assms by linarith
qed

lemma power_of_two_between:
  assumes "(2::nat) ^ a < m" "m \<le> 2 * 2 ^ a" "2 ^ b < m" "m \<le> 2 * 2 ^ b"
  shows "a = b"
proof (rule antisym)
  have "(2::nat) ^ a < 2 ^ Suc b" "(2::nat) ^ b < 2 ^ Suc a" using assms by simp_all
  then show "a \<le> b" "b \<le> a" by (simp_all only: power_strict_increasing_iff less_Suc_eq_le one_less_numeral_iff semiring_norm)
qed

text \<open>A tree that reaches past the split of a larger one splits at the same place.\<close>

lemma split_point_eq:
  assumes "2 \<le> n" "split_point n < m" "m \<le> n"
  shows "split_point m = split_point n"
proof -
  have "2 \<le> m" using assms split_point_bounds(1)[OF assms(1)] by linarith
  note bm = split_point_bounds[OF this] and bn = split_point_bounds[OF assms(1)]
  have "bit_length (m - 1) - 1 = bit_length (n - 1) - 1"
    by (rule power_of_two_between[of _ m]) (use bm bn assms in \<open>simp_all add: split_point_def\<close>)
  then show ?thesis by (simp add: split_point_def)
qed

function merkle_root :: "(bytes \<Rightarrow> bytes) \<Rightarrow> bytes list \<Rightarrow> bytes" where
  "merkle_root sha hs =
     (if hs = [] then empty_tree_hash sha
      else if length hs = 1 then hs ! 0
      else let k = split_point (length hs)
           in node_hash sha (merkle_root sha (take k hs)) (merkle_root sha (drop k hs)))"
  by pat_completeness auto
termination
proof (relation "measure (\<lambda>(sha, hs). length hs)", goal_cases)
  case (2 sha hs k)
  have "2 \<le> length hs" using 2 by (cases hs; cases "tl hs") auto
  with split_point_bounds[OF this] show ?case by (simp add: 2)
next
  case (3 sha hs k)
  have "2 \<le> length hs" using 3 by (cases hs; cases "tl hs") auto
  with split_point_bounds[OF this] show ?case by (simp add: 3)
qed simp

declare merkle_root.simps [simp del]

lemma merkle_root_single [simp]: "merkle_root sha [h] = h"
  by (simp add: merkle_root.simps)

lemma merkle_root_node:
  "2 \<le> length hs \<Longrightarrow> merkle_root sha hs =
     node_hash sha (merkle_root sha (take (split_point (length hs)) hs))
       (merkle_root sha (drop (split_point (length hs)) hs))"
  by (subst merkle_root.simps) (auto simp: Let_def)

text \<open>Induction over the way the tree is split.\<close>

lemma tree_induct [consumes 1, case_names leaf node]:
  assumes pos: "0 < n"
    and leaf: "P 1"
    and node: "\<And>n. 2 \<le> n \<Longrightarrow> P (split_point n) \<Longrightarrow> P (n - split_point n) \<Longrightarrow> P n"
  shows "P (n :: nat)"
  using pos
proof (induction n rule: less_induct)
  case (less n)
  show ?case
  proof (cases "n = 1")
    case False
    then have n: "2 \<le> n" using less.prems by linarith
    note b = split_point_bounds[OF n]
    show ?thesis using node[OF n] less.IH b by auto
  qed (use leaf in simp)
qed

function inclusion_path :: "(bytes \<Rightarrow> bytes) \<Rightarrow> bytes list \<Rightarrow> int \<Rightarrow> log_error + string list" where
  "inclusion_path sha hs i =
     (if hs = [] \<or> i < 0 \<or> int (length hs) \<le> i
      then Inl (TransparencyFormatError ''leaf index is outside the requested tree'')
      else if length hs = 1 then Inr []
      else let k = split_point (length hs)
           in if i < int k
              then map_sum id (\<lambda>p. p @ [hex_of (merkle_root sha (drop k hs))])
                     (inclusion_path sha (take k hs) i)
              else map_sum id (\<lambda>p. p @ [hex_of (merkle_root sha (take k hs))])
                     (inclusion_path sha (drop k hs) (i - int k)))"
  by pat_completeness auto
termination
proof (relation "measure (\<lambda>(sha, hs, i). length hs)", goal_cases)
  case (2 sha hs i k)
  have "2 \<le> length hs" using 2 by (cases hs; cases "tl hs") auto
  with split_point_bounds[OF this] show ?case by (simp add: 2)
next
  case (3 sha hs i k)
  have "2 \<le> length hs" using 3 by (cases hs; cases "tl hs") auto
  with split_point_bounds[OF this] show ?case by (simp add: 3)
qed simp

declare inclusion_path.simps [simp del]


text \<open>\<open>_consistency_path\<close>; the sizes it partitions raise when there is nothing to split.\<close>

function consistency_path_rec ::
  "(bytes \<Rightarrow> bytes) \<Rightarrow> nat \<Rightarrow> bytes list \<Rightarrow> bool \<Rightarrow> log_error + bytes list" where
  "consistency_path_rec sha old hs include_old =
     (if old = length hs then Inr (if include_old then [] else [merkle_root sha hs])
      else (case largest_power_of_two_less_than (length hs) of
              Inl e \<Rightarrow> Inl e
            | Inr k \<Rightarrow>
                if old \<le> k
                then map_sum id (\<lambda>p. p @ [merkle_root sha (drop k hs)])
                       (consistency_path_rec sha old (take k hs) include_old)
                else map_sum id (\<lambda>p. p @ [merkle_root sha (take k hs)])
                       (consistency_path_rec sha (old - k) (drop k hs) False)))"
  by pat_completeness auto
termination
proof (relation "measure (\<lambda>(sha, old, hs, b). length hs)", goal_cases)
  case (2 sha old hs b k)
  then have "2 \<le> length hs" "k = split_point (length hs)"
    by (auto simp: largest_power_of_two_less_than_def split: if_splits)
  with split_point_bounds[of "length hs"] show ?case by simp
next
  case (3 sha old hs b k)
  then have "2 \<le> length hs" "k = split_point (length hs)"
    by (auto simp: largest_power_of_two_less_than_def split: if_splits)
  with split_point_bounds[of "length hs"] show ?case by simp
qed simp

declare consistency_path_rec.simps [simp del]

definition consistency_path ::
  "(bytes \<Rightarrow> bytes) \<Rightarrow> bytes list \<Rightarrow> int \<Rightarrow> int \<Rightarrow> log_error + string list" where
  "consistency_path sha hs old new =
     (if old < 0 \<or> new < old \<or> int (length hs) < new
      then Inl (TransparencyFormatError ''invalid consistency-proof tree sizes'')
      else if old = 0 \<or> old = new then Inr []
      else map_sum id (map hex_of) (consistency_path_rec sha (nat old) (take (nat new) hs) True))"

section \<open>The client's recomputation\<close>

text \<open>
  A client that knows the size of the tree recomputes its root from a leaf and the sibling hashes
  on its way up, the one nearest to the root last.
\<close>

function root_from_path ::
  "(bytes \<Rightarrow> bytes) \<Rightarrow> nat \<Rightarrow> nat \<Rightarrow> bytes \<Rightarrow> bytes list \<Rightarrow> bytes option" where
  "root_from_path sha n i x path =
     (if n < 2 then (if path = [] then Some x else None)
      else if path = [] then None
      else let k = split_point n; h = last path
           in if i < k then map_option (\<lambda>r. node_hash sha r h) (root_from_path sha k i x (butlast path))
              else map_option (\<lambda>r. node_hash sha h r) (root_from_path sha (n - k) (i - k) x (butlast path)))"
  by pat_completeness auto
termination
proof (relation "measure (\<lambda>(sha, n, i, x, path). n)", goal_cases)
  case (2 sha n i x path k h)
  with split_point_bounds[of n] show ?case by simp
next
  case (3 sha n i x path k h)
  with split_point_bounds[of n] show ?case by simp
qed simp

declare root_from_path.simps [simp del]

text \<open>
  For consistency it recomputes both roots, starting from the old root it already trusts (or from
  the first hash of the path, once the old tree is no longer a complete left part).
\<close>

function roots_from_consistency ::
  "(bytes \<Rightarrow> bytes) \<Rightarrow> nat \<Rightarrow> nat \<Rightarrow> bool \<Rightarrow> bytes \<Rightarrow> bytes list \<Rightarrow> (bytes \<times> bytes) option" where
  "roots_from_consistency sha old new trusted o_root path =
     (if old = new then
        (if trusted then (if path = [] then Some (o_root, o_root) else None)
         else (case path of [h] \<Rightarrow> Some (h, h) | _ \<Rightarrow> None))
      else if new < 2 \<or> path = [] then None
      else let k = split_point new; h = last path
           in if old \<le> k
              then map_option (\<lambda>(a, b). (a, node_hash sha b h))
                     (roots_from_consistency sha old k trusted o_root (butlast path))
              else map_option (\<lambda>(a, b). (node_hash sha h a, node_hash sha h b))
                     (roots_from_consistency sha (old - k) (new - k) False o_root (butlast path)))"
  by pat_completeness auto
termination
proof (relation "measure (\<lambda>(sha, old, new, t, r, path). new)", goal_cases)
  case (2 sha old new t r path k h)
  with split_point_bounds[of new] show ?case by simp
next
  case (3 sha old new t r path k h)
  with split_point_bounds[of new] show ?case by simp
qed simp

declare roots_from_consistency.simps [simp del]

section \<open>Proofs verify\<close>

lemma two_le_length: "hs \<noteq> [] \<Longrightarrow> length hs \<noteq> 1 \<Longrightarrow> 2 \<le> length hs"
  by (cases hs; cases "tl hs") auto

lemma inclusion_complete:
  "i < length hs \<Longrightarrow> \<exists>path. inclusion_path sha hs (int i) = Inr (map hex_of path) \<and>
     root_from_path sha (length hs) i (hs ! i) path = Some (merkle_root sha hs)"
proof (induction "length hs" arbitrary: hs i rule: less_induct)
  case less
  show ?case
  proof (cases "length hs = 1")
    case True
    then obtain h where "hs = [h]" by (cases hs) auto
    then show ?thesis
      using less.prems by (intro exI[of _ "[]"]) (simp add: inclusion_path.simps root_from_path.simps)
  next
    case False
    then have two: "2 \<le> length hs" using less.prems two_le_length by auto
    have ne: "hs \<noteq> []" using two by auto
    define k where "k = split_point (length hs)"
    have k: "0 < k" "k < length hs" "length hs \<le> 2 * k" using split_point_bounds[OF two] by (simp_all add: k_def)
    have root: "merkle_root sha hs = node_hash sha (merkle_root sha (take k hs)) (merkle_root sha (drop k hs))"
      using merkle_root_node[OF two] by (simp add: k_def)
    show ?thesis
    proof (cases "i < k")
      case True
      then obtain p where p: "inclusion_path sha (take k hs) (int i) = Inr (map hex_of p)"
        "root_from_path sha k i (hs ! i) p = Some (merkle_root sha (take k hs))"
        using less.hyps[of "take k hs" i] k by auto
      show ?thesis
        by (rule exI[of _ "p @ [merkle_root sha (drop k hs)]"])
           (use True two ne p less.prems False in
            \<open>simp add: inclusion_path.simps[of sha hs] root_from_path.simps[of sha "length hs"] k_def[symmetric] root Let_def\<close>)
    next
      case ge: False
      have shorter: "length hs - k < length hs" "i - k < length hs - k" "k + (i - k) = i"
        using ge k less.prems by auto
      from ge obtain p where p: "inclusion_path sha (drop k hs) (int (i - k)) = Inr (map hex_of p)"
        "root_from_path sha (length hs - k) (i - k) (hs ! i) p = Some (merkle_root sha (drop k hs))"
        using less.hyps[of "drop k hs" "i - k"] shorter less.prems by auto
      show ?thesis
        by (rule exI[of _ "p @ [merkle_root sha (take k hs)]"])
           (use ge two ne p less.prems False in
            \<open>simp add: inclusion_path.simps[of sha hs] root_from_path.simps[of sha "length hs"] k_def[symmetric] root Let_def of_nat_diff\<close>)
    qed
  qed
qed

lemma untrusted_root:
  "roots_from_consistency sha a c False r q = roots_from_consistency sha a c False r' q"
proof (induction c arbitrary: a q rule: less_induct)
  case (less c)
  show ?case
  proof (cases "a = c \<or> c < 2 \<or> q = []")
    case True
    then show ?thesis by (auto simp: roots_from_consistency.simps[of sha a c])
  next
    case False
    then have "split_point c < c" "c - split_point c < c" using split_point_bounds[of c] by auto
    then show ?thesis
      using False less.IH by (simp add: roots_from_consistency.simps[of sha a c] Let_def)
  qed
qed

lemma consistency_complete:
  "0 < old \<Longrightarrow> old \<le> length hs \<Longrightarrow>
   \<exists>path. consistency_path_rec sha old hs b = Inr path \<and>
     roots_from_consistency sha old (length hs) b (merkle_root sha (take old hs)) path =
       Some (merkle_root sha (take old hs), merkle_root sha hs)"
proof (induction "length hs" arbitrary: hs old b rule: less_induct)
  case less
  show ?case
  proof (cases "old = length hs")
    case True
    then show ?thesis
      by (cases b) (auto simp: consistency_path_rec.simps[of sha "length hs"]
          roots_from_consistency.simps[of sha "length hs"])
  next
    case False
    then have two: "2 \<le> length hs" using less.prems by linarith
    define k where "k = split_point (length hs)"
    have k: "0 < k" "k < length hs" "length hs \<le> 2 * k" using split_point_bounds[OF two] by (simp_all add: k_def)
    have lp: "largest_power_of_two_less_than (length hs) = Inr k"
      using two by (simp add: largest_power_of_two_less_than_def k_def)
    have root: "merkle_root sha hs = node_hash sha (merkle_root sha (take k hs)) (merkle_root sha (drop k hs))"
      using merkle_root_node[OF two] by (simp add: k_def)
    show ?thesis
    proof (cases "old \<le> k")
      case True
      then obtain p where p: "consistency_path_rec sha old (take k hs) b = Inr p"
        "roots_from_consistency sha old k b (merkle_root sha (take old hs)) p =
           Some (merkle_root sha (take old hs), merkle_root sha (take k hs))"
        using less.hyps[of "take k hs" old b] k less.prems by (auto simp: min_def)
      show ?thesis
        by (rule exI[of _ "p @ [merkle_root sha (drop k hs)]"])
           (use True two p less.prems False in
            \<open>simp add: consistency_path_rec.simps[of sha old hs] roots_from_consistency.simps[of sha old "length hs"]
               k_def[symmetric] root lp Let_def\<close>)
    next
      case gt: False
      have m: "old - k > 0" "old - k \<le> length (drop k hs)" using gt less.prems by auto
      obtain p where p: "consistency_path_rec sha (old - k) (drop k hs) False = Inr p"
        "roots_from_consistency sha (old - k) (length hs - k) False
           (merkle_root sha (take (old - k) (drop k hs))) p =
           Some (merkle_root sha (take (old - k) (drop k hs)), merkle_root sha (drop k hs))"
        using less.hyps[of "drop k hs" "old - k" False] k m by (auto simp del: length_greater_0_conv)
      have two': "2 \<le> old" and sp: "split_point old = k"
        using split_point_eq[OF two, of old] gt k less.prems by (auto simp: k_def)
      have len: "length (take old hs) = old" using less.prems by simp
      have td: "take k (take old hs) = take k hs" "drop k (take old hs) = take (old - k) (drop k hs)"
        using gt by (simp_all add: drop_take)
      have old: "merkle_root sha (take old hs) =
          node_hash sha (merkle_root sha (take k hs)) (merkle_root sha (take (old - k) (drop k hs)))"
        using merkle_root_node[of "take old hs" sha] two' unfolding len sp td by blast
      have p': "roots_from_consistency sha (old - k) (length hs - k) False (merkle_root sha (take old hs)) p =
           Some (merkle_root sha (take (old - k) (drop k hs)), merkle_root sha (drop k hs))"
        using p(2) untrusted_root by metis
      have "roots_from_consistency sha old (length hs) b (merkle_root sha (take old hs))
          (p @ [merkle_root sha (take k hs)]) = Some (merkle_root sha (take old hs), merkle_root sha hs)"
        unfolding roots_from_consistency.simps[of sha old "length hs"]
        using gt two p' False by (simp add: k_def[symmetric] root old Let_def)
      moreover have "consistency_path_rec sha old hs b = Inr (p @ [merkle_root sha (take k hs)])"
        unfolding consistency_path_rec.simps[of sha old hs] using gt p(1) False by (simp add: lp)
      ultimately show ?thesis by blast
    qed
  qed
qed


section \<open>Only true proofs verify\<close>

text \<open>The node messages hashed to build a tree, and those a client hashes to check a proof.\<close>

function tree_msgs :: "(bytes \<Rightarrow> bytes) \<Rightarrow> bytes list \<Rightarrow> bytes list" where
  "tree_msgs sha hs =
     (if length hs < 2 then []
      else let k = split_point (length hs)
           in node_msg (merkle_root sha (take k hs)) (merkle_root sha (drop k hs)) #
              tree_msgs sha (take k hs) @ tree_msgs sha (drop k hs))"
  by pat_completeness auto
termination
proof (relation "measure (\<lambda>(sha, hs). length hs)", goal_cases)
  case (2 sha hs k)
  with split_point_bounds[of "length hs"] show ?case by simp
next
  case (3 sha hs k)
  with split_point_bounds[of "length hs"] show ?case by simp
qed simp

declare tree_msgs.simps [simp del]

function path_msgs :: "(bytes \<Rightarrow> bytes) \<Rightarrow> nat \<Rightarrow> nat \<Rightarrow> bytes \<Rightarrow> bytes list \<Rightarrow> bytes list" where
  "path_msgs sha n i x path =
     (if n < 2 \<or> path = [] then []
      else let k = split_point n; h = last path
           in if i < k
              then (case root_from_path sha k i x (butlast path) of None \<Rightarrow> [] | Some r \<Rightarrow> [node_msg r h]) @
                   path_msgs sha k i x (butlast path)
              else (case root_from_path sha (n - k) (i - k) x (butlast path) of
                      None \<Rightarrow> [] | Some r \<Rightarrow> [node_msg h r]) @
                   path_msgs sha (n - k) (i - k) x (butlast path))"
  by pat_completeness auto
termination
proof (relation "measure (\<lambda>(sha, n, i, x, path). n)", goal_cases)
  case (2 sha n i x path k h)
  with split_point_bounds[of n] show ?case by simp
next
  case (3 sha n i x path k h)
  with split_point_bounds[of n] show ?case by simp
qed simp

declare path_msgs.simps [simp del]

function consistency_msgs ::
  "(bytes \<Rightarrow> bytes) \<Rightarrow> nat \<Rightarrow> nat \<Rightarrow> bool \<Rightarrow> bytes \<Rightarrow> bytes list \<Rightarrow> bytes list" where
  "consistency_msgs sha old new t r path =
     (if old = new \<or> new < 2 \<or> path = [] then []
      else let k = split_point new; h = last path
           in if old \<le> k
              then (case roots_from_consistency sha old k t r (butlast path) of
                      None \<Rightarrow> [] | Some (a, b) \<Rightarrow> [node_msg b h]) @
                   consistency_msgs sha old k t r (butlast path)
              else (case roots_from_consistency sha (old - k) (new - k) False r (butlast path) of
                      None \<Rightarrow> [] | Some (a, b) \<Rightarrow> [node_msg h a, node_msg h b]) @
                   consistency_msgs sha (old - k) (new - k) False r (butlast path))"
  by pat_completeness auto
termination
proof (relation "measure (\<lambda>(sha, old, new, t, r, path). new)", goal_cases)
  case (2 sha old new t r path k h)
  with split_point_bounds[of new] show ?case by simp
next
  case (3 sha old new t r path k h)
  with split_point_bounds[of new] show ?case by simp
qed simp

declare consistency_msgs.simps [simp del]

text \<open>Digest-sized values: a node message of two of them can be taken apart again.\<close>

abbreviation digests :: "bytes list \<Rightarrow> bool" where
  "digests hs \<equiv> (\<forall>h \<in> set hs. length h = 32)"

lemma node_msg_eq:
  "length l = 32 \<Longrightarrow> length l' = 32 \<Longrightarrow> node_msg l r = node_msg l' r' \<longleftrightarrow> l = l' \<and> r = r'"
  by (simp add: node_msg_def)

lemma node_hash_eq:
  assumes "node_hash sha l r = node_hash sha l' r'" "inj_on sha M"
    "node_msg l r \<in> M" "node_msg l' r' \<in> M" "length l = 32" "length l' = 32"
  shows "l = l' \<and> r = r'"
  using assms node_msg_eq[OF assms(5,6)] by (auto simp: node_hash_def dest: inj_onD)

lemma merkle_root_length:
  assumes sha: "\<forall>m. length (sha m) = 32"
  shows "hs \<noteq> [] \<Longrightarrow> digests hs \<Longrightarrow> length (merkle_root sha hs) = 32"
  using sha by (cases "length hs = 1") (auto simp: merkle_root.simps[of sha hs] node_hash_def Let_def)

lemma root_from_path_length:
  assumes "\<forall>m. length (sha m) = 32" "length x = 32" "root_from_path sha n i x path = Some r"
  shows "length r = 32"
  using assms by (auto simp: root_from_path.simps[of sha n] node_hash_def Let_def split: if_splits)

lemma digests_last: "digests p \<Longrightarrow> p \<noteq> [] \<Longrightarrow> length (last p) = 32" "digests p \<Longrightarrow> digests (butlast p)"
  by (auto dest: in_set_butlastD)

lemma digests_take: "digests hs \<Longrightarrow> digests (take k hs)" "digests hs \<Longrightarrow> digests (drop k hs)"
  by (auto dest: in_set_takeD in_set_dropD)

lemma inclusion_sound:
  assumes sha: "\<forall>m. length (sha m) = 32" and x: "length x = 32"
  shows "0 < n \<Longrightarrow> length hs = n \<Longrightarrow> i < n \<Longrightarrow> digests hs \<Longrightarrow> digests path \<Longrightarrow>
    root_from_path sha n i x path = Some (merkle_root sha hs) \<Longrightarrow>
    inj_on sha (set (tree_msgs sha hs) \<union> set (path_msgs sha n i x path)) \<Longrightarrow> x = hs ! i"
proof (induction n arbitrary: hs i path rule: tree_induct)
  case leaf
  then obtain h where "hs = [h]" by (cases hs) auto
  then show ?case using leaf by (auto simp: root_from_path.simps split: if_splits)
next
  case (node n)
  define k where "k = split_point n"
  have k: "0 < k" "k < n" "n \<le> 2 * k" using split_point_bounds[OF node(1)] by (simp_all add: k_def)
  note IH = node.IH[folded k_def]
  have n: "length hs = n" "\<not> n < 2" "split_point n = k" using node(1) node.prems(1) by (simp_all add: k_def)
  have path: "path \<noteq> []"
    using node.prems(5) n(2) by (auto simp: root_from_path.simps[of sha n])
  have root: "merkle_root sha hs = node_hash sha (merkle_root sha (take k hs)) (merkle_root sha (drop k hs))"
    using merkle_root_node[of hs sha] n node(1) by simp
  have tm: "set (tree_msgs sha hs) = insert (node_msg (merkle_root sha (take k hs)) (merkle_root sha (drop k hs)))
      (set (tree_msgs sha (take k hs)) \<union> set (tree_msgs sha (drop k hs)))"
    using n by (simp add: tree_msgs.simps[of sha hs] Let_def)
  have len: "length (merkle_root sha (take k hs)) = 32"
    by (rule merkle_root_length[OF sha _ digests_take(1)]) (use node.prems k in auto)
  have bl: "digests (butlast path)" "length (last path) = 32"
    using digests_last[OF node.prems(4)] path by auto
  show ?case
  proof (cases "i < k")
    case True
    obtain r where r: "root_from_path sha k i x (butlast path) = Some r"
      "node_hash sha r (last path) = merkle_root sha hs"
      using node.prems(5) n True path by (auto simp: root_from_path.simps[of sha n] Let_def)
    have pm: "set (path_msgs sha n i x path) =
        insert (node_msg r (last path)) (set (path_msgs sha k i x (butlast path)))"
      using True path r(1) n by (simp add: path_msgs.simps[of sha n] Let_def)
    have "r = merkle_root sha (take k hs)"
      using node_hash_eq[OF r(2)[unfolded root] node.prems(6)] root_from_path_length[OF sha x r(1)] len
      by (simp add: tm pm)
    moreover have "inj_on sha (set (tree_msgs sha (take k hs)) \<union> set (path_msgs sha k i x (butlast path)))"
      by (rule inj_on_subset[OF node.prems(6)]) (auto simp: tm pm)
    ultimately have "x = take k hs ! i"
      using IH(1)[of "take k hs" i "butlast path"] r(1) n k True bl(1) digests_take(1)[OF node.prems(3)] by simp
    then show ?thesis using True by simp
  next
    case False
    obtain r where r: "root_from_path sha (n - k) (i - k) x (butlast path) = Some r"
      "node_hash sha (last path) r = merkle_root sha hs"
      using node.prems(5) n False path by (auto simp: root_from_path.simps[of sha n] Let_def)
    have pm: "set (path_msgs sha n i x path) =
        insert (node_msg (last path) r) (set (path_msgs sha (n - k) (i - k) x (butlast path)))"
      using False path r(1) n by (simp add: path_msgs.simps[of sha n] Let_def)
    have "r = merkle_root sha (drop k hs)"
      using node_hash_eq[OF r(2)[unfolded root] node.prems(6)] bl(2) len by (simp add: tm pm)
    moreover have "inj_on sha (set (tree_msgs sha (drop k hs)) \<union>
        set (path_msgs sha (n - k) (i - k) x (butlast path)))"
      by (rule inj_on_subset[OF node.prems(6)]) (auto simp: tm pm)
    moreover have "i - k < n - k" using node.prems(2) False by simp
    ultimately have "x = drop k hs ! (i - k)"
      using IH(2)[of "drop k hs" "i - k" "butlast path"] r(1) n bl(1) digests_take(2)[OF node.prems(3)] by simp
    then show ?thesis using False n node.prems(2) by simp
  qed
qed

lemma root_injective:
  assumes sha: "\<forall>m. length (sha m) = 32"
  shows "0 < n \<Longrightarrow> length hs = n \<Longrightarrow> length hs' = n \<Longrightarrow> digests hs \<Longrightarrow> digests hs' \<Longrightarrow>
    merkle_root sha hs = merkle_root sha hs' \<Longrightarrow>
    inj_on sha (set (tree_msgs sha hs) \<union> set (tree_msgs sha hs')) \<Longrightarrow> hs = hs'"
proof (induction n arbitrary: hs hs' rule: tree_induct)
  case leaf
  then obtain h h' where "hs = [h]" "hs' = [h']" by (cases hs; cases hs') auto
  then show ?case using leaf by simp
next
  case (node n)
  define k where "k = split_point n"
  have k: "0 < k" "k < n" using split_point_bounds[OF node(1)] by (simp_all add: k_def)
  note IH = node.IH[folded k_def]
  have root: "merkle_root sha xs = node_hash sha (merkle_root sha (take k xs)) (merkle_root sha (drop k xs))"
    and tm: "set (tree_msgs sha xs) = insert (node_msg (merkle_root sha (take k xs)) (merkle_root sha (drop k xs)))
      (set (tree_msgs sha (take k xs)) \<union> set (tree_msgs sha (drop k xs)))"
    and len: "digests xs \<Longrightarrow> length (merkle_root sha (take k xs)) = 32" if n: "length xs = n" for xs
  proof -
    show "merkle_root sha xs = node_hash sha (merkle_root sha (take k xs)) (merkle_root sha (drop k xs))"
      using merkle_root_node[of xs sha] node(1) n by (simp add: k_def)
    show "set (tree_msgs sha xs) = insert (node_msg (merkle_root sha (take k xs)) (merkle_root sha (drop k xs)))
      (set (tree_msgs sha (take k xs)) \<union> set (tree_msgs sha (drop k xs)))"
      using node(1) n by (simp add: tree_msgs.simps[of sha xs] Let_def k_def[symmetric])
    show "length (merkle_root sha (take k xs)) = 32" if "digests xs"
      by (rule merkle_root_length[OF sha _ digests_take(1)]) (use that n k in auto)
  qed
  have eq: "merkle_root sha (take k hs) = merkle_root sha (take k hs')"
    "merkle_root sha (drop k hs) = merkle_root sha (drop k hs')"
    using node_hash_eq[OF node.prems(5)[unfolded root[OF node.prems(1)] root[OF node.prems(2)]] node.prems(6)]
      len node.prems(1-4) by (simp_all add: tm[OF node.prems(1)] tm[OF node.prems(2)])
  have "inj_on sha (set (tree_msgs sha (take k hs)) \<union> set (tree_msgs sha (take k hs')))"
    "inj_on sha (set (tree_msgs sha (drop k hs)) \<union> set (tree_msgs sha (drop k hs')))"
    by (rule inj_on_subset[OF node.prems(6)[unfolded tm[OF node.prems(1)] tm[OF node.prems(2)]]], blast)+
  then have "take k hs = take k hs'" "drop k hs = drop k hs'"
    using IH(1)[of "take k hs" "take k hs'"] IH(2)[of "drop k hs" "drop k hs'"] eq k node.prems(1,2)
      digests_take[OF node.prems(3)] digests_take[OF node.prems(4)] by simp_all
  then show ?case by (metis append_take_drop_id)
qed

lemma roots_length:
  assumes "\<forall>m. length (sha m) = 32" "length r = 32" "digests path"
    "roots_from_consistency sha old new t r path = Some (a, b)"
  shows "length a = 32 \<and> length b = 32"
  using assms(3,4)
proof (induction new arbitrary: old t path a b rule: less_induct)
  case (less new)
  show ?case
  proof (cases "old = new \<or> new < 2 \<or> path = []")
    case True
    then show ?thesis
      using less.prems assms(2)
      by (auto simp: roots_from_consistency.simps[of sha old new] split: if_splits list.splits)
  next
    case False
    have sp: "split_point new < new" using split_point_bounds[of new] False by simp
    have bl: "digests (butlast path)" using digests_last(2)[OF less.prems(1)] .
    show ?thesis
    proof (cases "old \<le> split_point new")
      case True
      then obtain b' where "roots_from_consistency sha old (split_point new) t r (butlast path) = Some (a, b')"
        "b = node_hash sha b' (last path)"
        using less.prems(2) False by (auto simp: roots_from_consistency.simps[of sha old new] Let_def)
      then show ?thesis using less.IH[OF sp bl] assms(1) by (auto simp: node_hash_def)
    next
      case gt: False
      then show ?thesis
        using less.prems(2) False assms(1)
        by (auto simp: roots_from_consistency.simps[of sha old new] Let_def node_hash_def)
    qed
  qed
qed

text \<open>
  If both roots a client recomputes are roots of trees of the claimed sizes, then the smaller tree
  is the beginning of the larger one.
\<close>

lemma consistency_sound:
  assumes sha: "\<forall>m. length (sha m) = 32" and r: "length r = 32"
  shows "0 < new \<Longrightarrow> length ns = new \<Longrightarrow> length os = old \<Longrightarrow> 0 < old \<Longrightarrow> old \<le> new \<Longrightarrow>
    digests ns \<Longrightarrow> digests os \<Longrightarrow> digests path \<Longrightarrow>
    roots_from_consistency sha old new t r path = Some (merkle_root sha os, merkle_root sha ns) \<Longrightarrow>
    inj_on sha (set (tree_msgs sha os) \<union> set (tree_msgs sha ns) \<union>
      set (consistency_msgs sha old new t r path)) \<Longrightarrow> os = take old ns"
proof (induction new arbitrary: ns os old t path rule: tree_induct)
  case leaf
  then obtain h h' where "ns = [h]" "os = [h']" by (cases ns; cases os) auto
  then show ?case
    using leaf by (auto simp: roots_from_consistency.simps split: if_splits list.splits)
next
  case (node n)
  define k where "k = split_point n"
  have k: "0 < k" "k < n" "split_point n = k" using split_point_bounds[OF node(1)] by (simp_all add: k_def)
  note IH = node.IH[folded k_def] and inj = node.prems(9)
  have n2: "\<not> n < 2" using node(1) by simp
  have ns: "merkle_root sha ns = node_hash sha (merkle_root sha (take k ns)) (merkle_root sha (drop k ns))"
    "set (tree_msgs sha ns) = insert (node_msg (merkle_root sha (take k ns)) (merkle_root sha (drop k ns)))
      (set (tree_msgs sha (take k ns)) \<union> set (tree_msgs sha (drop k ns)))"
    "length (merkle_root sha (take k ns)) = 32"
  proof -
    show "merkle_root sha ns = node_hash sha (merkle_root sha (take k ns)) (merkle_root sha (drop k ns))"
      using merkle_root_node[of ns sha] node(1) node.prems(1) k(3) by simp
    show "set (tree_msgs sha ns) = insert (node_msg (merkle_root sha (take k ns)) (merkle_root sha (drop k ns)))
      (set (tree_msgs sha (take k ns)) \<union> set (tree_msgs sha (drop k ns)))"
      using node(1) node.prems(1) k(3) by (simp add: tree_msgs.simps[of sha ns] Let_def)
    show "length (merkle_root sha (take k ns)) = 32"
      by (rule merkle_root_length[OF sha _ digests_take(1)]) (use node.prems k in auto)
  qed
  show ?case
  proof (cases "old = n")
    case True
    then have "merkle_root sha os = merkle_root sha ns"
      using node.prems(8) by (auto simp: roots_from_consistency.simps[of sha n] split: if_splits list.splits)
    moreover have "inj_on sha (set (tree_msgs sha os) \<union> set (tree_msgs sha ns))"
      by (rule inj_on_subset[OF inj]) blast
    ultimately have "os = ns"
      using root_injective[OF sha, of n os ns] node(1) node.prems(1,2,5,6) True by simp
    then show ?thesis using node.prems(1) True by simp
  next
    case False
    have path: "path \<noteq> []"
      using node.prems(8) n2 False by (auto simp: roots_from_consistency.simps[of sha old n])
    have bl: "digests (butlast path)" "length (last path) = 32"
      using digests_last[OF node.prems(7)] path by auto
    show ?thesis
    proof (cases "old \<le> k")
      case True
      obtain b where b: "roots_from_consistency sha old k t r (butlast path) = Some (merkle_root sha os, b)"
        "node_hash sha b (last path) = merkle_root sha ns"
        using node.prems(8) n2 False True path k(3)
        by (auto simp: roots_from_consistency.simps[of sha old n] Let_def)
      have cm: "set (consistency_msgs sha old n t r path) =
          insert (node_msg b (last path)) (set (consistency_msgs sha old k t r (butlast path)))"
        using False True path b(1) n2 k(3) by (simp add: consistency_msgs.simps[of sha old n] Let_def)
      have "b = merkle_root sha (take k ns)"
        using node_hash_eq[OF b(2)[unfolded ns(1)] inj] roots_length[OF sha r bl(1) b(1)] ns(2,3) cm by simp
      moreover have "inj_on sha (set (tree_msgs sha os) \<union> set (tree_msgs sha (take k ns)) \<union>
          set (consistency_msgs sha old k t r (butlast path)))"
        by (rule inj_on_subset[OF inj[unfolded ns(2) cm]]) blast
      ultimately have "os = take old (take k ns)"
        using IH(1)[of "take k ns" os old "butlast path" t] b(1) node.prems(1-4) k True bl(1)
          digests_take(1)[OF node.prems(5)] node.prems(6) by simp
      then show ?thesis using True by (simp add: min_def)
    next
      case gt: False
      have old2: "2 \<le> old" using gt k(1) by linarith
      have sp: "split_point old = k" using split_point_eq[OF node(1), of old] gt k(3) node.prems(4) by simp
      have os: "merkle_root sha os = node_hash sha (merkle_root sha (take k os)) (merkle_root sha (drop k os))"
        "set (tree_msgs sha os) = insert (node_msg (merkle_root sha (take k os)) (merkle_root sha (drop k os)))
          (set (tree_msgs sha (take k os)) \<union> set (tree_msgs sha (drop k os)))"
        "length (merkle_root sha (take k os)) = 32"
      proof -
        show "merkle_root sha os = node_hash sha (merkle_root sha (take k os)) (merkle_root sha (drop k os))"
          using merkle_root_node[of os sha] old2 node.prems(2) sp by simp
        show "set (tree_msgs sha os) = insert (node_msg (merkle_root sha (take k os)) (merkle_root sha (drop k os)))
            (set (tree_msgs sha (take k os)) \<union> set (tree_msgs sha (drop k os)))"
          using old2 node.prems(2) sp by (simp add: tree_msgs.simps[of sha os] Let_def)
        show "length (merkle_root sha (take k os)) = 32"
          by (rule merkle_root_length[OF sha _ digests_take(1)]) (use node.prems k gt in auto)
      qed
      obtain a b where ab: "roots_from_consistency sha (old - k) (n - k) False r (butlast path) = Some (a, b)"
        "node_hash sha (last path) a = merkle_root sha os" "node_hash sha (last path) b = merkle_root sha ns"
        using node.prems(8) n2 False gt path k(3)
        by (auto simp: roots_from_consistency.simps[of sha old n] Let_def)
      have cm: "set (consistency_msgs sha old n t r path) =
          {node_msg (last path) a, node_msg (last path) b} \<union>
          set (consistency_msgs sha (old - k) (n - k) False r (butlast path))"
        using False gt path ab(1) n2 k(3) by (auto simp: consistency_msgs.simps[of sha old n] Let_def)
      have 1: "last path = merkle_root sha (take k os)" "a = merkle_root sha (drop k os)"
        using node_hash_eq[OF ab(2)[unfolded os(1)] inj] bl(2) os(2,3) cm by simp_all
      have 2: "last path = merkle_root sha (take k ns)" "b = merkle_root sha (drop k ns)"
        using node_hash_eq[OF ab(3)[unfolded ns(1)] inj] bl(2) ns(2,3) cm by simp_all
      note inj' = inj[unfolded ns(2) os(2) cm]
      have "inj_on sha (set (tree_msgs sha (drop k os)) \<union> set (tree_msgs sha (drop k ns)) \<union>
          set (consistency_msgs sha (old - k) (n - k) False r (butlast path)))"
        by (rule inj_on_subset[OF inj']) blast
      then have "drop k os = take (old - k) (drop k ns)"
        using IH(2)[of "drop k ns" "drop k os" "old - k" "butlast path" False] ab(1) 1(2) 2(2)
          node.prems(1-4) gt bl(1) digests_take(2)[OF node.prems(5)] digests_take(2)[OF node.prems(6)] by simp
      moreover have "inj_on sha (set (tree_msgs sha (take k os)) \<union> set (tree_msgs sha (take k ns)))"
        by (rule inj_on_subset[OF inj']) blast
      then have "take k os = take k ns"
        using root_injective[OF sha k(1), of "take k os" "take k ns"] 1(1) 2(1) node.prems(1,2,4) gt k
          digests_take(1)[OF node.prems(5)] digests_take(1)[OF node.prems(6)] by simp
      ultimately have "os = take k ns @ take (old - k) (drop k ns)"
        by (metis append_take_drop_id)
      also have "\<dots> = take old ns" using gt by (metis take_add le_add_diff_inverse nat_le_linear)
      finally show ?thesis .
    qed
  qed
qed

section \<open>Properties\<close>

text \<open>
  C19. Inclusion proofs. For every leaf the service computes an audit path from which a client
  recomputes the root of the tree; and any leaf hash and path (of digests) from which it recomputes
  that root at that position is the leaf stored there, unless SHA-256 maps two different messages
  among those hashed by the tree and by the client to the same digest.
\<close>

theorem inclusion_proof_correct:
  assumes "i < length hs" "digests hs" "\<forall>m. length (sha m) = 32"
  shows "(\<exists>path. inclusion_path sha hs (int i) = Inr (map hex_of path) \<and>
      root_from_path sha (length hs) i (hs ! i) path = Some (merkle_root sha hs)) \<and>
    (\<forall>x path. length x = 32 \<longrightarrow> digests path \<longrightarrow>
      root_from_path sha (length hs) i x path = Some (merkle_root sha hs) \<longrightarrow>
      x = hs ! i \<or> \<not> inj_on sha (set (tree_msgs sha hs) \<union> set (path_msgs sha (length hs) i x path)))"
proof (intro conjI allI impI)
  show "\<exists>path. inclusion_path sha hs (int i) = Inr (map hex_of path) \<and>
      root_from_path sha (length hs) i (hs ! i) path = Some (merkle_root sha hs)"
    by (rule inclusion_complete[OF assms(1)])
next
  fix x path
  assume "length x = 32" "digests path" "root_from_path sha (length hs) i x path = Some (merkle_root sha hs)"
  then show "x = hs ! i \<or> \<not> inj_on sha (set (tree_msgs sha hs) \<union> set (path_msgs sha (length hs) i x path))"
    using inclusion_sound[OF assms(3) _ le_less_trans[OF le0 assms(1)] refl assms(1,2)] by blast
qed

definition sample_leaves :: "bytes list" where
  "sample_leaves = [replicate 32 (CHR ''a''), replicate 32 (CHR ''b'')]"

definition sample_sha :: "bytes \<Rightarrow> bytes" where
  "sample_sha m = replicate 32 (CHR 0x00)"

lemma sample_leaves_simps:
  "length sample_leaves = 2" "digests sample_leaves" "split_point 2 = 1" "\<forall>m. length (sample_sha m) = 32"
  by (simp_all add: sample_leaves_def sample_sha_def split_point_def bit_length.simps)

theorem inclusion_proof_correct_witness:
  "\<exists>path. inclusion_path sample_sha sample_leaves 0 = Inr (map hex_of path) \<and>
     root_from_path sample_sha 2 0 (sample_leaves ! 0) path = Some (merkle_root sample_sha sample_leaves)"
proof -
  have "0 < length sample_leaves" by (simp add: sample_leaves_def)
  from inclusion_proof_correct[OF this sample_leaves_simps(2,4)] show ?thesis
    unfolding sample_leaves_simps(1) by simp
qed

text \<open>
  C20. Consistency proofs. Between any two sizes of a log the service computes a path from which a
  client that trusts the old root recomputes both roots; and if both recomputed roots are those of
  trees of the claimed sizes, the old tree is the beginning of the new one: the log was only
  appended to, unless SHA-256 maps two different of the messages hashed to the same digest.
\<close>

theorem consistency_proof_correct:
  assumes "0 < old" "old \<le> new" "new \<le> length hs" "digests hs" "\<forall>m. length (sha m) = 32"
  shows "(\<exists>path. consistency_path sha hs (int old) (int new) = Inr (map hex_of path) \<and>
      roots_from_consistency sha old new True (merkle_root sha (take old hs)) path =
        Some (merkle_root sha (take old hs), merkle_root sha (take new hs))) \<and>
    (\<forall>os path. length os = old \<longrightarrow> digests os \<longrightarrow> digests path \<longrightarrow>
      roots_from_consistency sha old new True (merkle_root sha os) path =
        Some (merkle_root sha os, merkle_root sha (take new hs)) \<longrightarrow>
      os = take old hs \<or> \<not> inj_on sha (set (tree_msgs sha os) \<union> set (tree_msgs sha (take new hs)) \<union>
        set (consistency_msgs sha old new True (merkle_root sha os) path)))"
proof (intro conjI allI impI)
  have len: "length (take new hs) = new" using assms(3) by simp
  obtain p where p: "consistency_path_rec sha old (take new hs) True = Inr p"
    "roots_from_consistency sha old new True (merkle_root sha (take old hs)) p =
       Some (merkle_root sha (take old hs), merkle_root sha (take new hs))"
    using consistency_complete[of old "take new hs" sha True] assms len by (auto simp: min_def)
  have "old = new \<Longrightarrow> p = []" using p(1) len by (simp add: consistency_path_rec.simps)
  then have "consistency_path sha hs (int old) (int new) = Inr (map hex_of p)"
    using assms p(1) by (auto simp: consistency_path_def)
  with p(2) show "\<exists>path. consistency_path sha hs (int old) (int new) = Inr (map hex_of path) \<and>
      roots_from_consistency sha old new True (merkle_root sha (take old hs)) path =
        Some (merkle_root sha (take old hs), merkle_root sha (take new hs))" by blast
next
  fix os path
  assume a: "length os = old" "digests os" "digests path"
    "roots_from_consistency sha old new True (merkle_root sha os) path =
       Some (merkle_root sha os, merkle_root sha (take new hs))"
  have "length (merkle_root sha os) = 32" by (rule merkle_root_length[OF assms(5)]) (use a assms(1) in auto)
  moreover have "length (take new hs) = new" "0 < new" using assms(1-3) by auto
  ultimately have "inj_on sha (set (tree_msgs sha os) \<union> set (tree_msgs sha (take new hs)) \<union>
        set (consistency_msgs sha old new True (merkle_root sha os) path)) \<Longrightarrow> os = take old (take new hs)"
    using consistency_sound[OF assms(5), of "merkle_root sha os" new "take new hs" os old path True] a
      assms(1,2) digests_take(1)[OF assms(4), of new] by blast
  then show "os = take old hs \<or> \<not> inj_on sha (set (tree_msgs sha os) \<union> set (tree_msgs sha (take new hs)) \<union>
        set (consistency_msgs sha old new True (merkle_root sha os) path))"
    using assms(2) by (auto simp: min_def)
qed

theorem consistency_proof_correct_witness:
  "consistency_path sample_sha sample_leaves 1 2 = Inr [hex_of (sample_leaves ! 1)] \<and>
   (\<exists>path. roots_from_consistency sample_sha 1 2 True (sample_leaves ! 0) path =
      Some (sample_leaves ! 0, merkle_root sample_sha sample_leaves))"
proof -
  have p: "consistency_path sample_sha sample_leaves 1 2 = Inr [hex_of (sample_leaves ! 1)]"
    by (simp add: consistency_path_def consistency_path_rec.simps largest_power_of_two_less_than_def
        sample_leaves_def split_point_def bit_length.simps)
  have "(2::nat) \<le> length sample_leaves" by (simp add: sample_leaves_def)
  from consistency_proof_correct[OF _ _ this sample_leaves_simps(2,4), of 1] p show ?thesis
    by (auto simp: sample_leaves_def)
qed

end
