(* ===== verification/TransparencyLog.thy ===== *)
theory TransparencyLog
  imports Merkle CapabilityToken
begin

text \<open>
  \<open>src/app/services/transparency_log.py\<close> and the statements of
  \<open>src/app/services/transparency_format.py\<close>: an append-only log of receipt digests with a hash
  chain over the appends, signed checkpoints of its Merkle root, inclusion and consistency proofs,
  and an integrity audit that is run before every publication. The tables are shared by several
  logs. SHA-256, the RFC 8785 canonicalisation and the managed checkpoint signer are parameters.
\<close>

section \<open>Tables\<close>

datatype checkpoint_status = CP_requested | CP_completed | CP_failed

record log_state =
  ls_log_id :: ident
  ls_log_identity :: dict
  ls_next_leaf_index :: int
  ls_append_chain_head :: "string option"
  ls_latest_checkpoint_size :: "int option"
  ls_latest_checkpoint_digest :: "string option"

record log_leaf =
  lf_leaf_id :: ident
  lf_log_id :: ident
  lf_leaf_index :: int
  lf_receipt_digest :: string
  lf_leaf_hash :: string
  lf_append_chain_hash :: string
  lf_ingested_at :: time

record checkpoint_record =
  cp_checkpoint_id :: ident
  cp_log_id :: ident
  cp_tree_size :: int
  cp_root_hash :: string
  cp_key_id :: "string option"
  cp_status :: checkpoint_status
  cp_signing_input_digest :: "string option"
  cp_checkpoint_digest :: "string option"
  cp_prior_checkpoint_digest :: "string option"
  cp_provider_operation_ref :: "string option"
  cp_checkpoint_artifact :: "dict option"
  cp_actor :: "string \<times> ident"
  cp_error_code :: "string option"
  cp_error_detail :: "string option"
  cp_issued_at :: "time option"
  cp_completed_at :: "time option"

record integrity_event =
  ie_event_id :: ident
  ie_log_id :: ident
  ie_error_codes :: "string list"
  ie_leaf_count :: nat
  ie_checkpoint_count :: nat
  ie_detected_at :: time

record log_db =
  log_states :: "log_state list"
  log_leaves :: "log_leaf list"
  checkpoints :: "checkpoint_record list"
  integrity_events :: "integrity_event list"
  log_next_uuid :: nat

text \<open>
  A configured service: the identity of its log and what it takes from outside. The signer gets the
  statement and the idempotency token and returns key, signature and operation reference.
\<close>

record log_env =
  le_identity :: dict
  le_now :: time
  le_uuid :: "nat \<Rightarrow> ident"
  le_sha :: "bytes \<Rightarrow> bytes"
  le_jcs :: "json \<Rightarrow> bytes"
  le_signer :: "(dict \<Rightarrow> ident \<Rightarrow> log_error + string \<times> bytes \<times> string) option"

definition log_id :: "log_env \<Rightarrow> ident" where
  "log_id env = (case jget (le_identity env) ''id'' of JStr s \<Rightarrow> s | _ \<Rightarrow> [])"

definition non_empty_str :: "json \<Rightarrow> bool" where
  "non_empty_str v \<longleftrightarrow> (case v of JStr s \<Rightarrow> s \<noteq> [] | _ \<Rightarrow> False)"

definition validate_log_identity :: "dict \<Rightarrow> log_error + dict" where
  "validate_log_identity ident =
     (if \<not> non_empty_str (jget ident ''type'')
      then Inl (TransparencyFormatError ''log identity type must be a non-empty string'')
      else if \<not> non_empty_str (jget ident ''id'')
      then Inl (TransparencyFormatError ''log identity id must be a non-empty string'')
      else Inr ident)"

definition normalize_digest :: "json \<Rightarrow> log_error + string" where
  "normalize_digest v =
     (case v of
        JObj m \<Rightarrow>
          if jget m ''algorithm'' \<noteq> JStr ''sha-256''
          then Inl (TransparencyFormatError ''receipt digest algorithm must be sha-256'')
          else if jget m ''canonicalization'' \<noteq> JStr ''RFC8785-JCS''
          then Inl (TransparencyFormatError ''receipt digest canonicalization must be RFC8785-JCS'')
          else (case jget m ''value'' of
                  JStr s \<Rightarrow> normalize_receipt_digest s
                | _ \<Rightarrow> Inl (TransparencyFormatError
                    ''receipt digest must be a lowercase 64-character SHA-256 hex value''))
      | JStr s \<Rightarrow> normalize_receipt_digest s
      | _ \<Rightarrow> Inl (TransparencyFormatError
               ''receipt digest must be a lowercase 64-character SHA-256 hex value''))"

section \<open>Hash chain and statements\<close>

text \<open>\<open>int.to_bytes(8, "big", signed=False)\<close>.\<close>

definition to_bytes8 :: "int \<Rightarrow> log_error + bytes" where
  "to_bytes8 n =
     (if n < 0 \<or> 2 ^ 64 \<le> n then Inl (LogOverflowError ''int too big to convert'')
      else Inr (map (\<lambda>j. char_of (n div 256 ^ (7 - j) mod 256)) [0..<8]))"

definition append_chain_hash ::
  "(bytes \<Rightarrow> bytes) \<Rightarrow> string option \<Rightarrow> int \<Rightarrow> string \<Rightarrow> string \<Rightarrow> log_error + string" where
  "append_chain_hash sha prev idx digest leafhash =
     (case (case prev of None \<Rightarrow> Some (replicate 32 (CHR 0x00))
              | Some p \<Rightarrow> if p = [] then Some (replicate 32 (CHR 0x00)) else from_hex p) of
        None \<Rightarrow> Inl (LogValueError ''non-hexadecimal number'')
      | Some p \<Rightarrow>
          (case to_bytes8 idx of
             Inl e \<Rightarrow> Inl e
           | Inr i \<Rightarrow>
               (case (from_hex digest, from_hex leafhash) of
                  (Some a, Some b) \<Rightarrow> Inr (hex_of (sha (p @ i @ a @ b)))
                | _ \<Rightarrow> Inl (LogValueError ''non-hexadecimal number''))))"

definition build_checkpoint_statement ::
  "dict \<Rightarrow> int \<Rightarrow> string \<Rightarrow> time \<Rightarrow> log_error + dict" where
  "build_checkpoint_statement identity tree_size root_hash issued_at =
     (case validate_log_identity identity of
        Inl e \<Rightarrow> Inl e
      | Inr ident \<Rightarrow>
          if tree_size < 0
          then Inl (TransparencyFormatError ''checkpoint tree size must be non-negative'')
          else if \<not> hex_256 root_hash
          then Inl (TransparencyFormatError ''checkpoint root must be lowercase SHA-256 hex'')
          else Inr [(''context'', JStr ''actenon.transparency-checkpoint.v1''), (''log'', JObj ident),
                    (''tree_size'', JInt tree_size),
                    (''root_hash'', JObj [(''algorithm'', JStr ''sha-256''), (''encoding'', JStr ''hex''),
                                          (''value'', JStr root_hash)]),
                    (''issued_at'', JInt (issued_at div 1000000))])"

definition build_checkpoint_artifact :: "dict \<Rightarrow> string \<Rightarrow> bytes \<Rightarrow> dict" where
  "build_checkpoint_artifact st key_id signature =
     [(''contract'', JObj [(''name'', JStr ''transparency_checkpoint''), (''version'', JStr ''v1'')]),
      (''log'', jget st ''log''), (''tree_size'', jget st ''tree_size''),
      (''root_hash'', jget st ''root_hash''), (''issued_at'', jget st ''issued_at''),
      (''signature'', JObj [(''algorithm'', JStr ''EdDSA''), (''key_id'', JStr key_id),
         (''encoding'', JStr ''base64url''), (''value'', JStr (b64url_encode signature))])]"

definition artifact_digest :: "log_env \<Rightarrow> dict \<Rightarrow> string" where
  "artifact_digest env a = hex_of (le_sha env (le_jcs env (JObj a)))"

record inclusion_artifact =
  pf_log_id :: ident
  pf_tree_size :: int
  pf_leaf_index :: int
  pf_leaf_digest :: string
  pf_audit_path :: "string list"

record consistency_artifact =
  cf_log_id :: ident
  cf_old_tree_size :: int
  cf_new_tree_size :: int
  cf_path :: "string list"

section \<open>Reading the tables\<close>

definition state_of :: "ident \<Rightarrow> log_db \<Rightarrow> log_state option" where
  "state_of lid d = find (\<lambda>s. ls_log_id s = lid) (log_states d)"

text \<open>
  \<open>_locked_state\<close>. The identity stored with the log must be the configured one; a state that is
  created here carries it.
\<close>

definition locked_state :: "log_env \<Rightarrow> bool \<Rightarrow> log_db \<Rightarrow> log_error + log_state option \<times> log_db" where
  "locked_state env create d =
     (case state_of (log_id env) d of
        Some s \<Rightarrow>
          if py_eq (JObj (ls_log_identity s)) (JObj (le_identity env)) then Inr (Some s, d)
          else Inl (TransparencyLogIntegrityError
                 ''stored transparency-log identity does not match configured identity'')
      | None \<Rightarrow>
          if create
          then (let s = \<lparr>ls_log_id = log_id env, ls_log_identity = le_identity env, ls_next_leaf_index = 0,
                       ls_append_chain_head = None, ls_latest_checkpoint_size = None,
                       ls_latest_checkpoint_digest = None\<rparr>
                in Inr (Some s, d\<lparr>log_states := tinsert s (log_states d)\<rparr>))
          else Inr (None, d))"

definition leaves_of :: "ident \<Rightarrow> log_db \<Rightarrow> log_leaf list" where
  "leaves_of lid d = sort_key lf_leaf_index [l \<leftarrow> log_leaves d. lf_log_id l = lid]"

definition leaves_below :: "ident \<Rightarrow> int \<Rightarrow> log_db \<Rightarrow> log_leaf list" where
  "leaves_below lid n d = [l \<leftarrow> leaves_of lid d. lf_leaf_index l < n]"

fun hash_bytes :: "log_leaf list \<Rightarrow> log_error + bytes list" where
  "hash_bytes [] = Inr []"
| "hash_bytes (l # ls) =
     (case (from_hex (lf_leaf_hash l), hash_bytes ls) of
        (None, _) \<Rightarrow> Inl (LogValueError ''non-hexadecimal number'')
      | (Some b, Inl e) \<Rightarrow> Inl e
      | (Some b, Inr bs) \<Rightarrow> Inr (b # bs))"

definition completed :: "ident \<Rightarrow> log_db \<Rightarrow> checkpoint_record list" where
  "completed lid d =
     sort_key cp_tree_size [c \<leftarrow> checkpoints d. cp_log_id c = lid \<and> cp_status c = CP_completed]"

definition checkpoint_record_of :: "ident \<Rightarrow> int option \<Rightarrow> log_db \<Rightarrow> log_error + checkpoint_record" where
  "checkpoint_record_of lid n d =
     (case (case n of None \<Rightarrow> (case rev (completed lid d) of [] \<Rightarrow> None | c # _ \<Rightarrow> Some c)
              | Some k \<Rightarrow> find (\<lambda>c. cp_tree_size c = k) (completed lid d)) of
        None \<Rightarrow> Inl (TransparencyLogNotFoundError ''transparency checkpoint was not found'')
      | Some c \<Rightarrow> Inr c)"

definition checkpoint_artifact_of :: "checkpoint_record \<Rightarrow> log_error + dict" where
  "checkpoint_artifact_of c =
     (case cp_checkpoint_artifact c of
        None \<Rightarrow> Inl (TransparencyLogNotFoundError ''transparency checkpoint was not found'')
      | Some a \<Rightarrow> Inr a)"

section \<open>Append\<close>

definition append_receipt_digest ::
  "log_env \<Rightarrow> json \<Rightarrow> log_db \<Rightarrow> (log_error + int \<times> string \<times> bool) \<times> log_db" where
  "append_receipt_digest env v d =
     (case normalize_digest v of
        Inl e \<Rightarrow> (Inl e, d)
      | Inr digest \<Rightarrow>
          (case locked_state env True d of
             Inl e \<Rightarrow> (Inl e, d)
           | Inr (None, d1) \<Rightarrow> (Inl (LogValueError ''no state''), d)
           | Inr (Some s, d1) \<Rightarrow>
               (case find (\<lambda>l. lf_log_id l = log_id env \<and> lf_receipt_digest l = digest) (log_leaves d1) of
                  Some l \<Rightarrow> (Inr (lf_leaf_index l, digest, True), d)
                | None \<Rightarrow>
                    (case leaf_hash (le_sha env) digest of
                       Inl e \<Rightarrow> (Inl e, d)
                     | Inr h \<Rightarrow>
                         (case append_chain_hash (le_sha env) (ls_append_chain_head s)
                                 (ls_next_leaf_index s) digest (hex_of h) of
                            Inl e \<Rightarrow> (Inl e, d)
                          | Inr chain \<Rightarrow>
                              let idx = ls_next_leaf_index s;
                                  l = \<lparr>lf_leaf_id = le_uuid env (log_next_uuid d1), lf_log_id = log_id env,
                                       lf_leaf_index = idx, lf_receipt_digest = digest,
                                       lf_leaf_hash = hex_of h, lf_append_chain_hash = chain,
                                       lf_ingested_at = le_now env\<rparr>
                              in (Inr (idx, digest, False),
                                  d1\<lparr>log_leaves := tinsert l (log_leaves d1),
                                     log_states := tmodify ls_log_id (log_id env)
                                       (\<lambda>s. s\<lparr>ls_next_leaf_index := idx + 1, ls_append_chain_head := Some chain\<rparr>)
                                       (log_states d1),
                                     log_next_uuid := Suc (log_next_uuid d1)\<rparr>))))))"

section \<open>Audit\<close>

text \<open>The loop over the leaves: the error codes found and the last chain hash it expects.\<close>

fun audit_leaves ::
  "(bytes \<Rightarrow> bytes) \<Rightarrow> int \<Rightarrow> string option \<Rightarrow> log_leaf list \<Rightarrow> log_error + string list \<times> string option" where
  "audit_leaves sha i prev [] = Inr ([], prev)"
| "audit_leaves sha i prev (l # ls) =
     (case leaf_hash sha (lf_receipt_digest l) of
        Inl e \<Rightarrow> Inl e
      | Inr h \<Rightarrow>
          (case append_chain_hash sha prev (lf_leaf_index l) (lf_receipt_digest l) (hex_of h) of
             Inl e \<Rightarrow> Inl e
           | Inr chain \<Rightarrow>
               (case audit_leaves sha (i + 1) (Some chain) ls of
                  Inl e \<Rightarrow> Inl e
                | Inr (errs, final) \<Rightarrow>
                    Inr ((if lf_leaf_index l \<noteq> i then [''LEAF_INDEX_GAP''] else []) @
                         (if lf_leaf_hash l \<noteq> hex_of h then [''LEAF_HASH_MISMATCH''] else []) @
                         (if lf_append_chain_hash l \<noteq> chain then [''APPEND_CHAIN_MISMATCH''] else []) @
                         errs, final))))"

definition audit_state ::
  "log_state option \<Rightarrow> log_leaf list \<Rightarrow> checkpoint_record list \<Rightarrow> string option \<Rightarrow> string list" where
  "audit_state st ls cs chain =
     (case st of
        None \<Rightarrow> if ls \<noteq> [] \<or> cs \<noteq> [] then [''LOG_STATE_MISSING''] else []
      | Some s \<Rightarrow>
          (if ls_next_leaf_index s \<noteq> int (length ls) then [''TREE_SIZE_STATE_MISMATCH''] else []) @
          (if ls_append_chain_head s \<noteq> chain then [''APPEND_CHAIN_HEAD_MISMATCH''] else []))"

text \<open>
  The loop over the completed checkpoints. A checkpoint ahead of the log is skipped and leaves
  size and digest of the previous one in place; a negative size slices from the end, as in Python.
\<close>

definition py_take :: "int \<Rightarrow> 'a list \<Rightarrow> 'a list" where
  "py_take n xs = (if n < 0 then take (length xs - nat (- n)) xs else take (nat n) xs)"

fun audit_checkpoints ::
  "log_env \<Rightarrow> log_leaf list \<Rightarrow> string option \<Rightarrow> int \<Rightarrow> checkpoint_record list \<Rightarrow> log_error + string list" where
  "audit_checkpoints env ls prior_digest prior_size [] = Inr []"
| "audit_checkpoints env ls prior_digest prior_size (c # cs) =
     (let e1 = (if cp_tree_size c \<le> prior_size then [''CHECKPOINT_NON_MONOTONIC''] else [])
      in if int (length ls) < cp_tree_size c
         then map_sum id (\<lambda>errs. e1 @ [''CHECKPOINT_AHEAD_OF_LOG''] @ errs)
                (audit_checkpoints env ls prior_digest prior_size cs)
         else (case hash_bytes (py_take (cp_tree_size c) ls) of
                 Inl e \<Rightarrow> Inl e
               | Inr hs \<Rightarrow>
                   map_sum id (\<lambda>errs. e1 @
                       (if cp_root_hash c \<noteq> hex_of (merkle_root (le_sha env) hs)
                        then [''CHECKPOINT_ROOT_MISMATCH''] else []) @
                       (if cp_prior_checkpoint_digest c \<noteq> prior_digest
                        then [''CHECKPOINT_CHAIN_MISMATCH''] else []) @
                       (case cp_checkpoint_artifact c of
                          None \<Rightarrow> [''CHECKPOINT_ARTIFACT_MISSING'']
                        | Some a \<Rightarrow> if cp_checkpoint_digest c \<noteq> Some (artifact_digest env a)
                                     then [''CHECKPOINT_DIGEST_MISMATCH''] else []) @ errs)
                     (audit_checkpoints env ls (cp_checkpoint_digest c) (cp_tree_size c) cs)))"

definition audit_latest :: "log_state option \<Rightarrow> checkpoint_record list \<Rightarrow> string list" where
  "audit_latest st cs =
     (case st of
        None \<Rightarrow> []
      | Some s \<Rightarrow>
          (if ls_latest_checkpoint_size s \<noteq> (if cs = [] then None else Some (cp_tree_size (last cs)))
           then [''LATEST_CHECKPOINT_SIZE_MISMATCH''] else []) @
          (if ls_latest_checkpoint_digest s \<noteq> (if cs = [] then None else cp_checkpoint_digest (last cs))
           then [''LATEST_CHECKPOINT_DIGEST_MISMATCH''] else []))"

record integrity_report =
  rp_log_id :: ident
  rp_ok :: bool
  rp_leaf_count :: nat
  rp_checkpoint_count :: nat
  rp_latest_checkpoint_size :: "int option"
  rp_error_codes :: "string list"

text \<open>\<open>tuple(dict.fromkeys(errors))\<close>: the codes in the order of their first occurrence.\<close>

definition unique_codes :: "string list \<Rightarrow> string list" where
  "unique_codes errs = rev (remdups (rev errs))"

definition audit_integrity ::
  "log_env \<Rightarrow> bool \<Rightarrow> log_db \<Rightarrow> (log_error + integrity_report) \<times> log_db" where
  "audit_integrity env record_failure d =
     (case locked_state env False d of
        Inl e \<Rightarrow> (Inl e, d)
      | Inr (st, _) \<Rightarrow>
          (let ls = leaves_of (log_id env) d; cs = completed (log_id env) d
           in case audit_leaves (le_sha env) 0 None ls of
                Inl e \<Rightarrow> (Inl e, d)
              | Inr (errs1, chain) \<Rightarrow>
                  (case audit_checkpoints env ls None (- 1) cs of
                     Inl e \<Rightarrow> (Inl e, d)
                   | Inr errs2 \<Rightarrow>
                       let errs = unique_codes (errs1 @ audit_state st ls cs chain @ errs2 @ audit_latest st cs);
                           report = \<lparr>rp_log_id = log_id env, rp_ok = (errs = []), rp_leaf_count = length ls,
                             rp_checkpoint_count = length cs,
                             rp_latest_checkpoint_size =
                               (if cs = [] then None else Some (cp_tree_size (last cs))),
                             rp_error_codes = errs\<rparr>
                       in (Inr report,
                           if errs \<noteq> [] \<and> record_failure
                           then d\<lparr>integrity_events := tinsert \<lparr>ie_event_id = le_uuid env (log_next_uuid d),
                                    ie_log_id = log_id env, ie_error_codes = errs, ie_leaf_count = length ls,
                                    ie_checkpoint_count = length cs, ie_detected_at = le_now env\<rparr>
                                  (integrity_events d), log_next_uuid := Suc (log_next_uuid d)\<rparr>
                           else d))))"

section \<open>Checkpoints\<close>

definition sized :: "ident \<Rightarrow> int \<Rightarrow> checkpoint_record \<Rightarrow> bool" where
  "sized lid n c \<longleftrightarrow> cp_log_id c = lid \<and> cp_tree_size c = n"

text \<open>\<open>exc.__class__.__name__\<close>; a signer's own exception carries the name of its class.\<close>

fun error_class :: "log_error \<Rightarrow> string" where
  "error_class (TransparencyFormatError _) = ''TransparencyFormatError''"
| "error_class (TransparencyLogConfigurationError _) = ''TransparencyLogConfigurationError''"
| "error_class (TransparencyLogNotFoundError _) = ''TransparencyLogNotFoundError''"
| "error_class (TransparencyLogIntegrityError _) = ''TransparencyLogIntegrityError''"
| "error_class (LogOverflowError _) = ''OverflowError''"
| "error_class (LogValueError _) = ''ValueError''"
| "error_class (SignerError c) = c"

text \<open>The row a publication works on: a new one, or the one an earlier failed attempt left.\<close>

definition requested_checkpoint ::
  "log_env \<Rightarrow> (string \<times> ident) \<Rightarrow> int \<Rightarrow> string \<Rightarrow> string option \<Rightarrow> log_db \<Rightarrow> checkpoint_record option \<Rightarrow>
   checkpoint_record" where
  "requested_checkpoint env actor n rhash prior d existing =
     (case existing of
        None \<Rightarrow>
          \<lparr>cp_checkpoint_id = le_uuid env (log_next_uuid d), cp_log_id = log_id env, cp_tree_size = n,
           cp_root_hash = rhash, cp_key_id = None, cp_status = CP_requested,
           cp_signing_input_digest = None, cp_checkpoint_digest = None,
           cp_prior_checkpoint_digest = prior, cp_provider_operation_ref = None,
           cp_checkpoint_artifact = None, cp_actor = actor, cp_error_code = None,
           cp_error_detail = None, cp_issued_at = None, cp_completed_at = None\<rparr>
      | Some c \<Rightarrow>
          c\<lparr>cp_root_hash := rhash, cp_status := CP_requested, cp_prior_checkpoint_digest := prior,
            cp_actor := actor, cp_error_code := None, cp_error_detail := None\<rparr>)"

text \<open>Writing the row back: appended when new, otherwise in place of the row of its size.\<close>

definition put_checkpoint :: "bool \<Rightarrow> checkpoint_record \<Rightarrow> log_db \<Rightarrow> log_db" where
  "put_checkpoint is_new c d =
     (if is_new then d\<lparr>checkpoints := tinsert c (checkpoints d), log_next_uuid := Suc (log_next_uuid d)\<rparr>
      else d\<lparr>checkpoints := map (\<lambda>x. if sized (cp_log_id c) (cp_tree_size c) x then c else x) (checkpoints d)\<rparr>)"

definition sign_checkpoint ::
  "log_env \<Rightarrow> (dict \<Rightarrow> ident \<Rightarrow> log_error + string \<times> bytes \<times> string) \<Rightarrow> bool \<Rightarrow> checkpoint_record \<Rightarrow>
   dict \<Rightarrow> log_db \<Rightarrow> (log_error + dict \<times> string \<times> bool) \<times> log_db" where
  "sign_checkpoint env sign is_new c0 st d =
     (let c = c0\<lparr>cp_signing_input_digest := Some (hex_of (le_sha env (le_jcs env (JObj st))))\<rparr>
      in case sign st (cp_checkpoint_id c) of
           Inl e \<Rightarrow>
             (Inl e, put_checkpoint is_new (c\<lparr>cp_status := CP_failed, cp_error_code := Some (error_class e),
                cp_error_detail := Some ''managed checkpoint signing failed closed'',
                cp_completed_at := Some (le_now env)\<rparr>) d)
         | Inr (key_id, signature, op_ref) \<Rightarrow>
             let artifact = build_checkpoint_artifact st key_id signature;
                 digest = artifact_digest env artifact;
                 c' = c\<lparr>cp_key_id := Some key_id, cp_provider_operation_ref := Some op_ref,
                   cp_checkpoint_artifact := Some artifact, cp_checkpoint_digest := Some digest,
                   cp_status := CP_completed, cp_issued_at := Some (le_now env),
                   cp_completed_at := Some (le_now env)\<rparr>;
                 d1 = put_checkpoint is_new c' d
             in (Inr (artifact, digest, False),
                 d1\<lparr>log_states := tmodify ls_log_id (log_id env)
                   (\<lambda>s. s\<lparr>ls_latest_checkpoint_size := Some (cp_tree_size c),
                          ls_latest_checkpoint_digest := Some digest\<rparr>) (log_states d1)\<rparr>))"

definition publish_checkpoint ::
  "log_env \<Rightarrow> string \<times> ident \<Rightarrow> log_db \<Rightarrow> (log_error + dict \<times> string \<times> bool) \<times> log_db" where
  "publish_checkpoint env actor d =
     (case le_signer env of
        None \<Rightarrow> (Inl (TransparencyLogConfigurationError
                  ''transparency checkpoint signer is not configured''), d)
      | Some sign \<Rightarrow>
          (case locked_state env False d of
             Inl e \<Rightarrow> (Inl e, d)
           | Inr (None, _) \<Rightarrow> (Inl (TransparencyLogNotFoundError
               ''cannot publish a checkpoint for an empty transparency log''), d)
           | Inr (Some s, _) \<Rightarrow>
               if ls_next_leaf_index s = 0
               then (Inl (TransparencyLogNotFoundError
                 ''cannot publish a checkpoint for an empty transparency log''), d)
               else (case audit_integrity env True d of
                       (Inl e, d1) \<Rightarrow> (Inl e, d1)
                     | (Inr report, d1) \<Rightarrow>
                         if \<not> rp_ok report
                         then (Inl (TransparencyLogIntegrityError
                                ''transparency log failed its pre-publication integrity check''), d1)
                         else (case hash_bytes (leaves_of (log_id env) d1) of
                                 Inl e \<Rightarrow> (Inl e, d1)
                               | Inr hs \<Rightarrow>
                                   let n = int (length hs);
                                       rhash = hex_of (merkle_root (le_sha env) hs);
                                       existing = find (sized (log_id env) n) (checkpoints d1)
                                   in (case existing of
                                         Some c \<Rightarrow>
                                           if cp_status c = CP_completed \<and> cp_root_hash c = rhash \<and>
                                              cp_checkpoint_artifact c \<noteq> None \<and> cp_checkpoint_digest c \<noteq> None
                                           then (Inr (the (cp_checkpoint_artifact c),
                                                      the (cp_checkpoint_digest c), True), d1)
                                           else (case build_checkpoint_statement (le_identity env) n rhash (le_now env) of
                                                   Inl e \<Rightarrow> (Inl e, d1)
                                                 | Inr st \<Rightarrow> sign_checkpoint env sign False
                                                     (requested_checkpoint env actor n rhash
                                                        (ls_latest_checkpoint_digest s) d1 (Some c)) st d1)
                                       | None \<Rightarrow>
                                           (case build_checkpoint_statement (le_identity env) n rhash (le_now env) of
                                              Inl e \<Rightarrow> (Inl e, d1)
                                            | Inr st \<Rightarrow> sign_checkpoint env sign True
                                                (requested_checkpoint env actor n rhash
                                                   (ls_latest_checkpoint_digest s) d1 None) st d1))))))"

definition latest_checkpoint :: "log_env \<Rightarrow> log_db \<Rightarrow> log_error + dict" where
  "latest_checkpoint env d =
     (case checkpoint_record_of (log_id env) None d of
        Inl e \<Rightarrow> Inl e | Inr c \<Rightarrow> checkpoint_artifact_of c)"

fun artifacts_of :: "checkpoint_record list \<Rightarrow> log_error + dict list" where
  "artifacts_of [] = Inr []"
| "artifacts_of (c # cs) =
     (case checkpoint_artifact_of c of
        Inl e \<Rightarrow> Inl e | Inr a \<Rightarrow> map_sum id (\<lambda>as. a # as) (artifacts_of cs))"

definition list_checkpoints :: "log_env \<Rightarrow> log_db \<Rightarrow> log_error + dict list" where
  "list_checkpoints env d = artifacts_of (completed (log_id env) d)"

section \<open>Proofs\<close>

definition inclusion_proof ::
  "log_env \<Rightarrow> json \<Rightarrow> int option \<Rightarrow> log_db \<Rightarrow> log_error + inclusion_artifact \<times> dict" where
  "inclusion_proof env v tree_size d =
     (case normalize_digest v of
        Inl e \<Rightarrow> Inl e
      | Inr digest \<Rightarrow>
          (case checkpoint_record_of (log_id env) tree_size d of
             Inl e \<Rightarrow> Inl e
           | Inr c \<Rightarrow>
               (let ls = leaves_below (log_id env) (cp_tree_size c) d
                in case find (\<lambda>l. lf_receipt_digest l = digest) ls of
                     None \<Rightarrow> Inl (TransparencyLogNotFoundError
                       ''receipt digest is not included in the requested checkpoint'')
                   | Some l \<Rightarrow>
                       (case hash_bytes ls of
                          Inl e \<Rightarrow> Inl e
                        | Inr hs \<Rightarrow>
                            (case inclusion_path (le_sha env) hs (lf_leaf_index l) of
                               Inl e \<Rightarrow> Inl e
                             | Inr path \<Rightarrow>
                                 (case checkpoint_artifact_of c of
                                    Inl e \<Rightarrow> Inl e
                                  | Inr a \<Rightarrow>
                                      Inr (\<lparr>pf_log_id = log_id env, pf_tree_size = cp_tree_size c,
                                            pf_leaf_index = lf_leaf_index l,
                                            pf_leaf_digest = lf_receipt_digest l, pf_audit_path = path\<rparr>, a)))))))"

definition consistency_proof ::
  "log_env \<Rightarrow> int \<Rightarrow> int \<Rightarrow> log_db \<Rightarrow> log_error + consistency_artifact \<times> dict \<times> dict" where
  "consistency_proof env old_size new_size d =
     (case checkpoint_record_of (log_id env) (Some old_size) d of
        Inl e \<Rightarrow> Inl e
      | Inr c_old \<Rightarrow>
          (case checkpoint_record_of (log_id env) (Some new_size) d of
             Inl e \<Rightarrow> Inl e
           | Inr c_new \<Rightarrow>
               (case hash_bytes (leaves_below (log_id env) new_size d) of
                  Inl e \<Rightarrow> Inl e
                | Inr hs \<Rightarrow>
                    (case consistency_path (le_sha env) hs old_size new_size of
                       Inl e \<Rightarrow> Inl e
                     | Inr path \<Rightarrow>
                         (case (checkpoint_artifact_of c_old, checkpoint_artifact_of c_new) of
                            (Inl e, _) \<Rightarrow> Inl e
                          | (_, Inl e) \<Rightarrow> Inl e
                          | (Inr a, Inr b) \<Rightarrow>
                              Inr (\<lparr>cf_log_id = log_id env, cf_old_tree_size = old_size,
                                    cf_new_tree_size = new_size, cf_path = path\<rparr>, a, b))))))"

definition monitor_update ::
  "log_env \<Rightarrow> int \<Rightarrow> log_db \<Rightarrow> log_error + consistency_artifact \<times> dict \<times> dict" where
  "monitor_update env previous d =
     (case checkpoint_record_of (log_id env) None d of
        Inl e \<Rightarrow> Inl e | Inr c \<Rightarrow> consistency_proof env previous (cp_tree_size c) d)"


section \<open>Well-formed logs\<close>

definition rows_of :: "ident \<Rightarrow> log_db \<Rightarrow> log_leaf list" where
  "rows_of lid d = [l \<leftarrow> log_leaves d. lf_log_id l = lid]"

definition attempts_of :: "ident \<Rightarrow> log_db \<Rightarrow> checkpoint_record list" where
  "attempts_of lid d = [c \<leftarrow> checkpoints d. cp_log_id c = lid]"

definition done_of :: "ident \<Rightarrow> log_db \<Rightarrow> checkpoint_record list" where
  "done_of lid d = [c \<leftarrow> attempts_of lid d. cp_status c = CP_completed]"

definition root_field :: "string \<Rightarrow> json" where
  "root_field r = JObj [(''algorithm'', JStr ''sha-256''), (''encoding'', JStr ''hex''), (''value'', JStr r)]"

text \<open>
  Leaves are numbered without gap in insertion order, no digest occurs twice, the hash chain is
  right, attempts at checkpoints have increasing sizes within the log, completed ones pass the
  audit and carry their root and size in the artifact, and the state row summarises all this.
\<close>

definition leaves_wf :: "(bytes \<Rightarrow> bytes) \<Rightarrow> log_leaf list \<Rightarrow> string option \<Rightarrow> bool" where
  "leaves_wf sha ls chain \<longleftrightarrow> map lf_leaf_index ls = map int [0..<length ls] \<and>
     distinct (map lf_receipt_digest ls) \<and> audit_leaves sha 0 None ls = Inr ([], chain)"

definition checkpoints_wf :: "log_env \<Rightarrow> log_leaf list \<Rightarrow> checkpoint_record list \<Rightarrow> bool" where
  "checkpoints_wf E ls ks \<longleftrightarrow> sorted_wrt (<) (map cp_tree_size ks) \<and>
     (\<forall>c \<in> set ks. 0 < cp_tree_size c \<and> cp_tree_size c \<le> int (length ls)) \<and>
     (let cs = filter (\<lambda>c. cp_status c = CP_completed) ks in
       audit_checkpoints E ls None (- 1) cs = Inr [] \<and>
       (\<forall>c \<in> set cs. \<exists>a. cp_checkpoint_artifact c = Some a \<and>
          jget a ''root_hash'' = root_field (cp_root_hash c) \<and> jget a ''tree_size'' = JInt (cp_tree_size c)))"

definition state_wf ::
  "log_state option \<Rightarrow> log_leaf list \<Rightarrow> checkpoint_record list \<Rightarrow> string option \<Rightarrow> bool" where
  "state_wf st ls ks chain \<longleftrightarrow>
     (case st of
        None \<Rightarrow> ls = [] \<and> ks = []
      | Some s \<Rightarrow> let cs = filter (\<lambda>c. cp_status c = CP_completed) ks in
          ls_next_leaf_index s = int (length ls) \<and> ls_append_chain_head s = chain \<and>
          ls_latest_checkpoint_size s = (if cs = [] then None else Some (cp_tree_size (last cs))) \<and>
          ls_latest_checkpoint_digest s = (if cs = [] then None else cp_checkpoint_digest (last cs)))"

definition log_wf :: "log_env \<Rightarrow> ident \<Rightarrow> log_db \<Rightarrow> bool" where
  "log_wf E lid d \<longleftrightarrow> (\<exists>chain. leaves_wf (le_sha E) (rows_of lid d) chain \<and>
     checkpoints_wf E (rows_of lid d) (attempts_of lid d) \<and>
     state_wf (state_of lid d) (rows_of lid d) (attempts_of lid d) chain)"

lemma sorted_int_upt: "sorted (map int [0..<n])"
  by (induction n) (auto simp: sorted_append)

lemma leaves_of_rows:
  assumes "leaves_wf sha (rows_of lid d) chain"
  shows "leaves_of lid d = rows_of lid d"
  using assms sorted_int_upt unfolding leaves_of_def rows_of_def[symmetric]
  by (intro sort_key_id_if_sorted) (simp add: leaves_wf_def)

lemma done_of_filter: "done_of lid d = [c \<leftarrow> checkpoints d. cp_log_id c = lid \<and> cp_status c = CP_completed]"
  unfolding done_of_def attempts_of_def filter_filter by meson

lemma sorted_wrt_filter: "sorted_wrt R (map f xs) \<Longrightarrow> sorted_wrt R (map f (filter P xs))"
  by (induction xs) auto

lemma completed_done:
  assumes "checkpoints_wf E ls (attempts_of lid d)"
  shows "completed lid d = done_of lid d"
proof -
  have "sorted_wrt (<) (map cp_tree_size (attempts_of lid d))"
    using assms by (simp add: checkpoints_wf_def)
  then have "sorted_wrt (<) (map cp_tree_size (done_of lid d))"
    unfolding done_of_def by (rule sorted_wrt_filter)
  then have "sorted (map cp_tree_size (done_of lid d))"
    by (rule sorted_wrt_mono_rel[rotated]) simp
  then show ?thesis
    unfolding completed_def done_of_filter by (rule sort_key_id_if_sorted)
qed

text \<open>The loops of the audit, one more row at the end.\<close>

lemma audit_leaves_snoc:
  assumes "audit_leaves sha i prev ls = Inr ([], chain)" "leaf_hash sha (lf_receipt_digest l) = Inr h"
    "append_chain_hash sha chain (lf_leaf_index l) (lf_receipt_digest l) (hex_of h) = Inr c"
    "lf_leaf_index l = i + int (length ls)" "lf_leaf_hash l = hex_of h" "lf_append_chain_hash l = c"
  shows "audit_leaves sha i prev (ls @ [l]) = Inr ([], Some c)"
  using assms
proof (induction ls arbitrary: i prev)
  case (Cons x xs)
  from Cons.prems(1) obtain hx cx where x: "leaf_hash sha (lf_receipt_digest x) = Inr hx"
    "append_chain_hash sha prev (lf_leaf_index x) (lf_receipt_digest x) (hex_of hx) = Inr cx"
    "audit_leaves sha (i + 1) (Some cx) xs = Inr ([], chain)"
    "lf_leaf_index x = i" "lf_leaf_hash x = hex_of hx" "lf_append_chain_hash x = cx"
    by (auto split: sum.splits if_splits)
  from Cons.IH[OF x(3)] Cons.prems(2-6) x show ?case by (simp add: algebra_simps)
qed simp

lemma audit_leaves_hashes:
  assumes "audit_leaves sha i prev ls = Inr ([], chain)"
  shows "\<exists>hs. hash_bytes ls = Inr hs \<and> length hs = length ls \<and>
    (\<forall>j < length ls. leaf_hash sha (lf_receipt_digest (ls ! j)) = Inr (hs ! j))"
  using assms
proof (induction ls arbitrary: i prev)
  case (Cons x xs)
  from Cons.prems obtain hx cx where x: "leaf_hash sha (lf_receipt_digest x) = Inr hx"
    "audit_leaves sha (i + 1) (Some cx) xs = Inr ([], chain)" "lf_leaf_hash x = hex_of hx"
    by (auto split: sum.splits if_splits)
  from Cons.IH[OF x(2)] obtain hs where "hash_bytes xs = Inr hs" "length hs = length xs"
    "\<forall>j < length xs. leaf_hash sha (lf_receipt_digest (xs ! j)) = Inr (hs ! j)" by blast
  with x show ?case by (intro exI[of _ "hx # hs"]) (auto simp: nth_Cons split: nat.splits)
qed simp

lemma hash_bytes_append:
  "hash_bytes xs = Inr a \<Longrightarrow> hash_bytes ys = Inr b \<Longrightarrow> hash_bytes (xs @ ys) = Inr (a @ b)"
  by (induction xs arbitrary: a) (auto split: option.splits sum.splits)

lemma hash_bytes_take: "hash_bytes xs = Inr hs \<Longrightarrow> hash_bytes (take n xs) = Inr (take n hs)"
  by (induction xs arbitrary: hs n) (auto simp: take_Cons split: option.splits sum.splits nat.splits)

lemma audit_checkpoints_extend:
  assumes "\<forall>c \<in> set cs. 0 \<le> cp_tree_size c \<and> cp_tree_size c \<le> int (length ls)"
  shows "audit_checkpoints E (ls @ ls') pd ps cs = audit_checkpoints E ls pd ps cs"
  using assms
proof (induction cs arbitrary: pd ps)
  case (Cons c cs)
  then have "\<not> int (length ls) < cp_tree_size c" "\<not> int (length (ls @ ls')) < cp_tree_size c"
    "py_take (cp_tree_size c) (ls @ ls') = py_take (cp_tree_size c) ls"
    by (auto simp: py_take_def)
  with Cons show ?case by (simp only: audit_checkpoints.simps Let_def if_False list.set ball_simps)
      (auto split: sum.splits)
qed simp

lemma audit_checkpoints_cong:
  assumes "le_sha env = le_sha E" "le_jcs env = le_jcs E"
  shows "audit_checkpoints env ls pd ps cs = audit_checkpoints E ls pd ps cs"
proof (induction cs arbitrary: pd ps)
  case (Cons c cs)
  have "artifact_digest env = artifact_digest E" using assms by (simp add: artifact_digest_def fun_eq_iff)
  with Cons show ?case by (simp only: audit_checkpoints.simps assms)
qed simp

text \<open>What one clean step of the checkpoint loop says.\<close>

definition checkpoint_ok :: "log_env \<Rightarrow> log_leaf list \<Rightarrow> string option \<Rightarrow> int \<Rightarrow> checkpoint_record \<Rightarrow> bool" where
  "checkpoint_ok E ls pd ps c \<longleftrightarrow> ps < cp_tree_size c \<and> cp_tree_size c \<le> int (length ls) \<and>
     (\<exists>hs. hash_bytes (py_take (cp_tree_size c) ls) = Inr hs \<and>
        cp_root_hash c = hex_of (merkle_root (le_sha E) hs)) \<and>
     cp_prior_checkpoint_digest c = pd \<and>
     (\<exists>a. cp_checkpoint_artifact c = Some a \<and> cp_checkpoint_digest c = Some (artifact_digest E a))"

lemma map_sum_Inr_eq: "map_sum id f x = Inr y \<longleftrightarrow> (\<exists>z. x = Inr z \<and> y = f z)"
  by (cases x) auto

lemma audit_checkpoints_Cons:
  "audit_checkpoints E ls pd ps (c # cs) = Inr [] \<longleftrightarrow>
   checkpoint_ok E ls pd ps c \<and>
   audit_checkpoints E ls (cp_checkpoint_digest c) (cp_tree_size c) cs = Inr []"
  by (auto simp: checkpoint_ok_def Let_def map_sum_Inr_eq split: if_splits sum.splits option.splits)

declare audit_checkpoints.simps(2) [simp del]

lemma audit_checkpoints_snoc:
  "audit_checkpoints E ls pd ps (cs @ [c]) = Inr [] \<longleftrightarrow>
   audit_checkpoints E ls pd ps cs = Inr [] \<and>
   checkpoint_ok E ls (if cs = [] then pd else cp_checkpoint_digest (last cs))
     (if cs = [] then ps else cp_tree_size (last cs)) c"
  by (induction cs arbitrary: pd ps) (auto simp: audit_checkpoints_Cons)

lemma audit_checkpoints_each:
  "audit_checkpoints E ls pd ps cs = Inr [] \<Longrightarrow> c \<in> set cs \<Longrightarrow>
   \<exists>pd' ps'. checkpoint_ok E ls pd' ps' c"
  by (induction cs arbitrary: pd ps) (auto simp: audit_checkpoints_Cons)


section \<open>Every operation keeps logs well-formed\<close>

lemma state_of_tget: "state_of lid d = tget ls_log_id lid (log_states d)"
  by (simp add: state_of_def tget_def)

lemma log_wf_cong:
  assumes "rows_of lid d' = rows_of lid d" "attempts_of lid d' = attempts_of lid d"
    "state_of lid d' = state_of lid d"
  shows "log_wf E lid d' = log_wf E lid d"
  by (simp add: log_wf_def assms)

text \<open>What a successful append does: the cases of the operation.\<close>

lemma append_cases:
  assumes "append_receipt_digest env v d = (res, d')"
  obtains (unchanged) "d' = d"
    "\<And>i g b. res = Inr (i, g, b) \<Longrightarrow> b \<and> normalize_digest v = Inr g \<and>
       (\<exists>l \<in> set (rows_of (log_id env) d). lf_receipt_digest l = g \<and> lf_leaf_index l = i)"
  | (appended) s digest h chain l where
      "normalize_digest v = Inr digest"
      "s = (case state_of (log_id env) d of Some s \<Rightarrow> s | None \<Rightarrow>
         \<lparr>ls_log_id = log_id env, ls_log_identity = le_identity env, ls_next_leaf_index = 0,
          ls_append_chain_head = None, ls_latest_checkpoint_size = None, ls_latest_checkpoint_digest = None\<rparr>)"
      "\<forall>l \<in> set (rows_of (log_id env) d). lf_receipt_digest l \<noteq> digest"
      "leaf_hash (le_sha env) digest = Inr h"
      "append_chain_hash (le_sha env) (ls_append_chain_head s) (ls_next_leaf_index s) digest (hex_of h) = Inr chain"
      "lf_log_id l = log_id env" "lf_leaf_index l = ls_next_leaf_index s" "lf_receipt_digest l = digest"
      "lf_leaf_hash l = hex_of h" "lf_append_chain_hash l = chain"
      "res = Inr (ls_next_leaf_index s, digest, False)"
      "log_leaves d' = log_leaves d @ [l]" "checkpoints d' = checkpoints d"
      "\<And>lid. state_of lid d' = (if lid = log_id env
         then Some (s\<lparr>ls_next_leaf_index := ls_next_leaf_index s + 1, ls_append_chain_head := Some chain\<rparr>)
         else state_of lid d)"
proof -
  note c = assms[unfolded append_receipt_digest_def]
  show thesis
  proof (cases "\<exists>e. res = Inl e \<and> d' = d")
    case True
    then show thesis using unchanged by auto
  next
    case ok: False
    obtain digest where dg: "normalize_digest v = Inr digest"
      using c ok by (cases "normalize_digest v") auto
    obtain st d1 where st: "locked_state env True d = Inr (st, d1)"
      using c ok dg by (cases "locked_state env True d") auto
    obtain s where s: "st = Some s" using c ok dg st by (cases st) auto
    have ll: "log_leaves d1 = log_leaves d" "checkpoints d1 = checkpoints d"
      using st by (auto simp: locked_state_def Let_def split: option.splits if_splits)
    have s_def: "s = (case state_of (log_id env) d of Some s \<Rightarrow> s | None \<Rightarrow>
         \<lparr>ls_log_id = log_id env, ls_log_identity = le_identity env, ls_next_leaf_index = 0,
          ls_append_chain_head = None, ls_latest_checkpoint_size = None, ls_latest_checkpoint_digest = None\<rparr>)"
      using st s by (auto simp: locked_state_def Let_def split: option.splits if_splits)
    have st1: "state_of (log_id env) d1 = Some s" "\<And>lid. lid \<noteq> log_id env \<Longrightarrow> state_of lid d1 = state_of lid d"
      using st s unfolding state_of_tget
      by (auto simp: locked_state_def state_of_tget Let_def tget_tinsert split: option.splits if_splits)
    define f where "f = find (\<lambda>l. lf_log_id l = log_id env \<and> lf_receipt_digest l = digest) (log_leaves d1)"
    show thesis
    proof (cases f)
      case (Some l)
      then have l: "l \<in> set (log_leaves d)" "lf_log_id l = log_id env" "lf_receipt_digest l = digest"
        using ll by (auto simp: f_def find_Some_iff)
      have "res = Inr (lf_leaf_index l, digest, True)" "d' = d"
        using c dg st s Some by (simp_all add: f_def)
      with l dg unchanged show thesis by (auto simp: rows_of_def)
    next
      case None
      then have no: "\<forall>l \<in> set (rows_of (log_id env) d). lf_receipt_digest l \<noteq> digest"
        using ll by (auto simp: f_def find_None_iff rows_of_def)
      obtain h where h: "leaf_hash (le_sha env) digest = Inr h"
        using c ok dg st s None by (cases "leaf_hash (le_sha env) digest") (auto simp: f_def)
      obtain chain where ch: "append_chain_hash (le_sha env) (ls_append_chain_head s) (ls_next_leaf_index s) digest (hex_of h) = Inr chain"
        using c ok dg st s None h
        by (cases "append_chain_hash (le_sha env) (ls_append_chain_head s) (ls_next_leaf_index s) digest (hex_of h)")
           (auto simp: f_def)
      note eq = c[unfolded dg sum.case st prod.case s option.case f_def[symmetric] None h ch Let_def]
      show thesis
        by (rule appended[OF dg s_def no h ch])
           (use eq ll st1 in \<open>auto simp: tinsert_def state_of_tget tget_tmodify\<close>)
    qed
  qed
qed

lemma append_wf:
  assumes "log_wf E lid d" "append_receipt_digest env v d = (res, d')" "le_sha env = le_sha E"
  shows "log_wf E lid d'"
  using assms(2)
proof (cases rule: append_cases)
  case unchanged
  then show ?thesis using assms(1) by simp
next
  case (appended s digest h chain l)
  have att: "attempts_of x d' = attempts_of x d" for x by (simp add: attempts_of_def appended(13))
  show ?thesis
  proof (cases "lid = log_id env")
    case False
    have "rows_of lid d' = rows_of lid d" using appended(6,12) False by (simp add: rows_of_def)
    with att appended(14) False assms(1) log_wf_cong show ?thesis by metis
  next
    case True
    have rows: "rows_of lid d' = rows_of lid d @ [l]" using appended(6,12) True by (simp add: rows_of_def)
    obtain ch where wf: "leaves_wf (le_sha E) (rows_of lid d) ch" "checkpoints_wf E (rows_of lid d) (attempts_of lid d)"
      "state_wf (state_of lid d) (rows_of lid d) (attempts_of lid d) ch"
      using assms(1) by (auto simp: log_wf_def)
    have s: "ls_append_chain_head s = ch" "ls_next_leaf_index s = int (length (rows_of lid d))"
      "state_wf (Some s) (rows_of lid d) (attempts_of lid d) ch"
      using wf(1,3) appended(2) True
      by (auto simp: state_wf_def leaves_wf_def Let_def split: option.splits)
    have lv: "leaves_wf (le_sha E) (rows_of lid d') (Some chain)"
      unfolding rows leaves_wf_def
    proof (intro conjI)
      show "map lf_leaf_index (rows_of lid d @ [l]) = map int [0..<length (rows_of lid d @ [l])]"
        using wf(1) appended(7) s(2) by (simp add: leaves_wf_def)
      show "distinct (map lf_receipt_digest (rows_of lid d @ [l]))"
        using wf(1) appended(3,8) True by (auto simp: leaves_wf_def)
      show "audit_leaves (le_sha E) 0 None (rows_of lid d @ [l]) = Inr ([], Some chain)"
        by (rule audit_leaves_snoc)
           (use wf(1) appended s assms(3) in \<open>auto simp: leaves_wf_def\<close>)
    qed
    have sz: "\<forall>c \<in> set (attempts_of lid d). 0 < cp_tree_size c \<and> cp_tree_size c \<le> int (length (rows_of lid d))"
      using wf(2) by (simp add: checkpoints_wf_def)
    then have sz': "\<forall>c \<in> set (filter (\<lambda>c. cp_status c = CP_completed) (attempts_of lid d)).
        0 \<le> cp_tree_size c \<and> cp_tree_size c \<le> int (length (rows_of lid d))" by fastforce
    have "checkpoints_wf E (rows_of lid d') (attempts_of lid d')"
      using wf(2) sz unfolding rows att checkpoints_wf_def Let_def audit_checkpoints_extend[OF sz']
      by force
    moreover have "state_wf (state_of lid d') (rows_of lid d') (attempts_of lid d') (Some chain)"
      using s(2,3) appended(14)[of lid] True unfolding rows att by (simp add: state_wf_def Let_def)
    ultimately show ?thesis using lv by (auto simp: log_wf_def)
  qed
qed

lemma audit_frame:
  assumes "audit_integrity env rf d = (res, d')"
  shows "rows_of lid d' = rows_of lid d" "attempts_of lid d' = attempts_of lid d"
    "state_of lid d' = state_of lid d" "log_leaves d' = log_leaves d" "checkpoints d' = checkpoints d"
    "log_states d' = log_states d"
proof -
  have "log_leaves d' = log_leaves d \<and> checkpoints d' = checkpoints d \<and> log_states d' = log_states d"
    using assms unfolding audit_integrity_def
    by (auto simp: Let_def split: sum.splits prod.splits if_splits)
  then show "rows_of lid d' = rows_of lid d" "attempts_of lid d' = attempts_of lid d"
    "state_of lid d' = state_of lid d" "log_leaves d' = log_leaves d" "checkpoints d' = checkpoints d"
    "log_states d' = log_states d"
    by (auto simp: rows_of_def attempts_of_def state_of_def)
qed


lemma publish_cases:
  assumes "publish_checkpoint env actor d = (res, d')"
  obtains (unsigned) "log_leaves d' = log_leaves d" "checkpoints d' = checkpoints d" "log_states d' = log_states d"
  | (signed) sign s d1 hs existing st where
      "le_signer env = Some sign" "state_of (log_id env) d = Some s" "ls_next_leaf_index s \<noteq> 0"
      "log_leaves d1 = log_leaves d" "checkpoints d1 = checkpoints d" "log_states d1 = log_states d"
      "hash_bytes (leaves_of (log_id env) d) = Inr hs"
      "existing = find (sized (log_id env) (int (length hs))) (checkpoints d)"
      "\<And>c. existing = Some c \<Longrightarrow> \<not> (cp_status c = CP_completed \<and>
         cp_root_hash c = hex_of (merkle_root (le_sha env) hs) \<and>
         cp_checkpoint_artifact c \<noteq> None \<and> cp_checkpoint_digest c \<noteq> None)"
      "build_checkpoint_statement (le_identity env) (int (length hs))
         (hex_of (merkle_root (le_sha env) hs)) (le_now env) = Inr st"
      "(res, d') = sign_checkpoint env sign (existing = None)
         (requested_checkpoint env actor (int (length hs)) (hex_of (merkle_root (le_sha env) hs))
            (ls_latest_checkpoint_digest s) d1 existing) st d1"
proof -
  note c = assms[unfolded publish_checkpoint_def]
  obtain rep d1 where au: "audit_integrity env True d = (rep, d1)" by force
  note fr = audit_frame[OF au]
  show thesis
  proof (cases "d' = d \<or> d' = d1")
    case True
    then show thesis using unsigned fr by auto
  next
    case ch: False
    obtain sign where sg: "le_signer env = Some sign" using c ch by (cases "le_signer env") auto
    obtain st0 dx where lk: "locked_state env False d = Inr (st0, dx)"
      using c ch sg by (cases "locked_state env False d") auto
    obtain s where s: "st0 = Some s" using c ch sg lk by (cases st0) auto
    have so: "state_of (log_id env) d = Some s"
      using lk s by (auto simp: locked_state_def split: option.splits if_splits)
    have nz: "ls_next_leaf_index s \<noteq> 0" using c ch sg lk s by auto
    obtain rp where rp: "rep = Inr rp" using c ch sg lk s nz au by (cases rep) auto
    have ok: "rp_ok rp" using c ch sg lk s nz au rp by (auto split: if_splits)
    have lv: "leaves_of (log_id env) d1 = leaves_of (log_id env) d" using fr by (simp add: leaves_of_def)
    obtain hs where hs: "hash_bytes (leaves_of (log_id env) d) = Inr hs"
      using c ch sg lk s nz au rp ok lv by (cases "hash_bytes (leaves_of (log_id env) d)") auto
    define ex where "ex = find (sized (log_id env) (int (length hs))) (checkpoints d)"
    define root where "root = hex_of (merkle_root (le_sha env) hs)"
    note c' = c[unfolded sg option.case lk sum.case prod.case s au rp, simplified nz ok lv hs fr(5), simplified,
        unfolded Let_def, folded root_def, folded ex_def]
    have nc: "\<not> (cp_status x = CP_completed \<and> cp_root_hash x = root \<and>
         cp_checkpoint_artifact x \<noteq> None \<and> cp_checkpoint_digest x \<noteq> None)" if "ex = Some x" for x
      using c' ch that by (auto split: if_splits)
    obtain st where st: "build_checkpoint_statement (le_identity env) (int (length hs)) root (le_now env) = Inr st"
      using c' ch nc by (cases "build_checkpoint_statement (le_identity env) (int (length hs)) root (le_now env)")
        (auto split: option.splits if_splits)
    have "(res, d') = sign_checkpoint env sign (ex = None)
        (requested_checkpoint env actor (int (length hs)) root (ls_latest_checkpoint_digest s) d1 ex) st d1"
      using c' st nc by (cases ex) auto
    then show thesis
      using signed[OF sg so nz fr(4-6) hs ex_def] nc st unfolding root_def by blast
  qed
qed


lemma last_of_sorted:
  assumes "sorted_wrt (<) (map f xs)" "\<forall>x \<in> set xs. f x \<le> (n :: int)" "c \<in> set xs" "f c = n"
  shows "xs = filter (\<lambda>x. f x \<noteq> n) xs @ [c]"
  using assms
proof (induction xs)
  case (Cons x xs)
  show ?case
  proof (cases "c \<in> set xs")
    case True
    then have "f x < n" using Cons.prems by auto
    with Cons True show ?thesis by simp
  next
    case False
    then have "x = c" using Cons.prems(3) by simp
    moreover have "xs = []" using Cons.prems \<open>x = c\<close> by (cases xs) auto
    ultimately show ?thesis using Cons.prems(4) by simp
  qed
qed simp

lemma filter_put_other:
  "cp_log_id c \<noteq> lid' \<Longrightarrow>
   filter (\<lambda>y. cp_log_id y = lid') (map (\<lambda>x. if sized (cp_log_id c) n x then c else x) xs) =
   filter (\<lambda>y. cp_log_id y = lid') xs"
  by (induction xs) (auto simp: sized_def)

lemma put_attempts:
  assumes K: "sorted_wrt (<) (map cp_tree_size (attempts_of lid d))"
    "\<forall>x \<in> set (attempts_of lid d). cp_tree_size x \<le> n"
    and ex: "ex = find (sized lid n) (checkpoints d)" and c: "cp_log_id c = lid" "cp_tree_size c = n"
  defines "K0 \<equiv> filter (\<lambda>x. cp_tree_size x \<noteq> n) (attempts_of lid d)"
  shows "attempts_of lid (put_checkpoint (ex = None) c d) = K0 @ [c]"
    and "attempts_of lid d = K0 @ (case ex of None \<Rightarrow> [] | Some x \<Rightarrow> [x])"
    and "lid' \<noteq> lid \<Longrightarrow> attempts_of lid' (put_checkpoint (ex = None) c d) = attempts_of lid' d"
proof -
  have "attempts_of lid (put_checkpoint (ex = None) c d) = K0 @ [c] \<and>
    attempts_of lid d = K0 @ (case ex of None \<Rightarrow> [] | Some x \<Rightarrow> [x])"
  proof (cases ex)
    case None
    then have "\<forall>x \<in> set (attempts_of lid d). cp_tree_size x \<noteq> n"
      using ex by (auto simp: find_None_iff sized_def attempts_of_def)
    then have "K0 = attempts_of lid d" by (simp add: K0_def)
    then show ?thesis using None c by (simp add: put_checkpoint_def tinsert_def attempts_of_def)
  next
    case (Some x)
    then have x: "x \<in> set (checkpoints d)" "sized lid n x" using ex by (auto simp: find_Some_iff)
    then have xa: "x \<in> set (attempts_of lid d)" "cp_tree_size x = n" by (auto simp: attempts_of_def sized_def)
    have att: "attempts_of lid d = K0 @ [x]"
      unfolding K0_def by (rule last_of_sorted[OF K xa])
    have "attempts_of lid (put_checkpoint False c d) =
        map (\<lambda>y. if cp_tree_size y = n then c else y) (attempts_of lid d)"
      unfolding put_checkpoint_def attempts_of_def c sized_def
      by (simp add: filter_map comp_def c if_distrib[of cp_log_id] cong: if_cong)
        (rule map_cong; auto simp: c intro!: filter_cong)
    also have "\<dots> = K0 @ [c]"
      unfolding att using xa(2) by (auto simp: K0_def intro: map_idI)
    finally show ?thesis using att Some by simp
  qed
  then show "attempts_of lid (put_checkpoint (ex = None) c d) = K0 @ [c]"
    "attempts_of lid d = K0 @ (case ex of None \<Rightarrow> [] | Some x \<Rightarrow> [x])" by auto
  show "attempts_of lid' (put_checkpoint (ex = None) c d) = attempts_of lid' d" if "lid' \<noteq> lid"
    using that c filter_put_other[of c lid'] by (auto simp: put_checkpoint_def attempts_of_def tinsert_def)
qed


lemma put_checkpoint_frame [simp]:
  "log_leaves (put_checkpoint b c d) = log_leaves d" "log_states (put_checkpoint b c d) = log_states d"
  by (simp_all add: put_checkpoint_def)

lemma statement_fields:
  assumes "build_checkpoint_statement identity n r t = Inr st"
  shows "jget st ''root_hash'' = root_field r" "jget st ''tree_size'' = JInt n"
  using assms by (auto simp: build_checkpoint_statement_def root_field_def jget_def
      split: sum.splits if_splits)

lemma requested_fields:
  assumes "\<And>c. ex = Some c \<Longrightarrow> cp_log_id c = log_id env \<and> cp_tree_size c = n"
  shows "cp_log_id (requested_checkpoint env actor n r prior d ex) = log_id env"
    "cp_tree_size (requested_checkpoint env actor n r prior d ex) = n"
    "cp_root_hash (requested_checkpoint env actor n r prior d ex) = r"
    "cp_prior_checkpoint_digest (requested_checkpoint env actor n r prior d ex) = prior"
  using assms by (cases ex; simp add: requested_checkpoint_def)+

text \<open>The two ways a signing attempt ends.\<close>

lemma sign_cases:
  assumes "(res, d') = sign_checkpoint env sign is_new c0 st d"
  obtains (failed) e c where "res = Inl e" "cp_status c = CP_failed" "cp_log_id c = cp_log_id c0"
      "cp_tree_size c = cp_tree_size c0" "d' = put_checkpoint is_new c d"
  | (published) a c where "res = Inr (a, artifact_digest env a, False)" "cp_status c = CP_completed"
      "cp_log_id c = cp_log_id c0" "cp_tree_size c = cp_tree_size c0" "cp_root_hash c = cp_root_hash c0"
      "cp_prior_checkpoint_digest c = cp_prior_checkpoint_digest c0" "cp_checkpoint_artifact c = Some a"
      "cp_checkpoint_digest c = Some (artifact_digest env a)"
      "jget a ''root_hash'' = jget st ''root_hash''" "jget a ''tree_size'' = jget st ''tree_size''"
      "d' = (put_checkpoint is_new c d)\<lparr>log_states := tmodify ls_log_id (log_id env)
         (\<lambda>s. s\<lparr>ls_latest_checkpoint_size := Some (cp_tree_size c0),
                ls_latest_checkpoint_digest := Some (artifact_digest env a)\<rparr>) (log_states d)\<rparr>"
proof (cases "sign st (cp_checkpoint_id c0)")
  case (Inl e)
  then obtain c where "res = Inl e" "d' = put_checkpoint is_new c d" "cp_status c = CP_failed"
    "cp_log_id c = cp_log_id c0" "cp_tree_size c = cp_tree_size c0"
    using assms that(1) by (simp add: sign_checkpoint_def Let_def)
  then show thesis using failed by blast
next
  case (Inr x)
  obtain k sg r where x: "x = (k, sg, r)" by (cases x)
  show thesis
    by (rule published[of "build_checkpoint_artifact st k sg"])
       (use assms Inr x in \<open>auto simp: sign_checkpoint_def Let_def build_checkpoint_artifact_def jget_def\<close>)
qed

lemma put_other:
  "cp_log_id c \<noteq> lid \<Longrightarrow> attempts_of lid (put_checkpoint b c d) = attempts_of lid d"
  using filter_put_other[of c lid] by (auto simp: put_checkpoint_def attempts_of_def tinsert_def)

lemma sign_frame:
  assumes "(res, d') = sign_checkpoint env sign is_new c0 st d"
  shows "rows_of lid d' = rows_of lid d"
    "lid \<noteq> cp_log_id c0 \<Longrightarrow> attempts_of lid d' = attempts_of lid d"
    "lid \<noteq> log_id env \<Longrightarrow> state_of lid d' = state_of lid d"
  using assms
  by (cases rule: sign_cases;
      simp add: rows_of_def put_other state_of_tget tget_tmodify attempts_of_def[of _ "_\<lparr>log_states := _\<rparr>"]
        attempts_of_def[symmetric])+

text \<open>A signing attempt on a log that passed its audit, at its full size.\<close>

lemma sign_wf:
  assumes w: "leaves_wf (le_sha E) R ch" "checkpoints_wf E R K" "state_wf (state_of lid d) R K ch"
    and hs: "hash_bytes R = Inr hs" and n: "n = int (length R)" "0 < n"
    and d1: "rows_of lid d1 = R \<and> attempts_of lid d1 = K \<and> state_of lid d1 = state_of lid d"
      "ex = find (sized lid n) (checkpoints d1)"
    and nc: "\<And>c. ex = Some c \<Longrightarrow> \<not> (cp_status c = CP_completed \<and>
         cp_root_hash c = hex_of (merkle_root (le_sha E) hs) \<and>
         cp_checkpoint_artifact c \<noteq> None \<and> cp_checkpoint_digest c \<noteq> None)"
    and c0: "cp_log_id c0 = lid \<and> cp_tree_size c0 = n" "lid = log_id env \<and> state_of lid d = Some s"
      "cp_root_hash c0 = hex_of (merkle_root (le_sha E) hs)"
      "cp_prior_checkpoint_digest c0 = ls_latest_checkpoint_digest s"
    and st: "jget st ''root_hash'' = root_field (hex_of (merkle_root (le_sha env) hs))"
      "jget st ''tree_size'' = JInt n"
    and env: "le_sha env = le_sha E" "le_jcs env = le_jcs E"
    and sg: "(res, d') = sign_checkpoint env sign (ex = None) c0 st d1"
  shows "log_wf E lid d' \<and> prefix (done_of lid d1) (done_of lid d')"
proof -
  define K0 where "K0 = filter (\<lambda>x. cp_tree_size x \<noteq> n) K"
  define C0 where "C0 = filter (\<lambda>c. cp_status c = CP_completed) K0"
  have K: "sorted_wrt (<) (map cp_tree_size K)" "\<forall>x \<in> set K. 0 < cp_tree_size x \<and> cp_tree_size x \<le> n"
    "audit_checkpoints E R None (- 1) (filter (\<lambda>c. cp_status c = CP_completed) K) = Inr []"
    "\<forall>c \<in> set (filter (\<lambda>c. cp_status c = CP_completed) K). \<exists>a. cp_checkpoint_artifact c = Some a \<and>
       jget a ''root_hash'' = root_field (cp_root_hash c) \<and> jget a ''tree_size'' = JInt (cp_tree_size c)"
    using w(2) n(1) by (simp_all add: checkpoints_wf_def Let_def)
  have put: "attempts_of lid (put_checkpoint (ex = None) c d1) = K0 @ [c]"
    "K = K0 @ (case ex of None \<Rightarrow> [] | Some x \<Rightarrow> [x])" if "cp_log_id c = lid" "cp_tree_size c = n" for c
    using put_attempts(1,2)[of lid d1 n ex c] K(1,2) d1 that by (auto simp: K0_def)
  have Kex: "K = K0 @ (case ex of None \<Rightarrow> [] | Some x \<Rightarrow> [x])" using put(2) c0(1) by blast
  have open_ex: "cp_status x \<noteq> CP_completed" if x: "ex = Some x" for x
  proof
    assume comp: "cp_status x = CP_completed"
    have xin: "x \<in> set (filter (\<lambda>c. cp_status c = CP_completed) K)" using Kex x comp by simp
    have "find (sized lid n) (checkpoints d1) = Some x" using d1(2) x by simp
    then have xn: "cp_tree_size x = n" by (auto simp: find_Some_iff sized_def)
    from audit_checkpoints_each[OF K(3) xin] obtain hs' a where
      "hash_bytes (py_take (cp_tree_size x) R) = Inr hs'" "cp_root_hash x = hex_of (merkle_root (le_sha E) hs')"
      "cp_checkpoint_artifact x = Some a" "cp_checkpoint_digest x = Some (artifact_digest E a)"
      by (auto simp: checkpoint_ok_def)
    then show False using nc[OF x] comp hs n xn by (simp add: py_take_def)
  qed
  have C0: "filter (\<lambda>c. cp_status c = CP_completed) K = C0"
    using open_ex by (subst Kex) (auto simp: C0_def split: option.splits)
  have old: "done_of lid d1 = C0" using d1(1) C0 by (simp add: done_of_def)
  have sK: "sorted_wrt (<) (map cp_tree_size (K0 @ [c]))" "\<forall>x \<in> set (K0 @ [c]). 0 < cp_tree_size x \<and> cp_tree_size x \<le> int (length R)"
    if "cp_tree_size c = n" for c
    using that sorted_wrt_filter[OF K(1)] K(2) n
    by (auto simp: K0_def sorted_wrt_append order.strict_iff_order)
  have lastC: "C0 \<noteq> [] \<Longrightarrow> cp_tree_size (last C0) < n"
    using K(2) last_in_set[of C0] by (auto simp: C0_def K0_def order.strict_iff_order)
  have so: "state_of lid d = Some s" using c0(2) by blast
  have so1: "state_of lid d1 = Some s" using d1(1) so by simp
  have lid: "lid = log_id env" using c0(2) by blast
  have s: "ls_next_leaf_index s = int (length R)" "ls_append_chain_head s = ch"
    "ls_latest_checkpoint_size s = (if C0 = [] then None else Some (cp_tree_size (last C0)))"
    "ls_latest_checkpoint_digest s = (if C0 = [] then None else cp_checkpoint_digest (last C0))"
    using w(3)[unfolded so] by (simp_all add: state_wf_def C0 Let_def)
  have rows: "rows_of lid d' = R" using sign_frame(1)[OF sg] d1(1) by simp
  from sg show ?thesis
  proof (cases rule: sign_cases)
    case (failed e c)
    have "attempts_of lid d' = K0 @ [c]" using put(1) failed c0(1) by simp
    moreover have "state_of lid d' = Some s"
      using failed(5) so1 by (simp add: state_of_def)
    moreover have "checkpoints_wf E R (K0 @ [c])"
      using sK[of c] failed c0(1) K(3,4) unfolding checkpoints_wf_def C0 by (simp add: Let_def C0_def)
    moreover have "state_wf (Some s) R (K0 @ [c]) ch"
      using s failed(2) by (simp add: state_wf_def Let_def C0_def)
    moreover have "done_of lid d' = C0" using calculation(1) failed(2) by (simp add: done_of_def C0_def)
    ultimately show ?thesis using w(1) rows old by (auto simp: log_wf_def)
  next
    case (published a c)
    have att: "attempts_of lid d' = K0 @ [c]"
      using put(1)[of c] published(3,4,11) c0(1) by (simp add: attempts_of_def)
    have "checkpoint_ok E R (if C0 = [] then None else cp_checkpoint_digest (last C0))
        (if C0 = [] then - 1 else cp_tree_size (last C0)) c"
      using published(4-8) c0 s(4) hs n lastC env
      by (auto simp: checkpoint_ok_def py_take_def artifact_digest_def)
    then have "audit_checkpoints E R None (- 1) (C0 @ [c]) = Inr []"
      using K(3) by (simp add: audit_checkpoints_snoc C0)
    then have "checkpoints_wf E R (K0 @ [c])"
      using sK[of c] published c0 st K(4) env(1) unfolding checkpoints_wf_def C0
      by (simp add: Let_def C0_def)
    moreover have "state_wf (state_of lid d') R (K0 @ [c]) ch"
    proof -
      have "state_of lid d' = Some (s\<lparr>ls_latest_checkpoint_size := Some n,
          ls_latest_checkpoint_digest := Some (artifact_digest env a)\<rparr>)"
        using published(11) so1 c0(1) lid by (simp add: state_of_tget tget_tmodify)
      then show ?thesis using s published(2,4,8) c0(1) by (simp add: state_wf_def Let_def)
    qed
    moreover have "done_of lid d' = C0 @ [c]" using att published(2) by (simp add: done_of_def C0_def)
    ultimately show ?thesis using w(1) rows att old by (auto simp: log_wf_def)
  qed
qed

lemma publish_wf:
  assumes wf: "log_wf E lid d" and pub: "publish_checkpoint env actor d = (res, d')"
    and env: "le_sha env = le_sha E" "le_jcs env = le_jcs E"
  shows "log_wf E lid d' \<and> prefix (done_of lid d) (done_of lid d')"
  using pub
proof (cases rule: publish_cases)
  case unsigned
  then show ?thesis using wf log_wf_cong[of lid d' d E] by (simp add: rows_of_def attempts_of_def state_of_def done_of_filter)
next
  case (signed sign s d1 hs ex st)
  define n where "n = int (length hs)"
  define c0 where "c0 = requested_checkpoint env actor n (hex_of (merkle_root (le_sha env) hs))
    (ls_latest_checkpoint_digest s) d1 ex"
  have ex: "ex = find (sized (log_id env) n) (checkpoints d1)" using signed(5,8) by (simp add: n_def)
  have exn: "\<And>c. ex = Some c \<Longrightarrow> cp_log_id c = log_id env \<and> cp_tree_size c = n"
    using ex by (auto simp: find_Some_iff sized_def)
  have c0: "cp_log_id c0 = log_id env" "cp_tree_size c0 = n"
    "cp_root_hash c0 = hex_of (merkle_root (le_sha env) hs)"
    "cp_prior_checkpoint_digest c0 = ls_latest_checkpoint_digest s"
    by (simp_all add: c0_def requested_fields exn)
  have d1: "rows_of x d1 = rows_of x d" "attempts_of x d1 = attempts_of x d" "state_of x d1 = state_of x d" for x
    using signed(4-6) by (simp_all add: rows_of_def attempts_of_def state_of_def)
  have wf1: "log_wf E x d1 = log_wf E x d" for x by (rule log_wf_cong[OF d1])
  show ?thesis
  proof (cases "lid = log_id env")
    case other: False
    have "rows_of lid d' = rows_of lid d" "attempts_of lid d' = attempts_of lid d" "state_of lid d' = state_of lid d"
      using sign_frame[OF signed(11)[folded n_def, folded c0_def]] c0(1) other d1 by auto
    then show ?thesis using wf log_wf_cong[of lid d' d E] by (simp add: done_of_def)
  next
    case same: True
    obtain ch where w: "leaves_wf (le_sha E) (rows_of lid d) ch" "checkpoints_wf E (rows_of lid d) (attempts_of lid d)"
      "state_wf (state_of lid d) (rows_of lid d) (attempts_of lid d) ch"
      using wf by (auto simp: log_wf_def)
    have hs: "hash_bytes (rows_of lid d) = Inr hs" using signed(7) leaves_of_rows[OF w(1)] same by simp
    have n: "n = int (length (rows_of lid d))" "0 < n"
    proof -
      show "n = int (length (rows_of lid d))"
        using audit_leaves_hashes[of "le_sha E" 0 None "rows_of lid d" ch] w(1) hs by (auto simp: n_def leaves_wf_def)
      moreover have "ls_next_leaf_index s = int (length (rows_of lid d))"
        using w(3) signed(2) same by (simp add: state_wf_def Let_def)
      ultimately show "0 < n" using signed(3) by simp
    qed
    note sg = signed(11)[folded n_def, folded c0_def]
    have root: "cp_root_hash c0 = hex_of (merkle_root (le_sha E) hs)" using c0(3) env(1) by simp
    have prior: "cp_prior_checkpoint_digest c0 = ls_latest_checkpoint_digest s" using c0(4) by simp
    have nc: "\<not> (cp_status c = CP_completed \<and> cp_root_hash c = hex_of (merkle_root (le_sha E) hs) \<and>
         cp_checkpoint_artifact c \<noteq> None \<and> cp_checkpoint_digest c \<noteq> None)" if "ex = Some c" for c
      using signed(9)[OF that] env(1) by simp
    have "done_of lid d1 = done_of lid d" using d1 by (simp add: done_of_def)
    moreover have "log_wf E lid d' \<and> prefix (done_of lid d1) (done_of lid d')"
      by (rule sign_wf[OF w hs n _ _ nc _ _ root prior statement_fields[OF signed(10), folded n_def] env sg])
         (use ex d1 c0 same signed in auto)
    ultimately show ?thesis by simp
  qed
qed

end
