(* ===== verification/TransparencyProtocol.thy ===== *)
theory TransparencyProtocol
  imports TransparencyLog
begin

text \<open>
  The transparency log over time: sequences of appends, audits and publications by services with
  any configuration that agrees on SHA-256 and on the canonicalisation. The contract of a published
  log is a locale; the model of the service is an instance of it.
\<close>

section \<open>Runs\<close>

definition same_hashes :: "log_env \<Rightarrow> log_env \<Rightarrow> bool" where
  "same_hashes E env \<longleftrightarrow> le_sha env = le_sha E \<and> le_jcs env = le_jcs E"

inductive log_step :: "log_env \<Rightarrow> log_db \<Rightarrow> log_db \<Rightarrow> bool" for E where
  append: "same_hashes E env \<Longrightarrow> append_receipt_digest env v d = (res, d') \<Longrightarrow> log_step E d d'"
| audit: "same_hashes E env \<Longrightarrow> audit_integrity env rf d = (rep, d') \<Longrightarrow> log_step E d d'"
| publish: "same_hashes E env \<Longrightarrow> publish_checkpoint env actor d = (pub, d') \<Longrightarrow> log_step E d d'"

definition empty_log :: log_db where
  "empty_log = \<lparr>log_states = [], log_leaves = [], checkpoints = [], integrity_events = [], log_next_uuid = 0\<rparr>"

definition log_reachable :: "log_env \<Rightarrow> log_db \<Rightarrow> bool" where
  "log_reachable E d \<longleftrightarrow> (log_step E)\<^sup>*\<^sup>* empty_log d"

lemma empty_log_wf: "log_wf E lid empty_log"
  by (simp add: log_wf_def empty_log_def rows_of_def attempts_of_def state_of_def leaves_wf_def
      checkpoints_wf_def state_wf_def)

lemma append_rows:
  assumes "append_receipt_digest env v d = (res, d')"
  shows "prefix (rows_of lid d) (rows_of lid d')" "attempts_of lid d' = attempts_of lid d"
    "integrity_events d' = integrity_events d"
proof -
  show "prefix (rows_of lid d) (rows_of lid d')" "attempts_of lid d' = attempts_of lid d"
    using assms by (cases rule: append_cases; simp add: rows_of_def attempts_of_def)+
  show "integrity_events d' = integrity_events d"
    using assms unfolding append_receipt_digest_def locked_state_def
    by (auto simp: Let_def split: sum.splits option.splits if_splits prod.splits)
qed

lemma publish_rows:
  assumes "publish_checkpoint env actor d = (res, d')"
  shows "rows_of lid d' = rows_of lid d"
  using assms
proof (cases rule: publish_cases)
  case (signed sign s d1 hs ex st)
  show ?thesis using sign_frame(1)[OF signed(11), of lid] signed(4) by (simp add: rows_of_def)
qed (simp add: rows_of_def)

lemma log_step_wf:
  assumes "log_step E d d'" "log_wf E lid d"
  shows "log_wf E lid d'" "prefix (rows_of lid d) (rows_of lid d')" "prefix (done_of lid d) (done_of lid d')"
proof -
  have "log_wf E lid d' \<and> prefix (rows_of lid d) (rows_of lid d') \<and> prefix (done_of lid d) (done_of lid d')"
    using assms
  proof (cases rule: log_step.cases)
    case (append env v res)
    then show ?thesis
      using append_wf[OF assms(2)] append_rows(1,2)[OF append(2)] by (simp add: same_hashes_def done_of_def)
  next
    case (audit env rf rep)
    then show ?thesis
      using audit_frame[OF audit(2)] assms(2) log_wf_cong[of lid d' d E] by (simp add: done_of_def)
  next
    case (publish env actor pub)
    then show ?thesis
      using publish_wf[OF assms(2)] publish_rows[OF publish(2)] by (simp add: same_hashes_def)
  qed
  then show "log_wf E lid d'" "prefix (rows_of lid d) (rows_of lid d')" "prefix (done_of lid d) (done_of lid d')"
    by auto
qed

lemma log_run_wf:
  assumes "(log_step E)\<^sup>*\<^sup>* d d'" "log_wf E lid d"
  shows "log_wf E lid d' \<and> prefix (rows_of lid d) (rows_of lid d') \<and> prefix (done_of lid d) (done_of lid d')"
  using assms
proof (induction rule: rtranclp_induct)
  case (step y z)
  then have "log_wf E lid y" by simp
  from log_step_wf[OF step(2) this] step show ?case by (meson prefix_order.order_trans)
qed simp

lemma reachable_wf: "log_reachable E d \<Longrightarrow> log_wf E lid d"
  using log_run_wf[OF _ empty_log_wf] by (auto simp: log_reachable_def)

section \<open>Audits of well-formed logs\<close>

lemma locked_state_False:
  "locked_state env False d = Inr (st, d1) \<Longrightarrow> st = state_of (log_id env) d \<and> d1 = d"
  by (auto simp: locked_state_def split: option.splits if_splits)

lemma audit_clean:
  assumes wf: "log_wf E (log_id env) d" and same: "same_hashes E env"
    and lk: "locked_state env False d = Inr x"
  shows "\<exists>r. audit_integrity env rf d = (Inr r, d) \<and> rp_ok r \<and> rp_error_codes r = [] \<and>
    rp_leaf_count r = length (rows_of (log_id env) d) \<and>
    rp_checkpoint_count r = length (done_of (log_id env) d)"
proof -
  obtain ch where w: "leaves_wf (le_sha E) (rows_of (log_id env) d) ch"
    "checkpoints_wf E (rows_of (log_id env) d) (attempts_of (log_id env) d)"
    "state_wf (state_of (log_id env) d) (rows_of (log_id env) d) (attempts_of (log_id env) d) ch"
    using wf by (auto simp: log_wf_def)
  note eqs = leaves_of_rows[OF w(1)] completed_done[OF w(2)]
  have st: "x = (state_of (log_id env) d, d)" using lk locked_state_False by (cases x) blast
  have 1: "audit_leaves (le_sha env) 0 None (rows_of (log_id env) d) = Inr ([], ch)"
    using w(1) same by (simp add: leaves_wf_def same_hashes_def)
  have 2: "audit_checkpoints env (rows_of (log_id env) d) None (- 1) (done_of (log_id env) d) = Inr []"
    using w(2) same audit_checkpoints_cong[of env E]
    by (simp add: checkpoints_wf_def done_of_def Let_def same_hashes_def)
  have 3: "audit_state (state_of (log_id env) d) (rows_of (log_id env) d) (done_of (log_id env) d) ch = []"
    "audit_latest (state_of (log_id env) d) (done_of (log_id env) d) = []"
    using w(3) by (cases "state_of (log_id env) d"; simp add: state_wf_def audit_state_def audit_latest_def done_of_def Let_def)+
  show ?thesis
    unfolding audit_integrity_def lk st sum.case prod.case eqs Let_def 1 2 3
    by (simp add: unique_codes_def)
qed

lemma publish_events:
  assumes "log_wf E (log_id env) d" "same_hashes E env" "publish_checkpoint env actor d = (res, d')"
  shows "integrity_events d' = integrity_events d"
proof (cases "locked_state env False d")
  case (Inl e)
  then show ?thesis using assms(3) by (auto simp: publish_checkpoint_def split: option.splits)
next
  case (Inr x)
  from audit_clean[OF assms(1,2) this, of True] obtain r where au: "audit_integrity env True d = (Inr r, d)" by blast
  have "integrity_events (snd (sign_checkpoint env sg b c st d)) = integrity_events d" for sg b c st
    by (auto simp: sign_checkpoint_def put_checkpoint_def Let_def split: sum.splits prod.splits)
  then have sg: "(p, d') = sign_checkpoint env sg b c st d \<Longrightarrow> integrity_events d' = integrity_events d" for p sg b c st
    by (metis snd_conv)
  show ?thesis
    using assms(3) unfolding publish_checkpoint_def au
    by (auto simp: Let_def split: option.splits sum.splits if_splits prod.splits intro: sg[OF sym])
qed

lemma reachable_events: "log_reachable E d \<Longrightarrow> integrity_events d = []"
  unfolding log_reachable_def
proof (induction rule: rtranclp_induct)
  case base
  show ?case by (simp add: empty_log_def)
next
  case (step d d')
  have wf: "log_wf E lid d" for lid using reachable_wf step(1) by (simp add: log_reachable_def)
  from step(2) show ?case
  proof (cases rule: log_step.cases)
    case (append env v res)
    then show ?thesis using append_rows(3) step(3) by simp
  next
    case (audit env rf rep)
    show ?thesis
    proof (cases "locked_state env False d")
      case (Inl e)
      then show ?thesis using audit(2) step(3) by (simp add: audit_integrity_def)
    next
      case (Inr x)
      then show ?thesis using audit_clean[OF wf audit(1), of x rf] audit(2) step(3) by auto
    qed
  next
    case (publish env actor pub)
    then show ?thesis using publish_events[OF wf] step(3) by simp
  qed
qed

section \<open>What is logged and what is published\<close>

definition logged :: "ident \<Rightarrow> log_db \<Rightarrow> string list" where
  "logged lid d = map lf_receipt_digest (leaves_of lid d)"

definition published :: "ident \<Rightarrow> log_db \<Rightarrow> (nat \<times> string) list" where
  "published lid d = map (\<lambda>c. (nat (cp_tree_size c), cp_root_hash c)) (completed lid d)"

definition leaf_bytes :: "(bytes \<Rightarrow> bytes) \<Rightarrow> string \<Rightarrow> bytes" where
  "leaf_bytes sha g = (case leaf_hash sha g of Inr h \<Rightarrow> h | Inl _ \<Rightarrow> [])"

definition digest_root :: "(bytes \<Rightarrow> bytes) \<Rightarrow> string list \<Rightarrow> bytes" where
  "digest_root sha gs = merkle_root sha (map (leaf_bytes sha) gs)"

text \<open>
  The contract of a log with published roots: entries and publications are only ever added, and a
  published root is the root of the entries before the published size.
\<close>

locale published_log =
  fixes step :: "'d \<Rightarrow> 'd \<Rightarrow> bool"
    and ok :: "'d \<Rightarrow> bool"
    and entries :: "'d \<Rightarrow> 'e list"
    and pubs :: "'d \<Rightarrow> (nat \<times> 'r) list"
    and rootf :: "'e list \<Rightarrow> 'r"
  assumes ok_step: "ok d \<Longrightarrow> step d d' \<Longrightarrow> ok d'"
    and entries_grow: "ok d \<Longrightarrow> step d d' \<Longrightarrow> prefix (entries d) (entries d')"
    and pubs_grow: "ok d \<Longrightarrow> step d d' \<Longrightarrow> prefix (pubs d) (pubs d')"
    and pubs_root: "ok d \<Longrightarrow> (n, r) \<in> set (pubs d) \<Longrightarrow> 0 < n \<and> n \<le> length (entries d) \<and> r = rootf (take n (entries d))"
begin

lemma run_grows:
  assumes "step\<^sup>*\<^sup>* d d'" "ok d"
  shows "ok d' \<and> prefix (entries d) (entries d') \<and> prefix (pubs d) (pubs d')"
  using assms
proof (induction rule: rtranclp_induct)
  case (step y z)
  then show ?case using ok_step entries_grow pubs_grow by (meson prefix_order.order_trans)
qed simp

lemma published_stays:
  assumes "step\<^sup>*\<^sup>* d d'" "ok d" "(n, r) \<in> set (pubs d)"
  shows "(n, r) \<in> set (pubs d') \<and> r = rootf (take n (entries d'))"
proof -
  have "(n, r) \<in> set (pubs d')"
    using run_grows[OF assms(1,2)] assms(3) set_mono_prefix by blast
  then show ?thesis using pubs_root run_grows[OF assms(1,2)] by blast
qed

lemma no_equivocation:
  assumes "step\<^sup>*\<^sup>* d d'" "ok d" "(n, r) \<in> set (pubs d)" "(n, q) \<in> set (pubs d')"
  shows "q = r"
  using published_stays[OF assms(1-3)] pubs_root[of d' n q] run_grows[OF assms(1,2)] assms(4) by simp

end

lemma hash_bytes_leaves:
  assumes "leaves_wf sha ls chain"
  shows "hash_bytes ls = Inr (map (leaf_bytes sha) (map lf_receipt_digest ls))"
proof -
  from audit_leaves_hashes[of sha 0 None ls chain] assms obtain hs where
    hs: "hash_bytes ls = Inr hs" "length hs = length ls"
      "\<forall>j < length ls. leaf_hash sha (lf_receipt_digest (ls ! j)) = Inr (hs ! j)"
    by (auto simp: leaves_wf_def)
  then have "hs = map (leaf_bytes sha) (map lf_receipt_digest ls)"
    by (auto simp: leaf_bytes_def intro!: nth_equalityI)
  with hs(1) show ?thesis by simp
qed

text \<open>What the audited tables of a well-formed log say about each published checkpoint.\<close>

lemma log_wf_views:
  assumes "log_wf E lid d"
  shows "leaves_of lid d = rows_of lid d" "completed lid d = done_of lid d"
    "hash_bytes (rows_of lid d) = Inr (map (leaf_bytes (le_sha E)) (logged lid d))"
    "map lf_leaf_index (rows_of lid d) = map int [0..<length (rows_of lid d)]"
    "distinct (logged lid d)" "length (logged lid d) = length (rows_of lid d)"
    "sorted_wrt (<) (map cp_tree_size (completed lid d))"
proof -
  obtain ch where w: "leaves_wf (le_sha E) (rows_of lid d) ch"
    "checkpoints_wf E (rows_of lid d) (attempts_of lid d)"
    using assms by (auto simp: log_wf_def)
  show lv: "leaves_of lid d = rows_of lid d" by (rule leaves_of_rows[OF w(1)])
  show cd: "completed lid d = done_of lid d" by (rule completed_done[OF w(2)])
  show "hash_bytes (rows_of lid d) = Inr (map (leaf_bytes (le_sha E)) (logged lid d))"
    unfolding logged_def lv by (rule hash_bytes_leaves[OF w(1)])
  show "map lf_leaf_index (rows_of lid d) = map int [0..<length (rows_of lid d)]"
    "distinct (logged lid d)" "length (logged lid d) = length (rows_of lid d)"
    using w(1) by (simp_all add: leaves_wf_def logged_def lv)
  show "sorted_wrt (<) (map cp_tree_size (completed lid d))"
    using w(2) unfolding cd done_of_def by (intro sorted_wrt_filter) (simp add: checkpoints_wf_def)
qed

lemma log_wf_checkpoint:
  assumes wf: "log_wf E lid d" and c: "c \<in> set (completed lid d)"
  shows "0 < cp_tree_size c" "nat (cp_tree_size c) \<le> length (logged lid d)"
    "cp_root_hash c = hex_of (digest_root (le_sha E) (take (nat (cp_tree_size c)) (logged lid d)))"
    "\<exists>a. cp_checkpoint_artifact c = Some a \<and> jget a ''root_hash'' = root_field (cp_root_hash c) \<and>
       jget a ''tree_size'' = JInt (cp_tree_size c)"
    "checkpoint_record_of lid (Some (cp_tree_size c)) d = Inr c"
proof -
  note v = log_wf_views[OF wf]
  have w: "checkpoints_wf E (rows_of lid d) (attempts_of lid d)" using wf by (auto simp: log_wf_def)
  have cK: "c \<in> set (filter (\<lambda>c. cp_status c = CP_completed) (attempts_of lid d))"
    using c by (simp add: v(2) done_of_def)
  then show pos: "0 < cp_tree_size c" and le: "nat (cp_tree_size c) \<le> length (logged lid d)"
    using w v(6) by (auto simp: checkpoints_wf_def)
  show "\<exists>a. cp_checkpoint_artifact c = Some a \<and> jget a ''root_hash'' = root_field (cp_root_hash c) \<and>
       jget a ''tree_size'' = JInt (cp_tree_size c)"
    using w cK by (simp add: checkpoints_wf_def Let_def)
  from audit_checkpoints_each[OF _ cK, of E "rows_of lid d" None "- 1"] w obtain hs where
    hs: "hash_bytes (py_take (cp_tree_size c) (rows_of lid d)) = Inr hs"
      "cp_root_hash c = hex_of (merkle_root (le_sha E) hs)"
    by (auto simp: checkpoints_wf_def Let_def checkpoint_ok_def)
  then have "hs = map (leaf_bytes (le_sha E)) (take (nat (cp_tree_size c)) (logged lid d))"
    using hash_bytes_take[OF v(3)] pos by (simp add: py_take_def take_map)
  with hs(2) show "cp_root_hash c = hex_of (digest_root (le_sha E) (take (nat (cp_tree_size c)) (logged lid d)))"
    by (simp add: digest_root_def)
  obtain c' where c': "find (\<lambda>x. cp_tree_size x = cp_tree_size c) (completed lid d) = Some c'"
    using c by (cases "find (\<lambda>x. cp_tree_size x = cp_tree_size c) (completed lid d)")
      (auto simp: find_None_iff)
  then have "c' \<in> set (completed lid d)" "cp_tree_size c' = cp_tree_size c"
    by (auto simp: find_Some_iff)
  moreover have "distinct (map cp_tree_size (completed lid d))"
    using v(7) by (simp add: strict_sorted_iff)
  ultimately have "c' = c" using c by (auto simp: distinct_map dest: inj_onD)
  with c' show "checkpoint_record_of lid (Some (cp_tree_size c)) d = Inr c"
    by (simp add: checkpoint_record_of_def)
qed

interpretation log: published_log "log_step E" "log_wf E lid" "logged lid" "published lid"
  "\<lambda>gs. hex_of (digest_root (le_sha E) gs)" for E lid
proof unfold_locales
  fix d d' assume wf: "log_wf E lid d" and st: "log_step E d d'"
  note s = log_step_wf[OF st wf] log_wf_views(1,2)[OF wf]
  show "log_wf E lid d'" by (rule s(1))
  show "prefix (logged lid d) (logged lid d')"
    using s(2) log_wf_views(1)[OF s(1)] by (simp add: logged_def s map_mono_prefix)
  show "prefix (published lid d) (published lid d')"
    using s(3) log_wf_views(2)[OF s(1)] by (simp add: published_def s map_mono_prefix)
next
  fix d n r assume wf: "log_wf E lid d" and "(n, r) \<in> set (published lid d)"
  then obtain c where c: "c \<in> set (completed lid d)" "n = nat (cp_tree_size c)" "r = cp_root_hash c"
    by (auto simp: published_def)
  show "0 < n \<and> n \<le> length (logged lid d) \<and> r = hex_of (digest_root (le_sha E) (take n (logged lid d)))"
    using log_wf_checkpoint[OF wf c(1)] c(2,3) by simp
qed


section \<open>Proofs served\<close>

lemma leaves_below_take:
  assumes "log_wf E lid d" "0 \<le> n"
  shows "leaves_below lid n d = take (nat n) (rows_of lid d)"
proof -
  note v = log_wf_views[OF assms(1)]
  have idx: "lf_leaf_index (rows_of lid d ! j) = int j" if "j < length (rows_of lid d)" for j
    using arg_cong[OF v(4), of "\<lambda>xs. xs ! j"] that by simp
  have "filter (\<lambda>l. lf_leaf_index l < n) (take (nat n) (rows_of lid d)) = take (nat n) (rows_of lid d)"
    using idx assms(2) by (auto simp: filter_id_conv in_set_conv_nth)
  moreover have "filter (\<lambda>l. lf_leaf_index l < n) (drop (nat n) (rows_of lid d)) = []"
    using idx assms(2) by (auto simp: filter_empty_conv in_set_conv_nth)
  ultimately show ?thesis
    unfolding leaves_below_def v(1)
    by (metis append_Nil2 append_take_drop_id filter_append)
qed

lemma find_nth:
  assumes "distinct (map f xs)" "i < length xs"
  shows "find (\<lambda>x. f x = f (xs ! i)) xs = Some (xs ! i)"
proof -
  have "f (xs ! j) \<noteq> f (xs ! i)" if "j < i" for j
    using assms that by (auto simp: distinct_conv_nth)
  then show ?thesis using assms(2) by (auto simp: find_Some_iff)
qed

lemma leaf_hash_valid:
  "leaf_hash sha g = Inr h \<Longrightarrow> normalize_receipt_digest g = Inr g"
  by (auto simp: leaf_hash_def normalize_receipt_digest_def split: if_splits sum.splits)

lemma logged_valid:
  assumes "log_wf E lid d" "g \<in> set (logged lid d)"
  shows "normalize_digest (JStr g) = Inr g" "leaf_hash (le_sha E) g = Inr (leaf_bytes (le_sha E) g)"
proof -
  obtain ch where w: "audit_leaves (le_sha E) 0 None (rows_of lid d) = Inr ([], ch)"
    using assms(1) by (auto simp: log_wf_def leaves_wf_def)
  obtain h where h: "leaf_hash (le_sha E) g = Inr h"
    using audit_leaves_hashes[OF w] assms(2) log_wf_views(1)[OF assms(1)]
    by (fastforce simp: logged_def in_set_conv_nth)
  then show "leaf_hash (le_sha E) g = Inr (leaf_bytes (le_sha E) g)" by (simp add: leaf_bytes_def)
  show "normalize_digest (JStr g) = Inr g" using leaf_hash_valid[OF h] by (simp add: normalize_digest_def)
qed

lemma inclusion_served:
  assumes wf: "log_wf E (log_id env) d" and same: "same_hashes E env"
    and c: "c \<in> set (completed (log_id env) d)" and i: "i < nat (cp_tree_size c)"
  defines "g \<equiv> logged (log_id env) d ! i"
  shows "\<exists>path a. inclusion_proof env (JStr g) (Some (cp_tree_size c)) d =
      Inr (\<lparr>pf_log_id = log_id env, pf_tree_size = cp_tree_size c, pf_leaf_index = int i,
            pf_leaf_digest = g, pf_audit_path = map hex_of path\<rparr>, a) \<and>
    cp_checkpoint_artifact c = Some a \<and> jget a ''root_hash'' = root_field (cp_root_hash c) \<and>
    jget a ''tree_size'' = JInt (cp_tree_size c) \<and>
    map_option hex_of (root_from_path (le_sha env) (nat (cp_tree_size c)) i (leaf_bytes (le_sha env) g) path) =
      Some (cp_root_hash c)"
proof -
  note v = log_wf_views[OF wf] and k = log_wf_checkpoint[OF wf c]
  define R where "R = take (nat (cp_tree_size c)) (rows_of (log_id env) d)"
  define hs where "hs = map (leaf_bytes (le_sha E)) (take (nat (cp_tree_size c)) (logged (log_id env) d))"
  have sha: "le_sha env = le_sha E" using same by (simp add: same_hashes_def)
  have len: "length R = nat (cp_tree_size c)" "length hs = nat (cp_tree_size c)"
    using k(2) v(6) by (simp_all add: R_def hs_def)
  have Ri: "R ! i = rows_of (log_id env) d ! i" "lf_receipt_digest (R ! i) = g" "hs ! i = leaf_bytes (le_sha E) g"
    using i len k(2) v(1) by (simp_all add: R_def hs_def g_def logged_def)
  have idx: "lf_leaf_index (R ! i) = int i"
    using arg_cong[OF v(4), of "\<lambda>xs. xs ! i"] i k(2) v(6) Ri(1) by simp
  have below: "leaves_below (log_id env) (cp_tree_size c) d = R"
    using leaves_below_take[OF wf] k(1) by (simp add: R_def)
  have "distinct (map lf_receipt_digest R)"
    using v(5) unfolding R_def take_map[symmetric] by (simp add: logged_def v(1))
  from find_nth[OF this, of i] i len Ri(2)
  have found: "find (\<lambda>l. lf_receipt_digest l = g) R = Some (R ! i)" by simp
  have hb: "hash_bytes R = Inr hs"
    using hash_bytes_take[OF v(3)] by (simp add: R_def hs_def take_map)
  obtain a where a: "cp_checkpoint_artifact c = Some a" "jget a ''root_hash'' = root_field (cp_root_hash c)"
    "jget a ''tree_size'' = JInt (cp_tree_size c)" using k(4) by blast
  obtain path where p: "inclusion_path (le_sha E) hs (int i) = Inr (map hex_of path)"
    "root_from_path (le_sha E) (length hs) i (hs ! i) path = Some (merkle_root (le_sha E) hs)"
    using inclusion_complete[of i hs "le_sha E"] i len by auto
  have valid: "normalize_digest (JStr g) = Inr g"
    using logged_valid(1)[OF wf] i k(2) by (simp add: g_def)
  show ?thesis
    by (rule exI[of _ path], rule exI[of _ a])
       (use a p k(3,5) below found hb valid idx Ri len sha in
        \<open>simp add: inclusion_proof_def Let_def checkpoint_artifact_of_def digest_root_def hs_def\<close>)
qed

lemma consistency_served:
  assumes wf: "log_wf E (log_id env) d" and same: "same_hashes E env"
    and c: "c \<in> set (completed (log_id env) d)" "c' \<in> set (completed (log_id env) d)"
    and le: "cp_tree_size c \<le> cp_tree_size c'"
  shows "\<exists>path a b r. consistency_proof env (cp_tree_size c) (cp_tree_size c') d =
      Inr (\<lparr>cf_log_id = log_id env, cf_old_tree_size = cp_tree_size c,
            cf_new_tree_size = cp_tree_size c', cf_path = map hex_of path\<rparr>, a, b) \<and>
    jget a ''root_hash'' = root_field (cp_root_hash c) \<and> jget b ''root_hash'' = root_field (cp_root_hash c') \<and>
    cp_root_hash c = hex_of r \<and>
    map_option (map_prod hex_of hex_of)
      (roots_from_consistency (le_sha env) (nat (cp_tree_size c)) (nat (cp_tree_size c')) True r path) =
      Some (cp_root_hash c, cp_root_hash c')"
proof -
  note v = log_wf_views[OF wf] and k = log_wf_checkpoint[OF wf c(1)] and k' = log_wf_checkpoint[OF wf c(2)]
  define m where "m = nat (cp_tree_size c)"
  define n where "n = nat (cp_tree_size c')"
  define hs where "hs = map (leaf_bytes (le_sha E)) (take n (logged (log_id env) d))"
  have sha: "le_sha env = le_sha E" using same by (simp add: same_hashes_def)
  have mn: "0 < m" "m \<le> n" "length hs = n" "cp_tree_size c = int m" "cp_tree_size c' = int n"
    using k(1) k'(1,2) le by (simp_all add: m_def n_def hs_def)
  have hb: "hash_bytes (leaves_below (log_id env) (int n) d) = Inr hs"
    using hash_bytes_take[OF v(3), of n] leaves_below_take[OF wf, of "int n"] by (simp add: hs_def take_map)
  have roots: "cp_root_hash c = hex_of (merkle_root (le_sha E) (take m hs))"
    "cp_root_hash c' = hex_of (merkle_root (le_sha E) hs)"
    using k(3) k'(3) mn(2) by (simp_all add: digest_root_def hs_def m_def[symmetric] n_def[symmetric] take_map min_def)
  obtain p where p: "consistency_path_rec (le_sha E) m hs True = Inr p"
    "roots_from_consistency (le_sha E) m n True (merkle_root (le_sha E) (take m hs)) p =
       Some (merkle_root (le_sha E) (take m hs), merkle_root (le_sha E) hs)"
    using consistency_complete[of m hs "le_sha E" True] mn by auto
  have "m = n \<Longrightarrow> p = []" using p(1) mn(3) by (simp add: consistency_path_rec.simps)
  then have cp: "consistency_path (le_sha E) hs (int m) (int n) = Inr (map hex_of p)"
    using mn p(1) by (auto simp: consistency_path_def)
  obtain a where a: "cp_checkpoint_artifact c = Some a" "jget a ''root_hash'' = root_field (cp_root_hash c)"
    using k(4) by blast
  obtain b where b: "cp_checkpoint_artifact c' = Some b" "jget b ''root_hash'' = root_field (cp_root_hash c')"
    using k'(4) by blast
  show ?thesis
    by (rule exI[of _ p], rule exI[of _ a], rule exI[of _ b], rule exI[of _ "merkle_root (le_sha E) (take m hs)"])
       (use a b p(2) cp hb roots sha mn(4,5) k(5) k'(5) in
        \<open>simp add: consistency_proof_def checkpoint_artifact_of_def m_def[symmetric] n_def[symmetric]\<close>)
qed


section \<open>The append chain commits to the log\<close>

lemma hex_digit_value:
  assumes "c \<in> set hex_digits"
  shows "\<exists>x. 0 \<le> x \<and> x < 16 \<and> hex_value c = Some x \<and> hex_digit x = c"
proof -
  have "length hex_digits = 16" by (simp add: hex_digits_def)
  then obtain x where x: "x < 16" "c = hex_digits ! x" using assms by (metis in_set_conv_nth)
  then have "c = hex_digit (int x)" by (simp add: hex_digit_def)
  then show ?thesis using x(1) hex_value_digit[of "int x"] by auto
qed

lemma hex_of_from: "set s \<subseteq> set hex_digits \<Longrightarrow> from_hex s = Some bs \<Longrightarrow> hex_of bs = s"
proof (induction s arbitrary: bs rule: from_hex.induct)
  case (3 a b s)
  obtain x where x: "0 \<le> x" "x < 16" "hex_value a = Some x" "hex_digit x = a"
    using 3(2) hex_digit_value[of a] by auto
  obtain y where y: "0 \<le> y" "y < 16" "hex_value b = Some y" "hex_digit y = b"
    using 3(2) hex_digit_value[of b] by auto
  obtain cs where cs: "from_hex s = Some cs" "bs = char_of (16 * x + y) # cs"
    using 3(3) x(3) y(3) by (auto split: option.splits)
  have "(16 * x + y) mod 256 = 16 * x + y" "(16 * x + y) div 16 = x" "hex_digit (16 * x + y) = b"
    using x(1,2) y hex_digit_mod[of "16 * x + y"] by simp_all
  then show ?case using 3(1)[of cs] 3(2) x y cs by (simp add: hex_of_def)
qed (auto simp: hex_of_def)

lemma length_from_hex: "from_hex s = Some bs \<Longrightarrow> length s = 2 * length bs"
  by (induction s arbitrary: bs rule: from_hex.induct) (auto split: option.splits)

text \<open>The message hashed for one append, and those of a whole log.\<close>

definition prev_bytes :: "string option \<Rightarrow> bytes" where
  "prev_bytes prev = (case prev of None \<Rightarrow> replicate 32 (CHR 0x00)
     | Some p \<Rightarrow> if p = [] then replicate 32 (CHR 0x00) else the (from_hex p))"

definition chain_msg :: "(bytes \<Rightarrow> bytes) \<Rightarrow> string option \<Rightarrow> log_leaf \<Rightarrow> bytes" where
  "chain_msg sha prev l = prev_bytes prev @ projr (to_bytes8 (lf_leaf_index l)) @
     the (from_hex (lf_receipt_digest l)) @ leaf_bytes sha (lf_receipt_digest l)"

fun chain_msgs :: "(bytes \<Rightarrow> bytes) \<Rightarrow> string option \<Rightarrow> log_leaf list \<Rightarrow> bytes list" where
  "chain_msgs sha prev [] = []"
| "chain_msgs sha prev (l # ls) =
     chain_msg sha prev l # chain_msgs sha (Some (hex_of (sha (chain_msg sha prev l)))) ls"

lemma append_chain_msg:
  assumes "append_chain_hash sha prev (lf_leaf_index l) (lf_receipt_digest l) (hex_of h) = Inr c"
    "leaf_hash sha (lf_receipt_digest l) = Inr h"
  shows "c = hex_of (sha (chain_msg sha prev l))"
    "\<exists>b. to_bytes8 (lf_leaf_index l) = Inr b \<and> length b = 8"
    "\<exists>a. from_hex (lf_receipt_digest l) = Some a \<and> length a = 32 \<and> hex_of a = lf_receipt_digest l"
proof -
  have hx: "hex_256 (lf_receipt_digest l)"
    using leaf_hash_valid[OF assms(2)] by (auto simp: normalize_receipt_digest_def split: if_splits)
  obtain p i a where pia: "to_bytes8 (lf_leaf_index l) = Inr i" "from_hex (lf_receipt_digest l) = Some a"
    "c = hex_of (sha (p @ i @ a @ h))" "p = prev_bytes prev"
    using assms(1) by (auto simp: append_chain_hash_def prev_bytes_def split: option.splits sum.splits if_splits)
  then show "c = hex_of (sha (chain_msg sha prev l))"
    using assms(2) by (simp add: chain_msg_def leaf_bytes_def)
  show "\<exists>b. to_bytes8 (lf_leaf_index l) = Inr b \<and> length b = 8"
    using pia(1) by (auto simp: to_bytes8_def split: if_splits)
  show "\<exists>a. from_hex (lf_receipt_digest l) = Some a \<and> length a = 32 \<and> hex_of a = lf_receipt_digest l"
    using pia(2) hx length_from_hex[OF pia(2)] hex_of_from[OF _ pia(2)] by (simp add: hex_256_def)
qed

lemma audit_leaves_last:
  "audit_leaves sha i prev (ls @ [l]) = Inr ([], chain) \<Longrightarrow>
   \<exists>ch h c. audit_leaves sha i prev ls = Inr ([], ch) \<and> leaf_hash sha (lf_receipt_digest l) = Inr h \<and>
     append_chain_hash sha ch (lf_leaf_index l) (lf_receipt_digest l) (hex_of h) = Inr c \<and>
     chain = Some c \<and> lf_leaf_index l = i + int (length ls) \<and>
     set (chain_msgs sha prev (ls @ [l])) = insert (chain_msg sha ch l) (set (chain_msgs sha prev ls))"
proof (induction ls arbitrary: i prev)
  case (Cons x xs)
  from Cons.prems obtain hx cx where x: "leaf_hash sha (lf_receipt_digest x) = Inr hx"
    "append_chain_hash sha prev (lf_leaf_index x) (lf_receipt_digest x) (hex_of hx) = Inr cx"
    "audit_leaves sha (i + 1) (Some cx) (xs @ [l]) = Inr ([], chain)"
    "lf_leaf_index x = i" "lf_leaf_hash x = hex_of hx" "lf_append_chain_hash x = cx"
    by (auto split: sum.splits if_splits)
  note cm = append_chain_msg(1)[OF x(2,1)]
  from Cons.IH[OF x(3)] obtain ch h c where ih: "audit_leaves sha (i + 1) (Some cx) xs = Inr ([], ch)"
    "leaf_hash sha (lf_receipt_digest l) = Inr h"
    "append_chain_hash sha ch (lf_leaf_index l) (lf_receipt_digest l) (hex_of h) = Inr c"
    "chain = Some c" "lf_leaf_index l = i + 1 + int (length xs)"
    "set (chain_msgs sha (Some cx) (xs @ [l])) = insert (chain_msg sha ch l) (set (chain_msgs sha (Some cx) xs))"
    by blast
  then show ?case using x cm by (intro exI[of _ ch] exI[of _ h] exI[of _ c]) auto
qed (auto split: sum.splits if_splits)

text \<open>The first chain value is empty exactly for the empty log; later ones are digests.\<close>

lemma audit_leaves_chain:
  assumes "audit_leaves sha 0 None ls = Inr ([], ch)" "\<forall>m. length (sha m) = 32"
  shows "case ch of None \<Rightarrow> ls = [] | Some c \<Rightarrow> ls \<noteq> [] \<and> (\<exists>b. length b = 32 \<and> c = hex_of b)"
proof (cases ls rule: rev_exhaust)
  case (snoc xs l)
  from audit_leaves_last[OF assms(1)[unfolded snoc]] obtain ch0 h c where
    "leaf_hash sha (lf_receipt_digest l) = Inr h" "ch = Some c"
    "append_chain_hash sha ch0 (lf_leaf_index l) (lf_receipt_digest l) (hex_of h) = Inr c" by blast
  with append_chain_msg(1)[of sha ch0 l h c] assms(2) snoc show ?thesis by auto
qed (use assms in simp)

lemma to_bytes8_inj:
  assumes "to_bytes8 i = Inr b" "to_bytes8 j = Inr b"
  shows "i = j"
proof -
  have r: "0 \<le> i" "i < 2 ^ 64" "0 \<le> j" "j < 2 ^ 64" using assms by (auto simp: to_bytes8_def split: if_splits)
  have eq: "map (\<lambda>k. (char_of (i div 256 ^ (7 - k) mod 256) :: char)) [0..<8] =
      map (\<lambda>k. char_of (j div 256 ^ (7 - k) mod 256)) [0..<8]"
    using assms by (auto simp: to_bytes8_def split: if_splits)
  have dig: "i div 256 ^ k mod 256 = j div 256 ^ k mod 256" if "k < 8" for k
  proof -
    have "(char_of (i div 256 ^ k mod 256) :: char) = char_of (j div 256 ^ k mod 256)"
      using arg_cong[OF eq, of "\<lambda>xs. xs ! (7 - k)"] that nth_upt[of 0 "7 - k" 8] by simp
    then have "(of_char (char_of (i div 256 ^ k mod 256) :: char) :: int) =
        of_char (char_of (j div 256 ^ k mod 256) :: char)" by simp
    then show ?thesis by simp
  qed
  have "i mod 256 ^ k = j mod 256 ^ k" if "k \<le> 8" for k
    using that
  proof (induction k)
    case (Suc k)
    have "x mod 256 ^ Suc k = 256 ^ k * (x div 256 ^ k mod 256) + x mod 256 ^ k" for x :: int
      using zmod_zmult2_eq[of 256 x "256 ^ k"] by (simp add: mult.commute[of 256])
    with Suc dig[of k] show ?case by simp
  qed simp
  from this[of 8] r show ?thesis by simp
qed

lemma hex_of_Nil [simp]: "hex_of b = [] \<longleftrightarrow> b = []"
  using length_hex_of[of b] by (cases b) (auto simp del: length_hex_of simp: hex_of_def)

lemma chain_binds:
  assumes "audit_leaves sha 0 None ls = Inr ([], ch)" "audit_leaves sha 0 None ls' = Inr ([], ch)"
    "\<forall>m. length (sha m) = 32" "inj_on sha (set (chain_msgs sha None ls) \<union> set (chain_msgs sha None ls'))"
  shows "map lf_receipt_digest ls = map lf_receipt_digest ls'"
  using assms(1,2,4)
proof (induction ls arbitrary: ls' ch rule: rev_induct)
  case Nil
  then have "ch = None" by simp
  then show ?case using audit_leaves_chain[OF Nil(2) assms(3)] by simp
next
  case (snoc l xs)
  from audit_leaves_last[OF snoc(2)] obtain c0 h c where l: "audit_leaves sha 0 None xs = Inr ([], c0)"
    "leaf_hash sha (lf_receipt_digest l) = Inr h"
    "append_chain_hash sha c0 (lf_leaf_index l) (lf_receipt_digest l) (hex_of h) = Inr c"
    "ch = Some c" "lf_leaf_index l = int (length xs)"
    "set (chain_msgs sha None (xs @ [l])) = insert (chain_msg sha c0 l) (set (chain_msgs sha None xs))" by auto
  have "ls' \<noteq> []" using audit_leaves_chain[OF snoc(3) assms(3)] l(4) by simp
  then obtain xs' l' where ls': "ls' = xs' @ [l']" by (metis rev_exhaust)
  from audit_leaves_last[OF snoc(3)[unfolded ls']] obtain c0' h' where l': "audit_leaves sha 0 None xs' = Inr ([], c0')"
    "leaf_hash sha (lf_receipt_digest l') = Inr h'"
    "append_chain_hash sha c0' (lf_leaf_index l') (lf_receipt_digest l') (hex_of h') = Inr c"
    "lf_leaf_index l' = int (length xs')"
    "set (chain_msgs sha None (xs' @ [l'])) = insert (chain_msg sha c0' l') (set (chain_msgs sha None xs'))"
    using l(4) by auto
  have "sha (chain_msg sha c0 l) = sha (chain_msg sha c0' l')"
    using append_chain_msg(1)[OF l(3,2)] append_chain_msg(1)[OF l'(3,2)] by simp
  then have msg: "chain_msg sha c0 l = chain_msg sha c0' l'"
    using inj_onD[OF snoc(4)] l(6) l'(5) ls' by blast
  obtain i a i' a' where b: "to_bytes8 (lf_leaf_index l) = Inr i" "length i = 8"
    "from_hex (lf_receipt_digest l) = Some a" "length a = 32" "hex_of a = lf_receipt_digest l"
    "to_bytes8 (lf_leaf_index l') = Inr i'" "length i' = 8"
    "from_hex (lf_receipt_digest l') = Some a'" "length a' = 32" "hex_of a' = lf_receipt_digest l'"
    using append_chain_msg(2,3)[OF l(3,2)] append_chain_msg(2,3)[OF l'(3,2)] by auto
  note ca = audit_leaves_chain[OF l(1) assms(3)] and ca' = audit_leaves_chain[OF l'(1) assms(3)]
  have "length (prev_bytes c0) = 32" "length (prev_bytes c0') = 32"
    using ca ca' by (auto simp: prev_bytes_def split: option.splits)
  with msg b have eqs: "prev_bytes c0 = prev_bytes c0'" "i = i'" "a = a'" by (simp_all add: chain_msg_def)
  have len: "length xs = length xs'"
    using to_bytes8_inj[OF b(1)[unfolded eqs(2)] b(6)] l(5) l'(4) by simp
  have "c0 = c0'"
    using eqs(1) ca ca' len by (cases c0; cases c0') (auto simp: prev_bytes_def split: if_splits)
  moreover have "inj_on sha (set (chain_msgs sha None xs) \<union> set (chain_msgs sha None xs'))"
    by (rule inj_on_subset[OF snoc(4)]) (use l(6) l'(5) ls' in auto)
  ultimately have "map lf_receipt_digest xs = map lf_receipt_digest xs'" using snoc.IH[OF l(1)] l'(1) by simp
  then show ?case using b(5,10) eqs(3) ls' by simp
qed

lemma audit_ok_chain:
  assumes "audit_integrity env rf d = (Inr r, d1)" "rp_ok r" "state_of (log_id env) d = Some s"
  shows "audit_leaves (le_sha env) 0 None (leaves_of (log_id env) d) = Inr ([], ls_append_chain_head s)"
proof -
  obtain x where lk: "locked_state env False d = Inr x"
    using assms(1) by (cases "locked_state env False d") (auto simp: audit_integrity_def)
  have x: "x = (Some s, d)" using lk locked_state_False assms(3) by (cases x) auto
  obtain e1 ch where au: "audit_leaves (le_sha env) 0 None (leaves_of (log_id env) d) = Inr (e1, ch)"
    using assms(1) lk x by (cases "audit_leaves (le_sha env) 0 None (leaves_of (log_id env) d)")
      (auto simp: audit_integrity_def Let_def)
  have "e1 = [] \<and> ls_append_chain_head s = ch"
    using assms(1,2) lk x au
    by (auto simp: audit_integrity_def Let_def unique_codes_def audit_state_def split: sum.splits if_splits)
  with au show ?thesis by simp
qed

section \<open>Properties\<close>

text \<open>
  C17. Integrity of the log. From the empty tables, whatever digests are appended and checkpoints
  published (failed signings included) by services that agree on the hash functions, an audit of
  any log that can be opened finds nothing, changes nothing and counts what is there, and no
  integrity event has ever been recorded.
\<close>

theorem log_integrity:
  assumes "log_reachable E d" "same_hashes E env" "locked_state env False d = Inr x"
  shows "(\<exists>r. audit_integrity env rf d = (Inr r, d) \<and> rp_ok r \<and> rp_error_codes r = [] \<and>
      rp_leaf_count r = length (logged (log_id env) d) \<and>
      rp_checkpoint_count r = length (published (log_id env) d)) \<and>
    integrity_events d = []"
  using audit_clean[OF reachable_wf[OF assms(1)] assms(2,3), of rf] reachable_events[OF assms(1)]
    log_wf_views(2,6)[OF reachable_wf[OF assms(1)]]
  by (simp add: published_def)

text \<open>
  C18. Append-only, no equivocation. Along any run what was logged stays a prefix of the log and no
  digest is logged twice; a published size and root stays published, is the Merkle root of the first
  digests of the log at every later time, and no other root is ever published for that size.
\<close>

theorem log_append_only:
  assumes "log_reachable E d" "(log_step E)\<^sup>*\<^sup>* d d'"
  shows "prefix (logged lid d) (logged lid d') \<and> distinct (logged lid d') \<and>
    (\<forall>(n, r) \<in> set (published lid d). (n, r) \<in> set (published lid d') \<and> n \<le> length (logged lid d) \<and>
       r = hex_of (digest_root (le_sha E) (take n (logged lid d'))) \<and>
       (\<forall>q. (n, q) \<in> set (published lid d') \<longrightarrow> q = r))"
proof -
  have wf: "log_wf E lid d" by (rule reachable_wf[OF assms(1)])
  have run: "log_wf E lid d' \<and> prefix (logged lid d) (logged lid d')"
    using log.run_grows[OF assms(2) wf] by blast
  then show ?thesis
    using log_wf_views(5)[of E lid d'] log.published_stays[OF assms(2) wf] log.no_equivocation[OF assms(2) wf]
      log.pubs_root[OF wf] by fastforce
qed

text \<open>
  Inclusion proofs are served. For every published checkpoint of a reachable log and every
  digest logged below its size the service returns a proof whose audit path leads a client from that
  leaf to the root in the returned checkpoint artifact.
\<close>

theorem inclusion_proof_served:
  assumes "log_reachable E d" "same_hashes E env" "c \<in> set (completed (log_id env) d)"
    "i < nat (cp_tree_size c)"
  shows "\<exists>path a. inclusion_proof env (JStr (logged (log_id env) d ! i)) (Some (cp_tree_size c)) d =
      Inr (\<lparr>pf_log_id = log_id env, pf_tree_size = cp_tree_size c, pf_leaf_index = int i,
            pf_leaf_digest = logged (log_id env) d ! i, pf_audit_path = map hex_of path\<rparr>, a) \<and>
    cp_checkpoint_artifact c = Some a \<and> jget a ''root_hash'' = root_field (cp_root_hash c) \<and>
    jget a ''tree_size'' = JInt (cp_tree_size c) \<and>
    map_option hex_of (root_from_path (le_sha env) (nat (cp_tree_size c)) i
        (leaf_bytes (le_sha env) (logged (log_id env) d ! i)) path) = Some (cp_root_hash c)"
  by (rule inclusion_served[OF reachable_wf[OF assms(1)] assms(2-4)])

text \<open>
  Monitors can follow the log. For any two published checkpoints of a reachable log, the older
  one first, the service returns a consistency proof with both artifacts, from which a monitor that
  holds the older root recomputes both published roots.
\<close>

theorem consistency_proof_served:
  assumes "log_reachable E d" "same_hashes E env" "c \<in> set (completed (log_id env) d)"
    "c' \<in> set (completed (log_id env) d)" "cp_tree_size c \<le> cp_tree_size c'"
  shows "\<exists>path a b r. consistency_proof env (cp_tree_size c) (cp_tree_size c') d =
      Inr (\<lparr>cf_log_id = log_id env, cf_old_tree_size = cp_tree_size c,
            cf_new_tree_size = cp_tree_size c', cf_path = map hex_of path\<rparr>, a, b) \<and>
    jget a ''root_hash'' = root_field (cp_root_hash c) \<and> jget b ''root_hash'' = root_field (cp_root_hash c') \<and>
    cp_root_hash c = hex_of r \<and>
    map_option (map_prod hex_of hex_of)
      (roots_from_consistency (le_sha env) (nat (cp_tree_size c)) (nat (cp_tree_size c')) True r path) =
      Some (cp_root_hash c, cp_root_hash c')"
  by (rule consistency_served[OF reachable_wf[OF assms(1)] assms(2-5)])

text \<open>
  Tampering is detected. If the tables of a log are changed by hand in any way and still pass
  the audit with the same chain head, they hold the same digests in the same order, unless SHA-256
  maps two different of the chained messages to the same value.
\<close>

theorem chain_head_commits:
  assumes "audit_integrity env rf d = (Inr r, d1)" "rp_ok r"
    "audit_integrity env rf' d' = (Inr r', d1')" "rp_ok r'"
    "state_of (log_id env) d = Some s" "state_of (log_id env) d' = Some s'"
    "ls_append_chain_head s' = ls_append_chain_head s" "\<forall>m. length (le_sha env m) = 32"
  shows "logged (log_id env) d' = logged (log_id env) d \<or>
    \<not> inj_on (le_sha env) (set (chain_msgs (le_sha env) None (leaves_of (log_id env) d')) \<union>
        set (chain_msgs (le_sha env) None (leaves_of (log_id env) d)))"
  using chain_binds[OF audit_ok_chain[OF assms(3,4,6), unfolded assms(7)] audit_ok_chain[OF assms(1,2,5)] assms(8)]
  by (auto simp: logged_def)


section \<open>A sample log\<close>

text \<open>Two digests, a checkpoint after each.\<close>

definition sample_log_env :: log_env where
  "sample_log_env = \<lparr>le_identity = [(''type'', JStr ''log''), (''id'', JStr ''L'')], le_now = 5000000,
     le_uuid = (\<lambda>n. replicate n (CHR ''u'')), le_sha = sample_sha, le_jcs = (\<lambda>_. []),
     le_signer = Some (\<lambda>st i. Inr (''key'', ''sig'', ''op''))\<rparr>"

definition digest_a :: string where "digest_a = replicate 64 (CHR ''0'')"
definition digest_b :: string where "digest_b = replicate 64 (CHR ''1'')"

definition sample_log1 :: log_db where
  "sample_log1 = snd (publish_checkpoint sample_log_env (''user'', ''u'')
     (snd (append_receipt_digest sample_log_env (JStr digest_a) empty_log)))"

definition sample_log2 :: log_db where
  "sample_log2 = snd (publish_checkpoint sample_log_env (''user'', ''u'')
     (snd (append_receipt_digest sample_log_env (JStr digest_b) sample_log1)))"

lemma sample_same: "same_hashes sample_log_env sample_log_env"
  by (simp add: same_hashes_def)

lemma sample_log_steps:
  "(log_step sample_log_env)\<^sup>*\<^sup>* d (snd (publish_checkpoint sample_log_env a (snd (append_receipt_digest sample_log_env v d))))"
  by (rule rtranclp_trans[OF r_into_rtranclp r_into_rtranclp];
      rule log_step.append[OF sample_same] log_step.publish[OF sample_same]) (rule surjective_pairing)+

lemma sample_reachable: "log_reachable sample_log_env sample_log1" "(log_step sample_log_env)\<^sup>*\<^sup>* sample_log1 sample_log2"
  "log_reachable sample_log_env sample_log2"
proof -
  show 1: "log_reachable sample_log_env sample_log1"
    unfolding log_reachable_def sample_log1_def by (rule sample_log_steps)
  show 2: "(log_step sample_log_env)\<^sup>*\<^sup>* sample_log1 sample_log2"
    unfolding sample_log2_def by (rule sample_log_steps)
  show "log_reachable sample_log_env sample_log2" using 1 2 by (simp add: log_reachable_def)
qed



definition sample_view :: "log_db \<Rightarrow> string list \<times> int list \<times> bool \<times> bool" where
  "sample_view d = (logged (log_id sample_log_env) d, map cp_tree_size (completed (log_id sample_log_env) d),
     (case locked_state sample_log_env False d of Inr _ \<Rightarrow> True | Inl _ \<Rightarrow> False),
     (case state_of (log_id sample_log_env) d of Some _ \<Rightarrow> True | None \<Rightarrow> False))"

lemma sample_views:
  "sample_view sample_log1 = ([digest_a], [1], True, True)"
  "sample_view sample_log2 = ([digest_a, digest_b], [1, 2], True, True)"
  by code_simp+

lemma sample_values:
  "logged (log_id sample_log_env) sample_log1 = [digest_a]"
  "logged (log_id sample_log_env) sample_log2 = [digest_a, digest_b]"
  "map cp_tree_size (completed (log_id sample_log_env) sample_log1) = [1]"
  "map cp_tree_size (completed (log_id sample_log_env) sample_log2) = [1, 2]"
  "map fst (published (log_id sample_log_env) sample_log1) = [1]"
  "map fst (published (log_id sample_log_env) sample_log2) = [1, 2]"
  using arg_cong[OF sample_views(1), of fst] arg_cong[OF sample_views(2), of fst]
    arg_cong[OF sample_views(1), of "fst \<circ> snd"] arg_cong[OF sample_views(2), of "fst \<circ> snd"]
  by (auto simp: sample_view_def published_def comp_def)

lemma sample_opens:
  obtains x s where "locked_state sample_log_env False sample_log2 = Inr x" "state_of (log_id sample_log_env) sample_log2 = Some s"
  using sample_views(2) by (auto simp: sample_view_def split: sum.splits option.splits)

lemma sample_checkpoints:
  obtains c c' where "completed (log_id sample_log_env) sample_log2 = [c, c']" "cp_tree_size c = 1" "cp_tree_size c' = 2"
  using sample_values(4) by (auto simp: map_eq_Cons_conv)

theorem log_integrity_witness:
  "\<exists>r. audit_integrity sample_log_env True sample_log2 = (Inr r, sample_log2) \<and> rp_ok r \<and> rp_leaf_count r = 2 \<and>
    rp_checkpoint_count r = 2"
proof -
  obtain x where "locked_state sample_log_env False sample_log2 = Inr x" by (rule sample_opens)
  moreover have "length (published (log_id sample_log_env) sample_log2) = 2"
    using arg_cong[OF sample_values(6), of length] by simp
  ultimately show ?thesis
    using log_integrity[OF sample_reachable(3) sample_same, of x True] sample_values(2) by auto
qed

theorem log_append_only_witness:
  "prefix (logged (log_id sample_log_env) sample_log1) (logged (log_id sample_log_env) sample_log2) \<and>
   (\<exists>r. (1, r) \<in> set (published (log_id sample_log_env) sample_log1) \<and>
      (1, r) \<in> set (published (log_id sample_log_env) sample_log2))"
proof -
  obtain r where r: "(1, r) \<in> set (published (log_id sample_log_env) sample_log1)"
    using sample_values(5) by (auto simp: map_eq_Cons_conv)
  note run = log_append_only[OF sample_reachable(1,2), of "log_id sample_log_env"]
  have "(1, r) \<in> set (published (log_id sample_log_env) sample_log2)" 
    using bspec[OF run[THEN conjunct2, THEN conjunct2] r] unfolding prod.case by (rule conjunct1)
  then show ?thesis using r run by blast
qed

theorem inclusion_proof_served_witness:
  "\<exists>pf a r. inclusion_proof sample_log_env (JStr digest_b) (Some 2) sample_log2 = Inr (pf, a) \<and>
     pf_leaf_index pf = 1 \<and> jget a ''root_hash'' = root_field r"
proof -
  obtain c c' where c: "completed (log_id sample_log_env) sample_log2 = [c, c']" "cp_tree_size c' = 2"
    by (rule sample_checkpoints)
  have "c' \<in> set (completed (log_id sample_log_env) sample_log2)" "1 < nat (cp_tree_size c')" using c by auto
  from inclusion_proof_served[OF sample_reachable(3) sample_same this] show ?thesis
    using sample_values(2) c(2) by fastforce
qed

theorem consistency_proof_served_witness:
  "\<exists>cf a b r. consistency_proof sample_log_env 1 2 sample_log2 = Inr (cf, a, b) \<and> cf_new_tree_size cf = 2 \<and>
     jget b ''root_hash'' = root_field r"
proof -
  obtain c c' where c: "completed (log_id sample_log_env) sample_log2 = [c, c']" "cp_tree_size c = 1" "cp_tree_size c' = 2"
    by (rule sample_checkpoints)
  have "c \<in> set (completed (log_id sample_log_env) sample_log2)" "c' \<in> set (completed (log_id sample_log_env) sample_log2)"
    "cp_tree_size c \<le> cp_tree_size c'" using c by auto
  from consistency_proof_served[OF sample_reachable(3) sample_same this] show ?thesis
    using c(2,3) by fastforce
qed

text \<open>The log with one leaf before and after its checkpoint: one chained message, one head.\<close>

definition sample_log0 :: log_db where
  "sample_log0 = snd (append_receipt_digest sample_log_env (JStr digest_a) empty_log)"

definition chain_view :: "log_db \<Rightarrow> string option \<times> bytes list" where
  "chain_view d = (case state_of (log_id sample_log_env) d of None \<Rightarrow> None | Some s \<Rightarrow> ls_append_chain_head s,
     chain_msgs sample_sha None (leaves_of (log_id sample_log_env) d))"

lemma sample_chain_views: "chain_view sample_log0 = chain_view sample_log1" "length (snd (chain_view sample_log1)) = 1"
  "fst (chain_view sample_log0) \<noteq> None" "fst (snd (snd (sample_view sample_log0)))"
  by code_simp+

theorem chain_head_commits_witness:
  "\<exists>r r'. audit_integrity sample_log_env True sample_log0 = (Inr r, sample_log0) \<and> rp_ok r \<and>
     audit_integrity sample_log_env True sample_log1 = (Inr r', sample_log1) \<and> rp_ok r' \<and>
     logged (log_id sample_log_env) sample_log1 = logged (log_id sample_log_env) sample_log0"
proof -
  have reach: "log_reachable sample_log_env sample_log0"
    unfolding log_reachable_def sample_log0_def
    by (rule r_into_rtranclp, rule log_step.append[OF sample_same surjective_pairing])
  obtain x x' where lk: "locked_state sample_log_env False sample_log0 = Inr x"
    "locked_state sample_log_env False sample_log1 = Inr x'"
    using sample_views(1) sample_chain_views(4) by (auto simp: sample_view_def split: sum.splits)
  obtain r r' where r: "audit_integrity sample_log_env True sample_log0 = (Inr r, sample_log0)" "rp_ok r"
    "audit_integrity sample_log_env True sample_log1 = (Inr r', sample_log1)" "rp_ok r'"
    using audit_clean[OF reachable_wf[OF reach] sample_same lk(1), of True]
      audit_clean[OF reachable_wf[OF sample_reachable(1)] sample_same lk(2), of True] by blast
  obtain s s' where st: "state_of (log_id sample_log_env) sample_log0 = Some s"
    "state_of (log_id sample_log_env) sample_log1 = Some s'" "ls_append_chain_head s' = ls_append_chain_head s"
    using sample_chain_views(1,3) by (auto simp: chain_view_def split: option.splits)
  have sha: "le_sha sample_log_env = sample_sha" by (simp add: sample_log_env_def)
  obtain m where "snd (chain_view sample_log1) = [m]" using sample_chain_views(2) by (auto simp: length_Suc_conv)
  then have "set (chain_msgs sample_sha None (leaves_of (log_id sample_log_env) sample_log1)) \<union>
      set (chain_msgs sample_sha None (leaves_of (log_id sample_log_env) sample_log0)) = {m}"
    using sample_chain_views(1) by (auto simp: chain_view_def)
  then have "inj_on sample_sha (set (chain_msgs sample_sha None (leaves_of (log_id sample_log_env) sample_log1)) \<union>
      set (chain_msgs sample_sha None (leaves_of (log_id sample_log_env) sample_log0)))" by simp
  with chain_head_commits[OF r st, unfolded sha, OF sample_leaves_simps(4)] r show ?thesis by blast
qed

end
