(* ===== verification/Countersigning.thy ===== *)
theory Countersigning
  imports TransparencyLog "HOL-Library.Char_ord" "HOL-Library.List_Lexorder" "HOL-Library.Product_Lexorder"
begin

text \<open>
  \<open>src/app/services/countersigning.py\<close> with \<open>countersigning_format.py\<close>,
  \<open>countersigning_provider.py\<close>, \<open>key_set_publisher.py\<close> and the statements of
  \<open>issuer_status_format.py\<close>: a witness key held by an HSM counter-signs receipts, checkpoints and
  issuer statuses; its life cycle needs several people; the public keys are published as a file.
  The HSM client, SHA-256, the RFC 8785 canonicalisation (\<open>None\<close> where it raises) and the success
  of a file write are parameters. A timestamp inside a JSON value is the number of seconds its
  RFC 3339 text denotes.
\<close>

section \<open>Errors and rows\<close>

datatype cs_error =
    CounterSigningAuthorizationError string
  | CounterSigningConfigurationError string
  | CounterSigningKeyStateError string
  | CounterSigningProviderError string
  | CounterSignatureFormatError string
  | IssuerStatusFormatError string
  | CheckpointFormatError log_error
  | KeySetPublicationError string
  | CsPyException string

fun cs_error_class :: "cs_error \<Rightarrow> string" where
  "cs_error_class (CounterSigningAuthorizationError m) = ''CounterSigningAuthorizationError''"
| "cs_error_class (CounterSigningConfigurationError m) = ''CounterSigningConfigurationError''"
| "cs_error_class (CounterSigningKeyStateError m) = ''CounterSigningKeyStateError''"
| "cs_error_class (CounterSigningProviderError m) = ''CounterSigningProviderError''"
| "cs_error_class (CounterSignatureFormatError m) = ''CounterSignatureFormatError''"
| "cs_error_class (IssuerStatusFormatError m) = ''IssuerStatusFormatError''"
| "cs_error_class (CheckpointFormatError e) = ''TransparencyFormatError''"
| "cs_error_class (KeySetPublicationError m) = ''KeySetPublicationError''"
| "cs_error_class (CsPyException c) = c"

fun cs_error_text :: "cs_error \<Rightarrow> string" where
  "cs_error_text (CounterSigningAuthorizationError m) = m"
| "cs_error_text (CounterSigningConfigurationError m) = m"
| "cs_error_text (CounterSigningKeyStateError m) = m"
| "cs_error_text (CounterSigningProviderError m) = m"
| "cs_error_text (CounterSignatureFormatError m) = m"
| "cs_error_text (IssuerStatusFormatError m) = m"
| "cs_error_text (CheckpointFormatError e) = []"
| "cs_error_text (KeySetPublicationError m) = m"
| "cs_error_text (CsPyException c) = []"

datatype cs_key_status = CK_active | CK_retired | CK_revoked

datatype cs_operation_status = CO_requested | CO_completed | CO_denied | CO_failed

datatype cs_lifecycle_action = LA_provision | LA_rotate | LA_revoke

datatype cs_lifecycle_status = LC_requested | LC_completed | LC_denied | LC_failed

fun lifecycle_action_value :: "cs_lifecycle_action \<Rightarrow> string" where
  "lifecycle_action_value LA_provision = ''provision''"
| "lifecycle_action_value LA_rotate = ''rotate''"
| "lifecycle_action_value LA_revoke = ''revoke''"

record cs_key =
  csk_key_id :: ident
  csk_provider_key_ref :: string
  csk_public_key_jwk :: dict
  csk_witness :: dict
  csk_origin :: string
  csk_status :: cs_key_status
  csk_not_before :: time
  csk_expires_at :: "time option"
  csk_retired_at :: "time option"
  csk_revoked_at :: "time option"
  csk_replaced_by_key_id :: "ident option"
  csk_provider_attestation_ref :: "string option"
  csk_lifecycle_metadata :: dict

record cs_operation =
  cso_operation_id :: ident
  cso_tenant_id :: "ident option"
  cso_receipt_id :: "ident option"
  cso_receipt_digest :: string
  cso_signing_input_digest :: "string option"
  cso_key_id :: "ident option"
  cso_actor :: "string \<times> ident"
  cso_status :: cs_operation_status
  cso_provider_operation_ref :: "string option"
  cso_artifact :: "dict option"
  cso_error_code :: "string option"
  cso_error_detail :: "string option"
  cso_completed_at :: "time option"

record cs_lifecycle =
  csl_lifecycle_operation_id :: ident
  csl_action :: cs_lifecycle_action
  csl_status :: cs_lifecycle_status
  csl_target_key_id :: ident
  csl_prior_key_id :: "ident option"
  csl_requester :: "string \<times> ident"
  csl_approver_principal_ids :: "ident list"
  csl_provider_operation_ref :: "string option"
  csl_published_key_set_digest :: "string option"
  csl_details :: dict
  csl_error_code :: "string option"
  csl_error_detail :: "string option"
  csl_completed_at :: "time option"

text \<open>
  \<open>cs_versions\<close> and \<open>cs_current\<close> are the files of the publisher: one per version, and the
  well-known file the public reads. They are not part of a transaction.
\<close>

record cs_db =
  cs_keys :: "cs_key list"
  cs_operations :: "cs_operation list"
  cs_lifecycles :: "cs_lifecycle list"
  cs_versions :: "(string \<times> bytes) list"
  cs_current :: "bytes option"
  cs_next_uuid :: nat

record cs_principal =
  pn_principal_type :: string
  pn_principal_id :: ident
  pn_permissions :: "string list"

record lifecycle_authorization =
  la_requester :: cs_principal
  la_approvers :: "cs_principal list"

section \<open>The managed provider\<close>

record key_descriptor =
  kd_key_id :: ident
  kd_provider_key_ref :: string
  kd_public_key_jwk :: dict
  kd_provider_operation_ref :: string
  kd_provider_attestation_ref :: "string option"
  kd_non_exportable :: bool

text \<open>The HSM client; a left value is the exception it raises.\<close>

record hsm_client =
  hc_create :: "ident \<Rightarrow> ident \<Rightarrow> cs_error + key_descriptor"
  hc_sign :: "string \<Rightarrow> bytes \<Rightarrow> ident \<Rightarrow> cs_error + bytes \<times> string"
  hc_disable :: "string \<Rightarrow> string \<Rightarrow> ident \<Rightarrow> cs_error + string"

definition private_jwk_fields :: "string list" where
  "private_jwk_fields = [''d'', ''p'', ''q'', ''dp'', ''dq'', ''qi'', ''oth'', ''k'']"

definition has_private_fields :: "dict \<Rightarrow> bool" where
  "has_private_fields jwk = list_ex (\<lambda>f. f \<in> set (map fst jwk)) private_jwk_fields"

text \<open>
  \<open>_decode_base64url\<close>: the url-safe alphabet is translated and the text is decoded strictly, with
  as much padding as makes its length a multiple of four.
\<close>

definition decode_base64url :: "string \<Rightarrow> cs_error + bytes" where
  "decode_base64url v =
     (if list_all (\<lambda>c. b64_value c \<noteq> None) v
      then (case b64url_decode v of
              None \<Rightarrow> Inl (CounterSigningProviderError
                        ''managed provider returned malformed base64url public key material'')
            | Some bs \<Rightarrow> Inr bs)
      else Inl (CounterSigningProviderError
             ''managed provider returned malformed base64url public key material''))"

definition absent_or :: "json \<Rightarrow> string \<Rightarrow> bool" where
  "absent_or v s \<longleftrightarrow> v = JNull \<or> v = JStr s"

definition validate_descriptor :: "key_descriptor \<Rightarrow> ident \<Rightarrow> cs_error + unit" where
  "validate_descriptor kd key_id =
     (let jwk = kd_public_key_jwk kd
      in if kd_key_id kd \<noteq> key_id
         then Inl (CounterSigningProviderError
                ''managed provider returned a key_id that differs from the requested kid'')
         else if \<not> kd_non_exportable kd
         then Inl (CounterSigningProviderError
                ''counter-signing keys must be provider-enforced non-exportable keys'')
         else if kd_provider_key_ref kd = [] \<or> kd_provider_operation_ref kd = []
         then Inl (CounterSigningProviderError
                ''managed provider must return key and operation references'')
         else if has_private_fields jwk
         then Inl (CounterSigningProviderError
                ''managed provider response included private key material'')
         else if jget jwk ''kty'' \<noteq> JStr ''OKP'' \<or> jget jwk ''crv'' \<noteq> JStr ''Ed25519'' \<or>
                 \<not> absent_or (jget jwk ''kid'') key_id \<or> \<not> absent_or (jget jwk ''alg'') ''EdDSA'' \<or>
                 \<not> absent_or (jget jwk ''use'') ''sig''
         then Inl (CounterSigningProviderError
                ''managed provider must return a public Ed25519 OKP JWK for the requested kid'')
         else (case jget jwk ''x'' of
                 JStr x \<Rightarrow>
                   (case decode_base64url x of
                      Inl e \<Rightarrow> Inl e
                    | Inr bs \<Rightarrow>
                        if length bs \<noteq> 32
                        then Inl (CounterSigningProviderError
                               ''managed provider returned an invalid Ed25519 public key'')
                        else Inr ())
               | _ \<Rightarrow> Inl (CounterSigningProviderError
                        ''managed provider returned an invalid Ed25519 public key'')))"

definition provision_key :: "hsm_client \<Rightarrow> ident \<Rightarrow> ident \<Rightarrow> cs_error + key_descriptor" where
  "provision_key c key_id token =
     (case hc_create c key_id token of
        Inl e \<Rightarrow> Inl e
      | Inr kd \<Rightarrow>
          (case validate_descriptor kd key_id of Inl e \<Rightarrow> Inl e | Inr _ \<Rightarrow> Inr kd))"

definition bad_signature_length :: cs_error where
  "bad_signature_length =
     CounterSigningProviderError ''managed provider returned an invalid Ed25519 signature length''"

definition provider_sign :: "hsm_client \<Rightarrow> string \<Rightarrow> bytes \<Rightarrow> ident \<Rightarrow> cs_error + bytes \<times> string" where
  "provider_sign c ref message token =
     (if message = []
      then Inl (CounterSigningProviderError ''refusing to sign an empty counter-signature input'')
      else (case hc_sign c ref message token of
              Inl e \<Rightarrow> Inl e
            | Inr (sig, op) \<Rightarrow>
                if length sig \<noteq> 64 then Inl bad_signature_length
                else if op = []
                then Inl (CounterSigningProviderError
                       ''managed provider did not return an operation reference'')
                else Inr (sig, op)))"

definition provider_disable :: "hsm_client \<Rightarrow> string \<Rightarrow> string \<Rightarrow> ident \<Rightarrow> cs_error + string" where
  "provider_disable c ref reason token =
     (case hc_disable c ref reason token of
        Inl e \<Rightarrow> Inl e
      | Inr op \<Rightarrow>
          if op = []
          then Inl (CounterSigningProviderError
                 ''managed provider did not return a disable operation reference'')
          else Inr op)"

section \<open>Statements and artifacts\<close>

definition keys_of :: "dict \<Rightarrow> string set" where
  "keys_of d = set (map fst d)"

definition validate_digest :: "dict \<Rightarrow> cs_error + dict" where
  "validate_digest m =
     (if jget m ''algorithm'' = JStr ''sha-256'' \<and> jget m ''canonicalization'' = JStr ''RFC8785-JCS'' \<and>
         (case jget m ''value'' of JStr s \<Rightarrow> hex_256 s | _ \<Rightarrow> False)
      then Inr [(''algorithm'', jget m ''algorithm''), (''canonicalization'', jget m ''canonicalization''),
                (''value'', jget m ''value'')]
      else Inl (CounterSignatureFormatError
        ''digest must declare sha-256, RFC8785-JCS, and a lowercase 64-character hex value''))"

record cs_env =
  ce_now :: time
  ce_uuid :: "nat \<Rightarrow> ident"
  ce_sha :: "bytes \<Rightarrow> bytes"
  ce_jcs :: "json \<Rightarrow> bytes option"
  ce_client :: hsm_client
  ce_write_ok :: "string \<Rightarrow> bool"
  ce_stamp :: "time \<Rightarrow> string"
  ce_witness :: dict
  ce_origin :: string
  ce_min_approvals :: int
  ce_cache_max_age :: int

text \<open>\<open>format_timestamp\<close>: whole seconds.\<close>

definition stamp :: "time \<Rightarrow> json" where
  "stamp t = JInt (t div 1000000)"

definition cs_canonicalize :: "cs_env \<Rightarrow> json \<Rightarrow> cs_error + bytes" where
  "cs_canonicalize env v =
     (case ce_jcs env v of
        None \<Rightarrow> Inl (CounterSignatureFormatError ''value cannot be canonicalized using RFC 8785 JCS'')
      | Some bs \<Rightarrow> Inr bs)"

definition sha256_hex :: "cs_env \<Rightarrow> bytes \<Rightarrow> string" where
  "sha256_hex env bs = hex_of (ce_sha env bs)"

definition receipt_contract_ok :: "json \<Rightarrow> bool" where
  "receipt_contract_ok c =
     (case c of JObj m \<Rightarrow> jget m ''name'' = JStr ''receipt'' \<and> jget m ''version'' = JStr ''v1'' | _ \<Rightarrow> False)"

definition resolve_receipt_digest :: "cs_env \<Rightarrow> json \<Rightarrow> cs_error + dict" where
  "resolve_receipt_digest env v =
     (case v of
        JObj m \<Rightarrow>
          if {''algorithm'', ''canonicalization'', ''value''} \<subseteq> keys_of m then validate_digest m
          else if \<not> receipt_contract_ok (jget m ''contract'')
          then Inl (CounterSignatureFormatError
                 ''receipt_or_digest must declare Receipt v1 or provide a complete digest'')
          else (case cs_canonicalize env (JObj m) of
                  Inl e \<Rightarrow> Inl e
                | Inr bs \<Rightarrow> Inr [(''algorithm'', JStr ''sha-256''), (''canonicalization'', JStr ''RFC8785-JCS''),
                               (''value'', JStr (sha256_hex env bs))])
      | _ \<Rightarrow> Inl (CounterSignatureFormatError
               ''receipt_or_digest must be a Receipt v1 mapping or digest mapping''))"

text \<open>
  \<open>validate_witness\<close> and \<open>validate_party\<close> check the same three members; they differ in the
  exception they raise.
\<close>

definition party_of :: "(string \<Rightarrow> cs_error) \<Rightarrow> string \<Rightarrow> dict \<Rightarrow> cs_error + dict" where
  "party_of err field m =
     (if \<not> non_empty_str (jget m ''type'') then Inl (err (field @ ''.type must be a non-empty string''))
      else if \<not> non_empty_str (jget m ''id'') then Inl (err (field @ ''.id must be a non-empty string''))
      else if jget m ''display_name'' \<noteq> JNull \<and> \<not> non_empty_str (jget m ''display_name'')
      then Inl (err (field @ ''.display_name must be a non-empty string when supplied''))
      else Inr ([(''type'', jget m ''type''), (''id'', jget m ''id'')] @
             (if jget m ''display_name'' \<noteq> JNull then [(''display_name'', jget m ''display_name'')] else [])))"

definition validate_witness :: "dict \<Rightarrow> cs_error + dict" where
  "validate_witness m = party_of CounterSignatureFormatError ''witness'' m"

definition validate_party :: "string \<Rightarrow> json \<Rightarrow> cs_error + dict" where
  "validate_party field v =
     (case v of JObj m \<Rightarrow> party_of IssuerStatusFormatError field m
      | _ \<Rightarrow> Inl (IssuerStatusFormatError (field @ '' must be a JSON object'')))"

definition validate_anchor_reference :: "dict \<Rightarrow> cs_error + unit" where
  "validate_anchor_reference m =
     (if \<not> non_empty_str (jget m ''type'')
      then Inl (CounterSignatureFormatError ''anchor_reference.type must be a non-empty string'')
      else if \<not> non_empty_str (jget m ''id'')
      then Inl (CounterSignatureFormatError ''anchor_reference.id must be a non-empty string'')
      else Inr ())"

definition with_anchor :: "dict \<Rightarrow> dict option \<Rightarrow> cs_error + dict" where
  "with_anchor st anchor =
     (case anchor of
        None \<Rightarrow> Inr st
      | Some a \<Rightarrow> (case validate_anchor_reference a of
                    Inl e \<Rightarrow> Inl e | Inr _ \<Rightarrow> Inr (st @ [(''anchor_reference'', JObj a)])))"

definition build_signed_statement :: "dict \<Rightarrow> dict \<Rightarrow> json \<Rightarrow> dict option \<Rightarrow> cs_error + dict" where
  "build_signed_statement digest witness signed_at anchor =
     (case validate_digest digest of
        Inl e \<Rightarrow> Inl e
      | Inr dg \<Rightarrow>
          (case validate_witness witness of
             Inl e \<Rightarrow> Inl e
           | Inr w \<Rightarrow> with_anchor [(''context'', JStr ''actenon.receipt-countersignature.v1''),
                 (''receipt_digest'', JObj dg), (''witness'', JObj w), (''signed_at'', signed_at)] anchor))"

definition signature_object :: "ident \<Rightarrow> bytes \<Rightarrow> json" where
  "signature_object key_id sig = JObj [(''algorithm'', JStr ''EdDSA''), (''key_id'', JStr key_id),
     (''encoding'', JStr ''base64url''), (''value'', JStr (b64url_encode sig))]"

definition build_countersignature_artifact ::
  "dict \<Rightarrow> dict \<Rightarrow> json \<Rightarrow> dict option \<Rightarrow> ident \<Rightarrow> bytes \<Rightarrow> cs_error + dict" where
  "build_countersignature_artifact digest witness signed_at anchor key_id sig =
     (case validate_digest digest of
        Inl e \<Rightarrow> Inl e
      | Inr dg \<Rightarrow>
          (case validate_witness witness of
             Inl e \<Rightarrow> Inl e
           | Inr w \<Rightarrow> with_anchor [(''contract'', JObj [(''name'', JStr ''receipt_countersignature''), (''version'', JStr ''v1'')]),
                 (''receipt_digest'', JObj dg), (''witness'', JObj w), (''signed_at'', signed_at),
                 (''signature'', signature_object key_id sig)] anchor))"

definition issuer_standings :: "string list" where
  "issuer_standings = [''good_standing'', ''suspended'', ''revoked'']"

definition build_issuer_status_statement ::
  "dict \<Rightarrow> dict \<Rightarrow> string \<Rightarrow> time \<Rightarrow> time \<Rightarrow> string option \<Rightarrow> cs_error + dict" where
  "build_issuer_status_statement issuer authority status issued_at expires_at reference =
     (if status \<notin> set issuer_standings then Inl (IssuerStatusFormatError ''issuer status is invalid'')
      else if expires_at \<le> issued_at
      then Inl (IssuerStatusFormatError ''issuer status expiry must be after issuance'')
      else (case validate_party ''issuer'' (JObj issuer) of
              Inl e \<Rightarrow> Inl e
            | Inr i \<Rightarrow>
                (case validate_party ''authority'' (JObj authority) of
                   Inl e \<Rightarrow> Inl e
                 | Inr a \<Rightarrow>
                     let st = [(''context'', JStr ''actenon.issuer-status.v1''), (''issuer'', JObj i),
                               (''authority'', JObj a), (''status'', JStr status),
                               (''issued_at'', stamp issued_at), (''expires_at'', stamp expires_at)]
                     in (case reference of
                           None \<Rightarrow> Inr st
                         | Some r \<Rightarrow>
                             if r = []
                             then Inl (IssuerStatusFormatError ''status_reference must be non-empty when supplied'')
                             else Inr (st @ [(''status_reference'', JStr r)])))))"

definition issuer_status_fields :: "string set" where
  "issuer_status_fields = {''context'', ''issuer'', ''authority'', ''status'', ''issued_at'', ''expires_at''}"

text \<open>The status of a statement is tested for membership; a list or dictionary is not hashable.\<close>

definition validate_issuer_status_statement :: "dict \<Rightarrow> dict \<Rightarrow> cs_error + dict" where
  "validate_issuer_status_statement st expected =
     (if \<not> (keys_of st \<subseteq> insert ''status_reference'' issuer_status_fields \<and> issuer_status_fields \<subseteq> keys_of st)
      then Inl (IssuerStatusFormatError ''issuer-status signing statement has unexpected or missing fields'')
      else if jget st ''context'' \<noteq> JStr ''actenon.issuer-status.v1''
      then Inl (IssuerStatusFormatError ''issuer-status signing context is invalid'')
      else (case (validate_party ''issuer'' (jget st ''issuer''), validate_party ''authority'' (jget st ''authority''),
                  validate_party ''expected_authority'' (JObj expected)) of
              (Inl e, _, _) \<Rightarrow> Inl e
            | (Inr _, Inl e, _) \<Rightarrow> Inl e
            | (Inr _, Inr _, Inl e) \<Rightarrow> Inl e
            | (Inr i, Inr a, Inr x) \<Rightarrow>
                if \<not> py_eq (JObj a) (JObj x)
                then Inl (IssuerStatusFormatError ''issuer-status authority does not match the managed signing identity'')
                else (case jget st ''status'' of
                        JList _ \<Rightarrow> Inl (CsPyException ''TypeError'')
                      | JObj _ \<Rightarrow> Inl (CsPyException ''TypeError'')
                      | _ \<Rightarrow>
                          if jget st ''status'' \<notin> JStr ` set issuer_standings
                          then Inl (IssuerStatusFormatError ''issuer status is invalid'')
                          else (case (jget st ''issued_at'', jget st ''expires_at'') of
                                  (JInt t, JInt u) \<Rightarrow>
                                    if u \<le> t
                                    then Inl (IssuerStatusFormatError ''issuer status expiry must be after issuance'')
                                    else let norm = [(''context'', JStr ''actenon.issuer-status.v1''), (''issuer'', JObj i),
                                               (''authority'', JObj a), (''status'', jget st ''status''),
                                               (''issued_at'', JInt t), (''expires_at'', JInt u)]
                                         in if jget st ''status_reference'' = JNull then Inr norm
                                            else if non_empty_str (jget st ''status_reference'')
                                            then Inr (norm @ [(''status_reference'', jget st ''status_reference'')])
                                            else Inl (IssuerStatusFormatError
                                                   ''status_reference must be non-empty when supplied'')
                                | _ \<Rightarrow> Inl (IssuerStatusFormatError ''issuer-status timestamps must be RFC3339'')))))"

definition build_issuer_status_artifact :: "dict \<Rightarrow> ident \<Rightarrow> bytes \<Rightarrow> cs_error + dict" where
  "build_issuer_status_artifact st key_id sig =
     (if key_id = [] then Inl (IssuerStatusFormatError ''issuer-status key_id must be non-empty'')
      else if length sig \<noteq> 64
      then Inl (IssuerStatusFormatError ''issuer-status signature must be 64-byte Ed25519'')
      else Inr ([(''contract'', JObj [(''name'', JStr ''issuer_status''), (''version'', JStr ''v1'')])] @
             filter (\<lambda>p. fst p \<noteq> ''context'') st @ [(''signature'', signature_object key_id sig)]))"

definition validate_checkpoint_statement :: "dict \<Rightarrow> dict \<Rightarrow> log_error + dict" where
  "validate_checkpoint_statement st expected =
     (if keys_of st \<noteq> {''context'', ''log'', ''tree_size'', ''root_hash'', ''issued_at''}
      then Inl (TransparencyFormatError ''checkpoint signing statement has unexpected fields'')
      else if jget st ''context'' \<noteq> JStr ''actenon.transparency-checkpoint.v1''
      then Inl (TransparencyFormatError ''checkpoint signing context is invalid'')
      else (case jget st ''log'' of
              JObj l \<Rightarrow>
                (case (validate_log_identity l, validate_log_identity expected) of
                   (Inl e, _) \<Rightarrow> Inl e
                 | (Inr _, Inl e) \<Rightarrow> Inl e
                 | (Inr a, Inr b) \<Rightarrow>
                     if \<not> py_eq (JObj a) (JObj b)
                     then Inl (TransparencyFormatError
                            ''checkpoint log identity does not match the managed signing identity'')
                     else (case jget st ''tree_size'' of
                             JInt n \<Rightarrow>
                               if n < 0 then Inl (TransparencyFormatError ''checkpoint tree size must be non-negative'')
                               else (case jget st ''root_hash'' of
                                       JObj r \<Rightarrow>
                                         if jget r ''algorithm'' = JStr ''sha-256'' \<and> jget r ''encoding'' = JStr ''hex'' \<and>
                                            (case jget r ''value'' of JStr s \<Rightarrow> hex_256 s | _ \<Rightarrow> False)
                                         then (case jget st ''issued_at'' of
                                                 JInt _ \<Rightarrow> Inr st
                                               | _ \<Rightarrow> Inl (TransparencyFormatError
                                                   ''checkpoint issued_at must be an RFC3339 UTC timestamp''))
                                         else Inl (TransparencyFormatError ''checkpoint root hash is invalid'')
                                     | _ \<Rightarrow> Inl (TransparencyFormatError ''checkpoint root hash is invalid''))
                           | _ \<Rightarrow> Inl (TransparencyFormatError ''checkpoint tree size must be non-negative'')))
            | _ \<Rightarrow> Inl (LogValueError ''log identity is not a mapping'')))"

section \<open>The key-set publisher\<close>

definition rstrip_newline :: "bytes \<Rightarrow> bytes" where
  "rstrip_newline bs = rev (dropWhile (\<lambda>c. c = CHR 0x0A) (rev bs))"

record published_key_set =
  pk_version :: string
  pk_digest :: string
  pk_publication_reference :: string

definition current_key_set_path :: string where
  "current_key_set_path = ''.well-known/actenon/keys.json''"

text \<open>
  \<open>AtomicFileKeySetPublisher.publish\<close>: the version file and then the current file are replaced
  atomically; the files are returned also where the second write fails.
\<close>

definition publish_key_set ::
  "cs_env \<Rightarrow> dict \<Rightarrow> string \<Rightarrow> cs_db \<Rightarrow> (cs_error + published_key_set) \<times> cs_db" where
  "publish_key_set env document version d =
     (if version = [] \<or> CHR ''/'' \<in> set version \<or> CHR 0x5C \<in> set version
      then (Inl (KeySetPublicationError ''key-set version must be a path-safe identifier''), d)
      else (case cs_canonicalize env (JObj document) of
              Inl e \<Rightarrow> (Inl e, d)
            | Inr bs \<Rightarrow>
                let payload = bs @ [CHR 0x0A];
                    failed = Inl (KeySetPublicationError ''failed to publish public counter-signing keys'')
                in if \<not> ce_write_ok env (''versions/'' @ version @ ''.json'') then (failed, d)
                   else let d1 = d\<lparr>cs_versions := (version, payload) # cs_versions d\<rparr>
                        in if \<not> ce_write_ok env current_key_set_path then (failed, d1)
                           else (Inr \<lparr>pk_version = version,
                                      pk_digest = sha256_hex env (rstrip_newline payload),
                                      pk_publication_reference = current_key_set_path\<rparr>,
                                 d1\<lparr>cs_current := Some payload\<rparr>)))"

section \<open>Keys\<close>

definition all_keys :: "cs_db \<Rightarrow> cs_key list" where
  "all_keys d = sort_key (\<lambda>k. (csk_not_before k, csk_key_id k)) (cs_keys d)"

definition active_keys :: "cs_db \<Rightarrow> cs_key list" where
  "active_keys d = [k \<leftarrow> cs_keys d. csk_status k = CK_active]"

definition active_key :: "cs_db \<Rightarrow> cs_error + cs_key option" where
  "active_key d =
     (case active_keys d of
        [] \<Rightarrow> Inr None
      | [k] \<Rightarrow> Inr (Some k)
      | _ \<Rightarrow> Inl (CounterSigningConfigurationError ''multiple active counter-signing keys are configured''))"

definition key_uses :: json where
  "key_uses = JList [JStr ''receipt_countersignature'', JStr ''transparency_checkpoint'', JStr ''issuer_status'']"

definition key_descriptor_json :: "cs_key \<Rightarrow> json" where
  "key_descriptor_json k = JObj ([(''key_id'', JStr (csk_key_id k)), (''algorithm'', JStr ''EdDSA''), (''use'', key_uses),
     (''status'', JStr (if csk_status k = CK_active then ''active'' else ''retired'')),
     (''not_before'', stamp (csk_not_before k)), (''public_key_jwk'', JObj (csk_public_key_jwk k))] @
     (case csk_expires_at k of None \<Rightarrow> [] | Some t \<Rightarrow> [(''expires_at'', stamp t)]) @
     (case csk_revoked_at k of None \<Rightarrow> [] | Some t \<Rightarrow> [(''revoked_at'', stamp t)]) @
     (case csk_replaced_by_key_id k of None \<Rightarrow> [] | Some r \<Rightarrow> [(''replaced_by'', JStr r)]) @
     (if non_empty_str (jget (csk_lifecycle_metadata k) ''revocation_reason'')
      then [(''revocation_reason'', jget (csk_lifecycle_metadata k) ''revocation_reason'')] else []))"

definition build_public_key_set :: "cs_env \<Rightarrow> cs_db \<Rightarrow> cs_error + dict" where
  "build_public_key_set env d =
     (if cs_keys d = []
      then Inl (CounterSigningConfigurationError ''cannot publish an empty counter-signing key set'')
      else Inr [(''contract'', JObj [(''name'', JStr ''key_discovery''), (''version'', JStr ''v1'')]),
                (''issuer'', JObj (ce_witness env)), (''origin'', JStr (ce_origin env)),
                (''published_at'', stamp (ce_now env)),
                (''cache'', JObj [(''max_age_seconds'', JInt (ce_cache_max_age env))]),
                (''keys'', JList (map key_descriptor_json (all_keys d)))])"

definition current_cs_public_key_set :: "cs_env \<Rightarrow> cs_db \<Rightarrow> cs_error + dict" where
  "current_cs_public_key_set env d = build_public_key_set env d"

definition publication_version :: "cs_env \<Rightarrow> ident \<Rightarrow> string \<Rightarrow> string" where
  "publication_version env key_id action = ce_stamp env (ce_now env) @ ''-'' @ action @ ''-'' @ key_id"

definition publish_current_key_set ::
  "cs_env \<Rightarrow> string \<Rightarrow> cs_db \<Rightarrow> (cs_error + published_key_set) \<times> cs_db" where
  "publish_current_key_set env version d =
     (case build_public_key_set env d of
        Inl e \<Rightarrow> (Inl e, d) | Inr doc \<Rightarrow> publish_key_set env doc version d)"

text \<open>\<open>_KEY_ID_RE\<close>: a letter or digit, then at most 255 letters, digits or one of \<open>._:-\<close>.\<close>

definition alnum :: "char \<Rightarrow> bool" where
  "alnum c \<longleftrightarrow> (let n = (of_char c :: nat) in (48 \<le> n \<and> n \<le> 57) \<or> (65 \<le> n \<and> n \<le> 90) \<or> (97 \<le> n \<and> n \<le> 122))"

definition key_id_ok :: "ident \<Rightarrow> bool" where
  "key_id_ok s \<longleftrightarrow> (case s of [] \<Rightarrow> False
     | c # cs \<Rightarrow> alnum c \<and> list_all (\<lambda>c. alnum c \<or> c \<in> set ''._:-'') cs \<and> length cs \<le> 255)"

definition invalid_key_id :: cs_error where
  "invalid_key_id = CounterSigningKeyStateError ''key_id must be 1-256 URL-safe identifier characters''"

section \<open>Authorization\<close>

definition authorize_service_permission :: "cs_principal \<Rightarrow> string \<Rightarrow> string \<Rightarrow> cs_error + unit" where
  "authorize_service_permission a permission name =
     (if pn_principal_type a \<noteq> ''service''
      then Inl (CounterSigningAuthorizationError
             (name @ '' may only be invoked by the dedicated service identity''))
      else if permission \<notin> set (pn_permissions a)
      then Inl (CounterSigningAuthorizationError (''service identity lacks '' @ permission))
      else Inr ())"

text \<open>A dictionary by principal: of several entries of one principal the last counts.\<close>

definition unique_approvers :: "cs_principal list \<Rightarrow> cs_principal list" where
  "unique_approvers ps =
     map (\<lambda>pid. last [p \<leftarrow> ps. pn_principal_id p = pid]) (rev (remdups (rev (map pn_principal_id ps))))"

definition check_approver :: "cs_principal \<Rightarrow> cs_error option" where
  "check_approver p =
     (if pn_principal_type p \<noteq> ''user''
      then Some (CounterSigningAuthorizationError ''key lifecycle approvers must be authenticated humans'')
      else if ''counter_signature.keys.approve'' \<notin> set (pn_permissions p)
      then Some (CounterSigningAuthorizationError ''approver lacks counter_signature.keys.approve'')
      else None)"

definition authorize_lifecycle ::
  "cs_env \<Rightarrow> lifecycle_authorization \<Rightarrow> string \<Rightarrow> cs_error + unit" where
  "authorize_lifecycle env au permission =
     (let r = la_requester au; us = unique_approvers (la_approvers au)
      in if pn_principal_type r \<noteq> ''user''
         then Inl (CounterSigningAuthorizationError
                ''counter-signing key lifecycle requester must be an authenticated human'')
         else if permission \<notin> set (pn_permissions r)
         then Inl (CounterSigningAuthorizationError (''requester lacks '' @ permission))
         else if pn_principal_id r \<in> set (map pn_principal_id us)
         then Inl (CounterSigningAuthorizationError ''key lifecycle requester may not approve their own request'')
         else if int (length us) < ce_min_approvals env
         then Inl (CounterSigningAuthorizationError
                ''key lifecycle operation does not have the required independent approvals'')
         else (case first_error check_approver us of Some e \<Rightarrow> Inl e | None \<Rightarrow> Inr ()))"

section \<open>Signing\<close>

definition cs_new_id :: "cs_env \<Rightarrow> cs_db \<Rightarrow> ident" where
  "cs_new_id env d = ce_uuid env (cs_next_uuid d)"

definition cs_used_id :: "cs_db \<Rightarrow> cs_db" where
  "cs_used_id d = d\<lparr>cs_next_uuid := Suc (cs_next_uuid d)\<rparr>"

definition new_operation ::
  "cs_env \<Rightarrow> cs_principal \<Rightarrow> ident option \<Rightarrow> ident option \<Rightarrow> dict \<Rightarrow> cs_key option \<Rightarrow> cs_db \<Rightarrow> cs_operation" where
  "new_operation env a tid rid digest mk d =
     \<lparr>cso_operation_id = cs_new_id env d, cso_tenant_id = tid, cso_receipt_id = rid,
      cso_receipt_digest = (case jget digest ''value'' of JStr s \<Rightarrow> s | _ \<Rightarrow> []),
      cso_signing_input_digest = None, cso_key_id = map_option csk_key_id mk,
      cso_actor = (pn_principal_type a, pn_principal_id a), cso_status = CO_requested,
      cso_provider_operation_ref = None, cso_artifact = None, cso_error_code = None,
      cso_error_detail = None, cso_completed_at = None\<rparr>"

definition add_operation :: "cs_operation \<Rightarrow> cs_db \<Rightarrow> cs_db" where
  "add_operation op d = cs_used_id d\<lparr>cs_operations := tinsert op (cs_operations d)\<rparr>"

definition signing_failed :: "cs_env \<Rightarrow> cs_error \<Rightarrow> cs_operation \<Rightarrow> cs_operation" where
  "signing_failed env e op = op\<lparr>cso_status := CO_failed, cso_error_code := Some ''PROVIDER_SIGNING_FAILED'',
     cso_error_detail := Some (cs_error_class e), cso_completed_at := Some (ce_now env)\<rparr>"

definition signing_denied :: "cs_env \<Rightarrow> cs_error \<Rightarrow> cs_operation \<Rightarrow> cs_operation" where
  "signing_denied env e op = op\<lparr>cso_status := CO_denied, cso_error_code := Some (cs_error_class e),
     cso_error_detail := Some (cs_error_text e), cso_completed_at := Some (ce_now env)\<rparr>"

definition no_active_key :: cs_error where
  "no_active_key = CounterSigningConfigurationError ''no active counter-signing key is available''"

text \<open>
  \<open>counter_sign\<close>. An exception between the denial and the call of the provider (a malformed anchor
  or a statement that cannot be canonicalised) leaves nothing behind, the operation included.
\<close>

definition counter_sign ::
  "cs_env \<Rightarrow> json \<Rightarrow> cs_principal \<Rightarrow> ident option \<Rightarrow> ident option \<Rightarrow> dict option \<Rightarrow> cs_db \<Rightarrow>
   (cs_error + dict \<times> cs_operation) \<times> cs_db" where
  "counter_sign env v a tid rid anchor d =
     (case resolve_receipt_digest env v of
        Inl e \<Rightarrow> (Inl e, d)
      | Inr digest \<Rightarrow>
     (case active_key d of
        Inl e \<Rightarrow> (Inl e, d)
      | Inr mk \<Rightarrow>
          let op = new_operation env a tid rid digest mk d
          in (case (authorize_service_permission a ''counter_signature.sign'' ''counter-signing'', mk) of
                (Inl e, _) \<Rightarrow> (Inl e, add_operation (signing_denied env e op) d)
              | (Inr _, None) \<Rightarrow> (Inl no_active_key, add_operation (signing_denied env no_active_key op) d)
              | (Inr _, Some k) \<Rightarrow>
                  (case build_signed_statement digest (ce_witness env) (stamp (ce_now env)) anchor of
                     Inl e \<Rightarrow> (Inl e, d)
                   | Inr st \<Rightarrow>
                  (case cs_canonicalize env (JObj st) of
                     Inl e \<Rightarrow> (Inl e, d)
                   | Inr msg \<Rightarrow>
                       let op1 = op\<lparr>cso_signing_input_digest := Some (sha256_hex env msg)\<rparr>
                       in (case provider_sign (ce_client env) (csk_provider_key_ref k) msg (cso_operation_id op) of
                             Inl e \<Rightarrow> (Inl (CounterSigningProviderError
                                          ''managed counter-signing provider failed closed''),
                                     add_operation (signing_failed env e op1) d)
                           | Inr (sig, ref) \<Rightarrow>
                               (case build_countersignature_artifact digest (ce_witness env) (stamp (ce_now env))
                                       anchor (csk_key_id k) sig of
                                  Inl e \<Rightarrow> (Inl e, d)
                                | Inr art \<Rightarrow>
                                    let op2 = op1\<lparr>cso_status := CO_completed, cso_provider_operation_ref := Some ref,
                                                  cso_artifact := Some art, cso_completed_at := Some (ce_now env)\<rparr>
                                    in (Inr (art, op2), add_operation op2 d))))))))"

text \<open>\<open>sign_transparency_checkpoint\<close> and \<open>sign_issuer_status\<close> record nothing of their own.\<close>

definition sign_managed ::
  "cs_env \<Rightarrow> string \<Rightarrow> string \<Rightarrow> (dict \<Rightarrow> cs_error + dict) \<Rightarrow> string \<Rightarrow> dict \<Rightarrow> cs_principal \<Rightarrow> ident \<Rightarrow> cs_db \<Rightarrow>
   cs_error + ident \<times> bytes \<times> string" where
  "sign_managed env permission name validate failure st a token d =
     (case authorize_service_permission a permission name of
        Inl e \<Rightarrow> Inl e
      | Inr _ \<Rightarrow>
     (case active_key d of
        Inl e \<Rightarrow> Inl e
      | Inr None \<Rightarrow> Inl (CounterSigningConfigurationError ''no active managed signing key is available'')
      | Inr (Some k) \<Rightarrow>
     (case validate st of
        Inl e \<Rightarrow> Inl e
      | Inr v \<Rightarrow>
     (case cs_canonicalize env (JObj v) of
        Inl e \<Rightarrow> Inl e
      | Inr msg \<Rightarrow>
     (case provider_sign (ce_client env) (csk_provider_key_ref k) msg token of
        Inl e \<Rightarrow> Inl (CounterSigningProviderError failure)
      | Inr (sig, ref) \<Rightarrow> Inr (csk_key_id k, sig, ref))))))"

definition sign_transparency_checkpoint ::
  "cs_env \<Rightarrow> dict \<Rightarrow> cs_principal \<Rightarrow> ident \<Rightarrow> cs_db \<Rightarrow> cs_error + ident \<times> bytes \<times> string" where
  "sign_transparency_checkpoint env =
     sign_managed env ''transparency_log.checkpoint.sign'' ''transparency checkpoint signing''
       (\<lambda>st. map_sum CheckpointFormatError id (validate_checkpoint_statement st (ce_witness env)))
       ''managed transparency checkpoint signing failed closed''"

definition sign_issuer_status ::
  "cs_env \<Rightarrow> dict \<Rightarrow> cs_principal \<Rightarrow> ident \<Rightarrow> cs_db \<Rightarrow> cs_error + ident \<times> bytes \<times> string" where
  "sign_issuer_status env =
     sign_managed env ''issuer_status.sign'' ''issuer-status signing''
       (\<lambda>st. validate_issuer_status_statement st (ce_witness env))
       ''managed issuer-status signing failed closed''"

section \<open>The life cycle of keys\<close>

definition begin_lifecycle ::
  "cs_env \<Rightarrow> cs_lifecycle_action \<Rightarrow> ident \<Rightarrow> ident option \<Rightarrow> lifecycle_authorization \<Rightarrow> cs_db \<Rightarrow> cs_lifecycle" where
  "begin_lifecycle env action target prior au d =
     \<lparr>csl_lifecycle_operation_id = cs_new_id env d, csl_action = action, csl_status = LC_requested,
      csl_target_key_id = target, csl_prior_key_id = prior,
      csl_requester = (pn_principal_type (la_requester au), pn_principal_id (la_requester au)),
      csl_approver_principal_ids = map pn_principal_id (la_approvers au),
      csl_provider_operation_ref = None, csl_published_key_set_digest = None, csl_details = [],
      csl_error_code = None, csl_error_detail = None, csl_completed_at = None\<rparr>"

definition add_lifecycle :: "cs_lifecycle \<Rightarrow> cs_db \<Rightarrow> cs_db" where
  "add_lifecycle l d = cs_used_id d\<lparr>cs_lifecycles := tinsert l (cs_lifecycles d)\<rparr>"

definition lifecycle_denied :: "cs_env \<Rightarrow> cs_error \<Rightarrow> cs_lifecycle \<Rightarrow> cs_lifecycle" where
  "lifecycle_denied env e l = l\<lparr>csl_status := LC_denied, csl_error_code := Some (cs_error_class e),
     csl_error_detail := Some (cs_error_text e), csl_completed_at := Some (ce_now env)\<rparr>"

definition lifecycle_failed :: "cs_env \<Rightarrow> string \<Rightarrow> cs_error \<Rightarrow> cs_lifecycle \<Rightarrow> cs_lifecycle" where
  "lifecycle_failed env code e l = l\<lparr>csl_status := LC_failed, csl_error_code := Some code,
     csl_error_detail := Some (cs_error_class e), csl_completed_at := Some (ce_now env)\<rparr>"

definition lifecycle_completed ::
  "cs_env \<Rightarrow> string \<Rightarrow> published_key_set \<Rightarrow> dict \<Rightarrow> cs_lifecycle \<Rightarrow> cs_lifecycle" where
  "lifecycle_completed env ref pub details l = l\<lparr>csl_status := LC_completed,
     csl_provider_operation_ref := Some ref, csl_published_key_set_digest := Some (pk_digest pub),
     csl_details := (''publication_reference'', JStr (pk_publication_reference pub)) # details,
     csl_completed_at := Some (ce_now env)\<rparr>"

definition key_from_descriptor ::
  "cs_env \<Rightarrow> key_descriptor \<Rightarrow> time option \<Rightarrow> dict \<Rightarrow> cs_error + cs_key" where
  "key_from_descriptor env kd expires metadata =
     (if has_private_fields (kd_public_key_jwk kd)
      then Inl (CounterSigningConfigurationError ''counter-signing provider returned private key material'')
      else Inr \<lparr>csk_key_id = kd_key_id kd, csk_provider_key_ref = kd_provider_key_ref kd,
         csk_public_key_jwk = dict_set ''kid'' (JStr (kd_key_id kd)) (dict_set ''alg'' (JStr ''EdDSA'')
           (dict_set ''use'' (JStr ''sig'') (kd_public_key_jwk kd))),
         csk_witness = ce_witness env, csk_origin = ce_origin env, csk_status = CK_active,
         csk_not_before = ce_now env, csk_expires_at = expires, csk_retired_at = None,
         csk_revoked_at = None, csk_replaced_by_key_id = None,
         csk_provider_attestation_ref = kd_provider_attestation_ref kd,
         csk_lifecycle_metadata = dict_set ''non_exportable'' (JBool (kd_non_exportable kd))
           (dict_set ''custody'' (JStr ''external_hsm_or_kms'') metadata)\<rparr>)"

definition retire_key :: "cs_env \<Rightarrow> ident \<Rightarrow> cs_key \<Rightarrow> cs_key" where
  "retire_key env new k = k\<lparr>csk_status := CK_retired, csk_retired_at := Some (ce_now env),
     csk_replaced_by_key_id := Some new\<rparr>"

definition retire_prior :: "cs_env \<Rightarrow> cs_key option \<Rightarrow> ident \<Rightarrow> cs_key list \<Rightarrow> cs_key list" where
  "retire_prior env prior new ks =
     (case prior of None \<Rightarrow> ks | Some p \<Rightarrow> tmodify csk_key_id (csk_key_id p) (retire_key env new) ks)"

text \<open>
  The body of \<open>_provision_and_publish\<close> after the authorisation: what it commits, or the exception
  and the files it may have written. The flush of the new row fails on a key identifier or provider
  reference that is taken.
\<close>

definition provision_body ::
  "cs_env \<Rightarrow> cs_lifecycle \<Rightarrow> cs_key option \<Rightarrow> time option \<Rightarrow> dict \<Rightarrow> cs_db \<Rightarrow> (cs_error + cs_key) \<times> cs_db" where
  "provision_body env l prior expires metadata d =
     (if (case expires of None \<Rightarrow> False | Some t \<Rightarrow> t \<le> ce_now env)
      then (Inl (CounterSigningKeyStateError ''counter-signing key expiry must be after activation''), d)
      else (case provision_key (ce_client env) (csl_target_key_id l) (csl_lifecycle_operation_id l) of
              Inl e \<Rightarrow> (Inl e, d)
            | Inr kd \<Rightarrow>
           (case key_from_descriptor env kd expires metadata of
              Inl e \<Rightarrow> (Inl e, d)
            | Inr k \<Rightarrow>
                if csk_key_id k \<in> set (map csk_key_id (cs_keys d)) \<or>
                   csk_provider_key_ref k \<in> set (map csk_provider_key_ref (cs_keys d))
                then (Inl (CsPyException ''IntegrityError''), d)
                else let d1 = d\<lparr>cs_keys := tinsert k (retire_prior env prior (csk_key_id k) (cs_keys d))\<rparr>
                     in (case publish_current_key_set env
                                (publication_version env (csl_target_key_id l) (lifecycle_action_value (csl_action l))) d1 of
                           (Inl e, d2) \<Rightarrow> (Inl e, d2)
                         | (Inr pub, d2) \<Rightarrow>
                             (Inr k, add_lifecycle (lifecycle_completed env (kd_provider_operation_ref kd) pub
                                [(''provider_attestation_ref'', opt_str (kd_provider_attestation_ref kd)),
                                 (''non_exportable'', JBool (kd_non_exportable kd))] l) d2)))))"

text \<open>What a rollback leaves: the rows as they were, the files as they are.\<close>

definition rolled_back :: "cs_db \<Rightarrow> cs_db \<Rightarrow> cs_db" where
  "rolled_back d d' = d\<lparr>cs_versions := cs_versions d', cs_current := cs_current d'\<rparr>"

fun closed_error :: "cs_error \<Rightarrow> cs_error" where
  "closed_error (CounterSignatureFormatError m) = CounterSigningProviderError ''counter-signing key provisioning failed closed''"
| "closed_error (IssuerStatusFormatError m) = CounterSigningProviderError ''counter-signing key provisioning failed closed''"
| "closed_error (CheckpointFormatError x) = CounterSigningProviderError ''counter-signing key provisioning failed closed''"
| "closed_error (CsPyException c) = CounterSigningProviderError ''counter-signing key provisioning failed closed''"
| "closed_error e = e"

definition provision_and_publish ::
  "cs_env \<Rightarrow> cs_lifecycle_action \<Rightarrow> ident \<Rightarrow> lifecycle_authorization \<Rightarrow> string \<Rightarrow> cs_key option \<Rightarrow>
   time option \<Rightarrow> dict \<Rightarrow> cs_db \<Rightarrow> (cs_error + cs_key) \<times> cs_db" where
  "provision_and_publish env action key_id au permission prior expires metadata d =
     (let l = begin_lifecycle env action key_id (map_option csk_key_id prior) au d
      in case authorize_lifecycle env au permission of
           Inl e \<Rightarrow> (Inl e, add_lifecycle (lifecycle_denied env e l) d)
         | Inr _ \<Rightarrow>
             (case provision_body env l prior expires metadata d of
                (Inr k, d1) \<Rightarrow> (Inr k, d1)
              | (Inl e, d1) \<Rightarrow>
                  (Inl (closed_error e), add_lifecycle
                     (lifecycle_failed env ''KEY_PROVISION_OR_PUBLICATION_FAILED'' e l) (rolled_back d d1))))"

definition provision_initial_key ::
  "cs_env \<Rightarrow> ident \<Rightarrow> lifecycle_authorization \<Rightarrow> time option \<Rightarrow> dict \<Rightarrow> cs_db \<Rightarrow> (cs_error + cs_key) \<times> cs_db" where
  "provision_initial_key env key_id au expires metadata d =
     (if \<not> key_id_ok key_id then (Inl invalid_key_id, d)
      else if cs_keys d \<noteq> []
      then (Inl (CounterSigningKeyStateError ''initial provisioning requires an empty counter-signing key registry''), d)
      else provision_and_publish env LA_provision key_id au ''counter_signature.keys.provision'' None expires metadata d)"

definition rotate_key ::
  "cs_env \<Rightarrow> ident \<Rightarrow> lifecycle_authorization \<Rightarrow> time option \<Rightarrow> dict \<Rightarrow> cs_db \<Rightarrow> (cs_error + cs_key) \<times> cs_db" where
  "rotate_key env new_key_id au expires metadata d =
     (if \<not> key_id_ok new_key_id then (Inl invalid_key_id, d)
      else (case active_key d of
              Inl e \<Rightarrow> (Inl e, d)
            | Inr None \<Rightarrow> (Inl (CounterSigningKeyStateError ''rotation requires an active counter-signing key''), d)
            | Inr (Some k) \<Rightarrow>
                if tget csk_key_id new_key_id (cs_keys d) \<noteq> None
                then (Inl (CounterSigningKeyStateError ''counter-signing key_id already exists''), d)
                else provision_and_publish env LA_rotate new_key_id au ''counter_signature.keys.rotate'' (Some k)
                       expires metadata d))"

definition revoke_row_cs :: "cs_env \<Rightarrow> string \<Rightarrow> cs_key \<Rightarrow> cs_key" where
  "revoke_row_cs env reason k = k\<lparr>csk_status := CK_revoked, csk_revoked_at := Some (ce_now env),
     csk_lifecycle_metadata := dict_set ''revocation_reason'' (JStr reason) (csk_lifecycle_metadata k)\<rparr>"

definition revoke_body ::
  "cs_env \<Rightarrow> cs_lifecycle \<Rightarrow> string \<Rightarrow> cs_key \<Rightarrow> cs_db \<Rightarrow> (cs_error + cs_key) \<times> cs_db" where
  "revoke_body env l reason k d =
     (case provider_disable (ce_client env) (csk_provider_key_ref k) reason (csl_lifecycle_operation_id l) of
        Inl e \<Rightarrow> (Inl e, d)
      | Inr ref \<Rightarrow>
          let d1 = d\<lparr>cs_keys := tmodify csk_key_id (csk_key_id k) (revoke_row_cs env reason) (cs_keys d)\<rparr>
          in (case publish_current_key_set env (publication_version env (csk_key_id k) ''revoke'') d1 of
                (Inl e, d2) \<Rightarrow> (Inl e, d2)
              | (Inr pub, d2) \<Rightarrow>
                  (Inr (revoke_row_cs env reason k), add_lifecycle (lifecycle_completed env ref pub
                     [(''revoked_at'', stamp (ce_now env)), (''reason'', JStr reason)] l) d2)))"

definition revoke_key ::
  "cs_env \<Rightarrow> ident \<Rightarrow> string \<Rightarrow> lifecycle_authorization \<Rightarrow> cs_db \<Rightarrow> (cs_error + cs_key) \<times> cs_db" where
  "revoke_key env key_id reason au d =
     (if strip reason = [] then (Inl (CounterSigningKeyStateError ''key revocation requires a reason''), d)
      else (case tget csk_key_id key_id (cs_keys d) of
              None \<Rightarrow> (Inl (CounterSigningKeyStateError ''counter-signing key_id was not found''), d)
            | Some k \<Rightarrow>
                if csk_status k = CK_revoked
                then (Inl (CounterSigningKeyStateError ''counter-signing key is already revoked''), d)
                else let l = begin_lifecycle env LA_revoke key_id None au d
                     in (case authorize_lifecycle env au ''counter_signature.keys.revoke'' of
                           Inl e \<Rightarrow> (Inl e, add_lifecycle (lifecycle_denied env e l) d)
                         | Inr _ \<Rightarrow>
                             (case revoke_body env l reason k d of
                                (Inr k', d1) \<Rightarrow> (Inr k', d1)
                              | (Inl e, d1) \<Rightarrow>
                                  (Inl (CounterSigningProviderError ''counter-signing key revocation failed closed''),
                                   add_lifecycle (lifecycle_failed env ''KEY_REVOCATION_FAILED'' e l) (rolled_back d d1))))))"

section \<open>Configuration\<close>

definition starts_with :: "string \<Rightarrow> string \<Rightarrow> bool" where
  "starts_with p s \<longleftrightarrow> take (length p) s = p"

text \<open>The constructor of \<open>CounterSigningService\<close>: the configuration it accepts.\<close>

definition configure_service :: "cs_env \<Rightarrow> cs_error + cs_env" where
  "configure_service env =
     (if \<not> starts_with ''https://'' (ce_origin env) \<or> last (ce_origin env) = CHR ''/''
      then Inl (CounterSigningConfigurationError
             ''counter-signing origin must be an HTTPS origin without a trailing slash'')
      else if ce_min_approvals env < 2
      then Inl (CounterSigningConfigurationError ''counter-signing key lifecycle requires at least two approvers'')
      else if ce_cache_max_age env < 0
      then Inl (CounterSigningConfigurationError ''key-set cache max age must be non-negative'')
      else (case validate_witness (ce_witness env) of Inl e \<Rightarrow> Inl e | Inr w \<Rightarrow> Inr (env\<lparr>ce_witness := w\<rparr>)))"

definition list_lifecycle_operations :: "cs_db \<Rightarrow> cs_lifecycle list" where
  "list_lifecycle_operations d = cs_lifecycles d"

definition list_signing_operations :: "cs_db \<Rightarrow> cs_operation list" where
  "list_signing_operations d = cs_operations d"

text \<open>Any sequence of calls of services configured over the same tables.\<close>

inductive cs_step :: "cs_db \<Rightarrow> cs_db \<Rightarrow> bool" where
  cs_sign: "configure_service env0 = Inr env \<Longrightarrow> cs_step d (snd (counter_sign env v a tid rid anchor d))"
| cs_provision: "configure_service env0 = Inr env \<Longrightarrow>
    cs_step d (snd (provision_initial_key env kid au expires md d))"
| cs_rotate: "configure_service env0 = Inr env \<Longrightarrow> cs_step d (snd (rotate_key env kid au expires md d))"
| cs_revoke: "configure_service env0 = Inr env \<Longrightarrow> cs_step d (snd (revoke_key env kid reason au d))"

definition empty_cs_db :: cs_db where
  "empty_cs_db = \<lparr>cs_keys = [], cs_operations = [], cs_lifecycles = [], cs_versions = [], cs_current = None,
     cs_next_uuid = 0\<rparr>"

definition cs_reachable :: "cs_db \<Rightarrow> bool" where
  "cs_reachable d \<longleftrightarrow> cs_step\<^sup>*\<^sup>* empty_cs_db d"

end
