(* ===== verification/CountersigningProtocol.thy ===== *)
theory CountersigningProtocol
  imports Countersigning
begin

text \<open>
  What any sequence of calls of the counter-signing service keeps: one active key, the people behind
  every change of keys, the published key set, and what a signature can have been given for.
\<close>

section \<open>Publication\<close>

text \<open>The well-known file holds the key set of the stored keys, as some call rendered it.\<close>

definition shows_keys :: "cs_env \<Rightarrow> cs_db \<Rightarrow> bool" where
  "shows_keys env d \<longleftrightarrow> (\<exists>doc bs. build_public_key_set env d = Inr doc \<and> ce_jcs env (JObj doc) = Some bs \<and>
     cs_current d = Some (bs @ [CHR 0x0A]))"

lemma shows_keys_same:
  "shows_keys env d \<Longrightarrow> cs_keys d' = cs_keys d \<Longrightarrow> cs_current d' = cs_current d \<Longrightarrow> shows_keys env d'"
proof -
  assume "shows_keys env d" "cs_keys d' = cs_keys d" "cs_current d' = cs_current d"
  moreover from this(2) have "build_public_key_set env d' = build_public_key_set env d"
    by (simp add: build_public_key_set_def all_keys_def)
  ultimately show ?thesis by (simp add: shows_keys_def)
qed

lemma publish_key_set_cases:
  assumes "publish_key_set env doc v d = (res, d')"
  obtains e vs where "res = Inl e" "d' = d\<lparr>cs_versions := vs\<rparr>"
  | p vs bs where "res = Inr p" "d' = d\<lparr>cs_versions := vs, cs_current := Some (bs @ [CHR 0x0A])\<rparr>"
      "ce_jcs env (JObj doc) = Some bs"
proof -
  have same: "d = d\<lparr>cs_versions := cs_versions d\<rparr>" by simp
  show ?thesis
    using assms that(1)[of _ "cs_versions d"] that
    by (auto simp: publish_key_set_def cs_canonicalize_def Let_def split: if_splits option.splits)
qed

lemma publish_current_cases:
  assumes "publish_current_key_set env v d = (res, d')"
  obtains e vs where "res = Inl e" "d' = d\<lparr>cs_versions := vs\<rparr>"
  | p vs c where "res = Inr p" "d' = d\<lparr>cs_versions := vs, cs_current := c\<rparr>" "shows_keys env d'"
proof (cases "build_public_key_set env d")
  case (Inl e)
  then show ?thesis using assms that(1)[of e "cs_versions d"] by (simp add: publish_current_key_set_def)
next
  case (Inr doc)
  then have "publish_key_set env doc v d = (res, d')" using assms by (simp add: publish_current_key_set_def)
  then show ?thesis
  proof (cases rule: publish_key_set_cases)
    case (1 e vs)
    then show ?thesis using that(1) by blast
  next
    case (2 p vs bs)
    have "shows_keys env d'"
      using 2 Inr by (simp add: shows_keys_def build_public_key_set_def all_keys_def split: if_splits)
    then show ?thesis using that(2) 2 by blast
  qed
qed

section \<open>Effects of the life-cycle calls\<close>

text \<open>A call that is denied or fails leaves its record; keys and published file stay.\<close>

definition lifecycle_refused :: "cs_db \<Rightarrow> cs_db \<Rightarrow> bool" where
  "lifecycle_refused d d' \<longleftrightarrow> d' = d \<or> (\<exists>vs l. d' = d\<lparr>cs_lifecycles := cs_lifecycles d @ [l], cs_versions := vs,
     cs_next_uuid := Suc (cs_next_uuid d)\<rparr> \<and> csl_status l \<in> {LC_denied, LC_failed})"

text \<open>A call that succeeds was authorised, changed the keys and published them.\<close>

definition lifecycle_done ::
  "cs_env \<Rightarrow> lifecycle_authorization \<Rightarrow> (cs_key list \<Rightarrow> cs_key list) \<Rightarrow> cs_db \<Rightarrow> cs_db \<Rightarrow> bool" where
  "lifecycle_done env au F d d' \<longleftrightarrow> (\<exists>vs c l. d' = d\<lparr>cs_keys := F (cs_keys d), cs_lifecycles := cs_lifecycles d @ [l],
     cs_versions := vs, cs_current := c, cs_next_uuid := Suc (cs_next_uuid d)\<rparr> \<and>
     csl_status l = LC_completed \<and> csl_requester l = (pn_principal_type (la_requester au), pn_principal_id (la_requester au)) \<and>
     csl_approver_principal_ids l = map pn_principal_id (la_approvers au)) \<and> shows_keys env d'"

lemma refused_record:
  assumes "csl_status l \<in> {LC_denied, LC_failed}"
  shows "lifecycle_refused d (add_lifecycle l (d\<lparr>cs_versions := vs\<rparr>))"
  unfolding lifecycle_refused_def using assms
  by (intro disjI2 exI[of _ vs] exI[of _ l]) (simp add: add_lifecycle_def cs_used_id_def tinsert_def)

lemma refused_record_denied: "lifecycle_refused d (add_lifecycle (lifecycle_denied env e l) d)"
  using refused_record[of "lifecycle_denied env e l" d "cs_versions d"] by (simp add: lifecycle_denied_def)

lemma done_record:
  assumes "l' = lifecycle_completed env ref pub details (begin_lifecycle env action target prior au d0)"
    "d2 = d\<lparr>cs_keys := F (cs_keys d), cs_versions := vs, cs_current := c\<rparr>" "shows_keys env d2"
  shows "lifecycle_done env au F d (add_lifecycle l' d2)"
proof -
  have "shows_keys env (add_lifecycle l' d2)"
    by (rule shows_keys_same[OF assms(3)]) (simp_all add: add_lifecycle_def cs_used_id_def)
  then show ?thesis
    unfolding lifecycle_done_def using assms(1)
    by (intro conjI exI[of _ vs] exI[of _ c] exI[of _ l'])
       (simp_all add: assms(2) add_lifecycle_def cs_used_id_def tinsert_def lifecycle_completed_def begin_lifecycle_def)
qed

lemma provisioned_key_id:
  assumes "provision_key c target token = Inr kd"
  shows "kd_key_id kd = target"
proof (rule ccontr)
  assume "kd_key_id kd \<noteq> target"
  then obtain e where "validate_descriptor kd target = Inl e" by (simp add: validate_descriptor_def Let_def)
  then show False using assms by (auto simp: provision_key_def split: sum.split_asm)
qed

lemma private_dict_set:
  "f \<notin> set private_jwk_fields \<Longrightarrow> has_private_fields (dict_set f v m) = has_private_fields m"
  by (auto simp: has_private_fields_def dict_set_def list_ex_iff)

lemma key_from_descriptor_row:
  assumes "key_from_descriptor env kd expires md = Inr k"
  shows "csk_key_id k = kd_key_id kd" "csk_status k = CK_active" "\<not> has_private_fields (csk_public_key_jwk k)"
    "csk_expires_at k = expires" "csk_not_before k = ce_now env"
proof -
  have f: "''kid'' \<notin> set private_jwk_fields" "''alg'' \<notin> set private_jwk_fields" "''use'' \<notin> set private_jwk_fields"
    by (simp_all add: private_jwk_fields_def)
  have no: "\<not> has_private_fields (kd_public_key_jwk kd)"
    using assms by (simp add: key_from_descriptor_def split: if_split_asm)
  have k: "k = \<lparr>csk_key_id = kd_key_id kd, csk_provider_key_ref = kd_provider_key_ref kd,
         csk_public_key_jwk = dict_set ''kid'' (JStr (kd_key_id kd)) (dict_set ''alg'' (JStr ''EdDSA'')
           (dict_set ''use'' (JStr ''sig'') (kd_public_key_jwk kd))),
         csk_witness = ce_witness env, csk_origin = ce_origin env, csk_status = CK_active,
         csk_not_before = ce_now env, csk_expires_at = expires, csk_retired_at = None,
         csk_revoked_at = None, csk_replaced_by_key_id = None,
         csk_provider_attestation_ref = kd_provider_attestation_ref kd,
         csk_lifecycle_metadata = dict_set ''non_exportable'' (JBool (kd_non_exportable kd))
           (dict_set ''custody'' (JStr ''external_hsm_or_kms'') md)\<rparr>"
    using assms no by (simp add: key_from_descriptor_def)
  show "csk_key_id k = kd_key_id kd" "csk_status k = CK_active" "\<not> has_private_fields (csk_public_key_jwk k)"
    "csk_expires_at k = expires" "csk_not_before k = ce_now env"
    by (simp_all add: k no private_dict_set[OF f(1)] private_dict_set[OF f(2)] private_dict_set[OF f(3)])
qed

lemma provision_body_cases:
  assumes "provision_body env l prior expires md d = (res, d')"
    and l: "l = begin_lifecycle env action target prior_id au d"
  obtains e where "res = Inl e" "\<exists>vs. rolled_back d d' = d\<lparr>cs_versions := vs\<rparr>"
  | k where "res = Inr k" "lifecycle_done env au (\<lambda>ks. tinsert k (retire_prior env prior (csk_key_id k) ks)) d d'"
      "csk_key_id k = target" "csk_key_id k \<notin> set (map csk_key_id (cs_keys d))"
      "csk_provider_key_ref k \<notin> set (map csk_provider_key_ref (cs_keys d))"
      "csk_status k = CK_active" "\<not> has_private_fields (csk_public_key_jwk k)"
proof (cases "\<exists>e. res = Inl e \<and> d' = d")
  case True
  moreover have "rolled_back d d = d\<lparr>cs_versions := cs_versions d\<rparr>" by (simp add: rolled_back_def)
  ultimately show ?thesis using that(1) by metis
next
  case False
  have tgt: "csl_target_key_id l = target" by (simp add: l begin_lifecycle_def)
  obtain kd where kd0: "provision_key (ce_client env) target (csl_lifecycle_operation_id l) = Inr kd"
    using assms(1) False by (auto simp: provision_body_def tgt split: if_splits sum.split_asm)
  obtain k where k0: "key_from_descriptor env kd expires md = Inr k"
  proof (cases "key_from_descriptor env kd expires md")
    case (Inl e)
    then show ?thesis using assms(1) False kd0 by (auto simp: provision_body_def tgt split: if_splits) metis
  qed (use that in blast)
  have kd: "provision_key (ce_client env) target (csl_lifecycle_operation_id l) = Inr kd"
    "key_from_descriptor env kd expires md = Inr k" "csk_key_id k \<notin> set (map csk_key_id (cs_keys d))"
    "csk_provider_key_ref k \<notin> set (map csk_provider_key_ref (cs_keys d))"
    using assms(1) False kd0 k0 by (auto simp: provision_body_def tgt split: if_splits)
  define d1 where "d1 = d\<lparr>cs_keys := tinsert k (retire_prior env prior (csk_key_id k) (cs_keys d))\<rparr>"
  define version where "version = publication_version env target (lifecycle_action_value action)"
  obtain pr d2 where pub: "publish_current_key_set env version d1 = (pr, d2)" by force
  have exp: "\<not> (case expires of None \<Rightarrow> False | Some t \<Rightarrow> t \<le> ce_now env)"
    using assms(1) False by (auto simp: provision_body_def split: if_splits)
  have act: "csl_action l = action" by (simp add: l begin_lifecycle_def)
  have body: "(res, d') = (case pr of Inl e \<Rightarrow> (Inl e, d2) | Inr pub \<Rightarrow>
      (Inr k, add_lifecycle (lifecycle_completed env (kd_provider_operation_ref kd) pub
         [(''provider_attestation_ref'', opt_str (kd_provider_attestation_ref kd)),
          (''non_exportable'', JBool (kd_non_exportable kd))] l) d2))"
    unfolding assms(1)[symmetric] provision_body_def tgt act kd(1,2) sum.case
    using exp kd(3,4) pub by (simp add: Let_def flip: d1_def version_def)
  have k: "csk_key_id k = target" "csk_status k = CK_active" "\<not> has_private_fields (csk_public_key_jwk k)"
    using key_from_descriptor_row[OF kd(2)] provisioned_key_id[OF kd(1)] by simp_all
  from pub show ?thesis
  proof (cases rule: publish_current_cases)
    case (1 e vs)
    then have "rolled_back d d' = d\<lparr>cs_versions := vs\<rparr>" "res = Inl e"
      using body by (simp_all add: d1_def rolled_back_def)
    then show ?thesis using that(1) by blast
  next
    case (2 p vs c)
    have "lifecycle_done env au (\<lambda>ks. tinsert k (retire_prior env prior (csk_key_id k) ks)) d d'"
      using body 2 done_record[OF refl, where d = d and F = "\<lambda>ks. tinsert k (retire_prior env prior (csk_key_id k) ks)" and vs = vs and c = c]
      by (simp add: d1_def l)
    then show ?thesis using that(2)[of k] body 2 kd k by simp
  qed
qed


lemma provision_and_publish_cases:
  assumes "provision_and_publish env action target au permission prior expires md d = (res, d')"
  obtains e where "res = Inl e" "lifecycle_refused d d'"
  | k where "res = Inr k" "authorize_lifecycle env au permission = Inr ()"
      "lifecycle_done env au (\<lambda>ks. tinsert k (retire_prior env prior (csk_key_id k) ks)) d d'"
      "csk_key_id k = target" "csk_key_id k \<notin> set (map csk_key_id (cs_keys d))"
      "csk_provider_key_ref k \<notin> set (map csk_provider_key_ref (cs_keys d))"
      "csk_status k = CK_active" "\<not> has_private_fields (csk_public_key_jwk k)"
proof (cases "authorize_lifecycle env au permission")
  case (Inl e)
  then show ?thesis
    using assms that(1) refused_record_denied by (auto simp: provision_and_publish_def Let_def)
next
  case (Inr u)
  define l where "l = begin_lifecycle env action target (map_option csk_key_id prior) au d"
  obtain r d1 where b: "provision_body env l prior expires md d = (r, d1)" by force
  from b l_def show ?thesis
  proof (cases rule: provision_body_cases)
    case (1 e)
    obtain vs where vs: "rolled_back d d1 = d\<lparr>cs_versions := vs\<rparr>" using 1(2) by blast
    have "d' = add_lifecycle (lifecycle_failed env ''KEY_PROVISION_OR_PUBLICATION_FAILED'' e l) (rolled_back d d1)"
      "res = Inl (closed_error e)"
      using assms Inr b 1(1) by (auto simp: provision_and_publish_def Let_def simp flip: l_def)
    then show ?thesis
      using that(1) refused_record[of "lifecycle_failed env ''KEY_PROVISION_OR_PUBLICATION_FAILED'' e l" d vs]
      by (simp add: vs lifecycle_failed_def)
  next
    case (2 k)
    then have "res = Inr k" "d' = d1"
      using assms Inr b by (auto simp: provision_and_publish_def Let_def simp flip: l_def)
    then show ?thesis using that(2)[of k] 2 Inr by simp
  qed
qed

lemma revoke_key_cases:
  assumes "revoke_key env kid reason au d = (res, d')"
  obtains e where "res = Inl e" "lifecycle_refused d d'"
  | k where "tget csk_key_id kid (cs_keys d) = Some k" "csk_status k \<noteq> CK_revoked" "strip reason \<noteq> []"
      "authorize_lifecycle env au ''counter_signature.keys.revoke'' = Inr ()" "res = Inr (revoke_row_cs env reason k)"
      "lifecycle_done env au (tmodify csk_key_id kid (revoke_row_cs env reason)) d d'"
proof (cases "\<exists>e. res = Inl e \<and> d' = d")
  case True
  then show ?thesis using that(1) by (auto simp: lifecycle_refused_def)
next
  case False
  then obtain k where k: "tget csk_key_id kid (cs_keys d) = Some k" "csk_status k \<noteq> CK_revoked" "strip reason \<noteq> []"
    using assms by (auto simp: revoke_key_def split: if_splits option.splits)
  define l where "l = begin_lifecycle env LA_revoke kid None au d"
  have kid: "csk_key_id k = kid" using tgetD[OF k(1)] by simp
  show ?thesis
  proof (cases "authorize_lifecycle env au ''counter_signature.keys.revoke''")
    case (Inl e)
    then show ?thesis using assms k that(1) refused_record_denied by (auto simp: revoke_key_def Let_def)
  next
    case (Inr u)
    obtain r d1 where b: "revoke_body env l reason k d = (r, d1)" by force
    have res: "(res, d') = (case r of Inr k' \<Rightarrow> (Inr k', d1) | Inl e \<Rightarrow>
        (Inl (CounterSigningProviderError ''counter-signing key revocation failed closed''),
         add_lifecycle (lifecycle_failed env ''KEY_REVOCATION_FAILED'' e l) (rolled_back d d1)))"
      using assms k Inr b by (auto simp: revoke_key_def Let_def split: sum.split_asm simp flip: l_def)
    have failed: thesis if "r = Inl e" "rolled_back d d1 = d\<lparr>cs_versions := vs\<rparr>" for e vs
      using res that that(1) \<open>\<And>e. res = Inl e \<Longrightarrow> lifecycle_refused d d' \<Longrightarrow> thesis\<close>
        refused_record[of "lifecycle_failed env ''KEY_REVOCATION_FAILED'' e l" d vs] by (simp add: lifecycle_failed_def)
    show ?thesis
    proof (cases "provider_disable (ce_client env) (csk_provider_key_ref k) reason (csl_lifecycle_operation_id l)")
      case (Inl e)
      then show ?thesis using b failed[of e "cs_versions d"] by (simp add: revoke_body_def rolled_back_def)
    next
      case (Inr ref)
      define d2 where "d2 = d\<lparr>cs_keys := tmodify csk_key_id kid (revoke_row_cs env reason) (cs_keys d)\<rparr>"
      obtain pr d3 where pub: "publish_current_key_set env (publication_version env kid ''revoke'') d2 = (pr, d3)" by force
      have body: "(r, d1) = (case pr of Inl e \<Rightarrow> (Inl e, d3) | Inr p \<Rightarrow> (Inr (revoke_row_cs env reason k),
          add_lifecycle (lifecycle_completed env ref p [(''revoked_at'', stamp (ce_now env)), (''reason'', JStr reason)] l) d3))"
        using b Inr pub by (auto simp: revoke_body_def Let_def kid d2_def split: sum.split_asm)
      from pub show ?thesis
      proof (cases rule: publish_current_cases)
        case (1 e vs)
        then show ?thesis using body failed[of e vs] by (simp add: d2_def rolled_back_def)
      next
        case (2 p vs c)
        have "lifecycle_done env au (tmodify csk_key_id kid (revoke_row_cs env reason)) d d1"
          using body 2 done_record[OF refl, where d = d and F = "tmodify csk_key_id kid (revoke_row_cs env reason)" and vs = vs and c = c]
          by (simp add: d2_def l_def)
        then show ?thesis using that(2)[OF k] body 2 res \<open>authorize_lifecycle env au _ = Inr u\<close> by simp
      qed
    qed
  qed
qed

section \<open>The people behind a change of keys\<close>

text \<open>At least two different people other than the requester.\<close>

definition independently_approved :: "cs_lifecycle \<Rightarrow> bool" where
  "independently_approved l \<longleftrightarrow> fst (csl_requester l) = ''user'' \<and>
     2 \<le> card (set (csl_approver_principal_ids l)) \<and> snd (csl_requester l) \<notin> set (csl_approver_principal_ids l)"

lemma unique_approvers_ids:
  "map pn_principal_id (unique_approvers ps) = rev (remdups (rev (map pn_principal_id ps)))"
proof -
  have "pn_principal_id (last [p \<leftarrow> ps. pn_principal_id p = pid]) = pid" if "pid \<in> pn_principal_id ` set ps" for pid
  proof -
    have "[p \<leftarrow> ps. pn_principal_id p = pid] \<noteq> []" using that by (auto simp: filter_empty_conv)
    from last_in_set[OF this] show ?thesis by simp
  qed
  then show ?thesis unfolding unique_approvers_def map_map by (intro map_idI) simp
qed

lemma authorize_lifecycle_people:
  assumes "authorize_lifecycle env au permission = Inr ()"
  shows "pn_principal_type (la_requester au) = ''user''" "permission \<in> set (pn_permissions (la_requester au))"
    "ce_min_approvals env \<le> int (card (set (map pn_principal_id (la_approvers au))))"
    "pn_principal_id (la_requester au) \<notin> set (map pn_principal_id (la_approvers au))"
proof -
  let ?us = "unique_approvers (la_approvers au)"
  have ids: "set (map pn_principal_id ?us) = set (map pn_principal_id (la_approvers au))"
    "length ?us = card (set (map pn_principal_id (la_approvers au)))"
    using arg_cong[OF unique_approvers_ids, of set "la_approvers au"]
      arg_cong[OF unique_approvers_ids, of length "la_approvers au"]
    by (simp_all add: length_remdups_card_conv)
  show "pn_principal_type (la_requester au) = ''user''" "permission \<in> set (pn_permissions (la_requester au))"
    "ce_min_approvals env \<le> int (card (set (map pn_principal_id (la_approvers au))))"
    "pn_principal_id (la_requester au) \<notin> set (map pn_principal_id (la_approvers au))"
    using assms unfolding authorize_lifecycle_def Let_def ids by (auto split: if_splits)
qed

lemma configured_approvals: "configure_service env0 = Inr env \<Longrightarrow> 2 \<le> ce_min_approvals env"
  by (auto simp: configure_service_def split: if_splits sum.splits)

section \<open>The invariant\<close>

definition cs_inv :: "cs_db \<Rightarrow> bool" where
  "cs_inv d \<longleftrightarrow> length (active_keys d) \<le> 1 \<and> distinct (map csk_key_id (cs_keys d)) \<and>
     distinct (map csk_provider_key_ref (cs_keys d)) \<and>
     (\<forall>k \<in> set (cs_keys d). \<not> has_private_fields (csk_public_key_jwk k)) \<and>
     (\<forall>l \<in> set (cs_lifecycles d). csl_status l = LC_completed \<longrightarrow> independently_approved l) \<and>
     (if cs_keys d = [] then cs_current d = None else \<exists>env. shows_keys env d)"

lemma cs_inv_empty: "cs_inv empty_cs_db"
  by (simp add: cs_inv_def empty_cs_db_def active_keys_def)

lemma cs_inv_refused:
  assumes "lifecycle_refused d d'" "cs_inv d"
  shows "cs_inv d'"
proof -
  have same: "cs_keys d' = cs_keys d" "cs_current d' = cs_current d"
    "\<forall>l \<in> set (cs_lifecycles d'). l \<in> set (cs_lifecycles d) \<or> csl_status l \<noteq> LC_completed"
    using assms(1) by (auto simp: lifecycle_refused_def)
  then have "shows_keys env d \<Longrightarrow> shows_keys env d'" for env using shows_keys_same by blast
  then show ?thesis
    using assms(2) same unfolding cs_inv_def active_keys_def by (auto split: if_splits)
qed

text \<open>The part of the invariant on the keys alone.\<close>

definition keys_ok :: "cs_key list \<Rightarrow> bool" where
  "keys_ok ks \<longleftrightarrow> length [k \<leftarrow> ks. csk_status k = CK_active] \<le> 1 \<and> distinct (map csk_key_id ks) \<and>
     distinct (map csk_provider_key_ref ks) \<and> (\<forall>k \<in> set ks. \<not> has_private_fields (csk_public_key_jwk k))"

lemma cs_inv_done:
  assumes "lifecycle_done env au F d d'" "cs_inv d" "keys_ok (F (cs_keys d))" "F (cs_keys d) \<noteq> []"
    "authorize_lifecycle env au permission = Inr ()" "2 \<le> ce_min_approvals env"
  shows "cs_inv d'"
proof -
  have "2 \<le> card (set (map pn_principal_id (la_approvers au)))"
    using authorize_lifecycle_people(3)[OF assms(5)] assms(6) by linarith
  then have people: "independently_approved l"
    if "csl_requester l = (pn_principal_type (la_requester au), pn_principal_id (la_requester au))"
      "csl_approver_principal_ids l = map pn_principal_id (la_approvers au)" for l
    using authorize_lifecycle_people(1,4)[OF assms(5)] that by (simp add: independently_approved_def)
  have keys: "cs_keys d' = F (cs_keys d)" and sh: "shows_keys env d'"
    and ls: "\<forall>l \<in> set (cs_lifecycles d'). l \<in> set (cs_lifecycles d) \<or> independently_approved l"
    using assms(1) people unfolding lifecycle_done_def by (elim exE conjE; simp)+
  have "\<forall>l \<in> set (cs_lifecycles d'). csl_status l = LC_completed \<longrightarrow> independently_approved l"
    using ls assms(2) unfolding cs_inv_def by blast
  then show ?thesis
    using assms(3,4) sh by (auto simp: cs_inv_def keys_ok_def active_keys_def keys)
qed

lemma keys_ok_retire:
  assumes "keys_ok ks" "\<And>k. csk_key_id (f k) = csk_key_id k" "\<And>k. csk_provider_key_ref (f k) = csk_provider_key_ref k"
    "\<And>k. csk_public_key_jwk (f k) = csk_public_key_jwk k" "\<And>k. csk_status (f k) \<noteq> CK_active"
  shows "keys_ok (tmodify csk_key_id kid f ks)" "length [k \<leftarrow> tmodify csk_key_id kid f ks. csk_status k = CK_active] =
    length [k \<leftarrow> ks. csk_status k = CK_active \<and> csk_key_id k \<noteq> kid]"
proof -
  show len: "length [k \<leftarrow> tmodify csk_key_id kid f ks. csk_status k = CK_active] =
    length [k \<leftarrow> ks. csk_status k = CK_active \<and> csk_key_id k \<noteq> kid]"
    using assms(5) by (induction ks) auto
  have "length [k \<leftarrow> ks. csk_status k = CK_active \<and> csk_key_id k \<noteq> kid] \<le> length [k \<leftarrow> ks. csk_status k = CK_active]"
    by (induction ks) auto
  moreover have "\<not> has_private_fields (csk_public_key_jwk k)" if "k \<in> set (tmodify csk_key_id kid f ks)" for k
    using set_tmodify[OF that] assms(1,4) by (auto simp: keys_ok_def)
  ultimately show "keys_ok (tmodify csk_key_id kid f ks)"
    using assms len by (simp add: keys_ok_def map_tmodify)
qed

lemma keys_ok_insert:
  assumes "keys_ok ks" "[k \<leftarrow> ks. csk_status k = CK_active] = []" "csk_key_id k \<notin> set (map csk_key_id ks)"
    "csk_provider_key_ref k \<notin> set (map csk_provider_key_ref ks)" "\<not> has_private_fields (csk_public_key_jwk k)"
  shows "keys_ok (tinsert k ks)"
  using assms by (auto simp: keys_ok_def tinsert_def)

lemma retire_key_simps [simp]:
  "csk_key_id (retire_key env n k) = csk_key_id k" "csk_provider_key_ref (retire_key env n k) = csk_provider_key_ref k"
  "csk_public_key_jwk (retire_key env n k) = csk_public_key_jwk k" "csk_status (retire_key env n k) = CK_retired"
  "csk_key_id (revoke_row_cs env reason k) = csk_key_id k"
  "csk_provider_key_ref (revoke_row_cs env reason k) = csk_provider_key_ref k"
  "csk_public_key_jwk (revoke_row_cs env reason k) = csk_public_key_jwk k" "csk_status (revoke_row_cs env reason k) = CK_revoked"
  by (simp_all add: retire_key_def revoke_row_cs_def)

lemma active_key_Some:
  "active_key d = Inr (Some k) \<Longrightarrow> active_keys d = [k] \<and> k \<in> set (cs_keys d) \<and> csk_status k = CK_active"
proof -
  assume "active_key d = Inr (Some k)"
  then have "active_keys d = [k]" by (auto simp: active_key_def split: list.splits)
  then show ?thesis using filter_is_subset[of "\<lambda>k. csk_status k = CK_active" "cs_keys d"]
    by (auto simp: active_keys_def filter_eq_Cons_iff)
qed

lemma counter_sign_frame:
  assumes "counter_sign env v a tid rid anchor d = (res, d')"
  shows "\<exists>ops n. d' = d\<lparr>cs_operations := ops, cs_next_uuid := n\<rparr>"
proof -
  have same: "\<exists>ops n. d = d\<lparr>cs_operations := ops, cs_next_uuid := n\<rparr>"
    by (intro exI[of _ "cs_operations d"] exI[of _ "cs_next_uuid d"]) simp
  have add: "\<exists>ops n. add_operation op d = d\<lparr>cs_operations := ops, cs_next_uuid := n\<rparr>" for op
    by (intro exI[of _ "cs_operations d @ [op]"] exI[of _ "Suc (cs_next_uuid d)"])
       (simp add: add_operation_def cs_used_id_def tinsert_def)
  have "snd (counter_sign env v a tid rid anchor d) = d \<or>
      (\<exists>op. snd (counter_sign env v a tid rid anchor d) = add_operation op d)"
    unfolding counter_sign_def Let_def by (auto split: sum.split option.split prod.split)
  then show ?thesis using assms same add by auto
qed

lemma cs_inv_rows:
  assumes "cs_inv d" "d' = d\<lparr>cs_operations := ops, cs_next_uuid := n\<rparr>"
  shows "cs_inv d'"
proof -
  have "shows_keys env d' = shows_keys env d" for env
    using shows_keys_same[of env d d'] shows_keys_same[of env d' d] by (auto simp: assms(2))
  then show ?thesis using assms(1) by (simp add: cs_inv_def active_keys_def assms(2))
qed

lemma keys_ok_inv: "cs_inv d \<Longrightarrow> keys_ok (cs_keys d)"
  by (simp add: cs_inv_def keys_ok_def active_keys_def)

lemma rotated_keys_ok:
  assumes "keys_ok (cs_keys d)" "active_key d = Inr (Some p)" "csk_key_id k \<notin> set (map csk_key_id (cs_keys d))"
    "csk_provider_key_ref k \<notin> set (map csk_provider_key_ref (cs_keys d))" "\<not> has_private_fields (csk_public_key_jwk k)"
  shows "keys_ok (tinsert k (retire_prior env (Some p) (csk_key_id k) (cs_keys d)))"
proof -
  let ?ks = "tmodify csk_key_id (csk_key_id p) (retire_key env (csk_key_id k)) (cs_keys d)"
  have "[x \<leftarrow> cs_keys d. csk_status x = CK_active] = [p]"
    using active_key_Some[OF assms(2)] by (simp add: active_keys_def)
  then have "[x \<leftarrow> cs_keys d. csk_status x = CK_active \<and> csk_key_id x \<noteq> csk_key_id p] = []"
    using filter_filter[of "\<lambda>x. csk_key_id x \<noteq> csk_key_id p" "\<lambda>x. csk_status x = CK_active" "cs_keys d"] by simp
  then have none: "[x \<leftarrow> ?ks. csk_status x = CK_active] = []"
    using keys_ok_retire(2)[where f = "retire_key env (csk_key_id k)" and kid = "csk_key_id p", OF assms(1)] by simp
  have ok: "keys_ok ?ks" by (rule keys_ok_retire(1)[OF assms(1)]) simp_all
  show ?thesis
    unfolding retire_prior_def option.case
    by (rule keys_ok_insert[OF ok none]) (use assms(3-5) in \<open>simp_all add: map_tmodify flip: set_map\<close>)
qed

lemma cs_step_inv:
  assumes "cs_step d d'" "cs_inv d"
  shows "cs_inv d'"
  using assms(1)
proof (cases rule: cs_step.cases)
  case (cs_sign env0 env v a tid rid anchor)
  then show ?thesis using counter_sign_frame cs_inv_rows[OF assms(2)] by (metis prod.collapse)
next
  case (cs_provision env0 env kid au expires md)
  obtain res where eq: "provision_initial_key env kid au expires md d = (res, d')" using cs_provision(1) by (metis prod.collapse)
  show ?thesis
  proof (cases "d' = d")
    case False
    then have empty: "cs_keys d = []" and p: "provision_and_publish env LA_provision kid au
        ''counter_signature.keys.provision'' None expires md d = (res, d')"
      using eq by (auto simp: provision_initial_key_def split: if_splits)
    from p show ?thesis
    proof (cases rule: provision_and_publish_cases)
      case (2 k)
      have "keys_ok (tinsert k (retire_prior env None (csk_key_id k) (cs_keys d)))"
        using 2 by (simp add: empty retire_prior_def keys_ok_def tinsert_def)
      then show ?thesis
        using cs_inv_done[OF 2(3) assms(2) _ _ 2(2) configured_approvals[OF cs_provision(2)]] by (simp add: tinsert_def)
    qed (use cs_inv_refused assms(2) in blast)
  qed (use assms(2) in simp)
next
  case (cs_rotate env0 env kid au expires md)
  obtain res where eq: "rotate_key env kid au expires md d = (res, d')" using cs_rotate(1) by (metis prod.collapse)
  show ?thesis
  proof (cases "d' = d")
    case False
    then obtain p where prior: "active_key d = Inr (Some p)" and p: "provision_and_publish env LA_rotate kid au
        ''counter_signature.keys.rotate'' (Some p) expires md d = (res, d')"
      using eq by (auto simp: rotate_key_def split: if_splits sum.splits option.splits)
    from p show ?thesis
    proof (cases rule: provision_and_publish_cases)
      case (2 k)
      have "keys_ok (tinsert k (retire_prior env (Some p) (csk_key_id k) (cs_keys d)))"
        by (rule rotated_keys_ok[OF keys_ok_inv[OF assms(2)] prior 2(5,6,8)])
      then show ?thesis
        using cs_inv_done[OF 2(3) assms(2) _ _ 2(2) configured_approvals[OF cs_rotate(2)]] by (simp add: tinsert_def)
    qed (use cs_inv_refused assms(2) in blast)
  qed (use assms(2) in simp)
next
  case (cs_revoke env0 env kid reason au)
  obtain res where eq: "revoke_key env kid reason au d = (res, d')" using cs_revoke(1) by (metis prod.collapse)
  then show ?thesis
  proof (cases rule: revoke_key_cases)
    case (2 k)
    have "keys_ok (tmodify csk_key_id kid (revoke_row_cs env reason) (cs_keys d))"
      by (rule keys_ok_retire(1)[OF keys_ok_inv[OF assms(2)]]) simp_all
    moreover have "tmodify csk_key_id kid (revoke_row_cs env reason) (cs_keys d) \<noteq> []"
      using tgetD[OF 2(1)] by (auto simp: tmodify_def)
    ultimately show ?thesis
      using cs_inv_done[OF 2(6) assms(2) _ _ 2(4) configured_approvals[OF cs_revoke(2)]] by simp
  qed (use cs_inv_refused assms(2) in blast)
qed

lemma cs_reachable_inv: "cs_reachable d \<Longrightarrow> cs_inv d"
  unfolding cs_reachable_def by (induction rule: rtranclp_induct) (auto intro: cs_inv_empty cs_step_inv)

section \<open>What is signed\<close>

lemma authorized_service:
  "authorize_service_permission a permission name = Inr () \<longleftrightarrow>
   pn_principal_type a = ''service'' \<and> permission \<in> set (pn_permissions a)"
  by (auto simp: authorize_service_permission_def)

lemma provider_sign_length: "provider_sign c ref msg token = Inr (sig, op) \<Longrightarrow> length sig = 64 \<and> msg \<noteq> []"
  by (auto simp: provider_sign_def split: if_splits sum.splits prod.splits)

lemma counter_sign_success:
  assumes "counter_sign env v a tid rid anchor d = (Inr (art, op), d')"
  obtains digest k st msg sig ref where "resolve_receipt_digest env v = Inr digest" "active_key d = Inr (Some k)"
    "authorize_service_permission a ''counter_signature.sign'' ''counter-signing'' = Inr ()"
    "build_signed_statement digest (ce_witness env) (stamp (ce_now env)) anchor = Inr st"
    "cs_canonicalize env (JObj st) = Inr msg"
    "provider_sign (ce_client env) (csk_provider_key_ref k) msg (cs_new_id env d) = Inr (sig, ref)"
    "build_countersignature_artifact digest (ce_witness env) (stamp (ce_now env)) anchor (csk_key_id k) sig = Inr art"
    "op = (new_operation env a tid rid digest (Some k) d)\<lparr>cso_signing_input_digest := Some (sha256_hex env msg),
       cso_status := CO_completed, cso_provider_operation_ref := Some ref, cso_artifact := Some art,
       cso_completed_at := Some (ce_now env)\<rparr>"
    "d' = add_operation op d"
proof -
  obtain digest where digest: "resolve_receipt_digest env v = Inr digest"
    using assms by (auto simp: counter_sign_def split: sum.split_asm)
  obtain mk where mk: "active_key d = Inr mk"
    using assms by (auto simp: counter_sign_def digest split: sum.split_asm)
  have au: "authorize_service_permission a ''counter_signature.sign'' ''counter-signing'' = Inr ()"
    using assms by (auto simp: counter_sign_def digest mk Let_def split: sum.split_asm)
  obtain k where k: "mk = Some k"
    using assms by (auto simp: counter_sign_def digest mk au Let_def split: option.split_asm)
  obtain st where st: "build_signed_statement digest (ce_witness env) (stamp (ce_now env)) anchor = Inr st"
    using assms by (auto simp: counter_sign_def digest mk au k Let_def split: sum.split_asm)
  obtain msg where msg: "cs_canonicalize env (JObj st) = Inr msg"
    using assms by (auto simp: counter_sign_def digest mk au k st Let_def split: sum.split_asm)
  have id: "cso_operation_id (new_operation env a tid rid digest mk d) = cs_new_id env d" for mk
    by (simp add: new_operation_def)
  obtain sig ref where sig: "provider_sign (ce_client env) (csk_provider_key_ref k) msg (cs_new_id env d) = Inr (sig, ref)"
    using assms by (auto simp: counter_sign_def digest mk au k st msg id Let_def split: sum.split_asm)
  obtain art' where art: "build_countersignature_artifact digest (ce_witness env) (stamp (ce_now env)) anchor (csk_key_id k) sig = Inr art'"
    using assms by (auto simp: counter_sign_def digest mk au k st msg sig id Let_def split: sum.split_asm)
  show ?thesis
    by (rule that[OF digest _ au st msg sig])
       (use assms art in \<open>auto simp: counter_sign_def digest mk au k st msg sig id Let_def\<close>)
qed

text \<open>The statement a verifier rebuilds from an artifact: the context in front, contract and signature left out.\<close>

definition statement_of :: "string \<Rightarrow> dict \<Rightarrow> dict" where
  "statement_of ctx art = (''context'', JStr ctx) # filter (\<lambda>p. fst p \<notin> {''contract'', ''signature''}) art"

lemma artifact_statement:
  assumes "build_signed_statement digest w t anchor = Inr st"
    "build_countersignature_artifact digest w t anchor kid sig = Inr art"
  shows "statement_of ''actenon.receipt-countersignature.v1'' art = st" "jget art ''signature'' = signature_object kid sig"
proof -
  obtain dg ww where "validate_digest digest = Inr dg" "validate_witness w = Inr ww"
    using assms(1) by (auto simp: build_signed_statement_def split: sum.split_asm)
  then show "statement_of ''actenon.receipt-countersignature.v1'' art = st" "jget art ''signature'' = signature_object kid sig"
    using assms
    by (auto simp: build_signed_statement_def build_countersignature_artifact_def with_anchor_def statement_of_def
        jget_def split: option.split_asm sum.split_asm)
qed

lemma sign_managed_success:
  assumes "sign_managed env permission name validate failure st a token d = Inr (kid, sig, ref)"
  obtains k v msg where "authorize_service_permission a permission name = Inr ()" "active_key d = Inr (Some k)"
    "kid = csk_key_id k" "validate st = Inr v" "cs_canonicalize env (JObj v) = Inr msg"
    "provider_sign (ce_client env) (csk_provider_key_ref k) msg token = Inr (sig, ref)"
proof -
  have au: "authorize_service_permission a permission name = Inr ()"
    using assms by (auto simp: sign_managed_def split: sum.split_asm)
  obtain k where k: "active_key d = Inr (Some k)"
    using assms by (auto simp: sign_managed_def au split: sum.split_asm option.split_asm)
  obtain v where v: "validate st = Inr v"
    using assms by (auto simp: sign_managed_def au k split: sum.split_asm)
  obtain msg where msg: "cs_canonicalize env (JObj v) = Inr msg"
    using assms by (auto simp: sign_managed_def au k v split: sum.split_asm)
  have "provider_sign (ce_client env) (csk_provider_key_ref k) msg token = Inr (sig, ref)" "kid = csk_key_id k"
    using assms by (auto simp: sign_managed_def au k v msg split: sum.split_asm)
  then show ?thesis using that[OF au k _ v msg] by blast
qed

lemma canonicalize_Inr: "cs_canonicalize env v = Inr msg \<longleftrightarrow> ce_jcs env v = Some msg"
  by (auto simp: cs_canonicalize_def split: option.splits)

lemma checkpoint_context:
  assumes "validate_checkpoint_statement st w = Inr v"
  shows "v = st" "jget st ''context'' = JStr ''actenon.transparency-checkpoint.v1''"
proof -
  show "v = st" "jget st ''context'' = JStr ''actenon.transparency-checkpoint.v1''"
    using assms by (auto simp: validate_checkpoint_statement_def split: if_split_asm json.split_asm sum.split_asm)
qed

lemma issuer_status_context:
  assumes "validate_issuer_status_statement st w = Inr v"
  shows "jget v ''context'' = JStr ''actenon.issuer-status.v1''"
proof -
  have "\<exists>rest. v = (''context'', JStr ''actenon.issuer-status.v1'') # rest"
    using assms unfolding validate_issuer_status_statement_def Let_def
    by (auto split: if_split_asm sum.split_asm prod.split_asm json.split_asm)
  then show ?thesis by (auto simp: jget_def)
qed

lemma signed_statement_context:
  "build_signed_statement digest w t anchor = Inr st \<Longrightarrow>
   jget st ''context'' = JStr ''actenon.receipt-countersignature.v1''"
  by (auto simp: build_signed_statement_def with_anchor_def jget_def split: sum.split_asm option.split_asm)

text \<open>
  A registry that has keys but no active one stays so: provisioning needs an empty registry and
  rotation an active key.
\<close>

definition dead :: "cs_db \<Rightarrow> bool" where
  "dead d \<longleftrightarrow> cs_keys d \<noteq> [] \<and> active_keys d = []"

lemma dead_active_key: "dead d \<Longrightarrow> active_key d = Inr None"
  by (simp add: dead_def active_key_def)

lemma dead_refused: "dead d \<Longrightarrow> lifecycle_refused d d' \<Longrightarrow> dead d'"
  by (auto simp: dead_def lifecycle_refused_def active_keys_def)

lemma dead_revoked: "dead d \<Longrightarrow> lifecycle_done env au (tmodify csk_key_id kid (revoke_row_cs e r)) d d' \<Longrightarrow> dead d'"
  by (auto simp: dead_def lifecycle_done_def active_keys_def filter_empty_conv tmodify_def)

lemma dead_initial: "dead d \<Longrightarrow> \<exists>e. provision_initial_key env kid au expires md d = (Inl e, d)"
  by (simp add: dead_def provision_initial_key_def)

lemma dead_rotate: "dead d \<Longrightarrow> \<exists>e. rotate_key env kid au expires md d = (Inl e, d)"
  by (simp add: dead_active_key rotate_key_def)

lemma dead_step:
  assumes "cs_step d d'" "dead d"
  shows "dead d'"
  using assms(1)
proof (cases rule: cs_step.cases)
  case (cs_sign env0 env v a tid rid anchor)
  then obtain ops n where "d' = d\<lparr>cs_operations := ops, cs_next_uuid := n\<rparr>"
    using counter_sign_frame by (metis prod.collapse)
  then show ?thesis using assms(2) by (simp add: dead_def active_keys_def)
next
  case (cs_provision env0 env kid au expires md)
  then show ?thesis using dead_initial[OF assms(2)] assms(2) by (metis snd_conv)
next
  case (cs_rotate env0 env kid au expires md)
  then show ?thesis using dead_rotate[OF assms(2)] assms(2) by (metis snd_conv)
next
  case (cs_revoke env0 env kid reason au)
  obtain res where "revoke_key env kid reason au d = (res, d')" using cs_revoke(1) by (metis prod.collapse)
  then show ?thesis by (cases rule: revoke_key_cases) (use dead_refused dead_revoked assms(2) in blast)+
qed

lemma dead_forever: "cs_step\<^sup>*\<^sup>* d d' \<Longrightarrow> dead d \<Longrightarrow> dead d'"
  by (induction rule: rtranclp_induct) (auto intro: dead_step)

lemma dead_cannot_sign:
  assumes "dead d"
  shows "\<exists>e. fst (counter_sign env v a tid rid anchor d) = Inl e"
    "\<exists>e. sign_transparency_checkpoint env st a token d = Inl e" "\<exists>e. sign_issuer_status env st a token d = Inl e"
  by (auto simp: counter_sign_def sign_transparency_checkpoint_def sign_issuer_status_def sign_managed_def Let_def
      dead_active_key[OF assms] split: sum.split)

section \<open>A sample service\<close>

definition sample_jcs :: "json \<Rightarrow> bytes option" where
  "sample_jcs v = (case v of
     JObj m \<Rightarrow> (case jget m ''context'' of JStr s \<Rightarrow> Some (CHR ''{'' # s) | JNull \<Rightarrow> Some ''null'' | _ \<Rightarrow> None)
   | _ \<Rightarrow> None)"

definition sample_client :: hsm_client where
  "sample_client = \<lparr>hc_create = (\<lambda>kid tok. Inr \<lparr>kd_key_id = kid, kd_provider_key_ref = ''hsm/'' @ kid,
       kd_public_key_jwk = [(''kty'', JStr ''OKP''), (''crv'', JStr ''Ed25519''),
         (''x'', JStr (b64url_encode (replicate 32 (CHR ''k''))))],
       kd_provider_operation_ref = ''op'', kd_provider_attestation_ref = None, kd_non_exportable = True\<rparr>),
     hc_sign = (\<lambda>ref msg tok. Inr (replicate 64 (CHR ''s''), ''op'')), hc_disable = (\<lambda>ref reason tok. Inr ''op'')\<rparr>"

definition sample_cs_env :: cs_env where
  "sample_cs_env = \<lparr>ce_now = 0, ce_uuid = sample_uuid, ce_sha = (\<lambda>bs. replicate 32 (CHR ''h'')), ce_jcs = sample_jcs,
     ce_client = sample_client, ce_write_ok = (\<lambda>_. True), ce_stamp = (\<lambda>_. ''t''),
     ce_witness = [(''type'', JStr ''witness''), (''id'', JStr ''actenon'')], ce_origin = ''https://w'',
     ce_min_approvals = 2, ce_cache_max_age = 300\<rparr>"

definition sample_person :: "ident \<Rightarrow> cs_principal" where
  "sample_person pid = \<lparr>pn_principal_type = ''user'', pn_principal_id = pid,
     pn_permissions = [''counter_signature.keys.approve'', ''counter_signature.keys.provision'',
       ''counter_signature.keys.rotate'', ''counter_signature.keys.revoke'']\<rparr>"

definition sample_authorization :: lifecycle_authorization where
  "sample_authorization = \<lparr>la_requester = sample_person ''alice'',
     la_approvers = [sample_person ''bob'', sample_person ''carol'']\<rparr>"

definition sample_service :: cs_principal where
  "sample_service = \<lparr>pn_principal_type = ''service'', pn_principal_id = ''signer'',
     pn_permissions = [''counter_signature.sign'', ''transparency_log.checkpoint.sign'', ''issuer_status.sign'']\<rparr>"

definition sample_cs_key_db :: cs_db where
  "sample_cs_key_db = snd (provision_initial_key sample_cs_env ''k1'' sample_authorization (Some 5) [] empty_cs_db)"

definition sample_revoked_db :: cs_db where
  "sample_revoked_db = snd (revoke_key sample_cs_env ''k1'' ''compromised'' sample_authorization sample_cs_key_db)"

definition sample_receipt_v1 :: json where
  "sample_receipt_v1 = JObj [(''contract'', JObj [(''name'', JStr ''receipt''), (''version'', JStr ''v1'')])]"

definition sample_countersigned :: "(cs_error + dict \<times> cs_operation) \<times> cs_db" where
  "sample_countersigned = counter_sign sample_cs_env sample_receipt_v1 sample_service None None None sample_cs_key_db"

lemma sample_cs_configured: "configure_service sample_cs_env = Inr sample_cs_env"
  by (simp add: configure_service_def sample_cs_env_def starts_with_def validate_witness_def party_of_def
      non_empty_str_def jget_def)

lemma sample_cs_runs: "cs_reachable sample_cs_key_db" "cs_reachable sample_revoked_db"
proof -
  have "cs_step empty_cs_db sample_cs_key_db"
    unfolding sample_cs_key_db_def by (rule cs_provision[OF sample_cs_configured])
  moreover have "cs_step sample_cs_key_db sample_revoked_db"
    unfolding sample_revoked_db_def by (rule cs_revoke[OF sample_cs_configured])
  ultimately show "cs_reachable sample_cs_key_db" "cs_reachable sample_revoked_db"
    unfolding cs_reachable_def by auto
qed

lemma decode_base64url_encode: "decode_base64url (b64url_encode s) = Inr s"
proof -
  have "\<forall>x \<in> set (sextets (map of_char s)). x < 64" by (rule sextets_bound) auto
  then have "list_all (\<lambda>c. b64_value c \<noteq> None) (b64url_encode s)"
    by (auto simp: b64url_encode_def list_all_iff b64_value_char(1))
  then show ?thesis by (simp add: decode_base64url_def b64url_roundtrip)
qed

definition sample_descriptor :: "ident \<Rightarrow> key_descriptor" where
  "sample_descriptor kid = \<lparr>kd_key_id = kid, kd_provider_key_ref = ''hsm/'' @ kid,
       kd_public_key_jwk = [(''kty'', JStr ''OKP''), (''crv'', JStr ''Ed25519''),
         (''x'', JStr (b64url_encode (replicate 32 (CHR ''k''))))],
       kd_provider_operation_ref = ''op'', kd_provider_attestation_ref = None, kd_non_exportable = True\<rparr>"

lemma sample_provision: "provision_key sample_client kid tok = Inr (sample_descriptor kid)"
  by (simp add: provision_key_def sample_client_def validate_descriptor_def sample_descriptor_def Let_def
      has_private_fields_def private_jwk_fields_def absent_or_def jget_def decode_base64url_encode)

lemma sample_env_simps [simp]:
  "ce_client sample_cs_env = sample_client" "ce_now sample_cs_env = 0" "ce_min_approvals sample_cs_env = 2"
  "ce_jcs sample_cs_env = sample_jcs" "ce_write_ok sample_cs_env = (\<lambda>_. True)" "ce_stamp sample_cs_env = (\<lambda>_. ''t'')"
  by (simp_all add: sample_cs_env_def)

lemma sample_authorized:
  "permission \<in> set (pn_permissions (sample_person [])) \<Longrightarrow>
   authorize_lifecycle sample_cs_env sample_authorization permission = Inr ()"
  by (auto simp: authorize_lifecycle_def sample_authorization_def sample_person_def unique_approvers_def Let_def
      check_approver_def)

definition sample_key :: "ident \<Rightarrow> time option \<Rightarrow> cs_key" where
  "sample_key kid expires = (case key_from_descriptor sample_cs_env (sample_descriptor kid) expires [] of Inr k \<Rightarrow> k)"

lemma sample_key_row:
  "key_from_descriptor sample_cs_env (sample_descriptor kid) expires [] = Inr (sample_key kid expires)"
  by (simp add: sample_key_def key_from_descriptor_def sample_descriptor_def has_private_fields_def private_jwk_fields_def)

lemma sample_key_simps [simp]:
  "csk_key_id (sample_key kid expires) = kid" "csk_status (sample_key kid expires) = CK_active"
  "csk_provider_key_ref (sample_key kid expires) = ''hsm/'' @ kid" "csk_expires_at (sample_key kid expires) = expires"
  by (simp_all add: sample_key_def key_from_descriptor_def sample_descriptor_def has_private_fields_def private_jwk_fields_def)

lemma sample_publish:
  assumes "cs_keys d \<noteq> []" "v \<noteq> []" "CHR ''/'' \<notin> set v" "CHR 0x5C \<notin> set v"
  shows "\<exists>p vs c. publish_current_key_set sample_cs_env v d = (Inr p, d\<lparr>cs_versions := vs, cs_current := c\<rparr>)"
  using assms
  by (simp add: publish_current_key_set_def build_public_key_set_def publish_key_set_def cs_canonicalize_def
      sample_jcs_def jget_def Let_def) metis

lemma sample_provisioned:
  assumes kid: "key_id_ok kid" "kid \<notin> set (map csk_key_id (cs_keys d))" "''hsm/'' @ kid \<notin> set (map csk_provider_key_ref (cs_keys d))"
    "CHR ''/'' \<notin> set kid" "CHR 0x5C \<notin> set kid" "expires \<in> {None, Some 5}"
    and perm: "permission \<in> set (pn_permissions (sample_person []))" and act: "action \<noteq> LA_revoke"
  shows "\<exists>k d'. provision_and_publish sample_cs_env action kid sample_authorization permission prior expires [] d =
      (Inr k, d') \<and> k = sample_key kid expires"
proof -
  let ?l = "begin_lifecycle sample_cs_env action kid (map_option csk_key_id prior) sample_authorization d"
  let ?k = "sample_key kid expires"
  let ?d1 = "d\<lparr>cs_keys := tinsert ?k (retire_prior sample_cs_env prior (csk_key_id ?k) (cs_keys d))\<rparr>"
  let ?v = "publication_version sample_cs_env kid (lifecycle_action_value action)"
  have v: "?v \<noteq> []" "CHR ''/'' \<notin> set ?v" "CHR 0x5C \<notin> set ?v"
    using kid(4,5) act by (cases action; simp add: publication_version_def)+
  have "cs_keys ?d1 \<noteq> []" by (simp add: tinsert_def)
  from sample_publish[OF this v] obtain p vs c where
    pub: "publish_current_key_set sample_cs_env ?v ?d1 = (Inr p, ?d1\<lparr>cs_versions := vs, cs_current := c\<rparr>)" by blast
  have l: "csl_target_key_id ?l = kid" "csl_action ?l = action" by (simp_all add: begin_lifecycle_def)
  have exp: "\<not> (case expires of None \<Rightarrow> False | Some t \<Rightarrow> t \<le> ce_now sample_cs_env)" using kid(6) by auto
  have "\<exists>d'. provision_body sample_cs_env ?l prior expires [] d = (Inr ?k, d')"
    unfolding provision_body_def l sample_env_simps(1) sample_provision sum.case sample_key_row
    using exp kid(2,3) pub by (simp add: Let_def)
  then show ?thesis
    unfolding provision_and_publish_def Let_def sample_authorized[OF perm] by auto
qed

lemma sample_key_keys: "cs_keys sample_cs_key_db = [sample_key ''k1'' (Some 5)]"
  "map csl_status (cs_lifecycles sample_cs_key_db) = [LC_completed]"
proof -
  obtain d' where eq: "provision_and_publish sample_cs_env LA_provision ''k1'' sample_authorization
      ''counter_signature.keys.provision'' None (Some 5) [] empty_cs_db = (Inr (sample_key ''k1'' (Some 5)), d')"
    using sample_provisioned[of "''k1''" empty_cs_db "Some 5" "''counter_signature.keys.provision''" LA_provision None]
    by (auto simp: key_id_ok_def alnum_def sample_person_def empty_cs_db_def)
  then have d': "sample_cs_key_db = d'"
    by (simp add: sample_cs_key_db_def provision_initial_key_def key_id_ok_def alnum_def empty_cs_db_def)
  from eq show "cs_keys sample_cs_key_db = [sample_key ''k1'' (Some 5)]"
    "map csl_status (cs_lifecycles sample_cs_key_db) = [LC_completed]"
    unfolding d'
    by (cases rule: provision_and_publish_cases;
        auto simp: lifecycle_done_def tinsert_def retire_prior_def empty_cs_db_def)+
qed

lemma sample_revoked_keys: "map csk_status (cs_keys sample_revoked_db) = [CK_revoked]"
proof -
  let ?l = "begin_lifecycle sample_cs_env LA_revoke ''k1'' None sample_authorization sample_cs_key_db"
  let ?k = "sample_key ''k1'' (Some 5)"
  let ?d1 = "sample_cs_key_db\<lparr>cs_keys := tmodify csk_key_id ''k1'' (revoke_row_cs sample_cs_env ''compromised'') (cs_keys sample_cs_key_db)\<rparr>"
  let ?v = "publication_version sample_cs_env ''k1'' ''revoke''"
  have v: "?v \<noteq> []" "CHR ''/'' \<notin> set ?v" "CHR 0x5C \<notin> set ?v" by (simp_all add: publication_version_def)
  have "cs_keys ?d1 \<noteq> []" by (simp add: sample_key_keys)
  from sample_publish[OF this v] obtain p vs c where
    pub: "publish_current_key_set sample_cs_env ?v ?d1 = (Inr p, ?d1\<lparr>cs_versions := vs, cs_current := c\<rparr>)" by blast
  have au: "authorize_lifecycle sample_cs_env sample_authorization ''counter_signature.keys.revoke'' = Inr ()"
    by (rule sample_authorized) (simp add: sample_person_def)
  have dis: "provider_disable (ce_client sample_cs_env) r s t = Inr ''op''" for r s t
    by (simp add: provider_disable_def sample_client_def)
  have "\<exists>d'. revoke_body sample_cs_env ?l ''compromised'' ?k sample_cs_key_db = (Inr (revoke_row_cs sample_cs_env ''compromised'' ?k), d')"
    unfolding revoke_body_def dis sum.case sample_key_simps Let_def pub by simp
  then obtain d' where b: "revoke_body sample_cs_env ?l ''compromised'' ?k sample_cs_key_db =
      (Inr (revoke_row_cs sample_cs_env ''compromised'' ?k), d')" by blast
  have "strip ''compromised'' \<noteq> []" by code_simp
  then have eq: "revoke_key sample_cs_env ''k1'' ''compromised'' sample_authorization sample_cs_key_db =
      (Inr (revoke_row_cs sample_cs_env ''compromised'' ?k), d')"
    unfolding revoke_key_def sample_key_keys using au b by (simp add: Let_def)
  then have d': "sample_revoked_db = d'" by (simp add: sample_revoked_db_def)
  from eq show ?thesis
    unfolding d' by (cases rule: revoke_key_cases) (auto simp: lifecycle_done_def sample_key_keys)
qed

section \<open>Properties\<close>



text \<open>
  C34. No change of keys by one person. In every state calls can lead to, each completed
  provisioning, rotation or revocation was requested by a human and names at least two different
  approvers, none of whom is the requester.
\<close>

theorem key_changes_independently_approved:
  assumes "cs_reachable d" "l \<in> set (cs_lifecycles d)" "csl_status l = LC_completed"
  shows "fst (csl_requester l) = ''user'' \<and> 2 \<le> card (set (csl_approver_principal_ids l)) \<and>
    snd (csl_requester l) \<notin> set (csl_approver_principal_ids l)"
  using cs_reachable_inv[OF assms(1)] assms(2,3) unfolding cs_inv_def independently_approved_def by blast

theorem key_changes_independently_approved_witness:
  "\<exists>l \<in> set (cs_lifecycles sample_cs_key_db). 2 \<le> card (set (csl_approver_principal_ids l))"
proof -
  obtain l where l: "l \<in> set (cs_lifecycles sample_cs_key_db)" "csl_status l = LC_completed"
    using sample_key_keys(2) by (auto simp: map_eq_Cons_conv)
  with key_changes_independently_approved[OF sample_cs_runs(1) l] show ?thesis by blast
qed

text \<open>
  C33. A countersignature can be checked. When counter-signing returns an artifact, the caller was
  the service identity with the permission, and the provider signed, with the one active key, exactly
  the canonical form of the statement a verifier rebuilds from the artifact; the signature member
  decodes to that signature and names that key; the operation is recorded as completed with the
  digest of what was signed.
\<close>

theorem countersignature_verifiable:
  assumes "counter_sign env v a tid rid anchor d = (Inr (art, op), d')"
  shows "pn_principal_type a = ''service'' \<and> ''counter_signature.sign'' \<in> set (pn_permissions a) \<and>
    (\<exists>k msg sig ref. active_keys d = [k] \<and>
       ce_jcs env (JObj (statement_of ''actenon.receipt-countersignature.v1'' art)) = Some msg \<and>
       provider_sign (ce_client env) (csk_provider_key_ref k) msg (cs_new_id env d) = Inr (sig, ref) \<and>
       jget art ''signature'' = signature_object (csk_key_id k) sig \<and> b64url_decode (b64url_encode sig) = Some sig \<and>
       length sig = 64 \<and> cso_signing_input_digest op = Some (sha256_hex env msg)) \<and>
    cso_status op = CO_completed \<and> cs_operations d' = cs_operations d @ [op] \<and> cs_keys d' = cs_keys d"
  using assms
proof (cases rule: counter_sign_success)
  case (1 digest k st msg sig ref)
  have "authorize_service_permission a ''counter_signature.sign'' ''counter-signing'' = Inr ()" using 1(3) by simp
  then have "pn_principal_type a = ''service''" "''counter_signature.sign'' \<in> set (pn_permissions a)"
    by (simp_all add: authorized_service)
  then show ?thesis
    using 1 artifact_statement[OF 1(4,7)] active_key_Some[OF 1(2)] provider_sign_length[OF 1(6)]
    by (auto simp: canonicalize_Inr b64url_roundtrip add_operation_def cs_used_id_def tinsert_def)
qed

lemma sample_countersigned_ok: "\<exists>art op. fst sample_countersigned = Inr (art, op)"
proof -
  have "provider_sign sample_client r (CHR ''{'' # m) t = Inr (replicate 64 (CHR ''s''), ''op'')" for r m t
    by (simp add: provider_sign_def sample_client_def)
  moreover have "active_key sample_cs_key_db = Inr (Some (sample_key ''k1'' (Some 5)))"
    by (simp add: active_key_def active_keys_def sample_key_keys)
  moreover have "hex_256 (hex_of (replicate 32 (CHR ''h'')))" by (rule hex_256_of) simp
  ultimately show ?thesis
    by (simp add: sample_countersigned_def counter_sign_def sample_receipt_v1_def resolve_receipt_digest_def keys_of_def
        receipt_contract_ok_def cs_canonicalize_def sample_jcs_def jget_def sha256_hex_def authorize_service_permission_def
        sample_service_def build_signed_statement_def validate_digest_def validate_witness_def party_of_def
        non_empty_str_def with_anchor_def build_countersignature_artifact_def Let_def sample_cs_env_def)
qed

theorem countersignature_verifiable_witness:
  "\<exists>op. cs_operations (snd sample_countersigned) = cs_operations sample_cs_key_db @ [op] \<and> cso_status op = CO_completed"
proof -
  obtain art op where "fst sample_countersigned = Inr (art, op)" using sample_countersigned_ok by blast
  then have "counter_sign sample_cs_env sample_receipt_v1 sample_service None None None sample_cs_key_db =
      (Inr (art, op), snd sample_countersigned)" by (simp add: prod_eq_iff flip: sample_countersigned_def)
  from countersignature_verifiable[OF this] show ?thesis by blast
qed

text \<open>
  C35. Revoking the last active key is final. From a state with keys none of which is active, which
  the revocation of the active key leads to, every later state still has none: initial provisioning
  and rotation are refused without a change, and counter-signing, checkpoint signing and
  issuer-status signing fail whatever they are given.
\<close>

theorem revoked_registry_dead_end:
  assumes "cs_keys d \<noteq> []" "active_keys d = []" "cs_step\<^sup>*\<^sup>* d d'"
  shows "active_keys d' = [] \<and>
    (\<exists>e. provision_initial_key env kid au expires md d' = (Inl e, d')) \<and>
    (\<exists>e. rotate_key env kid au expires md d' = (Inl e, d')) \<and>
    (\<exists>e. fst (counter_sign env v a tid rid anchor d') = Inl e) \<and>
    (\<exists>e. sign_transparency_checkpoint env st a token d' = Inl e) \<and>
    (\<exists>e. sign_issuer_status env st a token d' = Inl e)"
proof -
  have dead: "dead d'" using dead_forever[OF assms(3)] assms(1,2) by (simp add: dead_def)
  show ?thesis
    by (intro conjI dead_initial[OF dead] dead_rotate[OF dead] dead_cannot_sign[OF dead])
      (use dead in \<open>simp add: dead_def\<close>)
qed

theorem revoked_registry_dead_end_witness:
  "cs_reachable sample_revoked_db \<and>
   (\<exists>e. rotate_key sample_cs_env ''k2'' sample_authorization None [] sample_revoked_db = (Inl e, sample_revoked_db))"
proof -
  obtain k where "cs_keys sample_revoked_db = [k]" "csk_status k = CK_revoked"
    using sample_revoked_keys by (auto simp: map_eq_Cons_conv)
  then have "cs_keys sample_revoked_db \<noteq> []" "active_keys sample_revoked_db = []"
    by (simp_all add: active_keys_def)
  from revoked_registry_dead_end[OF this rtranclp.rtrancl_refl] show ?thesis using sample_cs_runs(2) by blast
qed

text \<open>
  One key, three uses, no confusion. When the canonical form of an object determines its
  \<open>context\<close> member, what the provider is asked to sign for a receipt, for a checkpoint and for an
  issuer status are three different messages, so a signature made for one use is never a signature
  of the message of another.
\<close>

theorem signatures_domain_separated:
  assumes "\<forall>m n bs. ce_jcs env (JObj m) = Some bs \<longrightarrow> ce_jcs env (JObj n) = Some bs \<longrightarrow>
      jget m ''context'' = jget n ''context''"
    and "counter_sign env v a tid rid anchor d = (Inr (art, op), d')"
    and "sign_transparency_checkpoint env cp b token d1 = Inr (kid1, sig1, ref1)"
    and "sign_issuer_status env st c token' d2 = Inr (kid2, sig2, ref2)"
  shows "\<exists>m0 m1 m2 norm k k1 k2 sig ref. distinct [m0, m1, m2] \<and>
    ce_jcs env (JObj (statement_of ''actenon.receipt-countersignature.v1'' art)) = Some m0 \<and>
    provider_sign (ce_client env) (csk_provider_key_ref k) m0 (cs_new_id env d) = Inr (sig, ref) \<and> active_keys d = [k] \<and>
    ce_jcs env (JObj cp) = Some m1 \<and>
    provider_sign (ce_client env) (csk_provider_key_ref k1) m1 token = Inr (sig1, ref1) \<and> active_keys d1 = [k1] \<and>
    validate_issuer_status_statement st (ce_witness env) = Inr norm \<and> ce_jcs env (JObj norm) = Some m2 \<and>
    provider_sign (ce_client env) (csk_provider_key_ref k2) m2 token' = Inr (sig2, ref2) \<and> active_keys d2 = [k2]"
proof -
  obtain digest k s0 m0 sig ref where r: "active_key d = Inr (Some k)"
    "build_signed_statement digest (ce_witness env) (stamp (ce_now env)) anchor = Inr s0" "ce_jcs env (JObj s0) = Some m0"
    "provider_sign (ce_client env) (csk_provider_key_ref k) m0 (cs_new_id env d) = Inr (sig, ref)"
    "statement_of ''actenon.receipt-countersignature.v1'' art = s0"
    using assms(2)
  proof (cases rule: counter_sign_success)
    case (1 digest k st msg sig ref)
    show ?thesis
      by (rule that[OF 1(2,4) _ 1(6) artifact_statement(1)[OF 1(4,7)]]) (use 1(5) in \<open>simp add: canonicalize_Inr\<close>)
  qed
  obtain k1 v1 m1 where t: "active_key d1 = Inr (Some k1)" "validate_checkpoint_statement cp (ce_witness env) = Inr v1"
    "ce_jcs env (JObj v1) = Some m1" "provider_sign (ce_client env) (csk_provider_key_ref k1) m1 token = Inr (sig1, ref1)"
    using assms(3)[unfolded sign_transparency_checkpoint_def]
    by (cases rule: sign_managed_success) (auto simp: canonicalize_Inr map_sum_def split: sum.split_asm)
  obtain k2 v2 m2 where i: "active_key d2 = Inr (Some k2)" "validate_issuer_status_statement st (ce_witness env) = Inr v2"
    "ce_jcs env (JObj v2) = Some m2" "provider_sign (ce_client env) (csk_provider_key_ref k2) m2 token' = Inr (sig2, ref2)"
    using assms(4)[unfolded sign_issuer_status_def]
    by (cases rule: sign_managed_success) (auto simp: canonicalize_Inr)
  have "distinct [m0, m1, m2]"
    using assms(1)[rule_format, OF r(3), of v1] assms(1)[rule_format, OF r(3), of v2]
      assms(1)[rule_format, OF t(3), of v2] t(3) i(3)
      signed_statement_context[OF r(2)] checkpoint_context[OF t(2)] issuer_status_context[OF i(2)] by auto
  then show ?thesis
    using r t i checkpoint_context(1)[OF t(2)] active_key_Some[OF r(1)] active_key_Some[OF t(1)] active_key_Some[OF i(1)]
    by blast
qed

lemma sample_provider_sign:
  "provider_sign sample_client r (c # m) t = Inr (replicate 64 (CHR ''s''), ''op'')"
  by (simp add: provider_sign_def sample_client_def)

lemma sample_active: "active_key sample_cs_key_db = Inr (Some (sample_key ''k1'' (Some 5)))"
  by (simp add: active_key_def active_keys_def sample_key_keys)

definition sample_checkpoint :: dict where
  "sample_checkpoint = [(''context'', JStr ''actenon.transparency-checkpoint.v1''), (''log'', JObj (ce_witness sample_cs_env)),
     (''tree_size'', JInt 0), (''root_hash'', JObj [(''algorithm'', JStr ''sha-256''), (''encoding'', JStr ''hex''),
       (''value'', JStr (hex_of (replicate 32 (CHR ''h''))))]), (''issued_at'', JInt 0)]"

definition sample_issuer_status :: dict where
  "sample_issuer_status = [(''context'', JStr ''actenon.issuer-status.v1''), (''issuer'', JObj (ce_witness sample_cs_env)),
     (''authority'', JObj (ce_witness sample_cs_env)), (''status'', JStr ''revoked''), (''issued_at'', JInt 0),
     (''expires_at'', JInt 300)]"

lemma sample_managed_signatures:
  "\<exists>k s r. sign_transparency_checkpoint sample_cs_env sample_checkpoint sample_service ''t'' sample_cs_key_db = Inr (k, s, r)"
  "\<exists>k s r. sign_issuer_status sample_cs_env sample_issuer_status sample_service ''t'' sample_cs_key_db = Inr (k, s, r)"
proof -
  have "hex_256 (hex_of (replicate 32 (CHR ''h'')))" by (rule hex_256_of) simp
  then have "validate_checkpoint_statement sample_checkpoint (ce_witness sample_cs_env) = Inr sample_checkpoint"
    by (simp add: validate_checkpoint_statement_def sample_checkpoint_def keys_of_def jget_def sample_cs_env_def
        validate_log_identity_def non_empty_str_def)
  then show "\<exists>k s r. sign_transparency_checkpoint sample_cs_env sample_checkpoint sample_service ''t'' sample_cs_key_db = Inr (k, s, r)"
    by (simp add: sign_transparency_checkpoint_def sign_managed_def authorize_service_permission_def sample_service_def
        sample_active cs_canonicalize_def sample_jcs_def sample_provider_sign, simp add: sample_checkpoint_def jget_def sample_provider_sign)
  show "\<exists>k s r. sign_issuer_status sample_cs_env sample_issuer_status sample_service ''t'' sample_cs_key_db = Inr (k, s, r)"
    by (simp add: sign_issuer_status_def sign_managed_def authorize_service_permission_def sample_service_def
        sample_active validate_issuer_status_statement_def sample_issuer_status_def keys_of_def issuer_status_fields_def
        jget_def validate_party_def party_of_def sample_cs_env_def non_empty_str_def issuer_standings_def Let_def
        cs_canonicalize_def sample_jcs_def sample_provider_sign)
qed

theorem signatures_domain_separated_witness:
  "\<exists>m0 m1 m2 :: bytes. distinct [m0, m1, m2] \<and> sample_jcs (JObj sample_checkpoint) = Some m1"
proof -
  have jcs: "\<forall>m n bs. ce_jcs sample_cs_env (JObj m) = Some bs \<longrightarrow> ce_jcs sample_cs_env (JObj n) = Some bs \<longrightarrow>
      jget m ''context'' = jget n ''context''"
    by (auto simp: sample_jcs_def split: json.splits)
  obtain art op where "fst sample_countersigned = Inr (art, op)" using sample_countersigned_ok by blast
  then have cs: "counter_sign sample_cs_env sample_receipt_v1 sample_service None None None sample_cs_key_db =
      (Inr (art, op), snd sample_countersigned)" by (simp add: prod_eq_iff flip: sample_countersigned_def)
  obtain k s r where cp: "sign_transparency_checkpoint sample_cs_env sample_checkpoint sample_service ''t'' sample_cs_key_db = Inr (k, s, r)"
    using sample_managed_signatures(1) by blast
  obtain k2 s2 r2 where st: "sign_issuer_status sample_cs_env sample_issuer_status sample_service ''t'' sample_cs_key_db = Inr (k2, s2, r2)"
    using sample_managed_signatures(2) by blast
  obtain m0 m1 m2 where "distinct [m0, m1, m2]" "ce_jcs sample_cs_env (JObj sample_checkpoint) = Some m1"
    using signatures_domain_separated[OF jcs cs cp st] by blast
  then show ?thesis by auto
qed

end
