(* ===== verification/IssuerRegistry.thy ===== *)
theory IssuerRegistry
  imports CountersigningProtocol Commitments
begin

text \<open>
  \<open>src/app/services/issuer_registry.py\<close> with \<open>models/issuer_registry.py\<close>: the registry of issuers,
  their standing and the signed status artifacts the public reads. A publication commits its request,
  is signed without the lock of the issuer, and takes the lock again before it completes; other calls
  may run between. The sessions keep their objects across a commit, so what is signed is the row as
  the request saw it.
\<close>

section \<open>Rows and errors\<close>

datatype issuer_standing = IS_good_standing | IS_suspended | IS_revoked

fun standing_value :: "issuer_standing \<Rightarrow> string" where
  "standing_value IS_good_standing = ''good_standing''"
| "standing_value IS_suspended = ''suspended''"
| "standing_value IS_revoked = ''revoked''"

datatype issuer_publication_status = IP_requested | IP_completed | IP_failed

datatype ir_error =
    IssuerRegistryAuthorizationError string
  | IssuerRegistryConflictError string
  | IssuerRegistryConfigurationError string
  | IssuerRegistryNotFoundError string
  | IssuerRegistryStateError string
  | IrForeignError cs_error
  | IrValueError string

fun ir_error_class :: "ir_error \<Rightarrow> string" where
  "ir_error_class (IssuerRegistryAuthorizationError m) = ''IssuerRegistryAuthorizationError''"
| "ir_error_class (IssuerRegistryConflictError m) = ''IssuerRegistryConflictError''"
| "ir_error_class (IssuerRegistryConfigurationError m) = ''IssuerRegistryConfigurationError''"
| "ir_error_class (IssuerRegistryNotFoundError m) = ''IssuerRegistryNotFoundError''"
| "ir_error_class (IssuerRegistryStateError m) = ''IssuerRegistryStateError''"
| "ir_error_class (IrForeignError e) = cs_error_class e"
| "ir_error_class (IrValueError m) = ''ValueError''"

fun ir_error_text :: "ir_error \<Rightarrow> string" where
  "ir_error_text (IssuerRegistryAuthorizationError m) = m"
| "ir_error_text (IssuerRegistryConflictError m) = m"
| "ir_error_text (IssuerRegistryConfigurationError m) = m"
| "ir_error_text (IssuerRegistryNotFoundError m) = m"
| "ir_error_text (IssuerRegistryStateError m) = m"
| "ir_error_text (IrForeignError e) = cs_error_text e"
| "ir_error_text (IrValueError m) = m"

record issuer_record =
  isr_registry_id :: ident
  isr_issuer_type :: string
  isr_issuer_id :: string
  isr_display_name :: "string option"
  isr_standing :: issuer_standing
  isr_standing_reason :: string
  isr_status_version :: int
  isr_registry_metadata :: dict
  isr_registered_at :: time
  isr_standing_changed_at :: time
  isr_revoked_at :: "time option"

definition issuer_identity :: "issuer_record \<Rightarrow> dict" where
  "issuer_identity r = [(''type'', JStr (isr_issuer_type r)), (''id'', JStr (isr_issuer_id r))] @
     (case isr_display_name r of None \<Rightarrow> [] | Some n \<Rightarrow> [(''display_name'', JStr n)])"

record issuer_publication =
  isp_publication_id :: ident
  isp_issuer_registry_id :: ident
  isp_status_version :: int
  isp_standing :: issuer_standing
  isp_status :: issuer_publication_status
  isp_status_reference :: string
  isp_key_id :: "ident option"
  isp_signing_input_digest :: "string option"
  isp_provider_operation_ref :: "string option"
  isp_status_artifact :: "dict option"
  isp_actor :: "string \<times> ident"
  isp_issued_at :: "time option"
  isp_expires_at :: "time option"
  isp_max_staleness_seconds :: int
  isp_error_code :: "string option"
  isp_error_detail :: "string option"
  isp_completed_at :: "time option"

record issuer_event =
  ise_event_id :: ident
  ise_issuer_registry_id :: ident
  ise_event_type :: string
  ise_actor :: "string \<times> ident"
  ise_reason :: string
  ise_prior_state :: "dict option"
  ise_resulting_state :: dict
  ise_details :: dict
  ise_created_at :: time

record ir_db =
  ir_issuers :: "issuer_record list"
  ir_publications :: "issuer_publication list"
  ir_events :: "issuer_event list"
  ir_next_uuid :: nat

text \<open>The actor has the shape of a principal of the counter-signing service.\<close>

type_synonym ir_actor = cs_principal

text \<open>
  \<open>ie_cs\<close> holds the canonicalisation and the digest; \<open>ie_signer\<close> is the status signer, absent where
  none is configured.
\<close>

record ir_env =
  ie_clock :: time
  ie_uuid :: "nat \<Rightarrow> ident"
  ie_cs :: cs_env
  ie_signer :: "(dict \<Rightarrow> ident \<Rightarrow> cs_error + ident \<times> bytes \<times> string) option"
  ie_authority :: dict
  ie_artifact_ttl_seconds :: int
  ie_max_staleness_seconds :: int

section \<open>Operations\<close>

text \<open>\<open>CounterSigningIssuerStatusSigner\<close>.\<close>

definition counter_signing_issuer_status_signer ::
  "cs_env \<Rightarrow> cs_db \<Rightarrow> cs_principal \<Rightarrow> dict \<Rightarrow> ident \<Rightarrow> cs_error + ident \<times> bytes \<times> string" where
  "counter_signing_issuer_status_signer env cd authority st token = sign_issuer_status env st authority token cd"

text \<open>The constructor.\<close>

definition configure_registry :: "ir_env \<Rightarrow> ir_error + ir_env" where
  "configure_registry env =
     (if ie_artifact_ttl_seconds env \<le> 0
      then Inl (IssuerRegistryConfigurationError ''issuer-status artifact TTL must be positive'')
      else if ie_max_staleness_seconds env \<le> 0
      then Inl (IssuerRegistryConfigurationError ''issuer-status max staleness must be positive'')
      else if ie_artifact_ttl_seconds env > ie_max_staleness_seconds env
      then Inl (IssuerRegistryConfigurationError ''issuer-status artifact TTL must not exceed max staleness'')
      else (case validate_party ''status_authority'' (JObj (ie_authority env)) of
              Inl e \<Rightarrow> Inl (IrForeignError e)
            | Inr a \<Rightarrow> Inr (env\<lparr>ie_authority := a\<rparr>)))"

definition ir_now :: "ir_env \<Rightarrow> time" where
  "ir_now env = ie_clock env div 1000000 * 1000000"

definition ir_authorize :: "ir_actor \<Rightarrow> string \<Rightarrow> ir_error + unit" where
  "ir_authorize a permission =
     (if permission \<notin> set (pn_permissions a)
      then Inl (IssuerRegistryAuthorizationError (''principal lacks '' @ permission)) else Inr ())"

definition state_snapshot :: "issuer_record \<Rightarrow> dict" where
  "state_snapshot r = [(''issuer'', JObj (issuer_identity r)), (''standing'', JStr (standing_value (isr_standing r))),
     (''standing_reason'', JStr (isr_standing_reason r)), (''status_version'', JInt (isr_status_version r))]"

definition ir_add_audit_event ::
  "ir_env \<Rightarrow> issuer_record \<Rightarrow> string \<Rightarrow> ir_actor \<Rightarrow> string \<Rightarrow> dict option \<Rightarrow> dict \<Rightarrow> dict \<Rightarrow> ir_db \<Rightarrow> ir_db" where
  "ir_add_audit_event env r typ_name a reason prior resulting details d =
     d\<lparr>ir_events := tinsert \<lparr>ise_event_id = ie_uuid env (ir_next_uuid d), ise_issuer_registry_id = isr_registry_id r,
          ise_event_type = typ_name, ise_actor = (pn_principal_type a, pn_principal_id a), ise_reason = reason,
          ise_prior_state = prior, ise_resulting_state = resulting, ise_details = details,
          ise_created_at = ir_now env\<rparr> (ir_events d),
       ir_next_uuid := Suc (ir_next_uuid d)\<rparr>"

definition find_by_identity :: "string \<Rightarrow> string \<Rightarrow> ir_db \<Rightarrow> issuer_record option" where
  "find_by_identity t i d = List.find (\<lambda>r. isr_issuer_type r = t \<and> isr_issuer_id r = i) (ir_issuers d)"

definition issuer_not_found :: ir_error where
  "issuer_not_found = IssuerRegistryNotFoundError ''issuer was not found''"

definition locked_record :: "ident \<Rightarrow> ir_db \<Rightarrow> ir_error + issuer_record" where
  "locked_record rid d = (case tget isr_registry_id rid (ir_issuers d) of None \<Rightarrow> Inl issuer_not_found | Some r \<Rightarrow> Inr r)"

definition locked_by_identity :: "string \<Rightarrow> string \<Rightarrow> ir_db \<Rightarrow> ir_error + issuer_record" where
  "locked_by_identity t i d = (case find_by_identity t i d of None \<Rightarrow> Inl issuer_not_found | Some r \<Rightarrow> Inr r)"

definition text_of :: "json \<Rightarrow> string" where
  "text_of v = (case v of JStr s \<Rightarrow> s | _ \<Rightarrow> [])"

definition register_issuer ::
  "ir_env \<Rightarrow> json \<Rightarrow> ir_actor \<Rightarrow> dict \<Rightarrow> ir_db \<Rightarrow> (ir_error + issuer_record) \<times> ir_db" where
  "register_issuer env ident a metadata d =
     (case ir_authorize a ''issuer_registry.register'' of
        Inl e \<Rightarrow> (Inl e, d)
      | Inr _ \<Rightarrow>
     (case validate_party ''issuer'' ident of
        Inl e \<Rightarrow> (Inl (IrForeignError e), d)
      | Inr p \<Rightarrow>
          if find_by_identity (text_of (jget p ''type'')) (text_of (jget p ''id'')) d \<noteq> None
          then (Inl (IssuerRegistryConflictError ''issuer is already registered''), d)
          else let r = \<lparr>isr_registry_id = ie_uuid env (ir_next_uuid d), isr_issuer_type = text_of (jget p ''type''),
                        isr_issuer_id = text_of (jget p ''id''),
                        isr_display_name = (if jget p ''display_name'' = JNull then None
                                            else Some (text_of (jget p ''display_name''))),
                        isr_standing = IS_good_standing, isr_standing_reason = ''registered in good standing'',
                        isr_status_version = 1, isr_registry_metadata = metadata, isr_registered_at = ir_now env,
                        isr_standing_changed_at = ir_now env, isr_revoked_at = None\<rparr>
               in (Inr r, ir_add_audit_event env r ''issuer.registered'' a (isr_standing_reason r) None (state_snapshot r) []
                     (d\<lparr>ir_issuers := tinsert r (ir_issuers d), ir_next_uuid := Suc (ir_next_uuid d)\<rparr>))))"

definition changed_standing :: "ir_env \<Rightarrow> issuer_standing \<Rightarrow> string \<Rightarrow> issuer_record \<Rightarrow> issuer_record" where
  "changed_standing env target reason r =
     r\<lparr>isr_standing := target, isr_standing_reason := strip reason, isr_status_version := isr_status_version r + 1,
       isr_standing_changed_at := ir_now env,
       isr_revoked_at := (if target = IS_revoked then Some (ir_now env) else isr_revoked_at r)\<rparr>"

definition change_standing ::
  "ir_env \<Rightarrow> ident \<Rightarrow> issuer_standing \<Rightarrow> string \<Rightarrow> ir_actor \<Rightarrow> string \<Rightarrow> ir_db \<Rightarrow> (ir_error + issuer_record) \<times> ir_db" where
  "change_standing env rid target reason a permission d =
     (case ir_authorize a permission of
        Inl e \<Rightarrow> (Inl e, d)
      | Inr _ \<Rightarrow>
          if strip reason = [] then (Inl (IssuerRegistryStateError ''issuer standing changes require a reason''), d)
          else (case locked_record rid d of
                  Inl e \<Rightarrow> (Inl e, d)
                | Inr r \<Rightarrow>
                    if isr_standing r = IS_revoked \<and> target \<noteq> IS_revoked
                    then (Inl (IssuerRegistryStateError ''a revoked issuer cannot transition to another standing''), d)
                    else if isr_standing r = target then (Inr r, d)
                    else let r' = changed_standing env target reason r
                         in (Inr r', ir_add_audit_event env r' (''issuer.'' @ standing_value target) a (strip reason)
                               (Some (state_snapshot r)) (state_snapshot r') []
                               (d\<lparr>ir_issuers := tmodify isr_registry_id rid (changed_standing env target reason) (ir_issuers d)\<rparr>))))"

definition suspend_issuer ::
  "ir_env \<Rightarrow> ident \<Rightarrow> string \<Rightarrow> ir_actor \<Rightarrow> ir_db \<Rightarrow> (ir_error + issuer_record) \<times> ir_db" where
  "suspend_issuer env rid reason a = change_standing env rid IS_suspended reason a ''issuer_registry.status.manage''"

definition reinstate_issuer ::
  "ir_env \<Rightarrow> ident \<Rightarrow> string \<Rightarrow> ir_actor \<Rightarrow> ir_db \<Rightarrow> (ir_error + issuer_record) \<times> ir_db" where
  "reinstate_issuer env rid reason a d =
     (case locked_record rid d of
        Inl e \<Rightarrow> (Inl e, d)
      | Inr r \<Rightarrow>
          if isr_standing r = IS_revoked
          then (Inl (IssuerRegistryStateError
                  ''a revoked issuer cannot be reinstated; register a new issuer identity''), d)
          else change_standing env rid IS_good_standing reason a ''issuer_registry.status.manage'' d)"

section \<open>Publication\<close>

text \<open>What \<open>publish_status\<close> keeps between its first commit and its end.\<close>

record pending_publication =
  pp_issuer :: issuer_record
  pp_publication :: issuer_publication
  pp_actor :: ir_actor

text \<open>Up to the first commit.\<close>

definition begin_publication ::
  "ir_env \<Rightarrow> ident \<Rightarrow> ir_actor \<Rightarrow> ir_db \<Rightarrow> (ir_error + pending_publication) \<times> ir_db" where
  "begin_publication env rid a d =
     (case ir_authorize a ''issuer_registry.status.publish'' of
        Inl e \<Rightarrow> (Inl e, d)
      | Inr _ \<Rightarrow>
     (if ie_signer env = None
      then (Inl (IssuerRegistryConfigurationError ''issuer-status signer is not configured''), d)
      else (case locked_record rid d of
              Inl e \<Rightarrow> (Inl e, d)
            | Inr r \<Rightarrow>
                let pid = ie_uuid env (ir_next_uuid d);
                    p = \<lparr>isp_publication_id = pid, isp_issuer_registry_id = isr_registry_id r,
                         isp_status_version = isr_status_version r, isp_standing = isr_standing r,
                         isp_status = IP_requested,
                         isp_status_reference = ''issuer-status:'' @ isr_registry_id r @ '':v'' @
                           int_str (isr_status_version r) @ '':'' @ pid,
                         isp_key_id = None, isp_signing_input_digest = None, isp_provider_operation_ref = None,
                         isp_status_artifact = None, isp_actor = (pn_principal_type a, pn_principal_id a),
                         isp_issued_at = None, isp_expires_at = None,
                         isp_max_staleness_seconds = ie_max_staleness_seconds env, isp_error_code = None,
                         isp_error_detail = None, isp_completed_at = None\<rparr>
                in (Inr \<lparr>pp_issuer = r, pp_publication = p, pp_actor = a\<rparr>,
                    d\<lparr>ir_publications := tinsert p (ir_publications d), ir_next_uuid := Suc (ir_next_uuid d)\<rparr>))))"

definition expiry_of :: "ir_env \<Rightarrow> time \<Rightarrow> time" where
  "expiry_of env issued = issued + ie_artifact_ttl_seconds env * 1000000"

definition status_statement :: "ir_env \<Rightarrow> time \<Rightarrow> pending_publication \<Rightarrow> cs_error + dict" where
  "status_statement env issued pp =
     build_issuer_status_statement (issuer_identity (pp_issuer pp)) (ie_authority env)
       (standing_value (isr_standing (pp_issuer pp))) issued (expiry_of env issued)
       (Some (isp_status_reference (pp_publication pp)))"

text \<open>
  The body of the \<open>try\<close>: the signature, the locked comparison with the current row and the artifact;
  with an error, the row whose state the failure event shows.
\<close>

definition sign_and_compare ::
  "ir_env \<Rightarrow> dict \<Rightarrow> pending_publication \<Rightarrow> ir_db \<Rightarrow>
   (ir_error \<times> issuer_record) + (dict \<times> (ident \<times> bytes \<times> string) \<times> issuer_record)" where
  "sign_and_compare env st pp d =
     (case ie_signer env of
        None \<Rightarrow> Inl (IrForeignError (CsPyException ''AttributeError''), pp_issuer pp)
      | Some signer \<Rightarrow>
     (case signer st (isp_publication_id (pp_publication pp)) of
        Inl e \<Rightarrow> Inl (IrForeignError e, pp_issuer pp)
      | Inr (kid, sig, ref) \<Rightarrow>
     (case locked_record (isr_registry_id (pp_issuer pp)) d of
        Inl e \<Rightarrow> Inl (e, pp_issuer pp)
      | Inr current \<Rightarrow>
          if isr_status_version current \<noteq> isp_status_version (pp_publication pp) \<or>
             isr_standing current \<noteq> isp_standing (pp_publication pp)
          then Inl (IssuerRegistryStateError ''issuer standing changed during publication; discard and retry'', current)
          else (case build_issuer_status_artifact st kid sig of
                  Inl e \<Rightarrow> Inl (IrForeignError e, current)
                | Inr art \<Rightarrow> Inr (art, (kid, sig, ref), current)))))"

definition failed_publication :: "ir_env \<Rightarrow> string \<Rightarrow> ir_error \<Rightarrow> issuer_publication \<Rightarrow> issuer_publication" where
  "failed_publication env digest e p = p\<lparr>isp_status := IP_failed, isp_signing_input_digest := Some digest,
     isp_error_code := Some (ir_error_class e), isp_error_detail := Some (ir_error_text e),
     isp_completed_at := Some (ir_now env)\<rparr>"

definition completed_publication ::
  "ir_env \<Rightarrow> time \<Rightarrow> string \<Rightarrow> dict \<Rightarrow> ident \<Rightarrow> string \<Rightarrow> issuer_publication \<Rightarrow> issuer_publication" where
  "completed_publication env issued digest art kid ref p = p\<lparr>isp_status := IP_completed, isp_key_id := Some kid,
     isp_signing_input_digest := Some digest, isp_provider_operation_ref := Some ref, isp_status_artifact := Some art,
     isp_issued_at := Some issued, isp_expires_at := Some (expiry_of env issued), isp_completed_at := Some (ir_now env)\<rparr>"

fun failed_closed :: "ir_error \<Rightarrow> ir_error" where
  "failed_closed (IrForeignError e) = IssuerRegistryConfigurationError ''issuer-status publication failed closed''"
| "failed_closed (IrValueError m) = IssuerRegistryConfigurationError ''issuer-status publication failed closed''"
| "failed_closed e = e"

text \<open>
  From the statement to the last commit. An exception of the statement or of its canonicalisation
  leaves the request as it is.
\<close>

definition finish_publication ::
  "ir_env \<Rightarrow> time \<Rightarrow> pending_publication \<Rightarrow> ir_db \<Rightarrow> (ir_error + dict \<times> issuer_publication) \<times> ir_db" where
  "finish_publication env issued pp d =
     (case status_statement env issued pp of
        Inl e \<Rightarrow> (Inl (IrForeignError e), d)
      | Inr st \<Rightarrow>
     (case cs_canonicalize (ie_cs env) (JObj st) of
        Inl e \<Rightarrow> (Inl (IrForeignError e), d)
      | Inr bs \<Rightarrow>
          let p = pp_publication pp; pid = isp_publication_id p; digest = sha256_hex (ie_cs env) bs
          in (case sign_and_compare env st pp d of
                Inl (e, row) \<Rightarrow>
                  (Inl (failed_closed e),
                   ir_add_audit_event env row ''issuer.status_publication_failed'' (pp_actor pp) (ir_error_text e) None
                     (state_snapshot row) [(''publication_id'', JStr pid), (''status_version'', JInt (isp_status_version p))]
                     (d\<lparr>ir_publications := tmodify isp_publication_id pid (failed_publication env digest e) (ir_publications d)\<rparr>))
              | Inr (art, (kid, sig, ref), row) \<Rightarrow>
                  (Inr (art, completed_publication env issued digest art kid ref p),
                   ir_add_audit_event env row ''issuer.status_published'' (pp_actor pp) (isr_standing_reason row) None
                     (state_snapshot row) [(''publication_id'', JStr pid), (''status_version'', JInt (isp_status_version p)),
                       (''key_id'', JStr kid), (''expires_at'', jget art ''expires_at'')]
                     (d\<lparr>ir_publications := tmodify isp_publication_id pid
                          (completed_publication env issued digest art kid ref) (ir_publications d)\<rparr>)))))"

text \<open>The call where nothing runs between its two parts.\<close>

definition publish_status ::
  "ir_env \<Rightarrow> ident \<Rightarrow> ir_actor \<Rightarrow> ir_db \<Rightarrow> (ir_error + dict \<times> issuer_publication) \<times> ir_db" where
  "publish_status env rid a d =
     (case begin_publication env rid a d of
        (Inl e, d1) \<Rightarrow> (Inl e, d1)
      | (Inr pp, d1) \<Rightarrow> finish_publication env (ir_now env) pp d1)"

definition revoke_issuer ::
  "ir_env \<Rightarrow> ident \<Rightarrow> string \<Rightarrow> ir_actor \<Rightarrow> ir_db \<Rightarrow> (ir_error + issuer_record \<times> dict \<times> issuer_publication) \<times> ir_db" where
  "revoke_issuer env rid reason a d =
     (case change_standing env rid IS_revoked reason a ''issuer_registry.revoke'' d of
        (Inl e, d1) \<Rightarrow> (Inl e, d1)
      | (Inr r, d1) \<Rightarrow>
          (case publish_status env rid a d1 of
             (Inl e, d2) \<Rightarrow> (Inl e, d2)
           | (Inr (art, p), d2) \<Rightarrow> (Inr (r, art, p), d2)))"

section \<open>Reading\<close>

definition get_issuer :: "ident \<Rightarrow> ir_db \<Rightarrow> ir_error + issuer_record" where
  "get_issuer rid d = (case tget isr_registry_id rid (ir_issuers d) of None \<Rightarrow> Inl issuer_not_found | Some r \<Rightarrow> Inr r)"

definition find_issuer :: "string \<Rightarrow> string \<Rightarrow> ir_db \<Rightarrow> ir_error + issuer_record" where
  "find_issuer t i d = (case find_by_identity t i d of None \<Rightarrow> Inl issuer_not_found | Some r \<Rightarrow> Inr r)"

definition list_issuers :: "ir_db \<Rightarrow> issuer_record list" where
  "list_issuers d = sort_key (\<lambda>r. (isr_registered_at r, isr_registry_id r)) (ir_issuers d)"

definition current_publications :: "issuer_record \<Rightarrow> ir_db \<Rightarrow> issuer_publication list" where
  "current_publications r d = [p \<leftarrow> ir_publications d. isp_issuer_registry_id p = isr_registry_id r \<and>
     isp_status_version p = isr_status_version r \<and> isp_status p = IP_completed]"

definition completed_key :: "issuer_publication \<Rightarrow> int" where
  "completed_key p = (case isp_completed_at p of None \<Rightarrow> 0 | Some t \<Rightarrow> - t)"

definition status_issuer :: "ident option \<Rightarrow> string option \<Rightarrow> string option \<Rightarrow> ir_db \<Rightarrow> ir_error + issuer_record" where
  "status_issuer rid t i d =
     (case (rid, t, i) of
        (Some r, _, _) \<Rightarrow> locked_record r d
      | (None, Some t', Some i') \<Rightarrow> locked_by_identity t' i' d
      | _ \<Rightarrow> Inl (IrValueError ''registry_id or both issuer_type and issuer_id are required''))"

definition latest_status_artifact ::
  "ir_env \<Rightarrow> ident option \<Rightarrow> string option \<Rightarrow> string option \<Rightarrow> ir_db \<Rightarrow> ir_error + dict" where
  "latest_status_artifact env rid t i d =
     (case status_issuer rid t i d of
        Inl e \<Rightarrow> Inl e
      | Inr r \<Rightarrow>
          (case sort_key completed_key (current_publications r d) of
             [] \<Rightarrow> Inl (IssuerRegistryConfigurationError ''no current signed issuer-status artifact is available'')
           | p # _ \<Rightarrow>
               (case (isp_status_artifact p, isp_expires_at p) of
                  (Some art, Some x) \<Rightarrow>
                    if x \<le> ir_now env
                    then Inl (IssuerRegistryConfigurationError ''the current issuer-status artifact has expired'')
                    else Inr art
                | _ \<Rightarrow> Inl (IssuerRegistryConfigurationError ''no current signed issuer-status artifact is available''))))"

definition list_registry_events :: "ident \<Rightarrow> ir_db \<Rightarrow> ir_error + issuer_event list" where
  "list_registry_events rid d =
     (case get_issuer rid d of
        Inl e \<Rightarrow> Inl e
      | Inr _ \<Rightarrow> Inr (sort_key ise_created_at [e \<leftarrow> ir_events d. ise_issuer_registry_id e = rid]))"

section \<open>Interleaved calls\<close>

text \<open>
  A state is the tables and the publications that have committed their request and not yet ended. A
  revocation is its change of standing followed by a publication; the other calls are one step. A
  publication is ended by the service that began it, with the staleness bound it recorded then and a
  time of issue in whole seconds; it may also never end, when its process dies. The calls draw
  identifiers from one stream.
\<close>

type_synonym ir_state = "ir_db \<times> pending_publication list"

definition registry_service :: "(nat \<Rightarrow> ident) \<Rightarrow> ir_env \<Rightarrow> bool" where
  "registry_service u env \<longleftrightarrow> ie_uuid env = u \<and> (\<exists>env0. configure_registry env0 = Inr env)"

inductive ir_step :: "(nat \<Rightarrow> ident) \<Rightarrow> ir_state \<Rightarrow> ir_state \<Rightarrow> bool" for u where
  ir_register: "registry_service u env \<Longrightarrow> ir_step u (d, ps) (snd (register_issuer env ident a md d), ps)"
| ir_suspend: "registry_service u env \<Longrightarrow> ir_step u (d, ps) (snd (suspend_issuer env rid reason a d), ps)"
| ir_reinstate: "registry_service u env \<Longrightarrow> ir_step u (d, ps) (snd (reinstate_issuer env rid reason a d), ps)"
| ir_revoke: "registry_service u env \<Longrightarrow>
    ir_step u (d, ps) (snd (change_standing env rid IS_revoked reason a ''issuer_registry.revoke'' d), ps)"
| ir_begin: "registry_service u env \<Longrightarrow> begin_publication env rid a d = (Inr pp, d') \<Longrightarrow>
    ir_step u (d, ps) (d', pp # ps)"
| ir_finish: "registry_service u env \<Longrightarrow> pp \<in> set ps \<Longrightarrow> 1000000 dvd issued \<Longrightarrow>
    ie_max_staleness_seconds env = isp_max_staleness_seconds (pp_publication pp) \<Longrightarrow>
    ir_step u (d, ps) (snd (finish_publication env issued pp d), remove1 pp ps)"

definition empty_ir_db :: ir_db where
  "empty_ir_db = \<lparr>ir_issuers = [], ir_publications = [], ir_events = [], ir_next_uuid = 0\<rparr>"

definition ir_reachable :: "(nat \<Rightarrow> ident) \<Rightarrow> ir_state \<Rightarrow> bool" where
  "ir_reachable u s \<longleftrightarrow> (ir_step u)\<^sup>*\<^sup>* (empty_ir_db, []) s"

end
