(* ===== verification/IssuerStanding.thy ===== *)
theory IssuerStanding
  imports IssuerRegistry
begin

text \<open>
  What the issuer registry guarantees: rows only move forward and revocation is final, the audit
  events replay the standing of every issuer, and an artifact the public reads states the standing
  the issuer has at that moment, however publications and changes of standing interleave.
\<close>

section \<open>Rows move forward\<close>

definition row_le :: "issuer_record \<Rightarrow> issuer_record \<Rightarrow> bool" where
  "row_le r r' \<longleftrightarrow> isr_registry_id r' = isr_registry_id r \<and> isr_issuer_type r' = isr_issuer_type r \<and>
     isr_issuer_id r' = isr_issuer_id r \<and> isr_display_name r' = isr_display_name r \<and>
     (r' = r \<or> isr_status_version r < isr_status_version r' \<and> isr_standing r \<noteq> IS_revoked)"

definition rows_le :: "ir_db \<Rightarrow> ir_db \<Rightarrow> bool" where
  "rows_le d d' \<longleftrightarrow> (\<forall>r \<in> set (ir_issuers d). \<exists>r' \<in> set (ir_issuers d'). row_le r r')"

lemma row_le_refl [simp]: "row_le r r"
  by (simp add: row_le_def)

lemma row_le_trans: "row_le r r' \<Longrightarrow> row_le r' r'' \<Longrightarrow> row_le r r''"
  by (auto simp: row_le_def)

lemma rows_le_trans: "rows_le d d' \<Longrightarrow> rows_le d' d'' \<Longrightarrow> rows_le d d''"
  unfolding rows_le_def by (meson row_le_trans)

lemma rows_le_same: "ir_issuers d' = ir_issuers d \<Longrightarrow> rows_le d d'"
  unfolding rows_le_def by (metis row_le_refl)

lemma row_le_identity: "row_le r r' \<Longrightarrow> issuer_identity r' = issuer_identity r"
  by (auto simp: row_le_def issuer_identity_def)

section \<open>Effects of the calls\<close>

definition standing_event :: "issuer_event \<Rightarrow> bool" where
  "standing_event e \<longleftrightarrow> ise_event_type e \<in>
     {''issuer.registered'', ''issuer.good_standing'', ''issuer.suspended'', ''issuer.revoked''}"

lemma validate_party_shape:
  assumes "validate_party field v = Inr p"
  obtains t i n where "t \<noteq> []" "i \<noteq> []" "n \<noteq> Some []" "p = [(''type'', JStr t), (''id'', JStr i)] @
      (case n of None \<Rightarrow> [] | Some x \<Rightarrow> [(''display_name'', JStr x)])"
proof -
  obtain m where m: "v = JObj m" "party_of IssuerStatusFormatError field m = Inr p"
    using assms by (auto simp: validate_party_def split: json.split_asm)
  then have ok: "non_empty_str (jget m ''type'')" "non_empty_str (jget m ''id'')"
    "jget m ''display_name'' = JNull \<or> non_empty_str (jget m ''display_name'')"
    and p: "p = [(''type'', jget m ''type''), (''id'', jget m ''id'')] @
      (if jget m ''display_name'' \<noteq> JNull then [(''display_name'', jget m ''display_name'')] else [])"
    by (auto simp: party_of_def split: if_split_asm)
  obtain t where t: "jget m ''type'' = JStr t" "t \<noteq> []" using ok(1) by (auto simp: non_empty_str_def split: json.split_asm)
  obtain i where i: "jget m ''id'' = JStr i" "i \<noteq> []" using ok(2) by (auto simp: non_empty_str_def split: json.split_asm)
  show ?thesis
  proof (cases "jget m ''display_name'' = JNull")
    case True
    then show ?thesis using that[of t i None] t i p by simp
  next
    case False
    then obtain n where "jget m ''display_name'' = JStr n" "n \<noteq> []"
      using ok(3) by (auto simp: non_empty_str_def split: json.split_asm)
    then show ?thesis using that[of t i "Some n"] t i p by simp
  qed
qed

lemma validate_party_fixed:
  assumes "t \<noteq> []" "i \<noteq> []" "n \<noteq> Some []" "p = [(''type'', JStr t), (''id'', JStr i)] @
      (case n of None \<Rightarrow> [] | Some x \<Rightarrow> [(''display_name'', JStr x)])"
  shows "validate_party field (JObj p) = Inr p"
  using assms(1-3) by (auto simp: assms(4) validate_party_def party_of_def jget_def non_empty_str_def split: option.split)

lemma register_issuer_cases:
  assumes "register_issuer env ident a md d = (res, d')"
  obtains e where "res = Inl e" "d' = d"
  | r e where "res = Inr r" "d' = d\<lparr>ir_issuers := ir_issuers d @ [r], ir_events := ir_events d @ [e],
        ir_next_uuid := Suc (Suc (ir_next_uuid d))\<rparr>"
      "''issuer_registry.register'' \<in> set (pn_permissions a)"
      "isr_registry_id r = ie_uuid env (ir_next_uuid d)" "isr_standing r = IS_good_standing" "isr_status_version r = 1"
      "find_by_identity (isr_issuer_type r) (isr_issuer_id r) d = None"
      "validate_party ''issuer'' ident = Inr (issuer_identity r)" "isr_issuer_type r \<noteq> []" "isr_issuer_id r \<noteq> []"
      "isr_display_name r \<noteq> Some []"
      "standing_event e" "ise_issuer_registry_id e = isr_registry_id r" "ise_prior_state e = None"
      "ise_resulting_state e = state_snapshot r"
proof (cases "\<exists>e. res = Inl e \<and> d' = d")
  case True
  then show ?thesis using that(1) by blast
next
  case False
  then have au: "ir_authorize a ''issuer_registry.register'' = Inr ()"
    using assms by (auto simp: register_issuer_def split: sum.split_asm)
  then obtain p where p: "validate_party ''issuer'' ident = Inr p"
    using assms False by (auto simp: register_issuer_def split: sum.split_asm)
  then have free: "find_by_identity (text_of (jget p ''type'')) (text_of (jget p ''id'')) d = None"
    using assms False au by (auto simp: register_issuer_def split: if_split_asm)
  obtain t i n where shape: "t \<noteq> []" "i \<noteq> []" "n \<noteq> Some []" "p = [(''type'', JStr t), (''id'', JStr i)] @
      (case n of None \<Rightarrow> [] | Some x \<Rightarrow> [(''display_name'', JStr x)])"
    using p validate_party_shape by blast
  have perm: "''issuer_registry.register'' \<in> set (pn_permissions a)"
    using au by (auto simp: ir_authorize_def split: if_split_asm)
  have vals: "text_of (jget p ''type'') = t" "text_of (jget p ''id'') = i"
    "(if jget p ''display_name'' = JNull then None else Some (text_of (jget p ''display_name''))) = n"
    by (auto simp: shape(4) jget_def text_of_def split: option.split)
  define r where "r = \<lparr>isr_registry_id = ie_uuid env (ir_next_uuid d), isr_issuer_type = t, isr_issuer_id = i,
    isr_display_name = n, isr_standing = IS_good_standing, isr_standing_reason = ''registered in good standing'',
    isr_status_version = 1, isr_registry_metadata = md, isr_registered_at = ir_now env,
    isr_standing_changed_at = ir_now env, isr_revoked_at = None\<rparr>"
  have id: "issuer_identity r = p" by (simp add: r_def issuer_identity_def shape(4))
  have eq: "res = Inr r" "d' = ir_add_audit_event env r ''issuer.registered'' a (isr_standing_reason r) None (state_snapshot r) []
      (d\<lparr>ir_issuers := tinsert r (ir_issuers d), ir_next_uuid := Suc (ir_next_uuid d)\<rparr>)"
    using assms au p free unfolding register_issuer_def vals by (simp_all add: Let_def vals r_def)
  define e where "e = \<lparr>ise_event_id = ie_uuid env (Suc (ir_next_uuid d)), ise_issuer_registry_id = isr_registry_id r,
    ise_event_type = ''issuer.registered'', ise_actor = (pn_principal_type a, pn_principal_id a),
    ise_reason = isr_standing_reason r, ise_prior_state = None, ise_resulting_state = state_snapshot r, ise_details = [],
    ise_created_at = ir_now env\<rparr>"
  have d': "d' = d\<lparr>ir_issuers := ir_issuers d @ [r], ir_events := ir_events d @ [e], ir_next_uuid := Suc (Suc (ir_next_uuid d))\<rparr>"
    by (simp add: eq(2) ir_add_audit_event_def tinsert_def e_def)
  have e: "standing_event e" "ise_issuer_registry_id e = isr_registry_id r" "ise_prior_state e = None"
      "ise_resulting_state e = state_snapshot r"
    by (simp_all add: e_def standing_event_def)
  show ?thesis
    by (rule that(2)[OF eq(1) d' perm _ _ _ _ _ _ _ _ e]) (use free p shape(1-3) in \<open>simp_all add: vals id, simp_all add: r_def\<close>)
qed

lemma change_standing_cases:
  assumes "change_standing env rid target reason a permission d = (res, d')"
  obtains e where "res = Inl e" "d' = d"
  | r where "res = Inr r" "d' = d" "tget isr_registry_id rid (ir_issuers d) = Some r" "isr_standing r = target"
      "permission \<in> set (pn_permissions a)"
  | r e where "res = Inr (changed_standing env target reason r)"
      "d' = d\<lparr>ir_issuers := tmodify isr_registry_id rid (changed_standing env target reason) (ir_issuers d),
        ir_events := ir_events d @ [e], ir_next_uuid := Suc (ir_next_uuid d)\<rparr>"
      "tget isr_registry_id rid (ir_issuers d) = Some r" "isr_standing r \<noteq> IS_revoked" "isr_standing r \<noteq> target"
      "strip reason \<noteq> []" "permission \<in> set (pn_permissions a)"
      "standing_event e" "ise_issuer_registry_id e = rid" "ise_prior_state e = Some (state_snapshot r)"
      "ise_resulting_state e = state_snapshot (changed_standing env target reason r)"
proof (cases "\<exists>e. res = Inl e \<and> d' = d")
  case True
  then show ?thesis using that(1) by blast
next
  case False
  then have au: "ir_authorize a permission = Inr ()"
    using assms by (auto simp: change_standing_def split: sum.split_asm)
  then have perm: "permission \<in> set (pn_permissions a)"
    by (auto simp: ir_authorize_def split: if_split_asm)
  have reason: "strip reason \<noteq> []"
    using assms False au by (auto simp: change_standing_def)
  then obtain r where r: "tget isr_registry_id rid (ir_issuers d) = Some r"
    using assms False au by (auto simp: change_standing_def locked_record_def split: option.split_asm)
  have nr: "\<not> (isr_standing r = IS_revoked \<and> target \<noteq> IS_revoked)"
    using assms False au reason r by (auto simp: change_standing_def locked_record_def split: if_split_asm)
  show ?thesis
  proof (cases "isr_standing r = target")
    case True
    then show ?thesis
      using that(2)[of r] assms au reason r nr perm by (simp add: change_standing_def locked_record_def)
  next
    case diff: False
    have std: "''issuer.'' @ standing_value target \<in>
        {''issuer.registered'', ''issuer.good_standing'', ''issuer.suspended'', ''issuer.revoked''}"
      by (cases target) simp_all
    have rid: "isr_registry_id (changed_standing env target reason r) = rid"
      using tgetD[OF r] by (simp add: changed_standing_def)
    have eq: "res = Inr (changed_standing env target reason r)"
      "d' = ir_add_audit_event env (changed_standing env target reason r) (''issuer.'' @ standing_value target) a
        (strip reason) (Some (state_snapshot r)) (state_snapshot (changed_standing env target reason r)) []
        (d\<lparr>ir_issuers := tmodify isr_registry_id rid (changed_standing env target reason) (ir_issuers d)\<rparr>)"
      using assms au reason r nr diff by (auto simp: change_standing_def locked_record_def Let_def)
    show ?thesis
      by (rule that(3)[OF eq(1) _ r _ diff reason perm])
         (use eq(2) nr diff std rid in \<open>auto simp: ir_add_audit_event_def tinsert_def standing_event_def\<close>)
  qed
qed


lemma begin_publication_cases:
  assumes "begin_publication env rid a d = (Inr pp, d')"
  obtains r p where "pp = \<lparr>pp_issuer = r, pp_publication = p, pp_actor = a\<rparr>"
    "tget isr_registry_id rid (ir_issuers d) = Some r"
    "d' = d\<lparr>ir_publications := ir_publications d @ [p], ir_next_uuid := Suc (ir_next_uuid d)\<rparr>"
    "isp_publication_id p = ie_uuid env (ir_next_uuid d)" "isp_issuer_registry_id p = isr_registry_id r"
    "isp_status_version p = isr_status_version r" "isp_standing p = isr_standing r" "isp_status p = IP_requested"
    "isp_max_staleness_seconds p = ie_max_staleness_seconds env" "isp_status_reference p \<noteq> []"
    "''issuer_registry.status.publish'' \<in> set (pn_permissions a)"
proof -
  have au: "ir_authorize a ''issuer_registry.status.publish'' = Inr ()"
    using assms by (auto simp: begin_publication_def split: sum.split_asm)
  have sg: "ie_signer env \<noteq> None"
    using assms au by (auto simp: begin_publication_def split: if_split_asm)
  obtain r where r: "tget isr_registry_id rid (ir_issuers d) = Some r"
    using assms au sg by (auto simp: begin_publication_def locked_record_def split: option.split_asm)
  have "''issuer_registry.status.publish'' \<in> set (pn_permissions a)"
    using au by (auto simp: ir_authorize_def split: if_split_asm)
  moreover have "pp_publication pp = p \<Longrightarrow> isp_status_reference p \<noteq> []" for p
    using assms au sg r by (auto simp: begin_publication_def locked_record_def Let_def)
  ultimately show ?thesis
    using that[of r "pp_publication pp"] assms au sg r
    by (auto simp: begin_publication_def locked_record_def Let_def tinsert_def)
qed

lemma add_event_quiet:
  assumes "t \<in> {''issuer.status_published'', ''issuer.status_publication_failed''}"
  shows "\<exists>ev. ir_add_audit_event env r t a reason prior res details d =
    d\<lparr>ir_events := ir_events d @ [ev], ir_next_uuid := Suc (ir_next_uuid d)\<rparr> \<and> \<not> standing_event ev"
  unfolding ir_add_audit_event_def tinsert_def
  by (rule exI, rule conjI, rule refl) (use assms in \<open>auto simp: standing_event_def\<close>)

text \<open>What a completed publication holds of the row it was begun with.\<close>

definition artifact_for :: "issuer_record \<Rightarrow> issuer_publication \<Rightarrow> bool" where
  "artifact_for r p \<longleftrightarrow> (\<exists>art t x. isp_status_artifact p = Some art \<and> isp_issued_at p = Some t \<and> isp_expires_at p = Some x \<and>
     jget art ''issuer'' = JObj (issuer_identity r) \<and> jget art ''status'' = JStr (standing_value (isp_standing p)) \<and>
     jget art ''issued_at'' = stamp t \<and> jget art ''expires_at'' = stamp x \<and> t < x \<and>
     x \<le> t + isp_max_staleness_seconds p * 1000000 \<and> 1000000 dvd t \<and> 1000000 dvd x)"

lemma status_statement_shape:
  assumes "status_statement env issued pp = Inr st"
  obtains i a where "st = [(''context'', JStr ''actenon.issuer-status.v1''), (''issuer'', JObj i),
       (''authority'', JObj a), (''status'', JStr (standing_value (isr_standing (pp_issuer pp)))),
       (''issued_at'', stamp issued), (''expires_at'', stamp (expiry_of env issued)),
       (''status_reference'', JStr (isp_status_reference (pp_publication pp)))]"
    "validate_party ''issuer'' (JObj (issuer_identity (pp_issuer pp))) = Inr i"
    "validate_party ''authority'' (JObj (ie_authority env)) = Inr a"
    "issued < expiry_of env issued" "isp_status_reference (pp_publication pp) \<noteq> []"
  using assms that
  by (auto simp: status_statement_def build_issuer_status_statement_def Let_def split: if_split_asm sum.split_asm)

lemma finish_publication_cases:
  assumes "finish_publication env issued pp d = (res, d')"
  obtains e where "res = Inl e" "d' = d"
  | e p' ev where "res = Inl e" "isp_status (p' (pp_publication pp)) = IP_failed"
      "\<And>p. isp_publication_id (p' p) = isp_publication_id p \<and> isp_issuer_registry_id (p' p) = isp_issuer_registry_id p \<and>
         isp_status_version (p' p) = isp_status_version p \<and> isp_standing (p' p) = isp_standing p \<and> isp_status (p' p) = IP_failed"
      "d' = d\<lparr>ir_publications := tmodify isp_publication_id (isp_publication_id (pp_publication pp)) p' (ir_publications d),
         ir_events := ir_events d @ [ev], ir_next_uuid := Suc (ir_next_uuid d)\<rparr>" "\<not> standing_event ev"
  | st art kid sig ref row digest ev where
      "res = Inr (art, completed_publication env issued digest art kid ref (pp_publication pp))"
      "status_statement env issued pp = Inr st" "build_issuer_status_artifact st kid sig = Inr art"
      "\<exists>signer. ie_signer env = Some signer \<and> signer st (isp_publication_id (pp_publication pp)) = Inr (kid, sig, ref)"
      "tget isr_registry_id (isr_registry_id (pp_issuer pp)) (ir_issuers d) = Some row"
      "isr_status_version row = isp_status_version (pp_publication pp)" "isr_standing row = isp_standing (pp_publication pp)"
      "d' = d\<lparr>ir_publications := tmodify isp_publication_id (isp_publication_id (pp_publication pp))
             (completed_publication env issued digest art kid ref) (ir_publications d),
           ir_events := ir_events d @ [ev], ir_next_uuid := Suc (ir_next_uuid d)\<rparr>" "\<not> standing_event ev"
      "\<exists>bs. ce_jcs (ie_cs env) (JObj st) = Some bs \<and> digest = sha256_hex (ie_cs env) bs"
proof (cases "\<exists>e. res = Inl e \<and> d' = d")
  case True
  then show ?thesis using that(1) by blast
next
  case False
  then obtain st where st: "status_statement env issued pp = Inr st"
    using assms by (auto simp: finish_publication_def split: sum.split_asm)
  then obtain bs where bs: "cs_canonicalize (ie_cs env) (JObj st) = Inr bs"
    using assms False by (auto simp: finish_publication_def split: sum.split_asm)
  let ?digest = "sha256_hex (ie_cs env) bs"
  show ?thesis
  proof (cases "sign_and_compare env st pp d")
    case (Inl f)
    obtain e row where f: "f = (e, row)" by force
    let ?d1 = "d\<lparr>ir_publications := tmodify isp_publication_id (isp_publication_id (pp_publication pp))
             (failed_publication env ?digest e) (ir_publications d)\<rparr>"
    have "\<exists>reason details. d' = ir_add_audit_event env row ''issuer.status_publication_failed'' (pp_actor pp) reason None
        (state_snapshot row) details ?d1"
      using assms st bs Inl f by (auto simp: finish_publication_def Let_def)
    then obtain ev where ev: "\<not> standing_event ev"
      "d' = ?d1\<lparr>ir_events := ir_events ?d1 @ [ev], ir_next_uuid := Suc (ir_next_uuid ?d1)\<rparr>"
      using add_event_quiet[of "''issuer.status_publication_failed''"] by blast
    have res: "res = Inl (failed_closed e)"
      using assms st bs Inl f by (auto simp: finish_publication_def Let_def)
    show ?thesis
      by (rule that(2)[OF res _ _ _ ev(1), of "failed_publication env ?digest e"])
         (use ev(2) in \<open>simp_all add: failed_publication_def\<close>)
  next
    case (Inr s)
    obtain art kid sig ref row where s: "s = (art, (kid, sig, ref), row)" by (metis prod_cases3)
    have sg: "\<exists>signer. ie_signer env = Some signer \<and> signer st (isp_publication_id (pp_publication pp)) = Inr (kid, sig, ref)"
      and art: "build_issuer_status_artifact st kid sig = Inr art"
      and row: "tget isr_registry_id (isr_registry_id (pp_issuer pp)) (ir_issuers d) = Some row"
        "isr_status_version row = isp_status_version (pp_publication pp)" "isr_standing row = isp_standing (pp_publication pp)"
      using Inr s
      by (auto simp: sign_and_compare_def locked_record_def split: option.split_asm sum.split_asm prod.split_asm if_split_asm)
    have res: "res = Inr (art, completed_publication env issued ?digest art kid ref (pp_publication pp))"
      using assms st bs Inr s by (auto simp: finish_publication_def Let_def)
    let ?d1 = "d\<lparr>ir_publications := tmodify isp_publication_id (isp_publication_id (pp_publication pp))
             (completed_publication env issued ?digest art kid ref) (ir_publications d)\<rparr>"
    have "\<exists>reason details. d' = ir_add_audit_event env row ''issuer.status_published'' (pp_actor pp) reason None
        (state_snapshot row) details ?d1"
      using assms st bs Inr s by (auto simp: finish_publication_def Let_def)
    then obtain ev where ev: "\<not> standing_event ev"
      "d' = ?d1\<lparr>ir_events := ir_events ?d1 @ [ev], ir_next_uuid := Suc (ir_next_uuid ?d1)\<rparr>"
      using add_event_quiet[of "''issuer.status_published''"] by blast
    show ?thesis
      by (rule that(3)[OF res st art sg row _ ev(1)]) (use bs ev(2) in \<open>auto simp: canonicalize_Inr\<close>)
  qed
qed

lemma completed_artifact_for:
  assumes "status_statement env issued pp = Inr st" "build_issuer_status_artifact st kid sig = Inr art"
    "isr_standing (pp_issuer pp) = isp_standing p" "issuer_identity (pp_issuer pp) = issuer_identity r"
    "isr_issuer_type r \<noteq> []" "isr_issuer_id r \<noteq> []" "isr_display_name r \<noteq> Some []"
    "ie_artifact_ttl_seconds env \<le> isp_max_staleness_seconds p" "1000000 dvd issued"
  shows "artifact_for r (completed_publication env issued digest art kid ref p)"
proof -
  obtain i a where st: "st = [(''context'', JStr ''actenon.issuer-status.v1''), (''issuer'', JObj i),
       (''authority'', JObj a), (''status'', JStr (standing_value (isr_standing (pp_issuer pp)))),
       (''issued_at'', stamp issued), (''expires_at'', stamp (expiry_of env issued)),
       (''status_reference'', JStr (isp_status_reference (pp_publication pp)))]"
    and i: "validate_party ''issuer'' (JObj (issuer_identity (pp_issuer pp))) = Inr i"
    and lt: "issued < expiry_of env issued"
    using status_statement_shape[OF assms(1)] by metis
  have "i = issuer_identity r"
    using i validate_party_fixed[OF assms(5,6,7) issuer_identity_def, of "''issuer''"] by (simp add: assms(4))
  then show ?thesis
    using assms(2,3,8,9) lt
    by (auto simp: artifact_for_def completed_publication_def build_issuer_status_artifact_def st jget_def expiry_of_def
        split: if_split_asm)
qed


section \<open>Moves of the registry\<close>

text \<open>The three ways in which a call on the registry itself can end.\<close>

inductive standing_move :: "(nat \<Rightarrow> ident) \<Rightarrow> ir_db \<Rightarrow> ir_db \<Rightarrow> bool" for u d where
  unchanged: "standing_move u d d"
| registered: "isr_registry_id r = u (ir_next_uuid d) \<Longrightarrow> isr_status_version r = 1 \<Longrightarrow>
    find_by_identity (isr_issuer_type r) (isr_issuer_id r) d = None \<Longrightarrow>
    isr_issuer_type r \<noteq> [] \<Longrightarrow> isr_issuer_id r \<noteq> [] \<Longrightarrow> isr_display_name r \<noteq> Some [] \<Longrightarrow>
    standing_event e \<Longrightarrow> ise_issuer_registry_id e = isr_registry_id r \<Longrightarrow> ise_prior_state e = None \<Longrightarrow>
    ise_resulting_state e = state_snapshot r \<Longrightarrow>
    standing_move u d (d\<lparr>ir_issuers := ir_issuers d @ [r], ir_events := ir_events d @ [e],
      ir_next_uuid := Suc (Suc (ir_next_uuid d))\<rparr>)"
| moved: "tget isr_registry_id rid (ir_issuers d) = Some r \<Longrightarrow> isr_standing r \<noteq> IS_revoked \<Longrightarrow> isr_standing r \<noteq> target \<Longrightarrow>
    standing_event e \<Longrightarrow> ise_issuer_registry_id e = rid \<Longrightarrow> ise_prior_state e = Some (state_snapshot r) \<Longrightarrow>
    ise_resulting_state e = state_snapshot (changed_standing env target reason r) \<Longrightarrow>
    standing_move u d (d\<lparr>ir_issuers := tmodify isr_registry_id rid (changed_standing env target reason) (ir_issuers d),
      ir_events := ir_events d @ [e], ir_next_uuid := Suc (ir_next_uuid d)\<rparr>)"

lemma register_issuer_move: "ie_uuid env = u \<Longrightarrow> standing_move u d (snd (register_issuer env ident a md d))"
proof -
  assume u: "ie_uuid env = u"
  obtain res d' where eq: "register_issuer env ident a md d = (res, d')" by force
  then show ?thesis
  proof (cases rule: register_issuer_cases)
    case (2 r e)
    have "isr_registry_id r = u (ir_next_uuid d)" using 2(4) u by simp
    from standing_move.registered[of r u d e, OF this 2(6,7,9-15)] show ?thesis by (simp add: eq 2(2))
  qed (simp add: eq standing_move.unchanged)
qed

lemma change_standing_move: "standing_move u d (snd (change_standing env rid target reason a permission d))"
proof -
  obtain res d' where eq: "change_standing env rid target reason a permission d = (res, d')" by force
  then show ?thesis
  proof (cases rule: change_standing_cases)
    case (3 r e)
    from standing_move.moved[OF 3(3-5,8-11)] show ?thesis by (simp add: eq 3(2))
  qed (simp_all add: eq standing_move.unchanged)
qed

lemma reinstate_issuer_move: "standing_move u d (snd (reinstate_issuer env rid reason a d))"
  by (auto simp: reinstate_issuer_def standing_move.unchanged change_standing_move split: sum.split)

lemma changed_standing_simps [simp]:
  "isr_registry_id (changed_standing env target reason r) = isr_registry_id r"
  "isr_issuer_type (changed_standing env target reason r) = isr_issuer_type r"
  "isr_issuer_id (changed_standing env target reason r) = isr_issuer_id r"
  "isr_display_name (changed_standing env target reason r) = isr_display_name r"
  "isr_status_version (changed_standing env target reason r) = isr_status_version r + 1"
  "isr_standing (changed_standing env target reason r) = target"
  by (simp_all add: changed_standing_def)

definition registry_inv :: "(nat \<Rightarrow> ident) \<Rightarrow> ir_db \<Rightarrow> bool" where
  "registry_inv u d \<longleftrightarrow> distinct (map isr_registry_id (ir_issuers d)) \<and>
     set (map isr_registry_id (ir_issuers d)) \<subseteq> u ` {..<ir_next_uuid d} \<and>
     distinct (map (\<lambda>r. (isr_issuer_type r, isr_issuer_id r)) (ir_issuers d)) \<and>
     (\<forall>r \<in> set (ir_issuers d). isr_issuer_type r \<noteq> [] \<and> isr_issuer_id r \<noteq> [] \<and> isr_display_name r \<noteq> Some [])"

lemma registry_inv_unique:
  "registry_inv u d \<Longrightarrow> r \<in> set (ir_issuers d) \<Longrightarrow> r' \<in> set (ir_issuers d) \<Longrightarrow> isr_registry_id r = isr_registry_id r' \<Longrightarrow> r = r'"
  unfolding registry_inv_def by (metis distinct_key_eq)

lemma fresh_id: "inj u \<Longrightarrow> S \<subseteq> u ` {..<n :: nat} \<Longrightarrow> u n \<notin> S"
  using inj_image_mem_iff[of u n "{..<n}"] by auto

lemma used_ids_mono: "S \<subseteq> u ` {..<n :: nat} \<Longrightarrow> n \<le> m \<Longrightarrow> S \<subseteq> u ` {..<m}"
  by (rule subset_trans[OF _ image_mono]) auto

lemma moved_rows_le:
  assumes "registry_inv u d" "tget isr_registry_id rid (ir_issuers d) = Some r" "isr_standing r \<noteq> IS_revoked"
    "ir_issuers d' = tmodify isr_registry_id rid (changed_standing env target reason) (ir_issuers d)"
  shows "rows_le d d'"
  unfolding rows_le_def
proof
  fix x
  assume x: "x \<in> set (ir_issuers d)"
  show "\<exists>x' \<in> set (ir_issuers d'). row_le x x'"
  proof (cases "isr_registry_id x = rid")
    case True
    then have "x = r" using tgetD[OF assms(2)] registry_inv_unique[OF assms(1) x] by simp
    then have "row_le x (changed_standing env target reason x)" using assms(3) by (simp add: row_le_def)
    moreover have "changed_standing env target reason x \<in> set (ir_issuers d')"
      using x True by (force simp: assms(4) tmodify_def)
    ultimately show ?thesis by blast
  next
    case False
    then have "x \<in> set (ir_issuers d')" using x by (force simp: assms(4) tmodify_def)
    then show ?thesis using row_le_refl by blast
  qed
qed

lemma move_frame:
  assumes "standing_move u d d'"
  shows "ir_publications d' = ir_publications d" "ir_next_uuid d \<le> ir_next_uuid d'"
  using assms by (cases; simp)+

lemma move_rows_le:
  assumes "standing_move u d d'" "registry_inv u d"
  shows "rows_le d d'"
  using assms(1)
proof cases
  case (registered r e)
  then have "set (ir_issuers d) \<subseteq> set (ir_issuers d')" by auto
  then show ?thesis unfolding rows_le_def using row_le_refl by blast
next
  case (moved rid r target e env reason)
  then show ?thesis using moved_rows_le[OF assms(2) moved(2,3)] by simp
qed (simp add: rows_le_same)

lemma move_registry_inv:
  assumes "standing_move u d d'" "registry_inv u d" "inj u"
  shows "registry_inv u d'"
  using assms(1)
proof cases
  case (registered r e)
  have "u (ir_next_uuid d) \<notin> set (map isr_registry_id (ir_issuers d))"
    using assms(2) fresh_id[OF assms(3)] unfolding registry_inv_def by blast
  moreover have "(isr_issuer_type r, isr_issuer_id r) \<notin> set (map (\<lambda>r. (isr_issuer_type r, isr_issuer_id r)) (ir_issuers d))"
    using registered(4) by (auto simp: find_by_identity_def find_None_iff)
  moreover have "set (map isr_registry_id (ir_issuers d)) \<subseteq> u ` {..<Suc (Suc (ir_next_uuid d))}"
    using assms(2) used_ids_mono unfolding registry_inv_def by (metis le_SucI le_refl)
  ultimately show ?thesis using assms(2) registered by (simp add: registry_inv_def)
next
  case (moved rid r target e env reason)
  have m: "map isr_registry_id (ir_issuers d') = map isr_registry_id (ir_issuers d)"
    "map (\<lambda>r. (isr_issuer_type r, isr_issuer_id r)) (ir_issuers d') = map (\<lambda>r. (isr_issuer_type r, isr_issuer_id r)) (ir_issuers d)"
    by (simp_all add: moved(1) map_tmodify)
  have "isr_issuer_type x \<noteq> [] \<and> isr_issuer_id x \<noteq> [] \<and> isr_display_name x \<noteq> Some []" if "x \<in> set (ir_issuers d')" for x
    using that assms(2) by (auto simp: moved(1) registry_inv_def dest!: set_tmodify)
  moreover have "set (map isr_registry_id (ir_issuers d)) \<subseteq> u ` {..<ir_next_uuid d'}"
    using assms(2) used_ids_mono move_frame(2)[OF assms(1)] unfolding registry_inv_def by metis
  ultimately show ?thesis using assms(2) unfolding registry_inv_def m by blast
qed (simp add: assms(2))

section \<open>The audit trail of an issuer\<close>

definition standing_events :: "ident \<Rightarrow> ir_db \<Rightarrow> issuer_event list" where
  "standing_events rid d = [e \<leftarrow> ir_events d. standing_event e \<and> ise_issuer_registry_id e = rid]"

definition replays :: "issuer_event list \<Rightarrow> issuer_record \<Rightarrow> bool" where
  "replays es r \<longleftrightarrow> es \<noteq> [] \<and> int (length es) = isr_status_version r \<and> ise_resulting_state (last es) = state_snapshot r \<and>
     map ise_prior_state es = None # map (\<lambda>e. Some (ise_resulting_state e)) (butlast es)"

definition audit_inv :: "ir_db \<Rightarrow> bool" where
  "audit_inv d \<longleftrightarrow> (\<forall>r \<in> set (ir_issuers d). replays (standing_events (isr_registry_id r) d) r) \<and>
     (\<forall>e \<in> set (ir_events d). standing_event e \<longrightarrow> ise_issuer_registry_id e \<in> set (map isr_registry_id (ir_issuers d)))"

lemma replays_snoc:
  assumes "replays es r" "ise_prior_state e = Some (state_snapshot r)" "ise_resulting_state e = state_snapshot r'"
    "isr_status_version r' = isr_status_version r + 1"
  shows "replays (es @ [e]) r'"
proof -
  have "map (\<lambda>e. Some (ise_resulting_state e)) es =
      map (\<lambda>e. Some (ise_resulting_state e)) (butlast es) @ [Some (ise_resulting_state (last es))]"
    using assms(1) by (cases es rule: rev_cases) (simp_all add: replays_def)
  then show ?thesis using assms by (simp add: replays_def)
qed

lemma move_audit_inv:
  assumes "standing_move u d d'" "registry_inv u d" "inj u" "audit_inv d"
  shows "audit_inv d'"
  using assms(1)
proof cases
  case (registered r e)
  have fresh: "isr_registry_id r \<notin> set (map isr_registry_id (ir_issuers d))"
    using assms(2) fresh_id[OF assms(3)] unfolding registry_inv_def registered(2) by blast
  then have "standing_events (isr_registry_id r) d = []"
    using assms(4) unfolding standing_events_def audit_inv_def filter_empty_conv by metis
  then have "replays (standing_events (isr_registry_id r) d') r"
    using registered by (simp add: standing_events_def replays_def)
  moreover have "standing_events (isr_registry_id x) d' = standing_events (isr_registry_id x) d" if "x \<in> set (ir_issuers d)" for x
    using that fresh registered by (auto simp: standing_events_def)
  ultimately show ?thesis using assms(4) registered by (auto simp: audit_inv_def)
next
  case (moved rid r target e env reason)
  have ids: "map isr_registry_id (ir_issuers d') = map isr_registry_id (ir_issuers d)"
    by (simp add: moved(1) map_tmodify)
  have "replays (standing_events (isr_registry_id x) d') x" if x: "x \<in> set (ir_issuers d')" for x
  proof (cases "isr_registry_id x = rid")
    case True
    obtain x0 where x0: "x0 \<in> set (ir_issuers d)" "isr_registry_id x0 = rid" "x = changed_standing env target reason x0"
      using set_tmodify[of x isr_registry_id rid "changed_standing env target reason" "ir_issuers d"] x True
      by (auto simp: moved(1))
    then have "x = changed_standing env target reason r"
      using tgetD[OF moved(2)] registry_inv_unique[OF assms(2) x0(1), of r] by simp
    moreover have "replays (standing_events rid d) r"
      using assms(4) tgetD[OF moved(2)] by (auto simp: audit_inv_def)
    ultimately show ?thesis
      using replays_snoc[of "standing_events rid d" r e x] True moved by (simp add: standing_events_def)
  next
    case False
    then have "x \<in> set (ir_issuers d)" using x by (auto simp: moved(1) dest!: set_tmodify)
    then show ?thesis using False assms(4) moved by (auto simp: audit_inv_def standing_events_def)
  qed
  moreover have "rid \<in> set (map isr_registry_id (ir_issuers d))" using tgetD[OF moved(2)] by auto
  ultimately show ?thesis using assms(4) unfolding audit_inv_def ids by (auto simp: moved(1,6))
qed (simp add: assms(4))

lemma audit_inv_quiet:
  assumes "audit_inv d" "ir_issuers d' = ir_issuers d" "ir_events d' = ir_events d @ [e]" "\<not> standing_event e"
  shows "audit_inv d'"
  using assms by (auto simp: audit_inv_def standing_events_def)


section \<open>Publications and the standing they state\<close>

definition publication_ok :: "ir_db \<Rightarrow> issuer_publication \<Rightarrow> bool" where
  "publication_ok d p \<longleftrightarrow> (\<exists>r \<in> set (ir_issuers d). isr_registry_id r = isp_issuer_registry_id p \<and>
     (isp_status_version p < isr_status_version r \<or>
      isp_status_version p = isr_status_version r \<and> isp_standing p = isr_standing r) \<and>
     (isp_status p = IP_completed \<longrightarrow> artifact_for r p))"

definition publications_inv :: "(nat \<Rightarrow> ident) \<Rightarrow> ir_db \<Rightarrow> bool" where
  "publications_inv u d \<longleftrightarrow> distinct (map isp_publication_id (ir_publications d)) \<and>
     set (map isp_publication_id (ir_publications d)) \<subseteq> u ` {..<ir_next_uuid d} \<and>
     (\<forall>p \<in> set (ir_publications d). publication_ok d p)"

definition pending_ok :: "ir_db \<Rightarrow> pending_publication \<Rightarrow> bool" where
  "pending_ok d pp \<longleftrightarrow> pp_publication pp \<in> set (ir_publications d) \<and> isp_status (pp_publication pp) = IP_requested \<and>
     isp_issuer_registry_id (pp_publication pp) = isr_registry_id (pp_issuer pp) \<and>
     isp_status_version (pp_publication pp) = isr_status_version (pp_issuer pp) \<and>
     isp_standing (pp_publication pp) = isr_standing (pp_issuer pp) \<and>
     (\<exists>r' \<in> set (ir_issuers d). row_le (pp_issuer pp) r')"

definition pending_inv :: "ir_db \<Rightarrow> pending_publication list \<Rightarrow> bool" where
  "pending_inv d ps \<longleftrightarrow> (\<forall>pp \<in> set ps. pending_ok d pp) \<and> distinct (map (\<lambda>pp. isp_publication_id (pp_publication pp)) ps)"

lemma artifact_for_row: "artifact_for r p \<Longrightarrow> issuer_identity r' = issuer_identity r \<Longrightarrow> artifact_for r' p"
  by (simp add: artifact_for_def)

lemma publication_ok_le:
  assumes "publication_ok d p" "rows_le d d'"
  shows "publication_ok d' p"
proof -
  obtain r where r: "r \<in> set (ir_issuers d)" "isr_registry_id r = isp_issuer_registry_id p"
    "isp_status_version p < isr_status_version r \<or> isp_status_version p = isr_status_version r \<and> isp_standing p = isr_standing r"
    "isp_status p = IP_completed \<longrightarrow> artifact_for r p"
    using assms(1) by (auto simp: publication_ok_def)
  obtain r' where r': "r' \<in> set (ir_issuers d')" "row_le r r'" using assms(2) r(1) unfolding rows_le_def by blast
  have "isr_registry_id r' = isp_issuer_registry_id p" using r'(2) r(2) by (simp add: row_le_def)
  moreover have "isp_status_version p < isr_status_version r' \<or>
      isp_status_version p = isr_status_version r' \<and> isp_standing p = isr_standing r'"
    using r'(2) r(3) by (auto simp: row_le_def)
  moreover have "isp_status p = IP_completed \<longrightarrow> artifact_for r' p"
    using r(4) artifact_for_row row_le_identity[OF r'(2)] by blast
  ultimately show ?thesis using r'(1) unfolding publication_ok_def by blast
qed

lemma pending_ok_le:
  assumes "pending_ok d pp" "rows_le d d'" "pp_publication pp \<in> set (ir_publications d')"
  shows "pending_ok d' pp"
proof -
  obtain r where r: "r \<in> set (ir_issuers d)" "row_le (pp_issuer pp) r"
    using assms(1) unfolding pending_ok_def by blast
  obtain r' where "r' \<in> set (ir_issuers d')" "row_le r r'" using assms(2) r(1) unfolding rows_le_def by blast
  then have "\<exists>r' \<in> set (ir_issuers d'). row_le (pp_issuer pp) r'" using row_le_trans[OF r(2)] by blast
  then show ?thesis using assms(1,3) by (simp add: pending_ok_def)
qed

lemma move_publications_inv:
  assumes "standing_move u d d'" "registry_inv u d" "publications_inv u d" "pending_inv d ps"
  shows "publications_inv u d'" "pending_inv d' ps"
proof -
  note le = move_rows_le[OF assms(1,2)] and fr = move_frame[OF assms(1)]
  have "set (map isp_publication_id (ir_publications d)) \<subseteq> u ` {..<ir_next_uuid d'}"
    using assms(3) used_ids_mono[OF _ fr(2)] unfolding publications_inv_def by blast
  then show "publications_inv u d'"
    using assms(3) publication_ok_le[OF _ le] unfolding publications_inv_def fr(1) by blast
  show "pending_inv d' ps"
    unfolding pending_inv_def
  proof (intro conjI ballI)
    fix pp
    assume "pp \<in> set ps"
    then have "pending_ok d pp" using assms(4) unfolding pending_inv_def by blast
    then show "pending_ok d' pp" using pending_ok_le[OF _ le] fr(1) by (simp add: pending_ok_def)
  qed (use assms(4) in \<open>simp add: pending_inv_def\<close>)
qed

lemma begin_publications_inv:
  assumes "begin_publication env rid a d = (Inr pp, d')" "ie_uuid env = u" "inj u"
    "publications_inv u d" "pending_inv d ps"
  shows "publications_inv u d'" "pending_inv d' (pp # ps)" "ir_issuers d' = ir_issuers d" "ir_events d' = ir_events d"
    "ir_next_uuid d \<le> ir_next_uuid d'"
proof -
  obtain r p where pp: "pp = \<lparr>pp_issuer = r, pp_publication = p, pp_actor = a\<rparr>"
    and r: "tget isr_registry_id rid (ir_issuers d) = Some r"
    and d': "d' = d\<lparr>ir_publications := ir_publications d @ [p], ir_next_uuid := Suc (ir_next_uuid d)\<rparr>"
    and p: "isp_publication_id p = ie_uuid env (ir_next_uuid d)" "isp_issuer_registry_id p = isr_registry_id r"
      "isp_status_version p = isr_status_version r" "isp_standing p = isr_standing r" "isp_status p = IP_requested"
    using assms(1) by (rule begin_publication_cases)
  have rows: "rows_le d d'" by (rule rows_le_same) (simp add: d')
  have fresh: "isp_publication_id p \<notin> set (map isp_publication_id (ir_publications d))"
    using assms(4) fresh_id[OF assms(3)] unfolding publications_inv_def p(1) assms(2) by blast
  have "\<exists>r' \<in> set (ir_issuers d). row_le r r'" using tgetD[OF r] row_le_refl by blast
  then have new: "publication_ok d' p" "pending_ok d' pp"
    using tgetD[OF r] p by (auto simp: publication_ok_def pending_ok_def d' pp)
  have "set (map isp_publication_id (ir_publications d')) \<subseteq> u ` {..<ir_next_uuid d'}"
    using assms(4) by (auto simp: publications_inv_def d' p(1) assms(2) lessThan_Suc)
  moreover have "\<forall>q \<in> set (ir_publications d). publication_ok d' q"
    using assms(4) publication_ok_le[OF _ rows] unfolding publications_inv_def by blast
  ultimately show "publications_inv u d'"
    using assms(4) fresh new(1) by (simp add: publications_inv_def d')
  have old: "\<forall>q \<in> set ps. pending_ok d' q"
  proof
    fix q
    assume "q \<in> set ps"
    then have "pending_ok d q" using assms(5) unfolding pending_inv_def by blast
    then show "pending_ok d' q" by (rule pending_ok_le[OF _ rows]) (use \<open>pending_ok d q\<close> in \<open>simp add: pending_ok_def d'\<close>)
  qed
  have "isp_publication_id (pp_publication pp) \<notin> set (map (\<lambda>q. isp_publication_id (pp_publication q)) ps)"
  proof
    assume "isp_publication_id (pp_publication pp) \<in> set (map (\<lambda>q. isp_publication_id (pp_publication q)) ps)"
    then obtain q where "q \<in> set ps" "isp_publication_id (pp_publication q) = isp_publication_id p" by (auto simp: pp)
    moreover from this have "pp_publication q \<in> set (ir_publications d)"
      using assms(5) unfolding pending_inv_def pending_ok_def by blast
    ultimately show False using fresh by (metis image_eqI set_map)
  qed
  then show "pending_inv d' (pp # ps)" using old new(2) assms(5) by (simp add: pending_inv_def)
  show "ir_issuers d' = ir_issuers d" "ir_events d' = ir_events d" "ir_next_uuid d \<le> ir_next_uuid d'"
    by (simp_all add: d')
qed

lemma distinct_map_remove1: "distinct (map g xs) \<Longrightarrow> distinct (map g (remove1 x xs))"
  using set_remove1_subset[of x xs] by (auto simp: distinct_map dest: inj_on_subset)

text \<open>Ending a publication changes only its own row.\<close>

lemma finished_publications_inv:
  assumes "publications_inv u d" "pending_inv d ps" "pp \<in> set ps"
    and d': "d' = d\<lparr>ir_publications := tmodify isp_publication_id (isp_publication_id (pp_publication pp)) f (ir_publications d),
      ir_events := es, ir_next_uuid := Suc (ir_next_uuid d)\<rparr>"
    and f: "\<And>p. isp_publication_id (f p) = isp_publication_id p" and ok: "publication_ok d (f (pp_publication pp))"
  shows "publications_inv u d'" "pending_inv d' (remove1 pp ps)"
proof -
  let ?pid = "isp_publication_id (pp_publication pp)"
  have mem: "pp_publication pp \<in> set (ir_publications d)"
    using assms(2,3) unfolding pending_inv_def pending_ok_def by blast
  have rows: "rows_le d d'" by (rule rows_le_same) (simp add: d')
  have ids: "map isp_publication_id (ir_publications d') = map isp_publication_id (ir_publications d)"
    using f by (simp add: d' map_tmodify)
  have "publication_ok d' q" if q: "q \<in> set (ir_publications d')" for q
  proof -
    have "q \<in> set (ir_publications d) \<or> (\<exists>q0 \<in> set (ir_publications d). isp_publication_id q0 = ?pid \<and> q = f q0)"
      using q set_tmodify[of q isp_publication_id ?pid f "ir_publications d"] by (auto simp: d')
    moreover have "q0 = pp_publication pp" if "q0 \<in> set (ir_publications d)" "isp_publication_id q0 = ?pid" for q0
      using that mem assms(1) unfolding publications_inv_def by (metis distinct_key_eq)
    ultimately have "publication_ok d q" using ok assms(1) unfolding publications_inv_def by blast
    then show ?thesis by (rule publication_ok_le[OF _ rows])
  qed
  moreover have "set (map isp_publication_id (ir_publications d)) \<subseteq> u ` {..<ir_next_uuid d'}"
    using assms(1) by (auto simp: publications_inv_def d' lessThan_Suc)
  ultimately show "publications_inv u d'" using assms(1) unfolding publications_inv_def ids by blast
  have "pending_ok d' q" if q: "q \<in> set (remove1 pp ps)" for q
  proof -
    have dist: "distinct (map (\<lambda>pp. isp_publication_id (pp_publication pp)) ps)" using assms(2) by (simp add: pending_inv_def)
    then have "q \<in> set ps" "q \<noteq> pp" using q by (auto simp: distinct_map)
    then have "isp_publication_id (pp_publication q) \<noteq> ?pid"
      using distinct_key_eq[OF dist _ assms(3)] by blast
    moreover have "pending_ok d q" using \<open>q \<in> set ps\<close> assms(2) unfolding pending_inv_def by blast
    ultimately have "pp_publication q \<in> set (ir_publications d')" "pending_ok d q"
      by (force simp: pending_ok_def d' tmodify_def)+
    then show ?thesis using pending_ok_le[OF _ rows] by blast
  qed
  then show "pending_inv d' (remove1 pp ps)"
    using assms(2) by (simp add: pending_inv_def distinct_map_remove1)
qed

lemma configured_ttl:
  "registry_service u env \<Longrightarrow> 0 < ie_artifact_ttl_seconds env \<and> ie_artifact_ttl_seconds env \<le> ie_max_staleness_seconds env"
  by (auto simp: registry_service_def configure_registry_def split: if_split_asm sum.split_asm)

definition ir_inv :: "(nat \<Rightarrow> ident) \<Rightarrow> ir_state \<Rightarrow> bool" where
  "ir_inv u s \<longleftrightarrow> (case s of (d, ps) \<Rightarrow> registry_inv u d \<and> audit_inv d \<and> publications_inv u d \<and> pending_inv d ps)"

lemma ir_inv_move:
  assumes "standing_move u d d'" "ir_inv u (d, ps)" "inj u"
  shows "ir_inv u (d', ps)"
  using assms(2) move_registry_inv[OF assms(1) _ assms(3)] move_audit_inv[OF assms(1) _ assms(3)]
    move_publications_inv[OF assms(1), of ps] by (simp add: ir_inv_def)

lemma registry_inv_same:
  "registry_inv u d \<Longrightarrow> ir_issuers d' = ir_issuers d \<Longrightarrow> ir_next_uuid d \<le> ir_next_uuid d' \<Longrightarrow> registry_inv u d'"
  unfolding registry_inv_def using used_ids_mono[of _ u "ir_next_uuid d" "ir_next_uuid d'"] by simp

lemma pending_remove: "pending_inv d ps \<Longrightarrow> pending_inv d (remove1 pp ps)"
  by (auto simp: pending_inv_def distinct_map_remove1 dest: notin_set_remove1)


lemma ir_inv_finish:
  assumes "registry_service u env" "pp \<in> set ps" "1000000 dvd issued"
    "ie_max_staleness_seconds env = isp_max_staleness_seconds (pp_publication pp)" "ir_inv u (d, ps)"
  shows "ir_inv u (snd (finish_publication env issued pp d), remove1 pp ps)"
proof -
  have inv: "registry_inv u d" "audit_inv d" "publications_inv u d" "pending_inv d ps"
    using assms(5) by (simp_all add: ir_inv_def)
  have pok: "pending_ok d pp" using inv(4) assms(2) unfolding pending_inv_def by blast
  obtain r where r: "r \<in> set (ir_issuers d)" "row_le (pp_issuer pp) r" using pok unfolding pending_ok_def by blast
  have old: "publication_ok d (pp_publication pp)"
    using inv(3) pok unfolding publications_inv_def pending_ok_def by blast
  obtain res d' where eq: "finish_publication env issued pp d = (res, d')" by force
  then show ?thesis
  proof (cases rule: finish_publication_cases)
    case 1
    then show ?thesis using inv pending_remove by (simp add: eq ir_inv_def)
  next
    case (2 e f ev)
    have "publication_ok d (f (pp_publication pp))" using old 2(3)[of "pp_publication pp"] by (auto simp: publication_ok_def)
    moreover have "isp_publication_id (f p) = isp_publication_id p" for p using 2(3) by blast
    ultimately have "publications_inv u d'" "pending_inv d' (remove1 pp ps)"
      using finished_publications_inv[OF inv(3,4) assms(2) 2(4)] by blast+
    moreover have "registry_inv u d'" by (rule registry_inv_same[OF inv(1)]) (simp_all add: 2(4))
    moreover have "audit_inv d'" by (rule audit_inv_quiet[OF inv(2) _ _ 2(5)]) (simp_all add: 2(4))
    ultimately show ?thesis by (simp add: eq ir_inv_def)
  next
    case (3 st art kid sig ref row digest ev)
    let ?f = "completed_publication env issued digest art kid ref"
    have row: "row = r"
      using tgetD[OF 3(5)] r registry_inv_unique[OF inv(1)] by (simp add: row_le_def)
    have "isr_issuer_type r \<noteq> []" "isr_issuer_id r \<noteq> []" "isr_display_name r \<noteq> Some []"
      using inv(1) r(1) by (auto simp: registry_inv_def)
    from completed_artifact_for[OF 3(2,3) _ row_le_identity[OF r(2), symmetric] this, of "pp_publication pp"]
    have "artifact_for r (?f (pp_publication pp))"
      using pok configured_ttl[OF assms(1)] assms(3,4) by (simp add: pending_ok_def)
    then have "publication_ok d (?f (pp_publication pp))"
      using r(1) 3(6,7) row pok tgetD[OF 3(5)]
      by (auto simp: publication_ok_def pending_ok_def completed_publication_def)
    then have "publications_inv u d'" "pending_inv d' (remove1 pp ps)"
      using finished_publications_inv[OF inv(3,4) assms(2) 3(8)] by (simp_all add: completed_publication_def)
    moreover have "registry_inv u d'" by (rule registry_inv_same[OF inv(1)]) (simp_all add: 3(8))
    moreover have "audit_inv d'" by (rule audit_inv_quiet[OF inv(2) _ _ 3(9)]) (simp_all add: 3(8))
    ultimately show ?thesis by (simp add: eq ir_inv_def)
  qed
qed

lemma ir_step_inv:
  assumes "ir_step u s s'" "ir_inv u s" "inj u"
  shows "ir_inv u s'"
  using assms(1)
proof cases
  case (ir_register env d ps ident a md)
  then show ?thesis
    using ir_inv_move[OF register_issuer_move _ assms(3)] assms(2) by (simp add: registry_service_def)
next
  case (ir_suspend env d ps rid reason a)
  then show ?thesis using ir_inv_move[OF change_standing_move _ assms(3)] assms(2) by (simp add: suspend_issuer_def)
next
  case (ir_reinstate env d ps rid reason a)
  then show ?thesis using ir_inv_move[OF reinstate_issuer_move _ assms(3)] assms(2) by simp
next
  case (ir_revoke env d ps rid reason a)
  then show ?thesis using ir_inv_move[OF change_standing_move _ assms(3)] assms(2) by simp
next
  case (ir_begin env rid a d pp d' ps)
  have inv: "registry_inv u d" "audit_inv d" "publications_inv u d" "pending_inv d ps"
    using assms(2) ir_begin(1) by (simp_all add: ir_inv_def)
  have uuid: "ie_uuid env = u" using ir_begin(3) by (simp add: registry_service_def)
  note b = begin_publications_inv[OF ir_begin(4) uuid assms(3) inv(3,4)]
  have "registry_inv u d'" by (rule registry_inv_same[OF inv(1) b(3,5)])
  moreover have "audit_inv d'" using inv(2) b(3,4) by (simp add: audit_inv_def standing_events_def)
  ultimately show ?thesis using b(1,2) ir_begin(2) by (simp add: ir_inv_def)
next
  case (ir_finish env pp ps issued d)
  then show ?thesis using ir_inv_finish[OF ir_finish(3-6)] assms(2) by simp
qed

lemma ir_step_rows:
  assumes "ir_step u s s'" "ir_inv u s"
  shows "rows_le (fst s) (fst s')"
  using assms(1)
proof cases
  case (ir_register env d ps ident a md)
  then show ?thesis
    using move_rows_le[OF register_issuer_move] assms(2) by (simp add: registry_service_def ir_inv_def)
next
  case (ir_suspend env d ps rid reason a)
  then show ?thesis using move_rows_le[where u = u, OF change_standing_move] assms(2) by (simp add: suspend_issuer_def ir_inv_def)
next
  case (ir_reinstate env d ps rid reason a)
  then show ?thesis using move_rows_le[where u = u, OF reinstate_issuer_move] assms(2) by (simp add: ir_inv_def)
next
  case (ir_revoke env d ps rid reason a)
  then show ?thesis using move_rows_le[where u = u, OF change_standing_move] assms(2) by (simp add: ir_inv_def)
next
  case (ir_begin env rid a d pp d' ps)
  from ir_begin(4) show ?thesis
    by (rule begin_publication_cases) (simp add: ir_begin(1,2) rows_le_same)
next
  case (ir_finish env pp ps issued d)
  obtain res d' where eq: "finish_publication env issued pp d = (res, d')" by force
  then have "ir_issuers d' = ir_issuers d" by (cases rule: finish_publication_cases) auto
  then show ?thesis using ir_finish(1,2) by (simp add: eq rows_le_same)
qed

lemma ir_run_inv: "(ir_step u)\<^sup>*\<^sup>* s s' \<Longrightarrow> ir_inv u s \<Longrightarrow> inj u \<Longrightarrow> ir_inv u s' \<and> rows_le (fst s) (fst s')"
proof (induction rule: rtranclp_induct)
  case base
  then show ?case by (simp add: rows_le_same)
next
  case (step s' s'')
  then show ?case using ir_step_inv ir_step_rows rows_le_trans by blast
qed

lemma ir_reachable_inv: "ir_reachable u s \<Longrightarrow> inj u \<Longrightarrow> ir_inv u s"
proof -
  assume "ir_reachable u s" "inj u"
  moreover have "ir_inv u (empty_ir_db, [])"
    by (simp add: ir_inv_def registry_inv_def audit_inv_def publications_inv_def pending_inv_def empty_ir_db_def)
  ultimately show ?thesis using ir_run_inv unfolding ir_reachable_def by blast
qed


section \<open>The signed statement\<close>

lemma int_order_stamp: "t < x \<Longrightarrow> 1000000 dvd t \<Longrightarrow> 1000000 dvd x \<Longrightarrow> t div 1000000 < x div (1000000 :: int)"
  by (elim dvdE) simp

text \<open>The managed signer normalises what it is given; a statement the registry builds is a fixed point.\<close>

lemma statement_normal:
  assumes "status_statement env issued pp = Inr st" "validate_issuer_status_statement st w = Inr st2"
  shows "st2 = st"
proof -
  obtain i a where st: "st = [(''context'', JStr ''actenon.issuer-status.v1''), (''issuer'', JObj i),
       (''authority'', JObj a), (''status'', JStr (standing_value (isr_standing (pp_issuer pp)))),
       (''issued_at'', stamp issued), (''expires_at'', stamp (expiry_of env issued)),
       (''status_reference'', JStr (isp_status_reference (pp_publication pp)))]"
    and i: "validate_party ''issuer'' (JObj (issuer_identity (pp_issuer pp))) = Inr i"
    and a: "validate_party ''authority'' (JObj (ie_authority env)) = Inr a"
    using status_statement_shape[OF assms(1)] by metis
  have i': "validate_party ''issuer'' (JObj i) = Inr i" by (metis i validate_party_shape validate_party_fixed)
  have a': "validate_party ''authority'' (JObj a) = Inr a" by (metis a validate_party_shape validate_party_fixed)
  have get: "jget st ''issuer'' = JObj i" "jget st ''authority'' = JObj a" "jget st ''issued_at'' = stamp issued"
    "jget st ''expires_at'' = stamp (expiry_of env issued)"
    "jget st ''status'' = JStr (standing_value (isr_standing (pp_issuer pp)))"
    "jget st ''status_reference'' = JStr (isp_status_reference (pp_publication pp))"
    by (simp_all add: st jget_def)
  show ?thesis
    using assms(2) unfolding validate_issuer_status_statement_def get i' a'
    by (auto simp: stamp_def Let_def st split: if_split_asm sum.split_asm)
qed

lemma status_artifact_statement:
  assumes "status_statement env issued pp = Inr st" "build_issuer_status_artifact st kid sig = Inr art"
  shows "statement_of ''actenon.issuer-status.v1'' art = st" "jget art ''signature'' = signature_object kid sig" "length sig = 64"
proof -
  obtain i a where st: "st = [(''context'', JStr ''actenon.issuer-status.v1''), (''issuer'', JObj i),
       (''authority'', JObj a), (''status'', JStr (standing_value (isr_standing (pp_issuer pp)))),
       (''issued_at'', stamp issued), (''expires_at'', stamp (expiry_of env issued)),
       (''status_reference'', JStr (isp_status_reference (pp_publication pp)))]"
    using status_statement_shape[OF assms(1)] by metis
  show "statement_of ''actenon.issuer-status.v1'' art = st" "jget art ''signature'' = signature_object kid sig" "length sig = 64"
    using assms(2) unfolding st
    by (auto simp: build_issuer_status_artifact_def statement_of_def jget_def split: if_split_asm)
qed


section \<open>Serving\<close>

lemma latest_status_publication:
  assumes "latest_status_artifact env rid t i d = Inr art"
  obtains r p x where "r \<in> set (ir_issuers d)"
    "case rid of Some n \<Rightarrow> isr_registry_id r = n | None \<Rightarrow> t = Some (isr_issuer_type r) \<and> i = Some (isr_issuer_id r)"
    "p \<in> set (current_publications r d)" "isp_status_artifact p = Some art" "isp_expires_at p = Some x" "ir_now env < x"
proof -
  obtain r where r: "status_issuer rid t i d = Inr r"
    using assms by (auto simp: latest_status_artifact_def split: sum.split_asm)
  obtain p ps where p: "sort_key completed_key (current_publications r d) = p # ps"
    using assms r by (auto simp: latest_status_artifact_def split: list.split_asm)
  have out: "isp_status_artifact p = Some art" "\<exists>x. isp_expires_at p = Some x \<and> ir_now env < x"
    using assms r p
    by (auto simp: latest_status_artifact_def split: option.split_asm if_split_asm)
  have "p \<in> set (current_publications r d)" using p by (metis list.set_intros(1) set_sort)
  moreover have "r \<in> set (ir_issuers d) \<and>
      (case rid of Some n \<Rightarrow> isr_registry_id r = n | None \<Rightarrow> t = Some (isr_issuer_type r) \<and> i = Some (isr_issuer_id r))"
    using r unfolding status_issuer_def locked_record_def locked_by_identity_def find_by_identity_def
    by (auto split: option.split_asm dest: tgetD simp: find_Some_iff)
  ultimately show ?thesis using that out by blast
qed

lemma no_current_publication:
  "current_publications r d = [] \<Longrightarrow> tget isr_registry_id rid (ir_issuers d) = Some r \<Longrightarrow>
   \<exists>e. latest_status_artifact env (Some rid) t i d = Inl e"
  by (simp add: latest_status_artifact_def status_issuer_def locked_record_def)

lemma publication_current_standing:
  assumes "registry_inv u d" "publications_inv u d" "r \<in> set (ir_issuers d)" "p \<in> set (current_publications r d)"
  shows "artifact_for r p" "isp_standing p = isr_standing r"
proof -
  have p: "p \<in> set (ir_publications d)" "isp_issuer_registry_id p = isr_registry_id r"
    "isp_status_version p = isr_status_version r" "isp_status p = IP_completed"
    using assms(4) by (auto simp: current_publications_def)
  have "publication_ok d p" using assms(2) p(1) unfolding publications_inv_def by blast
  then obtain r' where "r' \<in> set (ir_issuers d)" "isr_registry_id r' = isp_issuer_registry_id p"
    "isp_status_version p < isr_status_version r' \<or> isp_standing p = isr_standing r'" "artifact_for r' p"
    using p(4) unfolding publication_ok_def by blast
  moreover from this have "r' = r" using registry_inv_unique[OF assms(1) _ assms(3)] p(2) by simp
  ultimately show "artifact_for r p" "isp_standing p = isr_standing r" using p(3) by auto
qed

lemma failed_keeps_current:
  assumes "finish_publication env issued pp d = (Inl e, d')" "isp_status (pp_publication pp) \<noteq> IP_completed"
    "publications_inv u d" "pp_publication pp \<in> set (ir_publications d)" "current_publications r d = []"
  shows "current_publications r d' = []" "ir_issuers d' = ir_issuers d"
proof -
  have "current_publications r d' = [] \<and> ir_issuers d' = ir_issuers d"
    using assms(1)
  proof (cases rule: finish_publication_cases)
    case (2 x f ev)
    have "q \<in> set (ir_publications d) \<or> isp_status q = IP_failed" if "q \<in> set (ir_publications d')" for q
      using that set_tmodify[of q isp_publication_id "isp_publication_id (pp_publication pp)" f "ir_publications d"] 2(3)
      by (auto simp: 2(4))
    then have "current_publications r d' = []"
      using assms(5) unfolding current_publications_def filter_empty_conv by (metis issuer_publication_status.distinct(5))
    then show ?thesis by (simp add: 2(4))
  qed (use assms(5) in simp_all)
  then show "current_publications r d' = []" "ir_issuers d' = ir_issuers d" by blast+
qed

lemma publish_failed_keeps:
  assumes "publish_status env rid a d = (Inl e, d')" "ir_inv u (d, ps)" "ie_uuid env = u" "inj u"
    "current_publications r d = []"
  shows "current_publications r d' = []" "ir_issuers d' = ir_issuers d"
proof -
  obtain b d1 where b: "begin_publication env rid a d = (b, d1)" by force
  have "current_publications r d' = [] \<and> ir_issuers d' = ir_issuers d"
  proof (cases b)
    case (Inl x)
    then have "d1 = d"
      using b by (auto simp: begin_publication_def Let_def split: sum.split_asm if_split_asm)
    then show ?thesis using assms(1,5) b Inl by (simp add: publish_status_def)
  next
    case (Inr pp)
    have inv: "publications_inv u d" "pending_inv d ps" using assms(2) by (simp_all add: ir_inv_def)
    note bi = begin_publications_inv[OF b[unfolded Inr] assms(3,4) inv]
    have pp: "pending_ok d1 pp" using bi(2) by (simp add: pending_inv_def)
    have "current_publications r d1 = []"
      using b[unfolded Inr] by (rule begin_publication_cases) (use assms(5) in \<open>simp add: current_publications_def\<close>)
    moreover have "finish_publication env (ir_now env) pp d1 = (Inl e, d')"
      using assms(1) b Inr by (simp add: publish_status_def)
    ultimately show ?thesis
      using failed_keeps_current[of env "ir_now env" pp d1 e d' u r] bi(1,3) pp by (simp add: pending_ok_def)
  qed
  then show "current_publications r d' = []" "ir_issuers d' = ir_issuers d" by blast+
qed

lemma finish_publication_rows: "ir_issuers (snd (finish_publication env t pp d)) = ir_issuers d"
  unfolding finish_publication_def ir_add_audit_event_def Let_def by (auto split: sum.split prod.split)

lemma publish_status_rows: "ir_issuers (snd (publish_status env rid a d)) = ir_issuers d"
proof -
  obtain b d1 where b: "begin_publication env rid a d = (b, d1)" by force
  have d1: "ir_issuers d1 = ir_issuers d"
    using b by (auto simp: begin_publication_def Let_def split: sum.split_asm if_split_asm)
  then show ?thesis using b by (cases b) (simp_all add: publish_status_def finish_publication_rows)
qed


section \<open>A sample registry\<close>

definition sample_registrar :: ir_actor where
  "sample_registrar = \<lparr>pn_principal_type = ''user'', pn_principal_id = ''admin'',
     pn_permissions = [''issuer_registry.register'', ''issuer_registry.status.manage'', ''issuer_registry.revoke'',
       ''issuer_registry.status.publish'']\<rparr>"

definition sample_ir_env :: ir_env where
  "sample_ir_env = \<lparr>ie_clock = 0, ie_uuid = sample_uuid, ie_cs = sample_cs_env,
     ie_signer = Some (counter_signing_issuer_status_signer sample_cs_env sample_cs_key_db sample_service),
     ie_authority = [(''type'', JStr ''witness''), (''id'', JStr ''actenon'')], ie_artifact_ttl_seconds = 300,
     ie_max_staleness_seconds = 300\<rparr>"

definition sample_issuer_db :: ir_db where
  "sample_issuer_db = snd (register_issuer sample_ir_env (JObj [(''type'', JStr ''org''), (''id'', JStr ''acme'')])
     sample_registrar [] empty_ir_db)"

definition sample_pending :: pending_publication where
  "sample_pending = (case fst (begin_publication sample_ir_env (sample_uuid 0) sample_registrar sample_issuer_db) of
     Inr pp \<Rightarrow> pp)"

definition sample_begun_db :: ir_db where
  "sample_begun_db = snd (begin_publication sample_ir_env (sample_uuid 0) sample_registrar sample_issuer_db)"

definition sample_published_db :: ir_db where
  "sample_published_db = snd (finish_publication sample_ir_env 0 sample_pending sample_begun_db)"

lemma sample_registry_service: "registry_service sample_uuid sample_ir_env"
proof -
  have "configure_registry sample_ir_env = Inr sample_ir_env"
    by (simp add: configure_registry_def sample_ir_env_def validate_party_def party_of_def jget_def non_empty_str_def)
  then show ?thesis by (auto simp: registry_service_def sample_ir_env_def)
qed

lemma sample_issuer_row:
  "\<exists>r. ir_issuers sample_issuer_db = [r] \<and> isr_registry_id r = sample_uuid 0 \<and> isr_standing r = IS_good_standing \<and>
     isr_status_version r = 1 \<and> isr_issuer_type r = ''org'' \<and> isr_issuer_id r = ''acme'' \<and> isr_display_name r = None"
  by (simp add: sample_issuer_db_def register_issuer_def ir_authorize_def sample_registrar_def validate_party_def
      party_of_def jget_def non_empty_str_def find_by_identity_def empty_ir_db_def ir_add_audit_event_def tinsert_def Let_def
      text_of_def sample_ir_env_def)

lemma sample_begin:
  "begin_publication sample_ir_env (sample_uuid 0) sample_registrar sample_issuer_db = (Inr sample_pending, sample_begun_db)"
proof -
  have "\<exists>pp. fst (begin_publication sample_ir_env (sample_uuid 0) sample_registrar sample_issuer_db) = Inr pp"
    using sample_issuer_row
    by (auto simp: begin_publication_def ir_authorize_def sample_registrar_def locked_record_def sample_ir_env_def Let_def)
  then show ?thesis by (auto simp: sample_pending_def sample_begun_db_def prod_eq_iff)
qed

lemma sample_pending_row:
  "\<exists>r. pp_issuer sample_pending = r \<and> ir_issuers sample_begun_db = [r] \<and> isr_registry_id r = sample_uuid 0 \<and>
     isr_standing r = IS_good_standing \<and> isr_status_version r = 1 \<and> isr_issuer_type r = ''org'' \<and>
     isr_issuer_id r = ''acme'' \<and> isr_display_name r = None"
  "isp_status_version (pp_publication sample_pending) = 1" "isp_standing (pp_publication sample_pending) = IS_good_standing"
  "isp_max_staleness_seconds (pp_publication sample_pending) = 300"
proof -
  obtain r where r: "ir_issuers sample_issuer_db = [r]" "isr_registry_id r = sample_uuid 0" "isr_standing r = IS_good_standing"
    "isr_status_version r = 1" "isr_issuer_type r = ''org''" "isr_issuer_id r = ''acme''" "isr_display_name r = None"
    using sample_issuer_row by blast
  from sample_begin obtain r' p where b: "sample_pending = \<lparr>pp_issuer = r', pp_publication = p, pp_actor = sample_registrar\<rparr>"
    "tget isr_registry_id (sample_uuid 0) (ir_issuers sample_issuer_db) = Some r'"
    "sample_begun_db = sample_issuer_db\<lparr>ir_publications := ir_publications sample_issuer_db @ [p],
       ir_next_uuid := Suc (ir_next_uuid sample_issuer_db)\<rparr>"
    "isp_status_version p = isr_status_version r'" "isp_standing p = isr_standing r'"
    "isp_max_staleness_seconds p = ie_max_staleness_seconds sample_ir_env"
    by (rule begin_publication_cases)
  have "r' = r" using b(2) r(1,2) by simp
  then show "\<exists>r. pp_issuer sample_pending = r \<and> ir_issuers sample_begun_db = [r] \<and> isr_registry_id r = sample_uuid 0 \<and>
       isr_standing r = IS_good_standing \<and> isr_status_version r = 1 \<and> isr_issuer_type r = ''org'' \<and>
       isr_issuer_id r = ''acme'' \<and> isr_display_name r = None"
    "isp_status_version (pp_publication sample_pending) = 1" "isp_standing (pp_publication sample_pending) = IS_good_standing"
    "isp_max_staleness_seconds (pp_publication sample_pending) = 300"
    unfolding b(1,3) using b(4-6) r by (simp_all add: sample_ir_env_def)
qed

definition sample_statement :: dict where
  "sample_statement = (case status_statement sample_ir_env 0 sample_pending of Inr st \<Rightarrow> st)"

lemma sample_reference: "isp_status_reference (pp_publication sample_pending) \<noteq> []"
  using sample_begin by (rule begin_publication_cases) (metis pending_publication.select_convs(2))

lemma sample_statement_shape:
  "status_statement sample_ir_env 0 sample_pending = Inr sample_statement"
  "sample_statement = [(''context'', JStr ''actenon.issuer-status.v1''),
     (''issuer'', JObj [(''type'', JStr ''org''), (''id'', JStr ''acme'')]),
     (''authority'', JObj [(''type'', JStr ''witness''), (''id'', JStr ''actenon'')]), (''status'', JStr ''good_standing''),
     (''issued_at'', JInt 0), (''expires_at'', JInt 300),
     (''status_reference'', JStr (isp_status_reference (pp_publication sample_pending)))]"
  using sample_pending_row(1) sample_reference
  by (auto simp: sample_statement_def status_statement_def build_issuer_status_statement_def issuer_standings_def
      expiry_of_def sample_ir_env_def issuer_identity_def validate_party_def party_of_def jget_def non_empty_str_def
      Let_def stamp_def)

lemma sample_status_signed:
  "sign_issuer_status sample_cs_env sample_statement sample_service token sample_cs_key_db =
     Inr (''k1'', replicate 64 (CHR ''s''), ''op'')"
  using sample_reference
  by (simp add: sign_issuer_status_def sign_managed_def authorize_service_permission_def sample_service_def
      sample_active validate_issuer_status_statement_def sample_statement_shape(2) keys_of_def issuer_status_fields_def
      jget_def validate_party_def party_of_def sample_cs_env_def non_empty_str_def issuer_standings_def Let_def
      cs_canonicalize_def sample_jcs_def sample_provider_sign)

definition sample_artifact :: dict where
  "sample_artifact = (case build_issuer_status_artifact sample_statement ''k1'' (replicate 64 (CHR ''s'')) of Inr art \<Rightarrow> art)"

lemma sample_finish:
  "\<exists>p. finish_publication sample_ir_env 0 sample_pending sample_begun_db = (Inr (sample_artifact, p), sample_published_db)"
proof -
  obtain r where r: "pp_issuer sample_pending = r" "ir_issuers sample_begun_db = [r]" "isr_registry_id r = sample_uuid 0"
    "isr_standing r = IS_good_standing" "isr_status_version r = 1"
    using sample_pending_row(1) by blast
  have art: "build_issuer_status_artifact sample_statement ''k1'' (replicate 64 (CHR ''s'')) = Inr sample_artifact"
    by (simp add: sample_artifact_def build_issuer_status_artifact_def)
  have "sign_and_compare sample_ir_env sample_statement sample_pending sample_begun_db =
      Inr (sample_artifact, (''k1'', replicate 64 (CHR ''s''), ''op''), r)"
    using r sample_pending_row(2,3) art
    by (simp add: sign_and_compare_def sample_ir_env_def counter_signing_issuer_status_signer_def sample_status_signed
        locked_record_def)
  moreover have "\<exists>bs. cs_canonicalize (ie_cs sample_ir_env) (JObj sample_statement) = Inr bs"
    by (simp add: sample_ir_env_def cs_canonicalize_def sample_jcs_def sample_statement_shape(2) jget_def)
  ultimately have "\<exists>p. fst (finish_publication sample_ir_env 0 sample_pending sample_begun_db) = Inr (sample_artifact, p)"
    by (auto simp: finish_publication_def sample_statement_shape(1) Let_def)
  then show ?thesis by (auto simp: sample_published_db_def prod_eq_iff)
qed

lemma sample_registry_runs:
  "ir_reachable sample_uuid (sample_issuer_db, [])" "ir_reachable sample_uuid (sample_begun_db, [sample_pending])"
  "ir_reachable sample_uuid (sample_published_db, [])"
  "(ir_step sample_uuid)\<^sup>*\<^sup>* (sample_issuer_db, []) (sample_published_db, [])"
proof -
  have 1: "ir_step sample_uuid (empty_ir_db, []) (sample_issuer_db, [])"
    unfolding sample_issuer_db_def by (rule ir_register[OF sample_registry_service])
  have 2: "ir_step sample_uuid (sample_issuer_db, []) (sample_begun_db, [sample_pending])"
    by (rule ir_begin[OF sample_registry_service sample_begin])
  have 3: "ir_step sample_uuid (sample_begun_db, [sample_pending]) (sample_published_db, [])"
    using ir_finish[OF sample_registry_service, of sample_pending "[sample_pending]" 0 sample_begun_db] sample_pending_row(4)
    by (simp add: sample_published_db_def) (simp add: sample_ir_env_def)
  show "ir_reachable sample_uuid (sample_issuer_db, [])" "ir_reachable sample_uuid (sample_begun_db, [sample_pending])"
    "ir_reachable sample_uuid (sample_published_db, [])"
    "(ir_step sample_uuid)\<^sup>*\<^sup>* (sample_issuer_db, []) (sample_published_db, [])"
    unfolding ir_reachable_def using 1 2 3 by (meson rtranclp.rtrancl_into_rtrancl rtranclp.rtrancl_refl)+
qed

lemma sample_published_rows: "ir_issuers sample_published_db = ir_issuers sample_begun_db"
  by (simp add: sample_published_db_def finish_publication_rows)

lemma sample_served: "latest_status_artifact sample_ir_env (Some (sample_uuid 0)) None None sample_published_db = Inr sample_artifact"
proof -
  obtain r where r: "pp_issuer sample_pending = r" "ir_issuers sample_begun_db = [r]" "isr_registry_id r = sample_uuid 0"
    "isr_standing r = IS_good_standing" "isr_status_version r = 1"
    using sample_pending_row(1) by blast
  have inv: "ir_inv sample_uuid (sample_begun_db, [sample_pending])"
    by (rule ir_reachable_inv[OF sample_registry_runs(2) inj_sample_uuid])
  then have "pending_ok sample_begun_db sample_pending" by (simp add: ir_inv_def pending_inv_def)
  moreover have "ir_publications sample_issuer_db = []"
    by (simp add: sample_issuer_db_def register_issuer_def ir_authorize_def sample_registrar_def validate_party_def
      party_of_def jget_def non_empty_str_def find_by_identity_def empty_ir_db_def ir_add_audit_event_def tinsert_def Let_def)
  moreover obtain p where bd: "sample_begun_db = sample_issuer_db\<lparr>ir_publications := ir_publications sample_issuer_db @ [p],
      ir_next_uuid := Suc (ir_next_uuid sample_issuer_db)\<rparr>"
    using sample_begin by (rule begin_publication_cases)
  have "ir_publications sample_begun_db = ir_publications sample_issuer_db @ [p]" unfolding bd by simp
  ultimately have pubs: "ir_publications sample_begun_db = [pp_publication sample_pending]"
    "isp_issuer_registry_id (pp_publication sample_pending) = sample_uuid 0"
    using r by (auto simp: pending_ok_def)
  obtain p where fin: "finish_publication sample_ir_env 0 sample_pending sample_begun_db = (Inr (sample_artifact, p), sample_published_db)"
    using sample_finish by blast
  from fin show ?thesis
  proof (cases rule: finish_publication_cases)
    case (3 st art kid sig ref row digest ev)
    have "row = r" using 3(5) r by simp
    then show ?thesis
      using 3(1) r pubs sample_pending_row(2)
      by (simp add: 3(8) latest_status_artifact_def status_issuer_def locked_record_def current_publications_def
          completed_publication_def expiry_of_def ir_now_def) (simp add: sample_ir_env_def)
  qed auto
qed


section \<open>Properties\<close>

text \<open>
  C8. A served status is the current one. However registrations, changes of standing and
  publications interleave, an artifact that the status endpoint returns names the issuer asked for and
  states the standing that the issuer has at that moment; it has not expired, and it expires no later
  than the maximum staleness after it was issued.
\<close>

theorem served_status_current:
  assumes "inj u" "ir_reachable u (d, ps)" "latest_status_artifact env rid t i d = Inr art"
  shows "\<exists>r \<in> set (ir_issuers d).
    (case rid of Some n \<Rightarrow> isr_registry_id r = n | None \<Rightarrow> t = Some (isr_issuer_type r) \<and> i = Some (isr_issuer_id r)) \<and>
    jget art ''issuer'' = JObj (issuer_identity r) \<and> jget art ''status'' = JStr (standing_value (isr_standing r)) \<and>
    (\<exists>issued expires. \<exists>p \<in> set (ir_publications d). jget art ''issued_at'' = JInt issued \<and> jget art ''expires_at'' = JInt expires \<and>
       ie_clock env div 1000000 < expires \<and> issued < expires \<and> expires \<le> issued + isp_max_staleness_seconds p)"
proof -
  obtain r p x where r: "r \<in> set (ir_issuers d)"
    "case rid of Some n \<Rightarrow> isr_registry_id r = n | None \<Rightarrow> t = Some (isr_issuer_type r) \<and> i = Some (isr_issuer_id r)"
    and p: "p \<in> set (current_publications r d)" "isp_status_artifact p = Some art" "isp_expires_at p = Some x" "ir_now env < x"
    using assms(3) by (rule latest_status_publication)
  have inv: "registry_inv u d" "publications_inv u d" using ir_reachable_inv[OF assms(2,1)] by (simp_all add: ir_inv_def)
  note st = publication_current_standing[OF inv r(1) p(1)]
  obtain s where s: "jget art ''issuer'' = JObj (issuer_identity r)" "jget art ''status'' = JStr (standing_value (isr_standing r))"
    "jget art ''issued_at'' = stamp s" "jget art ''expires_at'' = stamp x" "s < x"
    "x \<le> s + isp_max_staleness_seconds p * 1000000" "1000000 dvd s" "1000000 dvd x"
    using st p(2,3) by (auto simp: artifact_for_def)
  have "ie_clock env div 1000000 < x div 1000000" "s div 1000000 < x div 1000000"
    "x div 1000000 \<le> s div 1000000 + isp_max_staleness_seconds p"
    using p(4) s(5-8) by (auto simp: ir_now_def elim!: dvdE)
  moreover have "p \<in> set (ir_publications d)" using p(1) by (simp add: current_publications_def)
  ultimately show ?thesis using r s(1-4) unfolding stamp_def by blast
qed

theorem served_status_current_witness:
  "\<exists>r \<in> set (ir_issuers sample_published_db). isr_registry_id r = sample_uuid 0 \<and>
    jget sample_artifact ''status'' = JStr (standing_value (isr_standing r))"
  using served_status_current[OF inj_sample_uuid sample_registry_runs(3) sample_served] by auto

text \<open>
  C36. Standing only moves forward. From any state of the registry to any later one, each issuer
  keeps its registry identifier and its identity, and either its row is unchanged or its status
  version has grown and it was not revoked: a revoked issuer stays exactly as it is, and two different
  standings never share a version.
\<close>

theorem standing_forward_only:
  assumes "inj u" "ir_reachable u s" "(ir_step u)\<^sup>*\<^sup>* s s'" "r \<in> set (ir_issuers (fst s))"
  shows "\<exists>r'. tget isr_registry_id (isr_registry_id r) (ir_issuers (fst s')) = Some r' \<and>
    issuer_identity r' = issuer_identity r \<and>
    (r' = r \<or> isr_status_version r < isr_status_version r' \<and> isr_standing r \<noteq> IS_revoked)"
proof -
  have "ir_inv u s" by (rule ir_reachable_inv[OF assms(2,1)])
  then have run: "ir_inv u s'" "rows_le (fst s) (fst s')" using ir_run_inv[OF assms(3) _ assms(1)] by blast+
  then obtain r' where r': "r' \<in> set (ir_issuers (fst s'))" "row_le r r'" using assms(4) unfolding rows_le_def by blast
  have "distinct (map isr_registry_id (ir_issuers (fst s')))"
    using run(1) by (auto simp: ir_inv_def registry_inv_def split: prod.split_asm)
  from tget_unique[OF this r'(1)] show ?thesis
    using r'(2) row_le_identity[OF r'(2)] by (auto simp: row_le_def)
qed

theorem standing_forward_only_witness:
  "\<exists>r'. tget isr_registry_id (sample_uuid 0) (ir_issuers sample_published_db) = Some r'"
proof -
  obtain r where r: "r \<in> set (ir_issuers (fst (sample_issuer_db, [] :: pending_publication list)))" "isr_registry_id r = sample_uuid 0"
    using sample_issuer_row by auto
  from standing_forward_only[OF inj_sample_uuid sample_registry_runs(1,4) r(1)] r(2) show ?thesis by auto
qed

text \<open>
  The audit events replay the standing of an issuer. In every reachable state the registration
  and standing events of an issuer are as many as its status version; each but the first starts from
  the state the one before it ended in, and the last ends in the state the issuer has now.
\<close>

theorem standing_history_audited:
  assumes "inj u" "ir_reachable u (d, ps)" "r \<in> set (ir_issuers d)"
  defines "es \<equiv> [e \<leftarrow> ir_events d. standing_event e \<and> ise_issuer_registry_id e = isr_registry_id r]"
  shows "int (length es) = isr_status_version r \<and> ise_resulting_state (last es) = state_snapshot r \<and>
    map ise_prior_state es = None # map (\<lambda>e. Some (ise_resulting_state e)) (butlast es)"
proof -
  have "audit_inv d" using ir_reachable_inv[OF assms(2,1)] by (simp add: ir_inv_def)
  then have "replays (standing_events (isr_registry_id r) d) r" using assms(3) unfolding audit_inv_def by blast
  then show ?thesis by (simp add: es_def replays_def standing_events_def)
qed

theorem standing_history_audited_witness:
  "\<exists>e. [e \<leftarrow> ir_events sample_published_db. standing_event e \<and> ise_issuer_registry_id e = sample_uuid 0] = [e] \<and>
     ise_prior_state e = None"
proof -
  obtain r where r: "ir_issuers sample_begun_db = [r]" "isr_registry_id r = sample_uuid 0" "isr_status_version r = 1"
    using sample_pending_row(1) by blast
  have "r \<in> set (ir_issuers sample_published_db)" using r by (simp add: sample_published_rows)
  from standing_history_audited[OF inj_sample_uuid sample_registry_runs(3) this] r show ?thesis
    by (auto simp: length_Suc_conv)
qed


definition sample_dark_env :: ir_env where
  "sample_dark_env = sample_ir_env\<lparr>ie_signer := None\<rparr>"


text \<open>
  A status artifact can be checked against the counter-signing keys. When a publication through
  the managed signer completes, the provider signed with the active counter-signing key exactly the
  canonical form of the statement a verifier rebuilds from the artifact; the signature member decodes
  to that signature and names that key; and the publication keeps the digest of what was signed.
\<close>

theorem published_status_verifiable:
  assumes "ie_signer env = Some (counter_signing_issuer_status_signer (ie_cs env) cd authority)"
    and "finish_publication env issued pp d = (Inr (art, p), d')"
  shows "pn_principal_type authority = ''service'' \<and> ''issuer_status.sign'' \<in> set (pn_permissions authority) \<and>
    (\<exists>k msg sig ref. active_keys cd = [k] \<and>
       ce_jcs (ie_cs env) (JObj (statement_of ''actenon.issuer-status.v1'' art)) = Some msg \<and>
       provider_sign (ce_client (ie_cs env)) (csk_provider_key_ref k) msg (isp_publication_id (pp_publication pp)) = Inr (sig, ref) \<and>
       jget art ''signature'' = signature_object (csk_key_id k) sig \<and> b64url_decode (b64url_encode sig) = Some sig \<and>
       isp_key_id p = Some (csk_key_id k) \<and> isp_signing_input_digest p = Some (sha256_hex (ie_cs env) msg))"
  using assms(2)
proof (cases rule: finish_publication_cases)
  case (3 st art' kid sig ref row digest ev)
  have eq: "art' = art" "p = completed_publication env issued digest art kid ref (pp_publication pp)" using 3(1) by simp_all
  have "sign_issuer_status (ie_cs env) st authority (isp_publication_id (pp_publication pp)) cd = Inr (kid, sig, ref)"
    using 3(4) assms(1) by (simp add: counter_signing_issuer_status_signer_def)
  then obtain k v msg where s: "authorize_service_permission authority ''issuer_status.sign'' ''issuer-status signing'' = Inr ()"
    "active_key cd = Inr (Some k)" "kid = csk_key_id k" "validate_issuer_status_statement st (ce_witness (ie_cs env)) = Inr v"
    "cs_canonicalize (ie_cs env) (JObj v) = Inr msg"
    "provider_sign (ce_client (ie_cs env)) (csk_provider_key_ref k) msg (isp_publication_id (pp_publication pp)) = Inr (sig, ref)"
    unfolding sign_issuer_status_def by (rule sign_managed_success)
  have "v = st" by (rule statement_normal[OF 3(2) s(4)])
  moreover have "pn_principal_type authority = ''service'' \<and> ''issuer_status.sign'' \<in> set (pn_permissions authority)"
    using s(1) by (simp add: authorized_service)
  ultimately show ?thesis
    using s(3,5,6) active_key_Some[OF s(2)] status_artifact_statement[OF 3(2,3)] 3(10)
    by (auto simp: eq canonicalize_Inr b64url_roundtrip completed_publication_def)
qed auto

theorem published_status_verifiable_witness:
  "\<exists>k. active_keys sample_cs_key_db = [k] \<and>
     (\<exists>sig. jget sample_artifact ''signature'' = signature_object (csk_key_id k) sig)"
proof -
  have "ie_signer sample_ir_env = Some (counter_signing_issuer_status_signer (ie_cs sample_ir_env) sample_cs_key_db sample_service)"
    by (simp add: sample_ir_env_def)
  moreover obtain p where "finish_publication sample_ir_env 0 sample_pending sample_begun_db = (Inr (sample_artifact, p), sample_published_db)"
    using sample_finish by blast
  ultimately show ?thesis using published_status_verifiable by blast
qed

end
