(* ===== verification/Spec2Isabelle.thy ===== *)
theory Spec2Isabelle
  imports BearerTokens ExecutionProtocol AuditTrail TransparencyProtocol IssuerStanding
begin

text \<open>
  \<^bold>\<open>Actenon Cloud: the action control plane.\<close>

  The program (\<open>src/app\<close>) decides whether a financial action that somebody asks for may be
  executed, and hands out the means to execute it. An action intent is taken in and evaluated
  against the tenant's policy; the policy may demand approvals and evidence; when these gates are
  satisfied a signed proof is issued; a capability is held in escrow for the proof, released as a
  signed token, consumed once, and its execution reported. Receipts of executions are reconciled
  with the intent and leave an audit trail. Receipt digests go to a transparency log whose
  checkpoints and Merkle proofs outsiders can verify; a witness key held by an HSM counter-signs
  receipts, checkpoints and the status of registered issuers.

  \<^bold>\<open>Theories and sources.\<close>
  \<^item> \<open>Prelude\<close>: instants, identifiers, tables as lists of rows (\<open>tget\<close>, \<open>tinsert\<close>,
    \<open>tmodify\<close>), and the interface locales \<open>keyed_table\<close>, \<open>expirable\<close>, \<open>lifecycle\<close>.
  \<^item> \<open>Json\<close>: JSON values with the equality and ordering of Python.
  \<^item> \<open>Models\<close>: the rows of \<open>models/__init__.py\<close>, \<open>models/issuance.py\<close>, \<open>models/escrow.py\<close>,
    the database \<open>db\<close>, the errors services raise, and the runtime (clock, identifiers, digests,
    settings).
  \<^item> \<open>PolicyEngine\<close>: \<open>services/policy_engine.py\<close>; tenants, policy versions, rule evaluation.
  \<^item> \<open>Approvals\<close>: \<open>services/approvals.py\<close>; requests, assignments, decisions.
  \<^item> \<open>Evidence\<close>: \<open>services/evidence.py\<close>, \<open>services/evidence_backends.py\<close>; registration,
    upload, retrieval, the evidence gate.
  \<^item> \<open>ActionIntents\<close>: \<open>services/action_intents.py\<close>; intake and reading of intents.
  \<^item> \<open>Signing\<close>: \<open>services/signing.py\<close>; key registry, rotation, signing of proofs.
  \<^item> \<open>Issuance\<close>: \<open>services/issuance.py\<close>; eligibility and proofs.
  \<^item> \<open>CapabilityToken\<close>, \<open>Escrow\<close>, \<open>EscrowProtocol\<close>: \<open>services/escrow.py\<close>; the token format,
    every operation on escrow records, and their interleavings.
  \<^item> \<open>Merkle\<close>, \<open>TransparencyLog\<close>, \<open>TransparencyProtocol\<close>:
    \<open>services/transparency_format.py\<close>, \<open>services/transparency_log.py\<close>,
    \<open>models/transparency.py\<close>.
  \<^item> \<open>Commitments\<close>, \<open>Receipts\<close>: \<open>services/receipt_commitment.py\<close>, the salts of
    \<open>services/s3_evidence.py\<close>, \<open>services/receipts.py\<close>, \<open>services/audit.py\<close>; ingestion,
    reconciliation, audit events, traces.
  \<^item> \<open>System\<close>: all services that share the database \<open>db\<close>, called in any order; \<open>AuditTrail\<close>: what
    such runs keep of receipts and events.
  \<^item> \<open>Countersigning\<close>, \<open>CountersigningProtocol\<close>: \<open>services/countersigning.py\<close>,
    \<open>countersigning_format.py\<close>, \<open>countersigning_provider.py\<close>, \<open>key_set_publisher.py\<close>,
    \<open>issuer_status_format.py\<close>; the witness key, its life cycle and its publication.
  \<^item> \<open>IssuerRegistry\<close>, \<open>IssuerStanding\<close>: \<open>services/issuer_registry.py\<close>; issuers, their standing
    and the publication of signed statuses in two phases that other calls may interleave.
  \<^item> \<open>Auth\<close>, \<open>AuthTokens\<close>: \<open>services/auth.py\<close>, \<open>models/access.py\<close>; users, roles, memberships, service
    principals, sessions, development and OIDC tokens, bootstrap. \<open>AdminApi\<close>: \<open>api/admin.py\<close>,
    \<open>api/auth.py\<close>, \<open>get_current_session\<close>; the handlers with their guards and status codes, and the
    steps of the access administration. \<open>AccessControl\<close>, \<open>BearerTokens\<close>: their lemmas and properties.
  \<^item> \<open>ExecutionWorker\<close>, \<open>ExecutionProtocol\<close>: \<open>services/execution_worker.py\<close>,
    \<open>services/resource_owned_execution.py\<close>; jobs with retries, dead letters and recovery after a crash, and
    the endpoints a tenant may submit to. The executor is a parameter that may answer every call
    differently or not at all (the process dies).

  \<^bold>\<open>How the code is modelled.\<close> A service call is a function that takes the committed database
  and returns a result together with the database that is committed when it returns; an exception
  is the left value of the result, and what a session had not committed is gone. A request reads
  the clock once. Identifiers and nonces drawn from \<open>uuid4\<close> are an infinite stream of which each
  call takes the next ones; that the stream does not repeat is a hypothesis where it matters.
  SHA-256, the JSON codec, the RFC 8785 canonicalisation, the JSON-schema validator, the signature
  primitives and the checkpoint signer are parameters: they are third-party code or are outside
  the repository. Timestamps inside JSON payloads are represented by their number; finite
  floating-point numbers by rationals; identifiers interpolated into error messages are left out.
  Loops over rows are recursive functions or folds; the recursions over Merkle trees terminate
  because both parts of a split are smaller, and the loop over the attempts of a job because every round
  counts one. No fuel is used anywhere: every operation is a total
  function.

  \<^bold>\<open>What is proved.\<close>
  \<^item> Policies: the first matching rule of the active version decides, anything not decided is
    refused, at most one version per workflow is active.
  \<^item> Approvals and evidence: exactly when a decision is accepted and what it changes; the state
    shown on the intent is always the one its requests and evidence give; stored uploads read back
    and stay inside the store.
  \<^item> Intake: idempotent, bound to the authenticated principal, opens the gates the policy demands.
  \<^item> Keys and proofs: one default key, rotation, proofs only for permitted intents, one live proof
    per request, replays.
  \<^item> Escrow: tokens cannot be forged or altered without a signature; the service calls refine a
    small step relation in which writers may act on stale rows; a proof is spent at most once even
    then; statuses only move forward; what closes stays closed when rows are current (and an
    example shows that a stale revocation can overwrite a consumption).
  \<^item> Transparency: Merkle proofs are complete and, up to an explicit collision, sound; any run of
    the log passes its own audit, only appends, never publishes two roots for one size, serves
    verifiable proofs; the chain head commits to the log.
  \<^item> Receipts: when a receipt is accepted, replayed and reconciled; a reconciled receipt agrees with
    the intent; receipts, reconciliations and events are only added, and each receipt has exactly
    its events; commitments verify and bind.
  \<^item> Counter-signing: at most one active key, the published file shows the stored keys, every change
    of keys has two approvers who are not the requester, what is signed is what a verifier rebuilds,
    the three uses of the key sign different messages, and an unreplaced revocation is final.
  \<^item> Issuers: the status served is the current standing under any interleaving, standings move
    forward and revocation is final, the audit events replay them, a failed publication never leaves
    an older status to serve.
  \<^item> Access: assignments always resolve to roles of their scope; a session has exactly the permissions
    its principal is granted; no request changes grants outside the authority of its session; which
    development and OIDC tokens are accepted, for how long and for whom; a bootstrap leaves one active
    administrator; when the creation of a user ends in an uncaught error.
  \<^item> Execution: one job for each idempotency key; over all runs and recoveries the executor is called at
    most once more than the retries, always with the job's own parameters; closed jobs are final; a run
    ends within its attempts and with the status the first decisive reply gives.
  \<^item> The whole: the properties of this theory.

  \<^bold>\<open>Not modelled.\<close> The HTTP layer (\<open>api\<close>, \<open>main.py\<close>, \<open>pilot_ui\<close>) beyond the functions that shape requests
  and the administration handlers; the row-level security contexts of database sessions; the
  execution-intent endpoints (\<open>api/intents.py\<close>, \<open>services/intent_store.py\<close>), whose life cycle is third-party code;
  usage metering, evidence bundles, credential store and the bridges to other
  products, which are separate services on top of those modelled here; configuration, logging, metrics, telemetry and migrations, which
  carry no state of the control plane. Rows are read by one transaction at a time, except in
  \<open>EscrowProtocol\<close>, where stale reads are modelled, and in \<open>IssuerRegistry\<close>, where a publication
  is signed between two transactions.
\<close>

section \<open>Properties of the whole control plane\<close>

text \<open>
  C1. Four eyes. In every database that calls of the services can lead to, a satisfied approval
  request belongs to a stored intent whose policy required it, and has been approved by at least
  the required number of different principals; where separation of duties is required the
  requester of the intent is none of them.
\<close>

theorem four_eyes:
  assumes "inj U" "system_reachable U d" "r \<in> set (approval_requests d)" "ar_status r = AR_satisfied"
  shows "\<exists>i rq. tget ai_action_intent_record_id (ar_action_intent_record_id r) (action_intents d) = Some i \<and>
    ai_approval_requirement i = Some rq \<and> max (rq_required_decision_count rq) 1 \<le> int (card (approvers r)) \<and>
    (rq_require_requester_separation rq \<longrightarrow>
       (ai_requested_by_principal_type i, ai_requested_by_principal_id i) \<notin> approvers r)"
proof (rule satisfied_approvers[OF _ assms(3,4)])
  show "approvals_inv U d" using system_reachable_inv[OF assms(2,1)] by (simp add: control_inv_def)
qed

theorem four_eyes_witness:
  "\<exists>r \<in> set (approval_requests sample_approved_db). ar_status r = AR_satisfied \<and> 1 \<le> card (approvers r)"
proof -
  obtain r where r: "r \<in> set (approval_requests sample_approved_db)" "ar_status r = AR_satisfied"
    using sample_system_values(1) by (auto simp: map_eq_Cons_conv)
  from four_eyes[OF inj_sample_uuid sample_system_runs(1) r] have "1 \<le> card (approvers r)" by auto
  then show ?thesis using r by blast
qed

text \<open>
  C2. No capability without sanction. In every database that calls of the services can lead to,
  each escrow record (held, released, consumed or closed) was opened for a stored proof of the same
  intent that was issued; that intent has a valid contract and a decision that permits execution;
  and if its policy required approval, a satisfied request of it has the required number of
  different approvers, the requester not among them where separation is required.
\<close>

theorem capability_sanctioned:
  assumes "inj U" "system_reachable U d" "e \<in> set (escrow_records d)"
  shows "\<exists>p i. p \<in> set (issued_proofs d) \<and> ip_issued_proof_id p = er_issued_proof_id e \<and>
    ip_status p \<in> {PI_issued, PI_expired} \<and> ip_action_intent_record_id p = er_action_intent_record_id e \<and>
    tget ai_action_intent_record_id (er_action_intent_record_id e) (action_intents d) = Some i \<and>
    ai_contract_validation_status i = CV_valid \<and> ai_decision_state i \<notin> {deny, structurally_non_executable} \<and>
    (\<forall>rq. ai_approval_requirement i = Some rq \<longrightarrow>
       (\<exists>r \<in> set (requests_of (er_action_intent_record_id e) d). ar_status r = AR_satisfied \<and>
          max (rq_required_decision_count rq) 1 \<le> int (card (approvers r)) \<and>
          (rq_require_requester_separation rq \<longrightarrow>
             (ai_requested_by_principal_type i, ai_requested_by_principal_id i) \<notin> approvers r)))"
proof -
  note inv = system_reachable_inv[OF assms(2,1)]
  have app: "approvals_inv U d" using inv by (simp add: control_inv_def)
  have "backed (er_issued_proof_id e, er_action_intent_record_id e) d"
    using inv assms(3) by (auto simp: control_inv_def escrow_bindings_def)
  then obtain p where p: "p \<in> set (issued_proofs d)" "ever_issued p" "ip_issued_proof_id p = er_issued_proof_id e"
    "ip_action_intent_record_id p = er_action_intent_record_id e" by (auto simp: backed_def)
  have "sanctioned (er_action_intent_record_id e) d" using inv p by (auto simp: control_inv_def)
  then obtain i where i: "tget ai_action_intent_record_id (er_action_intent_record_id e) (action_intents d) = Some i"
    "ai_contract_validation_status i = CV_valid" "ai_decision_state i \<notin> {deny, structurally_non_executable}"
    "ai_approval_requirement i \<noteq> None \<longrightarrow> (\<exists>rid r. tget ar_approval_request_id rid (approval_requests d) = Some r \<and>
        ar_action_intent_record_id r = er_action_intent_record_id e \<and> ar_status r = AR_satisfied)"
    unfolding sanctioned_def by blast
  have "\<exists>r \<in> set (requests_of (er_action_intent_record_id e) d). ar_status r = AR_satisfied \<and>
          max (rq_required_decision_count rq) 1 \<le> int (card (approvers r)) \<and>
          (rq_require_requester_separation rq \<longrightarrow>
             (ai_requested_by_principal_type i, ai_requested_by_principal_id i) \<notin> approvers r)"
    if rq: "ai_approval_requirement i = Some rq" for rq
  proof -
    obtain rid r where r: "tget ar_approval_request_id rid (approval_requests d) = Some r"
      "ar_action_intent_record_id r = er_action_intent_record_id e" "ar_status r = AR_satisfied"
      using i(4) rq by blast
    have mem: "r \<in> set (approval_requests d)" using tgetD[OF r(1)] by simp
    show ?thesis
      by (rule bexI[of _ r]) (use satisfied_approvers[OF app mem r(3)] r i(1) rq mem in \<open>auto simp: requests_of_def\<close>)
  qed
  then show ?thesis using p i(1-3) by (intro exI[of _ p] exI[of _ i]) (simp add: ever_issued_def)
qed

theorem capability_sanctioned_witness:
  "\<exists>e \<in> set (escrow_records sample_held_db). \<exists>p \<in> set (issued_proofs sample_held_db).
     ip_issued_proof_id p = er_issued_proof_id e \<and> ip_status p \<in> {PI_issued, PI_expired}"
proof -
  obtain e where e: "e \<in> set (escrow_records sample_held_db)"
    using sample_system_values(3) by (auto simp: escrow_bindings_def map_eq_Cons_conv)
  from capability_sanctioned[OF inj_sample_uuid sample_system_runs(3) e] show ?thesis using e by blast
qed

text \<open>
  C3. What was reviewed is what is executed. From any reachable database on, no sequence of calls
  changes what an intent asks for: it stays stored with its payload, digest, requester, decision
  and requirements (only the derived states move), and an approval request that was decided or has
  expired stays exactly as it is.
\<close>

theorem reviewed_intent_fixed:
  assumes "inj U" "system_reachable U d" "(system_step U)\<^sup>*\<^sup>* d d'"
  shows "(\<forall>iid i. tget ai_action_intent_record_id iid (action_intents d) = Some i \<longrightarrow>
      (\<exists>i'. tget ai_action_intent_record_id iid (action_intents d') = Some i' \<and>
         intent_core i' = intent_core i)) \<and>
    (\<forall>rid r. tget ar_approval_request_id rid (approval_requests d) = Some r \<longrightarrow> ar_status r \<noteq> AR_pending \<longrightarrow>
      tget ar_approval_request_id rid (approval_requests d') = Some r)"
proof -
  have c: "controlled U d d'"
    by (rule system_run_controlled[OF assms(3,1) system_reachable_inv[OF assms(2,1)]])
  show ?thesis
    using c closed_request_stays[of d d'] unfolding controlled_def intents_grow_def by blast
qed

theorem reviewed_intent_fixed_witness:
  "\<exists>i i'. tget ai_action_intent_record_id (sample_uuid 3) (action_intents sample_approved_db) = Some i \<and>
     tget ai_action_intent_record_id (sample_uuid 3) (action_intents sample_held_db) = Some i' \<and>
     intent_core i' = intent_core i"
proof -
  obtain i where i: "tget ai_action_intent_record_id (sample_uuid 3) (action_intents sample_approved_db) = Some i"
    using sample_system_values(2) by (auto simp: map_eq_Cons_conv)
  with reviewed_intent_fixed[OF inj_sample_uuid sample_system_runs(1,2)] show ?thesis by blast
qed

end
